(* ===== verification/Prelude.thy ===== *)
theory Prelude
  imports Complex_Main "HOL-Library.Multiset" "HOL-Library.Sublist"
begin

text \<open>
  Shared vocabulary of the development: absl/gRPC statuses and results, the first-writer-wins
  insertion of hash maps and protobuf maps (\<open>emplace\<close>, \<open>try_emplace\<close>), and the contracts of
  the C++ standard algorithms whose outcome the standard leaves open (\<open>std::sort\<close> on ties,
  \<open>std::sample\<close>), each as a locale with a concrete instance.
\<close>

named_theorems map_laws
named_theorems frame_laws

section \<open>Statuses and results\<close>

datatype status_code =
    OK | CANCELLED | UNKNOWN | INVALID_ARGUMENT | DEADLINE_EXCEEDED | NOT_FOUND
  | PERMISSION_DENIED | FAILED_PRECONDITION | OUT_OF_RANGE | INTERNAL | UNAVAILABLE

record status =
  st_code :: status_code
  st_message :: string

type_synonym 'a status_or = "status + 'a"

definition ok_status :: status where
  "ok_status = \<lparr>st_code = OK, st_message = []\<rparr>"

definition invalid_argument :: "string \<Rightarrow> status" where
  "invalid_argument m = \<lparr>st_code = INVALID_ARGUMENT, st_message = m\<rparr>"

definition internal_error :: "string \<Rightarrow> status" where
  "internal_error m = \<lparr>st_code = INTERNAL, st_message = m\<rparr>"

definition is_ok :: "status \<Rightarrow> bool" where
  "is_ok s \<longleftrightarrow> st_code s = OK"

lemma ok_status_code [simp]:
  "st_code ok_status = OK"
  "st_code (invalid_argument m) = INVALID_ARGUMENT"
  "st_code (internal_error m) = INTERNAL"
  by (simp_all add: ok_status_def invalid_argument_def internal_error_def)

lemma is_ok_simps [simp]:
  "is_ok ok_status" "\<not> is_ok (invalid_argument m)" "\<not> is_ok (internal_error m)"
  by (simp_all add: is_ok_def)

text \<open>\<open>Status::ToString\<close>.\<close>

fun code_name :: "status_code \<Rightarrow> string" where
  "code_name OK = ''OK''"
| "code_name CANCELLED = ''CANCELLED''"
| "code_name UNKNOWN = ''UNKNOWN''"
| "code_name INVALID_ARGUMENT = ''INVALID_ARGUMENT''"
| "code_name DEADLINE_EXCEEDED = ''DEADLINE_EXCEEDED''"
| "code_name NOT_FOUND = ''NOT_FOUND''"
| "code_name PERMISSION_DENIED = ''PERMISSION_DENIED''"
| "code_name FAILED_PRECONDITION = ''FAILED_PRECONDITION''"
| "code_name OUT_OF_RANGE = ''OUT_OF_RANGE''"
| "code_name INTERNAL = ''INTERNAL''"
| "code_name UNAVAILABLE = ''UNAVAILABLE''"

definition status_to_string :: "status \<Rightarrow> string" where
  "status_to_string s =
     (if is_ok s then ''OK'' else code_name (st_code s) @ '': '' @ st_message s)"

section \<open>First-writer-wins insertion\<close>

definition try_emplace :: "'k \<Rightarrow> 'v \<Rightarrow> ('k \<rightharpoonup> 'v) \<Rightarrow> ('k \<rightharpoonup> 'v) \<times> bool" where
  "try_emplace k v m = (case m k of None \<Rightarrow> (m(k \<mapsto> v), True) | Some _ \<Rightarrow> (m, False))"

text \<open>
  The same operation on a hash map whose entries the code iterates over: the association list
  holds the entries in the order in which the iteration meets them.
\<close>

definition al_emplace :: "'k \<Rightarrow> 'v \<Rightarrow> ('k \<times> 'v) list \<Rightarrow> ('k \<times> 'v) list" where
  "al_emplace k v al = (case map_of al k of None \<Rightarrow> al @ [(k, v)] | Some _ \<Rightarrow> al)"

locale first_writer =
  fixes look :: "'m \<Rightarrow> 'k \<Rightarrow> 'v option"
    and ins :: "'k \<Rightarrow> 'v \<Rightarrow> 'm \<Rightarrow> 'm"
  assumes ins_absent: "look m k = None \<Longrightarrow> look (ins k v m) = (look m)(k \<mapsto> v)"
    and ins_present: "look m k = Some w \<Longrightarrow> look (ins k v m) = look m"
begin

lemma look_ins_other [simp]: "k \<noteq> k' \<Longrightarrow> look (ins k v m) k' = look m k'"
  by (cases "look m k") (simp_all add: ins_absent ins_present)

lemma look_ins_same: "look (ins k v m) k = Some (case look m k of None \<Rightarrow> v | Some w \<Rightarrow> w)"
  by (cases "look m k") (simp_all add: ins_absent ins_present)

lemma look_ins_keeps: "look m k' = Some w \<Longrightarrow> look (ins k v m) k' = Some w"
  by (cases "k = k'") (simp_all add: look_ins_same)

lemma dom_look_ins: "dom (look (ins k v m)) = insert k (dom (look m))"
  by (cases "look m k") (auto simp: ins_absent ins_present)

lemma look_fold_ins:
  "look (fold (\<lambda>(k, v). ins k v) kvs m) k
     = (case look m k of None \<Rightarrow> map_of kvs k | Some w \<Rightarrow> Some w)"
proof (induction kvs arbitrary: m)
  case Nil
  then show ?case by (simp split: option.split)
next
  case (Cons kv kvs)
  then show ?case
    by (cases kv) (auto simp: look_ins_same split: option.split)
qed

end

interpretation pmap: first_writer "\<lambda>m k. m k" "\<lambda>k v m. fst (try_emplace k v m)"
  by unfold_locales (auto simp: try_emplace_def)

interpretation amap: first_writer map_of al_emplace
  by unfold_locales (auto simp: al_emplace_def map_add_def fun_eq_iff split: option.split)

lemma try_emplace_inserted: "snd (try_emplace k v m) \<longleftrightarrow> m k = None"
  by (simp add: try_emplace_def split: option.split)

lemma fst_try_emplace_None [simp]: "m k = None \<Longrightarrow> fst (try_emplace k v m) = m(k \<mapsto> v)"
  by (simp add: try_emplace_def)

lemma al_emplace_distinct:
  "distinct (map fst al) \<Longrightarrow> distinct (map fst (al_emplace k v al))"
  by (auto simp: al_emplace_def map_of_eq_None_iff split: option.split)

section \<open>The standard library's sort and sample\<close>

text \<open>
  \<open>std::sort\<close> yields some permutation in which no later element precedes an earlier one; how
  ties are arranged is unspecified. Properties are proved for every function that meets this
  contract.
\<close>

locale std_sort =
  fixes before :: "'a \<Rightarrow> 'a \<Rightarrow> bool"
    and srt :: "'a list \<Rightarrow> 'a list"
  assumes srt_mset: "mset (srt xs) = mset xs"
    and srt_ordered: "sorted_wrt (\<lambda>x y. \<not> before y x) (srt xs)"
begin

lemma srt_set [simp]: "set (srt xs) = set xs"
  using mset_eq_setD [OF srt_mset] .

lemma srt_length [simp]: "length (srt xs) = length xs"
  using mset_eq_length [OF srt_mset] .

lemma srt_nth_not_before:
  "i < j \<Longrightarrow> j < length xs \<Longrightarrow> \<not> before (srt xs ! j) (srt xs ! i)"
  using sorted_wrt_nth_less [OF srt_ordered, of i j xs] by simp

end

fun insert_by :: "('a \<Rightarrow> 'a \<Rightarrow> bool) \<Rightarrow> 'a \<Rightarrow> 'a list \<Rightarrow> 'a list" where
  "insert_by before x [] = [x]"
| "insert_by before x (y # ys) =
     (if before y x then y # insert_by before x ys else x # y # ys)"

definition stable_sort :: "('a \<Rightarrow> 'a \<Rightarrow> bool) \<Rightarrow> 'a list \<Rightarrow> 'a list" where
  "stable_sort before xs = foldr (insert_by before) xs []"

lemma mset_insert_by [simp]: "mset (insert_by before x ys) = add_mset x (mset ys)"
  by (induction ys) auto

lemma mset_stable_sort: "mset (stable_sort before xs) = mset xs"
  by (induction xs) (simp_all add: stable_sort_def)

locale strict_weak_order =
  fixes before :: "'a \<Rightarrow> 'a \<Rightarrow> bool"
  assumes asym: "before x y \<Longrightarrow> \<not> before y x"
    and neg_trans: "before x z \<Longrightarrow> before x y \<or> before y z"
begin

lemma irrefl: "\<not> before x x"
  using asym by blast

lemma trans: "before x y \<Longrightarrow> before y z \<Longrightarrow> before x z"
  using neg_trans asym by blast

lemma insert_by_ordered:
  "sorted_wrt (\<lambda>a b. \<not> before b a) ys \<Longrightarrow> sorted_wrt (\<lambda>a b. \<not> before b a) (insert_by before x ys)"
proof (induction ys)
  case Nil
  then show ?case by simp
next
  case (Cons y ys)
  have set_ins: "set (insert_by before x ys) = insert x (set ys)"
    using mset_insert_by [of before x ys] by (metis set_mset_add_mset_insert set_mset_mset)
  show ?case
  proof (cases "before y x")
    case True
    then show ?thesis using Cons asym by (auto simp: set_ins)
  next
    case False
    then show ?thesis using Cons.prems neg_trans by auto
  qed
qed

lemma stable_sort_ordered: "sorted_wrt (\<lambda>a b. \<not> before b a) (stable_sort before xs)"
  by (induction xs) (simp_all add: stable_sort_def insert_by_ordered)

end

sublocale strict_weak_order \<subseteq> std_sort before "stable_sort before"
  by unfold_locales (simp_all add: mset_stable_sort stable_sort_ordered)

lemma subseq_distinct: "subseq xs ys \<Longrightarrow> distinct ys \<Longrightarrow> distinct xs"
proof (induction rule: list_emb.induct)
  case (list_emb_Cons2 x y xs ys)
  have "set xs \<subseteq> set ys" using list_emb_set [OF list_emb_Cons2.hyps(2)] by blast
  then show ?case using list_emb_Cons2 by auto
qed simp_all

text \<open>
  \<open>std::sample\<close> with forward iterators copies a random subset of the requested size (all of the
  range when it is smaller) and keeps the relative order.
\<close>

locale std_sample =
  fixes smp :: "'a list \<Rightarrow> nat \<Rightarrow> 'a list"
  assumes smp_subseq: "subseq (smp xs n) xs"
    and smp_length: "length (smp xs n) = min n (length xs)"
begin

lemma smp_set: "set (smp xs n) \<subseteq> set xs"
  using list_emb_set [OF smp_subseq] by blast

lemma smp_one: "xs \<noteq> [] \<Longrightarrow> \<exists>x. smp xs 1 = [x] \<and> x \<in> set xs"
proof -
  assume "xs \<noteq> []"
  then have "length (smp xs 1) = 1" by (cases xs) (simp_all add: smp_length)
  then obtain x where "smp xs 1 = [x]" by (metis One_nat_def length_0_conv length_Suc_conv)
  then show ?thesis using smp_set [of xs 1] by auto
qed

end

definition first_sample :: "'a list \<Rightarrow> nat \<Rightarrow> 'a list" where
  "first_sample xs n = take n xs"

interpretation first_sample: std_sample first_sample
  by unfold_locales
     (simp_all add: first_sample_def min.commute prefix_imp_subseq take_is_prefix)

end
