(* ===== verification/Cpp_Number.thy ===== *)
theory Cpp_Number
  imports Prelude "HOL-Library.Word"
begin

text \<open>
  The C++ numbers of the services. A finite \<open>float\<close> or \<open>double\<close> is the rational it denotes
  (comparisons of finite values are exact); where the code rounds, the rounding to binary32 is
  applied. \<open>trunc_int\<close> is the conversion of a floating-point value to an integer type, which
  drops the fraction. \<open>fixed_decimal\<close> is \<open>printf("%.nf")\<close>. Infinities and NaN are outside the
  model (JSON has neither).
\<close>

type_synonym f32 = rat
type_synonym f64 = rat

section \<open>Conversion to integers\<close>

text \<open>Floors and ceilings of numeral fractions, so that closed values evaluate by \<open>simp\<close>.\<close>

lemma rat_floor_numeral [simp]:
  "\<lfloor>numeral a / numeral b :: rat\<rfloor> = numeral a div numeral b"
  "\<lfloor>1 / numeral b :: rat\<rfloor> = 1 div numeral b"
  "\<lfloor>- numeral a / numeral b :: rat\<rfloor> = - numeral a div numeral b"
  "\<lfloor>- (numeral a / numeral b) :: rat\<rfloor> = - numeral a div numeral b"
  using floor_divide_of_int_eq [of "numeral a" "numeral b", where ?'a = rat]
    floor_divide_of_int_eq [of 1 "numeral b", where ?'a = rat]
    floor_divide_of_int_eq [of "- numeral a" "numeral b", where ?'a = rat]
  by simp_all

lemma rat_ceiling_numeral [simp]:
  "\<lceil>numeral a / numeral b :: rat\<rceil> = - (- numeral a div numeral b)"
  "\<lceil>- (numeral a / numeral b) :: rat\<rceil> = - (numeral a div numeral b)"
  by (simp_all add: ceiling_def)

definition trunc_int :: "rat \<Rightarrow> int" where
  "trunc_int x = (if 0 \<le> x then \<lfloor>x\<rfloor> else \<lceil>x\<rceil>)"

lemma trunc_int_of_int [simp]: "trunc_int (of_int k) = k"
  by (simp add: trunc_int_def)

lemma trunc_int_mono: "x \<le> y \<Longrightarrow> trunc_int x \<le> trunc_int y"
proof -
  assume le: "x \<le> y"
  have "\<lceil>x\<rceil> \<le> \<lfloor>y\<rfloor>" if "x < 0" "0 \<le> y"
  proof -
    from that have "\<lceil>x\<rceil> \<le> 0" and "0 \<le> \<lfloor>y\<rfloor>" by (simp_all add: ceiling_le_zero)
    then show ?thesis by linarith
  qed
  with le show ?thesis
    by (auto simp: trunc_int_def floor_mono ceiling_mono not_le)
qed

lemma trunc_int_close: "\<bar>x - of_int (trunc_int x)\<bar> < 1"
  by (auto simp: trunc_int_def abs_less_iff) linarith+

lemma trunc_int_toward_zero: "0 \<le> x \<Longrightarrow> 0 \<le> trunc_int x \<and> of_int (trunc_int x) \<le> x"
  by (simp add: trunc_int_def)

section \<open>Rounding to binary32\<close>

definition round_half_even :: "rat \<Rightarrow> int" where
  "round_half_even x =
     (let f = \<lfloor>x\<rfloor>; r = x - of_int f
      in if r < 1 / 2 then f else if 1 / 2 < r then f + 1 else if even f then f else f + 1)"

lemma round_half_even_close: "\<bar>of_int (round_half_even x) - x\<bar> \<le> 1 / 2"
proof -
  have lo: "of_int \<lfloor>x\<rfloor> \<le> x" and hi: "x < of_int \<lfloor>x\<rfloor> + 1" by linarith+
  have up: "of_int (\<lfloor>x\<rfloor> + 1) = (of_int \<lfloor>x\<rfloor> :: rat) + 1" by simp
  show ?thesis
    using lo hi unfolding round_half_even_def Let_def
    by (simp only: up split: if_split) (auto simp: abs_le_iff)
qed

lemma round_half_even_of_int [simp]: "round_half_even (of_int k) = k"
  by (simp add: round_half_even_def)

fun log2_floor :: "nat \<Rightarrow> nat" where
  "log2_floor n = (if n \<le> 1 then 0 else Suc (log2_floor (n div 2)))"

declare log2_floor.simps [simp del]

definition pow2 :: "int \<Rightarrow> rat" where
  "pow2 e = (if 0 \<le> e then 2 ^ nat e else 1 / 2 ^ nat (- e))"

lemma pow2_pos [simp]: "0 < pow2 e"
  by (simp add: pow2_def)

text \<open>
  The exponent \<open>e\<close> of a non-zero value, \<open>2 ^ e \<le> \<bar>x\<bar> < 2 ^ (e + 1)\<close>: read off the integer part, or off
  the reciprocal below one.
\<close>

definition exponent_of :: "rat \<Rightarrow> int" where
  "exponent_of x =
     (if 1 \<le> \<bar>x\<bar> then int (log2_floor (nat \<lfloor>\<bar>x\<bar>\<rfloor>))
      else (let m = nat \<lceil>1 / \<bar>x\<bar>\<rceil> in if m \<le> 1 then 0 else - int (Suc (log2_floor (m - 1)))))"

lemma log2_floor_bounds: "1 \<le> n \<Longrightarrow> 2 ^ log2_floor n \<le> n \<and> n < 2 ^ Suc (log2_floor n)"
proof (induction n rule: log2_floor.induct)
  case (1 n)
  show ?case
  proof (cases "n \<le> 1")
    case True
    then show ?thesis using "1.prems" by (simp add: log2_floor.simps [of n])
  next
    case False
    then have "1 \<le> n div 2" by simp
    then show ?thesis
      using False "1.IH" by (simp add: log2_floor.simps [of n]) linarith
  qed
qed

lemma pow2_Suc: "pow2 (e + 1) = 2 * pow2 e"
proof (cases "0 \<le> e")
  case True
  then show ?thesis by (simp add: pow2_def nat_add_distrib)
next
  case False
  then have n: "nat (- e) = Suc (nat (- (e + 1)))" by linarith
  have "pow2 e = 1 / 2 ^ nat (- e)" using False by (simp add: pow2_def)
  moreover have "pow2 (e + 1) = 1 / 2 ^ nat (- (e + 1))" using False by (simp add: pow2_def)
  ultimately show ?thesis unfolding n by simp
qed

lemma exponent_of_bounds:
  assumes "x \<noteq> 0"
  shows "pow2 (exponent_of x) \<le> \<bar>x\<bar> \<and> \<bar>x\<bar> < pow2 (exponent_of x + 1)"
proof (cases "1 \<le> \<bar>x\<bar>")
  case True
  define n where "n = nat \<lfloor>\<bar>x\<bar>\<rfloor>"
  have n1: "1 \<le> n" using True by (simp add: n_def le_nat_iff le_floor_iff)
  have nx: "of_nat n \<le> \<bar>x\<bar>" "\<bar>x\<bar> < of_nat n + 1"
    using True by (simp_all add: n_def) linarith+
  note b = log2_floor_bounds [OF n1]
  have "(2 :: rat) ^ log2_floor n = of_nat (2 ^ log2_floor n)" by simp
  also have "\<dots> \<le> of_nat n" using b of_nat_le_iff by blast
  finally have lo: "2 ^ log2_floor n \<le> \<bar>x\<bar>" using nx by linarith
  have "(of_nat n :: rat) + 1 = of_nat (Suc n)" by simp
  also have "\<dots> \<le> of_nat (2 ^ Suc (log2_floor n))" using b by (simp only: of_nat_le_iff) simp
  finally have "\<bar>x\<bar> < 2 ^ Suc (log2_floor n)" using nx by simp
  moreover have "pow2 (int (log2_floor n) + 1) = 2 ^ Suc (log2_floor n)"
    by (simp add: pow2_Suc) (simp add: pow2_def)
  ultimately show ?thesis using True lo by (simp add: exponent_of_def n_def [symmetric]) (simp add: pow2_def)
next
  case False
  define m where "m = nat \<lceil>1 / \<bar>x\<bar>\<rceil>"
  have x: "0 < \<bar>x\<bar>" "\<bar>x\<bar> < 1" using assms False by simp_all
  then have inv: "1 < 1 / \<bar>x\<bar>" by simp
  then have c: "1 < \<lceil>1 / \<bar>x\<bar>\<rceil>" by (simp add: less_ceiling_iff)
  have m2: "2 \<le> m" unfolding m_def using c by linarith
  have m: "(of_nat m :: rat) = of_int \<lceil>1 / \<bar>x\<bar>\<rceil>" unfolding m_def using c by linarith
  have mx: "1 / \<bar>x\<bar> \<le> of_nat m" "of_nat m - 1 < 1 / \<bar>x\<bar>"
    unfolding m by linarith+
  define l where "l = log2_floor (m - 1)"
  have b: "2 ^ l \<le> m - 1" "m - 1 < 2 ^ Suc l"
    using log2_floor_bounds [of "m - 1"] m2 by (simp_all add: l_def)
  have e: "exponent_of x = - int (Suc l)"
    using False m2 by (simp add: exponent_of_def Let_def l_def flip: m_def)
  have p: "pow2 (exponent_of x) = 1 / 2 ^ Suc l" by (simp add: e pow2_def nat_add_distrib)
  have p': "pow2 (exponent_of x + 1) = 1 / 2 ^ l" by (simp add: pow2_Suc p)
  have "(2 :: rat) ^ l \<le> of_nat m - 1"
    using b(1) m2 of_nat_le_iff [of "2 ^ l" "m - 1", where ?'a = rat] by (simp add: of_nat_diff)
  then have lt: "2 ^ l < 1 / \<bar>x\<bar>" using mx by linarith
  have "of_nat m \<le> (2 :: rat) ^ Suc l"
    using b(2) m2 of_nat_le_iff [of m "2 ^ Suc l", where ?'a = rat] by simp
  then have le: "1 / \<bar>x\<bar> \<le> 2 ^ Suc l" using mx by linarith
  have "1 / 2 ^ Suc l \<le> \<bar>x\<bar>" using le x by (simp add: field_simps)
  moreover have "\<bar>x\<bar> < 1 / 2 ^ l" using lt x by (simp add: field_simps)
  ultimately show ?thesis unfolding p p' by blast
qed

definition f32_ulp :: "rat \<Rightarrow> rat" where
  "f32_ulp x = pow2 (max (exponent_of x) (- 126) - 23)"

definition to_f32 :: "rat \<Rightarrow> f32" where
  "to_f32 x = (if x = 0 then 0 else of_int (round_half_even (x / f32_ulp x)) * f32_ulp x)"

lemma to_f32_zero [simp]: "to_f32 0 = 0"
  by (simp add: to_f32_def)

text \<open>Rounding moves a value by half a unit in the last place at most.\<close>

lemma to_f32_error: "\<bar>to_f32 x - x\<bar> \<le> f32_ulp x / 2"
proof (cases "x = 0")
  case True
  then show ?thesis by (simp add: f32_ulp_def less_imp_le)
next
  case False
  have u: "0 < f32_ulp x" by (simp add: f32_ulp_def)
  let ?q = "x / f32_ulp x"
  have "to_f32 x - x = (of_int (round_half_even ?q) - ?q) * f32_ulp x"
    using False u by (simp add: to_f32_def field_simps)
  then have "\<bar>to_f32 x - x\<bar> = \<bar>of_int (round_half_even ?q) - ?q\<bar> * f32_ulp x"
    using u by (simp add: abs_mult)
  also have "\<dots> \<le> (1 / 2) * f32_ulp x"
    using round_half_even_close [of ?q] u by (intro mult_right_mono) simp_all
  finally show ?thesis by simp
qed

text \<open>Products that the code computes in \<open>double\<close> are rounded to binary64.\<close>

definition f64_ulp :: "rat \<Rightarrow> rat" where
  "f64_ulp x = pow2 (max (exponent_of x) (- 1022) - 52)"

definition to_f64 :: "rat \<Rightarrow> f64" where
  "to_f64 x = (if x = 0 then 0 else of_int (round_half_even (x / f64_ulp x)) * f64_ulp x)"

definition f64_mul :: "f64 \<Rightarrow> f64 \<Rightarrow> f64" where
  "f64_mul a b = to_f64 (a * b)"

lemma to_f64_zero [simp]: "to_f64 0 = 0"
  by (simp add: to_f64_def)

definition f32_sub :: "f32 \<Rightarrow> f32 \<Rightarrow> f32" where
  "f32_sub a b = to_f32 (a - b)"

lemma f32_sub_self [simp]: "f32_sub a a = 0"
  by (simp add: f32_sub_def)

section \<open>Decimal output\<close>

definition digit_char :: "nat \<Rightarrow> char" where
  "digit_char n = ''0123456789'' ! n"

fun nat_digits :: "nat \<Rightarrow> string" where
  "nat_digits n =
     (if n < 10 then [digit_char n] else nat_digits (n div 10) @ [digit_char (n mod 10)])"

declare nat_digits.simps [simp del]

lemma nat_digits_nonempty [simp]: "nat_digits n \<noteq> []"
  by (subst nat_digits.simps) simp

definition int_text :: "int \<Rightarrow> string" where
  "int_text i = (if i < 0 then ''-'' else []) @ nat_digits (nat \<bar>i\<bar>)"

definition pad_zeros :: "nat \<Rightarrow> string \<Rightarrow> string" where
  "pad_zeros n s = replicate (n - length s) (CHR ''0'') @ s"

definition fixed_decimal :: "nat \<Rightarrow> rat \<Rightarrow> string" where
  "fixed_decimal n x =
     (let k = nat (round_half_even (\<bar>x\<bar> * 10 ^ n))
      in (if x < 0 then ''-'' else []) @ nat_digits (k div 10 ^ n)
         @ (if n = 0 then [] else ''.'' @ pad_zeros n (nat_digits (k mod 10 ^ n))))"

lemmas decimal_eval =
  fixed_decimal_def round_half_even_def nat_digits.simps pad_zeros_def digit_char_def

lemma fixed_decimal_half: "fixed_decimal 2 (1 / 2) = ''0.50''"
  by (simp add: decimal_eval)

lemma to_f32_tenth: "to_f32 (1 / 10) = 13421773 / 134217728"
proof -
  have e: "exponent_of (1 / 10) = - 4"
    by (simp add: exponent_of_def log2_floor.simps)
  have u: "f32_ulp (1 / 10) = 1 / 134217728"
    by (simp add: f32_ulp_def e pow2_def)
  show ?thesis by (simp add: to_f32_def u round_half_even_def)
qed

lemma to_f32_five_halves: "to_f32 (5 / 2) = 5 / 2"
proof -
  have e: "exponent_of (5 / 2) = 1"
    by (simp add: exponent_of_def log2_floor.simps)
  have u: "f32_ulp (5 / 2) = 1 / 4194304"
    by (simp add: f32_ulp_def e pow2_def)
  show ?thesis by (simp add: to_f32_def u round_half_even_def)
qed

end
