(* ===== verification/Json_Model.thy ===== *)
theory Json_Model
  imports Cpp_Number
begin

text \<open>
  JSON documents and the accessors of \<open>services/common/util/json_util.h\<close>. The text codec is
  RapidJSON, which is not part of the repository: parsing (\<open>json_parse\<close>) and writing
  (\<open>json_write\<close>) are fields of the record \<open>libs\<close> of library functions, an argument of
  everything that parses or serialises. A document in memory is the datatype below; an integer
  literal and a literal with a fraction or an exponent are different constructors because
  RapidJSON keeps them apart (\<open>IsInt\<close>, \<open>IsDouble\<close>). Looking a member up in a value that is
  not an object violates RapidJSON's precondition (an assertion, off in the release build); on the
  null value, whose storage is zeroed, the release build finds no member, and the model does the
  same on every non-object.
\<close>

datatype json =
    JNull
  | JBool bool
  | JInt int
  | JDouble f64
  | JStr string
  | JArr "json list"
  | JObj "(string \<times> json) list"

text \<open>A \<open>google.protobuf.Value\<close>: a struct, a string, or one of the kinds the code does not look at.\<close>

datatype pb_value = Pb_struct json | Pb_string string | Pb_other

record libs =
  json_parse :: "string \<Rightarrow> json option"
  json_write :: "json \<Rightarrow> string option"
  message_to_json_string :: "json \<Rightarrow> string option"
  str_replace_all :: "string \<Rightarrow> (string \<times> string) list \<Rightarrow> string"

section \<open>RapidJSON's type tests and getters\<close>

definition is_number :: "json \<Rightarrow> bool" where
  "is_number v = (case v of JInt _ \<Rightarrow> True | JDouble _ \<Rightarrow> True | _ \<Rightarrow> False)"

definition is_object :: "json \<Rightarrow> bool" where
  "is_object v = (case v of JObj _ \<Rightarrow> True | _ \<Rightarrow> False)"

definition get_double :: "json \<Rightarrow> f64" where
  "get_double v = (case v of JInt i \<Rightarrow> to_f64 (of_int i) | JDouble d \<Rightarrow> d | _ \<Rightarrow> 0)"

definition get_float :: "json \<Rightarrow> f32" where
  "get_float v = to_f32 (get_double v)"

text \<open>\<open>FindMember\<close> returns the first member of that name.\<close>

definition find_member :: "json \<Rightarrow> string \<Rightarrow> json option" where
  "find_member v k = (case v of JObj ms \<Rightarrow> map_of ms k | _ \<Rightarrow> None)"

definition add_member :: "json \<Rightarrow> string \<Rightarrow> json \<Rightarrow> json" where
  "add_member v k w = (case v of JObj ms \<Rightarrow> JObj (ms @ [(k, w)]) | _ \<Rightarrow> v)"

text \<open>Assignment of a member when it is present and of the right type (\<open>PS_ASSIGN_IF_PRESENT\<close>).\<close>

definition string_if_present :: "json \<Rightarrow> string \<Rightarrow> string \<Rightarrow> string" where
  "string_if_present v k dflt = (case find_member v k of Some (JStr s) \<Rightarrow> s | _ \<Rightarrow> dflt)"

definition bool_if_present :: "json \<Rightarrow> string \<Rightarrow> bool \<Rightarrow> bool" where
  "bool_if_present v k dflt = (case find_member v k of Some (JBool b) \<Rightarrow> b | _ \<Rightarrow> dflt)"

definition object_if_present :: "json \<Rightarrow> string \<Rightarrow> (string \<times> json) list" where
  "object_if_present v k = (case find_member v k of Some (JObj ms) \<Rightarrow> ms | _ \<Rightarrow> [])"

definition int64_if_present :: "json \<Rightarrow> string \<Rightarrow> int option" where
  "int64_if_present v k =
     (case find_member v k of
        Some (JInt i) \<Rightarrow> if - (2 ^ 63) \<le> i \<and> i < 2 ^ 63 then Some i else None
      | _ \<Rightarrow> None)"

section \<open>The checked getters of json\_util.h\<close>

datatype json_error = Parse_error | Missing_member | Unexpected_type | Empty_string | Write_error

text \<open>
  Every failure of these helpers is an \<open>InvalidArgumentError\<close> (\<open>InternalError\<close> for writing);
  the model keeps which check failed in place of the formatted message.
\<close>

definition json_status :: "json_error \<Rightarrow> status" where
  "json_status e =
     (case e of
        Parse_error \<Rightarrow> invalid_argument ''JSON Parse Error''
      | Missing_member \<Rightarrow> invalid_argument ''Missing in the JSON document''
      | Unexpected_type \<Rightarrow> invalid_argument ''has unexpected member type''
      | Empty_string \<Rightarrow> invalid_argument ''is unexpectedly an empty string''
      | Write_error \<Rightarrow> internal_error ''Unknown JSON to string serialization error'')"

definition parse_json_string :: "libs \<Rightarrow> string \<Rightarrow> json status_or" where
  "parse_json_string L s =
     (case json_parse L s of None \<Rightarrow> Inl (json_status Parse_error) | Some v \<Rightarrow> Inr v)"

definition serialize_json_doc :: "libs \<Rightarrow> json \<Rightarrow> string status_or" where
  "serialize_json_doc L v =
     (case json_write L v of None \<Rightarrow> Inl (json_status Write_error) | Some s \<Rightarrow> Inr s)"

fun serialize_all :: "libs \<Rightarrow> json list \<Rightarrow> string list status_or" where
  "serialize_all L [] = Inr []"
| "serialize_all L (v # vs) =
     (case json_write L v of
        None \<Rightarrow> Inl (internal_error ''Error converting inner JSON to String.'')
      | Some s \<Rightarrow> (case serialize_all L vs of Inl e \<Rightarrow> Inl e | Inr ss \<Rightarrow> Inr (s # ss)))"

definition serialize_json_array_doc_to_vector :: "libs \<Rightarrow> json \<Rightarrow> string list status_or" where
  "serialize_json_array_doc_to_vector L v =
     (case v of
        JArr vs \<Rightarrow> serialize_all L vs
      | _ \<Rightarrow> Inl (internal_error ''Expected a JSON array.''))"

definition get_string_member :: "json \<Rightarrow> string \<Rightarrow> bool \<Rightarrow> string status_or" where
  "get_string_member v k is_empty_ok =
     (case find_member v k of
        None \<Rightarrow> Inl (json_status Missing_member)
      | Some (JStr s) \<Rightarrow>
          if \<not> is_empty_ok \<and> s = [] then Inl (json_status Empty_string) else Inr s
      | Some _ \<Rightarrow> Inl (json_status Unexpected_type))"

definition get_array_member :: "json \<Rightarrow> string \<Rightarrow> json list status_or" where
  "get_array_member v k =
     (case find_member v k of
        None \<Rightarrow> Inl (json_status Missing_member)
      | Some (JArr vs) \<Rightarrow> Inr vs
      | Some _ \<Rightarrow> Inl (json_status Unexpected_type))"

definition get_int_member :: "json \<Rightarrow> string \<Rightarrow> int status_or" where
  "get_int_member v k =
     (case find_member v k of
        None \<Rightarrow> Inl (json_status Missing_member)
      | Some (JInt i) \<Rightarrow>
          if - (2 ^ 31) \<le> i \<and> i < 2 ^ 31 then Inr i else Inl (json_status Unexpected_type)
      | Some _ \<Rightarrow> Inl (json_status Unexpected_type))"

definition get_double_member :: "json \<Rightarrow> string \<Rightarrow> f64 status_or" where
  "get_double_member v k =
     (case find_member v k of
        None \<Rightarrow> Inl (json_status Missing_member)
      | Some w \<Rightarrow>
          if is_number w then Inr (get_double w) else Inl (json_status Unexpected_type))"

definition get_bool_member :: "json \<Rightarrow> string \<Rightarrow> bool status_or" where
  "get_bool_member v k =
     (case find_member v k of
        None \<Rightarrow> Inl (json_status Missing_member)
      | Some (JBool b) \<Rightarrow> Inr b
      | Some _ \<Rightarrow> Inl (json_status Unexpected_type))"

definition bidding_signals_to_map :: "libs \<Rightarrow> json \<Rightarrow> (string \<rightharpoonup> string)" where
  "bidding_signals_to_map L v =
     (case v of
        JObj ms \<Rightarrow>
          fold (\<lambda>(k, w) m. case json_write L w of None \<Rightarrow> m | Some s \<Rightarrow> m(k \<mapsto> s)) ms Map.empty
      | _ \<Rightarrow> Map.empty)"

section \<open>Lemmas\<close>

lemma find_member_simps [simp]:
  "find_member (JObj ms) k = map_of ms k"
  "find_member JNull k = None" "find_member (JBool b) k = None"
  "find_member (JInt i) k = None" "find_member (JDouble d) k = None"
  "find_member (JStr s) k = None" "find_member (JArr vs) k = None"
  by (simp_all add: find_member_def)

lemma is_number_simps [simp]:
  "is_number (JInt i)" "is_number (JDouble d)" "\<not> is_number JNull" "\<not> is_number (JBool b)"
  "\<not> is_number (JStr s)" "\<not> is_number (JArr vs)" "\<not> is_number (JObj ms)"
  by (simp_all add: is_number_def)

lemma get_double_simps [simp]:
  "get_double (JInt i) = to_f64 (of_int i)" "get_double (JDouble d) = d"
  by (simp_all add: get_double_def)

lemma find_member_add_member:
  "find_member (add_member (JObj ms) k w) k'
     = (case map_of ms k' of Some x \<Rightarrow> Some x | None \<Rightarrow> if k' = k then Some w else None)"
  by (auto simp: add_member_def map_add_def split: option.split)

lemma serialize_all_length: "serialize_all L vs = Inr ss \<Longrightarrow> length ss = length vs"
  by (induction vs arbitrary: ss) (auto split: option.splits sum.splits)

lemma get_string_member_nonempty: "get_string_member v k False = Inr s \<Longrightarrow> s \<noteq> []"
  by (auto simp: get_string_member_def split: option.splits json.splits if_splits)

lemma get_int_member_range: "get_int_member v k = Inr i \<Longrightarrow> - (2 ^ 31) \<le> i \<and> i < 2 ^ 31"
  by (auto simp: get_int_member_def split: option.splits json.splits if_splits)

text \<open>
  The signals map holds exactly the members that serialise; a later member of the same name
  overwrites an earlier one.
\<close>

lemma bidding_signals_to_map_snoc:
  "bidding_signals_to_map L (JObj (ms @ [(k, w)]))
     = (case json_write L w of
          None \<Rightarrow> bidding_signals_to_map L (JObj ms)
        | Some s \<Rightarrow> (bidding_signals_to_map L (JObj ms))(k \<mapsto> s))"
  by (simp add: bidding_signals_to_map_def split: option.split)

lemma dom_bidding_signals_to_map:
  "dom (bidding_signals_to_map L (JObj ms)) = {k. \<exists>w. (k, w) \<in> set ms \<and> json_write L w \<noteq> None}"
proof (induction ms rule: rev_induct)
  case Nil
  then show ?case by (simp add: bidding_signals_to_map_def)
next
  case (snoc kw ms)
  obtain k w where kw: "kw = (k, w)" by fastforce
  show ?case
  proof (cases "json_write L w")
    case None
    then show ?thesis using snoc by (auto simp: kw bidding_signals_to_map_snoc)
  next
    case (Some s)
    then have "dom (bidding_signals_to_map L (JObj (ms @ [kw])))
        = insert k (dom (bidding_signals_to_map L (JObj ms)))"
      by (simp add: kw bidding_signals_to_map_snoc)
    also have "\<dots> = {k'. \<exists>w'. (k', w') \<in> set (ms @ [kw]) \<and> json_write L w' \<noteq> None}"
      using Some by (auto simp: kw snoc)
    finally show ?thesis .
  qed
qed

end
