(* ===== verification/Auction_Types.thy ===== *)
theory Auction_Types
  imports Json_Model
begin

text \<open>
  The messages of \<open>api/bidding_auction_servers.proto\<close> that the auction service reads and writes,
  one record per message and one datatype per enum. A submessage whose presence the code tests,
  and an \<open>optional\<close> field, is an \<open>option\<close>; any other absent submessage is its default
  instance. A protobuf map the code only updates and looks up is a map; one it iterates over is an
  association list in iteration order.
\<close>

section \<open>Enums\<close>

datatype seller_rejection_reason =
    SELLER_REJECTION_REASON_NOT_AVAILABLE
  | INVALID_BID
  | BID_BELOW_AUCTION_FLOOR
  | PENDING_APPROVAL_BY_EXCHANGE
  | DISAPPROVED_BY_EXCHANGE
  | BLOCKED_BY_PUBLISHER
  | LANGUAGE_EXCLUSIONS
  | CATEGORY_EXCLUSIONS
  | DID_NOT_MEET_THE_KANONYMITY_THRESHOLD
  | BID_FROM_GENERATE_BID_FAILED_CURRENCY_CHECK
  | BID_FROM_SCORE_AD_FAILED_CURRENCY_CHECK

fun rejection_reason_number :: "seller_rejection_reason \<Rightarrow> nat" where
  "rejection_reason_number SELLER_REJECTION_REASON_NOT_AVAILABLE = 0"
| "rejection_reason_number INVALID_BID = 1"
| "rejection_reason_number BID_BELOW_AUCTION_FLOOR = 2"
| "rejection_reason_number PENDING_APPROVAL_BY_EXCHANGE = 3"
| "rejection_reason_number DISAPPROVED_BY_EXCHANGE = 4"
| "rejection_reason_number BLOCKED_BY_PUBLISHER = 5"
| "rejection_reason_number LANGUAGE_EXCLUSIONS = 6"
| "rejection_reason_number CATEGORY_EXCLUSIONS = 7"
| "rejection_reason_number DID_NOT_MEET_THE_KANONYMITY_THRESHOLD = 8"
| "rejection_reason_number BID_FROM_GENERATE_BID_FAILED_CURRENCY_CHECK = 9"
| "rejection_reason_number BID_FROM_SCORE_AD_FAILED_CURRENCY_CHECK = 10"

lemma rejection_reason_number_inj: "inj rejection_reason_number"
proof (rule injI)
  fix x y
  show "rejection_reason_number x = rejection_reason_number y \<Longrightarrow> x = y"
    by (cases x; cases y) simp_all
qed

instantiation seller_rejection_reason :: linorder
begin

definition less_eq_seller_rejection_reason ::
  "seller_rejection_reason \<Rightarrow> seller_rejection_reason \<Rightarrow> bool" where
  "x \<le> y \<longleftrightarrow> rejection_reason_number x \<le> rejection_reason_number y"

definition less_seller_rejection_reason ::
  "seller_rejection_reason \<Rightarrow> seller_rejection_reason \<Rightarrow> bool" where
  "x < y \<longleftrightarrow> rejection_reason_number x < rejection_reason_number y"

instance
  by standard
     (auto simp: less_eq_seller_rejection_reason_def less_seller_rejection_reason_def
       intro: injD [OF rejection_reason_number_inj])

end

datatype ad_type =
    AD_TYPE_UNKNOWN | AD_TYPE_PROTECTED_AUDIENCE_AD | AD_TYPE_PROTECTED_APP_SIGNALS_AD

datatype auction_scope =
    AUCTION_SCOPE_SINGLE_SELLER
  | AUCTION_SCOPE_DEVICE_COMPONENT_MULTI_SELLER
  | AUCTION_SCOPE_SERVER_COMPONENT_MULTI_SELLER
  | AUCTION_SCOPE_SERVER_TOP_LEVEL_SELLER

section \<open>Reporting URLs, debug reports, private aggregation\<close>

record reporting_urls =
  ru_url :: string
  ru_interaction :: "string \<rightharpoonup> string"

record win_reporting_urls =
  wru_buyer :: reporting_urls
  wru_component_seller :: reporting_urls
  wru_top_level_seller :: reporting_urls

definition no_reporting_urls :: reporting_urls where
  "no_reporting_urls = \<lparr>ru_url = [], ru_interaction = Map.empty\<rparr>"

definition no_win_reporting_urls :: win_reporting_urls where
  "no_win_reporting_urls =
     \<lparr>wru_buyer = no_reporting_urls, wru_component_seller = no_reporting_urls,
      wru_top_level_seller = no_reporting_urls\<rparr>"

record debug_report_urls =
  debug_win_url :: string
  debug_loss_url :: string

definition no_debug_report_urls :: debug_report_urls where
  "no_debug_report_urls = \<lparr>debug_win_url = [], debug_loss_url = []\<rparr>"

record debug_report =
  dr_url :: string
  dr_is_win_report :: bool
  dr_is_seller_report :: bool
  dr_is_component_win :: bool

record k_anon_join_candidate =
  kjc_ad_render_url_hash :: string
  kjc_ad_component_render_urls_hash :: "string list"
  kjc_reporting_id_hash :: string

datatype base_value =
    BASE_VALUE_UNSPECIFIED | BASE_VALUE_WINNING_BID | BASE_VALUE_HIGHEST_SCORING_OTHER_BID
  | BASE_VALUE_SCRIPT_RUN_TIME | BASE_VALUE_SIGNALS_FETCH_TIME | BASE_VALUE_BID_REJECTION_REASON

datatype event_type =
    EVENT_TYPE_UNSPECIFIED | EVENT_TYPE_WIN | EVENT_TYPE_LOSS | EVENT_TYPE_ALWAYS
  | EVENT_TYPE_CUSTOM

record bucket_offset =
  bo_value :: "64 word list"
  bo_is_negative :: bool

record signal_bucket =
  sb_base_value :: base_value
  sb_scale :: f64
  sb_offset :: bucket_offset

record signal_value =
  sv_base_value :: base_value
  sv_scale :: f64
  sv_offset :: int

datatype pagg_bucket =
    No_bucket | Bucket_128_bit "64 word list" | Signal_bucket signal_bucket

datatype pagg_value = No_value | Int_value int | Extended_value signal_value

record pagg_contribution =
  pc_bucket :: pagg_bucket
  pc_value :: pagg_value
  pc_event :: "(event_type \<times> string) option"
  pc_ig_idx :: "int option"

record pagg_response =
  pr_contributions :: "pagg_contribution list"
  pr_adtech_origin :: string

definition no_pagg_response :: pagg_response where
  "no_pagg_response = \<lparr>pr_contributions = [], pr_adtech_origin = []\<rparr>"

section \<open>Ads and scores\<close>

record ad_with_bid =
  aw_ad :: pb_value
  aw_bid :: f32
  aw_render :: string
  aw_ad_components :: "string list"
  aw_interest_group_name :: string
  aw_interest_group_owner :: string
  aw_join_count :: int
  aw_recency :: int
  aw_modeling_signals :: int
  aw_ad_cost :: f64
  aw_bid_currency :: string
  aw_interest_group_origin :: string
  aw_buyer_reporting_id :: "string option"
  aw_buyer_and_seller_reporting_id :: "string option"
  aw_selected_buyer_and_seller_reporting_id :: "string option"
  aw_k_anon_status :: bool
  aw_data_version :: nat
  aw_interest_group_idx :: int

definition default_ad_with_bid :: ad_with_bid where
  "default_ad_with_bid =
     \<lparr>aw_ad = Pb_other, aw_bid = 0, aw_render = [], aw_ad_components = [], aw_interest_group_name = [],
      aw_interest_group_owner = [], aw_join_count = 0, aw_recency = 0, aw_modeling_signals = 0,
      aw_ad_cost = 0, aw_bid_currency = [], aw_interest_group_origin = [],
      aw_buyer_reporting_id = None, aw_buyer_and_seller_reporting_id = None,
      aw_selected_buyer_and_seller_reporting_id = None, aw_k_anon_status = False,
      aw_data_version = 0, aw_interest_group_idx = 0\<rparr>"

record pas_ad_with_bid =
  pas_ad :: pb_value
  pas_bid :: f32
  pas_render :: string
  pas_modeling_signals :: int
  pas_ad_cost :: f64
  pas_owner :: string
  pas_bid_currency :: string
  pas_egress_payload :: string
  pas_temporary_unlimited_egress_payload :: string
  pas_k_anon_status :: bool

definition default_pas_ad_with_bid :: pas_ad_with_bid where
  "default_pas_ad_with_bid =
     \<lparr>pas_ad = Pb_other, pas_bid = 0, pas_render = [], pas_modeling_signals = 0, pas_ad_cost = 0,
      pas_owner = [], pas_bid_currency = [], pas_egress_payload = [],
      pas_temporary_unlimited_egress_payload = [], pas_k_anon_status = False\<rparr>"

record ad_rejection_reason =
  arr_interest_group_name :: string
  arr_interest_group_owner :: string
  arr_rejection_reason :: seller_rejection_reason

record ad_score =
  as_desirability :: f32
  as_render :: string
  as_component_renders :: "string list"
  as_interest_group_name :: string
  as_buyer_bid :: f32
  as_interest_group_owner :: string
  as_ad_metadata :: string
  as_allow_component_auction :: bool
  as_bid :: f32
  as_win_reporting_urls :: win_reporting_urls
  as_debug_report_urls :: "debug_report_urls option"
  as_highest_scoring_other_bids :: "(string \<times> f64 list) list"
  as_ad_rejection_reasons :: "ad_rejection_reason list"
  as_ad_type :: ad_type
  as_incoming_bid_in_seller_currency :: f32
  as_bid_currency :: string
  as_buyer_bid_currency :: string
  as_buyer_reporting_id :: "string option"
  as_buyer_and_seller_reporting_id :: "string option"
  as_interest_group_origin :: string
  as_top_level_contributions :: "pagg_response list"
  as_selected_buyer_and_seller_reporting_id :: "string option"
  as_k_anon_join_candidate :: "k_anon_join_candidate option"
  as_seller :: string

definition default_ad_score :: ad_score where
  "default_ad_score =
     \<lparr>as_desirability = 0, as_render = [], as_component_renders = [], as_interest_group_name = [],
      as_buyer_bid = 0, as_interest_group_owner = [], as_ad_metadata = [],
      as_allow_component_auction = False, as_bid = 0,
      as_win_reporting_urls = no_win_reporting_urls, as_debug_report_urls = None,
      as_highest_scoring_other_bids = [], as_ad_rejection_reasons = [],
      as_ad_type = AD_TYPE_UNKNOWN, as_incoming_bid_in_seller_currency = 0, as_bid_currency = [],
      as_buyer_bid_currency = [], as_buyer_reporting_id = None,
      as_buyer_and_seller_reporting_id = None, as_interest_group_origin = [],
      as_top_level_contributions = [], as_selected_buyer_and_seller_reporting_id = None,
      as_k_anon_join_candidate = None, as_seller = []\<rparr>"

section \<open>Component auction results\<close>

record ghost_winner_for_top_level =
  gt_ad_render_url :: string
  gt_ad_component_render_urls :: "string list"
  gt_modified_bid :: f32
  gt_bid_currency :: string
  gt_ad_metadata :: string
  gt_buyer_reporting_id :: "string option"
  gt_selected_buyer_and_seller_reporting_id :: "string option"
  gt_buyer_and_seller_reporting_id :: "string option"
  gt_ad_type :: ad_type

record ghost_winner_pagg_signals =
  gps_bucket :: string
  gps_value :: int

record k_anon_ghost_winner =
  gw_join_candidates :: k_anon_join_candidate
  gw_interest_group_index :: int
  gw_owner :: string
  gw_origin :: string
  gw_ig_name :: string
  gw_pagg_signals :: "ghost_winner_pagg_signals list"
  gw_for_top_level :: "ghost_winner_for_top_level option"

type_synonym update_interest_group_list = "(int \<times> int) list"

record auction_result =
  ar_ad_render_url :: string
  ar_ad_component_render_urls :: "string list"
  ar_interest_group_name :: string
  ar_interest_group_owner :: string
  ar_score :: f32
  ar_bid :: f32
  ar_is_chaff :: bool
  ar_win_reporting_urls :: win_reporting_urls
  ar_bidding_groups :: "(string \<times> int list) list"
  ar_update_groups :: "(string \<times> update_interest_group_list) list"
  ar_error :: "int \<times> string"
  ar_interest_group_origin :: string
  ar_ad_type :: ad_type
  ar_top_level_seller :: string
  ar_ad_metadata :: string
  ar_bid_currency :: string
  ar_ciphertext_generation_id :: string
  ar_component_seller :: string
  ar_buyer_reporting_id :: "string option"
  ar_buyer_and_seller_reporting_id :: "string option"
  ar_selected_buyer_and_seller_reporting_id :: "string option"
  ar_k_anon_winner_join_candidates :: k_anon_join_candidate
  ar_k_anon_ghost_winners :: "k_anon_ghost_winner list"
  ar_top_level_contributions :: "pagg_response list"

definition no_join_candidate :: k_anon_join_candidate where
  "no_join_candidate =
     \<lparr>kjc_ad_render_url_hash = [], kjc_ad_component_render_urls_hash = [],
      kjc_reporting_id_hash = []\<rparr>"

definition default_auction_result :: auction_result where
  "default_auction_result =
     \<lparr>ar_ad_render_url = [], ar_ad_component_render_urls = [], ar_interest_group_name = [],
      ar_interest_group_owner = [], ar_score = 0, ar_bid = 0, ar_is_chaff = False,
      ar_win_reporting_urls = no_win_reporting_urls, ar_bidding_groups = [], ar_update_groups = [],
      ar_error = (0, []), ar_interest_group_origin = [], ar_ad_type = AD_TYPE_UNKNOWN,
      ar_top_level_seller = [], ar_ad_metadata = [], ar_bid_currency = [],
      ar_ciphertext_generation_id = [], ar_component_seller = [], ar_buyer_reporting_id = None,
      ar_buyer_and_seller_reporting_id = None, ar_selected_buyer_and_seller_reporting_id = None,
      ar_k_anon_winner_join_candidates = no_join_candidate, ar_k_anon_ghost_winners = [],
      ar_top_level_contributions = []\<rparr>"

text \<open>Reading an optional string that is not set yields the empty string.\<close>

definition or_empty :: "string option \<Rightarrow> string" where
  "or_empty s = (case s of None \<Rightarrow> [] | Some t \<Rightarrow> t)"

lemma or_empty_simps [simp]: "or_empty None = []" "or_empty (Some t) = t"
  by (simp_all add: or_empty_def)

record fdo_flags =
  fdo_enable_sampled_debug_reporting :: bool
  fdo_in_cooldown_or_lockout :: bool

section \<open>The ScoreAds request\<close>

record score_ads_raw_request =
  rq_ad_bids :: "ad_with_bid list"
  rq_seller_signals :: string
  rq_auction_signals :: string
  rq_scoring_signals :: string
  rq_publisher_hostname :: string
  rq_enable_debug_reporting :: bool
  rq_per_buyer_signals :: "string \<rightharpoonup> string"
  rq_pas_ad_bids :: "pas_ad_with_bid list"
  rq_seller :: string
  rq_top_level_seller :: string
  rq_seller_currency :: string
  rq_component_auction_results :: "auction_result list"
  rq_num_allowed_ghost_winners :: int
  rq_enforce_kanon :: bool
  rq_seller_data_version :: nat
  rq_is_sampled_for_debug :: bool
  rq_score_ad_version :: string
  rq_fdo_flags :: fdo_flags

section \<open>The scope of an auction (\<open>auction_scope_util.cc\<close>)\<close>

datatype encryption_cloud_platform =
    ENCRYPTION_CLOUD_PLATFORM_UNSPECIFIED
  | ENCRYPTION_CLOUD_PLATFORM_GCP
  | ENCRYPTION_CLOUD_PLATFORM_AWS

definition get_auction_scope_select_ad ::
  "string \<Rightarrow> encryption_cloud_platform \<Rightarrow> nat \<Rightarrow> auction_scope" where
  "get_auction_scope_select_ad top_level_seller platform n_component_auction_results =
     (if top_level_seller \<noteq> [] then
        (case platform of
           ENCRYPTION_CLOUD_PLATFORM_GCP \<Rightarrow> AUCTION_SCOPE_SERVER_COMPONENT_MULTI_SELLER
         | ENCRYPTION_CLOUD_PLATFORM_AWS \<Rightarrow> AUCTION_SCOPE_SERVER_COMPONENT_MULTI_SELLER
         | _ \<Rightarrow> AUCTION_SCOPE_DEVICE_COMPONENT_MULTI_SELLER)
      else if n_component_auction_results > 0 then AUCTION_SCOPE_SERVER_TOP_LEVEL_SELLER
      else AUCTION_SCOPE_SINGLE_SELLER)"

definition get_auction_scope :: "score_ads_raw_request \<Rightarrow> auction_scope" where
  "get_auction_scope rq =
     (if rq_top_level_seller rq \<noteq> [] then AUCTION_SCOPE_DEVICE_COMPONENT_MULTI_SELLER
      else if rq_component_auction_results rq \<noteq> [] then AUCTION_SCOPE_SERVER_TOP_LEVEL_SELLER
      else AUCTION_SCOPE_SINGLE_SELLER)"

definition is_component_auction :: "auction_scope \<Rightarrow> bool" where
  "is_component_auction sc \<longleftrightarrow>
     sc = AUCTION_SCOPE_DEVICE_COMPONENT_MULTI_SELLER
     \<or> sc = AUCTION_SCOPE_SERVER_COMPONENT_MULTI_SELLER"

lemma is_component_auction_simps [simp]:
  "is_component_auction AUCTION_SCOPE_DEVICE_COMPONENT_MULTI_SELLER"
  "is_component_auction AUCTION_SCOPE_SERVER_COMPONENT_MULTI_SELLER"
  "\<not> is_component_auction AUCTION_SCOPE_SINGLE_SELLER"
  "\<not> is_component_auction AUCTION_SCOPE_SERVER_TOP_LEVEL_SELLER"
  by (simp_all add: is_component_auction_def)

lemma select_ad_scope_component:
  "is_component_auction (get_auction_scope_select_ad tls p n) \<longleftrightarrow> tls \<noteq> []"
  by (auto simp: get_auction_scope_select_ad_def split: encryption_cloud_platform.split)

lemma score_ads_scope_component:
  "is_component_auction (get_auction_scope rq) \<longleftrightarrow> rq_top_level_seller rq \<noteq> []"
  by (simp add: get_auction_scope_def)

end
