(* ===== verification/Reporting_Util.thy ===== *)
theory Reporting_Util
  imports Auction_Types
begin

text \<open>
  \<open>services/common/util/reporting_util.{h,cc}\<close>: the signals derived from the winning ad after
  the auction, the data substituted into debug reporting URLs, the seller's rejection reasons and
  their strings, the limits on debug reports in a response, and the UDF output envelope.
\<close>

section \<open>Rejection reasons and their strings\<close>

definition to_seller_rejection_reason :: "string \<Rightarrow> seller_rejection_reason" where
  "to_seller_rejection_reason s =
     (if s = [] then SELLER_REJECTION_REASON_NOT_AVAILABLE
      else if s = ''invalid-bid'' then INVALID_BID
      else if s = ''bid-below-auction-floor'' then BID_BELOW_AUCTION_FLOOR
      else if s = ''pending-approval-by-exchange'' then PENDING_APPROVAL_BY_EXCHANGE
      else if s = ''disapproved-by-exchange'' then DISAPPROVED_BY_EXCHANGE
      else if s = ''blocked-by-publisher'' then BLOCKED_BY_PUBLISHER
      else if s = ''language-exclusions'' then LANGUAGE_EXCLUSIONS
      else if s = ''category-exclusions'' then CATEGORY_EXCLUSIONS
      else if s = ''bid-from-gen-bid-failed-currency-check''
        then BID_FROM_GENERATE_BID_FAILED_CURRENCY_CHECK
      else if s = ''bid-from-score-ad-failed-currency-check''
        then BID_FROM_SCORE_AD_FAILED_CURRENCY_CHECK
      else if s = ''did-not-meet-the-kanonymity-threshold''
        then DID_NOT_MEET_THE_KANONYMITY_THRESHOLD
      else SELLER_REJECTION_REASON_NOT_AVAILABLE)"

fun to_seller_rejection_reason_string :: "seller_rejection_reason \<Rightarrow> string" where
  "to_seller_rejection_reason_string INVALID_BID = ''invalid-bid''"
| "to_seller_rejection_reason_string BID_BELOW_AUCTION_FLOOR = ''bid-below-auction-floor''"
| "to_seller_rejection_reason_string PENDING_APPROVAL_BY_EXCHANGE = ''pending-approval-by-exchange''"
| "to_seller_rejection_reason_string DISAPPROVED_BY_EXCHANGE = ''disapproved-by-exchange''"
| "to_seller_rejection_reason_string BLOCKED_BY_PUBLISHER = ''blocked-by-publisher''"
| "to_seller_rejection_reason_string LANGUAGE_EXCLUSIONS = ''language-exclusions''"
| "to_seller_rejection_reason_string CATEGORY_EXCLUSIONS = ''category-exclusions''"
| "to_seller_rejection_reason_string BID_FROM_GENERATE_BID_FAILED_CURRENCY_CHECK =
     ''bid-from-gen-bid-failed-currency-check''"
| "to_seller_rejection_reason_string BID_FROM_SCORE_AD_FAILED_CURRENCY_CHECK =
     ''bid-from-score-ad-failed-currency-check''"
| "to_seller_rejection_reason_string DID_NOT_MEET_THE_KANONYMITY_THRESHOLD =
     ''did-not-meet-the-kanonymity-threshold''"
| "to_seller_rejection_reason_string SELLER_REJECTION_REASON_NOT_AVAILABLE = ''not-available''"

lemma rejection_reason_string_inverse [simp]:
  "to_seller_rejection_reason (to_seller_rejection_reason_string r) = r"
  by (cases r) (simp_all add: to_seller_rejection_reason_def)

lemma rejection_reason_unknown_string:
  "s \<notin> range to_seller_rejection_reason_string \<Longrightarrow>
   to_seller_rejection_reason s = SELLER_REJECTION_REASON_NOT_AVAILABLE"
proof -
  assume "s \<notin> range to_seller_rejection_reason_string"
  then have "s \<noteq> to_seller_rejection_reason_string r" for r by blast
  from this [of INVALID_BID] this [of BID_BELOW_AUCTION_FLOOR]
    this [of PENDING_APPROVAL_BY_EXCHANGE] this [of DISAPPROVED_BY_EXCHANGE]
    this [of BLOCKED_BY_PUBLISHER] this [of LANGUAGE_EXCLUSIONS] this [of CATEGORY_EXCLUSIONS]
    this [of BID_FROM_GENERATE_BID_FAILED_CURRENCY_CHECK]
    this [of BID_FROM_SCORE_AD_FAILED_CURRENCY_CHECK]
    this [of DID_NOT_MEET_THE_KANONYMITY_THRESHOLD]
  show ?thesis by (simp add: to_seller_rejection_reason_def)
qed

section \<open>Post-auction signals\<close>

record post_auction_signals =
  pas_winning_ig_name :: string
  pas_winning_ig_owner :: string
  pas_winning_bid :: f32
  pas_winning_bid_currency :: string
  pas_winning_bid_in_seller_currency :: f32
  pas_seller_currency :: string
  pas_seller_data_version :: nat
  pas_highest_scoring_other_bid :: f32
  pas_highest_scoring_other_bid_currency :: string
  pas_highest_scoring_other_bid_ig_owner :: string
  pas_has_highest_scoring_other_bid :: bool
  pas_winning_score :: f32
  pas_winning_ad_render_url :: string
  pas_rejection_reason_map :: "string \<rightharpoonup> (string \<rightharpoonup> seller_rejection_reason)"
  pas_made_highest_scoring_other_bid :: bool

definition unknown_currency :: string where
  "unknown_currency = ''???''"

definition no_winner_signals :: "string \<Rightarrow> nat \<Rightarrow> post_auction_signals" where
  "no_winner_signals seller_currency seller_data_version =
     \<lparr>pas_winning_ig_name = [], pas_winning_ig_owner = [], pas_winning_bid = 0,
      pas_winning_bid_currency = unknown_currency, pas_winning_bid_in_seller_currency = 0,
      pas_seller_currency = seller_currency, pas_seller_data_version = seller_data_version,
      pas_highest_scoring_other_bid = 0,
      pas_highest_scoring_other_bid_currency = unknown_currency,
      pas_highest_scoring_other_bid_ig_owner = [], pas_has_highest_scoring_other_bid = False,
      pas_winning_score = 0, pas_winning_ad_render_url = [],
      pas_rejection_reason_map = Map.empty, pas_made_highest_scoring_other_bid = False\<rparr>"

definition generate_post_auction_signals_for_top_level_seller ::
  "ad_score option \<Rightarrow> post_auction_signals" where
  "generate_post_auction_signals_for_top_level_seller winner =
     (case winner of
        None \<Rightarrow> no_winner_signals unknown_currency 0
      | Some w \<Rightarrow>
          (no_winner_signals unknown_currency 0)
            \<lparr>pas_winning_ig_name := as_interest_group_name w,
             pas_winning_ig_owner := as_interest_group_owner w,
             pas_winning_bid := as_buyer_bid w,
             pas_winning_score := as_desirability w,
             pas_winning_ad_render_url := as_render w\<rparr>)"

text \<open>One step of the loop that groups the rejection reasons by owner and interest group.\<close>

definition add_rejection_reason ::
  "ad_rejection_reason \<Rightarrow> (string \<rightharpoonup> (string \<rightharpoonup> seller_rejection_reason))
     \<Rightarrow> (string \<rightharpoonup> (string \<rightharpoonup> seller_rejection_reason))" where
  "add_rejection_reason r m =
     (case m (arr_interest_group_owner r) of
        Some im \<Rightarrow>
          m(arr_interest_group_owner r
              \<mapsto> fst (try_emplace (arr_interest_group_name r) (arr_rejection_reason r) im))
      | None \<Rightarrow>
          m(arr_interest_group_owner r \<mapsto> [arr_interest_group_name r \<mapsto> arr_rejection_reason r]))"

definition rejection_reason_map ::
  "ad_rejection_reason list \<Rightarrow> (string \<rightharpoonup> (string \<rightharpoonup> seller_rejection_reason))" where
  "rejection_reason_map rs = fold add_rejection_reason rs Map.empty"

text \<open>
  \<open>GeneratePostAuctionSignals\<close>. The first entry of the protobuf map of other bids is whatever
  entry its iteration starts with: the association list is in iteration order.
\<close>

definition generate_post_auction_signals ::
  "ad_score option \<Rightarrow> string \<Rightarrow> nat \<Rightarrow> post_auction_signals" where
  "generate_post_auction_signals winner seller_currency seller_data_version =
     (case winner of
        None \<Rightarrow> no_winner_signals seller_currency seller_data_version
      | Some w \<Rightarrow>
          (let other =
             (case as_highest_scoring_other_bids w of
                (owner, b # _) # _ \<Rightarrow> Some (owner, to_f32 b)
              | _ \<Rightarrow> None)
           in \<lparr>pas_winning_ig_name = as_interest_group_name w,
               pas_winning_ig_owner = as_interest_group_owner w,
               pas_winning_bid = as_buyer_bid w,
               pas_winning_bid_currency =
                 (if as_buyer_bid_currency w = [] then unknown_currency
                  else as_buyer_bid_currency w),
               pas_winning_bid_in_seller_currency = as_incoming_bid_in_seller_currency w,
               pas_seller_currency = seller_currency,
               pas_seller_data_version = seller_data_version,
               pas_highest_scoring_other_bid = (case other of Some (_, b) \<Rightarrow> b | None \<Rightarrow> 0),
               pas_highest_scoring_other_bid_currency =
                 (if seller_currency = [] then unknown_currency else seller_currency),
               pas_highest_scoring_other_bid_ig_owner =
                 (case other of Some (ow, _) \<Rightarrow> ow | None \<Rightarrow> []),
               pas_has_highest_scoring_other_bid = (other \<noteq> None),
               pas_winning_score = as_desirability w,
               pas_winning_ad_render_url = as_render w,
               pas_rejection_reason_map = rejection_reason_map (as_ad_rejection_reasons w),
               pas_made_highest_scoring_other_bid =
                 (length (as_highest_scoring_other_bids w) = 1
                  \<and> map_of (as_highest_scoring_other_bids w) (as_interest_group_owner w)
                      \<noteq> None)\<rparr>))"

definition rejection_reason_of ::
  "post_auction_signals \<Rightarrow> string \<Rightarrow> string \<Rightarrow> seller_rejection_reason option" where
  "rejection_reason_of sig owner name =
     (case pas_rejection_reason_map sig owner of None \<Rightarrow> None | Some im \<Rightarrow> im name)"

text \<open>The grouped map answers every lookup with the first reason recorded for the group.\<close>

definition first_reason :: "ad_rejection_reason list \<Rightarrow> string \<Rightarrow> string
    \<Rightarrow> seller_rejection_reason option" where
  "first_reason rs ow n =
     map_option arr_rejection_reason
       (find (\<lambda>r. arr_interest_group_owner r = ow \<and> arr_interest_group_name r = n) rs)"

lemma fold_add_rejection_reason:
  "(case fold add_rejection_reason rs m ow of None \<Rightarrow> None | Some im \<Rightarrow> im n)
     = (case (case m ow of None \<Rightarrow> None | Some im \<Rightarrow> im n) of
          Some x \<Rightarrow> Some x | None \<Rightarrow> first_reason rs ow n)"
proof (induction rs arbitrary: m)
  case Nil
  then show ?case by (simp add: first_reason_def split: option.split)
next
  case (Cons r rs)
  show ?case
    by (simp add: Cons.IH)
       (auto simp: add_rejection_reason_def first_reason_def try_emplace_def split: option.splits)
qed

lemma rejection_reason_map_lookup:
  "(case rejection_reason_map rs ow of None \<Rightarrow> None | Some im \<Rightarrow> im n) = first_reason rs ow n"
  by (simp add: rejection_reason_map_def fold_add_rejection_reason)

lemma rejection_reason_of_generated:
  "rejection_reason_of (generate_post_auction_signals (Some w) cur ver) ow n
     = first_reason (as_ad_rejection_reasons w) ow n"
  by (simp add: rejection_reason_of_def generate_post_auction_signals_def Let_def
        rejection_reason_map_lookup)

section \<open>Debug reporting URLs\<close>

record debug_reporting_placeholder =
  drp_winning_bid :: f32
  drp_winning_bid_currency :: string
  drp_made_winning_bid :: bool
  drp_highest_scoring_other_bid :: f32
  drp_highest_scoring_other_bid_currency :: string
  drp_made_highest_scoring_other_bid :: bool
  drp_rejection_reason :: seller_rejection_reason

definition get_placeholder_data_for_interest_group ::
  "string \<Rightarrow> string \<Rightarrow> post_auction_signals \<Rightarrow> debug_reporting_placeholder" where
  "get_placeholder_data_for_interest_group owner name sig =
     (let currency = (if pas_seller_currency sig \<noteq> [] then pas_seller_currency sig
                      else unknown_currency)
      in \<lparr>drp_winning_bid =
            (if pas_seller_currency sig \<noteq> [] then pas_winning_bid_in_seller_currency sig
             else pas_winning_bid sig),
          drp_winning_bid_currency = currency,
          drp_made_winning_bid = (owner = pas_winning_ig_owner sig),
          drp_highest_scoring_other_bid = pas_highest_scoring_other_bid sig,
          drp_highest_scoring_other_bid_currency = currency,
          drp_made_highest_scoring_other_bid =
            (pas_has_highest_scoring_other_bid sig
             \<and> owner = pas_highest_scoring_other_bid_ig_owner sig),
          drp_rejection_reason =
            (case rejection_reason_of sig owner name of
               Some r \<Rightarrow> r | None \<Rightarrow> SELLER_REJECTION_REASON_NOT_AVAILABLE)\<rparr>)"

definition bool_text :: "bool \<Rightarrow> string" where
  "bool_text b = (if b then ''true'' else ''false'')"

text \<open>The list of replacements the code builds, in its order.\<close>

definition debug_url_replacements ::
  "debug_reporting_placeholder \<Rightarrow> bool \<Rightarrow> (string \<times> string) list" where
  "debug_url_replacements p is_winning_ig =
     [(''${winningBid}'', fixed_decimal 2 (drp_winning_bid p)),
      (''${winningBidCurrency}'', drp_winning_bid_currency p),
      (''${madeWinningBid}'', bool_text (drp_made_winning_bid p)),
      (''${rejectReason}'', to_seller_rejection_reason_string (drp_rejection_reason p)),
      (''${highestScoringOtherBid}'', ''0.00''),
      (''${highestScoringOtherBidCurrency}'', drp_highest_scoring_other_bid_currency p),
      (''${madeHighestScoringOtherBid}'', ''false'')]
     @ (if is_winning_ig then
          [(''${highestScoringOtherBid}'', fixed_decimal 2 (drp_highest_scoring_other_bid p)),
           (''${madeHighestScoringOtherBid}'', bool_text (drp_made_highest_scoring_other_bid p))]
        else [])"

definition create_debug_reporting_url ::
  "libs \<Rightarrow> string \<Rightarrow> debug_reporting_placeholder \<Rightarrow> bool \<Rightarrow> string" where
  "create_debug_reporting_url L url p is_winning_ig =
     str_replace_all L url (debug_url_replacements p is_winning_ig)"

text \<open>The pings a call of \<open>SendDebugReportingPing\<close> hands to the reporter: none or one.\<close>

definition send_debug_reporting_ping ::
  "libs \<Rightarrow> string \<Rightarrow> string \<Rightarrow> string \<Rightarrow> bool \<Rightarrow> post_auction_signals \<Rightarrow> string list" where
  "send_debug_reporting_ping L url owner name is_winning_ig sig =
     (if url = [] then []
      else [create_debug_reporting_url L url
              (get_placeholder_data_for_interest_group owner name sig) is_winning_ig])"

text \<open>
  A losing interest group's URL carries no information about the second highest bid: its
  replacements do not depend on it.
\<close>

lemma losing_replacements_hide_other_bid:
  "debug_url_replacements
     (p\<lparr>drp_highest_scoring_other_bid := b, drp_made_highest_scoring_other_bid := m\<rparr>) False
   = debug_url_replacements p False"
  by (simp add: debug_url_replacements_def)

section \<open>Limits on the debug reports in a response\<close>

record debug_reports_in_response_counts =
  allowed_win_report_count :: int
  allowed_loss_report_count :: int
  allowed_report_count :: int

definition create_debug_report_counts :: "bool \<Rightarrow> bool \<Rightarrow> debug_reports_in_response_counts" where
  "create_debug_report_counts enable_sampled_reporting component =
     (if enable_sampled_reporting then
        \<lparr>allowed_win_report_count = 1, allowed_loss_report_count = 1,
         allowed_report_count = (if component then 2 else 1)\<rparr>
      else
        \<lparr>allowed_win_report_count = 2, allowed_loss_report_count = 2,
         allowed_report_count = 4\<rparr>)"

definition can_add_debug_report ::
  "debug_reports_in_response_counts \<Rightarrow> debug_report \<Rightarrow> bool" where
  "can_add_debug_report c r =
     (if dr_url r = [] then True
      else if allowed_report_count c \<le> 0 then False
      else if dr_is_win_report r then allowed_win_report_count c > 0
      else allowed_loss_report_count c > 0)"

definition decrement_counts_for_debug_report ::
  "debug_report \<Rightarrow> debug_reports_in_response_counts \<Rightarrow> debug_reports_in_response_counts" where
  "decrement_counts_for_debug_report r c =
     (if dr_url r = [] then c
      else if dr_is_win_report r then
        c\<lparr>allowed_report_count := allowed_report_count c - 1,
          allowed_win_report_count := allowed_win_report_count c - 1\<rparr>
      else
        c\<lparr>allowed_report_count := allowed_report_count c - 1,
          allowed_loss_report_count := allowed_loss_report_count c - 1\<rparr>)"

text \<open>A client that adds a report whenever the counts allow it, and then decrements them.\<close>

fun admit_debug_reports ::
  "debug_reports_in_response_counts \<Rightarrow> debug_report list \<Rightarrow> debug_report list" where
  "admit_debug_reports c [] = []"
| "admit_debug_reports c (r # rs) =
     (if can_add_debug_report c r
      then r # admit_debug_reports (decrement_counts_for_debug_report r c) rs
      else admit_debug_reports c rs)"

definition nonempty_wins :: "debug_report list \<Rightarrow> nat" where
  "nonempty_wins rs = length (filter (\<lambda>r. dr_url r \<noteq> [] \<and> dr_is_win_report r) rs)"

definition nonempty_losses :: "debug_report list \<Rightarrow> nat" where
  "nonempty_losses rs = length (filter (\<lambda>r. dr_url r \<noteq> [] \<and> \<not> dr_is_win_report r) rs)"

lemma admit_debug_reports_bounds:
  assumes "0 \<le> allowed_win_report_count c" "0 \<le> allowed_loss_report_count c"
    "0 \<le> allowed_report_count c"
  shows "int (nonempty_wins (admit_debug_reports c rs)) \<le> allowed_win_report_count c
    \<and> int (nonempty_losses (admit_debug_reports c rs)) \<le> allowed_loss_report_count c
    \<and> int (nonempty_wins (admit_debug_reports c rs) + nonempty_losses (admit_debug_reports c rs))
        \<le> allowed_report_count c"
  using assms
proof (induction c rs rule: admit_debug_reports.induct)
  case (1 c)
  then show ?case by (simp add: nonempty_wins_def nonempty_losses_def)
next
  case (2 c r rs)
  show ?case
  proof (cases "can_add_debug_report c r")
    case True
    have nn: "0 \<le> allowed_win_report_count (decrement_counts_for_debug_report r c)"
      "0 \<le> allowed_loss_report_count (decrement_counts_for_debug_report r c)"
      "0 \<le> allowed_report_count (decrement_counts_for_debug_report r c)"
      using True "2.prems"
      by (auto simp: can_add_debug_report_def decrement_counts_for_debug_report_def
            split: if_splits)
    from "2.IH"(1) [OF True nn] True show ?thesis
      by (auto simp: nonempty_wins_def nonempty_losses_def decrement_counts_for_debug_report_def
            split: if_splits)
  next
    case False
    from "2.IH"(2) [OF False "2.prems"] False show ?thesis by simp
  qed
qed

section \<open>Random sampling of debug URLs\<close>

text \<open>
  \<open>DebugUrlPassesSampling\<close> on the outcome of \<open>RandInt(1, upper_bound)\<close>: a draw, or the error
  of an empty range.
\<close>

definition debug_url_passes_sampling :: "nat option \<Rightarrow> bool" where
  "debug_url_passes_sampling draw = (case draw of Some n \<Rightarrow> n = 1 | None \<Rightarrow> False)"

section \<open>Feature flags and the UDF envelope\<close>

definition append_feature_flag_value :: "string \<Rightarrow> string \<Rightarrow> bool \<Rightarrow> string" where
  "append_feature_flag_value flags name enabled =
     flags @ CHR 0x22 # name @ CHR 0x22 # '': '' @ bool_text enabled"

definition get_feature_flag_json :: "bool \<Rightarrow> bool \<Rightarrow> string" where
  "get_feature_flag_json enable_logging enable_debug_url_generation =
     append_feature_flag_value
       (append_feature_flag_value ''{'' ''enable_logging'' enable_logging @ '','')
       ''enable_debug_url_generation'' enable_debug_url_generation @ ''}''"

text \<open>
  The member \<open>response\<close> of the UDF's JSON envelope, serialised. \<open>document["response"]\<close> of a
  missing member is RapidJSON's null value in the release build.
\<close>

definition parse_and_get_response_json :: "libs \<Rightarrow> string \<Rightarrow> string status_or" where
  "parse_and_get_response_json L resp =
     (case parse_json_string L resp of
        Inl e \<Rightarrow> Inl e
      | Inr doc \<Rightarrow>
          serialize_json_doc L
            (case find_member doc ''response'' of Some v \<Rightarrow> v | None \<Rightarrow> JNull))"

definition parse_and_get_response_json_array ::
  "libs \<Rightarrow> bool \<Rightarrow> string \<Rightarrow> string list status_or" where
  "parse_and_get_response_json_array L enable_logging resp =
     (case parse_json_string L resp of
        Inl e \<Rightarrow> Inl e
      | Inr doc \<Rightarrow>
          serialize_json_array_doc_to_vector L
            (if enable_logging
             then (case find_member doc ''response'' of Some v \<Rightarrow> v | None \<Rightarrow> JNull)
             else doc))"

end
