(* ===== verification/Noising.thy ===== *)
theory Noising
  imports Cpp_Number
begin

text \<open>
  \<open>services/common/util/random_number_generator.cc\<close> and
  \<open>services/auction_service/reporting/noiser_and_bucketer.cc\<close>: uniform integers by rejection
  sampling, the bucketing of join count and recency, the 1-in-101 noise on the inputs of reportWin,
  and stochastic rounding to k bits. The random words (OpenSSL's \<open>RAND_bytes\<close>) are a parameter
  \<open>bits\<close>: \<open>bits n\<close> is what the n-th request for 64 random bits yields, \<open>None\<close> a failure. Every
  operation takes the number of requests made so far and returns the new number. The rejection loop
  need not terminate, so its result is an option: \<open>None\<close> is a run that never returns.
\<close>

section \<open>Uniform random integers\<close>

definition rand_uint64 :: "(nat \<Rightarrow> 64 word option) \<Rightarrow> nat \<Rightarrow> 64 word status_or \<times> nat" where
  "rand_uint64 bits n =
     (case bits n of
        None \<Rightarrow> (Inl (internal_error ''Error generating number.''), Suc n)
      | Some w \<Rightarrow> (Inr w, Suc n))"

partial_function (option) rand_loop ::
  "(nat \<Rightarrow> 64 word option) \<Rightarrow> 64 word \<Rightarrow> nat \<Rightarrow> (64 word status_or \<times> nat) option" where
  "rand_loop bits max_acceptable n =
     (case rand_uint64 bits n of
        (Inl e, n') \<Rightarrow> Some (Inl e, n')
      | (Inr w, n') \<Rightarrow>
          if w > max_acceptable then rand_loop bits max_acceptable n' else Some (Inr w, n'))"

definition max_acceptable_value :: "64 word \<Rightarrow> 64 word" where
  "max_acceptable_value rng = (- 1 div rng) * rng - 1"

definition invalid_range :: status where
  "invalid_range = internal_error ''Invalid range for random number generation.''"

definition rand_generator ::
  "(nat \<Rightarrow> 64 word option) \<Rightarrow> 64 word \<Rightarrow> nat \<Rightarrow> (64 word status_or \<times> nat) option" where
  "rand_generator bits rng n =
     (if rng \<le> 0 then Some (Inl invalid_range, n)
      else
        (case rand_loop bits (max_acceptable_value rng) n of
           None \<Rightarrow> None
         | Some (Inl e, n') \<Rightarrow> Some (Inl e, n')
         | Some (Inr w, n') \<Rightarrow> Some (Inr (w mod rng), n')))"

text \<open>The 64-bit result is stored in an \<open>int\<close> (32 bits) before the minimum is added.\<close>

definition rand_int ::
  "(nat \<Rightarrow> 64 word option) \<Rightarrow> int \<Rightarrow> int \<Rightarrow> nat \<Rightarrow> (int status_or \<times> nat) option" where
  "rand_int bits mn mx n =
     (if mn > mx then Some (Inl invalid_range, n)
      else if mn = mx then Some (Inr mn, n)
      else
        (case rand_generator bits (word_of_int (mx - mn + 1)) n of
           None \<Rightarrow> None
         | Some (Inl e, n') \<Rightarrow> Some (Inl e, n')
         | Some (Inr w, n') \<Rightarrow> Some (Inr (signed_take_bit 31 (uint w) + mn), n')))"

section \<open>Buckets\<close>

definition bucket_join_count :: "int \<Rightarrow> int" where
  "bucket_join_count join_count =
     (let jc = (if join_count < 1 then 1 else join_count)
      in if jc \<le> 10 then jc else if jc \<le> 20 then 11 else if jc \<le> 30 then 12
         else if jc \<le> 40 then 13 else if jc \<le> 50 then 14 else if jc \<le> 100 then 15 else 16)"

definition bucket_recency :: "int \<Rightarrow> int" where
  "bucket_recency recency =
     (let r = (if recency < 0 then 0 else recency)
      in if r < 10 then r else if r < 15 then 10 else if r < 20 then 11 else if r < 30 then 12
         else if r < 40 then 13 else if r < 50 then 14 else if r < 60 then 15 else if r < 75 then 16
         else if r < 90 then 17 else if r < 105 then 18 else if r < 120 then 19
         else if r < 240 then 20 else if r < 720 then 21 else if r < 1440 then 22
         else if r < 2160 then 23 else if r < 2880 then 24 else if r < 4320 then 25
         else if r < 5760 then 26 else if r < 10080 then 27 else if r < 20160 then 28
         else if r < 30240 then 29 else if r < 40320 then 30 else 31)"

section \<open>Noise\<close>

text \<open>
  \<open>Noise\<close>: the input is replaced when a draw from 0 to 100 gives 1. A failure of the second draw
  keeps the input.
\<close>

definition noise ::
  "(nat \<Rightarrow> 64 word option) \<Rightarrow> int \<Rightarrow> int \<Rightarrow> int \<Rightarrow> nat \<Rightarrow> (int status_or \<times> nat) option" where
  "noise bits input mn mx n =
     (case rand_int bits 0 100 n of
        None \<Rightarrow> None
      | Some (Inl e, n') \<Rightarrow> Some (Inl e, n')
      | Some (Inr d, n') \<Rightarrow>
          if d = 1 then
            (case rand_int bits mn mx n' of
               None \<Rightarrow> None
             | Some (Inl e, n'') \<Rightarrow> Some (Inr input, n'')
             | Some (Inr v, n'') \<Rightarrow> Some (Inr v, n''))
          else Some (Inr input, n'))"

definition noise_and_mask_modeling_signals ::
  "(nat \<Rightarrow> 64 word option) \<Rightarrow> 16 word \<Rightarrow> nat \<Rightarrow> (int status_or \<times> nat) option" where
  "noise_and_mask_modeling_signals bits signals n = noise bits (uint (and signals 0xFFF)) 0 0xFFF n"

definition noise_and_bucket_join_count ::
  "(nat \<Rightarrow> 64 word option) \<Rightarrow> int \<Rightarrow> nat \<Rightarrow> (int status_or \<times> nat) option" where
  "noise_and_bucket_join_count bits join_count n = noise bits (bucket_join_count join_count) 1 16 n"

definition noise_and_bucket_recency ::
  "(nat \<Rightarrow> 64 word option) \<Rightarrow> int \<Rightarrow> nat \<Rightarrow> (int status_or \<times> nat) option" where
  "noise_and_bucket_recency bits recency n = noise bits (bucket_recency recency) 0 31 n"

section \<open>Stochastic rounding\<close>

datatype double_result = Finite f64 | Infinity

text \<open>\<open>frexp\<close> of a finite value: a fraction of magnitude in [1/2, 1), and the exponent.\<close>

definition frexp_exp :: "rat \<Rightarrow> int" where
  "frexp_exp x = (if x = 0 then 0 else exponent_of x + 1)"

definition frexp_norm :: "rat \<Rightarrow> rat" where
  "frexp_norm x = x / pow2 (frexp_exp x)"

definition bits_to_unit_interval :: "64 word \<Rightarrow> f64" where
  "bits_to_unit_interval w = of_int (uint (and w (2 ^ 53 - 1))) / 2 ^ 53"

definition copysign_one :: "rat \<Rightarrow> rat" where
  "copysign_one x = (if x < 0 then - 1 else 1)"

text \<open>
  \<open>RoundStochasticallyToKBits\<close> on a finite value (an infinity is returned as it is). \<open>Infinity\<close>
  carries the sign of the value.
\<close>

definition round_stochastically ::
  "(nat \<Rightarrow> 64 word option) \<Rightarrow> f64 \<Rightarrow> nat \<Rightarrow> nat \<Rightarrow> double_result status_or \<times> nat" where
  "round_stochastically bits value k n =
     (let e = frexp_exp value
      in if e < - 128 then (Inr (Finite 0), n)
         else if e > 127 then (Inr Infinity, n)
         else
           (let scaled = frexp_norm value * 2 ^ k;
                t = of_int (trunc_int scaled)
            in case rand_uint64 bits n of
                 (Inl err, n') \<Rightarrow> (Inl err, n')
               | (Inr w, n') \<Rightarrow>
                   if \<bar>scaled - t\<bar> > bits_to_unit_interval w then
                     (let t' = t + copysign_one scaled
                      in if e = 127 \<and> \<bar>t'\<bar> / 2 ^ k \<ge> 1 then
                           (if \<bar>t'\<bar> / 2 ^ k \<noteq> 1
                            then (Inl (internal_error ''Error generating truncated value''), n')
                            else (Inr Infinity, n'))
                         else (Inr (Finite (t' * pow2 (e - int k))), n'))
                   else (Inr (Finite (t * pow2 (e - int k))), n')))"

section \<open>Lemmas on the random integers\<close>

text \<open>The accepted words are a whole number of copies of the range: the remainder is unbiased.\<close>

lemma max_acceptable_value_unat:
  assumes "0 < rng"
  shows "unat (max_acceptable_value rng) + 1 = (2 ^ 64 - 1) div unat rng * unat rng"
proof -
  let ?q = "(2 ^ 64 - 1) div unat rng"
  have r: "0 < unat rng" using assms by (simp add: word_less_nat_alt)
  have rlt: "unat rng \<le> 2 ^ 64 - 1" 
  proof -
    have "unat rng < 2 ^ 64" using unsigned_less [of rng, where ?'a = nat] by simp
    then show ?thesis by simp
  qed
  have le: "?q * unat rng \<le> 2 ^ 64 - 1" by simp
  have q: "unat (- 1 div rng) = ?q" by (simp add: unat_div unsigned_minus_1_eq_mask mask_eq_exp_minus_1)
  have "unat ((- 1 div rng) * rng) = ?q * unat rng"
  proof -
    have "unat ((- 1 div rng) * rng) = (?q * unat rng) mod 2 ^ 64"
      by (simp add: unat_word_ariths(2) q)
    also have "\<dots> = ?q * unat rng" by (rule mod_less) (rule le_less_trans [OF le], simp)
    finally show ?thesis .
  qed
  moreover have "0 < ?q * unat rng" using r rlt by (simp add: div_greater_zero_iff)
  moreover from calculation have "(- 1 div rng) * rng \<noteq> 0" by (metis less_irrefl unsigned_0)
  ultimately show ?thesis
    using unat_minus_one [of "(- 1 div rng) * rng"] unfolding max_acceptable_value_def by linarith
qed

lemma acceptable_multiple:
  "0 < rng \<Longrightarrow> (unat (max_acceptable_value rng) + 1) mod unat rng = 0"
  by (simp only: max_acceptable_value_unat mod_mult_self2_is_0)

lemma rand_generator_range:
  assumes "rand_generator bits rng n = Some (Inr w, n')"
  shows "w < rng"
proof -
  have r: "0 < rng"
    using assms by (auto simp: rand_generator_def split: if_splits option.splits sum.splits
        simp: word_gt_0)
  then have "\<exists>v. w = v mod rng"
    using assms by (auto simp: rand_generator_def split: option.splits sum.splits if_splits)
  then show ?thesis using r by (auto simp: word_less_nat_alt unat_mod)
qed

text \<open>The loop returns as soon as one request fails or yields an acceptable word.\<close>

lemma rand_loop_step:
  "rand_loop bits m n =
     (case bits n of
        None \<Rightarrow> Some (Inl (internal_error ''Error generating number.''), Suc n)
      | Some w \<Rightarrow> if w > m then rand_loop bits m (Suc n) else Some (Inr w, Suc n))"
  by (subst rand_loop.simps) (simp add: rand_uint64_def split: option.split)

lemma rand_loop_returns:
  assumes "case bits (n + k) of None \<Rightarrow> True | Some w \<Rightarrow> w \<le> m"
  shows "\<exists>r. rand_loop bits m n = Some r"
  using assms
proof (induction k arbitrary: n)
  case 0
  then show ?case by (subst rand_loop_step) (auto split: option.splits)
next
  case (Suc k)
  from Suc.IH [of "Suc n"] Suc.prems have "\<exists>r. rand_loop bits m (Suc n) = Some r" by simp
  then show ?case by (subst rand_loop_step) (simp split: option.split)
qed

lemma rand_loop_fails:
  "rand_loop bits m n = Some r \<Longrightarrow> (case fst r of Inl e \<Rightarrow> \<exists>i. bits i = None | Inr w \<Rightarrow> w \<le> m)"
proof (induction bits m n r rule: rand_loop.raw_induct [rotated 1, consumes 1])
  case (1 rand_loop bits m n r)
  show ?case
  proof (cases "bits n")
    case None
    then show ?thesis using "1"(2) by (auto simp: rand_uint64_def)
  next
    case (Some w)
    then show ?thesis using "1" by (auto simp: rand_uint64_def split: if_splits)
  qed
qed

lemma range_word_pos:
  assumes "mn < mx" and "mx - mn < 2 ^ 31"
  shows "(0 :: 64 word) < word_of_int (mx - mn + 1)"
proof -
  have "uint (word_of_int (mx - mn + 1) :: 64 word) = mx - mn + 1"
    using assms by (simp add: unsigned_of_int take_bit_int_eq_self del: of_int_add of_int_diff)
  then show ?thesis using assms(1) by (simp add: word_less_def del: of_int_add of_int_diff)
qed

lemma rand_generator_total:
  assumes "0 < rng" and "rand_loop bits (max_acceptable_value rng) n = Some r"
  shows "\<exists>r'. rand_generator bits rng n = Some r'"
proof -
  have "rng \<noteq> 0" using assms(1) by (simp add: word_gt_0)
  then show ?thesis using assms(2) by (auto simp: rand_generator_def split: prod.split sum.split)
qed

lemma rand_generator_fails:
  "0 < rng \<Longrightarrow> rand_generator bits rng n = Some (Inl e, n') \<Longrightarrow>
     rand_loop bits (max_acceptable_value rng) n = Some (Inl e, n')"
  by (auto simp: rand_generator_def split: option.splits sum.splits if_splits)

lemma rand_int_fails:
  assumes "rand_int bits mn mx n = Some (Inl e, n')" and "mx - mn < 2 ^ 31"
  shows "mx < mn \<or> (\<exists>i. bits i = None)"
proof (cases "mn < mx")
  case True
  then have "rand_generator bits (word_of_int (mx - mn + 1)) n = Some (Inl e, n')"
    using assms(1) by (auto simp: rand_int_def split: option.splits sum.splits)
  then have "rand_loop bits (max_acceptable_value (word_of_int (mx - mn + 1))) n = Some (Inl e, n')"
    using range_word_pos [OF True assms(2)] by (rule rand_generator_fails [rotated])
  from rand_loop_fails [OF this] show ?thesis by simp
next
  case False
  then show ?thesis using assms(1) by (auto simp: rand_int_def split: if_splits)
qed

lemma rand_int_empty: "rand_int bits mn mx n = Some (Inr v, n1) \<Longrightarrow> mn \<le> mx"
  by (auto simp: rand_int_def split: if_splits)

lemma rand_int_range:
  assumes "mn \<le> mx" and "mx - mn < 2 ^ 31" and "rand_int bits mn mx n = Some (Inr v, n')"
  shows "mn \<le> v \<and> v \<le> mx"
proof (cases "mn = mx")
  case True
  then show ?thesis using assms(3) by (simp add: rand_int_def)
next
  case False
  then obtain w n'' where g: "rand_generator bits (word_of_int (mx - mn + 1)) n = Some (Inr w, n'')"
    and v: "v = signed_take_bit 31 (uint w) + mn"
    using assms by (auto simp: rand_int_def split: option.splits sum.splits)
  have "w < word_of_int (mx - mn + 1)" by (rule rand_generator_range [OF g])
  then have "uint w < uint (word_of_int (mx - mn + 1) :: 64 word)" by (simp add: word_less_def)
  also have "uint (word_of_int z :: 64 word) = z" if "0 \<le> z" "z < 2 ^ 64" for z
    using that by (simp add: unsigned_of_int take_bit_int_eq_self)
  then have "uint (word_of_int (mx - mn + 1) :: 64 word) = mx - mn + 1"
    using assms(1,2) by (simp del: of_int_add of_int_diff)
  finally have lt: "uint w < mx - mn + 1" .
  have "signed_take_bit 31 (uint w) = uint w"
  proof (rule signed_take_bit_int_eq_self)
    show "- (2 ^ 31) \<le> uint w" by (rule order_trans [OF _ uint_nonnegative]) simp
    show "uint w < 2 ^ 31" using lt assms(2) by linarith
  qed
  then show ?thesis using lt by (simp add: v)
qed

section \<open>Lemmas on the buckets and the noise\<close>

lemma bucket_join_count_range: "1 \<le> bucket_join_count j \<and> bucket_join_count j \<le> 16"
  by (auto simp: bucket_join_count_def Let_def)

lemma bucket_recency_range: "0 \<le> bucket_recency r \<and> bucket_recency r \<le> 31"
  by (auto simp: bucket_recency_def Let_def)

lemma chain_mono:
  "i \<le> j \<Longrightarrow> u \<le> v \<Longrightarrow> (i < a \<Longrightarrow> a \<le> j \<Longrightarrow> u \<le> y) \<Longrightarrow> x \<le> y \<Longrightarrow>
     (if i < a then u else x) \<le> (if j < a then v else y)"
  for i j a u v x y :: int
  by simp

lemma chain_mono_le:
  "i \<le> j \<Longrightarrow> u \<le> v \<Longrightarrow> (i \<le> a \<Longrightarrow> a < j \<Longrightarrow> u \<le> y) \<Longrightarrow> x \<le> y \<Longrightarrow>
     (if i \<le> a then u else x) \<le> (if j \<le> a then v else y)"
  for i j a u v x y :: int
  by simp

lemma bucket_join_count_mono:
  assumes "i \<le> j"
  shows "bucket_join_count i \<le> bucket_join_count j"
proof -
  define a b where "a = (if i < 1 then 1 else i)" and "b = (if j < 1 then 1 else j)"
  have ab: "a \<le> b" using assms by (simp add: a_def b_def)
  show ?thesis
    unfolding bucket_join_count_def Let_def
    by (fold a_def b_def) (intro chain_mono_le ab; simp)
qed

lemma bucket_recency_mono:
  assumes "i \<le> j"
  shows "bucket_recency i \<le> bucket_recency j"
proof -
  define a b where "a = (if i < 0 then 0 else i)" and "b = (if j < 0 then 0 else j)"
  have ab: "a \<le> b" using assms by (simp add: a_def b_def)
  show ?thesis
    unfolding bucket_recency_def Let_def
    by (fold a_def b_def) (intro chain_mono ab; simp)
qed

lemma noise_range:
  assumes "mn \<le> input" "input \<le> mx" "mx - mn < 2 ^ 31" and "noise bits input mn mx n = Some (Inr v, n')"
  shows "mn \<le> v \<and> v \<le> mx"
proof -
  have "mn \<le> mx" using assms by simp
  from rand_int_range [OF this assms(3)] show ?thesis
    using assms by (auto simp: noise_def split: option.splits sum.splits if_splits)
qed

text \<open>The input passes through unless the first draw is 1.\<close>

lemma noise_identity:
  "rand_int bits 0 100 n = Some (Inr d, n') \<Longrightarrow> d \<noteq> 1 \<Longrightarrow> noise bits input mn mx n = Some (Inr input, n')"
  by (simp add: noise_def)

lemma and_mask_range: "uint (and w (0xFFF :: 16 word)) \<le> 0xFFF"
proof -
  have "and w (0xFFF :: 16 word) \<le> 0xFFF" by (rule word_and_le1)
  then show ?thesis by (simp add: word_le_def)
qed

lemma noised_inputs_in_range:
  "noise_and_bucket_join_count bits j n = Some (Inr v, n') \<Longrightarrow> 1 \<le> v \<and> v \<le> 16"
  "noise_and_bucket_recency bits r n = Some (Inr v, n') \<Longrightarrow> 0 \<le> v \<and> v \<le> 31"
  "noise_and_mask_modeling_signals bits m n = Some (Inr v, n') \<Longrightarrow> 0 \<le> v \<and> v \<le> 0xFFF"
  unfolding noise_and_bucket_join_count_def noise_and_bucket_recency_def
    noise_and_mask_modeling_signals_def
  using noise_range [of 1 "bucket_join_count j" 16 bits n v n']
    noise_range [of 0 "bucket_recency r" 31 bits n v n']
    noise_range [of 0 "uint (and m 0xFFF)" "0xFFF" bits n v n']
    bucket_join_count_range [of j] bucket_recency_range [of r] and_mask_range [of m]
  by simp_all

section \<open>Lemmas on stochastic rounding\<close>

lemma frexp_norm_bound: "\<bar>frexp_norm x\<bar> < 1"
proof (cases "x = 0")
  case True
  then show ?thesis by (simp add: frexp_norm_def)
next
  case False
  then have "\<bar>x\<bar> < pow2 (frexp_exp x)" using exponent_of_bounds by (simp add: frexp_exp_def)
  then show ?thesis by (simp add: frexp_norm_def abs_divide less_imp_le)
qed

lemma pow2_add_nat: "pow2 (e - int k) * 2 ^ k = pow2 e"
proof (induction k)
  case 0
  then show ?case by simp
next
  case (Suc k)
  have "pow2 (e - int k) = 2 * pow2 (e - int (Suc k))"
    using pow2_Suc [of "e - int (Suc k)"] by simp
  then show ?case using Suc.IH by simp
qed

lemma trunc_int_bound:
  assumes "\<bar>x\<bar> < of_int m"
  shows "\<bar>trunc_int x\<bar> < m"
proof (cases "0 \<le> x")
  case True
  then have "0 \<le> \<lfloor>x\<rfloor>" by simp
  moreover have "\<lfloor>x\<rfloor> < m" using assms by linarith
  ultimately show ?thesis using True by (simp add: trunc_int_def)
next
  case False
  then have "\<lceil>x\<rceil> \<le> 0" by (simp add: ceiling_le_zero)
  moreover have "- m < \<lceil>x\<rceil>" using assms by linarith
  ultimately show ?thesis using False by (simp add: trunc_int_def)
qed

lemma round_stochastically_cases:
  assumes "round_stochastically bits x k n = (Inr (Finite y), n')" and "- 128 \<le> frexp_exp x"
  shows "let s = frexp_norm x * 2 ^ k; t = of_int (trunc_int s); u = pow2 (frexp_exp x - int k)
    in y = t * u \<or> (y = (t + copysign_one s) * u \<and> \<bar>s - t\<bar> > 0)"
proof -
  have nn: "0 \<le> bits_to_unit_interval w" for w
    unfolding bits_to_unit_interval_def
    by (rule divide_nonneg_nonneg, simp only: of_int_0_le_iff uint_nonnegative, simp)
  have hi: "\<not> frexp_exp x > 127"
    using assms by (auto simp: round_stochastically_def Let_def)
  have lo: "\<not> frexp_exp x < - 128" using assms(2) by simp
  obtain w where w: "bits n = Some w"
    using assms(1) hi lo
    by (cases "bits n") (simp_all add: round_stochastically_def rand_uint64_def Let_def)
  define s t where "s = frexp_norm x * 2 ^ k" and "t = (of_int (trunc_int s) :: rat)"
  show ?thesis
  proof (cases "\<bar>s - t\<bar> > bits_to_unit_interval w")
    case True
    then have "\<bar>s - t\<bar> > 0" using nn [of w] by linarith
    moreover have "y = (t + copysign_one s) * pow2 (frexp_exp x - int k)"
      using assms(1) hi lo w True
      by (simp add: round_stochastically_def rand_uint64_def Let_def s_def t_def split: if_splits)
    ultimately show ?thesis by (simp add: Let_def s_def t_def)
  next
    case False
    then have "y = t * pow2 (frexp_exp x - int k)"
      using assms(1) hi lo w
      by (simp add: round_stochastically_def rand_uint64_def Let_def s_def t_def)
    then show ?thesis by (simp add: Let_def s_def t_def)
  qed
qed

text \<open>
  A finite result is a multiple of the unit 2 ^ (e - k) with at most k bits (the next power of two
  included), and is less than one unit away from the value.
\<close>

lemma round_stochastically_spec:
  assumes "round_stochastically bits x k n = (Inr (Finite y), n')" and "- 128 \<le> frexp_exp x"
  shows "\<exists>m :: int. y = of_int m * pow2 (frexp_exp x - int k) \<and> \<bar>m\<bar> \<le> 2 ^ k
    \<and> \<bar>y - x\<bar> < pow2 (frexp_exp x - int k)"
proof -
  define u where "u = pow2 (frexp_exp x - int k)"
  define s where "s = frexp_norm x * 2 ^ k"
  define t where "t = trunc_int s"
  have u: "0 < u" by (simp add: u_def)
  have pu: "u * 2 ^ k = pow2 (frexp_exp x)" unfolding u_def by (rule pow2_add_nat)
  have "s * u = frexp_norm x * (u * 2 ^ k)" by (simp add: s_def)
  then have x: "x = s * u" unfolding pu using pow2_pos [of "frexp_exp x"] by (simp add: frexp_norm_def)
  have sb: "\<bar>s\<bar> < 2 ^ k"
    using frexp_norm_bound [of x] by (simp add: s_def abs_mult)
  have tb: "\<bar>t\<bar> < 2 ^ k" unfolding t_def by (rule trunc_int_bound) (simp add: sb)
  have close: "\<bar>s - of_int t\<bar> < 1" unfolding t_def by (rule trunc_int_close)
  have c: "copysign_one s = of_int (if s < 0 then - 1 else 1)" by (simp add: copysign_one_def)
  have up: "\<bar>t + (if s < 0 then - 1 else 1)\<bar> \<le> 2 ^ k" using tb by auto
  have dist: "\<bar>v * u - x\<bar> = \<bar>v - s\<bar> * u" for v
  proof -
    have "v * u - x = (v - s) * u" by (simp add: x left_diff_distrib)
    then show ?thesis using u by (simp add: abs_mult)
  qed
  have "\<bar>of_int t * u - x\<bar> = \<bar>s - of_int t\<bar> * u"
    using dist [of "of_int t"] abs_minus_commute [of s "of_int t"] by simp
  then have e1: "\<bar>of_int t * u - x\<bar> < u" using close u by (simp add: mult_less_cancel_right2)
  have side: "of_int t \<le> s" "0 \<le> s" if "\<not> s < 0"
    using that trunc_int_toward_zero [of s] by (simp_all add: t_def)
  have side': "s \<le> of_int t" if "s < 0"
    using that by (simp add: t_def trunc_int_def)
  have cases: "y = of_int t * u \<or> (y = (of_int t + copysign_one s) * u \<and> \<bar>s - of_int t\<bar> > 0)"
    using round_stochastically_cases [OF assms] unfolding s_def t_def u_def by (simp only: Let_def)
  show ?thesis
  proof (cases "y = of_int t * u")
    case True
    then show ?thesis using tb e1 by (intro exI [of _ t]) (simp add: u_def)
  next
    case False
    with cases have y: "y = (of_int t + copysign_one s) * u" and ne: "\<bar>s - of_int t\<bar> > 0" by auto
    have "\<bar>(of_int t + copysign_one s) - s\<bar> < 1"
      using close ne side side' by (auto simp: copysign_one_def)
    moreover have "\<bar>y - x\<bar> = \<bar>(of_int t + copysign_one s) - s\<bar> * u"
      unfolding y by (rule dist)
    ultimately have "\<bar>y - x\<bar> < u" using u by simp
    then show ?thesis
      using up y c by (intro exI [of _ "t + (if s < 0 then - 1 else 1)"]) (simp add: u_def)
  qed
qed

end
