(* ===== verification/Reporting_Inputs.thy ===== *)
theory Reporting_Inputs
  imports Reporting_Util Noising
begin

text \<open>
  What reportResult() and reportWin() are told about an auction:
  \<open>auction_service/reporting/seller/\<close> and \<open>reporting/buyer/buyer_reporting_helper.cc\<close> for the
  split execution of the seller's and the buyer's code, and the signals of
  \<open>reporting/reporting_helper.cc\<close> for the joint one. A document under construction is the list of
  its members. Rounding may give an infinity, which RapidJSON stores and its writer then refuses.
\<close>

section \<open>Documents under construction\<close>

datatype ext_double = Fin f64 | Pos_inf | Neg_inf

datatype signal = Plain json | Infinite

type_synonym device_signals = "(string \<times> signal) list"

definition double_signal :: "ext_double \<Rightarrow> signal" where
  "double_signal r = (case r of Fin d \<Rightarrow> Plain (JDouble d) | _ \<Rightarrow> Infinite)"

definition above_minus_one :: "ext_double \<Rightarrow> bool" where
  "above_minus_one r \<longleftrightarrow> (case r of Fin d \<Rightarrow> - 1 < d | Pos_inf \<Rightarrow> True | Neg_inf \<Rightarrow> False)"

definition str_member :: "string \<Rightarrow> string \<Rightarrow> string \<times> signal" where
  "str_member k s = (k, Plain (JStr s))"

text \<open>Members that are added only when a string is not empty, or an optional has a value.\<close>

definition nonempty_member :: "string \<Rightarrow> string \<Rightarrow> device_signals" where
  "nonempty_member k s = (if s = [] then [] else [str_member k s])"

definition optional_member :: "string \<Rightarrow> string option \<Rightarrow> device_signals" where
  "optional_member k so = (case so of None \<Rightarrow> [] | Some s \<Rightarrow> [str_member k s])"

definition positive_member :: "string \<Rightarrow> nat \<Rightarrow> device_signals" where
  "positive_member k v = (if v > 0 then [(k, Plain (JInt (int v)))] else [])"

definition rounded_member :: "string \<Rightarrow> ext_double \<Rightarrow> device_signals" where
  "rounded_member k r = (if above_minus_one r then [(k, double_signal r)] else [])"

definition rounded_member_if_ok :: "string \<Rightarrow> ext_double status_or \<Rightarrow> device_signals" where
  "rounded_member_if_ok k r = (case r of Inl e \<Rightarrow> [] | Inr d \<Rightarrow> [(k, double_signal d)])"

text \<open>\<open>RemoveMember\<close> removes the first match and moves the last member into its place.\<close>

definition remove_member :: "string \<Rightarrow> device_signals \<Rightarrow> device_signals" where
  "remove_member k ms =
     (let i = length (takeWhile (\<lambda>m. fst m \<noteq> k) ms)
      in if i < length ms then butlast (ms[i := last ms]) else ms)"

fun plain_members :: "device_signals \<Rightarrow> (string \<times> json) list option" where
  "plain_members [] = Some []"
| "plain_members ((k, s) # ms) =
     (case s of
        Infinite \<Rightarrow> None
      | Plain v \<Rightarrow> (case plain_members ms of None \<Rightarrow> None | Some vs \<Rightarrow> Some ((k, v) # vs)))"

definition serialize_signals :: "libs \<Rightarrow> device_signals \<Rightarrow> string status_or" where
  "serialize_signals L ms =
     (case plain_members ms of
        None \<Rightarrow> Inl (json_status Write_error)
      | Some vs \<Rightarrow> serialize_json_doc L (JObj vs))"

section \<open>Rounding\<close>

definition round_to_k_bits ::
  "(nat \<Rightarrow> 64 word option) \<Rightarrow> f64 \<Rightarrow> nat \<Rightarrow> ext_double status_or \<times> nat" where
  "round_to_k_bits bits value n =
     (case round_stochastically bits value 8 n of
        (Inl e, n') \<Rightarrow> (Inl e, n')
      | (Inr (Finite d), n') \<Rightarrow> (Inr (Fin d), n')
      | (Inr Infinity, n') \<Rightarrow> (Inr (if value < 0 then Neg_inf else Pos_inf), n'))"

definition get_eight_bit_rounded_value ::
  "(nat \<Rightarrow> 64 word option) \<Rightarrow> f64 \<Rightarrow> nat \<Rightarrow> ext_double \<times> nat" where
  "get_eight_bit_rounded_value bits value n =
     (case round_to_k_bits bits value n of
        (Inl e, n') \<Rightarrow> (Fin (- 1), n')
      | (Inr d, n') \<Rightarrow> (d, n'))"

definition get_eight_bit_rounded_value_if ::
  "(nat \<Rightarrow> 64 word option) \<Rightarrow> bool \<Rightarrow> f64 \<Rightarrow> nat \<Rightarrow> ext_double \<times> nat" where
  "get_eight_bit_rounded_value_if bits enable_noising value n =
     (if \<not> enable_noising then (Fin value, n) else get_eight_bit_rounded_value bits value n)"

section \<open>The seller's signals\<close>

record component_reporting_metadata =
  crm_top_level_seller :: string
  crm_component_seller :: string
  crm_modified_bid_currency :: string
  crm_modified_bid :: f32

definition no_component_metadata :: component_reporting_metadata where
  "no_component_metadata =
     \<lparr>crm_top_level_seller = [], crm_component_seller = [], crm_modified_bid_currency = [],
      crm_modified_bid = 0\<rparr>"

record seller_dispatch_data =
  sdd_auction_config :: string
  sdd_signals :: post_auction_signals
  sdd_publisher_hostname :: string
  sdd_component :: component_reporting_metadata
  sdd_buyer_and_seller_reporting_id :: "string option"
  sdd_selected_buyer_and_seller_reporting_id :: "string option"

definition auction_members :: "seller_dispatch_data \<Rightarrow> device_signals" where
  "auction_members d =
     [str_member ''topWindowHostname'' (sdd_publisher_hostname d),
      str_member ''interestGroupOwner'' (pas_winning_ig_owner (sdd_signals d)),
      str_member ''renderURL'' (pas_winning_ad_render_url (sdd_signals d)),
      str_member ''renderUrl'' (pas_winning_ad_render_url (sdd_signals d))]"

definition generate_seller_device_signals ::
  "(nat \<Rightarrow> 64 word option) \<Rightarrow> seller_dispatch_data \<Rightarrow> nat \<Rightarrow> device_signals \<times> nat" where
  "generate_seller_device_signals bits d n =
     (let s = sdd_signals d;
          (bid, n1) = get_eight_bit_rounded_value bits
            (if pas_winning_bid_in_seller_currency s > 0 then pas_winning_bid_in_seller_currency s
             else pas_winning_bid s) n;
          (desirability, n2) = get_eight_bit_rounded_value bits (pas_winning_score s) n1
      in (auction_members d
            @ rounded_member ''bid'' bid
            @ nonempty_member ''bidCurrency'' (pas_winning_bid_currency s)
            @ positive_member ''dataVersion'' (pas_seller_data_version s)
            @ nonempty_member ''highestScoringOtherBidCurrency''
                (pas_highest_scoring_other_bid_currency s)
            @ rounded_member ''desirability'' desirability
            @ [(''highestScoringOtherBid'', Plain (JDouble (pas_highest_scoring_other_bid s)))]
            @ optional_member ''selectedBuyerAndSellerReportingId''
                (sdd_selected_buyer_and_seller_reporting_id d)
            @ optional_member ''buyerAndSellerReportingId'' (sdd_buyer_and_seller_reporting_id d),
          n2))"

definition generate_seller_device_signals_for_component_auction ::
  "(nat \<Rightarrow> 64 word option) \<Rightarrow> seller_dispatch_data \<Rightarrow> nat \<Rightarrow> device_signals \<times> nat" where
  "generate_seller_device_signals_for_component_auction bits d n =
     (let (ms, n1) = generate_seller_device_signals bits d n;
          (modified_bid, n2) = round_to_k_bits bits (crm_modified_bid (sdd_component d)) n1
      in (ms @ [str_member ''topLevelSeller'' (crm_top_level_seller (sdd_component d))]
             @ rounded_member_if_ok ''modifiedBid'' modified_bid,
          n2))"

text \<open>
  The desirability goes through \<open>GetEightBitRoundedValue\<close>, whose \<open>double\<close> always converts to an OK
  \<open>StatusOr\<close>: the error value -1 is added like any other.
\<close>

definition generate_seller_device_signals_for_top_level_auction ::
  "(nat \<Rightarrow> 64 word option) \<Rightarrow> seller_dispatch_data \<Rightarrow> nat \<Rightarrow> device_signals \<times> nat" where
  "generate_seller_device_signals_for_top_level_auction bits d n =
     (let s = sdd_signals d;
          (bid, n1) = round_to_k_bits bits (pas_winning_bid s) n;
          (desirability, n2) = get_eight_bit_rounded_value bits (pas_winning_score s) n1
      in (auction_members d
            @ rounded_member_if_ok ''bid'' bid
            @ rounded_member_if_ok ''desirability'' (Inr desirability)
            @ [str_member ''componentSeller'' (crm_component_seller (sdd_component d))],
          n2))"

section \<open>The buyer's signals\<close>

record buyer_dispatch_data =
  bdd_auction_config :: string
  bdd_buyer_signals :: string
  bdd_join_count :: "int option"
  bdd_recency :: "int option"
  bdd_modeling_signals :: "int option"
  bdd_seller :: string
  bdd_interest_group_name :: string
  bdd_ad_cost :: f64
  bdd_buyer_reporting_id :: "string option"
  bdd_buyer_and_seller_reporting_id :: "string option"
  bdd_selected_buyer_and_seller_reporting_id :: "string option"
  bdd_data_version :: nat
  bdd_made_highest_scoring_other_bid :: bool
  bdd_buyer_origin :: string
  bdd_signals_for_winner :: string
  bdd_winning_ad_render_url :: string
  bdd_egress_payload :: "string option"
  bdd_temporary_unlimited_egress_payload :: "string option"
  bdd_k_anon_status :: string

definition default_buyer_dispatch_data :: buyer_dispatch_data where
  "default_buyer_dispatch_data =
     \<lparr>bdd_auction_config = [], bdd_buyer_signals = [], bdd_join_count = None, bdd_recency = None,
      bdd_modeling_signals = None, bdd_seller = [], bdd_interest_group_name = [], bdd_ad_cost = 0,
      bdd_buyer_reporting_id = None, bdd_buyer_and_seller_reporting_id = None,
      bdd_selected_buyer_and_seller_reporting_id = None, bdd_data_version = 0,
      bdd_made_highest_scoring_other_bid = False, bdd_buyer_origin = [],
      bdd_signals_for_winner = ''null'', bdd_winning_ad_render_url = [],
      bdd_egress_payload = None, bdd_temporary_unlimited_egress_payload = None,
      bdd_k_anon_status = ''notCalculated''\<rparr>"

definition add_key_val_if_not_present :: "string \<Rightarrow> string \<Rightarrow> device_signals \<Rightarrow> device_signals" where
  "add_key_val_if_not_present k s ms =
     (if k \<in> fst ` set ms then ms else ms @ [str_member k s])"

definition set_reporting_ids :: "buyer_dispatch_data \<Rightarrow> device_signals \<Rightarrow> device_signals" where
  "set_reporting_ids d ms =
     (case bdd_selected_buyer_and_seller_reporting_id d of
        Some selected \<Rightarrow>
          (let ms1 = add_key_val_if_not_present ''selectedBuyerAndSellerReportingId'' selected ms;
               ms2 = (case bdd_buyer_and_seller_reporting_id d of
                        None \<Rightarrow> ms1
                      | Some s \<Rightarrow> add_key_val_if_not_present ''buyerAndSellerReportingId'' s ms1)
           in ms2 @ optional_member ''buyerReportingId'' (bdd_buyer_reporting_id d))
      | None \<Rightarrow>
          (case bdd_buyer_and_seller_reporting_id d of
             Some s \<Rightarrow> add_key_val_if_not_present ''buyerAndSellerReportingId'' s ms
           | None \<Rightarrow>
               (case bdd_buyer_reporting_id d of
                  Some s \<Rightarrow> add_key_val_if_not_present ''buyerReportingId'' s ms
                | None \<Rightarrow> ms @ [str_member ''interestGroupName'' (bdd_interest_group_name d)])))"

text \<open>A value that is reported noised, or not at all when the noise fails.\<close>

definition noised_member ::
  "string \<Rightarrow> (int \<Rightarrow> nat \<Rightarrow> (int status_or \<times> nat) option) \<Rightarrow> int option \<Rightarrow> nat
     \<Rightarrow> (device_signals \<times> nat) option" where
  "noised_member k f v n =
     (case v of
        None \<Rightarrow> Some ([], n)
      | Some i \<Rightarrow>
          (case f i n of
             None \<Rightarrow> None
           | Some (Inl e, n') \<Rightarrow> Some ([], n')
           | Some (Inr j, n') \<Rightarrow> Some ([(k, Plain (JInt j))], n')))"

definition noised_members ::
  "(nat \<Rightarrow> 64 word option) \<Rightarrow> buyer_dispatch_data \<Rightarrow> nat \<Rightarrow> (device_signals \<times> nat) option" where
  "noised_members bits d n =
     (case noised_member ''joinCount'' (noise_and_bucket_join_count bits) (bdd_join_count d) n of
        None \<Rightarrow> None
      | Some (ms1, n1) \<Rightarrow>
     (case noised_member ''recency'' (noise_and_bucket_recency bits) (bdd_recency d) n1 of
        None \<Rightarrow> None
      | Some (ms2, n2) \<Rightarrow>
     (case noised_member ''modelingSignals''
             (\<lambda>i. noise_and_mask_modeling_signals bits (word_of_int i)) (bdd_modeling_signals d) n2 of
        None \<Rightarrow> None
      | Some (ms3, n3) \<Rightarrow> Some (ms1 @ ms2 @ ms3, n3))))"

text \<open>
  \<open>GenerateBuyerDeviceSignals\<close> turns the seller's document into the buyer's; \<open>None\<close> when a draw of
  noise does not return. The document, which the code changes in place, is returned beside its text.
\<close>

definition generate_buyer_device_signals ::
  "libs \<Rightarrow> (nat \<Rightarrow> 64 word option) \<Rightarrow> buyer_dispatch_data \<Rightarrow> device_signals \<Rightarrow> nat
     \<Rightarrow> (string status_or \<times> device_signals \<times> nat) option" where
  "generate_buyer_device_signals L bits d ms n =
     (case noised_members bits d n of
        None \<Rightarrow> None
      | Some (noised, n1) \<Rightarrow>
          (let public = remove_member ''dataVersion''
                 (remove_member ''modifiedBid'' (remove_member ''desirability'' ms));
               (ad_cost, n2) = round_to_k_bits bits (bdd_ad_cost d) n1;
               ms' = set_reporting_ids d
                 (public
                  @ [(''madeHighestScoringOtherBid'',
                      Plain (JBool (bdd_made_highest_scoring_other_bid d)))]
                  @ noised
                  @ nonempty_member ''seller'' (bdd_seller d)
                  @ rounded_member_if_ok ''adCost'' ad_cost)
                 @ positive_member ''dataVersion'' (bdd_data_version d)
                 @ [str_member ''kAnonStatus'' (bdd_k_anon_status d)]
           in Some (serialize_signals L ms', ms', n2)))"

section \<open>The inputs of the joint execution (\<open>reporting_helper.cc\<close>)\<close>

record buyer_reporting_metadata =
  brm_buyer_signals :: string
  brm_join_count :: "int option"
  brm_recency :: "int option"
  brm_modeling_signals :: "int option"
  brm_seller :: string
  brm_interest_group_name :: string
  brm_ad_cost :: f64
  brm_buyer_reporting_id :: string
  brm_data_version :: nat

definition no_buyer_metadata :: buyer_reporting_metadata where
  "no_buyer_metadata =
     \<lparr>brm_buyer_signals = [], brm_join_count = None, brm_recency = None,
      brm_modeling_signals = None, brm_seller = [], brm_interest_group_name = [],
      brm_ad_cost = 0, brm_buyer_reporting_id = [], brm_data_version = 0\<rparr>"

record reporting_config =
  rdc_enable_report_win_url_generation :: bool
  rdc_enable_protected_app_signals :: bool
  rdc_enable_report_win_input_noising :: bool
  rdc_enable_adtech_code_logging :: bool
  rdc_report_result_udf_version :: string

record reporting_dispatch_data =
  rdd_handler_name :: string
  rdd_auction_config :: string
  rdd_signals :: post_auction_signals
  rdd_publisher_hostname :: string
  rdd_buyer :: buyer_reporting_metadata
  rdd_component :: component_reporting_metadata
  rdd_egress_payload :: string
  rdd_temporary_egress_payload :: string

definition get_seller_reporting_signals ::
  "libs \<Rightarrow> (nat \<Rightarrow> 64 word option) \<Rightarrow> reporting_dispatch_data \<Rightarrow> reporting_config \<Rightarrow> nat
     \<Rightarrow> string status_or \<times> nat" where
  "get_seller_reporting_signals L bits d cfg n =
     (let s = rdd_signals d; c = rdd_component d; noising = rdc_enable_report_win_input_noising cfg;
          (bid, n1) = get_eight_bit_rounded_value_if bits noising (pas_winning_bid s) n;
          (desirability, n2) = get_eight_bit_rounded_value_if bits noising (pas_winning_score s) n1;
          (top_level, n3) =
            (if crm_top_level_seller c = [] then ([], n2)
             else (let (modified_bid, n') =
                     get_eight_bit_rounded_value_if bits noising (crm_modified_bid c) n2
                   in ([str_member ''topLevelSeller'' (crm_top_level_seller c)]
                         @ rounded_member ''modifiedBid'' modified_bid
                         @ nonempty_member ''modifiedBidCurrency'' (crm_modified_bid_currency c),
                       n')))
      in (serialize_signals L
            ([str_member ''topWindowHostname'' (rdd_publisher_hostname d),
              str_member ''interestGroupOwner'' (pas_winning_ig_owner s),
              str_member ''renderURL'' (pas_winning_ad_render_url s),
              str_member ''renderUrl'' (pas_winning_ad_render_url s)]
             @ rounded_member ''bid'' bid
             @ nonempty_member ''bidCurrency'' (pas_winning_bid_currency s)
             @ positive_member ''dataVersion'' (pas_seller_data_version s)
             @ nonempty_member ''highestScoringOtherBidCurrency''
                 (pas_highest_scoring_other_bid_currency s)
             @ rounded_member ''desirability'' desirability
             @ [(''highestScoringOtherBid'', Plain (JDouble (pas_highest_scoring_other_bid s)))]
             @ top_level
             @ nonempty_member ''componentSeller'' (crm_component_seller c)),
          n3))"

definition newline :: char where
  "newline = CHR 0x0A"

definition default_buyer_reporting_metadata :: string where
  "default_buyer_reporting_metadata =
     newline # ''        {'' @ newline # ''          '' @ [CHR 0x22] @ ''enableReportWinUrlGeneration''
       @ [CHR 0x22] @ '' : false'' @ newline # ''        }'' @ newline # ''        ''"

text \<open>A value that is reported noised or, when noise is off or fails, as it is.\<close>

definition noised_or_raw_member ::
  "string \<Rightarrow> bool \<Rightarrow> (int \<Rightarrow> nat \<Rightarrow> (int status_or \<times> nat) option) \<Rightarrow> int option \<Rightarrow> nat
     \<Rightarrow> (device_signals \<times> nat) option" where
  "noised_or_raw_member k noising f v n =
     (case v of
        None \<Rightarrow> Some ([], n)
      | Some i \<Rightarrow>
          if \<not> noising then Some ([(k, Plain (JInt i))], n)
          else
            (case f i n of
               None \<Rightarrow> None
             | Some (Inl e, n') \<Rightarrow> Some ([(k, Plain (JInt i))], n')
             | Some (Inr j, n') \<Rightarrow> Some ([(k, Plain (JInt j))], n')))"

definition reporting_noised_members ::
  "(nat \<Rightarrow> 64 word option) \<Rightarrow> bool \<Rightarrow> buyer_reporting_metadata \<Rightarrow> nat
     \<Rightarrow> (device_signals \<times> nat) option" where
  "reporting_noised_members bits noising b n =
     (case noised_or_raw_member ''joinCount'' noising (noise_and_bucket_join_count bits)
             (brm_join_count b) n of
        None \<Rightarrow> None
      | Some (ms1, n1) \<Rightarrow>
     (case noised_or_raw_member ''recency'' noising (noise_and_bucket_recency bits)
             (brm_recency b) n1 of
        None \<Rightarrow> None
      | Some (ms2, n2) \<Rightarrow>
     (case (if noising then
              noised_member ''modelingSignals''
                (\<lambda>i. noise_and_mask_modeling_signals bits (word_of_int i)) (brm_modeling_signals b) n2
            else
              Some (case brm_modeling_signals b of
                      None \<Rightarrow> [] | Some i \<Rightarrow> [(''modelingSignals'', Plain (JInt i))], n2)) of
        None \<Rightarrow> None
      | Some (ms3, n3) \<Rightarrow> Some (ms1 @ ms2 @ ms3, n3))))"

definition get_buyer_metadata_json ::
  "libs \<Rightarrow> (nat \<Rightarrow> 64 word option) \<Rightarrow> reporting_config \<Rightarrow> reporting_dispatch_data \<Rightarrow> nat
     \<Rightarrow> (string \<times> nat) option" where
  "get_buyer_metadata_json L bits cfg d n =
     (if \<not> rdc_enable_report_win_url_generation cfg then Some (default_buyer_reporting_metadata, n)
      else
        (let b = rdd_buyer d; s = rdd_signals d; noising = rdc_enable_report_win_input_noising cfg
         in case reporting_noised_members bits noising b n of
              None \<Rightarrow> None
            | Some (noised, n1) \<Rightarrow>
                (let (ad_cost, n2) = get_eight_bit_rounded_value_if bits noising (brm_ad_cost b) n1;
                     ms = [(''enableReportWinUrlGeneration'', Plain (JBool True)),
                           (''enableProtectedAppSignals'',
                            Plain (JBool (rdc_enable_protected_app_signals cfg)))]
                       @ (if brm_buyer_signals b = [] then []
                          else (case parse_json_string L (brm_buyer_signals b) of
                                  Inl e \<Rightarrow> []
                                | Inr v \<Rightarrow> [(''perBuyerSignals'', Plain v)]))
                       @ [str_member ''buyerOrigin'' (pas_winning_ig_owner s),
                          (''madeHighestScoringOtherBid'',
                           Plain (JBool (pas_made_highest_scoring_other_bid s)))]
                       @ noised
                       @ nonempty_member ''seller'' (brm_seller b)
                       @ rounded_member ''adCost'' ad_cost
                       @ [if brm_buyer_reporting_id b \<noteq> []
                          then str_member ''buyerReportingId'' (brm_buyer_reporting_id b)
                          else str_member ''interestGroupName'' (brm_interest_group_name b)]
                       @ positive_member ''dataVersion'' (brm_data_version b)
                 in Some (case serialize_signals L ms of
                            Inl e \<Rightarrow> default_buyer_reporting_metadata | Inr t \<Rightarrow> t, n2))))"

text \<open>
  The arguments of reportingEntryFunction(); none when the seller's signals do not serialise. The
  flag is \<open>FLAGS_enable_temporary_unlimited_egress\<close>.
\<close>

definition quoted :: "string \<Rightarrow> string" where
  "quoted s = [CHR 0x22] @ s @ [CHR 0x22]"

definition bool_string :: "bool \<Rightarrow> string" where
  "bool_string b = (if b then ''true'' else ''false'')"

definition get_reporting_input ::
  "libs \<Rightarrow> (nat \<Rightarrow> 64 word option) \<Rightarrow> bool \<Rightarrow> reporting_config \<Rightarrow> reporting_dispatch_data \<Rightarrow> nat
     \<Rightarrow> (string list \<times> nat) option" where
  "get_reporting_input L bits temporary_egress cfg d n =
     (case get_seller_reporting_signals L bits d cfg n of
        (Inl e, n1) \<Rightarrow> Some ([], n1)
      | (Inr seller_signals, n1) \<Rightarrow>
          (case get_buyer_metadata_json L bits cfg d n1 of
             None \<Rightarrow> None
           | Some (buyer_metadata, n2) \<Rightarrow>
               Some ([rdd_auction_config d, seller_signals, ''{}'',
                      bool_string (rdc_enable_adtech_code_logging cfg), buyer_metadata]
                 @ (if rdc_enable_protected_app_signals cfg then
                      [quoted (rdd_egress_payload d),
                       if temporary_egress then quoted (rdd_temporary_egress_payload d)
                       else quoted []]
                    else []), n2)))"

section \<open>The members of the documents\<close>

text \<open>A piece of a document that holds at most one member, of a known name.\<close>

definition one_member :: "string \<Rightarrow> device_signals \<Rightarrow> bool" where
  "one_member k ms \<longleftrightarrow> ms = [] \<or> (\<exists>s. ms = [(k, s)])"

lemma one_member_simps [simp]:
  "one_member k []" "one_member k [(k', s)] \<longleftrightarrow> k' = k" "one_member k [str_member k' t] \<longleftrightarrow> k' = k"
  "one_member k (nonempty_member k t)" "one_member k (optional_member k so)"
  "one_member k (positive_member k v)" "one_member k (rounded_member k r)"
  "one_member k (rounded_member_if_ok k e)"
  by (auto simp: one_member_def str_member_def nonempty_member_def optional_member_def
      positive_member_def rounded_member_def rounded_member_if_ok_def split: option.split sum.split)

lemma one_members_distinct:
  "list_all2 one_member ks mss \<Longrightarrow> distinct ks \<Longrightarrow>
     distinct (map fst (concat mss)) \<and> fst ` set (concat mss) \<subseteq> set ks"
proof (induction rule: list_all2_induct)
  case (Cons k ks ms mss)
  then have IH: "distinct (map fst (concat mss))" "fst ` set (concat mss) \<subseteq> set ks" by auto
  moreover have "distinct (map fst ms)" "fst ` set ms \<subseteq> {k}"
    using Cons.hyps(1) by (auto simp: one_member_def)
  moreover have "k \<notin> set ks" using Cons.prems by simp
  ultimately show ?case by auto
qed simp

definition seller_tags :: "string list" where
  "seller_tags =
     [''topWindowHostname'', ''interestGroupOwner'', ''renderURL'', ''renderUrl'', ''bid'',
      ''bidCurrency'', ''dataVersion'', ''highestScoringOtherBidCurrency'', ''desirability'',
      ''highestScoringOtherBid'', ''selectedBuyerAndSellerReportingId'',
      ''buyerAndSellerReportingId'']"

definition seller_document :: "device_signals \<Rightarrow> bool" where
  "seller_document ms \<longleftrightarrow>
     distinct (map fst ms) \<and> fst ` set ms \<subseteq> set (seller_tags @ [''topLevelSeller'', ''modifiedBid'', ''componentSeller''])"

lemma seller_signals_members:
  "distinct (map fst (fst (generate_seller_device_signals bits d n)))
   \<and> fst ` set (fst (generate_seller_device_signals bits d n)) \<subseteq> set seller_tags"
proof -
  obtain bid n1 where b: "get_eight_bit_rounded_value bits
      (if pas_winning_bid_in_seller_currency (sdd_signals d) > 0
       then pas_winning_bid_in_seller_currency (sdd_signals d) else pas_winning_bid (sdd_signals d)) n
      = (bid, n1)" by fastforce
  obtain des n2 where s: "get_eight_bit_rounded_value bits (pas_winning_score (sdd_signals d)) n1 = (des, n2)"
    by fastforce
  let ?mss = "[[str_member ''topWindowHostname'' (sdd_publisher_hostname d)],
      [str_member ''interestGroupOwner'' (pas_winning_ig_owner (sdd_signals d))],
      [str_member ''renderURL'' (pas_winning_ad_render_url (sdd_signals d))],
      [str_member ''renderUrl'' (pas_winning_ad_render_url (sdd_signals d))],
      rounded_member ''bid'' bid, nonempty_member ''bidCurrency'' (pas_winning_bid_currency (sdd_signals d)),
      positive_member ''dataVersion'' (pas_seller_data_version (sdd_signals d)),
      nonempty_member ''highestScoringOtherBidCurrency''
        (pas_highest_scoring_other_bid_currency (sdd_signals d)),
      rounded_member ''desirability'' des,
      [(''highestScoringOtherBid'', Plain (JDouble (pas_highest_scoring_other_bid (sdd_signals d))))],
      optional_member ''selectedBuyerAndSellerReportingId''
        (sdd_selected_buyer_and_seller_reporting_id d),
      optional_member ''buyerAndSellerReportingId'' (sdd_buyer_and_seller_reporting_id d)]"
  have "fst (generate_seller_device_signals bits d n) = concat ?mss"
    using b s by (simp add: generate_seller_device_signals_def auction_members_def Let_def)
  moreover have "list_all2 one_member seller_tags ?mss" by (simp add: seller_tags_def)
  moreover have "distinct seller_tags" by (simp add: seller_tags_def)
  ultimately show ?thesis using one_members_distinct by metis
qed

lemma seller_signals_document: "seller_document (fst (generate_seller_device_signals bits d n))"
  using seller_signals_members [of bits d n] by (auto simp: seller_document_def)

lemma component_signals_document:
  "seller_document (fst (generate_seller_device_signals_for_component_auction bits d n))"
proof -
  obtain ms n1 where ms: "generate_seller_device_signals bits d n = (ms, n1)" by fastforce
  obtain r n2 where r: "round_to_k_bits bits (crm_modified_bid (sdd_component d)) n1 = (r, n2)" by fastforce
  have split: "fst (generate_seller_device_signals_for_component_auction bits d n)
      = ms @ concat [[str_member ''topLevelSeller'' (crm_top_level_seller (sdd_component d))],
          rounded_member_if_ok ''modifiedBid'' r]"
    using ms r by (simp add: generate_seller_device_signals_for_component_auction_def)
  have new: "distinct (map fst (concat [[str_member ''topLevelSeller'' (crm_top_level_seller (sdd_component d))],
          rounded_member_if_ok ''modifiedBid'' r]))
      \<and> fst ` set (concat [[str_member ''topLevelSeller'' (crm_top_level_seller (sdd_component d))],
          rounded_member_if_ok ''modifiedBid'' r]) \<subseteq> set [''topLevelSeller'', ''modifiedBid'']"
    by (rule one_members_distinct) simp_all
  have old: "distinct (map fst ms)" "fst ` set ms \<subseteq> set seller_tags"
    using seller_signals_members [of bits d n] ms by simp_all
  have "set seller_tags \<inter> set [''topLevelSeller'', ''modifiedBid''] = {}"
    by (simp add: seller_tags_def)
  then have "fst ` set ms \<inter> fst ` set (concat [[str_member ''topLevelSeller''
      (crm_top_level_seller (sdd_component d))], rounded_member_if_ok ''modifiedBid'' r]) = {}"
    using new old by blast
  then show ?thesis using new old unfolding split seller_document_def by auto
qed

lemma top_level_signals_document:
  "seller_document (fst (generate_seller_device_signals_for_top_level_auction bits d n))"
proof -
  obtain bid n1 where b: "round_to_k_bits bits (pas_winning_bid (sdd_signals d)) n = (bid, n1)" by fastforce
  obtain des n2 where s: "get_eight_bit_rounded_value bits (pas_winning_score (sdd_signals d)) n1 = (des, n2)"
    by fastforce
  let ?mss = "[[str_member ''topWindowHostname'' (sdd_publisher_hostname d)],
      [str_member ''interestGroupOwner'' (pas_winning_ig_owner (sdd_signals d))],
      [str_member ''renderURL'' (pas_winning_ad_render_url (sdd_signals d))],
      [str_member ''renderUrl'' (pas_winning_ad_render_url (sdd_signals d))],
      rounded_member_if_ok ''bid'' bid, rounded_member_if_ok ''desirability'' (Inr des),
      [str_member ''componentSeller'' (crm_component_seller (sdd_component d))]]"
  let ?ks = "[''topWindowHostname'', ''interestGroupOwner'', ''renderURL'', ''renderUrl'', ''bid'',
      ''desirability'', ''componentSeller'']"
  have doc: "fst (generate_seller_device_signals_for_top_level_auction bits d n) = concat ?mss"
    using b s
    by (simp add: generate_seller_device_signals_for_top_level_auction_def auction_members_def Let_def)
  have keys: "distinct (map fst (concat ?mss)) \<and> fst ` set (concat ?mss) \<subseteq> set ?ks"
    by (rule one_members_distinct) simp_all
  have "set ?ks \<subseteq> set (seller_tags @ [''topLevelSeller'', ''modifiedBid'', ''componentSeller''])"
    by (simp add: seller_tags_def)
  with conjunct2 [OF keys]
  have "fst ` set (concat ?mss) \<subseteq> set (seller_tags @ [''topLevelSeller'', ''modifiedBid'', ''componentSeller''])"
    by (rule subset_trans)
  with conjunct1 [OF keys] show ?thesis unfolding seller_document_def doc by (rule conjI)
qed

text \<open>Removing a member, on a document whose names are distinct.\<close>

lemma mset_butlast_update:
  assumes "i < length ms"
  shows "mset (butlast (ms[i := last ms])) = mset ms - {#ms ! i#}"
proof (cases ms rule: rev_cases)
  case (snoc ys y)
  show ?thesis
  proof (cases "i = length ys")
    case True
    then show ?thesis using snoc by simp
  next
    case False
    then have "i < length ys" using assms snoc by simp
    then show ?thesis using snoc by (simp add: list_update_append mset_update nth_append)
  qed
qed (use assms in simp)

lemma remove_member_mset:
  assumes "k \<in> fst ` set ms"
  obtains s where "(k, s) \<in> set ms" "mset (remove_member k ms) = mset ms - {#(k, s)#}"
proof -
  let ?i = "length (takeWhile (\<lambda>m. fst m \<noteq> k) ms)"
  have i: "?i < length ms" using assms by (induction ms) auto
  have "\<not> fst (ms ! ?i) \<noteq> k" using nth_length_takeWhile [OF i] .
  then obtain s where s: "ms ! ?i = (k, s)" by (metis prod.collapse)
  have "mset (remove_member k ms) = mset ms - {#(k, s)#}"
    using i mset_butlast_update [OF i] by (simp add: remove_member_def s)
  moreover have "(k, s) \<in> set ms" using i s nth_mem by metis
  ultimately show thesis using that by blast
qed

lemma remove_member_absent: "k \<notin> fst ` set ms \<Longrightarrow> remove_member k ms = ms"
proof -
  assume "k \<notin> fst ` set ms"
  then have "length (takeWhile (\<lambda>m. fst m \<noteq> k) ms) = length ms" by (induction ms) auto
  then show ?thesis by (simp add: remove_member_def)
qed

lemma remove_member_distinct:
  assumes "distinct (map fst ms)"
  shows "distinct (map fst (remove_member k ms))"
    and "set (remove_member k ms) = {m \<in> set ms. fst m \<noteq> k}"
proof -
  have "distinct (map fst (remove_member k ms)) \<and> set (remove_member k ms) = {m \<in> set ms. fst m \<noteq> k}"
  proof (cases "k \<in> fst ` set ms")
    case False
    then show ?thesis using assms by (auto simp: remove_member_absent)
  next
    case True
    then obtain s where s: "(k, s) \<in> set ms" "mset (remove_member k ms) = mset ms - {#(k, s)#}"
      by (rule remove_member_mset)
    obtain us vs where ms: "ms = us @ (k, s) # vs" using s(1) by (meson split_list)
    have m: "mset (remove_member k ms) = mset (us @ vs)" using s(2) ms by simp
    have d: "distinct (map fst (us @ vs))" "k \<notin> fst ` set (us @ vs)" using assms ms by auto
    have "mset (map fst (remove_member k ms)) = mset (map fst (us @ vs))" using m by (metis mset_map)
    then have "distinct (map fst (remove_member k ms))" using d(1) mset_eq_imp_distinct_iff by blast
    moreover have "set (remove_member k ms) = set (us @ vs)" using m mset_eq_setD by blast
    moreover have "set (us @ vs) = {m \<in> set ms. fst m \<noteq> k}" using ms d(2) by auto
    ultimately show ?thesis by simp
  qed
  then show "distinct (map fst (remove_member k ms))"
    "set (remove_member k ms) = {m \<in> set ms. fst m \<noteq> k}" by simp_all
qed

section \<open>What the buyer's document contains\<close>

definition reporting_id_tags :: "string set" where
  "reporting_id_tags =
     {''selectedBuyerAndSellerReportingId'', ''buyerAndSellerReportingId'', ''buyerReportingId'',
      ''interestGroupName''}"

definition no_reporting_id :: "buyer_dispatch_data \<Rightarrow> bool" where
  "no_reporting_id d \<longleftrightarrow>
     bdd_selected_buyer_and_seller_reporting_id d = None
     \<and> bdd_buyer_and_seller_reporting_id d = None \<and> bdd_buyer_reporting_id d = None"

lemma add_key_val_members:
  "distinct (map fst ms) \<Longrightarrow> distinct (map fst (add_key_val_if_not_present k s ms))"
  "fst ` set (add_key_val_if_not_present k s ms) = insert k (fst ` set ms)"
  by (auto simp: add_key_val_if_not_present_def str_member_def)

lemma set_reporting_ids_members:
  assumes "distinct (map fst ms)" "''buyerReportingId'' \<notin> fst ` set ms"
    "''interestGroupName'' \<notin> fst ` set ms"
  shows "distinct (map fst (set_reporting_ids d ms))"
    and "fst ` set (set_reporting_ids d ms) \<subseteq> fst ` set ms \<union> reporting_id_tags"
    and "''interestGroupName'' \<in> fst ` set (set_reporting_ids d ms) \<longleftrightarrow> no_reporting_id d"
  using assms
  by (auto simp: set_reporting_ids_def reporting_id_tags_def no_reporting_id_def add_key_val_members
      str_member_def optional_member_def Let_def split: option.split)

lemma noised_member_one: "noised_member k f v n = Some (ms, n') \<Longrightarrow> one_member k ms"
  by (auto simp: noised_member_def split: option.splits sum.splits)

lemma noised_members_shape:
  assumes "noised_members bits d n = Some (ms, n')"
  obtains ms1 ms2 ms3 where "ms = ms1 @ ms2 @ ms3" "one_member ''joinCount'' ms1"
    "one_member ''recency'' ms2" "one_member ''modelingSignals'' ms3"
  using assms noised_member_one
  by (auto simp: noised_members_def split: option.splits prod.splits)

definition buyer_tags :: "string list" where
  "buyer_tags =
     [''madeHighestScoringOtherBid'', ''joinCount'', ''recency'', ''modelingSignals'', ''seller'',
      ''adCost'']"

definition buyer_document :: "buyer_dispatch_data \<Rightarrow> device_signals \<Rightarrow> bool" where
  "buyer_document d ms \<longleftrightarrow>
     distinct (map fst ms)
     \<and> ''desirability'' \<notin> fst ` set ms \<and> ''modifiedBid'' \<notin> fst ` set ms
     \<and> map_of ms ''dataVersion''
         = (if bdd_data_version d > 0 then Some (Plain (JInt (int (bdd_data_version d)))) else None)
     \<and> (''interestGroupName'' \<in> fst ` set ms \<longleftrightarrow> no_reporting_id d)"

lemma disjoint_from_two: "a \<notin> A \<Longrightarrow> b \<notin> A \<Longrightarrow> B \<subseteq> {a, b} \<Longrightarrow> A \<inter> B = {}"
  by blast

lemma generate_buyer_document:
  assumes doc: "seller_document ms"
    and run: "generate_buyer_device_signals L bits d ms n = Some (r, ms', n')"
  shows "buyer_document d ms'" and "r = serialize_signals L ms'"
proof -
  from run obtain noised n1 where noised: "noised_members bits d n = Some (noised, n1)"
    by (auto simp: generate_buyer_device_signals_def split: option.splits)
  obtain cost n2 where cost: "round_to_k_bits bits (bdd_ad_cost d) n1 = (cost, n2)" by fastforce
  define public where "public = remove_member ''dataVersion''
    (remove_member ''modifiedBid'' (remove_member ''desirability'' ms))"
  define added where "added =
    [(''madeHighestScoringOtherBid'', Plain (JBool (bdd_made_highest_scoring_other_bid d)))]
      @ noised @ nonempty_member ''seller'' (bdd_seller d) @ rounded_member_if_ok ''adCost'' cost"
  define last_members where "last_members = concat
    [positive_member ''dataVersion'' (bdd_data_version d), [str_member ''kAnonStatus'' (bdd_k_anon_status d)]]"
  have ms': "ms' = set_reporting_ids d (public @ added) @ last_members"
    and r: "r = serialize_signals L ms'"
    using run noised cost
    by (auto simp: generate_buyer_device_signals_def Let_def public_def added_def last_members_def)
  have dm: "distinct (map fst ms)" using doc by (simp add: seller_document_def)
  have public: "distinct (map fst public)"
    "set public = {m \<in> set ms. fst m \<notin> {''desirability'', ''modifiedBid'', ''dataVersion''}}"
    unfolding public_def by (auto simp: remove_member_distinct dm)
  obtain ms1 ms2 ms3 where pieces: "noised = ms1 @ ms2 @ ms3" "one_member ''joinCount'' ms1"
    "one_member ''recency'' ms2" "one_member ''modelingSignals'' ms3"
    using noised by (rule noised_members_shape)
  have "distinct (map fst added) \<and> fst ` set added \<subseteq> set buyer_tags"
  proof -
    let ?mss = "[[(''madeHighestScoringOtherBid'', Plain (JBool (bdd_made_highest_scoring_other_bid d)))],
      ms1, ms2, ms3, nonempty_member ''seller'' (bdd_seller d), rounded_member_if_ok ''adCost'' cost]"
    have "list_all2 one_member buyer_tags ?mss" using pieces by (simp add: buyer_tags_def)
    moreover have "distinct buyer_tags" by (simp add: buyer_tags_def)
    moreover have "added = concat ?mss" by (simp add: added_def pieces)
    ultimately show ?thesis using one_members_distinct by metis
  qed
  note added = this
  have old: "fst ` set public \<subseteq> set (seller_tags @ [''topLevelSeller'', ''componentSeller''])
      - {''desirability'', ''modifiedBid'', ''dataVersion''}"
    using doc public(2) by (auto simp: seller_document_def)
  have disj: "set (seller_tags @ [''topLevelSeller'', ''componentSeller'']) \<inter> set buyer_tags = {}"
    by (simp add: seller_tags_def buyer_tags_def)
  have "fst ` set public \<inter> fst ` set added = {}" using added old disj by blast
  then have base: "distinct (map fst (public @ added))" using public(1) added by simp
  have keys: "fst ` set (public @ added) \<subseteq> (set (seller_tags @ [''topLevelSeller'', ''componentSeller''])
      - {''desirability'', ''modifiedBid'', ''dataVersion''}) \<union> set buyer_tags"
    using old added by auto
  have fresh: "x \<notin> fst ` set (public @ added)"
    if "x \<in> {''buyerReportingId'', ''interestGroupName'', ''desirability'', ''modifiedBid'',
          ''dataVersion'', ''kAnonStatus''}" for x
  proof -
    have "x \<notin> (set (seller_tags @ [''topLevelSeller'', ''componentSeller'']) - {''desirability'', ''modifiedBid'', ''dataVersion''})
        \<union> set buyer_tags"
      using that unfolding seller_tags_def buyer_tags_def by (elim insertE) simp_all
    then show ?thesis using keys by blast
  qed
  have ids: "distinct (map fst (set_reporting_ids d (public @ added)))"
    "fst ` set (set_reporting_ids d (public @ added)) \<subseteq> fst ` set (public @ added) \<union> reporting_id_tags"
    "''interestGroupName'' \<in> fst ` set (set_reporting_ids d (public @ added)) \<longleftrightarrow> no_reporting_id d"
    using set_reporting_ids_members [OF base fresh fresh] by blast+
  have fresh': "x \<notin> fst ` set (set_reporting_ids d (public @ added))"
    if "x \<in> {''desirability'', ''modifiedBid'', ''dataVersion'', ''kAnonStatus''}" for x
  proof -
    have "x \<notin> reporting_id_tags" using that unfolding reporting_id_tags_def by (elim insertE) simp_all
    moreover have "x \<notin> fst ` set (public @ added)" using that by (intro fresh) blast
    ultimately show ?thesis using ids(2) by blast
  qed
  have last: "distinct (map fst last_members) \<and> fst ` set last_members \<subseteq> set [''dataVersion'', ''kAnonStatus'']"
    unfolding last_members_def by (rule one_members_distinct) simp_all
  have keys': "fst ` set ms' = fst ` set (set_reporting_ids d (public @ added)) \<union> fst ` set last_members"
    by (simp add: ms' image_Un)
  have "''dataVersion'' \<notin> fst ` set (set_reporting_ids d (public @ added))"
    "''kAnonStatus'' \<notin> fst ` set (set_reporting_ids d (public @ added))"
    by (rule fresh'; simp)+
  moreover have "fst ` set last_members \<subseteq> {''dataVersion'', ''kAnonStatus''}" using last by simp
  ultimately have "fst ` set (set_reporting_ids d (public @ added)) \<inter> fst ` set last_members = {}"
    by (rule disjoint_from_two)
  then have "distinct (map fst ms')" using ids(1) last by (simp add: ms')
  moreover have "''desirability'' \<notin> fst ` set ms'" "''modifiedBid'' \<notin> fst ` set ms'"
    unfolding keys' using fresh' [of "''desirability''"] fresh' [of "''modifiedBid''"] last by auto
  moreover have "map_of ms' ''dataVersion''
      = (if bdd_data_version d > 0 then Some (Plain (JInt (int (bdd_data_version d)))) else None)"
  proof -
    have "map_of (set_reporting_ids d (public @ added)) ''dataVersion'' = None"
      using fresh' [of "''dataVersion''"] by (simp add: map_of_eq_None_iff)
    then show ?thesis
      by (simp add: ms' map_add_def last_members_def positive_member_def str_member_def)
  qed
  moreover have "''interestGroupName'' \<in> fst ` set ms' \<longleftrightarrow> no_reporting_id d"
    unfolding keys' using ids(3) last by auto
  ultimately show "buyer_document d ms'" by (simp add: buyer_document_def)
  show "r = serialize_signals L ms'" by (rule r)
qed

end
