(* ===== verification/Scoring_Signals.thy ===== *)
theory Scoring_Signals
  imports Reporting_Util
begin

text \<open>
  The trusted scoring signals of \<open>services/auction_service/utils/proto_utils.cc\<close>: the key/value
  server's answer is cut into one JSON object per render URL, which holds the signals of the ad
  and of its component ads. The code moves a component's signals when one ad uses them and copies
  them when several do; a moved-from document is null. The model keeps the moves, and the lemmas
  show that they are never observable.
\<close>

section \<open>The steps\<close>

type_synonym signals_map = "string \<rightharpoonup> json"

definition object_members :: "json \<Rightarrow> (string \<times> json) list" where
  "object_members v = (case v of JObj ms \<Rightarrow> ms | _ \<Rightarrow> [])"

definition build_ad_scoring_signals_map :: "json \<Rightarrow> signals_map" where
  "build_ad_scoring_signals_map v =
     fold (\<lambda>(url, w). \<lambda>m. fst (try_emplace url (JObj [(url, w)]) m)) (object_members v) Map.empty"

text \<open>\<open>FindSharedComponentUrls\<close>: the occurrence counts and the set built from them.\<close>

definition count_url :: "string \<Rightarrow> (string \<Rightarrow> nat) \<times> string set \<Rightarrow> (string \<Rightarrow> nat) \<times> string set" where
  "count_url url st =
     (let occ = (fst st)(url := Suc (fst st url))
      in (occ, if occ url > 1 then insert url (snd st) else snd st))"

definition find_shared_component_urls :: "ad_with_bid list \<Rightarrow> string set" where
  "find_shared_component_urls ads =
     snd (fold count_url (concat (map aw_ad_components ads)) (\<lambda>_. 0, {}))"

text \<open>
  The loop of \<open>AddComponentSignals\<close> over the component URLs of one ad: the members collected so
  far, the component signals (updated by moves) and the number of signals added.
\<close>

fun add_components ::
  "string list \<Rightarrow> string set \<Rightarrow> (string \<times> json) list \<Rightarrow> signals_map \<Rightarrow> nat
     \<Rightarrow> (string \<times> json) list status_or \<times> signals_map \<times> nat" where
  "add_components [] shared acc m n = (Inr acc, m, n)"
| "add_components (url # urls) shared acc m n =
     (case m url of
        None \<Rightarrow> add_components urls shared acc m n
      | Some doc \<Rightarrow>
          (let m' = (if url \<in> shared then m else m(url \<mapsto> JNull))
           in case find_member doc url of
                None \<Rightarrow>
                  (Inl (internal_error ''Internal error while processing trusted scoring signals.''),
                   m', n)
              | Some w \<Rightarrow> add_components urls shared (acc @ [(url, w)]) m' (Suc n)))"

definition add_component_signals ::
  "ad_with_bid \<Rightarrow> string set \<Rightarrow> signals_map \<Rightarrow> nat \<Rightarrow> json status_or \<times> signals_map \<times> nat" where
  "add_component_signals ad shared m n =
     (case add_components (aw_ad_components ad) shared [] m n of
        (Inl e, m', n') \<Rightarrow> (Inl e, m', n')
      | (Inr acc, m', n') \<Rightarrow> (Inr (JObj [(''adComponentRenderUrls'', JObj acc)]), m', n'))"

text \<open>The loop of \<open>BuildTrustedScoringSignals\<close> over the ads with bids.\<close>

fun combine_signals ::
  "ad_with_bid list \<Rightarrow> string set \<Rightarrow> signals_map \<Rightarrow> signals_map \<Rightarrow> signals_map
     \<Rightarrow> (signals_map \<times> signals_map) status_or" where
  "combine_signals [] shared csig render combined = Inr (render, combined)"
| "combine_signals (ad # ads) shared csig render combined =
     (case add_component_signals ad shared csig 0 of
        (Inl e, _, _) \<Rightarrow> Inl e
      | (Inr doc, csig', n) \<Rightarrow>
          (let (doc', render', n') =
             (case render (aw_render ad) of
                None \<Rightarrow> (doc, render, n)
              | Some r \<Rightarrow> (add_member doc ''renderUrl'' r, render(aw_render ad \<mapsto> JNull), Suc n))
           in combine_signals ads shared csig' render'
                (if n' > 0 then fst (try_emplace (aw_render ad) doc' combined) else combined)))"

text \<open>\<open>MayPopulateScoringSignalsForProtectedAppSignals\<close>.\<close>

fun may_populate_pas_signals ::
  "pas_ad_with_bid list \<Rightarrow> signals_map \<Rightarrow> signals_map \<Rightarrow> signals_map" where
  "may_populate_pas_signals [] render combined = combined"
| "may_populate_pas_signals (ad # ads) render combined =
     (case render (pas_render ad) of
        None \<Rightarrow> may_populate_pas_signals ads render combined
      | Some r \<Rightarrow>
          may_populate_pas_signals ads (render(pas_render ad \<mapsto> JNull))
            (fst (try_emplace (pas_render ad) (JObj [(''renderUrl'', r)]) combined)))"

definition format_signals :: "libs \<Rightarrow> signals_map \<Rightarrow> (string \<rightharpoonup> string)" where
  "format_signals L m =
     (\<lambda>url. map_option (\<lambda>doc. case json_write L doc of Some s \<Rightarrow> s | None \<Rightarrow> []) (m url))"

definition build_trusted_scoring_signals ::
  "libs \<Rightarrow> score_ads_raw_request \<Rightarrow> bool \<Rightarrow> (string \<rightharpoonup> string) status_or" where
  "build_trusted_scoring_signals L rq require_scoring_signals =
     (if rq_scoring_signals rq = []
      then Inl (invalid_argument ''Empty trusted scoring signals'')
      else
        (case json_parse L (rq_scoring_signals rq) of
           None \<Rightarrow> Inl (invalid_argument ''Malformed trusted scoring signals'')
         | Some v \<Rightarrow>
             if \<not> is_object v
             then Inl (invalid_argument ''Malformed trusted scoring signals'')
             else if require_scoring_signals \<and> find_member v ''renderUrls'' = None
             then Inl (invalid_argument
                         ''Trusted scoring signals are required but include no render urls.'')
             else
               (let render =
                      (case find_member v ''renderUrls'' of
                         None \<Rightarrow> Map.empty | Some r \<Rightarrow> build_ad_scoring_signals_map r);
                    csig =
                      (case find_member v ''adComponentRenderUrls'' of
                         None \<Rightarrow> Map.empty | Some c \<Rightarrow> build_ad_scoring_signals_map c)
                in case combine_signals (rq_ad_bids rq)
                          (find_shared_component_urls (rq_ad_bids rq)) csig render Map.empty of
                     Inl e \<Rightarrow> Inl e
                   | Inr (render', combined) \<Rightarrow>
                       Inr (format_signals L
                              (may_populate_pas_signals (rq_pas_ad_bids rq) render' combined)))))"

section \<open>A reference without moves\<close>

text \<open>What one ad's document holds when nothing is ever moved away.\<close>

definition component_members :: "signals_map \<Rightarrow> string list \<Rightarrow> (string \<times> json) list" where
  "component_members csig urls =
     concat (map (\<lambda>url. case csig url of
                          None \<Rightarrow> []
                        | Some doc \<Rightarrow>
                            (case find_member doc url of None \<Rightarrow> [] | Some w \<Rightarrow> [(url, w)])) urls)"

definition reference_doc :: "signals_map \<Rightarrow> signals_map \<Rightarrow> ad_with_bid \<Rightarrow> json" where
  "reference_doc csig render ad =
     JObj ((''adComponentRenderUrls'', JObj (component_members csig (aw_ad_components ad)))
           # (case render (aw_render ad) of None \<Rightarrow> [] | Some r \<Rightarrow> [(''renderUrl'', r)]))"

definition has_signals :: "signals_map \<Rightarrow> signals_map \<Rightarrow> ad_with_bid \<Rightarrow> bool" where
  "has_signals csig render ad \<longleftrightarrow>
     render (aw_render ad) \<noteq> None \<or> (\<exists>u \<in> set (aw_ad_components ad). csig u \<noteq> None)"

section \<open>The map of signals and the shared components\<close>

text \<open>Every entry of the signals map is an object with its own key as a member.\<close>

definition keyed :: "signals_map \<Rightarrow> bool" where
  "keyed m \<longleftrightarrow> (\<forall>url doc. m url = Some doc \<longrightarrow> (\<exists>w. doc = JObj [(url, w)]))"

lemma keyed_empty [simp]: "keyed Map.empty"
  by (simp add: keyed_def)

lemma build_map_fold_keyed:
  "keyed m \<Longrightarrow> keyed (fold (\<lambda>(url, w). \<lambda>m. fst (try_emplace url (JObj [(url, w)]) m)) ms m)"
proof (induction ms arbitrary: m)
  case Nil
  then show ?case by simp
next
  case (Cons e ms)
  obtain u w where e: "e = (u, w)" by fastforce
  have "keyed (fst (try_emplace u (JObj [(u, w)]) m))"
    using Cons.prems by (auto simp: keyed_def try_emplace_def split: option.splits if_splits)
  with Cons.IH show ?case by (simp add: e)
qed

lemma build_map_keyed: "keyed (build_ad_scoring_signals_map v)"
  unfolding build_ad_scoring_signals_map_def by (rule build_map_fold_keyed) simp

text \<open>The entry of a URL is its first member in the key/value answer.\<close>

lemma build_map_lookup:
  "build_ad_scoring_signals_map v url
     = map_option (\<lambda>w. JObj [(url, w)]) (map_of (object_members v) url)"
proof -
  have "fold (\<lambda>(url, w). \<lambda>m. fst (try_emplace url (JObj [(url, w)]) m)) ms m url
      = (case m url of None \<Rightarrow> map_option (\<lambda>w. JObj [(url, w)]) (map_of ms url) | Some d \<Rightarrow> Some d)"
    for ms :: "(string \<times> json) list" and m
  proof (induction ms arbitrary: m)
    case Nil
    then show ?case by (simp split: option.split)
  next
    case (Cons e ms)
    then show ?case by (cases e) (auto simp: try_emplace_def split: option.splits)
  qed
  then show ?thesis by (simp add: build_ad_scoring_signals_map_def)
qed

lemma count_list_pos: "0 < count_list xs x \<Longrightarrow> x \<in> set xs"
  by (metis count_list_0_iff less_irrefl)

lemma fold_count_url:
  "fst (fold count_url urls st) u = fst st u + count_list urls u"
  "u \<in> snd (fold count_url urls st)
     \<longleftrightarrow> u \<in> snd st \<or> (u \<in> set urls \<and> fst st u + count_list urls u > 1)"
proof (induction urls arbitrary: st)
  case Nil
  { case 1 show ?case by simp }
  { case 2 show ?case by simp }
next
  case (Cons x xs)
  { case 1 show ?case by (simp add: Cons.IH(1)) (simp add: count_url_def Let_def) }
  { case 2 show ?case
      by (simp add: Cons.IH(2))
         (auto simp: count_url_def Let_def dest: count_list_pos) }
qed

lemma find_shared_component_urls_iff:
  "u \<in> find_shared_component_urls ads \<longleftrightarrow> count_list (concat (map aw_ad_components ads)) u > 1"
proof -
  let ?urls = "concat (map aw_ad_components ads)"
  have "count_list ?urls u > 1 \<Longrightarrow> u \<in> set ?urls"
    by (rule count_list_pos) simp
  then show ?thesis
    by (simp add: find_shared_component_urls_def fold_count_url(2) del: set_concat set_map) blast
qed

section \<open>Moving is not observable\<close>

lemma keyed_find: "keyed m \<Longrightarrow> m u = Some d \<Longrightarrow> \<exists>w. find_member d u = Some w"
  by (fastforce simp: keyed_def)

lemma component_members_Cons:
  "component_members c (u # us)
     = (case c u of
          None \<Rightarrow> []
        | Some d \<Rightarrow> (case find_member d u of None \<Rightarrow> [] | Some w \<Rightarrow> [(u, w)]))
       @ component_members c us"
  by (simp add: component_members_def)

lemma component_members_Nil [simp]: "component_members c [] = []"
  by (simp add: component_members_def)

text \<open>
  \<open>rest\<close> are the component URLs of the ads still to come. A URL outside the shared set occurs at
  most once from here on, so moving its signals away leaves every later lookup intact.
\<close>

lemma add_components_reference:
  assumes "keyed c0"
    and "\<forall>u \<in> set (urls @ rest). m u = c0 u"
    and "\<forall>u. u \<notin> shared \<longrightarrow> count_list (urls @ rest) u \<le> 1"
  shows "\<exists>m'. add_components urls shared acc m n
      = (Inr (acc @ component_members c0 urls), m', n + length (component_members c0 urls))
    \<and> (\<forall>u \<in> set rest. m' u = c0 u)"
  using assms(2,3)
proof (induction urls arbitrary: acc m n)
  case Nil
  then show ?case by simp
next
  case (Cons u us)
  have mu: "m u = c0 u" using Cons.prems(1) by simp
  have cnt: "\<forall>x. x \<notin> shared \<longrightarrow> count_list (us @ rest) x \<le> 1"
  proof (intro allI impI)
    fix x
    assume "x \<notin> shared"
    then have "count_list ((u # us) @ rest) x \<le> 1" using Cons.prems(2) by blast
    then show "count_list (us @ rest) x \<le> 1" by (simp split: if_splits)
  qed
  show ?case
  proof (cases "c0 u")
    case None
    then show ?thesis
      using Cons.IH [of m acc n] Cons.prems(1) cnt mu by (simp add: component_members_Cons)
  next
    case (Some d)
    obtain w where w: "find_member d u = Some w"
      using keyed_find [OF assms(1) Some] by blast
    define m1 where "m1 = (if u \<in> shared then m else m(u \<mapsto> JNull))"
    have "u \<notin> set (us @ rest)" if "u \<notin> shared"
    proof
      assume "u \<in> set (us @ rest)"
      then have "count_list (us @ rest) u \<noteq> 0" by (simp only: count_list_0_iff not_not)
      moreover have "count_list ((u # us) @ rest) u \<le> 1" using Cons.prems(2) that by blast
      ultimately show False by simp
    qed
    then have m1: "\<forall>x \<in> set (us @ rest). m1 x = c0 x"
      using Cons.prems(1) by (auto simp: m1_def)
    show ?thesis
      using Cons.IH [OF m1 cnt, of "acc @ [(u, w)]" "Suc n"] mu Some w
      by (simp add: component_members_Cons Let_def flip: m1_def)
  qed
qed

lemma component_members_nonempty:
  "keyed c0 \<Longrightarrow> component_members c0 urls \<noteq> [] \<longleftrightarrow> (\<exists>u \<in> set urls. c0 u \<noteq> None)"
proof (induction urls)
  case Nil
  then show ?case by simp
next
  case (Cons u us)
  then show ?case
    by (cases "c0 u") (use keyed_find in \<open>fastforce simp: component_members_Cons\<close>)+
qed

lemma combine_signals_reference:
  assumes keyed: "keyed c0"
    and "\<forall>u \<in> set (concat (map aw_ad_components ads)). c u = c0 u"
    and "\<forall>u. u \<notin> shared \<longrightarrow> count_list (concat (map aw_ad_components ads)) u \<le> 1"
    and "\<forall>u. cmb u = None \<longrightarrow> r u = r0 u"
    and "\<forall>u. r u = None \<longleftrightarrow> r0 u = None"
  shows "\<exists>r' cmb'. combine_signals ads shared c r cmb = Inr (r', cmb')
    \<and> (\<forall>u. cmb' u = None \<longrightarrow> r' u = r0 u)
    \<and> (\<forall>u. cmb' u = (case cmb u of
          Some d \<Rightarrow> Some d
        | None \<Rightarrow> map_option (reference_doc c0 r0)
                    (find (\<lambda>ad. aw_render ad = u \<and> has_signals c0 r0 ad) ads)))"
  using assms(2-)
proof (induction ads arbitrary: c r cmb)
  case Nil
  then show ?case by (simp split: option.split)
next
  case (Cons ad ads)
  let ?rest = "concat (map aw_ad_components ads)"
  let ?ms = "component_members c0 (aw_ad_components ad)"
  obtain c' where ac: "add_components (aw_ad_components ad) shared [] c 0 = (Inr ?ms, c', length ?ms)"
    and c': "\<forall>u \<in> set ?rest. c' u = c0 u"
    using add_components_reference
      [OF keyed, of "aw_ad_components ad" ?rest c shared "[]" 0] Cons.prems(1,2)
    by (auto simp del: set_concat set_map)
  have cnt: "\<forall>u. u \<notin> shared \<longrightarrow> count_list ?rest u \<le> 1"
  proof (intro allI impI)
    fix u assume "u \<notin> shared"
    then have "count_list (aw_ad_components ad @ ?rest) u \<le> 1"
      using Cons.prems(2) by simp
    then show "count_list ?rest u \<le> 1" by simp
  qed
  define doc where "doc = JObj [(''adComponentRenderUrls'', JObj ?ms)]"
  define r1 where "r1 = (case r (aw_render ad) of None \<Rightarrow> r | Some _ \<Rightarrow> r(aw_render ad \<mapsto> JNull))"
  define doc1 where "doc1 = (case r (aw_render ad) of
      None \<Rightarrow> doc | Some x \<Rightarrow> add_member doc ''renderUrl'' x)"
  have hs: "has_signals c0 r0 ad \<longleftrightarrow> r (aw_render ad) \<noteq> None \<or> ?ms \<noteq> []"
    unfolding has_signals_def component_members_nonempty [OF keyed]
    using Cons.prems(4) [rule_format, of "aw_render ad"] by metis
  define cmb1 where "cmb1 = (if has_signals c0 r0 ad
      then fst (try_emplace (aw_render ad) doc1 cmb) else cmb)"
  have step: "combine_signals (ad # ads) shared c r cmb = combine_signals ads shared c' r1 cmb1"
    by (cases "r (aw_render ad)")
       (simp_all add: add_component_signals_def ac hs doc_def doc1_def r1_def cmb1_def)
  have doc1: "doc1 = reference_doc c0 r0 ad" if "cmb (aw_render ad) = None"
    using that Cons.prems(3)
    by (auto simp: doc1_def doc_def reference_doc_def add_member_def split: option.splits)
  have cmb1: "cmb1 u = (case cmb u of
      Some d \<Rightarrow> Some d
    | None \<Rightarrow> if aw_render ad = u \<and> has_signals c0 r0 ad then Some (reference_doc c0 r0 ad) else None)"
    for u
    using doc1 by (auto simp: cmb1_def try_emplace_def split: option.splits)
  have i1: "\<forall>u. cmb1 u = None \<longrightarrow> r1 u = r0 u"
    using Cons.prems(3) hs by (auto simp: cmb1 r1_def split: option.splits if_splits)
  have i2: "\<forall>u. r1 u = None \<longleftrightarrow> r0 u = None"
  proof
    fix u
    show "r1 u = None \<longleftrightarrow> r0 u = None"
      unfolding Cons.prems(4) [rule_format, symmetric]
      by (simp add: r1_def split: option.split)
  qed
  show ?case
  proof -
    obtain r' cmb' where run: "combine_signals ads shared c' r1 cmb1 = Inr (r', cmb')"
      and r': "\<forall>u. cmb' u = None \<longrightarrow> r' u = r0 u"
      and cmb': "\<And>u. cmb' u = (case cmb1 u of
          Some d \<Rightarrow> Some d
        | None \<Rightarrow> map_option (reference_doc c0 r0)
                    (find (\<lambda>ad. aw_render ad = u \<and> has_signals c0 r0 ad) ads))"
      using Cons.IH [OF c' cnt i1 i2] by blast
    have "cmb' u = (case cmb u of
          Some d \<Rightarrow> Some d
        | None \<Rightarrow> map_option (reference_doc c0 r0)
                    (find (\<lambda>ad. aw_render ad = u \<and> has_signals c0 r0 ad) (ad # ads)))" for u
      unfolding cmb' cmb1 by (simp split: option.split)
    with run r' show ?thesis unfolding step by blast
  qed
qed

lemma may_populate_pas_reference:
  assumes "\<forall>u. cmb u = None \<longrightarrow> r u = r0 u"
  shows "may_populate_pas_signals ads r cmb u
    = (case cmb u of
         Some d \<Rightarrow> Some d
       | None \<Rightarrow> if \<exists>ad \<in> set ads. pas_render ad = u
                 then map_option (\<lambda>x. JObj [(''renderUrl'', x)]) (r0 u) else None)"
  using assms
proof (induction ads arbitrary: r cmb)
  case Nil
  then show ?case by (simp split: option.split)
next
  case (Cons ad ads)
  show ?case
  proof (cases "r (pas_render ad)")
    case None
    then show ?thesis using Cons by (auto split: option.splits)
  next
    case (Some x)
    define cmb1 where "cmb1 = fst (try_emplace (pas_render ad) (JObj [(''renderUrl'', x)]) cmb)"
    define r1 where "r1 = r(pas_render ad \<mapsto> JNull)"
    have step: "may_populate_pas_signals (ad # ads) r cmb = may_populate_pas_signals ads r1 cmb1"
      by (simp add: Some cmb1_def r1_def)
    have cmb1: "cmb1 u = (case cmb u of
        Some d \<Rightarrow> Some d
      | None \<Rightarrow> if pas_render ad = u then Some (JObj [(''renderUrl'', x)]) else None)"
      by (auto simp: cmb1_def try_emplace_def split: option.splits)
    have inv: "\<forall>v. cmb1 v = None \<longrightarrow> r1 v = r0 v"
      using Cons.prems by (auto simp: cmb1_def r1_def try_emplace_def split: option.splits if_splits)
    have x: "cmb (pas_render ad) = None \<Longrightarrow> r0 (pas_render ad) = Some x"
      using Cons.prems Some by simp
    show ?thesis
      unfolding step Cons.IH [OF inv] cmb1 using x by (auto split: option.splits)
  qed
qed

text \<open>The table the routine builds when it succeeds, written without moves.\<close>

definition signals_reference ::
  "signals_map \<Rightarrow> signals_map \<Rightarrow> ad_with_bid list \<Rightarrow> pas_ad_with_bid list \<Rightarrow> signals_map" where
  "signals_reference c0 r0 ads pas_ads url =
     (case find (\<lambda>ad. aw_render ad = url \<and> has_signals c0 r0 ad) ads of
        Some ad \<Rightarrow> Some (reference_doc c0 r0 ad)
      | None \<Rightarrow> if \<exists>ad \<in> set pas_ads. pas_render ad = url
                then map_option (\<lambda>x. JObj [(''renderUrl'', x)]) (r0 url) else None)"

definition signals_member :: "json \<Rightarrow> string \<Rightarrow> signals_map" where
  "signals_member v name =
     (case find_member v name of None \<Rightarrow> Map.empty | Some x \<Rightarrow> build_ad_scoring_signals_map x)"

lemma keyed_signals_member [simp]: "keyed (signals_member v name)"
  by (simp add: signals_member_def build_map_keyed split: option.split)

lemma build_trusted_scoring_signals_success:
  assumes "rq_scoring_signals rq \<noteq> []"
    and "json_parse L (rq_scoring_signals rq) = Some v" and "is_object v"
    and "req \<longrightarrow> find_member v ''renderUrls'' \<noteq> None"
  shows "build_trusted_scoring_signals L rq req
    = Inr (format_signals L
        (signals_reference (signals_member v ''adComponentRenderUrls'')
           (signals_member v ''renderUrls'') (rq_ad_bids rq) (rq_pas_ad_bids rq)))"
proof -
  let ?c = "signals_member v ''adComponentRenderUrls''"
  let ?r = "signals_member v ''renderUrls''"
  let ?ads = "rq_ad_bids rq"
  have cnt: "\<forall>u. u \<notin> find_shared_component_urls ?ads
      \<longrightarrow> count_list (concat (map aw_ad_components ?ads)) u \<le> 1"
    by (simp add: find_shared_component_urls_iff)
  obtain r' cmb where cs: "combine_signals ?ads (find_shared_component_urls ?ads) ?c ?r Map.empty
        = Inr (r', cmb)"
    and r': "\<forall>u. cmb u = None \<longrightarrow> r' u = ?r u"
    and cmb: "\<forall>u. cmb u = map_option (reference_doc ?c ?r)
                    (find (\<lambda>ad. aw_render ad = u \<and> has_signals ?c ?r ad) ?ads)"
    using combine_signals_reference [of ?c ?ads ?c _ Map.empty ?r ?r, OF _ _ cnt] by auto
  have "may_populate_pas_signals (rq_pas_ad_bids rq) r' cmb
      = signals_reference ?c ?r ?ads (rq_pas_ad_bids rq)"
    by (rule ext)
       (simp add: may_populate_pas_reference [OF r'] cmb signals_reference_def split: option.split)
  with cs assms show ?thesis
    by (simp add: build_trusted_scoring_signals_def signals_member_def)
qed

lemma build_trusted_scoring_signals_error:
  "build_trusted_scoring_signals L rq req = Inl e \<Longrightarrow> st_code e = INVALID_ARGUMENT"
proof (cases "rq_scoring_signals rq = []")
  case True
  then show "build_trusted_scoring_signals L rq req = Inl e \<Longrightarrow> st_code e = INVALID_ARGUMENT"
    by (auto simp: build_trusted_scoring_signals_def)
next
  case False
  assume err: "build_trusted_scoring_signals L rq req = Inl e"
  show ?thesis
  proof (cases "json_parse L (rq_scoring_signals rq)")
    case None
    then show ?thesis using False err by (auto simp: build_trusted_scoring_signals_def)
  next
    case (Some v)
    show ?thesis
    proof (cases "is_object v \<and> (req \<longrightarrow> find_member v ''renderUrls'' \<noteq> None)")
      case True
      then show ?thesis
        using build_trusted_scoring_signals_success [OF False Some] err by simp
    next
      case False': False
      then show ?thesis
        using False Some err by (auto simp: build_trusted_scoring_signals_def split: if_splits)
    qed
  qed
qed

end
