(* ===== verification/Auction_Proto_Utils.thy ===== *)
theory Auction_Proto_Utils
  imports Scoring_Signals
begin

text \<open>
  The rest of \<open>services/auction_service/utils/proto_utils.{h,cc}\<close>: the arguments of a scoreAd()
  call (auction config, bid metadata, feature flags), the parsing of what scoreAd() returns, and the
  mapping of component auction results to ads with bids. The mapping functions release the fields
  of their source; a released or moved-from string is empty, and the model returns the source as the
  code leaves it.
\<close>

section \<open>Bid metadata and auction config\<close>

definition quoted :: "string \<Rightarrow> string" where
  "quoted s = CHR 0x22 # s @ [CHR 0x22]"

record reporting_ids_param =
  ri_buyer_reporting_id :: "string option"
  ri_buyer_and_seller_reporting_id :: "string option"
  ri_selected_buyer_and_seller_reporting_id :: "string option"

definition no_reporting_ids :: reporting_ids_param where
  "no_reporting_ids =
     \<lparr>ri_buyer_reporting_id = None, ri_buyer_and_seller_reporting_id = None,
      ri_selected_buyer_and_seller_reporting_id = None\<rparr>"

definition opt_member :: "string \<Rightarrow> string option \<Rightarrow> (string \<times> json) list" where
  "opt_member k v = (case v of None \<Rightarrow> [] | Some s \<Rightarrow> [(k, JStr s)])"

definition start_making_bid_metadata_json ::
  "string \<Rightarrow> string \<Rightarrow> string list \<Rightarrow> string \<Rightarrow> nat \<Rightarrow> reporting_ids_param \<Rightarrow> fdo_flags option
     \<Rightarrow> (string \<times> json) list" where
  "start_making_bid_metadata_json publisher owner components currency version ids fdo =
     (if owner = [] then [] else [(''interestGroupOwner'', JStr owner)])
     @ (if publisher = [] then [] else [(''topWindowHostname'', JStr publisher)])
     @ (if components = [] then [] else [(''adComponents'', JArr (map JStr components))])
     @ [(''bidCurrency'', JStr (if currency = [] then unknown_currency else currency))]
     @ (if version > 0 then [(''dataVersion'', JInt (int version))] else [])
     @ opt_member ''buyerReportingId'' (ri_buyer_reporting_id ids)
     @ opt_member ''buyerAndSellerReportingId'' (ri_buyer_and_seller_reporting_id ids)
     @ opt_member ''selectedBuyerAndSellerReportingId'' (ri_selected_buyer_and_seller_reporting_id ids)
     @ (case fdo of
          None \<Rightarrow> []
        | Some f \<Rightarrow> [(''forDebuggingOnlyInCooldownOrLockout'', JBool (fdo_in_cooldown_or_lockout f))])"

definition serialize_or_empty :: "libs \<Rightarrow> json \<Rightarrow> string" where
  "serialize_or_empty L doc = (case serialize_json_doc L doc of Inr s \<Rightarrow> s | Inl _ \<Rightarrow> ''{}'')"

definition bid_metadata_doc ::
  "string \<Rightarrow> string \<Rightarrow> string \<Rightarrow> string list \<Rightarrow> string \<Rightarrow> string \<Rightarrow> nat \<Rightarrow> reporting_ids_param
     \<Rightarrow> fdo_flags option \<Rightarrow> json" where
  "bid_metadata_doc publisher owner render components top_level_seller currency version ids fdo =
     JObj (start_making_bid_metadata_json publisher owner components currency version ids fdo
           @ (if top_level_seller = [] then [] else [(''topLevelSeller'', JStr top_level_seller)])
           @ [(''renderUrl'', JStr render)])"

definition make_bid_metadata ::
  "libs \<Rightarrow> string \<Rightarrow> string \<Rightarrow> string \<Rightarrow> string list \<Rightarrow> string \<Rightarrow> string \<Rightarrow> nat
     \<Rightarrow> reporting_ids_param \<Rightarrow> fdo_flags option \<Rightarrow> string" where
  "make_bid_metadata L publisher owner render components top_level_seller currency version ids fdo =
     serialize_or_empty L
       (bid_metadata_doc publisher owner render components top_level_seller currency version ids fdo)"

definition top_level_bid_metadata_doc ::
  "string \<Rightarrow> string \<Rightarrow> string \<Rightarrow> string list \<Rightarrow> string \<Rightarrow> string \<Rightarrow> nat \<Rightarrow> json" where
  "top_level_bid_metadata_doc publisher owner render components component_seller currency version =
     JObj (start_making_bid_metadata_json publisher owner components currency version
             no_reporting_ids None
           @ [(''componentSeller'', JStr component_seller), (''renderUrl'', JStr render)])"

definition make_bid_metadata_for_top_level_auction ::
  "libs \<Rightarrow> string \<Rightarrow> string \<Rightarrow> string \<Rightarrow> string list \<Rightarrow> string \<Rightarrow> string \<Rightarrow> nat \<Rightarrow> string" where
  "make_bid_metadata_for_top_level_auction
     L publisher owner render components component_seller currency version =
     serialize_or_empty L
       (top_level_bid_metadata_doc
          publisher owner render components component_seller currency version)"

definition build_auction_config :: "score_ads_raw_request \<Rightarrow> string" where
  "build_auction_config rq =
     ''{'' @ quoted ''auctionSignals'' @ '': ''
     @ (if rq_auction_signals rq = [] then quoted [] else rq_auction_signals rq)
     @ '', '' @ quoted ''sellerSignals'' @ '': ''
     @ (if rq_seller_signals rq = [] then quoted [] else rq_seller_signals rq) @ ''}''"

section \<open>The scoreAd() request\<close>

text \<open>One field per entry of \<open>ScoreAdArgs\<close>, in the enum's order.\<close>

record dispatch_request =
  dq_id :: string
  dq_version_string :: string
  dq_handler_name :: string
  dq_ad_metadata :: string
  dq_bid :: string
  dq_auction_config :: string
  dq_scoring_signals :: string
  dq_bid_metadata :: string
  dq_direct_from_seller_signals :: string
  dq_feature_flags :: string

text \<open>\<open>std::to_string\<close> of a float prints six decimals.\<close>

definition build_score_ad_request ::
  "string \<Rightarrow> string \<Rightarrow> string \<Rightarrow> f32 \<Rightarrow> string \<Rightarrow> string \<Rightarrow> bool \<Rightarrow> bool \<Rightarrow> string
     \<Rightarrow> dispatch_request" where
  "build_score_ad_request render ad_metadata signals bid config metadata logging debug version =
     \<lparr>dq_id = render, dq_version_string = version, dq_handler_name = ''scoreAdEntryFunction'',
      dq_ad_metadata = ad_metadata, dq_bid = fixed_decimal 6 bid, dq_auction_config = config,
      dq_scoring_signals = signals, dq_bid_metadata = metadata,
      dq_direct_from_seller_signals = ''{}'',
      dq_feature_flags = get_feature_flag_json logging debug\<rparr>"

text \<open>
  The template over both kinds of ads: the ad object is written as JSON when it is a struct (which
  may fail) and taken as it is when it is a string.
\<close>

definition ad_object_json :: "libs \<Rightarrow> pb_value \<Rightarrow> string status_or" where
  "ad_object_json L ad =
     (case ad of
        Pb_struct v \<Rightarrow>
          (case message_to_json_string L v of
             None \<Rightarrow> Inl (internal_error ''MessageToJsonString'') | Some s \<Rightarrow> Inr s)
      | Pb_string s \<Rightarrow> Inr s
      | Pb_other \<Rightarrow> Inr [])"

definition build_score_ad_request_for ::
  "libs \<Rightarrow> pb_value \<Rightarrow> string \<Rightarrow> f32 \<Rightarrow> string \<Rightarrow> string \<Rightarrow> bool \<Rightarrow> bool \<Rightarrow> string \<Rightarrow> string
     \<Rightarrow> dispatch_request status_or" where
  "build_score_ad_request_for L ad render bid config signals debug logging metadata version =
     (case ad_object_json L ad of
        Inl e \<Rightarrow> Inl e
      | Inr s \<Rightarrow>
          Inr (build_score_ad_request render s signals bid config metadata logging debug version))"

section \<open>What scoreAd() returns\<close>

definition parse_and_get_score_ad_response_json :: "json \<Rightarrow> json" where
  "parse_and_get_score_ad_response_json wrapper =
     (case find_member wrapper ''response'' of
        Some (JObj ms) \<Rightarrow> JObj ms
      | Some v \<Rightarrow> if is_number v then JDouble (get_double v) else JNull
      | None \<Rightarrow> JNull)"

definition build_ad_rejection_reason ::
  "string \<Rightarrow> string \<Rightarrow> seller_rejection_reason \<Rightarrow> ad_rejection_reason" where
  "build_ad_rejection_reason owner name reason =
     \<lparr>arr_interest_group_name = name, arr_interest_group_owner = owner,
      arr_rejection_reason = reason\<rparr>"

definition parse_ad_rejection_reason ::
  "json \<Rightarrow> string \<Rightarrow> string \<Rightarrow> ad_rejection_reason option" where
  "parse_ad_rejection_reason resp owner name =
     (case find_member resp ''rejectReason'' of
        Some (JStr s) \<Rightarrow> Some (build_ad_rejection_reason owner name (to_seller_rejection_reason s))
      | _ \<Rightarrow> None)"

definition get_debug_url_if_in_limit :: "string \<Rightarrow> json \<Rightarrow> int \<Rightarrow> string" where
  "get_debug_url_if_in_limit url_type urls limit =
     (case find_member urls url_type of
        Some (JStr s) \<Rightarrow> if int (length s) \<le> limit then s else []
      | _ \<Rightarrow> [])"

definition float_if_number :: "json \<Rightarrow> string \<Rightarrow> f32 \<Rightarrow> f32" where
  "float_if_number v k dflt =
     (case find_member v k of
        Some w \<Rightarrow> if is_number w then get_float w else dflt
      | None \<Rightarrow> dflt)"

text \<open>The fields of a component auction; the ad metadata of an object may fail to serialise.\<close>

definition parse_component_auction_fields :: "libs \<Rightarrow> json \<Rightarrow> ad_score \<Rightarrow> ad_score status_or" where
  "parse_component_auction_fields L v sc =
     (let sc1 = sc\<lparr>as_allow_component_auction := bool_if_present v ''allowComponentAuction'' False\<rparr>;
          rest = (\<lambda>s. s\<lparr>as_bid := float_if_number v ''bid'' (as_bid s),
                        as_bid_currency := string_if_present v ''bidCurrency'' (as_bid_currency s)\<rparr>)
      in case find_member v ''ad'' of
           Some (JStr s) \<Rightarrow> Inr (rest (sc1\<lparr>as_ad_metadata := quoted s\<rparr>))
         | Some (JObj ms) \<Rightarrow>
             (case serialize_json_doc L (JObj ms) of
                Inl e \<Rightarrow> Inl e
              | Inr s \<Rightarrow> Inr (rest (sc1\<lparr>as_ad_metadata := s\<rparr>)))
         | _ \<Rightarrow> Inr (rest sc1))"

definition parse_debug_report_urls :: "json \<Rightarrow> int \<Rightarrow> ad_score \<Rightarrow> ad_score" where
  "parse_debug_report_urls v limit sc =
     (case find_member v ''debugReportUrls'' of
        None \<Rightarrow> sc
      | Some urls \<Rightarrow>
          sc\<lparr>as_debug_report_urls :=
               Some \<lparr>debug_win_url = get_debug_url_if_in_limit ''auctionDebugWinUrl'' urls limit,
                     debug_loss_url =
                       get_debug_url_if_in_limit ''auctionDebugLossUrl'' urls limit\<rparr>\<rparr>)"

definition score_ad_response_json_to_proto ::
  "libs \<Rightarrow> json \<Rightarrow> int \<Rightarrow> bool \<Rightarrow> ad_score status_or" where
  "score_ad_response_json_to_proto L v limit device_component_auction =
     (if is_number v
      then Inr (default_ad_score\<lparr>as_desirability := to_f32 (get_double v)\<rparr>)
      else
        (let sc = default_ad_score
               \<lparr>as_desirability := float_if_number v ''desirability'' 0,
                as_incoming_bid_in_seller_currency :=
                  float_if_number v ''incomingBidInSellerCurrency'' 0\<rparr>
         in case (if device_component_auction then parse_component_auction_fields L v sc
                  else Inr sc) of
              Inl e \<Rightarrow> Inl e
            | Inr sc' \<Rightarrow> Inr (parse_debug_report_urls v limit sc')))"

section \<open>Component auction results as ads with bids\<close>

text \<open>Every mapping returns the ad and the source with the released fields emptied.\<close>

definition map_auction_result_to_ad_with_bid ::
  "auction_result \<Rightarrow> bool \<Rightarrow> ad_with_bid \<times> auction_result" where
  "map_auction_result_to_ad_with_bid ar k_anon =
     (default_ad_with_bid
        \<lparr>aw_bid := ar_bid ar, aw_render := ar_ad_render_url ar,
         aw_ad_components := ar_ad_component_render_urls ar,
         aw_interest_group_name := ar_interest_group_name ar,
         aw_interest_group_owner := ar_interest_group_owner ar,
         aw_bid_currency := ar_bid_currency ar, aw_k_anon_status := k_anon\<rparr>,
      ar\<lparr>ar_ad_render_url := [], ar_ad_component_render_urls := [], ar_interest_group_name := [],
         ar_interest_group_owner := [], ar_bid_currency := []\<rparr>)"

definition map_auction_result_to_pas_ad_with_bid ::
  "auction_result \<Rightarrow> bool \<Rightarrow> pas_ad_with_bid \<times> auction_result" where
  "map_auction_result_to_pas_ad_with_bid ar k_anon =
     (default_pas_ad_with_bid
        \<lparr>pas_bid := ar_bid ar, pas_render := ar_ad_render_url ar,
         pas_owner := ar_interest_group_owner ar, pas_bid_currency := ar_bid_currency ar,
         pas_k_anon_status := k_anon\<rparr>,
      ar\<lparr>ar_ad_render_url := [], ar_interest_group_owner := [], ar_bid_currency := []\<rparr>)"

definition map_ghost_winner_to_ad_with_bid ::
  "string \<Rightarrow> string \<Rightarrow> ghost_winner_for_top_level \<Rightarrow> ad_with_bid \<times> ghost_winner_for_top_level" where
  "map_ghost_winner_to_ad_with_bid owner ig_name gt =
     (default_ad_with_bid
        \<lparr>aw_bid := gt_modified_bid gt, aw_render := gt_ad_render_url gt,
         aw_ad_components := gt_ad_component_render_urls gt, aw_interest_group_name := ig_name,
         aw_interest_group_owner := owner, aw_bid_currency := gt_bid_currency gt,
         aw_k_anon_status := False\<rparr>,
      gt\<lparr>gt_ad_render_url := [], gt_ad_component_render_urls := [], gt_bid_currency := []\<rparr>)"

definition map_ghost_winner_to_pas_ad_with_bid ::
  "string \<Rightarrow> ghost_winner_for_top_level \<Rightarrow> pas_ad_with_bid \<times> ghost_winner_for_top_level" where
  "map_ghost_winner_to_pas_ad_with_bid owner gt =
     (default_pas_ad_with_bid
        \<lparr>pas_bid := gt_modified_bid gt, pas_render := gt_ad_render_url gt, pas_owner := owner,
         pas_bid_currency := gt_bid_currency gt, pas_k_anon_status := False\<rparr>,
      gt\<lparr>gt_ad_render_url := [], gt_bid_currency := []\<rparr>)"

section \<open>Lemmas\<close>

lemma default_ad_score_simps [simp]:
  "as_desirability default_ad_score = 0" "as_bid default_ad_score = 0"
  "as_bid_currency default_ad_score = []" "as_ad_metadata default_ad_score = []"
  "\<not> as_allow_component_auction default_ad_score"
  "as_debug_report_urls default_ad_score = None"
  "as_incoming_bid_in_seller_currency default_ad_score = 0"
  by (simp_all add: default_ad_score_def)

lemma parse_debug_report_urls_frame [frame_laws]:
  "as_desirability (parse_debug_report_urls v n sc) = as_desirability sc"
  "as_incoming_bid_in_seller_currency (parse_debug_report_urls v n sc)
     = as_incoming_bid_in_seller_currency sc"
  "as_bid (parse_debug_report_urls v n sc) = as_bid sc"
  "as_bid_currency (parse_debug_report_urls v n sc) = as_bid_currency sc"
  "as_ad_metadata (parse_debug_report_urls v n sc) = as_ad_metadata sc"
  "as_allow_component_auction (parse_debug_report_urls v n sc) = as_allow_component_auction sc"
  by (simp_all add: parse_debug_report_urls_def split: option.split)

lemma parse_component_fields_frame:
  "parse_component_auction_fields L v sc = Inr sc' \<Longrightarrow>
     as_desirability sc' = as_desirability sc
     \<and> as_incoming_bid_in_seller_currency sc' = as_incoming_bid_in_seller_currency sc
     \<and> as_debug_report_urls sc' = as_debug_report_urls sc"
  by (auto simp: parse_component_auction_fields_def Let_def
        split: option.splits json.splits sum.splits)

text \<open>The parser fails exactly when the component auction's ad object does not serialise.\<close>

lemma score_ad_response_error_iff:
  "(\<exists>e. score_ad_response_json_to_proto L v n component = Inl e)
     \<longleftrightarrow> \<not> is_number v \<and> component
        \<and> (\<exists>ms. find_member v ''ad'' = Some (JObj ms) \<and> json_write L (JObj ms) = None)"
  by (auto simp: score_ad_response_json_to_proto_def parse_component_auction_fields_def Let_def
        serialize_json_doc_def split: option.splits json.splits sum.splits)

lemma get_debug_url_in_limit: "0 \<le> n \<Longrightarrow> int (length (get_debug_url_if_in_limit t urls n)) \<le> n"
  by (auto simp: get_debug_url_if_in_limit_def split: option.splits json.splits)

lemma score_ad_response_debug_urls_bounded:
  assumes "score_ad_response_json_to_proto L v n component = Inr sc"
    and "as_debug_report_urls sc = Some d" and "0 \<le> n"
  shows "int (length (debug_win_url d)) \<le> n \<and> int (length (debug_loss_url d)) \<le> n"
proof -
  from assms(1,2) obtain urls where
    "d = \<lparr>debug_win_url = get_debug_url_if_in_limit ''auctionDebugWinUrl'' urls n,
          debug_loss_url = get_debug_url_if_in_limit ''auctionDebugLossUrl'' urls n\<rparr>"
    by (auto simp: score_ad_response_json_to_proto_def parse_debug_report_urls_def Let_def
          dest!: parse_component_fields_frame split: if_splits sum.splits option.splits)
  then show ?thesis using get_debug_url_in_limit [OF assms(3)] by simp
qed

text \<open>Outside a component auction scoreAd() cannot change the bid nor opt into one.\<close>

lemma score_ad_response_single_seller:
  "score_ad_response_json_to_proto L v n False = Inr sc \<Longrightarrow>
     as_bid sc = 0 \<and> as_bid_currency sc = [] \<and> as_ad_metadata sc = []
     \<and> \<not> as_allow_component_auction sc"
  by (auto simp: score_ad_response_json_to_proto_def Let_def frame_laws split: if_splits)

lemma score_ad_response_desirability:
  "score_ad_response_json_to_proto L v n component = Inr sc \<Longrightarrow>
     as_desirability sc
       = (if is_number v then to_f32 (get_double v) else float_if_number v ''desirability'' 0)"
  by (auto simp: score_ad_response_json_to_proto_def Let_def frame_laws
        dest!: parse_component_fields_frame split: if_splits sum.splits)

lemma parse_ad_rejection_reason_roundtrip:
  "find_member resp ''rejectReason'' = Some (JStr (to_seller_rejection_reason_string r)) \<Longrightarrow>
     parse_ad_rejection_reason resp owner name = Some (build_ad_rejection_reason owner name r)"
  by (simp add: parse_ad_rejection_reason_def)

text \<open>What the bid metadata tells the seller, member by member.\<close>

lemma map_of_opt_member: "map_of (opt_member k v) k' = (if k = k' then map_option JStr v else None)"
  by (simp add: opt_member_def split: option.split)

lemmas metadata_lookup =
  bid_metadata_doc_def top_level_bid_metadata_doc_def start_making_bid_metadata_json_def
  map_add_def map_of_opt_member no_reporting_ids_def

lemma bid_metadata_doc_members:
  assumes doc: "doc = bid_metadata_doc publisher owner render components tls currency version ids fdo"
  shows "find_member doc ''renderUrl'' = Some (JStr render)"
    and "find_member doc ''topLevelSeller'' = (if tls = [] then None else Some (JStr tls))"
    and "find_member doc ''interestGroupOwner'' = (if owner = [] then None else Some (JStr owner))"
    and "find_member doc ''bidCurrency''
           = Some (JStr (if currency = [] then unknown_currency else currency))"
    and "find_member doc ''componentSeller'' = None"
  by (simp_all add: doc metadata_lookup split: option.split)

lemma top_level_bid_metadata_members:
  assumes doc:
    "doc = top_level_bid_metadata_doc publisher owner render components seller currency version"
  shows "find_member doc ''renderUrl'' = Some (JStr render)"
    and "find_member doc ''componentSeller'' = Some (JStr seller)"
    and "find_member doc ''topLevelSeller'' = None"
  by (simp_all add: doc metadata_lookup split: option.split)

end
