(* ===== verification/Scoring_Dispatch.thy ===== *)
theory Scoring_Dispatch
  imports Auction_Proto_Utils
begin

text \<open>
  The first half of \<open>ScoreAdsReactor\<close> (\<open>services/auction_service/score_ads_reactor.cc\<close>): the
  configuration its constructor derives, and the population of scoreAd() requests from the ads with
  bids (\<open>PopulateProtectedAudienceDispatchRequests\<close>,
  \<open>MayPopulateProtectedAppSignalsDispatchRequests\<close>) and from component auction results
  (\<open>PopulateTopLevelAuctionDispatchRequests\<close>). The tables of the reactor that are filled on the
  way form one record; its invariant ties every request to exactly one table entry.
\<close>

section \<open>Configuration\<close>

record runtime_config =
  rc_enable_cancellation :: bool
  rc_enable_kanon :: bool
  rc_enable_seller_debug_url_generation :: bool
  rc_enable_report_result_url_generation :: bool
  rc_enable_protected_app_signals :: bool
  rc_enable_private_aggregate_reporting :: bool
  rc_enable_report_win_input_noising :: bool
  rc_max_allowed_size_debug_url_bytes :: int
  rc_max_allowed_size_all_debug_urls_kb :: int
  rc_debug_reporting_sampling_upper_bound :: int
  rc_enable_report_win_url_generation :: bool
  rc_enable_seller_and_buyer_udf_isolation :: bool
  rc_require_scoring_signals_for_scoring :: bool
  rc_buyers_with_report_win_enabled :: "string set"
  rc_pas_buyers_with_report_win_enabled :: "string set"
  rc_use_per_request_udf_versioning :: bool
  rc_default_score_ad_version :: string

record reactor_config =
  cf_enable_cancellation :: bool
  cf_enable_seller_debug_url_generation :: bool
  cf_enable_adtech_code_logging :: bool
  cf_enable_report_result_url_generation :: bool
  cf_enable_protected_app_signals :: bool
  cf_enable_private_aggregate_reporting :: bool
  cf_enable_report_win_input_noising :: bool
  cf_max_allowed_size_debug_url_chars :: int
  cf_max_allowed_size_all_debug_urls_chars :: int
  cf_debug_reporting_sampling_upper_bound :: int
  cf_auction_scope :: auction_scope
  cf_enable_report_win_url_generation :: bool
  cf_enable_seller_and_buyer_code_isolation :: bool
  cf_require_scoring_signals_for_scoring :: bool
  cf_enable_enforce_kanon :: bool
  cf_buyers_with_report_win_enabled :: "string set"
  cf_pas_buyers_with_report_win_enabled :: "string set"
  cf_code_version :: string

text \<open>The member initialisers and the body of the constructor; \<open>consented\<close> is the log context's.\<close>

definition make_reactor_config ::
  "runtime_config \<Rightarrow> score_ads_raw_request \<Rightarrow> bool \<Rightarrow> reactor_config" where
  "make_reactor_config rc rq consented =
     \<lparr>cf_enable_cancellation = rc_enable_cancellation rc,
      cf_enable_seller_debug_url_generation = rc_enable_seller_debug_url_generation rc,
      cf_enable_adtech_code_logging = (consented \<or> rq_is_sampled_for_debug rq),
      cf_enable_report_result_url_generation = rc_enable_report_result_url_generation rc,
      cf_enable_protected_app_signals = rc_enable_protected_app_signals rc,
      cf_enable_private_aggregate_reporting = rc_enable_private_aggregate_reporting rc,
      cf_enable_report_win_input_noising = rc_enable_report_win_input_noising rc,
      cf_max_allowed_size_debug_url_chars = rc_max_allowed_size_debug_url_bytes rc,
      cf_max_allowed_size_all_debug_urls_chars = 1024 * rc_max_allowed_size_all_debug_urls_kb rc,
      cf_debug_reporting_sampling_upper_bound = rc_debug_reporting_sampling_upper_bound rc,
      cf_auction_scope = get_auction_scope rq,
      cf_enable_report_win_url_generation =
        (rc_enable_report_win_url_generation rc
         \<and> get_auction_scope rq \<noteq> AUCTION_SCOPE_SERVER_TOP_LEVEL_SELLER),
      cf_enable_seller_and_buyer_code_isolation = rc_enable_seller_and_buyer_udf_isolation rc,
      cf_require_scoring_signals_for_scoring = rc_require_scoring_signals_for_scoring rc,
      cf_enable_enforce_kanon = (rc_enable_kanon rc \<and> rq_enforce_kanon rq),
      cf_buyers_with_report_win_enabled = rc_buyers_with_report_win_enabled rc,
      cf_pas_buyers_with_report_win_enabled = rc_pas_buyers_with_report_win_enabled rc,
      cf_code_version =
        (if rc_use_per_request_udf_versioning rc \<and> rq_score_ad_version rq \<noteq> []
         then rq_score_ad_version rq else rc_default_score_ad_version rc)\<rparr>"

section \<open>The tables filled while dispatching\<close>

record component_reporting_data =
  crd_component_seller :: string
  crd_win_reporting_urls :: win_reporting_urls
  crd_buyer_reporting_id :: string
  crd_buyer_and_seller_reporting_id :: string

record dispatch_state =
  ds_requests :: "dispatch_request list"
  ds_ad_data :: "string \<rightharpoonup> ad_with_bid"
  ds_pas_ad_data :: "string \<rightharpoonup> pas_ad_with_bid"
  ds_component_ad_seller :: "string \<rightharpoonup> string"
  ds_k_anon_join_cand :: "string \<rightharpoonup> k_anon_join_candidate"
  ds_component_reporting :: "string \<rightharpoonup> component_reporting_data"

definition empty_dispatch_state :: dispatch_state where
  "empty_dispatch_state =
     \<lparr>ds_requests = [], ds_ad_data = Map.empty, ds_pas_ad_data = Map.empty,
      ds_component_ad_seller = Map.empty, ds_k_anon_join_cand = Map.empty,
      ds_component_reporting = Map.empty\<rparr>"

text \<open>Storing an ad under a dispatch id; the flag says whether it was inserted.\<close>

definition put_ad :: "string \<Rightarrow> ad_with_bid \<Rightarrow> dispatch_state \<Rightarrow> dispatch_state \<times> bool" where
  "put_ad k ad st =
     (let (m, inserted) = try_emplace k ad (ds_ad_data st) in (st\<lparr>ds_ad_data := m\<rparr>, inserted))"

definition put_pas_ad :: "string \<Rightarrow> pas_ad_with_bid \<Rightarrow> dispatch_state \<Rightarrow> dispatch_state \<times> bool" where
  "put_pas_ad k ad st =
     (let (m, inserted) = try_emplace k ad (ds_pas_ad_data st)
      in (st\<lparr>ds_pas_ad_data := m\<rparr>, inserted))"

definition push_request :: "dispatch_request \<Rightarrow> dispatch_state \<Rightarrow> dispatch_state" where
  "push_request dq st = st\<lparr>ds_requests := ds_requests st @ [dq]\<rparr>"

definition add_join_candidate ::
  "string \<Rightarrow> k_anon_join_candidate \<Rightarrow> dispatch_state \<Rightarrow> dispatch_state" where
  "add_join_candidate k c st =
     st\<lparr>ds_k_anon_join_cand := fst (try_emplace k c (ds_k_anon_join_cand st))\<rparr>"

section \<open>Protected Audience and Protected App Signals ads\<close>

text \<open>
  The signals handed to scoreAd() for a render URL: \<open>None\<close> when the ad is skipped. The table of
  signals is absent when the signals could not be parsed.
\<close>

definition signals_for ::
  "reactor_config \<Rightarrow> (string \<rightharpoonup> string) option \<Rightarrow> string \<Rightarrow> string option" where
  "signals_for cf signals render =
     (case signals of
        None \<Rightarrow> Some ''null''
      | Some m \<Rightarrow>
          (case m render of
             Some s \<Rightarrow> Some s
           | None \<Rightarrow> if cf_require_scoring_signals_for_scoring cf then None else Some ''null''))"

definition reporting_ids_of :: "ad_with_bid \<Rightarrow> reporting_ids_param" where
  "reporting_ids_of ad =
     \<lparr>ri_buyer_reporting_id = aw_buyer_reporting_id ad,
      ri_buyer_and_seller_reporting_id = aw_buyer_and_seller_reporting_id ad,
      ri_selected_buyer_and_seller_reporting_id = aw_selected_buyer_and_seller_reporting_id ad\<rparr>"

definition pa_dispatch_request ::
  "libs \<Rightarrow> reactor_config \<Rightarrow> score_ads_raw_request \<Rightarrow> bool \<Rightarrow> (string \<rightharpoonup> string) option \<Rightarrow> string
     \<Rightarrow> ad_with_bid \<Rightarrow> dispatch_request option" where
  "pa_dispatch_request L cf rq debug signals config ad =
     (case signals_for cf signals (aw_render ad) of
        None \<Rightarrow> None
      | Some s \<Rightarrow>
          (case build_score_ad_request_for L (aw_ad ad) (aw_render ad) (aw_bid ad) config s debug
                  (cf_enable_adtech_code_logging cf)
                  (make_bid_metadata L (rq_publisher_hostname rq) (aw_interest_group_owner ad)
                     (aw_render ad) (aw_ad_components ad) (rq_top_level_seller rq)
                     (aw_bid_currency ad) (rq_seller_data_version rq) (reporting_ids_of ad)
                     (Some (rq_fdo_flags rq)))
                  (cf_code_version cf) of
             Inl e \<Rightarrow> None
           | Inr dq \<Rightarrow> Some dq))"

definition populate_pa_ad ::
  "libs \<Rightarrow> reactor_config \<Rightarrow> score_ads_raw_request \<Rightarrow> bool \<Rightarrow> (string \<rightharpoonup> string) option \<Rightarrow> string
     \<Rightarrow> ad_with_bid \<Rightarrow> dispatch_state \<Rightarrow> dispatch_state" where
  "populate_pa_ad L cf rq debug signals config ad st =
     (case pa_dispatch_request L cf rq debug signals config ad of
        None \<Rightarrow> st
      | Some dq \<Rightarrow>
          (let (st', inserted) = put_ad (dq_id dq) ad st
           in if inserted then push_request dq st' else st'))"

text \<open>The loop releases the last ad first, which is the order of \<open>foldr\<close>.\<close>

definition populate_protected_audience_dispatch_requests ::
  "libs \<Rightarrow> reactor_config \<Rightarrow> score_ads_raw_request \<Rightarrow> bool \<Rightarrow> (string \<rightharpoonup> string) option \<Rightarrow> string
     \<Rightarrow> dispatch_state \<Rightarrow> dispatch_state" where
  "populate_protected_audience_dispatch_requests L cf rq debug signals config st =
     (if cf_require_scoring_signals_for_scoring cf \<and> signals = None then st
      else foldr (populate_pa_ad L cf rq debug signals config) (rq_ad_bids rq) st)"

definition pas_dispatch_request ::
  "libs \<Rightarrow> reactor_config \<Rightarrow> score_ads_raw_request \<Rightarrow> bool \<Rightarrow> (string \<rightharpoonup> string) option \<Rightarrow> string
     \<Rightarrow> pas_ad_with_bid \<Rightarrow> dispatch_request option" where
  "pas_dispatch_request L cf rq debug signals config ad =
     (case signals_for cf signals (pas_render ad) of
        None \<Rightarrow> None
      | Some s \<Rightarrow>
          (case build_score_ad_request_for L (pas_ad ad) (pas_render ad) (pas_bid ad) config s debug
                  (cf_enable_adtech_code_logging cf)
                  (make_bid_metadata L (rq_publisher_hostname rq) (pas_owner ad) (pas_render ad) []
                     (rq_top_level_seller rq) (pas_bid_currency ad) (rq_seller_data_version rq)
                     no_reporting_ids None)
                  (cf_code_version cf) of
             Inl e \<Rightarrow> None
           | Inr dq \<Rightarrow> Some dq))"

definition populate_pas_ad ::
  "libs \<Rightarrow> reactor_config \<Rightarrow> score_ads_raw_request \<Rightarrow> bool \<Rightarrow> (string \<rightharpoonup> string) option \<Rightarrow> string
     \<Rightarrow> pas_ad_with_bid \<Rightarrow> dispatch_state \<Rightarrow> dispatch_state" where
  "populate_pas_ad L cf rq debug signals config ad st =
     (case pas_dispatch_request L cf rq debug signals config ad of
        None \<Rightarrow> st
      | Some dq \<Rightarrow>
          (let (st', inserted) = put_pas_ad (dq_id dq) ad st
           in if inserted then push_request dq st' else st'))"

definition may_populate_protected_app_signals_dispatch_requests ::
  "libs \<Rightarrow> reactor_config \<Rightarrow> score_ads_raw_request \<Rightarrow> bool \<Rightarrow> (string \<rightharpoonup> string) option \<Rightarrow> string
     \<Rightarrow> dispatch_state \<Rightarrow> dispatch_state" where
  "may_populate_protected_app_signals_dispatch_requests L cf rq debug signals config st =
     (if cf_require_scoring_signals_for_scoring cf \<and> signals = None then st
      else foldr (populate_pas_ad L cf rq debug signals config) (rq_pas_ad_bids rq) st)"

section \<open>Component auction results\<close>

definition component_reporting_data_in ::
  "auction_result \<Rightarrow> component_reporting_data \<times> auction_result" where
  "component_reporting_data_in ar =
     (\<lparr>crd_component_seller = ar_component_seller ar,
       crd_win_reporting_urls = ar_win_reporting_urls ar,
       crd_buyer_reporting_id = or_empty (ar_buyer_reporting_id ar),
       crd_buyer_and_seller_reporting_id = or_empty (ar_buyer_and_seller_reporting_id ar)\<rparr>,
      ar\<lparr>ar_win_reporting_urls := no_win_reporting_urls\<rparr>)"

definition component_winner_request ::
  "libs \<Rightarrow> reactor_config \<Rightarrow> score_ads_raw_request \<Rightarrow> bool \<Rightarrow> string \<Rightarrow> auction_result
     \<Rightarrow> dispatch_request" where
  "component_winner_request L cf rq debug config ar =
     build_score_ad_request (ar_ad_render_url ar) (ar_ad_metadata ar) ''{}'' (ar_bid ar) config
       (make_bid_metadata_for_top_level_auction L (rq_publisher_hostname rq)
          (ar_interest_group_owner ar) (ar_ad_render_url ar) (ar_ad_component_render_urls ar)
          (ar_component_seller ar) (ar_bid_currency ar) (rq_seller_data_version rq))
       (cf_enable_adtech_code_logging cf) debug (cf_code_version cf)"

text \<open>
  \<open>BuildScoreAdRequestForComponentWinner\<close>. The auction result is returned as the moves leave it,
  because the ghost winners' requests are built from it afterwards: the component seller is moved
  out of it when the winner's request is kept.
\<close>

definition build_component_winner ::
  "libs \<Rightarrow> reactor_config \<Rightarrow> score_ads_raw_request \<Rightarrow> bool \<Rightarrow> string \<Rightarrow> auction_result
     \<Rightarrow> dispatch_state \<Rightarrow> auction_result \<times> dispatch_state" where
  "build_component_winner L cf rq debug config ar st =
     (let dq = component_winner_request L cf rq debug config ar;
          (crd, ar1) = component_reporting_data_in ar
      in case ds_component_reporting st (dq_id dq) of
           Some _ \<Rightarrow> (ar1, st)
         | None \<Rightarrow>
             (let st1 = st\<lparr>ds_component_reporting := (ds_component_reporting st)(dq_id dq \<mapsto> crd)\<rparr>;
                  (ar2, st2, inserted) =
                    (case ar_ad_type ar1 of
                       AD_TYPE_PROTECTED_AUDIENCE_AD \<Rightarrow>
                         (let (ad, ar') = map_auction_result_to_ad_with_bid ar1 True;
                              (st', ins) = put_ad (dq_id dq) ad st1
                          in (ar', st', ins))
                     | AD_TYPE_PROTECTED_APP_SIGNALS_AD \<Rightarrow>
                         (let (ad, ar') = map_auction_result_to_pas_ad_with_bid ar1 True;
                              (st', ins) = put_pas_ad (dq_id dq) ad st1
                          in (ar', st', ins))
                     | _ \<Rightarrow> (ar1, st1, False))
              in if \<not> inserted then (ar2, st2)
                 else
                   (let (seller_map, moved) =
                          try_emplace (dq_id dq) (ar_component_seller ar2)
                            (ds_component_ad_seller st2)
                    in (ar2\<lparr>ar_component_seller :=
                              (if moved then [] else ar_component_seller ar2)\<rparr>,
                        push_request dq
                          (add_join_candidate (dq_id dq) (ar_k_anon_winner_join_candidates ar2)
                             (st2\<lparr>ds_component_ad_seller := seller_map\<rparr>))))))"

definition ghost_winner_request ::
  "libs \<Rightarrow> reactor_config \<Rightarrow> score_ads_raw_request \<Rightarrow> bool \<Rightarrow> string \<Rightarrow> string \<Rightarrow> string
     \<Rightarrow> ghost_winner_for_top_level \<Rightarrow> dispatch_request" where
  "ghost_winner_request L cf rq debug config component_seller owner gt =
     build_score_ad_request (gt_ad_render_url gt) (gt_ad_metadata gt) ''{}'' (gt_modified_bid gt)
       config
       (make_bid_metadata_for_top_level_auction L (rq_publisher_hostname rq) owner
          (gt_ad_render_url gt) (gt_ad_component_render_urls gt) component_seller
          (gt_bid_currency gt) (rq_seller_data_version rq))
       (cf_enable_adtech_code_logging cf) debug (cf_code_version cf)"

definition build_component_ghost_winner ::
  "libs \<Rightarrow> reactor_config \<Rightarrow> score_ads_raw_request \<Rightarrow> bool \<Rightarrow> string \<Rightarrow> string
     \<Rightarrow> k_anon_ghost_winner \<Rightarrow> dispatch_state \<Rightarrow> dispatch_state" where
  "build_component_ghost_winner L cf rq debug config component_seller gw st =
     (case gw_for_top_level gw of
        None \<Rightarrow> st
      | Some gt \<Rightarrow>
          (let dq = ghost_winner_request L cf rq debug config component_seller (gw_owner gw) gt;
               (st', inserted) =
                 (case gt_ad_type gt of
                    AD_TYPE_PROTECTED_AUDIENCE_AD \<Rightarrow>
                      put_ad (dq_id dq)
                        (fst (map_ghost_winner_to_ad_with_bid (gw_owner gw) (gw_ig_name gw) gt)) st
                  | AD_TYPE_PROTECTED_APP_SIGNALS_AD \<Rightarrow>
                      put_pas_ad (dq_id dq)
                        (fst (map_ghost_winner_to_pas_ad_with_bid (gw_owner gw) gt)) st
                  | _ \<Rightarrow> (st, False))
           in if inserted
              then push_request dq (add_join_candidate (dq_id dq) (gw_join_candidates gw) st')
              else st'))"

definition build_component_ghost_winners ::
  "libs \<Rightarrow> reactor_config \<Rightarrow> score_ads_raw_request \<Rightarrow> bool \<Rightarrow> string \<Rightarrow> auction_result
     \<Rightarrow> dispatch_state \<Rightarrow> dispatch_state" where
  "build_component_ghost_winners L cf rq debug config ar st =
     fold (build_component_ghost_winner L cf rq debug config (ar_component_seller ar))
       (ar_k_anon_ghost_winners ar) st"

definition populate_auction_result ::
  "libs \<Rightarrow> reactor_config \<Rightarrow> score_ads_raw_request \<Rightarrow> bool \<Rightarrow> string \<Rightarrow> auction_result
     \<Rightarrow> dispatch_state \<Rightarrow> dispatch_state" where
  "populate_auction_result L cf rq debug config ar st =
     (let (ar', st') =
        (if ar_ad_render_url ar \<noteq> [] then build_component_winner L cf rq debug config ar st
         else (ar, st))
      in if cf_enable_enforce_kanon cf \<and> ar_k_anon_ghost_winners ar' \<noteq> []
         then build_component_ghost_winners L cf rq debug config ar' st' else st')"

definition skipped_result :: "auction_result \<Rightarrow> bool" where
  "skipped_result ar \<longleftrightarrow> ar_is_chaff ar \<or> ar_component_seller ar = []"

fun populate_top_level_results ::
  "libs \<Rightarrow> reactor_config \<Rightarrow> score_ads_raw_request \<Rightarrow> bool \<Rightarrow> string \<Rightarrow> string
     \<Rightarrow> auction_result list \<Rightarrow> dispatch_state \<Rightarrow> dispatch_state status_or" where
  "populate_top_level_results L cf rq debug config generation_id [] st = Inr st"
| "populate_top_level_results L cf rq debug config generation_id (ar # ars) st =
     (if skipped_result ar
      then populate_top_level_results L cf rq debug config generation_id ars st
      else if generation_id \<noteq> [] \<and> generation_id \<noteq> ar_ciphertext_generation_id ar
      then Inl (invalid_argument ''Mismatched generation ids in component auction results.'')
      else populate_top_level_results L cf rq debug config (ar_ciphertext_generation_id ar) ars
             (populate_auction_result L cf rq debug config ar st))"

definition populate_top_level_auction_dispatch_requests ::
  "libs \<Rightarrow> reactor_config \<Rightarrow> score_ads_raw_request \<Rightarrow> bool \<Rightarrow> string \<Rightarrow> dispatch_state
     \<Rightarrow> dispatch_state status_or" where
  "populate_top_level_auction_dispatch_requests L cf rq debug config st =
     populate_top_level_results L cf rq debug config [] (rq_component_auction_results rq) st"

section \<open>Requests and tables stay in step\<close>

text \<open>
  The invariant: every request was recorded with exactly one ad, in exactly one of the two tables,
  under its dispatch id, and an ad is stored under its own render URL.
\<close>

definition dispatch_inv :: "dispatch_state \<Rightarrow> bool" where
  "dispatch_inv st \<longleftrightarrow>
     finite (dom (ds_ad_data st)) \<and> finite (dom (ds_pas_ad_data st))
     \<and> mset (map dq_id (ds_requests st))
         = mset_set (dom (ds_ad_data st)) + mset_set (dom (ds_pas_ad_data st))
     \<and> (\<forall>k ad. ds_ad_data st k = Some ad \<longrightarrow> aw_render ad = k)
     \<and> (\<forall>k ad. ds_pas_ad_data st k = Some ad \<longrightarrow> pas_render ad = k)"

lemma dispatch_inv_empty [simp]: "dispatch_inv empty_dispatch_state"
  by (simp add: dispatch_inv_def empty_dispatch_state_def)

lemma dispatch_inv_frame [simp]:
  "dispatch_inv (st\<lparr>ds_component_ad_seller := a\<rparr>) = dispatch_inv st"
  "dispatch_inv (st\<lparr>ds_k_anon_join_cand := b\<rparr>) = dispatch_inv st"
  "dispatch_inv (st\<lparr>ds_component_reporting := c\<rparr>) = dispatch_inv st"
  "dispatch_inv (add_join_candidate k x st) = dispatch_inv st"
  by (simp_all add: dispatch_inv_def add_join_candidate_def)

lemma put_ad_absent:
  "ds_ad_data st k = None \<Longrightarrow> put_ad k ad st = (st\<lparr>ds_ad_data := (ds_ad_data st)(k \<mapsto> ad)\<rparr>, True)"
  by (simp add: put_ad_def try_emplace_def)

lemma put_ad_present: "ds_ad_data st k = Some x \<Longrightarrow> put_ad k ad st = (st, False)"
  by (simp add: put_ad_def try_emplace_def)

lemma put_pas_ad_absent:
  "ds_pas_ad_data st k = None \<Longrightarrow>
     put_pas_ad k ad st = (st\<lparr>ds_pas_ad_data := (ds_pas_ad_data st)(k \<mapsto> ad)\<rparr>, True)"
  by (simp add: put_pas_ad_def try_emplace_def)

lemma put_pas_ad_present: "ds_pas_ad_data st k = Some x \<Longrightarrow> put_pas_ad k ad st = (st, False)"
  by (simp add: put_pas_ad_def try_emplace_def)

lemmas put_cases = put_ad_absent put_ad_present put_pas_ad_absent put_pas_ad_present

lemma dispatch_inv_insert:
  "dispatch_inv st \<Longrightarrow> ds_ad_data st k = None \<Longrightarrow> aw_render ad = k \<Longrightarrow> dq_id dq = k \<Longrightarrow>
     dispatch_inv (push_request dq (st\<lparr>ds_ad_data := (ds_ad_data st)(k \<mapsto> ad)\<rparr>))"
  by (auto simp: dispatch_inv_def push_request_def domIff)

lemma dispatch_inv_insert_pas:
  "dispatch_inv st \<Longrightarrow> ds_pas_ad_data st k = None \<Longrightarrow> pas_render ad = k \<Longrightarrow> dq_id dq = k \<Longrightarrow>
     dispatch_inv (push_request dq (st\<lparr>ds_pas_ad_data := (ds_pas_ad_data st)(k \<mapsto> ad)\<rparr>))"
  by (auto simp: dispatch_inv_def push_request_def domIff)

text \<open>Pushing commutes with the fields it does not touch.\<close>

lemma push_request_frame [simp]:
  "push_request dq (add_join_candidate k c st) = add_join_candidate k c (push_request dq st)"
  "push_request dq (st\<lparr>ds_component_ad_seller := m\<rparr>) = (push_request dq st)\<lparr>ds_component_ad_seller := m\<rparr>"
  by (simp_all add: push_request_def add_join_candidate_def)

lemma build_score_ad_request_id [simp]: "dq_id (build_score_ad_request r a b c d e f g h) = r"
  by (simp add: build_score_ad_request_def)

lemma pa_dispatch_request_id:
  "pa_dispatch_request L cf rq debug signals config ad = Some dq \<Longrightarrow> dq_id dq = aw_render ad"
  by (auto simp: pa_dispatch_request_def build_score_ad_request_for_def
        split: option.splits sum.splits)

lemma pas_dispatch_request_id:
  "pas_dispatch_request L cf rq debug signals config ad = Some dq \<Longrightarrow> dq_id dq = pas_render ad"
  by (auto simp: pas_dispatch_request_def build_score_ad_request_for_def
        split: option.splits sum.splits)

lemma populate_pa_ad_inv:
  "dispatch_inv st \<Longrightarrow> dispatch_inv (populate_pa_ad L cf rq debug signals config ad st)"
proof (cases "pa_dispatch_request L cf rq debug signals config ad")
  case (Some dq)
  note rid = pa_dispatch_request_id [OF Some]
  assume "dispatch_inv st"
  then show ?thesis
    using rid by (cases "ds_ad_data st (dq_id dq)")
      (simp_all add: populate_pa_ad_def Some put_cases dispatch_inv_insert)
qed (simp add: populate_pa_ad_def)

lemma populate_pas_ad_inv:
  "dispatch_inv st \<Longrightarrow> dispatch_inv (populate_pas_ad L cf rq debug signals config ad st)"
proof (cases "pas_dispatch_request L cf rq debug signals config ad")
  case (Some dq)
  note rid = pas_dispatch_request_id [OF Some]
  assume "dispatch_inv st"
  then show ?thesis
    using rid by (cases "ds_pas_ad_data st (dq_id dq)")
      (simp_all add: populate_pas_ad_def Some put_cases dispatch_inv_insert_pas)
qed (simp add: populate_pas_ad_def)

lemma foldr_inv: "(\<And>x s. P s \<Longrightarrow> P (f x s)) \<Longrightarrow> P s \<Longrightarrow> P (foldr f xs s)"
  by (induction xs) simp_all

lemma fold_inv: "(\<And>x s. P s \<Longrightarrow> P (f x s)) \<Longrightarrow> P s \<Longrightarrow> P (fold f xs s)"
  by (induction xs arbitrary: s) simp_all

lemma populate_pa_inv:
  "dispatch_inv st \<Longrightarrow>
     dispatch_inv (populate_protected_audience_dispatch_requests L cf rq debug signals config st)"
  unfolding populate_protected_audience_dispatch_requests_def
  by (auto intro: foldr_inv populate_pa_ad_inv)

lemma populate_pas_inv:
  "dispatch_inv st \<Longrightarrow>
     dispatch_inv
       (may_populate_protected_app_signals_dispatch_requests L cf rq debug signals config st)"
  unfolding may_populate_protected_app_signals_dispatch_requests_def
  by (auto intro: foldr_inv populate_pas_ad_inv)

lemma build_component_ghost_winner_inv:
  assumes "dispatch_inv st"
  shows "dispatch_inv (build_component_ghost_winner L cf rq debug config seller gw st)"
proof (cases "gw_for_top_level gw")
  case None
  then show ?thesis using assms by (simp add: build_component_ghost_winner_def)
next
  case (Some gt)
  show ?thesis
  proof (cases "gt_ad_type gt")
    case AD_TYPE_UNKNOWN
    then show ?thesis using assms Some by (simp add: build_component_ghost_winner_def Let_def)
  next
    case AD_TYPE_PROTECTED_AUDIENCE_AD
    then show ?thesis
      using assms Some
      by (cases "ds_ad_data st (gt_ad_render_url gt)")
         (simp_all add: build_component_ghost_winner_def Let_def ghost_winner_request_def put_cases
            dispatch_inv_insert map_ghost_winner_to_ad_with_bid_def)
  next
    case AD_TYPE_PROTECTED_APP_SIGNALS_AD
    then show ?thesis
      using assms Some
      by (cases "ds_pas_ad_data st (gt_ad_render_url gt)")
         (simp_all add: build_component_ghost_winner_def Let_def ghost_winner_request_def put_cases
            dispatch_inv_insert_pas map_ghost_winner_to_pas_ad_with_bid_def)
  qed
qed

text \<open>
  What the winner's handler does to the tables, without the moves: nothing when the render URL is
  already known or the type is unknown, one entry and one request otherwise.
\<close>

lemma build_component_winner_inv:
  assumes "dispatch_inv st"
  shows "dispatch_inv (snd (build_component_winner L cf rq debug config ar st))"
proof (cases "ds_component_reporting st (ar_ad_render_url ar)")
  case (Some x)
  then show ?thesis
    using assms by (simp add: build_component_winner_def component_winner_request_def
        component_reporting_data_in_def)
next
  case None
  define st1 where "st1 = st\<lparr>ds_component_reporting := (ds_component_reporting st)
    (ar_ad_render_url ar \<mapsto> fst (component_reporting_data_in ar))\<rparr>"
  have st1: "dispatch_inv st1" using assms by (simp add: st1_def)
  note d = build_component_winner_def component_winner_request_def component_reporting_data_in_def
    put_cases try_emplace_def
  show ?thesis
  proof (cases "ar_ad_type ar")
    case AD_TYPE_UNKNOWN
    then show ?thesis using None st1 by (simp add: d st1_def)
  next
    case AD_TYPE_PROTECTED_AUDIENCE_AD
    then show ?thesis
      using None st1
        dispatch_inv_insert [OF st1, of "ar_ad_render_url ar"]
      by (cases "ds_ad_data st (ar_ad_render_url ar)")
         (simp_all add: d st1_def map_auction_result_to_ad_with_bid_def split: option.split)
  next
    case AD_TYPE_PROTECTED_APP_SIGNALS_AD
    then show ?thesis
      using None st1
        dispatch_inv_insert_pas [OF st1, of "ar_ad_render_url ar"]
      by (cases "ds_pas_ad_data st (ar_ad_render_url ar)")
         (simp_all add: d st1_def map_auction_result_to_pas_ad_with_bid_def split: option.split)
  qed
qed

lemma populate_auction_result_inv:
  "dispatch_inv st \<Longrightarrow> dispatch_inv (populate_auction_result L cf rq debug config ar st)"
  using build_component_winner_inv [of st L cf rq debug config ar]
  by (auto simp: populate_auction_result_def build_component_ghost_winners_def Let_def
        split: prod.split intro: fold_inv build_component_ghost_winner_inv)

lemma populate_top_level_inv:
  "dispatch_inv st \<Longrightarrow> populate_top_level_results L cf rq debug config gid ars st = Inr st' \<Longrightarrow>
     dispatch_inv st'"
  by (induction ars arbitrary: st gid) (auto split: if_splits intro: populate_auction_result_inv)

section \<open>Which ads are scored\<close>

text \<open>Of several ads with one render URL, the one released first (the last of the list) is kept.\<close>

lemma populate_pa_ad_lookup:
  "ds_ad_data (populate_pa_ad L cf rq debug signals config ad st) x
     = (case ds_ad_data st x of
          Some a \<Rightarrow> Some a
        | None \<Rightarrow>
            if aw_render ad = x \<and> pa_dispatch_request L cf rq debug signals config ad \<noteq> None
            then Some ad else None)"
proof (cases "pa_dispatch_request L cf rq debug signals config ad")
  case None
  then show ?thesis by (simp add: populate_pa_ad_def split: option.split)
next
  case (Some dq)
  note rid = pa_dispatch_request_id [OF Some]
  show ?thesis
  proof (cases "ds_ad_data st (aw_render ad)")
    case None
    then show ?thesis
      by (auto simp: populate_pa_ad_def Some put_cases rid push_request_def split: option.split)
  next
    case (Some a)
    then show ?thesis
      by (auto simp: populate_pa_ad_def \<open>pa_dispatch_request L cf rq debug signals config ad = _\<close>
            put_cases rid split: option.split)
  qed
qed

lemma foldr_populate_pa_lookup:
  "ds_ad_data (foldr (populate_pa_ad L cf rq debug signals config) ads st) x
     = (case ds_ad_data st x of
          Some a \<Rightarrow> Some a
        | None \<Rightarrow>
            find (\<lambda>ad. aw_render ad = x
                    \<and> pa_dispatch_request L cf rq debug signals config ad \<noteq> None) (rev ads))"
proof (induction ads)
  case Nil
  then show ?case by (simp split: option.split)
next
  case (Cons ad ads)
  have find_snoc: "find P (xs @ [y]) = (case find P xs of Some z \<Rightarrow> Some z | None \<Rightarrow> if P y then Some y else None)"
    for P and xs :: "ad_with_bid list" and y
    by (induction xs) auto
  show ?case by (simp add: populate_pa_ad_lookup Cons.IH find_snoc split: option.split)
qed

text \<open>With required signals, no request is built for a URL the signals table does not know.\<close>

lemma pa_request_signals:
  "pa_dispatch_request L cf rq debug signals config ad = Some dq \<Longrightarrow>
     dq_scoring_signals dq
       = (case signals of None \<Rightarrow> ''null''
          | Some m \<Rightarrow> (case m (aw_render ad) of Some s \<Rightarrow> s | None \<Rightarrow> ''null''))
     \<and> (cf_require_scoring_signals_for_scoring cf \<and> signals \<noteq> None \<longrightarrow>
          the signals (aw_render ad) \<noteq> None)"
  by (auto simp: pa_dispatch_request_def signals_for_def build_score_ad_request_for_def
        build_score_ad_request_def split: option.splits sum.splits if_splits)

definition request_has_signals :: "(string \<rightharpoonup> string) \<Rightarrow> dispatch_request \<Rightarrow> bool" where
  "request_has_signals m dq \<longleftrightarrow> m (dq_id dq) = Some (dq_scoring_signals dq)"

lemma ds_requests_put [simp]:
  "ds_requests (fst (put_ad k ad st)) = ds_requests st"
  "ds_requests (fst (put_pas_ad k pad st)) = ds_requests st"
  by (simp_all add: put_ad_def put_pas_ad_def split: prod.split)

lemma populate_pa_ad_requests:
  "ds_requests (populate_pa_ad L cf rq debug signals config ad st) = ds_requests st \<or>
   (\<exists>dq. pa_dispatch_request L cf rq debug signals config ad = Some dq
      \<and> ds_requests (populate_pa_ad L cf rq debug signals config ad st) = ds_requests st @ [dq])"
  by (auto simp: populate_pa_ad_def put_ad_def push_request_def Let_def
        split: option.split prod.splits)

lemma populate_pas_ad_requests:
  "ds_requests (populate_pas_ad L cf rq debug signals config ad st) = ds_requests st \<or>
   (\<exists>dq. pas_dispatch_request L cf rq debug signals config ad = Some dq
      \<and> ds_requests (populate_pas_ad L cf rq debug signals config ad st) = ds_requests st @ [dq])"
  by (auto simp: populate_pas_ad_def put_pas_ad_def push_request_def Let_def
        split: option.split prod.splits)

lemma required_signals_present:
  assumes "cf_require_scoring_signals_for_scoring cf"
  shows "pa_dispatch_request L cf rq debug (Some m) config ad = Some dq \<Longrightarrow> request_has_signals m dq"
    and "pas_dispatch_request L cf rq debug (Some m) config pad = Some dq \<Longrightarrow>
           request_has_signals m dq"
  using assms
  by (auto simp: pa_dispatch_request_def pas_dispatch_request_def signals_for_def
        request_has_signals_def build_score_ad_request_for_def build_score_ad_request_def
        split: option.splits sum.splits if_splits)

lemma populate_all_have_signals:
  assumes req: "cf_require_scoring_signals_for_scoring cf"
    and st: "\<forall>dq \<in> set (ds_requests st). request_has_signals m dq"
  shows "\<forall>dq \<in> set (ds_requests
      (may_populate_protected_app_signals_dispatch_requests L cf rq debug (Some m) config
        (populate_protected_audience_dispatch_requests L cf rq debug (Some m) config st))).
      request_has_signals m dq"
proof -
  define good where "good s = (\<forall>dq \<in> set (ds_requests s). request_has_signals m dq)"
    for s :: dispatch_state
  have pa: "good (populate_pa_ad L cf rq debug (Some m) config ad s)" if "good s" for ad s
    using that populate_pa_ad_requests [of L cf rq debug "Some m" config ad s]
      required_signals_present(1) [OF req] unfolding good_def by fastforce
  have pas: "good (populate_pas_ad L cf rq debug (Some m) config ad s)" if "good s" for ad s
    using that populate_pas_ad_requests [of L cf rq debug "Some m" config ad s]
      required_signals_present(2) [OF req] unfolding good_def by fastforce
  have "good (may_populate_protected_app_signals_dispatch_requests L cf rq debug (Some m) config
        (populate_protected_audience_dispatch_requests L cf rq debug (Some m) config st))"
    using st pa pas
    by (simp add: may_populate_protected_app_signals_dispatch_requests_def
          populate_protected_audience_dispatch_requests_def foldr_inv [of good] flip: good_def)
  then show ?thesis by (simp add: good_def)
qed

section \<open>Top-level auctions\<close>

text \<open>The generation ids of the considered results must agree from the first non-empty one on.\<close>

definition generation_ids :: "auction_result list \<Rightarrow> string list" where
  "generation_ids ars = map ar_ciphertext_generation_id (filter (\<lambda>ar. \<not> skipped_result ar) ars)"

definition ids_agree :: "string list \<Rightarrow> bool" where
  "ids_agree gs =
     (case dropWhile (\<lambda>g. g = []) gs of [] \<Rightarrow> True | g # rest \<Rightarrow> (\<forall>g' \<in> set rest. g' = g))"

lemma ids_agree_Nil_Cons [simp]: "ids_agree ([] # gs) = ids_agree gs"
  by (simp add: ids_agree_def)

lemma ids_agree_Cons: "g \<noteq> [] \<Longrightarrow> ids_agree (g # gs) \<longleftrightarrow> (\<forall>g' \<in> set gs. g' = g)"
  by (simp add: ids_agree_def)

lemma populate_top_level_results_error:
  "(\<exists>e. populate_top_level_results L cf rq debug config gid ars st = Inl e)
     \<longleftrightarrow> \<not> ids_agree (gid # generation_ids ars)"
proof (induction ars arbitrary: gid st)
  case Nil
  then show ?case by (cases "gid = []") (simp_all add: generation_ids_def ids_agree_def)
next
  case (Cons ar ars)
  show ?case
  proof (cases "skipped_result ar")
    case True
    then show ?thesis using Cons.IH by (simp add: generation_ids_def)
  next
    case False
    have g: "generation_ids (ar # ars) = ar_ciphertext_generation_id ar # generation_ids ars"
      using False by (simp add: generation_ids_def)
    show ?thesis
      using False Cons.IH by (cases "gid = []") (auto simp: g ids_agree_Cons)
  qed
qed

text \<open>
  A kept winner has its component seller moved out of the auction result, so that the requests of
  the same result's ghost winners are built with an empty component seller.
\<close>

lemma kept_winner_loses_seller:
  assumes "ds_component_reporting st (ar_ad_render_url ar) = None"
    and "ds_component_ad_seller st (ar_ad_render_url ar) = None"
    and "ar_ad_type ar = AD_TYPE_PROTECTED_AUDIENCE_AD"
    and "ds_ad_data st (ar_ad_render_url ar) = None"
  shows "ar_component_seller (fst (build_component_winner L cf rq debug config ar st)) = []"
    and "ar_k_anon_ghost_winners (fst (build_component_winner L cf rq debug config ar st))
           = ar_k_anon_ghost_winners ar"
  using assms
  by (simp_all add: build_component_winner_def component_winner_request_def Let_def
        component_reporting_data_in_def map_auction_result_to_ad_with_bid_def put_ad_def
        try_emplace_def)

lemma ghost_winners_after_kept_winner:
  assumes "ds_component_reporting st (ar_ad_render_url ar) = None"
    and "ds_component_ad_seller st (ar_ad_render_url ar) = None"
    and "ar_ad_type ar = AD_TYPE_PROTECTED_AUDIENCE_AD"
    and "ds_ad_data st (ar_ad_render_url ar) = None"
    and "ar_ad_render_url ar \<noteq> []" and "cf_enable_enforce_kanon cf"
  shows "populate_auction_result L cf rq debug config ar st
    = fold (build_component_ghost_winner L cf rq debug config []) (ar_k_anon_ghost_winners ar)
        (snd (build_component_winner L cf rq debug config ar st))"
  using assms kept_winner_loses_seller [OF assms(1-4), of L cf rq debug config]
  by (auto simp: populate_auction_result_def build_component_ghost_winners_def Let_def
        split: prod.splits)

end
