(* ===== verification/Response_Collection.thy ===== *)
theory Response_Collection
  imports Scoring_Dispatch
begin

text \<open>
  \<open>ScoreAdsReactor::CollectValidRomaResponses\<close> and its helpers
  (\<open>services/auction_service/score_ads_reactor.cc\<close>): every answer of the code executor that parses
  becomes a scored ad; the others are dropped. The pointers \<open>ScoredAdData\<close> holds into the ad tables
  are only read while the scored ad is built, so the model holds the ads themselves.
\<close>

section \<open>Scored ads\<close>

record dispatch_response =
  dp_id :: string
  dp_resp :: string

record scored_ad =
  sd_ad_score :: ad_score
  sd_response_json :: json
  sd_protected_audience :: "ad_with_bid option"
  sd_protected_app_signals :: "pas_ad_with_bid option"
  sd_id :: string
  sd_k_anon_status :: bool

record scoring_ad_metadata =
  sm_buyer_bid :: f32
  sm_ad_with_bid_currency :: string
  sm_interest_group_name :: string
  sm_interest_group_owner :: string
  sm_interest_group_origin :: string
  sm_k_anon_status :: bool
  sm_ad_type :: ad_type

definition scoring_data_from_pa_ad :: "ad_with_bid \<Rightarrow> scoring_ad_metadata" where
  "scoring_data_from_pa_ad ad =
     \<lparr>sm_buyer_bid = aw_bid ad, sm_ad_with_bid_currency = aw_bid_currency ad,
      sm_interest_group_name = aw_interest_group_name ad,
      sm_interest_group_owner = aw_interest_group_owner ad,
      sm_interest_group_origin = aw_interest_group_origin ad,
      sm_k_anon_status = aw_k_anon_status ad, sm_ad_type = AD_TYPE_PROTECTED_AUDIENCE_AD\<rparr>"

definition scoring_data_from_pas_ad :: "pas_ad_with_bid \<Rightarrow> scoring_ad_metadata" where
  "scoring_data_from_pas_ad ad =
     \<lparr>sm_buyer_bid = pas_bid ad, sm_ad_with_bid_currency = pas_bid_currency ad,
      sm_interest_group_name = [], sm_interest_group_owner = pas_owner ad,
      sm_interest_group_origin = [], sm_k_anon_status = pas_k_anon_status ad,
      sm_ad_type = AD_TYPE_PROTECTED_APP_SIGNALS_AD\<rparr>"

definition populate_ad_score_data :: "scoring_ad_metadata \<Rightarrow> ad_score \<Rightarrow> ad_score" where
  "populate_ad_score_data m sc =
     sc\<lparr>as_interest_group_name := sm_interest_group_name m,
        as_interest_group_owner := sm_interest_group_owner m,
        as_interest_group_origin := sm_interest_group_origin m,
        as_ad_type := sm_ad_type m, as_buyer_bid := sm_buyer_bid m,
        as_buyer_bid_currency := sm_ad_with_bid_currency m\<rparr>"

definition find_scored_ad_type ::
  "dispatch_state \<Rightarrow> string \<Rightarrow> ad_with_bid option \<times> pas_ad_with_bid option" where
  "find_scored_ad_type st k =
     (case ds_ad_data st k of
        Some ad \<Rightarrow> (Some ad, None)
      | None \<Rightarrow> (None, ds_pas_ad_data st k))"

text \<open>The joined metadata of whichever ad the id resolves to; \<open>None\<close> when it resolves to no ad.\<close>

definition metadata_of_id :: "dispatch_state \<Rightarrow> string \<Rightarrow> scoring_ad_metadata option" where
  "metadata_of_id st k =
     (case find_scored_ad_type st k of
        (Some ad, _) \<Rightarrow> Some (scoring_data_from_pa_ad ad)
      | (None, Some ad) \<Rightarrow> Some (scoring_data_from_pas_ad ad)
      | (None, None) \<Rightarrow> None)"

section \<open>The loop over the responses\<close>

text \<open>The candidate is moved out of the table: a second response with the id gets an empty one.\<close>

definition may_add_k_anon_join_candidate ::
  "reactor_config \<Rightarrow> string \<Rightarrow> ad_score \<Rightarrow> dispatch_state \<Rightarrow> ad_score \<times> dispatch_state" where
  "may_add_k_anon_join_candidate cf k sc st =
     (if cf_auction_scope cf \<noteq> AUCTION_SCOPE_SERVER_TOP_LEVEL_SELLER then (sc, st)
      else
        (case ds_k_anon_join_cand st k of
           None \<Rightarrow> (sc, st)
         | Some c \<Rightarrow>
             (sc\<lparr>as_k_anon_join_candidate := Some c\<rparr>,
              st\<lparr>ds_k_anon_join_cand := (ds_k_anon_join_cand st)(k \<mapsto> no_join_candidate)\<rparr>)))"

text \<open>The contributions documents, a hash map the code iterates over: in iteration order.\<close>

type_synonym paapi_docs = "(string \<times> json) list"

definition collect_paapi_contributions ::
  "reactor_config \<Rightarrow> string \<Rightarrow> json \<Rightarrow> paapi_docs \<Rightarrow> paapi_docs" where
  "collect_paapi_contributions cf k wrapper docs =
     (if cf_enable_private_aggregate_reporting cf
      then (case find_member wrapper ''paapiContributions'' of
              Some (JObj ms) \<Rightarrow> al_emplace k (JObj ms) docs
            | _ \<Rightarrow> docs)
      else docs)"

text \<open>
  One successful response: the scored ad, the tables, and the parsed wrapper; \<open>None\<close> when the
  response is dropped.
\<close>

definition score_response ::
  "libs \<Rightarrow> reactor_config \<Rightarrow> dispatch_state \<Rightarrow> dispatch_response
     \<Rightarrow> (scored_ad \<times> dispatch_state \<times> json) option" where
  "score_response L cf st r =
     (case metadata_of_id st (dp_id r) of
        None \<Rightarrow> None
      | Some md \<Rightarrow>
          (case parse_json_string L (dp_resp r) of
             Inl e \<Rightarrow> None
           | Inr wrapper \<Rightarrow>
               (let resp = parse_and_get_score_ad_response_json wrapper
                in case score_ad_response_json_to_proto L resp
                          (cf_max_allowed_size_debug_url_chars cf)
                          (is_component_auction (cf_auction_scope cf)) of
                     Inl e \<Rightarrow> None
                   | Inr sc \<Rightarrow>
                       (let added = may_add_k_anon_join_candidate cf (dp_id r) sc st
                        in Some (\<lparr>sd_ad_score = populate_ad_score_data md (fst added),
                                  sd_response_json = resp,
                                  sd_protected_audience = fst (find_scored_ad_type st (dp_id r)),
                                  sd_protected_app_signals =
                                    snd (find_scored_ad_type st (dp_id r)),
                                  sd_id = dp_id r,
                                  sd_k_anon_status =
                                    (\<not> cf_enable_enforce_kanon cf \<or> sm_k_anon_status md)\<rparr>,
                                 snd added, wrapper)))))"

definition collect_response ::
  "libs \<Rightarrow> reactor_config \<Rightarrow> dispatch_response status_or
     \<Rightarrow> scored_ad list \<times> dispatch_state \<times> paapi_docs \<Rightarrow> scored_ad list \<times> dispatch_state \<times> paapi_docs"
  where
  "collect_response L cf response acc =
     (case acc of (ads, st, docs) \<Rightarrow>
      (case response of
         Inl e \<Rightarrow> (ads, st, docs)
       | Inr r \<Rightarrow>
           (case score_response L cf st r of
              None \<Rightarrow> (ads, st, docs)
            | Some (sd, st1, wrapper) \<Rightarrow>
                (ads @ [sd], st1, collect_paapi_contributions cf (dp_id r) wrapper docs))))"

definition collect_valid_roma_responses ::
  "libs \<Rightarrow> reactor_config \<Rightarrow> dispatch_response status_or list \<Rightarrow> dispatch_state
     \<Rightarrow> scored_ad list \<times> dispatch_state \<times> paapi_docs" where
  "collect_valid_roma_responses L cf responses st =
     fold (collect_response L cf) responses ([], st, [])"

section \<open>Lemmas\<close>

text \<open>The tables of ads are only read.\<close>

lemma may_add_k_anon_join_candidate_frame:
  "ds_ad_data (snd (may_add_k_anon_join_candidate cf k sc st)) = ds_ad_data st"
  "ds_pas_ad_data (snd (may_add_k_anon_join_candidate cf k sc st)) = ds_pas_ad_data st"
  by (simp_all add: may_add_k_anon_join_candidate_def split: option.split)

lemma metadata_of_id_cong:
  "ds_ad_data st' = ds_ad_data st \<Longrightarrow> ds_pas_ad_data st' = ds_pas_ad_data st \<Longrightarrow>
     metadata_of_id st' k = metadata_of_id st k \<and> find_scored_ad_type st' k = find_scored_ad_type st k"
  by (simp add: metadata_of_id_def find_scored_ad_type_def split: option.split)

lemma metadata_of_id_cases:
  "metadata_of_id st k = Some md \<longleftrightarrow>
     (\<exists>ad. ds_ad_data st k = Some ad \<and> md = scoring_data_from_pa_ad ad) \<or>
     (ds_ad_data st k = None \<and> (\<exists>ad. ds_pas_ad_data st k = Some ad \<and> md = scoring_data_from_pas_ad ad))"
  by (auto simp: metadata_of_id_def find_scored_ad_type_def split: option.split)

text \<open>What a scored ad carries, over the tables the collection started from.\<close>

definition scored_ad_ok :: "reactor_config \<Rightarrow> dispatch_state \<Rightarrow> scored_ad \<Rightarrow> bool" where
  "scored_ad_ok cf st sd \<longleftrightarrow>
     (case metadata_of_id st (sd_id sd) of
        None \<Rightarrow> False
      | Some md \<Rightarrow>
          as_buyer_bid (sd_ad_score sd) = sm_buyer_bid md
          \<and> as_interest_group_owner (sd_ad_score sd) = sm_interest_group_owner md
          \<and> as_interest_group_name (sd_ad_score sd) = sm_interest_group_name md
          \<and> as_buyer_bid_currency (sd_ad_score sd) = sm_ad_with_bid_currency md
          \<and> as_ad_type (sd_ad_score sd) = sm_ad_type md
          \<and> sd_k_anon_status sd = (\<not> cf_enable_enforce_kanon cf \<or> sm_k_anon_status md))"

lemma scored_ad_ok_cong:
  "ds_ad_data st' = ds_ad_data st \<Longrightarrow> ds_pas_ad_data st' = ds_pas_ad_data st \<Longrightarrow>
     scored_ad_ok cf st' sd = scored_ad_ok cf st sd"
  using metadata_of_id_cong [of st' st "sd_id sd"] by (simp add: scored_ad_ok_def)

lemma score_response_ok:
  assumes "score_response L cf st r = Some (sd, st', w)"
  shows "ds_ad_data st' = ds_ad_data st" and "ds_pas_ad_data st' = ds_pas_ad_data st"
    and "sd_id sd = dp_id r" and "scored_ad_ok cf st sd"
proof -
  from assms obtain md sc where md: "metadata_of_id st (dp_id r) = Some md"
    and sd: "sd_ad_score sd
        = populate_ad_score_data md (fst (may_add_k_anon_join_candidate cf (dp_id r) sc st))"
      "sd_id sd = dp_id r" "sd_k_anon_status sd = (\<not> cf_enable_enforce_kanon cf \<or> sm_k_anon_status md)"
    and st': "st' = snd (may_add_k_anon_join_candidate cf (dp_id r) sc st)"
    unfolding score_response_def Let_def by (auto split: option.splits sum.splits)
  show "ds_ad_data st' = ds_ad_data st" "ds_pas_ad_data st' = ds_pas_ad_data st"
    by (simp_all add: st' may_add_k_anon_join_candidate_frame)
  show "sd_id sd = dp_id r" by (rule sd(2))
  show "scored_ad_ok cf st sd"
    by (simp add: scored_ad_ok_def sd md populate_ad_score_data_def)
qed

lemma collect_response_step:
  "collect_response L cf response (ads, st, docs) = (ads', st', docs') \<Longrightarrow>
     ds_ad_data st' = ds_ad_data st \<and> ds_pas_ad_data st' = ds_pas_ad_data st
     \<and> (ads' = ads
        \<or> (\<exists>r sd. response = Inr r \<and> ads' = ads @ [sd] \<and> sd_id sd = dp_id r \<and> scored_ad_ok cf st sd))"
  using score_response_ok
  by (fastforce simp: collect_response_def split: sum.splits option.splits prod.splits)

text \<open>
  The scored ads are, in order, those of a subsequence of the successful responses, and each
  carries the bid, owner, currency, type and k-anonymity of the ad its id resolves to.
\<close>

lemma collect_fold:
  "fold (collect_response L cf) responses (ads, st, docs) = (ads', st', docs') \<Longrightarrow>
     ds_ad_data st' = ds_ad_data st \<and> ds_pas_ad_data st' = ds_pas_ad_data st
     \<and> (\<exists>new. ads' = ads @ new \<and> (\<forall>sd \<in> set new. scored_ad_ok cf st sd)
          \<and> subseq (map sd_id new)
               (concat (map (\<lambda>r. case r of Inl e \<Rightarrow> [] | Inr d \<Rightarrow> [dp_id d]) responses)))"
proof (induction responses arbitrary: ads st docs)
  case Nil
  then show ?case by simp
next
  case (Cons response responses)
  obtain ads1 st1 docs1
    where step: "collect_response L cf response (ads, st, docs) = (ads1, st1, docs1)"
    by (metis prod_cases3)
  note s = collect_response_step [OF step]
  from Cons.prems have "fold (collect_response L cf) responses (ads1, st1, docs1) = (ads', st', docs')"
    by (simp add: step)
  from Cons.IH [OF this] obtain new where
    tabs: "ds_ad_data st' = ds_ad_data st1" "ds_pas_ad_data st' = ds_pas_ad_data st1"
    and new: "ads' = ads1 @ new" "\<forall>sd \<in> set new. scored_ad_ok cf st1 sd"
    and sub: "subseq (map sd_id new)
      (concat (map (\<lambda>r. case r of Inl e \<Rightarrow> [] | Inr d \<Rightarrow> [dp_id d]) responses))"
    by blast
  have ok: "\<forall>sd \<in> set new. scored_ad_ok cf st sd"
    using new(2) s scored_ad_ok_cong [of st1 st cf] by simp
  show ?case
  proof (cases "ads1 = ads")
    case True
    have "subseq (map sd_id new)
      (concat (map (\<lambda>r. case r of Inl e \<Rightarrow> [] | Inr d \<Rightarrow> [dp_id d]) (response # responses)))"
      using sub by (auto intro: list_emb_append2)
    then show ?thesis using True tabs s new(1) ok by auto
  next
    case False
    with s obtain r sd where r: "response = Inr r" "ads1 = ads @ [sd]" "sd_id sd = dp_id r"
      "scored_ad_ok cf st sd"
      by blast
    then have "ads' = ads @ (sd # new)" using new(1) by simp
    moreover have "subseq (map sd_id (sd # new))
      (concat (map (\<lambda>r. case r of Inl e \<Rightarrow> [] | Inr d \<Rightarrow> [dp_id d]) (response # responses)))"
      using sub r by simp
    ultimately show ?thesis using tabs s ok r(4) by (metis set_ConsD)
  qed
qed

lemma collect_valid_roma_responses_ok:
  assumes "collect_valid_roma_responses L cf responses st = (ads, st', docs)"
  shows "\<forall>sd \<in> set ads. scored_ad_ok cf st sd"
    and "subseq (map sd_id ads)
      (concat (map (\<lambda>r. case r of Inl e \<Rightarrow> [] | Inr d \<Rightarrow> [dp_id d]) responses))"
  using collect_fold [OF assms [unfolded collect_valid_roma_responses_def]] by auto

end
