(* ===== verification/Winner_Selection.thy ===== *)
theory Winner_Selection
  imports Response_Collection
begin

text \<open>
  The choice of the winning ad and of the ghost winners: \<open>FindWinningAd\<close>, its helpers and
  \<open>ScoringData::ChooseWinnerAndGhostWinners\<close> in
  \<open>services/auction_service/score_ads_reactor.cc\<close>. The vector of parsed ads is a list that is
  updated by index as the code does (rejected ads are swapped behind the shrinking end);
  \<open>std::sort\<close> and \<open>std::sample\<close> are the parameters \<open>srt\<close> and \<open>smp\<close>, constrained by the contracts
  \<open>std_sort\<close> and \<open>std_sample\<close>.
\<close>

section \<open>Currency checks and rejection reasons\<close>

definition currency_epsilon :: f32 where
  "currency_epsilon = to_f32 (1 / 100000)"

definition is_incoming_bid_illegally_modified :: "string \<Rightarrow> string \<Rightarrow> f32 \<Rightarrow> f32 \<Rightarrow> bool" where
  "is_incoming_bid_illegally_modified seller_currency bid_currency incoming buyer_bid \<longleftrightarrow>
     seller_currency \<noteq> [] \<and> bid_currency \<noteq> [] \<and> seller_currency = bid_currency
     \<and> incoming > currency_epsilon
     \<and> \<bar>f32_sub incoming buyer_bid\<bar> > currency_epsilon"

definition is_bid_currency_mismatched :: "auction_scope \<Rightarrow> string \<Rightarrow> f32 \<Rightarrow> string \<Rightarrow> bool" where
  "is_bid_currency_mismatched sc seller_currency modified_bid modified_bid_currency \<longleftrightarrow>
     is_component_auction sc \<and> seller_currency \<noteq> [] \<and> modified_bid > 0
     \<and> modified_bid_currency \<noteq> [] \<and> modified_bid_currency \<noteq> seller_currency"

definition check_and_update_modified_bid :: "auction_scope \<Rightarrow> ad_score \<Rightarrow> ad_score" where
  "check_and_update_modified_bid scope sc =
     (if is_component_auction scope \<and> as_bid sc \<le> 0 \<and> as_buyer_bid sc > 0
      then sc\<lparr>as_bid := as_buyer_bid sc, as_bid_currency := as_buyer_bid_currency sc\<rparr>
      else sc)"

definition get_ad_rejection_reason ::
  "reactor_config \<Rightarrow> score_ads_raw_request \<Rightarrow> json \<Rightarrow> ad_score \<Rightarrow> ad_rejection_reason option" where
  "get_ad_rejection_reason cf rq resp sc =
     (let owner = as_interest_group_owner sc;
          name = as_interest_group_name sc;
          parsed = (if is_number resp then None else parse_ad_rejection_reason resp owner name)
      in if is_bid_currency_mismatched (cf_auction_scope cf) (rq_seller_currency rq) (as_bid sc)
              (as_bid_currency sc)
         then Some (build_ad_rejection_reason owner name BID_FROM_SCORE_AD_FAILED_CURRENCY_CHECK)
         else if is_incoming_bid_illegally_modified (rq_seller_currency rq)
                   (as_buyer_bid_currency sc) (as_incoming_bid_in_seller_currency sc)
                   (as_buyer_bid sc)
         then Some (build_ad_rejection_reason owner name INVALID_BID)
         else if as_desirability sc \<le> 0
         then Some (build_ad_rejection_reason owner name SELLER_REJECTION_REASON_NOT_AVAILABLE)
         else parsed)"

section \<open>The filtering loop\<close>

definition update_ad :: "reactor_config \<Rightarrow> scored_ad \<Rightarrow> scored_ad" where
  "update_ad cf sd =
     sd\<lparr>sd_ad_score := check_and_update_modified_bid (cf_auction_scope cf) (sd_ad_score sd)\<rparr>"

text \<open>The explicit rejection of an (updated) ad, if any.\<close>

definition rejection ::
  "reactor_config \<Rightarrow> score_ads_raw_request \<Rightarrow> scored_ad \<Rightarrow> ad_rejection_reason option" where
  "rejection cf rq sd =
     (case get_ad_rejection_reason cf rq (sd_response_json sd) (sd_ad_score sd) of
        Some r \<Rightarrow>
          if arr_rejection_reason r \<noteq> SELLER_REJECTION_REASON_NOT_AVAILABLE then Some r else None
      | None \<Rightarrow> None)"

definition disallowed :: "reactor_config \<Rightarrow> scored_ad \<Rightarrow> bool" where
  "disallowed cf sd \<longleftrightarrow>
     cf_auction_scope cf = AUCTION_SCOPE_DEVICE_COMPONENT_MULTI_SELLER
     \<and> \<not> as_allow_component_auction (sd_ad_score sd)"

definition swap_at :: "nat \<Rightarrow> nat \<Rightarrow> 'a list \<Rightarrow> 'a list" where
  "swap_at i j xs = xs[i := xs ! j, j := xs ! i]"

record filter_result =
  fr_ads :: "scored_ad list"
  fr_end :: nat
  fr_ad_scores :: "(string \<times> ad_score) list"
  fr_reasons :: "ad_rejection_reason list"
  fr_count :: int

function filter_ads ::
  "reactor_config \<Rightarrow> score_ads_raw_request \<Rightarrow> nat \<Rightarrow> filter_result \<Rightarrow> filter_result" where
  "filter_ads cf rq index s =
     (if index < fr_end s then
        (let sd = fr_ads s ! index;
             scores = al_emplace (sd_id sd) (sd_ad_score sd) (fr_ad_scores s);
             sd' = update_ad cf sd;
             ads = (fr_ads s)[index := sd'];
             e = fr_end s - 1
         in case rejection cf rq sd' of
              Some r \<Rightarrow>
                filter_ads cf rq index
                  \<lparr>fr_ads = swap_at e index ads, fr_end = e, fr_ad_scores = scores,
                   fr_reasons = fr_reasons s @ [r], fr_count = fr_count s + 1\<rparr>
            | None \<Rightarrow>
                if disallowed cf sd'
                then filter_ads cf rq index
                       \<lparr>fr_ads = swap_at e index ads, fr_end = e, fr_ad_scores = scores,
                        fr_reasons = fr_reasons s, fr_count = fr_count s\<rparr>
                else filter_ads cf rq (Suc index)
                       \<lparr>fr_ads = ads, fr_end = fr_end s, fr_ad_scores = scores,
                        fr_reasons = fr_reasons s, fr_count = fr_count s\<rparr>)
      else s)"
  by pat_completeness auto

termination
  by (relation "measure (\<lambda>(cf, rq, index, s). fr_end s - index)") auto

declare filter_ads.simps [simp del]

section \<open>Candidates, winner and ghost winners\<close>

definition scored_ad_greater :: "scored_ad \<Rightarrow> scored_ad \<Rightarrow> bool" where
  "scored_ad_greater x y \<longleftrightarrow>
     (let a = sd_ad_score x; b = sd_ad_score y
      in if as_desirability a > as_desirability b then True
         else if as_desirability a = as_desirability b then
           (if as_buyer_bid a > as_buyer_bid b then True
            else if as_buyer_bid a = as_buyer_bid b
            then sd_k_anon_status x \<and> \<not> sd_k_anon_status y
            else False)
         else False)"

definition desirability_at :: "scored_ad list \<Rightarrow> nat \<Rightarrow> f32" where
  "desirability_at ads i = as_desirability (sd_ad_score (ads ! i))"

text \<open>The desirability parameter of this helper is an \<open>int\<close>: the score is truncated at the call.\<close>

definition add_if_cands_empty_or_has_eq_last_desirability ::
  "nat \<Rightarrow> int \<Rightarrow> scored_ad list \<Rightarrow> nat list \<Rightarrow> nat list" where
  "add_if_cands_empty_or_has_eq_last_desirability ind desirability ads cands =
     (if cands = [] \<or> desirability_at ads (last cands) = of_int desirability then cands @ [ind]
      else cands)"

definition clear_debug_urls :: "scored_ad \<Rightarrow> scored_ad" where
  "clear_debug_urls sd = sd\<lparr>sd_ad_score := (sd_ad_score sd)\<lparr>as_debug_report_urls := None\<rparr>\<rparr>"

definition cand_step ::
  "nat \<Rightarrow> scored_ad list \<times> nat list \<times> nat list \<Rightarrow> scored_ad list \<times> nat list \<times> nat list" where
  "cand_step ind acc =
     (case acc of (ads, winners, ghosts) \<Rightarrow>
      (let d = desirability_at ads ind
       in if d \<le> 0 then (ads, winners, ghosts)
          else if sd_k_anon_status (ads ! ind)
          then (ads,
                add_if_cands_empty_or_has_eq_last_desirability ind (trunc_int d) ads winners,
                ghosts)
          else if winners = [] then
            (let ads' = ads[ind := clear_debug_urls (ads ! ind)]
             in (ads', winners,
                 add_if_cands_empty_or_has_eq_last_desirability ind (trunc_int d) ads' ghosts))
          else (ads, winners, ghosts)))"

definition find_candidates :: "scored_ad list \<Rightarrow> scored_ad list \<times> nat list \<times> nat list" where
  "find_candidates ads = fold cand_step [0..<length ads] (ads, [], [])"

definition choose_winner :: "(nat list \<Rightarrow> nat \<Rightarrow> nat list) \<Rightarrow> nat list \<Rightarrow> nat option" where
  "choose_winner smp winners = (if winners = [] then None else Some (hd (smp winners 1)))"

definition choose_ghost_winners ::
  "(nat list \<Rightarrow> nat \<Rightarrow> nat list) \<Rightarrow> nat \<Rightarrow> nat list \<Rightarrow> nat list" where
  "choose_ghost_winners smp max_ghosts ghosts =
     (if ghosts = [] then []
      else if length ghosts < max_ghosts then ghosts
      else smp ghosts (min max_ghosts (length ghosts)))"

text \<open>\<open>score_ad_map[desirability].push_back(ind)\<close> on the entries in iteration order.\<close>

fun push_entry :: "'k \<Rightarrow> 'v \<Rightarrow> ('k \<times> 'v list) list \<Rightarrow> ('k \<times> 'v list) list" where
  "push_entry k v [] = [(k, [v])]"
| "push_entry k v ((k', vs) # al) =
     (if k' = k then (k', vs @ [v]) # al else (k', vs) # push_entry k v al)"

definition build_score_ad_map :: "scored_ad list \<Rightarrow> nat list \<Rightarrow> (f32 \<times> nat list) list" where
  "build_score_ad_map ads ghosts =
     fold (\<lambda>ind al. if ind \<in> set ghosts then al else push_entry (desirability_at ads ind) ind al)
       [0..<length ads] []"

text \<open>
  \<open>ScoringData\<close>; the index \<open>-1\<close> of an auction without a winner is \<open>None\<close>. The number of allowed
  ghost winners, an \<open>int32\<close>, is converted to \<open>size_t\<close>.
\<close>

record scoring_data =
  sc_winner_index :: "nat option"
  sc_seller_rejected_bid_count :: int
  sc_score_ad_map :: "(f32 \<times> nat list) list"
  sc_ad_rejection_reasons :: "ad_rejection_reason list"
  sc_winner_cands :: "nat list"
  sc_ghost_winner_cands :: "nat list"
  sc_ghost_winner_indices :: "nat list"

definition size_t_of_int :: "int \<Rightarrow> nat" where
  "size_t_of_int n = nat (n mod 2 ^ 64)"

definition find_winning_ad ::
  "(scored_ad list \<Rightarrow> scored_ad list) \<Rightarrow> (nat list \<Rightarrow> nat \<Rightarrow> nat list) \<Rightarrow> reactor_config
     \<Rightarrow> score_ads_raw_request \<Rightarrow> scored_ad list \<Rightarrow> (string \<times> ad_score) list
     \<Rightarrow> scoring_data \<times> scored_ad list \<times> (string \<times> ad_score) list" where
  "find_winning_ad srt smp cf rq parsed ad_scores =
     (let fr = filter_ads cf rq 0
            \<lparr>fr_ads = parsed, fr_end = length parsed, fr_ad_scores = ad_scores, fr_reasons = [],
             fr_count = 0\<rparr>;
          (ads, winners, ghosts) = find_candidates (srt (take (fr_end fr) (fr_ads fr)))
      in (\<lparr>sc_winner_index = choose_winner smp winners,
           sc_seller_rejected_bid_count = fr_count fr,
           sc_score_ad_map = build_score_ad_map ads ghosts,
           sc_ad_rejection_reasons = fr_reasons fr,
           sc_winner_cands = winners, sc_ghost_winner_cands = ghosts,
           sc_ghost_winner_indices =
             choose_ghost_winners smp (size_t_of_int (rq_num_allowed_ghost_winners rq)) ghosts\<rparr>,
          ads, fr_ad_scores fr))"

section \<open>Lemmas on the filtering loop\<close>

lemma update_ad_simps [simp]:
  "sd_id (update_ad cf sd) = sd_id sd"
  "sd_k_anon_status (update_ad cf sd) = sd_k_anon_status sd"
  "sd_response_json (update_ad cf sd) = sd_response_json sd"
  "as_desirability (sd_ad_score (update_ad cf sd)) = as_desirability (sd_ad_score sd)"
  "as_buyer_bid (sd_ad_score (update_ad cf sd)) = as_buyer_bid (sd_ad_score sd)"
  by (simp_all add: update_ad_def check_and_update_modified_bid_def)

text \<open>In a component auction an ad leaves with a positive bid whenever the buyer bid was positive.\<close>

lemma check_and_update_modified_bid_positive:
  "is_component_auction scope \<Longrightarrow> as_buyer_bid sc > 0 \<Longrightarrow>
     as_bid (check_and_update_modified_bid scope sc) > 0"
  by (auto simp: check_and_update_modified_bid_def)

definition segment :: "nat \<Rightarrow> nat \<Rightarrow> 'a list \<Rightarrow> 'a list" where
  "segment i e xs = drop i (take e xs)"

lemma segment_step: "i < e \<Longrightarrow> e \<le> length xs \<Longrightarrow> segment i e xs = xs ! i # segment (Suc i) e xs"
  unfolding segment_def by (subst Cons_nth_drop_Suc [symmetric]) auto

lemma segment_snoc:
  "i \<le> e \<Longrightarrow> e < length xs \<Longrightarrow> segment i (Suc e) xs = segment i e xs @ [xs ! e]"
  by (simp add: segment_def take_Suc_conv_app_nth)

lemma segment_update_before [simp]:
  "j < i \<Longrightarrow> segment i e (xs[j := y]) = segment i e xs"
  "e \<le> j \<Longrightarrow> segment i e (xs[j := y]) = segment i e xs"
  by (simp_all only: segment_def take_update_cancel) (simp add: take_update_swap drop_update_cancel)

lemma segment_swap:
  assumes "i < e" and "e \<le> length xs"
  shows "add_mset (xs ! i) (mset (segment i (e - 1) (swap_at (e - 1) i (xs[i := y]))))
    = mset (segment i e xs)"
proof (cases "e - 1 = i")
  case True
  then have "e = Suc i" using assms by simp
  then show ?thesis using assms by (simp add: segment_step) (simp add: segment_def)
next
  case False
  let ?f = "e - 1"
  let ?ys = "swap_at ?f i (xs[i := y])"
  have f: "i < ?f" "?f < length xs" "e = Suc ?f" using assms False by simp_all
  have "segment i ?f ?ys = ?ys ! i # segment (Suc i) ?f ?ys"
    using f by (intro segment_step) (simp_all add: swap_at_def)
  moreover have "?ys ! i = xs ! ?f" using f by (simp add: swap_at_def)
  moreover have "segment (Suc i) ?f ?ys = segment (Suc i) ?f xs"
    by (simp add: swap_at_def)
  moreover have "segment i e xs = xs ! i # segment (Suc i) ?f xs @ [xs ! ?f]"
    using segment_step [of i e xs] segment_snoc [of "Suc i" ?f xs] f by simp
  ultimately show ?thesis by simp
qed

lemma swap_at_length [simp]: "length (swap_at i j xs) = length xs"
  by (simp add: swap_at_def)

lemma take_swap_at [simp]: "k \<le> i \<Longrightarrow> k \<le> j \<Longrightarrow> take k (swap_at i j xs) = take k xs"
  by (simp add: swap_at_def take_update_cancel)

definition keeps :: "reactor_config \<Rightarrow> score_ads_raw_request \<Rightarrow> scored_ad \<Rightarrow> bool" where
  "keeps cf rq sd \<longleftrightarrow> rejection cf rq sd = None \<and> \<not> disallowed cf sd"

definition rejections_of ::
  "reactor_config \<Rightarrow> score_ads_raw_request \<Rightarrow> scored_ad multiset \<Rightarrow> ad_rejection_reason multiset" where
  "rejections_of cf rq M =
     image_mset (\<lambda>sd. the (rejection cf rq sd)) (filter_mset (\<lambda>sd. rejection cf rq sd \<noteq> None) M)"

text \<open>
  The loop against its specification: what survives in front of the end, what is counted, and that
  every ad of the segment is entered into the table of scores, in some order.
\<close>

definition filter_spec ::
  "reactor_config \<Rightarrow> score_ads_raw_request \<Rightarrow> nat \<Rightarrow> filter_result \<Rightarrow> filter_result \<Rightarrow> bool" where
  "filter_spec cf rq i s t \<longleftrightarrow>
     fr_end t \<le> length (fr_ads t)
     \<and> mset (take (fr_end t) (fr_ads t))
         = mset (take i (fr_ads s))
           + filter_mset (keeps cf rq) (image_mset (update_ad cf) (mset (segment i (fr_end s) (fr_ads s))))
     \<and> mset (fr_reasons t)
         = mset (fr_reasons s)
           + rejections_of cf rq (image_mset (update_ad cf) (mset (segment i (fr_end s) (fr_ads s))))
     \<and> fr_count t - fr_count s = int (length (fr_reasons t)) - int (length (fr_reasons s))
     \<and> (\<exists>order. mset order = mset (segment i (fr_end s) (fr_ads s))
          \<and> fr_ad_scores t
              = fold (\<lambda>sd. al_emplace (sd_id sd) (sd_ad_score sd)) order (fr_ad_scores s))"

lemma filter_spec_done:
  "fr_end s \<le> length (fr_ads s) \<Longrightarrow> i = fr_end s \<Longrightarrow> filter_spec cf rq i s s"
  by (simp add: filter_spec_def segment_def rejections_of_def)

lemma filter_spec_drop:
  assumes "i < fr_end s" and "fr_end s \<le> length (fr_ads s)"
    and drop: "\<not> keeps cf rq (update_ad cf (fr_ads s ! i))"
    and s1: "fr_ads s1 = swap_at (fr_end s - 1) i ((fr_ads s)[i := update_ad cf (fr_ads s ! i)])"
      "fr_end s1 = fr_end s - 1"
      "fr_ad_scores s1
         = al_emplace (sd_id (fr_ads s ! i)) (sd_ad_score (fr_ads s ! i)) (fr_ad_scores s)"
      "mset (fr_reasons s1) = mset (fr_reasons s) + rejections_of cf rq {#update_ad cf (fr_ads s ! i)#}"
      "fr_count s1 - fr_count s = int (length (fr_reasons s1)) - int (length (fr_reasons s))"
    and spec: "filter_spec cf rq i s1 t"
  shows "filter_spec cf rq i s t"
proof -
  have seg: "mset (segment i (fr_end s) (fr_ads s))
      = add_mset (fr_ads s ! i) (mset (segment i (fr_end s1) (fr_ads s1)))"
    using segment_swap [OF assms(1,2), of "update_ad cf (fr_ads s ! i)"] by (simp add: s1)
  have tk: "take i (fr_ads s1) = take i (fr_ads s)"
    using assms(1) by (simp add: s1 take_update_cancel)
  from spec obtain order where order: "mset order = mset (segment i (fr_end s1) (fr_ads s1))"
    "fr_ad_scores t = fold (\<lambda>sd. al_emplace (sd_id sd) (sd_ad_score sd)) order (fr_ad_scores s1)"
    unfolding filter_spec_def by blast
  have "mset (fr_ads s ! i # order) = mset (segment i (fr_end s) (fr_ads s))"
    "fr_ad_scores t
       = fold (\<lambda>sd. al_emplace (sd_id sd) (sd_ad_score sd)) (fr_ads s ! i # order) (fr_ad_scores s)"
    by (simp_all add: seg order s1)
  moreover have "mset (fr_reasons t) = mset (fr_reasons s)
      + rejections_of cf rq (image_mset (update_ad cf) (mset (segment i (fr_end s) (fr_ads s))))"
    using spec s1(4) by (simp add: filter_spec_def seg rejections_of_def)
  moreover have "mset (take (fr_end t) (fr_ads t)) = mset (take i (fr_ads s))
      + filter_mset (keeps cf rq) (image_mset (update_ad cf) (mset (segment i (fr_end s) (fr_ads s))))"
    using spec drop by (simp add: filter_spec_def seg tk)
  ultimately show ?thesis
    using spec s1(5) unfolding filter_spec_def by fastforce
qed

lemma filter_spec_keep:
  assumes "i < fr_end s" and "fr_end s \<le> length (fr_ads s)"
    and keep: "keeps cf rq (update_ad cf (fr_ads s ! i))"
    and s1: "fr_ads s1 = (fr_ads s)[i := update_ad cf (fr_ads s ! i)]" "fr_end s1 = fr_end s"
      "fr_ad_scores s1
         = al_emplace (sd_id (fr_ads s ! i)) (sd_ad_score (fr_ads s ! i)) (fr_ad_scores s)"
      "fr_reasons s1 = fr_reasons s" "fr_count s1 = fr_count s"
    and spec: "filter_spec cf rq (Suc i) s1 t"
  shows "filter_spec cf rq i s t"
proof -
  have seg: "segment i (fr_end s) (fr_ads s) = fr_ads s ! i # segment (Suc i) (fr_end s1) (fr_ads s1)"
    using segment_step [OF assms(1,2)] by (simp add: s1)
  have tk: "take (Suc i) (fr_ads s1) = take i (fr_ads s) @ [update_ad cf (fr_ads s ! i)]"
    using assms(1,2) by (simp add: s1 take_Suc_conv_app_nth take_update_cancel)
  from spec obtain order where order: "mset order = mset (segment (Suc i) (fr_end s1) (fr_ads s1))"
    "fr_ad_scores t = fold (\<lambda>sd. al_emplace (sd_id sd) (sd_ad_score sd)) order (fr_ad_scores s1)"
    unfolding filter_spec_def by blast
  have "mset (fr_ads s ! i # order) = mset (segment i (fr_end s) (fr_ads s))"
    "fr_ad_scores t
       = fold (\<lambda>sd. al_emplace (sd_id sd) (sd_ad_score sd)) (fr_ads s ! i # order) (fr_ad_scores s)"
    by (simp_all add: seg order s1)
  moreover have "mset (fr_reasons t) = mset (fr_reasons s)
      + rejections_of cf rq (image_mset (update_ad cf) (mset (segment i (fr_end s) (fr_ads s))))"
    using spec keep by (simp add: filter_spec_def seg rejections_of_def keeps_def s1)
  moreover have "mset (take (fr_end t) (fr_ads t)) = mset (take i (fr_ads s))
      + filter_mset (keeps cf rq) (image_mset (update_ad cf) (mset (segment i (fr_end s) (fr_ads s))))"
    using spec keep by (simp add: filter_spec_def seg tk)
  ultimately show ?thesis
    using spec unfolding filter_spec_def s1 by fastforce
qed

lemma filter_ads_spec:
  "i \<le> fr_end s \<Longrightarrow> fr_end s \<le> length (fr_ads s) \<Longrightarrow> filter_spec cf rq i s (filter_ads cf rq i s)"
proof (induction cf rq i s rule: filter_ads.induct)
  case (1 cf rq i s)
  let ?sd = "update_ad cf (fr_ads s ! i)"
  define dropped where "dropped rs = \<lparr>fr_ads = swap_at (fr_end s - 1) i ((fr_ads s)[i := ?sd]),
      fr_end = fr_end s - 1,
      fr_ad_scores
        = al_emplace (sd_id (fr_ads s ! i)) (sd_ad_score (fr_ads s ! i)) (fr_ad_scores s),
      fr_reasons = fr_reasons s @ rs, fr_count = fr_count s + int (length rs)\<rparr>" for rs
  define kept where "kept = \<lparr>fr_ads = (fr_ads s)[i := ?sd], fr_end = fr_end s,
      fr_ad_scores
        = al_emplace (sd_id (fr_ads s ! i)) (sd_ad_score (fr_ads s ! i)) (fr_ad_scores s),
      fr_reasons = fr_reasons s, fr_count = fr_count s\<rparr>"
  show ?case
  proof (cases "i < fr_end s")
    case False
    then have "filter_ads cf rq i s = s" by (subst filter_ads.simps) simp
    then show ?thesis using False "1.prems" filter_spec_done [of s i cf rq] by simp
  next
    case True
    consider (reject) r where "rejection cf rq ?sd = Some r"
      | (disallow) "rejection cf rq ?sd = None" "disallowed cf ?sd"
      | (keep) "rejection cf rq ?sd = None" "\<not> disallowed cf ?sd"
      by (cases "rejection cf rq ?sd") auto
    then show ?thesis
    proof cases
      case reject
      have eq: "filter_ads cf rq i s = filter_ads cf rq i (dropped [r])"
        by (subst filter_ads.simps) (simp add: Let_def True reject dropped_def)
      have spec: "filter_spec cf rq i (dropped [r]) (filter_ads cf rq i (dropped [r]))"
        using "1.IH"(3) [OF True refl refl refl refl refl reject] True "1.prems"
        by (simp add: dropped_def)
      show ?thesis unfolding eq
        by (rule filter_spec_drop [OF True "1.prems"(2) _ _ _ _ _ _ spec])
           (simp_all add: reject keeps_def dropped_def rejections_of_def)
    next
      case disallow
      have eq: "filter_ads cf rq i s = filter_ads cf rq i (dropped [])"
        by (subst filter_ads.simps) (simp add: Let_def True disallow dropped_def)
      have spec: "filter_spec cf rq i (dropped []) (filter_ads cf rq i (dropped []))"
        using "1.IH"(1) [OF True refl refl refl refl refl disallow] True "1.prems"
        by (simp add: dropped_def)
      show ?thesis unfolding eq
        by (rule filter_spec_drop [OF True "1.prems"(2) _ _ _ _ _ _ spec])
           (simp_all add: disallow keeps_def dropped_def rejections_of_def)
    next
      case keep
      have eq: "filter_ads cf rq i s = filter_ads cf rq (Suc i) kept"
        by (subst filter_ads.simps) (simp add: Let_def True keep kept_def)
      have spec: "filter_spec cf rq (Suc i) kept (filter_ads cf rq (Suc i) kept)"
        using "1.IH"(2) [OF True refl refl refl refl refl keep] True "1.prems"
        by (simp add: kept_def)
      show ?thesis unfolding eq
        by (rule filter_spec_keep [OF True "1.prems"(2) _ _ _ _ _ _ spec])
           (simp_all add: keep keeps_def kept_def)
    qed
  qed
qed

section \<open>Lemmas on the candidates\<close>

definition scored_ad_ordered :: "scored_ad list \<Rightarrow> bool" where
  "scored_ad_ordered ads \<longleftrightarrow>
     (\<forall>i j. i < j \<longrightarrow> j < length ads \<longrightarrow> \<not> scored_ad_greater (ads ! j) (ads ! i))"

lemma not_greater_desirability:
  "\<not> scored_ad_greater x y \<Longrightarrow>
     as_desirability (sd_ad_score x) \<le> as_desirability (sd_ad_score y)"
  by (simp add: scored_ad_greater_def Let_def split: if_splits)

lemma ordered_desirability:
  "scored_ad_ordered ads \<Longrightarrow> i \<le> j \<Longrightarrow> j < length ads \<Longrightarrow>
     desirability_at ads j \<le> desirability_at ads i"
  using not_greater_desirability
  by (cases "i = j") (auto simp: scored_ad_ordered_def desirability_at_def)

text \<open>The comparison is a strict weak order, as \<open>std::sort\<close> requires.\<close>

interpretation score_order: strict_weak_order scored_ad_greater
proof
  fix x y z
  show "scored_ad_greater x y \<Longrightarrow> \<not> scored_ad_greater y x"
    by (auto simp: scored_ad_greater_def Let_def split: if_splits)
  show "scored_ad_greater x z \<Longrightarrow> scored_ad_greater x y \<or> scored_ad_greater y z"
    by (auto simp: scored_ad_greater_def Let_def split: if_splits)
qed

text \<open>
  What the loop over the sorted ads has found after \<open>m\<close> steps. \<open>K\<close> and \<open>D\<close> are the k-anonymity and
  the desirability by index, which the loop does not change.
\<close>

definition eligible :: "scored_ad list \<Rightarrow> nat \<Rightarrow> bool" where
  "eligible ads i \<longleftrightarrow> sd_k_anon_status (ads ! i) \<and> 0 < desirability_at ads i"

definition unchanged :: "scored_ad list \<Rightarrow> scored_ad list \<Rightarrow> bool" where
  "unchanged ads0 ads \<longleftrightarrow>
     length ads = length ads0
     \<and> (\<forall>i < length ads0. ads ! i = ads0 ! i
          \<or> (\<not> sd_k_anon_status (ads0 ! i) \<and> ads ! i = clear_debug_urls (ads0 ! i)))"

definition cands_inv ::
  "scored_ad list \<Rightarrow> nat \<Rightarrow> scored_ad list \<times> nat list \<times> nat list \<Rightarrow> bool" where
  "cands_inv ads0 m acc \<longleftrightarrow>
     (case acc of (ads, winners, ghosts) \<Rightarrow>
        unchanged ads0 ads
        \<and> (\<forall>i \<in> set winners. i < m \<and> eligible ads0 i
              \<and> (\<forall>j < m. eligible ads0 j \<longrightarrow> desirability_at ads0 j \<le> desirability_at ads0 i))
        \<and> (winners = [] \<longrightarrow> (\<forall>i < m. \<not> eligible ads0 i))
        \<and> (\<forall>g \<in> set ghosts. g < m \<and> \<not> sd_k_anon_status (ads0 ! g) \<and> 0 < desirability_at ads0 g
              \<and> (\<forall>j < length ads0. eligible ads0 j \<longrightarrow> g < j)
              \<and> ads ! g = clear_debug_urls (ads0 ! g))
        \<and> distinct winners \<and> distinct ghosts)"

lemma clear_debug_urls_simps [simp]:
  "sd_k_anon_status (clear_debug_urls sd) = sd_k_anon_status sd"
  "as_desirability (sd_ad_score (clear_debug_urls sd)) = as_desirability (sd_ad_score sd)"
  "sd_id (clear_debug_urls sd) = sd_id sd"
  "clear_debug_urls (clear_debug_urls sd) = clear_debug_urls sd"
  by (simp_all add: clear_debug_urls_def)

lemma unchanged_fields:
  assumes "unchanged ads0 ads" and "i < length ads0"
  shows "sd_k_anon_status (ads ! i) = sd_k_anon_status (ads0 ! i)"
    and "desirability_at ads i = desirability_at ads0 i"
    and "sd_id (ads ! i) = sd_id (ads0 ! i)"
  using assms by (auto simp: unchanged_def desirability_at_def)

lemma unchanged_clear:
  "unchanged ads0 ads \<Longrightarrow> m < length ads0 \<Longrightarrow> \<not> sd_k_anon_status (ads0 ! m) \<Longrightarrow>
     unchanged ads0 (ads[m := clear_debug_urls (ads ! m)])"
  by (auto simp: unchanged_def nth_list_update)

lemma cand_step_inv:
  assumes inv: "cands_inv ads0 m acc" and m: "m < length ads0" and ord: "scored_ad_ordered ads0"
  shows "cands_inv ads0 (Suc m) (cand_step m acc)"
proof -
  obtain ads winners ghosts where acc: "acc = (ads, winners, ghosts)" by (cases acc)
  have un: "unchanged ads0 ads" using inv by (simp add: cands_inv_def acc)
  note fields = unchanged_fields [OF un]
  let ?D = "desirability_at ads0"
  let ?K = "\<lambda>i. sd_k_anon_status (ads0 ! i)"
  have sorted: "?D m \<le> ?D i" if "i < m" for i
    using ordered_desirability [OF ord, of i m] that m by simp
  have W: "\<forall>i \<in> set winners. i < m \<and> eligible ads0 i
      \<and> (\<forall>j < m. eligible ads0 j \<longrightarrow> ?D j \<le> ?D i)"
    and We: "winners = [] \<longrightarrow> (\<forall>i < m. \<not> eligible ads0 i)"
    and G: "\<forall>g \<in> set ghosts. g < m \<and> \<not> ?K g \<and> 0 < ?D g \<and> (\<forall>j < length ads0. eligible ads0 j \<longrightarrow> g < j)
      \<and> ads ! g = clear_debug_urls (ads0 ! g)"
    and dist: "distinct winners" "distinct ghosts"
    using inv by (simp_all add: cands_inv_def acc)
  have un_step: "\<forall>i \<in> set winners. ?D m \<le> ?D i" using W sorted by blast
  have notin: "m \<notin> set winners" "m \<notin> set ghosts" using W G by auto
  consider (low) "?D m \<le> 0" | (kanon) "0 < ?D m" "?K m"
    | (ghost) "0 < ?D m" "\<not> ?K m" "winners = []" | (rest) "0 < ?D m" "\<not> ?K m" "winners \<noteq> []"
    by fastforce
  then show ?thesis
  proof cases
    case low
    then have el: "\<not> eligible ads0 m" by (simp add: eligible_def)
    have "cand_step m acc = acc" using low fields(2) [OF m] by (simp add: cand_step_def acc Let_def)
    then show ?thesis
      using W We G dist un el by (auto simp: cands_inv_def acc less_Suc_eq)
  next
    case kanon
    let ?w = "add_if_cands_empty_or_has_eq_last_desirability m (trunc_int (?D m)) ads winners"
    have step: "cand_step m acc = (ads, ?w, ghosts)"
      using kanon fields [OF m] by (simp add: cand_step_def acc Let_def)
    have el: "eligible ads0 m" using kanon by (simp add: eligible_def)
    have w: "?w = winners \<or> (?w = winners @ [m] \<and> (\<forall>i \<in> set winners. ?D i \<le> ?D m))"
    proof (cases "winners = []")
      case True
      then show ?thesis by (simp add: add_if_cands_empty_or_has_eq_last_desirability_def)
    next
      case False
      then have last: "last winners \<in> set winners" by simp
      have "?D i \<le> ?D m" if "desirability_at ads (last winners) = of_int (trunc_int (?D m))"
        "i \<in> set winners" for i
      proof -
        have "?D i \<le> ?D (last winners)" using W last that(2) by blast
        also have "\<dots> = of_int (trunc_int (?D m))" using that(1) fields(2) W last m by auto
        also have "\<dots> \<le> ?D m" using trunc_int_toward_zero kanon(1) by (simp add: less_imp_le)
        finally show ?thesis .
      qed
      then show ?thesis by (auto simp: add_if_cands_empty_or_has_eq_last_desirability_def)
    qed
    have we: "?w \<noteq> []" by (simp add: add_if_cands_empty_or_has_eq_last_desirability_def)
    have ww: "\<forall>i \<in> set ?w. i < Suc m \<and> eligible ads0 i
        \<and> (\<forall>j < Suc m. eligible ads0 j \<longrightarrow> ?D j \<le> ?D i)"
      using w
    proof
      assume "?w = winners"
      then show ?thesis using W un_step by (auto simp: less_Suc_eq)
    next
      assume a: "?w = winners @ [m] \<and> (\<forall>i \<in> set winners. ?D i \<le> ?D m)"
      have "?D j \<le> ?D m" if "j < m" "eligible ads0 j" for j
      proof -
        have "winners \<noteq> []" using We that by blast
        then obtain i where "i \<in> set winners" by (cases winners) auto
        then show ?thesis using W a that by (meson order_trans)
      qed
      then show ?thesis using a W un_step el by (auto simp: less_Suc_eq)
    qed
    have "distinct ?w" using w notin dist by auto
    then show ?thesis
      unfolding step cands_inv_def using un ww we G dist by auto
  next
    case ghost
    let ?ads = "ads[m := clear_debug_urls (ads ! m)]"
    let ?g = "add_if_cands_empty_or_has_eq_last_desirability m (trunc_int (?D m)) ?ads ghosts"
    have step: "cand_step m acc = (?ads, [], ?g)"
      using ghost fields [OF m] by (simp add: cand_step_def acc Let_def)
    have el: "\<not> eligible ads0 m" using ghost by (simp add: eligible_def)
    have first: "m < j" if "j < length ads0" "eligible ads0 j" for j
      using We ghost(3) el that by (metis linorder_neqE_nat)
    have g: "set ?g \<subseteq> insert m (set ghosts)" "distinct ?g"
      using notin dist by (auto simp: add_if_cands_empty_or_has_eq_last_desirability_def)
    have clr: "?ads ! m = clear_debug_urls (ads0 ! m)"
      using un m by (auto simp: unchanged_def)
    have "\<forall>x \<in> set ghosts. x < Suc m \<and> \<not> ?K x \<and> 0 < ?D x \<and> (\<forall>j < length ads0. eligible ads0 j \<longrightarrow> x < j)
        \<and> ?ads ! x = clear_debug_urls (ads0 ! x)"
      using G by auto
    moreover have "m < Suc m \<and> \<not> ?K m \<and> 0 < ?D m \<and> (\<forall>j < length ads0. eligible ads0 j \<longrightarrow> m < j)
        \<and> ?ads ! m = clear_debug_urls (ads0 ! m)"
      using ghost first clr by simp
    ultimately have "\<forall>x \<in> set ?g. x < Suc m \<and> \<not> ?K x \<and> 0 < ?D x
        \<and> (\<forall>j < length ads0. eligible ads0 j \<longrightarrow> x < j) \<and> ?ads ! x = clear_debug_urls (ads0 ! x)"
      using g(1) by blast
    then show ?thesis
      unfolding step cands_inv_def
      using unchanged_clear [OF un m ghost(2)] We ghost(3) el g(2) by (auto simp: less_Suc_eq)
  next
    case rest
    have el: "\<not> eligible ads0 m" using rest by (simp add: eligible_def)
    have "cand_step m acc = acc" using rest fields [OF m] by (simp add: cand_step_def acc Let_def)
    then show ?thesis
      using W We G dist un el by (auto simp: cands_inv_def acc less_Suc_eq)
  qed
qed

lemma find_candidates_inv:
  assumes "scored_ad_ordered ads"
  shows "cands_inv ads (length ads) (find_candidates ads)"
proof -
  have "m \<le> length ads \<Longrightarrow> cands_inv ads m (fold cand_step [0..<m] (ads, [], []))" for m
  proof (induction m)
    case 0
    then show ?case by (simp add: cands_inv_def unchanged_def)
  next
    case (Suc m)
    then show ?case using cand_step_inv [OF _ _ assms, of m] by simp
  qed
  then show ?thesis by (simp add: find_candidates_def)
qed

text \<open>
  Two ads with the same score are both candidates only when the score is an integer: the score is
  truncated before it is compared.
\<close>

lemma fractional_tie_is_no_candidate:
  assumes "0 < desirability_at ads i" and "cands \<noteq> []"
    and "desirability_at ads (last cands) = desirability_at ads i"
    and "desirability_at ads i \<noteq> of_int (trunc_int (desirability_at ads i))"
  shows "add_if_cands_empty_or_has_eq_last_desirability i (trunc_int (desirability_at ads i)) ads
      cands = cands"
  using assms by (simp add: add_if_cands_empty_or_has_eq_last_desirability_def)

section \<open>The winner, the ghost winners and the rejections\<close>

lemma segment_full [simp]: "segment 0 (length xs) xs = xs"
  by (simp add: segment_def)

definition kept_ads :: "reactor_config \<Rightarrow> score_ads_raw_request \<Rightarrow> scored_ad list \<Rightarrow> scored_ad multiset" where
  "kept_ads cf rq parsed = filter_mset (keeps cf rq) (image_mset (update_ad cf) (mset parsed))"

text \<open>The sorted vector the candidates are taken from, and what \<open>find_winning_ad\<close> makes of it.\<close>

lemma find_winning_ad_sorted:
  assumes "std_sort scored_ad_greater srt"
    and fw: "find_winning_ad srt smp cf rq parsed scores0 = (data, ads, scores)"
  obtains sorted where "mset sorted = kept_ads cf rq parsed" "scored_ad_ordered sorted"
    "find_candidates sorted = (ads, sc_winner_cands data, sc_ghost_winner_cands data)"
    "mset (sc_ad_rejection_reasons data) = rejections_of cf rq (image_mset (update_ad cf) (mset parsed))"
    "sc_seller_rejected_bid_count data = int (length (sc_ad_rejection_reasons data))"
    "sc_winner_index data = choose_winner smp (sc_winner_cands data)"
    "sc_ghost_winner_indices data = choose_ghost_winners smp
       (size_t_of_int (rq_num_allowed_ghost_winners rq)) (sc_ghost_winner_cands data)"
    "sc_score_ad_map data = build_score_ad_map ads (sc_ghost_winner_cands data)"
    "\<exists>order. mset order = mset parsed
       \<and> scores = fold (\<lambda>sd. al_emplace (sd_id sd) (sd_ad_score sd)) order scores0"
proof -
  let ?s = "\<lparr>fr_ads = parsed, fr_end = length parsed, fr_ad_scores = scores0, fr_reasons = [],
    fr_count = 0\<rparr>"
  let ?t = "filter_ads cf rq 0 ?s"
  have spec: "filter_spec cf rq 0 ?s ?t" by (rule filter_ads_spec) simp_all
  note sort = std_sort.srt_mset [OF assms(1)] std_sort.srt_nth_not_before [OF assms(1)]
    std_sort.srt_length [OF assms(1)]
  let ?sorted = "srt (take (fr_end ?t) (fr_ads ?t))"
  show thesis
  proof (rule that [of ?sorted])
    show "mset ?sorted = kept_ads cf rq parsed"
      using spec by (simp add: sort(1) filter_spec_def kept_ads_def)
    show "scored_ad_ordered ?sorted"
      by (simp add: scored_ad_ordered_def sort(2,3))
  qed (use fw spec in \<open>auto simp: find_winning_ad_def filter_spec_def Let_def split: prod.splits\<close>)
qed

lemma choose_winner_in:
  assumes "std_sample smp"
  shows "choose_winner smp ws = Some i \<Longrightarrow> i \<in> set ws"
    and "choose_winner smp ws = None \<longleftrightarrow> ws = []"
proof -
  show "choose_winner smp ws = None \<longleftrightarrow> ws = []" by (simp add: choose_winner_def)
  assume "choose_winner smp ws = Some i"
  then have "ws \<noteq> []" and "i = hd (smp ws 1)" by (simp_all add: choose_winner_def split: if_splits)
  then show "i \<in> set ws" using std_sample.smp_one [OF assms, of ws] by auto
qed

lemma choose_ghost_winners_props:
  assumes "std_sample smp"
  shows "set (choose_ghost_winners smp n gs) \<subseteq> set gs"
    and "length (choose_ghost_winners smp n gs) = min n (length gs)"
    and "distinct gs \<Longrightarrow> distinct (choose_ghost_winners smp n gs)"
proof -
  note smp = std_sample.smp_set [OF assms] std_sample.smp_length [OF assms]
    std_sample.smp_subseq [OF assms]
  show "set (choose_ghost_winners smp n gs) \<subseteq> set gs"
    using smp(1) by (simp add: choose_ghost_winners_def)
  show "length (choose_ghost_winners smp n gs) = min n (length gs)"
    by (simp add: choose_ghost_winners_def smp(2))
  show "distinct gs \<Longrightarrow> distinct (choose_ghost_winners smp n gs)"
    using subseq_distinct [OF smp(3)] by (simp add: choose_ghost_winners_def)
qed

lemma set_mset_kept_ads:
  "set_mset (kept_ads cf rq parsed) = {sd'. \<exists>sd \<in> set parsed. sd' = update_ad cf sd \<and> keeps cf rq sd'}"
  by (auto simp: kept_ads_def)

text \<open>
  The specification of the winner: an accepted k-anonymous ad of positive desirability that no
  other such ad exceeds, and there is none exactly when no accepted ad is k-anonymous and positive.
\<close>

definition acceptable :: "reactor_config \<Rightarrow> score_ads_raw_request \<Rightarrow> scored_ad \<Rightarrow> bool" where
  "acceptable cf rq sd \<longleftrightarrow>
     keeps cf rq (update_ad cf sd) \<and> sd_k_anon_status sd \<and> 0 < as_desirability (sd_ad_score sd)"

lemma winner_is_best:
  assumes srt: "std_sort scored_ad_greater srt" and smp: "std_sample smp"
    and fw: "find_winning_ad srt smp cf rq parsed scores0 = (data, ads, scores)"
  shows "case sc_winner_index data of
      None \<Rightarrow> \<forall>sd \<in> set parsed. \<not> acceptable cf rq sd
    | Some i \<Rightarrow> i < length ads \<and> (\<exists>sd \<in> set parsed. ads ! i = update_ad cf sd \<and> acceptable cf rq sd
        \<and> (\<forall>sd' \<in> set parsed. acceptable cf rq sd' \<longrightarrow>
             as_desirability (sd_ad_score sd') \<le> as_desirability (sd_ad_score sd)))"
proof -
  obtain sorted where ms: "mset sorted = kept_ads cf rq parsed" and ord: "scored_ad_ordered sorted"
    and fc: "find_candidates sorted = (ads, sc_winner_cands data, sc_ghost_winner_cands data)"
    and wi: "sc_winner_index data = choose_winner smp (sc_winner_cands data)"
    by (rule find_winning_ad_sorted [OF srt fw])
  from find_candidates_inv [OF ord] fc
  have un: "unchanged sorted ads"
    and W: "\<forall>i \<in> set (sc_winner_cands data). i < length sorted \<and> eligible sorted i
      \<and> (\<forall>j < length sorted. eligible sorted j \<longrightarrow> desirability_at sorted j \<le> desirability_at sorted i)"
    and We: "sc_winner_cands data = [] \<longrightarrow> (\<forall>i < length sorted. \<not> eligible sorted i)"
    by (simp_all add: cands_inv_def)
  have sets: "set sorted = set_mset (kept_ads cf rq parsed)" using ms by (metis set_mset_mset)
  have acc: "\<exists>j < length sorted. sorted ! j = update_ad cf sd \<and> eligible sorted j"
    if "sd \<in> set parsed" "acceptable cf rq sd" for sd
  proof -
    have "update_ad cf sd \<in> set sorted"
      using that by (auto simp: sets set_mset_kept_ads acceptable_def)
    then obtain j where "j < length sorted" "sorted ! j = update_ad cf sd"
      by (auto simp: in_set_conv_nth)
    then show ?thesis
      using that(2) by (auto simp: eligible_def desirability_at_def acceptable_def)
  qed
  show ?thesis
  proof (cases "sc_winner_index data")
    case None
    then have "\<forall>i < length sorted. \<not> eligible sorted i" using wi choose_winner_in(2) [OF smp] We by metis
    then show ?thesis using None acc by fastforce
  next
    case (Some i)
    then have i: "i < length sorted" "eligible sorted i"
      and best: "\<forall>j < length sorted. eligible sorted j \<longrightarrow> desirability_at sorted j \<le> desirability_at sorted i"
      using wi choose_winner_in(1) [OF smp] W by auto
    have ai: "ads ! i = sorted ! i" "length ads = length sorted"
      using un i by (auto simp: unchanged_def eligible_def)
    have "sorted ! i \<in> set_mset (kept_ads cf rq parsed)"
      using i(1) sets by (metis nth_mem)
    then obtain sd where sd: "sd \<in> set parsed" "sorted ! i = update_ad cf sd" "keeps cf rq (sorted ! i)"
      by (auto simp: set_mset_kept_ads)
    have sd': "acceptable cf rq sd"
      using i(2) sd by (simp add: acceptable_def eligible_def desirability_at_def)
    have "as_desirability (sd_ad_score x) \<le> as_desirability (sd_ad_score sd)"
      if "x \<in> set parsed" "acceptable cf rq x" for x
      using acc [OF that] best sd(2) by (auto simp: desirability_at_def)
    then show ?thesis using Some i ai sd sd' by auto
  qed
qed

text \<open>
  Ghost winners: pairwise distinct accepted ads that are not k-anonymous, of positive desirability
  at least the winner's, as many as the request allows or as there are candidates.
\<close>

lemma ghost_winners_outscore_winner:
  assumes srt: "std_sort scored_ad_greater srt" and smp: "std_sample smp"
    and fw: "find_winning_ad srt smp cf rq parsed scores0 = (data, ads, scores)"
  shows "distinct (sc_ghost_winner_indices data)
    \<and> length (sc_ghost_winner_indices data) \<le> size_t_of_int (rq_num_allowed_ghost_winners rq)
    \<and> (\<forall>g \<in> set (sc_ghost_winner_indices data). g < length ads \<and> \<not> sd_k_anon_status (ads ! g)
        \<and> 0 < desirability_at ads g
        \<and> as_debug_report_urls (sd_ad_score (ads ! g)) = None
        \<and> (\<forall>i. sc_winner_index data = Some i \<longrightarrow> desirability_at ads i \<le> desirability_at ads g))"
proof -
  obtain sorted where ord: "scored_ad_ordered sorted"
    and fc: "find_candidates sorted = (ads, sc_winner_cands data, sc_ghost_winner_cands data)"
    and wi: "sc_winner_index data = choose_winner smp (sc_winner_cands data)"
    and gi: "sc_ghost_winner_indices data = choose_ghost_winners smp
       (size_t_of_int (rq_num_allowed_ghost_winners rq)) (sc_ghost_winner_cands data)"
    by (rule find_winning_ad_sorted [OF srt fw])
  from find_candidates_inv [OF ord] fc
  have un: "unchanged sorted ads"
    and W: "\<forall>i \<in> set (sc_winner_cands data). i < length sorted \<and> eligible sorted i"
    and G: "\<forall>g \<in> set (sc_ghost_winner_cands data). g < length sorted
      \<and> \<not> sd_k_anon_status (sorted ! g) \<and> 0 < desirability_at sorted g
      \<and> (\<forall>j < length sorted. eligible sorted j \<longrightarrow> g < j) \<and> ads ! g = clear_debug_urls (sorted ! g)"
    and dist: "distinct (sc_ghost_winner_cands data)"
    by (simp_all add: cands_inv_def)
  note ch = choose_ghost_winners_props [OF smp]
  have "desirability_at ads i \<le> desirability_at ads g"
    if g: "g \<in> set (sc_ghost_winner_indices data)" and i: "sc_winner_index data = Some i" for g i
  proof -
    have "i < length sorted" "eligible sorted i"
      using i wi W choose_winner_in(1) [OF smp] by auto
    moreover have "g \<in> set (sc_ghost_winner_cands data)" using g gi ch(1) by auto
    with G calculation have "g < i" by simp
    ultimately have "desirability_at sorted i \<le> desirability_at sorted g"
      using ordered_desirability [OF ord] by simp
    then show ?thesis
      using unchanged_fields(2) [OF un] \<open>i < length sorted\<close> \<open>g < i\<close> by simp
  qed
  moreover have "g < length ads \<and> \<not> sd_k_anon_status (ads ! g) \<and> 0 < desirability_at ads g
      \<and> as_debug_report_urls (sd_ad_score (ads ! g)) = None"
    if "g \<in> set (sc_ghost_winner_indices data)" for g
  proof -
    have "g \<in> set (sc_ghost_winner_cands data)" using that gi ch(1) by auto
    then show ?thesis
      using G unchanged_fields [OF un, of g] un
      by (auto simp: unchanged_def) (simp add: clear_debug_urls_def)
  qed
  ultimately show ?thesis using dist by (simp add: gi ch(2,3))
qed

section \<open>The map from scores to ads\<close>

lemma map_of_push_entry:
  "map_of (push_entry k v al) k'
     = (if k' = k then Some ((case map_of al k of None \<Rightarrow> [] | Some vs \<Rightarrow> vs) @ [v]) else map_of al k')"
  by (induction al) auto

lemma build_score_ad_map_lookup:
  "map_of (build_score_ad_map ads ghosts) d
     = (let is = filter (\<lambda>i. i \<notin> set ghosts \<and> desirability_at ads i = d) [0..<length ads]
        in if is = [] then None else Some is)"
proof -
  define F where "F = (\<lambda>ind al. if ind \<in> set ghosts then al
    else push_entry (desirability_at ads ind) ind (al :: (f32 \<times> nat list) list))"
  define P where "P i \<longleftrightarrow> i \<notin> set ghosts \<and> desirability_at ads i = d" for i
  have "map_of (fold F [0..<n] []) d
      = (if filter P [0..<n] = [] then None else Some (filter P [0..<n]))" for n
  proof (induction n)
    case 0
    then show ?case by simp
  next
    case (Suc n)
    have "map_of (F n al) d
        = (if P n then Some ((case map_of al d of None \<Rightarrow> [] | Some is \<Rightarrow> is) @ [n]) else map_of al d)"
      for al
      by (simp add: F_def P_def map_of_push_entry)
    then show ?case using Suc.IH by (simp split: option.split)
  qed
  moreover have "P = (\<lambda>i. i \<notin> set ghosts \<and> desirability_at ads i = d)"
    by (simp add: P_def fun_eq_iff)
  ultimately show ?thesis by (simp add: build_score_ad_map_def F_def Let_def)
qed

end
