(* ===== verification/Auction_Outcome.thy ===== *)
theory Auction_Outcome
  imports Winner_Selection
begin

text \<open>
  What the auction writes into the response (\<open>services/auction_service/score_ads_reactor.cc\<close>): the
  winner with the highest scoring other bids and the rejection reasons, the ghost winners, and the
  post-auction signals of the reactor.
\<close>

section \<open>The response and the state written by the callback\<close>

record raw_response =
  rs_ad_score :: "ad_score option"
  rs_ghost_winning_ad_scores :: "ad_score list"
  rs_seller_debug_reports :: "debug_report list"
  rs_auction_export_debug :: bool

definition empty_response :: raw_response where
  "empty_response =
     \<lparr>rs_ad_score = None, rs_ghost_winning_ad_scores = [], rs_seller_debug_reports = [],
      rs_auction_export_debug = False\<rparr>"

text \<open>Reading the absent ad score gives the default instance; \<open>mutable_ad_score()\<close> creates it.\<close>

definition response_ad_score :: "raw_response \<Rightarrow> ad_score" where
  "response_ad_score rs = (case rs_ad_score rs of None \<Rightarrow> default_ad_score | Some sc \<Rightarrow> sc)"

definition mutate_ad_score :: "(ad_score \<Rightarrow> ad_score) \<Rightarrow> raw_response \<Rightarrow> raw_response" where
  "mutate_ad_score f rs = rs\<lparr>rs_ad_score := Some (f (response_ad_score rs))\<rparr>"

record scoring_state =
  ss_data :: dispatch_state
  ss_ad_scores :: "(string \<times> ad_score) list"
  ss_paapi_docs :: paapi_docs
  ss_ghost_ig :: "string \<rightharpoonup> string"
  ss_response :: raw_response
  ss_signals :: post_auction_signals

section \<open>Highest scoring other bids\<close>

text \<open>
  The comparator of this sort takes \<open>int\<close> parameters: scores are compared after truncation.
\<close>

definition int_score_before :: "f32 \<Rightarrow> f32 \<Rightarrow> bool" where
  "int_score_before a b \<longleftrightarrow> trunc_int a > trunc_int b"

interpretation int_score_order: strict_weak_order int_score_before
  by unfold_locales (auto simp: int_score_before_def)

text \<open>The bid entered for a scored ad, and its owner; the id of a scored ad always resolves.\<close>

definition other_bid ::
  "score_ads_raw_request \<Rightarrow> dispatch_state \<Rightarrow> (string \<times> ad_score) list \<Rightarrow> string
     \<Rightarrow> (string \<times> f32) option" where
  "other_bid rq st ad_scores k =
     (case metadata_of_id st k of
        None \<Rightarrow> None
      | Some md \<Rightarrow>
          Some (sm_interest_group_owner md,
                if rq_seller_currency rq \<noteq> []
                then (case map_of ad_scores k of
                        Some sc \<Rightarrow> as_incoming_bid_in_seller_currency sc
                      | None \<Rightarrow> sm_buyer_bid md)
                else sm_buyer_bid md))"

definition add_other_bid ::
  "score_ads_raw_request \<Rightarrow> dispatch_state \<Rightarrow> (string \<times> ad_score) list \<Rightarrow> scored_ad list \<Rightarrow> nat
     \<Rightarrow> nat \<Rightarrow> (string \<times> f64 list) list \<Rightarrow> (string \<times> f64 list) list" where
  "add_other_bid rq st ad_scores responses winner index m =
     (if index = winner then m
      else (case other_bid rq st ad_scores (sd_id (responses ! index)) of
              None \<Rightarrow> m
            | Some (owner, bid) \<Rightarrow> push_entry owner bid m))"

text \<open>The scores looked at: the first two of the sorted list, up to the first zero.\<close>

definition top_scores :: "(f32 list \<Rightarrow> f32 list) \<Rightarrow> (f32 \<times> nat list) list \<Rightarrow> f32 list" where
  "top_scores srt score_ad_map = takeWhile (\<lambda>s. s \<noteq> 0) (take 2 (srt (map fst score_ad_map)))"

definition other_bid_indices ::
  "(f32 list \<Rightarrow> f32 list) \<Rightarrow> (f32 \<times> nat list) list \<Rightarrow> nat list" where
  "other_bid_indices srt score_ad_map =
     concat (map (\<lambda>s. case map_of score_ad_map s of None \<Rightarrow> [] | Some is \<Rightarrow> is)
       (top_scores srt score_ad_map))"

definition populate_highest_scoring_other_bids ::
  "(f32 list \<Rightarrow> f32 list) \<Rightarrow> reactor_config \<Rightarrow> score_ads_raw_request \<Rightarrow> dispatch_state
     \<Rightarrow> (string \<times> ad_score) list \<Rightarrow> nat \<Rightarrow> (f32 \<times> nat list) list \<Rightarrow> scored_ad list
     \<Rightarrow> ad_score \<Rightarrow> ad_score" where
  "populate_highest_scoring_other_bids srt cf rq st ad_scores winner score_ad_map responses sc =
     (if cf_auction_scope cf = AUCTION_SCOPE_SERVER_TOP_LEVEL_SELLER then sc
      else sc\<lparr>as_highest_scoring_other_bids :=
                fold (add_other_bid rq st ad_scores responses winner)
                  (other_bid_indices srt score_ad_map) (as_highest_scoring_other_bids sc)\<rparr>)"

section \<open>Winner and ghost winners in the response\<close>

text \<open>
  The render URLs are copied from the ad; its component URLs are swapped with the (empty) ones of
  the score, so the table entry loses them.
\<close>

definition populate_relevant_fields ::
  "reactor_config \<Rightarrow> string \<Rightarrow> ad_score \<Rightarrow> dispatch_state \<Rightarrow> ad_score \<times> dispatch_state" where
  "populate_relevant_fields cf k sc st =
     (let (sc1, st1) =
        (case find_scored_ad_type st k of
           (Some ad, _) \<Rightarrow>
             (sc\<lparr>as_render := aw_render ad, as_component_renders := aw_ad_components ad\<rparr>,
              st\<lparr>ds_ad_data := (ds_ad_data st)
                   (k \<mapsto> ad\<lparr>aw_ad_components := as_component_renders sc\<rparr>)\<rparr>)
         | (None, Some ad) \<Rightarrow> (sc\<lparr>as_render := pas_render ad\<rparr>, st)
         | (None, None) \<Rightarrow> (sc, st))
      in (if cf_auction_scope cf = AUCTION_SCOPE_SERVER_TOP_LEVEL_SELLER
          then (case ds_component_ad_seller st1 k of
                  Some s \<Rightarrow> sc1\<lparr>as_seller := s\<rparr> | None \<Rightarrow> sc1)
          else sc1,
          st1))"

definition add_ghost_winner ::
  "reactor_config \<Rightarrow> scored_ad \<Rightarrow> scoring_state \<Rightarrow> scoring_state" where
  "add_ghost_winner cf sd ss =
     (let (sc, st) = populate_relevant_fields cf (sd_id sd) (sd_ad_score sd) (ss_data ss)
      in ss\<lparr>ss_data := st,
            ss_ghost_ig :=
              fst (try_emplace (as_interest_group_owner sc) (as_interest_group_name sc)
                     (ss_ghost_ig ss)),
            ss_response := (ss_response ss)
              \<lparr>rs_ghost_winning_ad_scores := rs_ghost_winning_ad_scores (ss_response ss) @ [sc]\<rparr>\<rparr>)"

definition add_ghost_winners_to_response ::
  "reactor_config \<Rightarrow> nat list \<Rightarrow> scored_ad list \<Rightarrow> scoring_state \<Rightarrow> scoring_state" where
  "add_ghost_winners_to_response cf indices ads ss =
     fold (\<lambda>i. add_ghost_winner cf (ads ! i)) indices ss"

definition set_post_auction_signals ::
  "reactor_config \<Rightarrow> score_ads_raw_request \<Rightarrow> scoring_state \<Rightarrow> scoring_state" where
  "set_post_auction_signals cf rq ss =
     ss\<lparr>ss_signals :=
          (let sc = response_ad_score (ss_response ss)
           in if cf_auction_scope cf = AUCTION_SCOPE_SERVER_TOP_LEVEL_SELLER
              then generate_post_auction_signals_for_top_level_seller (Some sc)
              else generate_post_auction_signals (Some sc) (rq_seller_currency rq)
                     (rq_seller_data_version rq))\<rparr>"

definition add_winner_to_response ::
  "(f32 list \<Rightarrow> f32 list) \<Rightarrow> reactor_config \<Rightarrow> score_ads_raw_request \<Rightarrow> nat \<Rightarrow> scoring_data
     \<Rightarrow> scored_ad list \<Rightarrow> scoring_state \<Rightarrow> scoring_state" where
  "add_winner_to_response srt cf rq winner data ads ss =
     (let (sc, st) = populate_relevant_fields cf (sd_id (ads ! winner)) (sd_ad_score (ads ! winner))
            (ss_data ss);
          sc1 = populate_highest_scoring_other_bids srt cf rq st (ss_ad_scores ss) winner
            (sc_score_ad_map data) ads sc;
          sc2 = sc1\<lparr>as_ad_rejection_reasons := sc_ad_rejection_reasons data\<rparr>
      in set_post_auction_signals cf rq
           (ss\<lparr>ss_data := st, ss_response := (ss_response ss)\<lparr>rs_ad_score := Some sc2\<rparr>\<rparr>))"

section \<open>Lemmas\<close>

lemma response_ad_score_simps [simp]:
  "response_ad_score (mutate_ad_score f rs) = f (response_ad_score rs)"
  "response_ad_score (rs\<lparr>rs_ad_score := Some sc\<rparr>) = sc"
  "rs_ad_score (mutate_ad_score f rs) = Some (f (response_ad_score rs))"
  "rs_ghost_winning_ad_scores (mutate_ad_score f rs) = rs_ghost_winning_ad_scores rs"
  "rs_seller_debug_reports (mutate_ad_score f rs) = rs_seller_debug_reports rs"
  by (simp_all add: response_ad_score_def mutate_ad_score_def)

lemma populate_relevant_fields_frame:
  assumes "populate_relevant_fields cf k sc st = (sc', st')"
  shows "as_desirability sc' = as_desirability sc" "as_buyer_bid sc' = as_buyer_bid sc"
    "as_interest_group_owner sc' = as_interest_group_owner sc"
    "as_interest_group_name sc' = as_interest_group_name sc"
    "as_bid sc' = as_bid sc" "as_debug_report_urls sc' = as_debug_report_urls sc"
    "as_highest_scoring_other_bids sc' = as_highest_scoring_other_bids sc"
    "as_incoming_bid_in_seller_currency sc' = as_incoming_bid_in_seller_currency sc"
    "ds_pas_ad_data st' = ds_pas_ad_data st" "dom (ds_ad_data st') = dom (ds_ad_data st)"
  using assms
  by (auto simp: populate_relevant_fields_def find_scored_ad_type_def Let_def
        split: option.splits if_splits)

text \<open>Under the dispatch invariant the render URL of the response is the dispatch id.\<close>

lemma populate_relevant_fields_render:
  assumes "dispatch_inv st" and "metadata_of_id st k \<noteq> None"
    and "populate_relevant_fields cf k sc st = (sc', st')"
  shows "as_render sc' = k"
  using assms
  by (auto simp: populate_relevant_fields_def find_scored_ad_type_def metadata_of_id_def
        dispatch_inv_def Let_def split: option.splits if_splits)

lemma populate_relevant_fields_inv:
  assumes "dispatch_inv st" and "populate_relevant_fields cf k sc st = (sc', st')"
  shows "dispatch_inv st'"
proof -
  have "ds_requests st' = ds_requests st"
    using assms(2) by (auto simp: populate_relevant_fields_def find_scored_ad_type_def Let_def
        split: option.splits)
  moreover have "\<forall>u ad. ds_ad_data st' u = Some ad \<longrightarrow> aw_render ad = u"
    using assms by (auto simp: populate_relevant_fields_def find_scored_ad_type_def Let_def
        dispatch_inv_def split: option.splits if_splits)
  ultimately show ?thesis
    using assms(1) populate_relevant_fields_frame(9,10) [OF assms(2)] by (simp add: dispatch_inv_def)
qed

lemma metadata_of_id_components:
  "ds_ad_data st k = Some ad \<Longrightarrow>
     metadata_of_id (st\<lparr>ds_ad_data := (ds_ad_data st)(k \<mapsto> ad\<lparr>aw_ad_components := cs\<rparr>)\<rparr>) u
       = metadata_of_id st u"
  by (cases "u = k")
     (simp_all add: metadata_of_id_def find_scored_ad_type_def scoring_data_from_pa_ad_def
        split: option.split)

lemma populate_relevant_fields_metadata:
  assumes "populate_relevant_fields cf k sc st = (sc', st')"
  shows "metadata_of_id st' u = metadata_of_id st u"
proof (cases "ds_ad_data st k")
  case None
  then have "st' = st"
    using assms by (auto simp: populate_relevant_fields_def find_scored_ad_type_def Let_def
        split: option.splits)
  then show ?thesis by simp
next
  case (Some ad)
  then have "st' = st\<lparr>ds_ad_data := (ds_ad_data st)
      (k \<mapsto> ad\<lparr>aw_ad_components := as_component_renders sc\<rparr>)\<rparr>"
    using assms by (auto simp: populate_relevant_fields_def find_scored_ad_type_def Let_def)
  then show ?thesis using metadata_of_id_components [OF Some] by simp
qed

lemma add_ghost_winners_metadata:
  "metadata_of_id (ss_data (add_ghost_winners_to_response cf is ads ss)) u
     = metadata_of_id (ss_data ss) u"
  unfolding add_ghost_winners_to_response_def
  by (induction "is" arbitrary: ss)
     (auto simp: add_ghost_winner_def Let_def populate_relevant_fields_metadata split: prod.splits)

lemma add_ghost_winners_inv:
  "dispatch_inv (ss_data ss) \<Longrightarrow>
     dispatch_inv (ss_data (add_ghost_winners_to_response cf is ads ss))"
  unfolding add_ghost_winners_to_response_def
  by (induction "is" arbitrary: ss)
     (auto simp: add_ghost_winner_def Let_def populate_relevant_fields_inv split: prod.splits)

lemma add_ghost_winners_response:
  "length (rs_ghost_winning_ad_scores (ss_response (add_ghost_winners_to_response cf is ads ss)))
     = length (rs_ghost_winning_ad_scores (ss_response ss)) + length is"
  "rs_ad_score (ss_response (add_ghost_winners_to_response cf is ads ss)) = rs_ad_score (ss_response ss)"
  "ss_ad_scores (add_ghost_winners_to_response cf is ads ss) = ss_ad_scores ss"
  unfolding add_ghost_winners_to_response_def
  by (induction "is" arbitrary: ss) (auto simp: add_ghost_winner_def Let_def split: prod.splits)

text \<open>The signals derived from the winner are those of the score in the response.\<close>

lemma add_winner_signals:
  assumes "ss' = add_winner_to_response srt cf rq winner data ads ss"
  shows "pas_winning_ig_owner (ss_signals ss') = as_interest_group_owner (sd_ad_score (ads ! winner))"
    and "pas_winning_ig_name (ss_signals ss') = as_interest_group_name (sd_ad_score (ads ! winner))"
    and "pas_winning_bid (ss_signals ss') = as_buyer_bid (sd_ad_score (ads ! winner))"
    and "pas_winning_score (ss_signals ss') = as_desirability (sd_ad_score (ads ! winner))"
  unfolding assms
  by (auto simp: add_winner_to_response_def set_post_auction_signals_def Let_def
        generate_post_auction_signals_def generate_post_auction_signals_for_top_level_seller_def
        no_winner_signals_def populate_highest_scoring_other_bids_def
        populate_relevant_fields_frame split: prod.splits if_splits)

lemma add_winner_response_desirability:
  "as_desirability (response_ad_score (ss_response (add_winner_to_response srt cf rq winner data ads ss)))
     = as_desirability (sd_ad_score (ads ! winner))"
  by (auto simp: add_winner_to_response_def set_post_auction_signals_def Let_def
        populate_highest_scoring_other_bids_def populate_relevant_fields_frame
        split: prod.splits if_splits)

text \<open>The other bids never include the winner's index.\<close>

lemma push_entry_count:
  "sum_list (map (\<lambda>(k, vs). length vs) (push_entry k v al))
     = Suc (sum_list (map (\<lambda>(k, vs). length vs) al))"
  by (induction al) auto

lemma other_bids_count:
  assumes "\<forall>i \<in> set is. metadata_of_id st (sd_id (ads ! i)) \<noteq> None"
  shows "sum_list (map (\<lambda>(k, vs). length vs) (fold (add_other_bid rq st scores ads winner) is m))
    = sum_list (map (\<lambda>(k, vs). length vs) m) + length (filter (\<lambda>i. i \<noteq> winner) is)"
  using assms
proof (induction "is" arbitrary: m)
  case Nil
  then show ?case by simp
next
  case (Cons i "is")
  then show ?case
    by (auto simp: add_other_bid_def other_bid_def push_entry_count split: option.splits)
qed

text \<open>
  Scores with one integer part are ties of the comparator, so the sort may leave a higher score
  behind lower ones.
\<close>

lemma top_scores_example:
  "top_scores (stable_sort int_score_before) [(6 / 5, [1]), (3 / 2, [2]), (19 / 10, [3])] = [6 / 5, 3 / 2]"
  by (simp add: top_scores_def stable_sort_def int_score_before_def trunc_int_def)

end
