(* ===== verification/Private_Aggregation.thy ===== *)
theory Private_Aggregation
  imports Auction_Outcome "HOL-Library.Word"
begin

text \<open>
  Private aggregation in the auction service: \<open>private_aggregation_manager.cc\<close>,
  \<open>common/private_aggregation/private_aggregation_post_auction_util.cc\<close>, and their use in
  \<open>ScoreAdsReactor\<close>. Where the code reads a JSON value outside RapidJSON's preconditions, converts a
  number that does not fit, or reads a variable it did not initialise, the result is taken from the
  record \<open>unspecified\<close>, an argument of the definitions: theorems hold for whatever it contains.
\<close>

record unspecified =
  un_uint64 :: "json \<Rightarrow> 64 word"
  un_element :: "json list \<Rightarrow> nat \<Rightarrow> json"
  un_members :: "json \<Rightarrow> (string \<times> json) list"
  un_elements :: "json \<Rightarrow> json list"
  un_word_at :: "64 word list \<Rightarrow> nat \<Rightarrow> 64 word"
  un_to_uint64 :: "f64 \<Rightarrow> 64 word"
  un_to_int :: "rat \<Rightarrow> int"
  un_int_sum :: "int \<Rightarrow> int"
  un_float :: f32
  un_string :: "json \<Rightarrow> string"

section \<open>Conversions\<close>

definition in_int_range :: "int \<Rightarrow> bool" where
  "in_int_range i \<longleftrightarrow> - (2 ^ 31) \<le> i \<and> i < 2 ^ 31"

definition get_uint64 :: "unspecified \<Rightarrow> json \<Rightarrow> 64 word" where
  "get_uint64 U v =
     (case v of
        JInt i \<Rightarrow> if 0 \<le> i \<and> i < 2 ^ 64 then word_of_int i else un_uint64 U v
      | _ \<Rightarrow> un_uint64 U v)"

definition element_at :: "unspecified \<Rightarrow> json list \<Rightarrow> nat \<Rightarrow> json" where
  "element_at U vs n = (if n < length vs then vs ! n else un_element U vs n)"

definition word_at :: "unspecified \<Rightarrow> 64 word list \<Rightarrow> nat \<Rightarrow> 64 word" where
  "word_at U ws n = (if n < length ws then ws ! n else un_word_at U ws n)"

definition get_members :: "unspecified \<Rightarrow> json \<Rightarrow> (string \<times> json) list" where
  "get_members U v = (case v of JObj ms \<Rightarrow> ms | _ \<Rightarrow> un_members U v)"

definition get_elements :: "unspecified \<Rightarrow> json \<Rightarrow> json list" where
  "get_elements U v = (case v of JArr vs \<Rightarrow> vs | _ \<Rightarrow> un_elements U v)"

text \<open>\<open>static_cast\<close> of a floating point number truncates, and is undefined when that does not fit.\<close>

definition to_uint64 :: "unspecified \<Rightarrow> f64 \<Rightarrow> 64 word" where
  "to_uint64 U x =
     (if 0 \<le> trunc_int x \<and> trunc_int x < 2 ^ 64 then word_of_int (trunc_int x) else un_to_uint64 U x)"

definition to_int :: "unspecified \<Rightarrow> rat \<Rightarrow> int" where
  "to_int U x = (if in_int_range (trunc_int x) then trunc_int x else un_to_int U x)"

definition int_sum :: "unspecified \<Rightarrow> int \<Rightarrow> int \<Rightarrow> int" where
  "int_sum U i j = (if in_int_range (i + j) then i + j else un_int_sum U (i + j))"

section \<open>Values and buckets after the auction\<close>

record base_values =
  bv_winning_bid :: f32
  bv_highest_scoring_other_bid :: f32
  bv_reject_reason :: "seller_rejection_reason option"

definition invalid_bucket :: status where
  "invalid_bucket = invalid_argument
     ''Invalid Private Aggregation Bucket with neither bucket_128_bit or signal_bucket.''"

definition invalid_value :: status where
  "invalid_value = invalid_argument
     ''Invalid Private Aggregation Value with neither Int or Extended Value.''"

definition negative_bucket :: status where
  "negative_bucket = invalid_argument
     ''Invalid Private Aggregation Signal Bucket BaseValue * scale - offset < 0.''"

text \<open>The number a base value stands for.\<close>

definition base_number :: "base_values \<Rightarrow> base_value \<Rightarrow> f32 status_or" where
  "base_number bv b =
     (case b of
        BASE_VALUE_WINNING_BID \<Rightarrow> Inr (bv_winning_bid bv)
      | BASE_VALUE_HIGHEST_SCORING_OTHER_BID \<Rightarrow> Inr (bv_highest_scoring_other_bid bv)
      | BASE_VALUE_BID_REJECTION_REASON \<Rightarrow>
          (case bv_reject_reason bv of
             None \<Rightarrow> Inl (invalid_argument ''Reject reason is not available.'')
           | Some r \<Rightarrow> Inr (of_nat (rejection_reason_number r)))
      | _ \<Rightarrow> Inl (invalid_argument ''Input base value is not supported.''))"

definition uint128_of :: "64 word \<Rightarrow> 64 word \<Rightarrow> 128 word" where
  "uint128_of high low = word_cat high low"

definition get_bucket_post_auction ::
  "unspecified \<Rightarrow> base_values \<Rightarrow> pagg_bucket \<Rightarrow> 64 word list status_or" where
  "get_bucket_post_auction U bv bucket =
     (case bucket of
        Bucket_128_bit ws \<Rightarrow> Inr ws
      | No_bucket \<Rightarrow> Inl invalid_bucket
      | Signal_bucket sb \<Rightarrow>
          (case base_number bv (sb_base_value sb) of
             Inl e \<Rightarrow> Inl e
           | Inr base \<Rightarrow>
               (let ws = bo_value (sb_offset sb);
                    offset = uint128_of (word_at U ws 1) (word_at U ws 0);
                    final = uint128_of 0 (to_uint64 U (f64_mul base (sb_scale sb)))
                in if bo_is_negative (sb_offset sb) then
                     (if final < offset then Inl negative_bucket
                      else Inr [ucast (final - offset), ucast (drop_bit 64 (final - offset))])
                   else Inr [ucast (final + offset), ucast (drop_bit 64 (final + offset))])))"

text \<open>The base is stored in an \<open>int\<close>, which truncates it, before it is scaled.\<close>

definition get_value_post_auction ::
  "unspecified \<Rightarrow> base_values \<Rightarrow> pagg_value \<Rightarrow> int status_or" where
  "get_value_post_auction U bv v =
     (case v of
        Int_value i \<Rightarrow> Inr i
      | No_value \<Rightarrow> Inl invalid_value
      | Extended_value sv \<Rightarrow>
          (case base_number bv (sv_base_value sv) of
             Inl e \<Rightarrow> Inl e
           | Inr base \<Rightarrow>
               Inr (int_sum U (to_int U (f64_mul (of_int (to_int U base)) (sv_scale sv)))
                      (sv_offset sv))))"

section \<open>Parsing\<close>

definition to_base_value :: "string \<Rightarrow> base_value" where
  "to_base_value s =
     (if s = [] then BASE_VALUE_UNSPECIFIED
      else if s = ''BASE_VALUE_WINNING_BID'' then BASE_VALUE_WINNING_BID
      else if s = ''BASE_VALUE_HIGHEST_SCORING_OTHER_BID'' then BASE_VALUE_HIGHEST_SCORING_OTHER_BID
      else if s = ''BASE_VALUE_SCRIPT_RUN_TIME'' then BASE_VALUE_SCRIPT_RUN_TIME
      else if s = ''BASE_VALUE_SIGNALS_FETCH_TIME'' then BASE_VALUE_SIGNALS_FETCH_TIME
      else if s = ''BASE_VALUE_BID_REJECTION_REASON'' then BASE_VALUE_BID_REJECTION_REASON
      else BASE_VALUE_UNSPECIFIED)"

definition event_type_to_string :: "event_type \<Rightarrow> string" where
  "event_type_to_string e =
     (case e of
        EVENT_TYPE_WIN \<Rightarrow> ''win'' | EVENT_TYPE_LOSS \<Rightarrow> ''loss'' | EVENT_TYPE_ALWAYS \<Rightarrow> ''always''
      | EVENT_TYPE_CUSTOM \<Rightarrow> ''custom_events'' | EVENT_TYPE_UNSPECIFIED \<Rightarrow> ''not-specified'')"

definition parse_signal_value :: "json \<Rightarrow> signal_value status_or" where
  "parse_signal_value v =
     (case get_string_member v ''base_value'' False of
        Inl e \<Rightarrow> Inl e
      | Inr base \<Rightarrow>
     (case get_int_member v ''offset'' of
        Inl e \<Rightarrow> Inl e
      | Inr offset \<Rightarrow>
     (case get_double_member v ''scale'' of
        Inl e \<Rightarrow> Inl e
      | Inr scale \<Rightarrow>
          Inr \<lparr>sv_base_value = to_base_value base, sv_scale = scale, sv_offset = offset\<rparr>)))"

definition parse_bucket_offset :: "unspecified \<Rightarrow> json \<Rightarrow> bucket_offset status_or" where
  "parse_bucket_offset U v =
     (case get_array_member v ''value'' of
        Inl e \<Rightarrow> Inl e
      | Inr vs \<Rightarrow>
     (case get_bool_member v ''is_negative'' of
        Inl e \<Rightarrow> Inl e
      | Inr neg \<Rightarrow>
          Inr \<lparr>bo_value = [get_uint64 U (element_at U vs 0), get_uint64 U (element_at U vs 1)],
               bo_is_negative = neg\<rparr>))"

definition parse_signal_bucket :: "unspecified \<Rightarrow> json \<Rightarrow> signal_bucket status_or" where
  "parse_signal_bucket U v =
     (case find_member v ''offset'' of
        None \<Rightarrow> Inl (invalid_argument ''Missing Signal Bucket's offset'')
      | Some w \<Rightarrow>
     (case parse_bucket_offset U w of
        Inl e \<Rightarrow> Inl e
      | Inr offset \<Rightarrow>
     (case get_string_member v ''base_value'' False of
        Inl e \<Rightarrow> Inl e
      | Inr base \<Rightarrow>
     (case get_double_member v ''scale'' of
        Inl e \<Rightarrow> Inl e
      | Inr scale \<Rightarrow>
          Inr \<lparr>sb_base_value = to_base_value base, sb_scale = scale, sb_offset = offset\<rparr>))))"

text \<open>The value of a contribution; an integer is narrowed to 32 bits.\<close>

definition parse_contribution_value :: "unspecified \<Rightarrow> base_values \<Rightarrow> json \<Rightarrow> int status_or" where
  "parse_contribution_value U bv v =
     (case int64_if_present v ''int_value'' of
        Some i \<Rightarrow> Inr (signed_take_bit 31 i)
      | None \<Rightarrow>
          (case find_member v ''extended_value'' of
             None \<Rightarrow> Inl invalid_value
           | Some w \<Rightarrow>
               (case parse_signal_value w of
                  Inl e \<Rightarrow> Inl invalid_value
                | Inr sv \<Rightarrow> get_value_post_auction U bv (Extended_value sv))))"

definition parse_contribution_bucket ::
  "unspecified \<Rightarrow> base_values \<Rightarrow> json \<Rightarrow> 64 word list status_or" where
  "parse_contribution_bucket U bv v =
     (case find_member v ''signal_bucket'' of
        Some w \<Rightarrow>
          (case parse_signal_bucket U w of
             Inl e \<Rightarrow> Inl invalid_bucket
           | Inr sb \<Rightarrow> get_bucket_post_auction U bv (Signal_bucket sb))
      | None \<Rightarrow>
          (case find_member v ''bucket_128_bit'' of
             Some (JObj ms) \<Rightarrow>
               (case get_array_member (JObj ms) ''bucket_128_bits'' of
                  Inl e \<Rightarrow> Inl invalid_bucket
                | Inr vs \<Rightarrow>
                    get_bucket_post_auction U bv
                      (if vs = [] then No_bucket else Bucket_128_bit (map (get_uint64 U) vs)))
           | _ \<Rightarrow> Inl invalid_bucket))"

definition parse_and_process_contribution ::
  "unspecified \<Rightarrow> base_values \<Rightarrow> json \<Rightarrow> pagg_contribution status_or" where
  "parse_and_process_contribution U bv v =
     (case find_member v ''value'' of
        None \<Rightarrow> Inl invalid_value
      | Some w \<Rightarrow>
     (case parse_contribution_value U bv w of
        Inl e \<Rightarrow> Inl e
      | Inr i \<Rightarrow>
          (let c = \<lparr>pc_bucket = No_bucket, pc_value = Int_value i, pc_event = None, pc_ig_idx = None\<rparr>
           in case find_member v ''bucket'' of
                None \<Rightarrow> Inr c
              | Some b \<Rightarrow>
                  (case parse_contribution_bucket U bv b of
                     Inl e \<Rightarrow> Inl e
                   | Inr ws \<Rightarrow> Inr (c\<lparr>pc_bucket := Bucket_128_bit ws\<rparr>)))))"

section \<open>Contributions of an ad\<close>

definition process_and_append ::
  "unspecified \<Rightarrow> base_values \<Rightarrow> (event_type \<times> string) option \<Rightarrow> json list \<Rightarrow> pagg_response
     \<Rightarrow> pagg_response" where
  "process_and_append U bv event vs r =
     fold (\<lambda>v r. case parse_and_process_contribution U bv v of
                   Inl e \<Rightarrow> r
                 | Inr c \<Rightarrow>
                     r\<lparr>pr_contributions := pr_contributions r
                         @ [case event of None \<Rightarrow> c | Some ev \<Rightarrow> c\<lparr>pc_event := Some ev\<rparr>]\<rparr>)
       vs r"

definition append_ad_event_contributions ::
  "unspecified \<Rightarrow> event_type \<Rightarrow> json \<Rightarrow> base_values \<Rightarrow> pagg_response \<Rightarrow> pagg_response status_or" where
  "append_ad_event_contributions U ev contributions bv r =
     (if ev = EVENT_TYPE_UNSPECIFIED then Inl (invalid_argument ''Event type unspecified.'')
      else
        (case find_member contributions (event_type_to_string ev) of
           None \<Rightarrow> Inl (internal_error
                     (''Unexpected response from Private Aggregation API execution. \"event_type\" field not found for event type: ''
                      @ event_type_to_string ev))
         | Some v \<Rightarrow>
             if ev = EVENT_TYPE_CUSTOM then
               Inr (fold (\<lambda>(name, w) r.
                       case w of
                         JArr vs \<Rightarrow> process_and_append U bv (Some (EVENT_TYPE_CUSTOM, name)) vs r
                       | _ \<Rightarrow> r)
                     (get_members U v) r)
             else Inr (process_and_append U bv None (get_elements U v) r)))"

definition handle_contribution ::
  "unspecified \<Rightarrow> base_values \<Rightarrow> json \<Rightarrow> event_type \<Rightarrow> pagg_response \<Rightarrow> pagg_response" where
  "handle_contribution U bv doc ev r =
     (case append_ad_event_contributions U ev doc bv r of Inl e \<Rightarrow> r | Inr r' \<Rightarrow> r')"

definition get_response_for_winner :: "unspecified \<Rightarrow> base_values \<Rightarrow> json \<Rightarrow> pagg_response" where
  "get_response_for_winner U bv doc =
     fold (handle_contribution U bv doc) [EVENT_TYPE_WIN, EVENT_TYPE_ALWAYS, EVENT_TYPE_CUSTOM]
       no_pagg_response"

definition handle_private_aggregation_reporting ::
  "unspecified \<Rightarrow> string \<Rightarrow> string \<Rightarrow> base_values \<Rightarrow> string \<Rightarrow> json \<Rightarrow> ad_score \<Rightarrow> ad_score" where
  "handle_private_aggregation_reporting U winner_id ad_id bv seller doc sc =
     (let r = (if ad_id \<noteq> winner_id
               then fold (handle_contribution U bv doc) [EVENT_TYPE_LOSS, EVENT_TYPE_ALWAYS]
                      no_pagg_response
               else fold (handle_contribution U bv doc)
                      [EVENT_TYPE_WIN, EVENT_TYPE_ALWAYS, EVENT_TYPE_CUSTOM] no_pagg_response)
      in sc\<lparr>as_top_level_contributions := as_top_level_contributions sc
              @ [r\<lparr>pr_adtech_origin := seller\<rparr>]\<rparr>)"

section \<open>The reactor\<close>

definition get_base_values :: "unspecified \<Rightarrow> post_auction_signals \<Rightarrow> base_values" where
  "get_base_values U sig =
     \<lparr>bv_winning_bid =
        (if pas_winning_bid_in_seller_currency sig > 0 then pas_winning_bid_in_seller_currency sig
         else if pas_winning_bid sig > 0 then pas_winning_bid sig else un_float U),
      bv_highest_scoring_other_bid = pas_highest_scoring_other_bid sig, bv_reject_reason = None\<rparr>"

text \<open>The rejection reason of an ad's group, or \<open>None\<close> when the ad is skipped as a ghost winner.\<close>

definition pagg_reject_reason ::
  "post_auction_signals \<Rightarrow> (string \<rightharpoonup> string) \<Rightarrow> ad_with_bid \<Rightarrow> seller_rejection_reason option option" where
  "pagg_reject_reason sig ghosts ad =
     (case pas_rejection_reason_map sig (aw_interest_group_owner ad) of
        Some m \<Rightarrow> Some (m (aw_interest_group_name ad))
      | None \<Rightarrow>
          if ghosts (aw_interest_group_owner ad) = Some (aw_interest_group_name ad) then None
          else Some None)"

definition pagg_for_ad ::
  "unspecified \<Rightarrow> score_ads_raw_request \<Rightarrow> string \<Rightarrow> string \<times> json \<Rightarrow> scoring_state \<Rightarrow> scoring_state" where
  "pagg_for_ad U rq winner_id e ss =
     (case ds_ad_data (ss_data ss) (fst e) of
        None \<Rightarrow> ss
      | Some ad \<Rightarrow>
          (case pagg_reject_reason (ss_signals ss) (ss_ghost_ig ss) ad of
             None \<Rightarrow> ss
           | Some reason \<Rightarrow>
               ss\<lparr>ss_response := mutate_ad_score
                    (handle_private_aggregation_reporting U winner_id (fst e)
                       ((get_base_values U (ss_signals ss))\<lparr>bv_reject_reason := reason\<rparr>)
                       (rq_seller rq) (snd e))
                    (ss_response ss)\<rparr>))"

definition perform_private_aggregation_reporting ::
  "unspecified \<Rightarrow> score_ads_raw_request \<Rightarrow> string \<Rightarrow> scoring_state \<Rightarrow> scoring_state" where
  "perform_private_aggregation_reporting U rq winner_id ss =
     fold (pagg_for_ad U rq winner_id) (ss_paapi_docs ss) ss"

definition add_top_level_contribution :: "pagg_response \<Rightarrow> raw_response \<Rightarrow> raw_response" where
  "add_top_level_contribution r rs =
     mutate_ad_score
       (\<lambda>sc. sc\<lparr>as_top_level_contributions := as_top_level_contributions sc @ [r]\<rparr>) rs"

definition set_contributions_for_seller ::
  "score_ads_raw_request \<Rightarrow> pagg_response \<Rightarrow> raw_response \<Rightarrow> raw_response" where
  "set_contributions_for_seller rq r rs =
     (if pr_contributions r = [] then rs
      else add_top_level_contribution (r\<lparr>pr_adtech_origin := rq_seller rq\<rparr>) rs)"

definition set_contributions_for_buyer ::
  "dispatch_state \<Rightarrow> string \<Rightarrow> pagg_response \<Rightarrow> raw_response \<Rightarrow> raw_response" where
  "set_contributions_for_buyer st winner_id r rs =
     (if pr_contributions r = [] then rs
      else add_top_level_contribution
             (case ds_ad_data st winner_id of
                None \<Rightarrow> r
              | Some ad \<Rightarrow>
                  r\<lparr>pr_contributions :=
                      map (\<lambda>c. c\<lparr>pc_ig_idx := Some (aw_interest_group_idx ad)\<rparr>) (pr_contributions r),
                    pr_adtech_origin := aw_interest_group_owner ad\<rparr>) rs)"

section \<open>128-bit buckets\<close>

lemma uint_uint128_of: "uint (uint128_of hi lo) = uint hi * 2 ^ 64 + uint lo"
proof -
  have lo: "take_bit 64 (uint lo) = uint lo"
    using uint_lt2p [of lo] by (simp add: take_bit_int_eq_self)
  have "uint (uint128_of hi lo) = take_bit 128 (concat_bit 64 (uint lo) (uint hi))"
    by (simp add: uint128_of_def word_cat_eq' unsigned_of_int)
  also have "concat_bit 64 (uint lo) (uint hi) = uint hi * 2 ^ 64 + uint lo"
    by (simp add: concat_bit_eq push_bit_eq_mult lo)
  also have "take_bit 128 (uint hi * 2 ^ 64 + uint lo) = uint hi * 2 ^ 64 + uint lo"
  proof (rule take_bit_int_eq_self)
    have "uint hi \<le> 2 ^ 64 - 1" "uint lo < 2 ^ 64"
      using uint_lt2p [of hi] uint_lt2p [of lo] by simp_all
    then show "uint hi * 2 ^ 64 + uint lo < 2 ^ 128" by simp
  qed simp
  finally show ?thesis .
qed

lemma uint_split_128:
  "uint (ucast (drop_bit 64 w) :: 64 word) * 2 ^ 64 + uint (ucast w :: 64 word) = uint (w :: 128 word)"
proof -
  have "uint w div 2 ^ 64 < 2 ^ 64"
    using uint_lt2p [of w] by (simp add: div_less_iff_less_mult)
  then have "take_bit 64 (uint w div 2 ^ 64) = uint w div 2 ^ 64"
    by (intro take_bit_int_eq_self) (simp_all add: pos_imp_zdiv_nonneg_iff)
  moreover have "take_bit 128 (uint w) = uint w"
    using uint_lt2p [of w] by (simp add: take_bit_int_eq_self)
  ultimately have "uint (ucast (drop_bit 64 w) :: 64 word) = uint w div 2 ^ 64"
    by (simp add: unsigned_ucast_eq unsigned_drop_bit_eq drop_bit_eq_div [of 64 "uint w"])
  moreover have "uint (ucast w :: 64 word) = uint w mod 2 ^ 64"
    by (simp add: unsigned_ucast_eq take_bit_eq_mod)
  ultimately show ?thesis by (simp add: mult_div_mod_eq)
qed

text \<open>
  A signal bucket on numbers that fit: the exact 128-bit result of base times scale plus or minus the
  offset, and an error exactly when that would be negative.
\<close>

lemma signal_bucket_value:
  assumes "base_number bv (sb_base_value sb) = Inr base"
    and "bo_value (sb_offset sb) = [lo, hi]"
    and x: "x = trunc_int (f64_mul base (sb_scale sb))" "0 \<le> x" "x < 2 ^ 64"
    and off: "offset = uint hi * 2 ^ 64 + uint lo"
  shows "case get_bucket_post_auction U bv (Signal_bucket sb) of
      Inl e \<Rightarrow> bo_is_negative (sb_offset sb) \<and> x < offset
    | Inr ws \<Rightarrow> \<exists>lo' hi'. ws = [lo', hi']
        \<and> uint hi' * 2 ^ 64 + uint lo'
            = (if bo_is_negative (sb_offset sb) then x - offset else (x + offset) mod 2 ^ 128)
        \<and> (if bo_is_negative (sb_offset sb) then offset \<le> x else True)"
proof -
  let ?o = "uint128_of hi lo" and ?f = "uint128_of 0 (word_of_int x)"
  have o: "uint ?o = offset" by (simp add: off uint_uint128_of)
  have f: "uint ?f = x" using x(2,3) by (simp add: uint_uint128_of unsigned_of_int take_bit_int_eq_self)
  have run: "get_bucket_post_auction U bv (Signal_bucket sb)
    = (if bo_is_negative (sb_offset sb) then
         (if ?f < ?o then Inl negative_bucket
          else Inr [ucast (?f - ?o), ucast (drop_bit 64 (?f - ?o))])
       else Inr [ucast (?f + ?o), ucast (drop_bit 64 (?f + ?o))])"
    using assms(1,2) x by (simp add: get_bucket_post_auction_def word_at_def to_uint64_def Let_def)
  have less: "?f < ?o \<longleftrightarrow> x < offset" by (simp add: word_less_def o f)
  have sub: "uint (?f - ?o) = x - offset" if "\<not> x < offset"
    using that o f uint_sub_ge [of ?o ?f] uint_sub_lem [of ?o ?f] by simp
  have add: "uint (?f + ?o) = (x + offset) mod 2 ^ 128"
    by (simp add: uint_word_ariths o f take_bit_eq_mod)
  show ?thesis
    unfolding run using uint_split_128 sub add less by auto
qed

section \<open>What leaves the service\<close>

text \<open>A processed contribution: a plain integer, and a plain 128-bit bucket or none.\<close>

definition processed :: "pagg_contribution \<Rightarrow> bool" where
  "processed c \<longleftrightarrow>
     (case pc_value c of Int_value i \<Rightarrow> True | _ \<Rightarrow> False)
     \<and> (case pc_bucket c of Signal_bucket sb \<Rightarrow> False | _ \<Rightarrow> True)"

lemma parse_processed: "parse_and_process_contribution U bv v = Inr c \<Longrightarrow> processed c \<and> pc_event c = None"
  by (auto simp: parse_and_process_contribution_def processed_def Let_def split: option.splits sum.splits)

text \<open>All contributions of a response are processed, and their events are among the allowed ones.\<close>

definition clean_response :: "bool \<Rightarrow> pagg_response \<Rightarrow> bool" where
  "clean_response custom r \<longleftrightarrow>
     list_all (\<lambda>c. processed c
       \<and> (pc_event c = None \<or> (custom \<and> (\<exists>name. pc_event c = Some (EVENT_TYPE_CUSTOM, name)))))
       (pr_contributions r)"

lemma clean_empty [simp]: "clean_response custom no_pagg_response"
  by (simp add: clean_response_def no_pagg_response_def)

lemma clean_origin [simp]: "clean_response custom (r\<lparr>pr_adtech_origin := a\<rparr>) = clean_response custom r"
  by (simp add: clean_response_def)

lemma process_and_append_clean:
  assumes "clean_response custom r"
    and "event = None \<or> custom \<and> (\<exists>name. event = Some (EVENT_TYPE_CUSTOM, name))"
  shows "clean_response custom (process_and_append U bv event vs r)"
  unfolding process_and_append_def
  using assms
proof (induction vs arbitrary: r)
  case (Cons v vs)
  show ?case
  proof (cases "parse_and_process_contribution U bv v")
    case (Inr c)
    have "clean_response custom
        (r\<lparr>pr_contributions := pr_contributions r
           @ [case event of None \<Rightarrow> c | Some ev \<Rightarrow> c\<lparr>pc_event := Some ev\<rparr>]\<rparr>)"
      using Cons.prems parse_processed [OF Inr]
      by (auto simp: clean_response_def processed_def split: option.split)
    then show ?thesis using Cons Inr by simp
  qed (use Cons in simp)
qed simp

lemma fold_custom_clean:
  "clean_response True r \<Longrightarrow>
     clean_response True
       (fold (\<lambda>(name, w) r. case w of
                JArr vs \<Rightarrow> process_and_append U bv (Some (EVENT_TYPE_CUSTOM, name)) vs r
              | _ \<Rightarrow> r) ms r)"
proof (induction ms arbitrary: r)
  case (Cons m ms)
  have "clean_response True ((\<lambda>(name, w) r. case w of
            JArr vs \<Rightarrow> process_and_append U bv (Some (EVENT_TYPE_CUSTOM, name)) vs r | _ \<Rightarrow> r) m r)"
    using Cons.prems by (auto split: prod.split json.split intro: process_and_append_clean)
  from Cons.IH [OF this] show ?case by simp
qed simp

lemma handle_contribution_clean:
  assumes "clean_response custom r" and "ev = EVENT_TYPE_CUSTOM \<longrightarrow> custom"
  shows "clean_response custom (handle_contribution U bv doc ev r)"
  using assms fold_custom_clean
  by (cases "ev = EVENT_TYPE_CUSTOM")
     (auto simp: handle_contribution_def append_ad_event_contributions_def
       intro: process_and_append_clean split: option.split)

lemma response_for_winner_clean: "clean_response True (get_response_for_winner U bv doc)"
  by (simp add: get_response_for_winner_def handle_contribution_clean)

text \<open>The response that an ad adds: one, last, clean, with no custom event when the ad lost.\<close>

lemma handle_reporting_clean:
  "\<exists>r. as_top_level_contributions (handle_private_aggregation_reporting U w k bv seller doc sc)
         = as_top_level_contributions sc @ [r]
     \<and> clean_response (k = w) r \<and> pr_adtech_origin r = seller"
  by (auto simp: handle_private_aggregation_reporting_def Let_def handle_contribution_clean)

text \<open>The ads that report: those of the Protected Audience table that are not ghost winners.\<close>

definition reports_pagg :: "scoring_state \<Rightarrow> string \<times> json \<Rightarrow> bool" where
  "reports_pagg ss e \<longleftrightarrow>
     (case ds_ad_data (ss_data ss) (fst e) of
        None \<Rightarrow> False
      | Some ad \<Rightarrow> pagg_reject_reason (ss_signals ss) (ss_ghost_ig ss) ad \<noteq> None)"

lemma pagg_for_ad_frame:
  "ss_data (pagg_for_ad U rq w e ss) = ss_data ss" "ss_signals (pagg_for_ad U rq w e ss) = ss_signals ss"
  "ss_ghost_ig (pagg_for_ad U rq w e ss) = ss_ghost_ig ss"
  "reports_pagg (pagg_for_ad U rq w e ss) = reports_pagg ss"
  by (auto simp: pagg_for_ad_def reports_pagg_def fun_eq_iff split: option.split)

lemma pagg_for_ad_responses:
  "\<exists>rs. as_top_level_contributions (response_ad_score (ss_response (pagg_for_ad U rq w e ss)))
       = as_top_level_contributions (response_ad_score (ss_response ss)) @ rs
     \<and> length rs = (if reports_pagg ss e then 1 else 0)
     \<and> list_all (\<lambda>r. clean_response True r \<and> (fst e = w \<or> clean_response False r)
           \<and> pr_adtech_origin r = rq_seller rq) rs"
proof (cases "reports_pagg ss e")
  case False
  then show ?thesis by (auto simp: pagg_for_ad_def reports_pagg_def split: option.splits)
next
  case True
  then obtain ad reason where ad: "ds_ad_data (ss_data ss) (fst e) = Some ad"
    "pagg_reject_reason (ss_signals ss) (ss_ghost_ig ss) ad = Some reason"
    by (auto simp: reports_pagg_def split: option.splits)
  have mono: "clean_response False r \<Longrightarrow> clean_response True r" for r
    by (auto simp: clean_response_def list_all_iff)
  obtain r where r: "as_top_level_contributions (handle_private_aggregation_reporting U w (fst e)
          ((get_base_values U (ss_signals ss))\<lparr>bv_reject_reason := reason\<rparr>) (rq_seller rq) (snd e)
          (response_ad_score (ss_response ss)))
      = as_top_level_contributions (response_ad_score (ss_response ss)) @ [r]"
    "clean_response (fst e = w) r" "pr_adtech_origin r = rq_seller rq"
    using handle_reporting_clean by blast
  then show ?thesis
    using True ad mono by (intro exI [of _ "[r]"]) (cases "fst e = w"; simp add: pagg_for_ad_def)
qed

lemma perform_private_aggregation_responses:
  "\<exists>rs. as_top_level_contributions
         (response_ad_score (ss_response (perform_private_aggregation_reporting U rq w ss)))
       = as_top_level_contributions (response_ad_score (ss_response ss)) @ rs
     \<and> length rs = length (filter (reports_pagg ss) (ss_paapi_docs ss))
     \<and> list_all (\<lambda>r. clean_response True r \<and> pr_adtech_origin r = rq_seller rq) rs"
proof -
  have "\<exists>rs. as_top_level_contributions (response_ad_score (ss_response (fold (pagg_for_ad U rq w) es ss)))
       = as_top_level_contributions (response_ad_score (ss_response ss)) @ rs
     \<and> length rs = length (filter (reports_pagg ss) es)
     \<and> list_all (\<lambda>r. clean_response True r \<and> pr_adtech_origin r = rq_seller rq) rs" for es
  proof (induction es arbitrary: ss)
    case (Cons e es)
    obtain rs1 where rs1: "as_top_level_contributions (response_ad_score (ss_response (pagg_for_ad U rq w e ss)))
       = as_top_level_contributions (response_ad_score (ss_response ss)) @ rs1"
      "length rs1 = (if reports_pagg ss e then 1 else 0)"
      "list_all (\<lambda>r. clean_response True r \<and> pr_adtech_origin r = rq_seller rq) rs1"
      using pagg_for_ad_responses [of U rq w e ss] by (auto simp: list_all_iff)
    obtain rs2 where rs2: "as_top_level_contributions
        (response_ad_score (ss_response (fold (pagg_for_ad U rq w) es (pagg_for_ad U rq w e ss))))
       = as_top_level_contributions (response_ad_score (ss_response (pagg_for_ad U rq w e ss))) @ rs2"
      "length rs2 = length (filter (reports_pagg ss) es)"
      "list_all (\<lambda>r. clean_response True r \<and> pr_adtech_origin r = rq_seller rq) rs2"
      using Cons.IH [of "pagg_for_ad U rq w e ss"] by (auto simp: pagg_for_ad_frame)
    show ?case using rs1 rs2 by (intro exI [of _ "rs1 @ rs2"]) auto
  qed simp
  then show ?thesis by (simp add: perform_private_aggregation_reporting_def)
qed

end
