(* ===== verification/Reporting_Udfs.thy ===== *)
theory Reporting_Udfs
  imports Reporting_Inputs Private_Aggregation
begin

text \<open>
  Running reportResult() and reportWin(): the requests of
  \<open>reporting/seller/seller_reporting_manager.cc\<close>,
  \<open>reporting/buyer/pa_buyer_reporting_manager.cc\<close>, \<open>pas_buyer_reporting_manager.cc\<close> and
  \<open>reporting_helper.cc\<close>, the version names of \<open>udf_fetcher/adtech_code_version_util.cc\<close>, and the
  parsers of what the scripts return. A request's tag with the execution timeout, which the service
  passes through, is left out. libcurl's URL parser is a parameter, the record \<open>curl\<close>.
\<close>

section \<open>Names of the buyers' code (\<open>adtech_code_version_util.cc\<close>)\<close>

record curl =
  curl_init :: bool
  curl_url_set :: "string \<Rightarrow> nat"
  curl_get_host :: "string \<Rightarrow> nat + string"
  curl_get_path :: "string \<Rightarrow> nat + string"

datatype auction_type = Protected_audience | Protected_app_signals | Other_auction_type

definition parse_url :: "curl \<Rightarrow> string \<Rightarrow> string status_or" where
  "parse_url C url =
     (if \<not> curl_init C then Inl (internal_error ''Curl URL init failed'')
      else if curl_url_set C url \<noteq> 0 then
        Inl (invalid_argument (''Curl could not parse URL with error code: ''
               @ nat_digits (curl_url_set C url)))
      else Inr url)"

definition no_domain :: "nat \<Rightarrow> status" where
  "no_domain uc =
     invalid_argument (''Curl could not get domain from URL with error code: '' @ nat_digits uc)"

definition get_domain_from_url :: "curl \<Rightarrow> string \<Rightarrow> string status_or" where
  "get_domain_from_url C url =
     (case parse_url C url of
        Inl e \<Rightarrow> Inl e
      | Inr h \<Rightarrow> (case curl_get_host C h of Inl uc \<Rightarrow> Inl (no_domain uc) | Inr host \<Rightarrow> Inr host))"

definition strip_query_and_fragments_from_url :: "curl \<Rightarrow> string \<Rightarrow> string status_or" where
  "strip_query_and_fragments_from_url C url =
     (case parse_url C url of
        Inl e \<Rightarrow> Inl e
      | Inr h \<Rightarrow>
          (case curl_get_host C h of
             Inl uc \<Rightarrow> Inl (no_domain uc)
           | Inr host \<Rightarrow>
               (case curl_get_path C h of
                  Inl uc \<Rightarrow> Inl (no_domain uc)
                | Inr path \<Rightarrow> Inr (host @ path))))"

definition get_buyer_report_win_version :: "curl \<Rightarrow> string \<Rightarrow> auction_type \<Rightarrow> string status_or" where
  "get_buyer_report_win_version C url ty =
     (case get_domain_from_url C url of
        Inl e \<Rightarrow> Inl e
      | Inr domain \<Rightarrow>
          (case ty of
             Protected_app_signals \<Rightarrow> Inr (''pas_'' @ domain)
           | Protected_audience \<Rightarrow> Inr (''pa_'' @ domain)
           | Other_auction_type \<Rightarrow>
               Inl (invalid_argument
                 ''Error generating buyer reportWin version. Unknown auction type.'')))"

section \<open>Requests\<close>

record udf_request =
  uq_id :: string
  uq_version_string :: string
  uq_handler_name :: string
  uq_input :: "string list"

definition get_report_result_input ::
  "string \<Rightarrow> reporting_config \<Rightarrow> seller_dispatch_data \<Rightarrow> string list" where
  "get_report_result_input signals cfg d =
     [sdd_auction_config d, signals, ''{}'', bool_string (rdc_enable_adtech_code_logging cfg)]"

definition get_report_result_dispatch_request ::
  "reporting_config \<Rightarrow> seller_dispatch_data \<Rightarrow> string \<Rightarrow> udf_request" where
  "get_report_result_dispatch_request cfg d signals =
     \<lparr>uq_id = pas_winning_ad_render_url (sdd_signals d),
      uq_version_string = rdc_report_result_udf_version cfg,
      uq_handler_name = ''reportResultEntryFunction'',
      uq_input = get_report_result_input signals cfg d\<rparr>"

text \<open>\<open>PerformReportResult\<close> up to \<open>BatchExecute\<close>: an error, or the request that is handed to Roma.\<close>

definition perform_report_result ::
  "libs \<Rightarrow> reporting_config \<Rightarrow> device_signals \<Rightarrow> seller_dispatch_data \<Rightarrow> udf_request status_or" where
  "perform_report_result L cfg ms d =
     (case serialize_signals L ms of
        Inl e \<Rightarrow> Inl e
      | Inr signals \<Rightarrow> Inr (get_report_result_dispatch_request cfg d signals))"

definition get_report_win_input ::
  "string \<Rightarrow> reporting_config \<Rightarrow> buyer_dispatch_data \<Rightarrow> string list" where
  "get_report_win_input signals cfg d =
     [bdd_auction_config d, bdd_buyer_signals d, bdd_signals_for_winner d, signals, ''{}'',
      bool_string (rdc_enable_adtech_code_logging cfg)]"

definition get_pas_report_win_input ::
  "string \<Rightarrow> reporting_config \<Rightarrow> buyer_dispatch_data \<Rightarrow> string list" where
  "get_pas_report_win_input signals cfg d =
     [bdd_auction_config d, bdd_buyer_signals d, bdd_signals_for_winner d, signals, ''{}'',
      bool_string (rdc_enable_adtech_code_logging cfg),
      (case bdd_egress_payload d of None \<Rightarrow> [] | Some s \<Rightarrow> s),
      (case bdd_temporary_unlimited_egress_payload d of None \<Rightarrow> [] | Some s \<Rightarrow> s)]"

definition no_version :: "string \<Rightarrow> status" where
  "no_version origin = internal_error (''No udf version found for winning buyer: '' @ origin)"

definition get_report_win_dispatch_request ::
  "curl \<Rightarrow> reporting_config \<Rightarrow> buyer_dispatch_data \<Rightarrow> string \<Rightarrow> udf_request status_or" where
  "get_report_win_dispatch_request C cfg d signals =
     (case get_buyer_report_win_version C (bdd_buyer_origin d) Protected_audience of
        Inl e \<Rightarrow> Inl (no_version (bdd_buyer_origin d))
      | Inr v \<Rightarrow>
          Inr \<lparr>uq_id = bdd_winning_ad_render_url d, uq_version_string = v,
               uq_handler_name = ''reportWinEntryFunction'',
               uq_input = get_report_win_input signals cfg d\<rparr>)"

definition get_pas_report_win_dispatch_request ::
  "curl \<Rightarrow> reporting_config \<Rightarrow> buyer_dispatch_data \<Rightarrow> string \<Rightarrow> udf_request status_or" where
  "get_pas_report_win_dispatch_request C cfg d signals =
     (case get_buyer_report_win_version C (bdd_buyer_origin d) Protected_app_signals of
        Inl e \<Rightarrow> Inl (no_version (bdd_buyer_origin d))
      | Inr v \<Rightarrow>
          Inr \<lparr>uq_id = bdd_winning_ad_render_url d, uq_version_string = v,
               uq_handler_name = ''reportWinEntryFunction'',
               uq_input = get_pas_report_win_input signals cfg d\<rparr>)"

text \<open>
  \<open>PerformPAReportWin\<close> and \<open>PerformPASReportWin\<close> up to \<open>BatchExecute\<close>; \<open>None\<close> when a draw of noise
  does not return. The result also has the document, which was changed, and the random state.
\<close>

definition perform_pa_report_win ::
  "libs \<Rightarrow> curl \<Rightarrow> (nat \<Rightarrow> 64 word option) \<Rightarrow> reporting_config \<Rightarrow> buyer_dispatch_data
     \<Rightarrow> device_signals \<Rightarrow> nat \<Rightarrow> (udf_request status_or \<times> device_signals \<times> nat) option" where
  "perform_pa_report_win L C bits cfg d ms n =
     (case generate_buyer_device_signals L bits d ms n of
        None \<Rightarrow> None
      | Some (Inl e, ms', n') \<Rightarrow> Some (Inl e, ms', n')
      | Some (Inr signals, ms', n') \<Rightarrow>
          Some (get_report_win_dispatch_request C cfg d signals, ms', n'))"

definition perform_pas_report_win ::
  "libs \<Rightarrow> curl \<Rightarrow> (nat \<Rightarrow> 64 word option) \<Rightarrow> reporting_config \<Rightarrow> buyer_dispatch_data
     \<Rightarrow> device_signals \<Rightarrow> nat \<Rightarrow> (udf_request status_or \<times> device_signals \<times> nat) option" where
  "perform_pas_report_win L C bits cfg d ms n =
     (case generate_buyer_device_signals L bits d ms n of
        None \<Rightarrow> None
      | Some (Inl e, ms', n') \<Rightarrow> Some (Inl e, ms', n')
      | Some (Inr signals, ms', n') \<Rightarrow>
          Some (get_pas_report_win_dispatch_request C cfg d signals, ms', n'))"

definition get_reporting_dispatch_request ::
  "libs \<Rightarrow> (nat \<Rightarrow> 64 word option) \<Rightarrow> bool \<Rightarrow> reporting_config \<Rightarrow> reporting_dispatch_data \<Rightarrow> nat
     \<Rightarrow> (udf_request \<times> nat) option" where
  "get_reporting_dispatch_request L bits temporary_egress cfg d n =
     (case get_reporting_input L bits temporary_egress cfg d n of
        None \<Rightarrow> None
      | Some (inp, n') \<Rightarrow>
          Some (\<lparr>uq_id = pas_winning_ad_render_url (rdd_signals d), uq_version_string = ''v1'',
                 uq_handler_name = rdd_handler_name d, uq_input = inp\<rparr>, n'))"

section \<open>Responses\<close>

record report_result_response =
  rrr_url :: string
  rrr_interaction :: "(string \<times> string) list"
  rrr_send_report_to_invoked :: bool
  rrr_register_ad_beacon_invoked :: bool
  rrr_signals_for_winner :: string
  rrr_pagg :: pagg_response

record report_win_response =
  rwr_url :: string
  rwr_interaction :: "(string \<times> string) list"
  rwr_send_report_to_invoked :: bool
  rwr_register_ad_beacon_invoked :: bool
  rwr_pagg :: pagg_response

definition get_string :: "unspecified \<Rightarrow> json \<Rightarrow> string" where
  "get_string U v = (case v of JStr s \<Rightarrow> s | _ \<Rightarrow> un_string U v)"

definition interaction_urls ::
  "unspecified \<Rightarrow> (string \<times> json) list \<Rightarrow> (string \<times> string) list \<Rightarrow> (string \<times> string) list" where
  "interaction_urls U ms acc = fold (\<lambda>(k, v). al_emplace k (get_string U v)) ms acc"

definition signals_or_null :: "string \<Rightarrow> string" where
  "signals_or_null s = (if s = [] \<or> s = ''undefined'' then ''null'' else s)"

definition response_pagg :: "unspecified \<Rightarrow> base_values \<Rightarrow> json \<Rightarrow> pagg_response" where
  "response_pagg U bv doc =
     (case find_member doc ''paapiContributions'' of
        Some (JObj ms) \<Rightarrow> get_response_for_winner U bv (JObj ms)
      | _ \<Rightarrow> no_pagg_response)"

text \<open>
  The flags \<open>send_report_to_invoked\<close> and \<open>register_ad_beacon_invoked\<close>, which these two parsers leave
  uninitialised and nothing reads, are false here.
\<close>

definition parse_report_result_response ::
  "libs \<Rightarrow> unspecified \<Rightarrow> string \<Rightarrow> base_values \<Rightarrow> report_result_response status_or" where
  "parse_report_result_response L U response bv =
     (case parse_json_string L response of
        Inl e \<Rightarrow> Inl e
      | Inr doc \<Rightarrow>
          (case find_member doc ''response'' of
             None \<Rightarrow> Inl (internal_error ''Unexpected response from reportResult execution'')
           | Some v \<Rightarrow>
               (let obj = JObj (get_members U v)
                in Inr \<lparr>rrr_url = string_if_present obj ''reportResultUrl'' [],
                        rrr_interaction =
                          interaction_urls U (object_if_present obj ''interactionReportingUrls'') [],
                        rrr_send_report_to_invoked = False,
                        rrr_register_ad_beacon_invoked = False,
                        rrr_signals_for_winner =
                          signals_or_null (string_if_present obj ''signalsForWinner'' []),
                        rrr_pagg = response_pagg U bv doc\<rparr>)))"

definition parse_report_win_response ::
  "libs \<Rightarrow> unspecified \<Rightarrow> string \<Rightarrow> base_values \<Rightarrow> report_win_response status_or" where
  "parse_report_win_response L U response bv =
     (case parse_json_string L response of
        Inl e \<Rightarrow> Inl e
      | Inr doc \<Rightarrow>
          (case find_member doc ''response'' of
             None \<Rightarrow> Inl (internal_error
               ''Unexpected response from reportWin execution. \"response\" field not found.'')
           | Some v \<Rightarrow>
               (let obj = JObj (get_members U v)
                in Inr \<lparr>rwr_url = string_if_present obj ''reportWinUrl'' [],
                        rwr_interaction =
                          interaction_urls U (object_if_present obj ''interactionReportingUrls'') [],
                        rwr_send_report_to_invoked = False,
                        rwr_register_ad_beacon_invoked = False,
                        rwr_pagg = response_pagg U bv doc\<rparr>)))"

text \<open>The response of the joint execution.\<close>

record reporting_response =
  rr_report_result :: report_result_response
  rr_seller_logs :: "string list"
  rr_seller_error_logs :: "string list"
  rr_seller_warning_logs :: "string list"
  rr_report_win :: report_win_response
  rr_buyer_logs :: "string list"
  rr_buyer_error_logs :: "string list"
  rr_buyer_warning_logs :: "string list"

definition empty_report_result :: report_result_response where
  "empty_report_result =
     \<lparr>rrr_url = [], rrr_interaction = [], rrr_send_report_to_invoked = False,
      rrr_register_ad_beacon_invoked = False, rrr_signals_for_winner = [],
      rrr_pagg = no_pagg_response\<rparr>"

definition empty_report_win :: report_win_response where
  "empty_report_win =
     \<lparr>rwr_url = [], rwr_interaction = [], rwr_send_report_to_invoked = False,
      rwr_register_ad_beacon_invoked = False, rwr_pagg = no_pagg_response\<rparr>"

definition empty_reporting_response :: reporting_response where
  "empty_reporting_response =
     \<lparr>rr_report_result = empty_report_result, rr_seller_logs = [], rr_seller_error_logs = [],
      rr_seller_warning_logs = [], rr_report_win = empty_report_win, rr_buyer_logs = [],
      rr_buyer_error_logs = [], rr_buyer_warning_logs = []\<rparr>"

definition parse_logs :: "unspecified \<Rightarrow> json \<Rightarrow> string \<Rightarrow> string list" where
  "parse_logs U doc log_type =
     (case find_member doc log_type of
        None \<Rightarrow> []
      | Some v \<Rightarrow> map (get_string U) (get_elements U v))"

definition parse_and_get_reporting_response ::
  "libs \<Rightarrow> unspecified \<Rightarrow> bool \<Rightarrow> string \<Rightarrow> reporting_response status_or" where
  "parse_and_get_reporting_response L U logging response =
     (case parse_json_string L response of
        Inl e \<Rightarrow> Inl e
      | Inr doc \<Rightarrow>
          (case find_member doc ''reportResultResponse'' of
             None \<Rightarrow> Inr empty_reporting_response
           | Some obj \<Rightarrow>
               (let logs = (\<lambda>ty. if logging then parse_logs U doc ty else []);
                    r = empty_reporting_response
                      \<lparr>rr_report_result := empty_report_result
                         \<lparr>rrr_url := string_if_present obj ''reportResultUrl'' [],
                          rrr_send_report_to_invoked :=
                            bool_if_present obj ''sendReportToInvoked'' False,
                          rrr_register_ad_beacon_invoked :=
                            bool_if_present obj ''registerAdBeaconInvoked'' False,
                          rrr_interaction :=
                            interaction_urls U (object_if_present obj ''interactionReportingUrls'') []\<rparr>,
                       rr_seller_logs := logs ''sellerLogs'',
                       rr_seller_error_logs := logs ''sellerErrors'',
                       rr_seller_warning_logs := logs ''sellerWarnings'',
                       rr_buyer_logs := logs ''buyerLogs'',
                       rr_buyer_error_logs := logs ''buyerErrors'',
                       rr_buyer_warning_logs := logs ''buyerWarnings''\<rparr>
                in case find_member doc ''reportWinResponse'' of
                     None \<Rightarrow> Inr r
                   | Some win \<Rightarrow>
                       Inr (r\<lparr>rr_report_win := empty_report_win
                         \<lparr>rwr_url := string_if_present win ''reportWinUrl'' [],
                          rwr_send_report_to_invoked :=
                            bool_if_present win ''sendReportToInvoked'' False,
                          rwr_register_ad_beacon_invoked :=
                            bool_if_present win ''registerAdBeaconInvoked'' False,
                          rwr_interaction :=
                            interaction_urls U (object_if_present win ''interactionReportingUrls'') []\<rparr>\<rparr>))))"

section \<open>Lemmas\<close>

lemma interaction_urls_lookup:
  "map_of (interaction_urls U ms acc) k
     = (case map_of acc k of
          None \<Rightarrow> map_option (get_string U) (map_of ms k)
        | Some w \<Rightarrow> Some w)"
proof -
  have "fold (\<lambda>(k, v). al_emplace k (get_string U v)) ms acc
      = fold (\<lambda>(k, v). al_emplace k v) (map (\<lambda>(k, v). (k, get_string U v)) ms) acc"
    by (simp add: fold_map comp_def case_prod_unfold)
  moreover have "map_of (map (\<lambda>(k, v). (k, get_string U v)) ms) k
      = map_option (get_string U) (map_of ms k)"
    by (induction ms) auto
  ultimately show ?thesis by (simp only: interaction_urls_def amap.look_fold_ins)
qed

lemma signals_or_null_defined: "signals_or_null s \<noteq> []" "signals_or_null s \<noteq> ''undefined''"
  by (simp_all add: signals_or_null_def)

lemma response_pagg_clean: "clean_response True (response_pagg U bv doc)"
  by (auto simp: response_pagg_def response_for_winner_clean split: option.split json.split)

lemma parse_report_result_cases:
  assumes "parse_report_result_response L U response bv = Inr r"
  obtains doc v where "parse_json_string L response = Inr doc" "find_member doc ''response'' = Some v"
    "rrr_interaction r
       = interaction_urls U (object_if_present (JObj (get_members U v)) ''interactionReportingUrls'') []"
    "rrr_signals_for_winner r \<noteq> []" "rrr_signals_for_winner r \<noteq> ''undefined''"
    "clean_response True (rrr_pagg r)"
  using assms signals_or_null_defined response_pagg_clean
  by (auto simp: parse_report_result_response_def Let_def split: sum.splits option.splits)

text \<open>What reportWin() receives: the winner's version, and the seller's result between its arguments.\<close>

lemma perform_pa_report_win_request:
  assumes "perform_pa_report_win L C bits cfg d ms n = Some (Inr q, ms', n')"
  obtains signals host where "generate_buyer_device_signals L bits d ms n = Some (Inr signals, ms', n')"
    "get_domain_from_url C (bdd_buyer_origin d) = Inr host" "uq_version_string q = ''pa_'' @ host"
    "uq_input q = get_report_win_input signals cfg d"
  using assms
  by (auto simp: perform_pa_report_win_def get_report_win_dispatch_request_def
      get_buyer_report_win_version_def split: option.splits sum.splits)

lemma perform_pas_report_win_request:
  assumes "perform_pas_report_win L C bits cfg d ms n = Some (Inr q, ms', n')"
  obtains signals host where "generate_buyer_device_signals L bits d ms n = Some (Inr signals, ms', n')"
    "get_domain_from_url C (bdd_buyer_origin d) = Inr host" "uq_version_string q = ''pas_'' @ host"
    "uq_input q = get_pas_report_win_input signals cfg d"
  using assms
  by (auto simp: perform_pas_report_win_def get_pas_report_win_dispatch_request_def
      get_buyer_report_win_version_def split: option.splits sum.splits)

end
