(* ===== verification/Debug_Reporting.thy ===== *)
theory Debug_Reporting
  imports Auction_Outcome
begin

text \<open>
  The seller's debug reports (\<open>ScoreAdsReactor::PerformDebugReporting\<close> and its helpers in
  \<open>services/auction_service/score_ads_reactor.cc\<close>): with downsampling at most a few URLs go into the
  response, without it the server pings them, and a component auction's winner is always reported
  through the response. The outcomes of the random draws are a parameter \<open>draw\<close>: \<open>draw n\<close> is what the
  n-th call of \<open>RandInt(1, upper_bound)\<close> returned. The table of scores is iterated in the order of
  its list. Attestation (URL parsing by libtld and the enrollment cache) is the parameter \<open>attested\<close>,
  absent when the reactor has no cache.
\<close>

record debug_state =
  dg_reports :: "debug_report list"
  dg_size :: int
  dg_draws :: nat
  dg_pings :: "string list"

section \<open>Reports in the response\<close>

definition add_seller_debug_report ::
  "libs \<Rightarrow> reactor_config \<Rightarrow> string \<Rightarrow> bool \<Rightarrow> bool \<Rightarrow> debug_reporting_placeholder option
     \<Rightarrow> debug_state \<Rightarrow> debug_state" where
  "add_seller_debug_report L cf url is_win is_component_win placeholder dg =
     (if int (length url) + dg_size dg > cf_max_allowed_size_all_debug_urls_chars cf then dg
      else dg\<lparr>dg_size := dg_size dg + int (length url),
              dg_reports := dg_reports dg @
                [\<lparr>dr_url =
                    (case placeholder of
                       None \<Rightarrow> url
                     | Some p \<Rightarrow> create_debug_reporting_url L url p (is_win \<or> is_component_win)),
                  dr_is_win_report = is_win, dr_is_seller_report = True,
                  dr_is_component_win = is_component_win\<rparr>]\<rparr>)"

definition passes_sampling :: "(nat \<Rightarrow> nat option) \<Rightarrow> debug_state \<Rightarrow> bool" where
  "passes_sampling draw dg = debug_url_passes_sampling (draw (dg_draws dg))"

definition drawn :: "debug_state \<Rightarrow> debug_state" where
  "drawn dg = dg\<lparr>dg_draws := Suc (dg_draws dg)\<rparr>"

definition win_url_of :: "ad_score \<Rightarrow> string" where
  "win_url_of sc = (case as_debug_report_urls sc of None \<Rightarrow> [] | Some d \<Rightarrow> debug_win_url d)"

definition loss_url_of :: "ad_score \<Rightarrow> string" where
  "loss_url_of sc = (case as_debug_report_urls sc of None \<Rightarrow> [] | Some d \<Rightarrow> debug_loss_url d)"

definition is_winning_ig :: "post_auction_signals \<Rightarrow> ad_score \<Rightarrow> bool" where
  "is_winning_ig sig sc \<longleftrightarrow>
     as_interest_group_owner sc = pas_winning_ig_owner sig
     \<and> as_interest_group_name sc = pas_winning_ig_name sig"

definition placeholder_for :: "post_auction_signals \<Rightarrow> ad_score \<Rightarrow> debug_reporting_placeholder" where
  "placeholder_for sig sc =
     get_placeholder_data_for_interest_group (as_interest_group_owner sc) (as_interest_group_name sc)
       sig"

section \<open>Downsampled reporting\<close>

text \<open>
  The single-seller loop. The accumulator is \<open>cooldown\<close>: whether some URL failed sampling, and if so
  whether the last one was a win URL.
\<close>

definition relevant_url :: "post_auction_signals \<Rightarrow> ad_score \<Rightarrow> string" where
  "relevant_url sig sc = (if is_winning_ig sig sc then win_url_of sc else loss_url_of sc)"

fun sampled_single_seller ::
  "libs \<Rightarrow> reactor_config \<Rightarrow> (nat \<Rightarrow> nat option) \<Rightarrow> post_auction_signals \<Rightarrow> (string \<times> ad_score) list
     \<Rightarrow> bool option \<Rightarrow> debug_state \<Rightarrow> debug_state" where
  "sampled_single_seller L cf draw sig [] cooldown dg =
     (case cooldown of
        None \<Rightarrow> dg
      | Some for_win \<Rightarrow> add_seller_debug_report L cf [] for_win False None dg)"
| "sampled_single_seller L cf draw sig ((k, sc) # scs) cooldown dg =
     (let url = relevant_url sig sc
      in if url = [] then sampled_single_seller L cf draw sig scs cooldown dg
         else if passes_sampling draw dg
         then add_seller_debug_report L cf url (is_winning_ig sig sc) False
                (Some (placeholder_for sig sc)) (drawn dg)
         else sampled_single_seller L cf draw sig scs (Some (is_winning_ig sig sc)) (drawn dg))"

definition sample_debug_win_report ::
  "libs \<Rightarrow> reactor_config \<Rightarrow> (nat \<Rightarrow> nat option) \<Rightarrow> post_auction_signals \<Rightarrow> ad_score
     \<Rightarrow> debug_state \<Rightarrow> debug_state" where
  "sample_debug_win_report L cf draw sig winner dg =
     (if win_url_of winner = [] then dg
      else if passes_sampling draw dg
      then add_seller_debug_report L cf (win_url_of winner) True True
             (Some (placeholder_for sig winner)) (drawn dg)
      else add_seller_debug_report L cf [] True True None (drawn dg))"

text \<open>The state with the flags \<open>loss_url_selected\<close> and \<open>put_seller_in_cooldown_for_confirmed_loss\<close>.\<close>

definition sample_debug_loss_report ::
  "libs \<Rightarrow> reactor_config \<Rightarrow> (nat \<Rightarrow> nat option) \<Rightarrow> post_auction_signals \<Rightarrow> ad_score
     \<Rightarrow> bool \<times> bool \<times> debug_state \<Rightarrow> bool \<times> bool \<times> debug_state" where
  "sample_debug_loss_report L cf draw sig sc acc =
     (case acc of (selected, confirmed, dg) \<Rightarrow>
      (let url = loss_url_of sc;
           winning = is_winning_ig sig sc;
           dg1 = (if selected then dg else drawn dg)
       in if url = [] then (selected, confirmed, dg)
          else if \<not> selected \<and> passes_sampling draw dg
          then (True, confirmed,
                add_seller_debug_report L cf url False winning (Some (placeholder_for sig sc)) dg1)
          else if winning
          then (selected, confirmed, add_seller_debug_report L cf [] False True None dg1)
          else (selected, True, dg1)))"

fun sampled_component ::
  "libs \<Rightarrow> reactor_config \<Rightarrow> (nat \<Rightarrow> nat option) \<Rightarrow> post_auction_signals \<Rightarrow> ad_score
     \<Rightarrow> (string \<times> ad_score) list \<Rightarrow> bool \<Rightarrow> bool \<times> bool \<times> debug_state \<Rightarrow> bool \<times> bool \<times> debug_state"
  where
  "sampled_component L cf draw sig winner [] win_checked acc = acc"
| "sampled_component L cf draw sig winner ((k, sc) # scs) win_checked acc =
     (case acc of (selected, confirmed, dg) \<Rightarrow>
        if win_checked \<and> selected \<and> confirmed then acc
        else
          (let winning = is_winning_ig sig sc;
               dg1 = (if winning then sample_debug_win_report L cf draw sig winner dg else dg)
           in sampled_component L cf draw sig winner scs (win_checked \<or> winning)
                (sample_debug_loss_report L cf draw sig sc (selected, confirmed, dg1))))"

definition perform_sampled_debug_reporting ::
  "libs \<Rightarrow> reactor_config \<Rightarrow> (nat \<Rightarrow> nat option) \<Rightarrow> post_auction_signals \<Rightarrow> ad_score
     \<Rightarrow> (string \<times> ad_score) list \<Rightarrow> debug_state \<Rightarrow> debug_state" where
  "perform_sampled_debug_reporting L cf draw sig winner scs dg =
     (if is_component_auction (cf_auction_scope cf) then
        (case sampled_component L cf draw sig winner scs False (False, False, dg\<lparr>dg_size := 0\<rparr>) of
           (selected, confirmed, dg1) \<Rightarrow>
             if confirmed then add_seller_debug_report L cf [] False False None dg1 else dg1)
      else sampled_single_seller L cf draw sig scs None (dg\<lparr>dg_size := 0\<rparr>))"

section \<open>Reporting without downsampling\<close>

definition add_report_if_present ::
  "libs \<Rightarrow> reactor_config \<Rightarrow> string \<Rightarrow> bool \<Rightarrow> debug_reporting_placeholder \<Rightarrow> debug_state
     \<Rightarrow> debug_state" where
  "add_report_if_present L cf url is_win p dg =
     (if url = [] then dg else add_seller_debug_report L cf url is_win True (Some p) dg)"

definition unsampled_component_winner ::
  "libs \<Rightarrow> reactor_config \<Rightarrow> post_auction_signals \<Rightarrow> ad_score \<Rightarrow> debug_state \<Rightarrow> debug_state" where
  "unsampled_component_winner L cf sig winner dg =
     (let p = placeholder_for sig winner
      in add_report_if_present L cf (loss_url_of winner) False p
           (add_report_if_present L cf (win_url_of winner) True p (dg\<lparr>dg_size := 0\<rparr>)))"

definition unsampled_ad ::
  "libs \<Rightarrow> reactor_config \<Rightarrow> post_auction_signals \<Rightarrow> ad_score \<Rightarrow> string \<times> ad_score \<Rightarrow> debug_state
     \<Rightarrow> debug_state" where
  "unsampled_ad L cf sig winner e dg =
     (let sc = snd e
      in if as_debug_report_urls sc = None then dg
         else if is_winning_ig sig sc \<and> is_component_auction (cf_auction_scope cf)
         then unsampled_component_winner L cf sig winner dg
         else dg\<lparr>dg_pings := dg_pings dg @
                  send_debug_reporting_ping L (relevant_url sig sc) (as_interest_group_owner sc)
                    (as_interest_group_name sc) (is_winning_ig sig sc) sig\<rparr>)"

definition perform_unsampled_debug_reporting ::
  "libs \<Rightarrow> reactor_config \<Rightarrow> post_auction_signals \<Rightarrow> ad_score \<Rightarrow> (string \<times> ad_score) list
     \<Rightarrow> debug_state \<Rightarrow> debug_state" where
  "perform_unsampled_debug_reporting L cf sig winner scs dg =
     fold (unsampled_ad L cf sig winner) scs dg"

section \<open>The whole operation\<close>

definition set_debug_urls :: "debug_report_urls option \<Rightarrow> ad_score \<Rightarrow> ad_score" where
  "set_debug_urls d sc = sc\<lparr>as_debug_report_urls := d\<rparr>"

definition attest_debug_urls :: "(string \<Rightarrow> bool) option \<Rightarrow> raw_response \<Rightarrow> raw_response" where
  "attest_debug_urls attested rs =
     (case attested of
        None \<Rightarrow> rs
      | Some ok \<Rightarrow>
          (let sc = response_ad_score rs;
               win = win_url_of sc;
               loss = loss_url_of sc;
               win' = (if ok win then win else []);
               loss' = (if ok loss then loss else [])
           in mutate_ad_score
                (set_debug_urls
                   (if win = [] \<and> loss = []
                    then Some \<lparr>debug_win_url = [], debug_loss_url = []\<rparr>
                    else if win' = [] \<and> loss' = [] then None
                    else Some \<lparr>debug_win_url = win', debug_loss_url = loss'\<rparr>)) rs))"

text \<open>The response and the pings after \<open>PerformDebugReporting\<close>.\<close>

definition perform_debug_reporting ::
  "libs \<Rightarrow> reactor_config \<Rightarrow> score_ads_raw_request \<Rightarrow> (nat \<Rightarrow> nat option)
     \<Rightarrow> (string \<Rightarrow> bool) option \<Rightarrow> scoring_state \<Rightarrow> scoring_state \<times> string list" where
  "perform_debug_reporting L cf rq draw attested ss =
     (if cf_auction_scope cf = AUCTION_SCOPE_SERVER_TOP_LEVEL_SELLER
      then (ss\<lparr>ss_response := mutate_ad_score (set_debug_urls None) (ss_response ss)\<rparr>, [])
      else
        (let rs = attest_debug_urls attested (ss_response ss);
             winner = response_ad_score rs;
             dg0 = \<lparr>dg_reports = rs_seller_debug_reports rs, dg_size = 0, dg_draws = 0, dg_pings = []\<rparr>
         in if as_debug_report_urls winner = None then (ss\<lparr>ss_response := rs\<rparr>, [])
            else
              (let dg = (if fdo_enable_sampled_debug_reporting (rq_fdo_flags rq)
                         then perform_sampled_debug_reporting L cf draw (ss_signals ss) winner
                                (ss_ad_scores ss) dg0
                         else perform_unsampled_debug_reporting L cf (ss_signals ss) winner
                                (ss_ad_scores ss) dg0)
               in (ss\<lparr>ss_response := mutate_ad_score (set_debug_urls None)
                         (rs\<lparr>rs_seller_debug_reports := dg_reports dg\<rparr>)\<rparr>,
                   dg_pings dg))))"

section \<open>Bounds\<close>

text \<open>What a step may do to the reports: append some, within the size budget.\<close>

definition budget_ok :: "reactor_config \<Rightarrow> debug_state \<Rightarrow> bool" where
  "budget_ok cf dg \<longleftrightarrow> dg_size dg \<le> cf_max_allowed_size_all_debug_urls_chars cf"

lemma add_seller_debug_report_frame [simp]:
  "dg_draws (add_seller_debug_report L cf url w c p dg) = dg_draws dg"
  "dg_pings (add_seller_debug_report L cf url w c p dg) = dg_pings dg"
  by (simp_all add: add_seller_debug_report_def)

lemma drawn_frame [simp]:
  "dg_reports (drawn dg) = dg_reports dg" "dg_pings (drawn dg) = dg_pings dg"
  "dg_size (drawn dg) = dg_size dg" "dg_draws (drawn dg) = Suc (dg_draws dg)"
  by (simp_all add: drawn_def)

text \<open>The reports added by one call: none or one, with the flags it was called with.\<close>

lemma add_seller_debug_report_appends:
  obtains "dg_reports (add_seller_debug_report L cf url w c p dg) = dg_reports dg"
  | u where "dg_reports (add_seller_debug_report L cf url w c p dg) = dg_reports dg
      @ [\<lparr>dr_url = u, dr_is_win_report = w, dr_is_seller_report = True, dr_is_component_win = c\<rparr>]"
    "p = None \<Longrightarrow> u = url"
  by (cases "int (length url) + dg_size dg > cf_max_allowed_size_all_debug_urls_chars cf")
     (auto simp: add_seller_debug_report_def)

lemma add_seller_debug_report_budget:
  "budget_ok cf dg \<Longrightarrow> budget_ok cf (add_seller_debug_report L cf url w c p dg)"
  by (simp add: budget_ok_def add_seller_debug_report_def)

text \<open>A single-seller auction adds one report at most, and pings nobody.\<close>

lemma sampled_single_seller_bound:
  "length (dg_reports (sampled_single_seller L cf draw sig scs cooldown dg)) \<le> length (dg_reports dg) + 1
   \<and> dg_pings (sampled_single_seller L cf draw sig scs cooldown dg) = dg_pings dg"
proof (induction scs arbitrary: cooldown dg)
  case Nil
  then show ?case by (cases cooldown) (simp_all add: add_seller_debug_report_def)
next
  case (Cons e scs)
  obtain k sc where e: "e = (k, sc)" by fastforce
  show ?case
    using Cons.IH [of cooldown dg] Cons.IH [of "Some (is_winning_ig sig sc)" "drawn dg"]
    by (auto simp: e Let_def) (simp add: add_seller_debug_report_def)
qed

text \<open>
  The report of a single-seller auction is the sampled URL of some ad (its win URL when it won, its
  loss URL otherwise), or an empty one that announces the cooldown.
\<close>

definition single_seller_report ::
  "libs \<Rightarrow> post_auction_signals \<Rightarrow> (string \<times> ad_score) list \<Rightarrow> debug_report \<Rightarrow> bool" where
  "single_seller_report L sig scs r \<longleftrightarrow>
     dr_is_seller_report r \<and> \<not> dr_is_component_win r
     \<and> (dr_url r = []
        \<or> (\<exists>e \<in> set scs. relevant_url sig (snd e) \<noteq> []
             \<and> dr_is_win_report r = is_winning_ig sig (snd e)
             \<and> dr_url r = create_debug_reporting_url L (relevant_url sig (snd e))
                            (placeholder_for sig (snd e)) (is_winning_ig sig (snd e))))"

lemma sampled_single_seller_report:
  "r \<in> set (dg_reports (sampled_single_seller L cf draw sig scs cooldown dg)) \<Longrightarrow>
     r \<in> set (dg_reports dg) \<or> single_seller_report L sig scs r"
proof (induction scs arbitrary: cooldown dg)
  case Nil
  then show ?case
    by (cases cooldown) (auto simp: add_seller_debug_report_def single_seller_report_def split: if_splits)
next
  case (Cons e scs)
  obtain k sc where e: "e = (k, sc)" by fastforce
  have mono: "single_seller_report L sig scs r \<Longrightarrow> single_seller_report L sig (e # scs) r"
    by (auto simp: single_seller_report_def)
  show ?case
  proof (cases "relevant_url sig sc \<noteq> [] \<and> passes_sampling draw dg")
    case True
    then show ?thesis
      using Cons.prems
      by (auto simp: e Let_def add_seller_debug_report_def single_seller_report_def split: if_splits)
  next
    case False
    then show ?thesis
      using Cons.prems Cons.IH [of cooldown dg] mono
        Cons.IH [of "Some (is_winning_ig sig sc)" "drawn dg"]
      by (auto simp: e Let_def split: if_splits)
  qed
qed

text \<open>
  Component auctions: of all the loss URLs one at most is sampled into the response; every other
  loss report has an empty URL. Counted are the loss reports with a placeholder-expanded URL.
\<close>

definition sampled_losses :: "debug_report list \<Rightarrow> nat" where
  "sampled_losses rs = length (filter (\<lambda>r. \<not> dr_is_win_report r \<and> dr_url r \<noteq> []) rs)"

lemma add_report_sampled_losses:
  "sampled_losses (dg_reports (add_seller_debug_report L cf url True c p dg)) = sampled_losses (dg_reports dg)"
  "sampled_losses (dg_reports (add_seller_debug_report L cf [] w c None dg)) = sampled_losses (dg_reports dg)"
  "sampled_losses (dg_reports (add_seller_debug_report L cf url w c p dg)) \<le> Suc (sampled_losses (dg_reports dg))"
  by (simp_all add: sampled_losses_def add_seller_debug_report_def)

lemma sample_debug_win_report_losses [simp]:
  "sampled_losses (dg_reports (sample_debug_win_report L cf draw sig winner dg))
     = sampled_losses (dg_reports dg)"
  "dg_pings (sample_debug_win_report L cf draw sig winner dg) = dg_pings dg"
  by (simp_all add: sample_debug_win_report_def add_report_sampled_losses)

definition loss_inv :: "nat \<Rightarrow> string list \<Rightarrow> bool \<times> bool \<times> debug_state \<Rightarrow> bool" where
  "loss_inv n pings acc \<longleftrightarrow>
     (case acc of (selected, confirmed, dg) \<Rightarrow>
        sampled_losses (dg_reports dg) \<le> n + (if selected then 1 else 0) \<and> dg_pings dg = pings)"

lemma sample_debug_loss_report_inv:
  assumes "loss_inv n pings acc"
  shows "loss_inv n pings (sample_debug_loss_report L cf draw sig sc acc)"
proof -
  obtain selected confirmed dg where acc: "acc = (selected, confirmed, dg)" by (cases acc)
  have le: "sampled_losses (dg_reports (add_seller_debug_report L cf (loss_url_of sc) False w p (drawn dg)))
      \<le> Suc (sampled_losses (dg_reports dg))" for w p
    using add_report_sampled_losses(3) [where dg = "drawn dg"] by simp
  show ?thesis
    using assms le [of "is_winning_ig sig sc" "Some (placeholder_for sig sc)"]
    by (auto simp: sample_debug_loss_report_def acc loss_inv_def Let_def add_report_sampled_losses)
qed

lemma sampled_component_inv:
  "loss_inv n pings acc \<Longrightarrow> loss_inv n pings (sampled_component L cf draw sig winner scs win_checked acc)"
proof (induction scs arbitrary: win_checked acc)
  case Nil
  then show ?case by simp
next
  case (Cons e scs)
  obtain k sc where e: "e = (k, sc)" by fastforce
  obtain selected confirmed dg where acc: "acc = (selected, confirmed, dg)" by (cases acc)
  have "loss_inv n pings (selected, confirmed,
      if is_winning_ig sig sc then sample_debug_win_report L cf draw sig winner dg else dg)"
    using Cons.prems by (simp add: acc loss_inv_def)
  from Cons.IH [OF sample_debug_loss_report_inv [OF this]] show ?case
    using Cons.prems by (auto simp: e acc Let_def)
qed

lemma perform_sampled_losses:
  "sampled_losses (dg_reports (perform_sampled_debug_reporting L cf draw sig winner scs dg))
     \<le> sampled_losses (dg_reports dg) + 1
   \<and> dg_pings (perform_sampled_debug_reporting L cf draw sig winner scs dg) = dg_pings dg"
proof (cases "is_component_auction (cf_auction_scope cf)")
  case True
  let ?acc = "(False, False, dg\<lparr>dg_size := 0\<rparr>)"
  obtain selected confirmed dg1
    where run: "sampled_component L cf draw sig winner scs False ?acc = (selected, confirmed, dg1)"
    by (metis prod_cases3)
  have "loss_inv (sampled_losses (dg_reports dg)) (dg_pings dg) ?acc" by (simp add: loss_inv_def)
  from sampled_component_inv [OF this, of L cf draw sig winner scs False]
  have "loss_inv (sampled_losses (dg_reports dg)) (dg_pings dg) (selected, confirmed, dg1)"
    by (simp add: run)
  then show ?thesis
    using True run
    by (auto simp: perform_sampled_debug_reporting_def loss_inv_def add_report_sampled_losses
          split: if_splits)
next
  case False
  let ?run = "sampled_single_seller L cf draw sig scs None (dg\<lparr>dg_size := 0\<rparr>)"
  have "\<exists>new. dg_reports (sampled_single_seller L cf draw sig scs c d) = dg_reports d @ new \<and> length new \<le> 1"
    for c d
  proof (induction scs arbitrary: c d)
    case Nil
    then show ?case by (cases c) (simp_all add: add_seller_debug_report_def)
  next
    case (Cons e scs)
    obtain k sc where e: "e = (k, sc)" by fastforce
    show ?case
      using Cons.IH [of c d] Cons.IH [of "Some (is_winning_ig sig sc)" "drawn d"]
      by (simp add: e Let_def) (simp add: add_seller_debug_report_def)
  qed
  then obtain new where "dg_reports ?run = dg_reports dg @ new" "length new \<le> 1"
    by (metis debug_state.select_convs(1) debug_state.update_convs(2) debug_state.surjective)
  moreover from this have "sampled_losses new \<le> 1"
    unfolding sampled_losses_def using length_filter_le order_trans by blast
  ultimately show ?thesis
    using False sampled_single_seller_bound [of L cf draw sig scs None "dg\<lparr>dg_size := 0\<rparr>"]
    by (simp add: perform_sampled_debug_reporting_def sampled_losses_def)
qed

section \<open>Pings\<close>

text \<open>The pings of the unsampled mode: one per ad with a relevant URL, the component winner apart.\<close>

definition pings_for ::
  "libs \<Rightarrow> reactor_config \<Rightarrow> post_auction_signals \<Rightarrow> string \<times> ad_score \<Rightarrow> string list" where
  "pings_for L cf sig e =
     (if as_debug_report_urls (snd e) = None
        \<or> (is_winning_ig sig (snd e) \<and> is_component_auction (cf_auction_scope cf))
      then []
      else send_debug_reporting_ping L (relevant_url sig (snd e)) (as_interest_group_owner (snd e))
             (as_interest_group_name (snd e)) (is_winning_ig sig (snd e)) sig)"

lemma unsampled_component_winner_pings [simp]:
  "dg_pings (unsampled_component_winner L cf sig winner dg) = dg_pings dg"
  by (simp add: unsampled_component_winner_def add_report_if_present_def Let_def)

lemma perform_unsampled_pings:
  "dg_pings (perform_unsampled_debug_reporting L cf sig winner scs dg)
     = dg_pings dg @ concat (map (pings_for L cf sig) scs)"
  unfolding perform_unsampled_debug_reporting_def
  by (induction scs arbitrary: dg) (auto simp: unsampled_ad_def pings_for_def Let_def)

text \<open>Whatever the mode, no debug URLs are left in the response.\<close>

lemma perform_debug_reporting_clears:
  assumes "perform_debug_reporting L cf rq draw attested ss = (ss', pings)"
  shows "as_debug_report_urls (response_ad_score (ss_response ss')) = None"
  using assms
  by (auto simp: perform_debug_reporting_def set_debug_urls_def Let_def split: if_splits)

lemma perform_debug_reporting_frame:
  assumes "perform_debug_reporting L cf rq draw attested ss = (ss', pings)"
  shows "ss_data ss' = ss_data ss" "ss_ad_scores ss' = ss_ad_scores ss"
    "ss_signals ss' = ss_signals ss" "ss_paapi_docs ss' = ss_paapi_docs ss"
  using assms by (auto simp: perform_debug_reporting_def Let_def split: if_splits)

end
