(* ===== verification/Score_Ads_Flow.thy ===== *)
theory Score_Ads_Flow
  imports Reporting_Udfs Debug_Reporting
begin

text \<open>
  The life of one ScoreAds call (\<open>auction_service/score_ads_reactor.cc\<close>): \<open>Execute\<close> sends the ads to
  scoreAd(); each later stage is a callback of the code dispatcher, which may start the next script;
  the call ends when the reactor calls gRPC's \<open>Finish\<close>. The record \<open>flow\<close> is the reactor's state,
  with the callback it waits for and the statuses passed to \<open>Finish\<close>; what happens around the reactor
  (cancellation, the dispatcher's answers, encryption, random draws) is the record \<open>environment\<close>.
  A handler can also abort the process, or wait for ever in the rejection sampling of noise.
\<close>

section \<open>Reporting URLs in the response\<close>

definition add_interaction_urls ::
  "(string \<times> string) list \<Rightarrow> (string \<rightharpoonup> string) \<Rightarrow> (string \<rightharpoonup> string)" where
  "add_interaction_urls urls m = fold (\<lambda>(k, v) m. fst (try_emplace k v m)) urls m"

definition set_urls :: "string \<Rightarrow> (string \<times> string) list \<Rightarrow> reporting_urls \<Rightarrow> reporting_urls" where
  "set_urls url urls ru =
     \<lparr>ru_url = url, ru_interaction = add_interaction_urls urls (ru_interaction ru)\<rparr>"

definition mutate_win_urls ::
  "(win_reporting_urls \<Rightarrow> win_reporting_urls) \<Rightarrow> raw_response \<Rightarrow> raw_response" where
  "mutate_win_urls f =
     mutate_ad_score (\<lambda>sc. sc\<lparr>as_win_reporting_urls := f (as_win_reporting_urls sc)\<rparr>)"

definition set_top_level_seller_urls ::
  "string \<Rightarrow> (string \<times> string) list \<Rightarrow> win_reporting_urls \<Rightarrow> win_reporting_urls" where
  "set_top_level_seller_urls url urls w =
     w\<lparr>wru_top_level_seller := set_urls url urls (wru_top_level_seller w)\<rparr>"

definition set_component_seller_urls ::
  "string \<Rightarrow> (string \<times> string) list \<Rightarrow> win_reporting_urls \<Rightarrow> win_reporting_urls" where
  "set_component_seller_urls url urls w =
     w\<lparr>wru_component_seller := set_urls url urls (wru_component_seller w)\<rparr>"

definition set_buyer_urls ::
  "string \<Rightarrow> (string \<times> string) list \<Rightarrow> win_reporting_urls \<Rightarrow> win_reporting_urls" where
  "set_buyer_urls url urls w = w\<lparr>wru_buyer := set_urls url urls (wru_buyer w)\<rparr>"

definition set_seller_reporting_urls_in_response ::
  "report_result_response \<Rightarrow> raw_response \<Rightarrow> raw_response" where
  "set_seller_reporting_urls_in_response r =
     mutate_win_urls (set_top_level_seller_urls (rrr_url r) (rrr_interaction r))"

definition set_seller_reporting_urls_in_response_for_component_auction ::
  "report_result_response \<Rightarrow> raw_response \<Rightarrow> raw_response" where
  "set_seller_reporting_urls_in_response_for_component_auction r =
     mutate_win_urls (set_component_seller_urls (rrr_url r) (rrr_interaction r))"

text \<open>The URLs reported by a component auction are moved out of its entry.\<close>

definition copy_urls :: "reporting_urls \<Rightarrow> reporting_urls \<Rightarrow> reporting_urls" where
  "copy_urls src ru =
     \<lparr>ru_url = ru_url src,
      ru_interaction = (\<lambda>k. case ru_interaction ru k of None \<Rightarrow> ru_interaction src k | Some u \<Rightarrow> Some u)\<rparr>"

definition moved_urls :: "reporting_urls \<Rightarrow> reporting_urls \<Rightarrow> reporting_urls" where
  "moved_urls src ru =
     \<lparr>ru_url = [],
      ru_interaction = (\<lambda>k. if ru_interaction ru k = None then map_option (\<lambda>u. []) (ru_interaction src k)
                            else ru_interaction src k)\<rparr>"

definition populate_component_reporting_urls ::
  "string \<Rightarrow> scoring_state \<Rightarrow> scoring_state" where
  "populate_component_reporting_urls k ss =
     (case ds_component_reporting (ss_data ss) k of
        None \<Rightarrow> ss
      | Some c \<Rightarrow>
          (let w = crd_win_reporting_urls c;
               old = as_win_reporting_urls (response_ad_score (ss_response ss))
           in ss\<lparr>ss_response := mutate_win_urls
                   (\<lambda>u. u\<lparr>wru_component_seller := copy_urls (wru_component_seller w) (wru_component_seller u),
                          wru_buyer := copy_urls (wru_buyer w) (wru_buyer u)\<rparr>) (ss_response ss),
                 ss_data := (ss_data ss)\<lparr>ds_component_reporting := (ds_component_reporting (ss_data ss))
                   (k \<mapsto> c\<lparr>crd_win_reporting_urls := w\<lparr>wru_component_seller := moved_urls (wru_component_seller w) (wru_component_seller old),
                      wru_buyer := moved_urls (wru_buyer w) (wru_buyer old)\<rparr>\<rparr>)\<rparr>\<rparr>))"

section \<open>State and environment\<close>

record environment =
  ev_libs :: libs
  ev_curl :: curl
  ev_unspecified :: unspecified
  ev_bits :: "nat \<Rightarrow> 64 word option"
  ev_sort_ads :: "scored_ad list \<Rightarrow> scored_ad list"
  ev_sort_scores :: "f32 list \<Rightarrow> f32 list"
  ev_sample :: "nat list \<Rightarrow> nat \<Rightarrow> nat list"
  ev_draw :: "nat \<Rightarrow> nat option"
  ev_attested :: "(string \<Rightarrow> bool) option"
  ev_cancelled :: "nat \<Rightarrow> bool"
  ev_batch_execute :: "nat \<Rightarrow> status"
  ev_encrypt :: "raw_response \<Rightarrow> status + string"
  ev_export_event :: bool
  ev_temporary_egress :: bool

datatype awaited =
    Score_ads_callback bool "dispatch_request list"
  | Reporting_callback udf_request
  | Report_result_callback udf_request
  | Report_win_callback udf_request

record flow =
  fl_request :: score_ads_raw_request
  fl_scoring :: scoring_state
  fl_buyer :: buyer_dispatch_data
  fl_reporting_config :: reporting_config
  fl_seller_signals :: device_signals
  fl_winning_ad_dispatch_id :: string
  fl_awaits :: "awaited option"
  fl_finished :: "status list"
  fl_ciphertext :: string
  fl_pings :: "string list"
  fl_random :: nat
  fl_cancel_queries :: nat
  fl_batches :: nat

datatype progress = Running flow | Aborted | Diverged

definition initial_scoring_state :: scoring_state where
  "initial_scoring_state =
     \<lparr>ss_data = empty_dispatch_state, ss_ad_scores = [], ss_paapi_docs = [], ss_ghost_ig = Map.empty,
      ss_response = empty_response, ss_signals = no_winner_signals [] 0\<rparr>"

definition initial_flow :: "score_ads_raw_request \<Rightarrow> flow" where
  "initial_flow rq =
     \<lparr>fl_request = rq, fl_scoring = initial_scoring_state, fl_buyer = default_buyer_dispatch_data,
      fl_reporting_config = \<lparr>rdc_enable_report_win_url_generation = False,
        rdc_enable_protected_app_signals = False, rdc_enable_report_win_input_noising = False,
        rdc_enable_adtech_code_logging = False, rdc_report_result_udf_version = []\<rparr>,
      fl_seller_signals = [], fl_winning_ad_dispatch_id = [], fl_awaits = None,
      fl_finished = [], fl_ciphertext = [], fl_pings = [],
      fl_random = 0, fl_cancel_queries = 0, fl_batches = 0\<rparr>"

section \<open>Ends of the call\<close>

definition request_cancelled :: status where
  "request_cancelled = \<lparr>st_code = CANCELLED, st_message = ''Request Cancelled by Client.''\<rparr>"

definition internal_server_error :: status where
  "internal_server_error = internal_error ''Internal server error.''"

definition finish_with_status :: "status \<Rightarrow> flow \<Rightarrow> flow" where
  "finish_with_status s fl = fl\<lparr>fl_finished := fl_finished fl @ [s], fl_awaits := None\<rparr>"

text \<open>\<open>EncryptResponse\<close> itself finishes the call when the encryption fails.\<close>

definition encrypt_response :: "environment \<Rightarrow> flow \<Rightarrow> flow" where
  "encrypt_response E fl =
     (case ev_encrypt E (ss_response (fl_scoring fl)) of
        Inl e \<Rightarrow> finish_with_status (internal_error (status_to_string e)) fl
      | Inr c \<Rightarrow> fl\<lparr>fl_ciphertext := c\<rparr>)"

definition update_response :: "(raw_response \<Rightarrow> raw_response) \<Rightarrow> flow \<Rightarrow> flow" where
  "update_response f fl =
     fl\<lparr>fl_scoring := (fl_scoring fl)\<lparr>ss_response := f (ss_response (fl_scoring fl))\<rparr>\<rparr>"

definition encrypt_and_finish_ok :: "environment \<Rightarrow> flow \<Rightarrow> flow" where
  "encrypt_and_finish_ok E fl =
     finish_with_status ok_status
       (encrypt_response E
          (update_response (\<lambda>rs. rs\<lparr>rs_auction_export_debug := ev_export_event E\<rparr>) fl))"

text \<open>Asking gRPC whether the client cancelled, where cancellation is enabled.\<close>

definition is_cancelled :: "environment \<Rightarrow> reactor_config \<Rightarrow> flow \<Rightarrow> bool \<times> flow" where
  "is_cancelled E cf fl =
     (if cf_enable_cancellation cf
      then (ev_cancelled E (fl_cancel_queries fl),
            fl\<lparr>fl_cancel_queries := Suc (fl_cancel_queries fl)\<rparr>)
      else (False, fl))"

definition batch_execute :: "environment \<Rightarrow> awaited \<Rightarrow> (status \<Rightarrow> flow \<Rightarrow> flow) \<Rightarrow> flow \<Rightarrow> flow" where
  "batch_execute E callback on_error fl =
     (let s = ev_batch_execute E (fl_batches fl); fl' = fl\<lparr>fl_batches := Suc (fl_batches fl)\<rparr>
      in if is_ok s then fl'\<lparr>fl_awaits := Some callback\<rparr> else on_error s fl')"

section \<open>Dispatching the reports\<close>

definition dispatch_or_finish ::
  "environment \<Rightarrow> (udf_request \<Rightarrow> awaited) \<Rightarrow> udf_request status_or \<Rightarrow> flow \<Rightarrow> flow" where
  "dispatch_or_finish E callback r fl =
     (case r of
        Inl e \<Rightarrow> encrypt_and_finish_ok E fl
      | Inr q \<Rightarrow> batch_execute E (callback q) (\<lambda>s. encrypt_and_finish_ok E) fl)"

definition seller_data :: "flow \<Rightarrow> component_reporting_metadata \<Rightarrow> seller_dispatch_data" where
  "seller_data fl c =
     \<lparr>sdd_auction_config = bdd_auction_config (fl_buyer fl),
      sdd_signals = ss_signals (fl_scoring fl),
      sdd_publisher_hostname = rq_publisher_hostname (fl_request fl), sdd_component = c,
      sdd_buyer_and_seller_reporting_id = bdd_buyer_and_seller_reporting_id (fl_buyer fl),
      sdd_selected_buyer_and_seller_reporting_id =
        bdd_selected_buyer_and_seller_reporting_id (fl_buyer fl)\<rparr>"

definition report_result_with ::
  "environment \<Rightarrow> seller_dispatch_data \<Rightarrow> device_signals \<times> nat \<Rightarrow> flow \<Rightarrow> flow" where
  "report_result_with E d r fl =
     (let fl' = fl\<lparr>fl_seller_signals := fst r, fl_random := snd r\<rparr>
      in dispatch_or_finish E Report_result_callback
           (perform_report_result (ev_libs E) (fl_reporting_config fl) (fst r) d) fl')"

definition dispatch_report_result_request :: "environment \<Rightarrow> flow \<Rightarrow> flow" where
  "dispatch_report_result_request E fl =
     (let d = seller_data fl no_component_metadata
      in report_result_with E d
           (generate_seller_device_signals (ev_bits E) d (fl_random fl)) fl)"

definition modified_bid_of :: "ad_score \<Rightarrow> f32" where
  "modified_bid_of sc = (if as_bid sc > 0 then as_bid sc else as_buyer_bid sc)"

definition dispatch_report_result_request_for_component_auction ::
  "environment \<Rightarrow> ad_score \<Rightarrow> flow \<Rightarrow> flow" where
  "dispatch_report_result_request_for_component_auction E winner fl =
     (let d = seller_data fl (no_component_metadata
            \<lparr>crm_top_level_seller := rq_top_level_seller (fl_request fl),
             crm_modified_bid := modified_bid_of winner\<rparr>)
      in report_result_with E d
           (generate_seller_device_signals_for_component_auction (ev_bits E) d (fl_random fl)) fl)"

definition dispatch_report_result_request_for_top_level_auction ::
  "environment \<Rightarrow> string \<Rightarrow> flow \<Rightarrow> flow" where
  "dispatch_report_result_request_for_top_level_auction E k fl =
     (let (c, fl1) =
        (case ds_component_reporting (ss_data (fl_scoring fl)) k of
           None \<Rightarrow> (no_component_metadata, fl)
         | Some crd \<Rightarrow>
             (no_component_metadata\<lparr>crm_component_seller := crd_component_seller crd\<rparr>,
              update_response (mutate_ad_score (\<lambda>sc. sc
                \<lparr>as_buyer_reporting_id := Some (crd_buyer_reporting_id crd),
                 as_buyer_and_seller_reporting_id :=
                   Some (crd_buyer_and_seller_reporting_id crd)\<rparr>)) fl));
          d = \<lparr>sdd_auction_config = build_auction_config (fl_request fl1),
               sdd_signals = ss_signals (fl_scoring fl1),
               sdd_publisher_hostname = rq_publisher_hostname (fl_request fl1), sdd_component = c,
               sdd_buyer_and_seller_reporting_id = None,
               sdd_selected_buyer_and_seller_reporting_id = None\<rparr>
      in report_result_with E d
           (generate_seller_device_signals_for_top_level_auction (ev_bits E) d (fl_random fl1)) fl1)"

section \<open>Separate execution of the seller's and the buyer's code\<close>

definition initialize_buyer_reporting_dispatch_request_data :: "ad_score \<Rightarrow> flow \<Rightarrow> flow" where
  "initialize_buyer_reporting_dispatch_request_data winner fl =
     (let rq = fl_request fl; b = fl_buyer fl
      in fl\<lparr>fl_buyer := b
           \<lparr>bdd_buyer_signals :=
              (case rq_per_buyer_signals rq (as_interest_group_owner winner) of
                 None \<Rightarrow> bdd_buyer_signals b | Some s \<Rightarrow> s),
            bdd_seller := rq_seller rq,
            bdd_interest_group_name := as_interest_group_name winner,
            bdd_buyer_origin := as_interest_group_owner winner,
            bdd_made_highest_scoring_other_bid :=
              pas_made_highest_scoring_other_bid (ss_signals (fl_scoring fl))\<rparr>\<rparr>)"

definition override :: "'a option \<Rightarrow> 'a option \<Rightarrow> 'a option" where
  "override new old = (case new of None \<Rightarrow> old | Some x \<Rightarrow> Some x)"

definition set_reporting_ids_in_raw_response_and_dispatch_request_data ::
  "ad_with_bid \<Rightarrow> flow \<Rightarrow> flow" where
  "set_reporting_ids_in_raw_response_and_dispatch_request_data ad fl =
     (let b = fl_buyer fl;
          fl' = fl\<lparr>fl_buyer := b
            \<lparr>bdd_buyer_reporting_id := override (aw_buyer_reporting_id ad) (bdd_buyer_reporting_id b),
             bdd_buyer_and_seller_reporting_id :=
               override (aw_buyer_and_seller_reporting_id ad) (bdd_buyer_and_seller_reporting_id b),
             bdd_selected_buyer_and_seller_reporting_id :=
               override (aw_selected_buyer_and_seller_reporting_id ad)
                 (bdd_selected_buyer_and_seller_reporting_id b)\<rparr>\<rparr>
      in if aw_buyer_reporting_id ad = None \<and> aw_buyer_and_seller_reporting_id ad = None
            \<and> aw_selected_buyer_and_seller_reporting_id ad = None
         then fl'
         else update_response (mutate_ad_score (\<lambda>sc. sc
             \<lparr>as_buyer_reporting_id := override (aw_buyer_reporting_id ad) (as_buyer_reporting_id sc),
              as_buyer_and_seller_reporting_id :=
                override (aw_buyer_and_seller_reporting_id ad) (as_buyer_and_seller_reporting_id sc),
              as_selected_buyer_and_seller_reporting_id :=
                override (aw_selected_buyer_and_seller_reporting_id ad)
                  (as_selected_buyer_and_seller_reporting_id sc)\<rparr>)) fl')"

definition pa_buyer_data :: "reactor_config \<Rightarrow> ad_with_bid \<Rightarrow> buyer_dispatch_data \<Rightarrow> buyer_dispatch_data" where
  "pa_buyer_data cf ad b =
     b\<lparr>bdd_join_count := Some (aw_join_count ad), bdd_recency := Some (aw_recency ad),
       bdd_modeling_signals := Some (aw_modeling_signals ad), bdd_ad_cost := aw_ad_cost ad,
       bdd_winning_ad_render_url := aw_render ad, bdd_data_version := aw_data_version ad,
       bdd_k_anon_status :=
         (if cf_enable_enforce_kanon cf \<and> aw_k_anon_status ad then ''passedAndEnforced''
          else bdd_k_anon_status b)\<rparr>"

definition pas_buyer_data :: "pas_ad_with_bid \<Rightarrow> buyer_dispatch_data \<Rightarrow> buyer_dispatch_data" where
  "pas_buyer_data ad b =
     b\<lparr>bdd_ad_cost := pas_ad_cost ad, bdd_winning_ad_render_url := pas_render ad,
       bdd_egress_payload := Some (pas_egress_payload ad),
       bdd_temporary_unlimited_egress_payload := Some (pas_temporary_unlimited_egress_payload ad)\<rparr>"

definition dispatch_seller_report ::
  "environment \<Rightarrow> reactor_config \<Rightarrow> ad_score \<Rightarrow> flow \<Rightarrow> flow" where
  "dispatch_seller_report E cf winner fl =
     (if is_component_auction (cf_auction_scope cf)
      then dispatch_report_result_request_for_component_auction E winner fl
      else dispatch_report_result_request E fl)"

definition reporting_config_of :: "reactor_config \<Rightarrow> string \<Rightarrow> reporting_config" where
  "reporting_config_of cf version =
     \<lparr>rdc_enable_report_win_url_generation = cf_enable_report_win_url_generation cf,
      rdc_enable_protected_app_signals = cf_enable_protected_app_signals cf,
      rdc_enable_report_win_input_noising = cf_enable_report_win_input_noising cf,
      rdc_enable_adtech_code_logging = cf_enable_adtech_code_logging cf,
      rdc_report_result_udf_version = version\<rparr>"

definition perform_reporting_with_seller_and_buyer_code_isolation ::
  "environment \<Rightarrow> reactor_config \<Rightarrow> ad_score \<Rightarrow> string \<Rightarrow> flow \<Rightarrow> flow" where
  "perform_reporting_with_seller_and_buyer_code_isolation E cf winner k fl =
     (let fl0 = fl\<lparr>fl_reporting_config := reporting_config_of cf (cf_code_version cf),
            fl_buyer := (fl_buyer fl)\<lparr>bdd_auction_config := build_auction_config (fl_request fl)\<rparr>\<rparr>
      in case find_scored_ad_type (ss_data (fl_scoring fl)) k of
           (Some ad, _) \<Rightarrow>
             if cf_auction_scope cf = AUCTION_SCOPE_SERVER_TOP_LEVEL_SELLER
             then dispatch_report_result_request_for_top_level_auction E k fl0
             else
               (let fl1 = initialize_buyer_reporting_dispatch_request_data winner fl0;
                    fl2 = fl1\<lparr>fl_buyer := pa_buyer_data cf ad (fl_buyer fl1)\<rparr>
                in dispatch_seller_report E cf winner
                     (set_reporting_ids_in_raw_response_and_dispatch_request_data ad fl2))
         | (None, Some ad) \<Rightarrow>
             if cf_auction_scope cf = AUCTION_SCOPE_SERVER_TOP_LEVEL_SELLER
             then dispatch_report_result_request_for_top_level_auction E k fl0
             else
               (let fl1 = initialize_buyer_reporting_dispatch_request_data winner fl0
                in dispatch_seller_report E cf winner
                     (fl1\<lparr>fl_buyer := pas_buyer_data ad (fl_buyer fl1)\<rparr>))
         | (None, None) \<Rightarrow> finish_with_status internal_server_error fl0)"

section \<open>Joint execution\<close>

definition dispatch_reporting_request ::
  "environment \<Rightarrow> reactor_config \<Rightarrow> reporting_dispatch_data \<Rightarrow> flow \<Rightarrow> progress" where
  "dispatch_reporting_request E cf d fl =
     (case is_cancelled E cf fl of
        (True, fl1) \<Rightarrow> Running (finish_with_status request_cancelled fl1)
      | (False, fl1) \<Rightarrow>
          (case get_reporting_dispatch_request (ev_libs E) (ev_bits E) (ev_temporary_egress E)
                  (reporting_config_of cf []) d (fl_random fl1) of
             None \<Rightarrow> Diverged
           | Some (q, n) \<Rightarrow>
               Running (batch_execute E (Reporting_callback q) (\<lambda>s. encrypt_and_finish_ok E)
                 (fl1\<lparr>fl_random := n\<rparr>))))"

definition dispatch_reporting_request_for_pa ::
  "environment \<Rightarrow> reactor_config \<Rightarrow> string \<Rightarrow> ad_score \<Rightarrow> buyer_reporting_metadata \<Rightarrow> flow \<Rightarrow> progress"
  where
  "dispatch_reporting_request_for_pa E cf k winner b fl =
     (let c = (if is_component_auction (cf_auction_scope cf)
               then no_component_metadata
                 \<lparr>crm_top_level_seller := rq_top_level_seller (fl_request fl),
                  crm_component_seller := rq_seller (fl_request fl)\<rparr>
               else if cf_auction_scope cf = AUCTION_SCOPE_SERVER_TOP_LEVEL_SELLER
               then (case ds_component_reporting (ss_data (fl_scoring fl)) k of
                       None \<Rightarrow> no_component_metadata
                     | Some crd \<Rightarrow>
                         no_component_metadata\<lparr>crm_component_seller := crd_component_seller crd\<rparr>)
               else no_component_metadata)
      in dispatch_reporting_request E cf
           \<lparr>rdd_handler_name = ''reportingEntryFunction'',
            rdd_auction_config = build_auction_config (fl_request fl),
            rdd_signals = ss_signals (fl_scoring fl),
            rdd_publisher_hostname = rq_publisher_hostname (fl_request fl), rdd_buyer = b,
            rdd_component = c\<lparr>crm_modified_bid := modified_bid_of winner,
              crm_modified_bid_currency := as_bid_currency winner\<rparr>,
            rdd_egress_payload = [], rdd_temporary_egress_payload = []\<rparr> fl)"

definition dispatch_reporting_request_for_pas ::
  "environment \<Rightarrow> reactor_config \<Rightarrow> buyer_reporting_metadata \<Rightarrow> string \<Rightarrow> string \<Rightarrow> flow \<Rightarrow> progress"
  where
  "dispatch_reporting_request_for_pas E cf b egress temporary_egress fl =
     dispatch_reporting_request E cf
       \<lparr>rdd_handler_name = ''reportingEntryFunctionProtectedAppSignals'',
        rdd_auction_config = build_auction_config (fl_request fl),
        rdd_signals = ss_signals (fl_scoring fl),
        rdd_publisher_hostname = rq_publisher_hostname (fl_request fl), rdd_buyer = b,
        rdd_component = no_component_metadata, rdd_egress_payload = egress,
        rdd_temporary_egress_payload = temporary_egress\<rparr> fl"

text \<open>A missing entry of \<open>per_buyer_signals\<close> fails the check in \<open>Map::at\<close>, which aborts.\<close>

definition perform_reporting ::
  "environment \<Rightarrow> reactor_config \<Rightarrow> ad_score \<Rightarrow> string \<Rightarrow> flow \<Rightarrow> progress" where
  "perform_reporting E cf winner k fl =
     (let rq = fl_request fl; report_win = cf_enable_report_win_url_generation cf;
          signals = rq_per_buyer_signals rq (as_interest_group_owner winner);
          common = no_buyer_metadata
            \<lparr>brm_buyer_signals := the signals, brm_seller := rq_seller rq,
             brm_interest_group_name := as_interest_group_name winner\<rparr>
      in case find_scored_ad_type (ss_data (fl_scoring fl)) k of
           (Some ad, _) \<Rightarrow>
             if \<not> report_win
             then dispatch_reporting_request_for_pa E cf k winner no_buyer_metadata fl
             else if signals = None then Aborted
             else
               (let id = (case aw_buyer_reporting_id ad of None \<Rightarrow> [] | Some s \<Rightarrow> s);
                    b = common
                      \<lparr>brm_join_count := Some (aw_join_count ad), brm_recency := Some (aw_recency ad),
                       brm_modeling_signals := Some (aw_modeling_signals ad),
                       brm_ad_cost := aw_ad_cost ad, brm_data_version := aw_data_version ad,
                       brm_buyer_reporting_id := id\<rparr>;
                    fl1 = (if id = [] then fl
                           else update_response
                             (mutate_ad_score (\<lambda>sc. sc\<lparr>as_buyer_reporting_id := Some id\<rparr>)) fl)
                in dispatch_reporting_request_for_pa E cf k
                     (if id = [] then winner else winner\<lparr>as_buyer_reporting_id := Some id\<rparr>) b fl1)
         | (None, Some ad) \<Rightarrow>
             if report_win \<and> signals = None then Aborted
             else dispatch_reporting_request_for_pas E cf
                    (if report_win then common\<lparr>brm_ad_cost := pas_ad_cost ad\<rparr> else no_buyer_metadata)
                    (pas_egress_payload ad) (pas_temporary_unlimited_egress_payload ad) fl
         | (None, None) \<Rightarrow> Running (finish_with_status internal_server_error fl))"

section \<open>After scoreAd()\<close>

definition update_scoring :: "(scoring_state \<Rightarrow> scoring_state) \<Rightarrow> flow \<Rightarrow> flow" where
  "update_scoring f fl = fl\<lparr>fl_scoring := f (fl_scoring fl)\<rparr>"

definition do_debug_reporting :: "environment \<Rightarrow> reactor_config \<Rightarrow> bool \<Rightarrow> flow \<Rightarrow> flow" where
  "do_debug_reporting E cf enabled fl =
     (if \<not> enabled then fl
      else (let (ss, pings) = perform_debug_reporting (ev_libs E) cf (fl_request fl) (ev_draw E)
                  (ev_attested E) (fl_scoring fl)
            in fl\<lparr>fl_scoring := ss, fl_pings := fl_pings fl @ pings\<rparr>))"

definition do_win_and_debug_reporting ::
  "environment \<Rightarrow> reactor_config \<Rightarrow> bool \<Rightarrow> string \<Rightarrow> string \<Rightarrow> flow \<Rightarrow> progress" where
  "do_win_and_debug_reporting E cf debug winner_id k fl =
     (let fl1 = (if cf_enable_private_aggregate_reporting cf
                 then update_scoring (perform_private_aggregation_reporting (ev_unspecified E)
                        (fl_request fl) k) fl
                 else fl);
          fl2 = do_debug_reporting E cf debug fl1;
          fl3 = (if cf_auction_scope cf = AUCTION_SCOPE_SERVER_TOP_LEVEL_SELLER
                 then update_scoring (populate_component_reporting_urls winner_id) fl2 else fl2);
          winner = response_ad_score (ss_response (fl_scoring fl3))
      in if \<not> cf_enable_report_result_url_generation cf
         then Running (encrypt_and_finish_ok E fl3)
         else if cf_enable_seller_and_buyer_code_isolation cf
         then Running (perform_reporting_with_seller_and_buyer_code_isolation E cf winner winner_id fl3)
         else perform_reporting E cf winner winner_id fl3)"

text \<open>
  \<open>ScoreAdsCallback\<close>. The winner's index is an index into the parsed and sorted ads, yet the id is
  read from the raw response at that index: when that response is an error, \<open>StatusOr\<close> aborts.
\<close>

definition score_ads_callback ::
  "environment \<Rightarrow> reactor_config \<Rightarrow> bool \<Rightarrow> dispatch_response status_or list \<Rightarrow> flow \<Rightarrow> progress" where
  "score_ads_callback E cf debug responses fl =
     (let (parsed, st, docs) =
            collect_valid_roma_responses (ev_libs E) cf responses (ss_data (fl_scoring fl));
          (data, ads, ad_scores) = find_winning_ad (ev_sort_ads E) (ev_sample E) cf (fl_request fl)
            parsed (ss_ad_scores (fl_scoring fl));
          fl1 = update_scoring
            (\<lambda>ss. add_ghost_winners_to_response cf (sc_ghost_winner_indices data) ads
               (ss\<lparr>ss_data := st, ss_paapi_docs := docs, ss_ad_scores := ad_scores\<rparr>)) fl
      in case sc_winner_index data of
           None \<Rightarrow> Running (encrypt_and_finish_ok E (do_debug_reporting E cf debug fl1))
         | Some i \<Rightarrow>
             (case responses ! i of
                Inl e \<Rightarrow> Aborted
              | Inr r \<Rightarrow>
                  do_win_and_debug_reporting E cf debug (sd_id (ads ! i)) (dp_id r)
                    (update_scoring (add_winner_to_response (ev_sort_scores E) cf (fl_request fl) i
                       data ads) (fl1\<lparr>fl_winning_ad_dispatch_id := dp_id r\<rparr>))))"

section \<open>After the reporting scripts\<close>

definition report_seller_urls ::
  "reactor_config \<Rightarrow> string \<Rightarrow> (string \<times> string) list \<Rightarrow> win_reporting_urls \<Rightarrow> win_reporting_urls" where
  "report_seller_urls cf url urls =
     (if cf_auction_scope cf = AUCTION_SCOPE_DEVICE_COMPONENT_MULTI_SELLER
      then set_component_seller_urls url urls else set_top_level_seller_urls url urls)"

definition reporting_callback ::
  "environment \<Rightarrow> reactor_config \<Rightarrow> dispatch_response status_or list \<Rightarrow> flow \<Rightarrow> flow" where
  "reporting_callback E cf responses fl =
     encrypt_and_finish_ok E
       (fold (\<lambda>response fl.
          case response of
            Inl e \<Rightarrow> fl
          | Inr p \<Rightarrow>
              (case parse_and_get_reporting_response (ev_libs E) (ev_unspecified E)
                      (cf_enable_adtech_code_logging cf) (dp_resp p) of
                 Inl e \<Rightarrow> fl
               | Inr r \<Rightarrow>
                   (let res = rr_report_result r; win = rr_report_win r
                    in update_response
                         (mutate_win_urls
                            (\<lambda>w. (if cf_enable_report_win_url_generation cf
                                  then set_buyer_urls (rwr_url win) (rwr_interaction win)
                                  else (\<lambda>w. w))
                               (report_seller_urls cf (rrr_url res) (rrr_interaction res) w))) fl)))
          responses fl)"

definition report_win_callback ::
  "environment \<Rightarrow> dispatch_response status_or list \<Rightarrow> flow \<Rightarrow> flow" where
  "report_win_callback E responses fl =
     encrypt_and_finish_ok E
       (fold (\<lambda>response fl.
          case response of
            Inl e \<Rightarrow> fl
          | Inr p \<Rightarrow>
              (case parse_report_win_response (ev_libs E) (ev_unspecified E) (dp_resp p)
                      (get_base_values (ev_unspecified E) (ss_signals (fl_scoring fl))) of
                 Inl e \<Rightarrow> fl
               | Inr r \<Rightarrow>
                   update_response
                     (set_contributions_for_buyer (ss_data (fl_scoring fl)) (fl_winning_ad_dispatch_id fl)
                        (rwr_pagg r)
                      \<circ> mutate_win_urls (set_buyer_urls (rwr_url r) (rwr_interaction r))) fl))
          responses fl)"

text \<open>reportWin() runs only for buyers whose code is configured; the kind is told by the egress payload.\<close>

definition report_win_enabled :: "reactor_config \<Rightarrow> buyer_dispatch_data \<Rightarrow> bool" where
  "report_win_enabled cf b \<longleftrightarrow>
     (if bdd_egress_payload b = None then bdd_buyer_origin b \<in> cf_buyers_with_report_win_enabled cf
      else bdd_buyer_origin b \<in> cf_pas_buyers_with_report_win_enabled cf)"

definition execute_report_win :: "environment \<Rightarrow> reactor_config \<Rightarrow> flow \<Rightarrow> progress" where
  "execute_report_win E cf fl =
     (if \<not> cf_enable_report_win_url_generation cf \<or> \<not> report_win_enabled cf (fl_buyer fl)
      then Running (encrypt_and_finish_ok E fl)
      else
        (case (if bdd_egress_payload (fl_buyer fl) = None then perform_pa_report_win
               else perform_pas_report_win)
                (ev_libs E) (ev_curl E) (ev_bits E) (fl_reporting_config fl) (fl_buyer fl)
                (fl_seller_signals fl) (fl_random fl) of
           None \<Rightarrow> Diverged
         | Some (r, ms, n) \<Rightarrow>
             Running (dispatch_or_finish E Report_win_callback r
               (fl\<lparr>fl_seller_signals := ms, fl_random := n\<rparr>))))"

definition take_report_result ::
  "environment \<Rightarrow> reactor_config \<Rightarrow> report_result_response \<Rightarrow> flow \<Rightarrow> flow" where
  "take_report_result E cf r fl =
     (let fl1 = fl\<lparr>fl_buyer := (fl_buyer fl)\<lparr>bdd_signals_for_winner := rrr_signals_for_winner r\<rparr>\<rparr>
      in if is_component_auction (cf_auction_scope cf)
         then update_response (set_seller_reporting_urls_in_response_for_component_auction r) fl1
         else update_response (set_seller_reporting_urls_in_response r
                \<circ> set_contributions_for_seller (fl_request fl) (rrr_pagg r)) fl1)"

text \<open>The loop over the responses returns in its first round.\<close>

definition cancellable_report_result_callback ::
  "environment \<Rightarrow> reactor_config \<Rightarrow> dispatch_response status_or list \<Rightarrow> flow \<Rightarrow> progress" where
  "cancellable_report_result_callback E cf responses fl =
     (case responses of
        [] \<Rightarrow> Running (encrypt_and_finish_ok E fl)
      | response # _ \<Rightarrow>
          execute_report_win E cf
            (case response of
               Inl e \<Rightarrow> fl
             | Inr p \<Rightarrow>
                 (case parse_report_result_response (ev_libs E) (ev_unspecified E) (dp_resp p)
                         (get_base_values (ev_unspecified E) (ss_signals (fl_scoring fl))) of
                    Inl e \<Rightarrow> fl
                  | Inr r \<Rightarrow> take_report_result E cf r fl)))"

section \<open>The callbacks as registered\<close>

definition unless_cancelled ::
  "environment \<Rightarrow> reactor_config \<Rightarrow> (flow \<Rightarrow> progress) \<Rightarrow> flow \<Rightarrow> progress" where
  "unless_cancelled E cf f fl =
     (case is_cancelled E cf fl of
        (True, fl') \<Rightarrow> Running (finish_with_status request_cancelled fl')
      | (False, fl') \<Rightarrow> f fl')"

definition run_callback ::
  "environment \<Rightarrow> reactor_config \<Rightarrow> awaited \<Rightarrow> dispatch_response status_or list \<Rightarrow> flow \<Rightarrow> progress" where
  "run_callback E cf a responses fl =
     (let fl0 = fl\<lparr>fl_awaits := None\<rparr>
      in case a of
           Score_ads_callback debug qs \<Rightarrow>
             unless_cancelled E cf (score_ads_callback E cf debug responses) fl0
         | Reporting_callback q \<Rightarrow>
             unless_cancelled E cf (\<lambda>fl. Running (reporting_callback E cf responses fl)) fl0
         | Report_result_callback q \<Rightarrow>
             unless_cancelled E cf (cancellable_report_result_callback E cf responses) fl0
         | Report_win_callback q \<Rightarrow> Running (report_win_callback E responses fl0))"

section \<open>Execute\<close>

definition debug_reporting_enabled :: "reactor_config \<Rightarrow> score_ads_raw_request \<Rightarrow> bool" where
  "debug_reporting_enabled cf rq \<longleftrightarrow>
     cf_enable_seller_debug_url_generation cf \<and> rq_enable_debug_reporting rq
     \<and> \<not> (fdo_enable_sampled_debug_reporting (rq_fdo_flags rq)
          \<and> fdo_in_cooldown_or_lockout (rq_fdo_flags rq))"

definition discard_disabled_bids :: "reactor_config \<Rightarrow> score_ads_raw_request \<Rightarrow> score_ads_raw_request" where
  "discard_disabled_bids cf rq =
     (if rq_pas_ad_bids rq \<noteq> [] \<and> \<not> cf_enable_protected_app_signals cf
      then rq\<lparr>rq_pas_ad_bids := []\<rparr> else rq)"

definition scoring_requests ::
  "libs \<Rightarrow> reactor_config \<Rightarrow> score_ads_raw_request \<Rightarrow> dispatch_state status_or" where
  "scoring_requests L cf rq =
     (let config = build_auction_config rq; debug = debug_reporting_enabled cf rq
      in if cf_auction_scope cf = AUCTION_SCOPE_SERVER_TOP_LEVEL_SELLER then
           (if rq_component_auction_results rq = []
            then Inl (internal_error ''No component auction results in request.'')
            else
              (case populate_top_level_auction_dispatch_requests L cf rq debug config
                      empty_dispatch_state of
                 Inl e \<Rightarrow> Inl (invalid_argument (st_message e))
               | Inr st \<Rightarrow> Inr st))
         else
           (case build_trusted_scoring_signals L rq (cf_require_scoring_signals_for_scoring cf) of
              Inl e \<Rightarrow>
                if cf_require_scoring_signals_for_scoring cf then Inl e
                else Inr (may_populate_protected_app_signals_dispatch_requests L cf rq debug None config
                       (populate_protected_audience_dispatch_requests L cf rq debug None config
                          empty_dispatch_state))
            | Inr signals \<Rightarrow>
                Inr (may_populate_protected_app_signals_dispatch_requests L cf rq debug (Some signals)
                       config
                       (populate_protected_audience_dispatch_requests L cf rq debug (Some signals)
                          config empty_dispatch_state))))"

definition execute :: "environment \<Rightarrow> reactor_config \<Rightarrow> flow \<Rightarrow> flow" where
  "execute E cf fl =
     (case is_cancelled E cf fl of
        (True, fl1) \<Rightarrow> finish_with_status request_cancelled fl1
      | (False, fl1) \<Rightarrow>
          (let rq = discard_disabled_bids cf (fl_request fl1); fl2 = fl1\<lparr>fl_request := rq\<rparr>
           in case scoring_requests (ev_libs E) cf rq of
                Inl e \<Rightarrow> finish_with_status e fl2
              | Inr st \<Rightarrow>
                  if ds_requests st = []
                  then finish_with_status
                    (internal_error ''No ads could be converted to dispatch requests.'') fl2
                  else batch_execute E
                    (Score_ads_callback (debug_reporting_enabled cf rq) (ds_requests st))
                    (\<lambda>s. finish_with_status \<lparr>st_code = UNKNOWN, st_message = status_to_string s\<rparr>)
                    (update_scoring (\<lambda>ss. ss\<lparr>ss_data := st\<rparr>) fl2)))"

end
