(* ===== verification/Score_Ads_Runs.thy ===== *)
theory Score_Ads_Runs
  imports Score_Ads_Flow
begin

text \<open>
  The runs of a ScoreAds call: a step runs the callback the reactor waits for. Every reachable state
  waits for one callback or has finished once (\<open>reachable_waits_or_finished\<close>), the callbacks go down
  in rank, so that a call has three of them at most (\<open>drive_ends\<close>), and a reportWin() request under
  way carries a buyer's document (\<open>reachable_sound\<close>).
\<close>

section \<open>Every stage ends the call or starts the next script\<close>

definition rank :: "awaited \<Rightarrow> nat" where
  "rank a =
     (case a of
        Score_ads_callback debug qs \<Rightarrow> 3
      | Report_result_callback q \<Rightarrow> 2
      | Reporting_callback q \<Rightarrow> 1
      | Report_win_callback q \<Rightarrow> 1)"

lemma rank_simps [simp]:
  "rank (Score_ads_callback debug qs) = 3" "rank (Report_result_callback q) = 2"
  "rank (Reporting_callback q) = 1" "rank (Report_win_callback q) = 1"
  by (simp_all add: rank_def)

text \<open>
  After a stage that began with the finished statuses \<open>fs\<close>: either it waits, for a callback of a
  rank below \<open>m\<close>, or it has finished the call with one more status.
\<close>

definition settles :: "status list \<Rightarrow> nat \<Rightarrow> flow \<Rightarrow> bool" where
  "settles fs m fl \<longleftrightarrow>
     (case fl_awaits fl of
        None \<Rightarrow> (\<exists>s. fl_finished fl = fs @ [s])
      | Some a \<Rightarrow> fl_finished fl = fs \<and> rank a < m)"

definition progress_settles :: "status list \<Rightarrow> nat \<Rightarrow> progress \<Rightarrow> bool" where
  "progress_settles fs m p \<longleftrightarrow> (case p of Running fl \<Rightarrow> settles fs m fl | _ \<Rightarrow> True)"

lemma progress_settles_simps [simp]:
  "progress_settles fs m (Running fl) = settles fs m fl"
  "progress_settles fs m Aborted" "progress_settles fs m Diverged"
  by (simp_all add: progress_settles_def)

definition encryption_works :: "environment \<Rightarrow> bool" where
  "encryption_works E \<longleftrightarrow> (\<forall>rs. \<exists>c. ev_encrypt E rs = Inr c)"

lemma update_frame [simp]:
  "fl_finished (update_response f fl) = fl_finished fl" "fl_awaits (update_response f fl) = fl_awaits fl"
  "fl_finished (update_scoring g fl) = fl_finished fl" "fl_awaits (update_scoring g fl) = fl_awaits fl"
  "fl_request (update_response f fl) = fl_request fl"
  "fl_reporting_config (update_response f fl) = fl_reporting_config fl"
  "fl_buyer (update_response f fl) = fl_buyer fl"
  "fl_random (update_response f fl) = fl_random fl"
  by (simp_all add: update_response_def update_scoring_def)

lemma debug_frame [simp]:
  "fl_finished (do_debug_reporting E cf d fl) = fl_finished fl"
  "fl_awaits (do_debug_reporting E cf d fl) = fl_awaits fl"
  by (simp_all add: do_debug_reporting_def Let_def split: prod.split)

lemma finish_settles: "fl_finished fl = fs \<Longrightarrow> settles fs m (finish_with_status s fl)"
  by (simp add: settles_def finish_with_status_def)

lemma encrypt_settles:
  assumes "encryption_works E" "fl_finished fl = fs"
  shows "settles fs m (encrypt_and_finish_ok E fl)"
proof -
  have "\<exists>c. ev_encrypt E rs = Inr c" for rs using assms(1) by (simp add: encryption_works_def)
  then obtain c where "ev_encrypt E (ss_response (fl_scoring (update_response
      (\<lambda>rs. rs\<lparr>rs_auction_export_debug := ev_export_event E\<rparr>) fl))) = Inr c"
    by blast
  then show ?thesis
    using assms(2) by (simp add: settles_def encrypt_and_finish_ok_def encrypt_response_def
        finish_with_status_def)
qed

lemma batch_settles:
  assumes "fl_finished fl = fs" "rank a < m"
    and "\<And>s fl'. fl_finished fl' = fs \<Longrightarrow> settles fs m (on_error s fl')"
  shows "settles fs m (batch_execute E a on_error fl)"
  using assms by (simp add: batch_execute_def Let_def) (simp add: settles_def)

lemma dispatch_settles:
  assumes "encryption_works E" "fl_finished fl = fs" "\<And>q. rank (callback q) < m"
  shows "settles fs m (dispatch_or_finish E callback r fl)"
  using assms by (auto simp: dispatch_or_finish_def intro: encrypt_settles batch_settles split: sum.split)

lemma report_result_settles:
  assumes "encryption_works E" "fl_finished fl = fs" "2 < m"
  shows "settles fs m (dispatch_seller_report E cf w fl)"
    and "settles fs m (dispatch_report_result_request_for_top_level_auction E k fl)"
  using assms
  by (auto simp: dispatch_seller_report_def dispatch_report_result_request_def
      dispatch_report_result_request_for_component_auction_def
      dispatch_report_result_request_for_top_level_auction_def report_result_with_def Let_def
      intro!: dispatch_settles split: prod.split option.split)

lemma buyer_data_frame [simp]:
  "fl_finished (initialize_buyer_reporting_dispatch_request_data w fl) = fl_finished fl"
  "fl_finished (set_reporting_ids_in_raw_response_and_dispatch_request_data ad fl) = fl_finished fl"
  by (simp_all add: initialize_buyer_reporting_dispatch_request_data_def
      set_reporting_ids_in_raw_response_and_dispatch_request_data_def Let_def)

lemma isolated_settles:
  assumes "encryption_works E" "fl_finished fl = fs" "2 < m"
  shows "settles fs m (perform_reporting_with_seller_and_buyer_code_isolation E cf w k fl)"
  using assms
  by (auto simp: perform_reporting_with_seller_and_buyer_code_isolation_def Let_def
      intro!: report_result_settles finish_settles split: prod.split option.split)

lemma is_cancelled_frame:
  "is_cancelled E cf fl = (b, fl') \<Longrightarrow> fl_finished fl' = fl_finished fl \<and> fl_awaits fl' = fl_awaits fl"
  by (auto simp: is_cancelled_def split: if_splits)

lemma joint_settles:
  assumes "encryption_works E" "fl_finished fl = fs" "1 < m"
  shows "progress_settles fs m (dispatch_reporting_request E cf d fl)"
  using assms is_cancelled_frame [of E cf fl]
  by (auto simp: dispatch_reporting_request_def intro!: finish_settles batch_settles encrypt_settles
      split: prod.split bool.split option.split)

lemma perform_reporting_settles:
  assumes "encryption_works E" "fl_finished fl = fs" "1 < m"
  shows "progress_settles fs m (perform_reporting E cf w k fl)"
  using assms
  by (auto simp: perform_reporting_def dispatch_reporting_request_for_pa_def
      dispatch_reporting_request_for_pas_def Let_def intro!: joint_settles finish_settles
      split: prod.split option.split)

lemma win_reporting_settles:
  assumes "encryption_works E" "fl_finished fl = fs" "2 < m"
  shows "progress_settles fs m (do_win_and_debug_reporting E cf debug w k fl)"
  using assms
  by (auto simp: do_win_and_debug_reporting_def Let_def
      intro!: encrypt_settles isolated_settles perform_reporting_settles)

lemma score_ads_settles:
  assumes "encryption_works E" "fl_finished fl = fs" "2 < m"
  shows "progress_settles fs m (score_ads_callback E cf debug responses fl)"
  using assms
  by (auto simp: score_ads_callback_def Let_def intro!: encrypt_settles win_reporting_settles
      split: prod.split option.split sum.split)

lemma fold_finished:
  "(\<And>x fl. fl_finished (f x fl) = fl_finished fl) \<Longrightarrow> fl_finished (fold f xs fl) = fl_finished fl"
  by (induction xs arbitrary: fl) simp_all

lemma reporting_settles:
  assumes "encryption_works E" "fl_finished fl = fs"
  shows "settles fs m (reporting_callback E cf responses fl)"
    and "settles fs m (report_win_callback E responses fl)"
  using assms
  by (auto simp: reporting_callback_def report_win_callback_def Let_def
      intro!: encrypt_settles trans [OF fold_finished] split: sum.split)

lemma report_win_settles:
  assumes "encryption_works E" "fl_finished fl = fs" "1 < m"
  shows "progress_settles fs m (execute_report_win E cf fl)"
  using assms
  by (auto simp: execute_report_win_def intro!: encrypt_settles dispatch_settles
      split: option.split prod.split)

lemma take_report_result_frame [simp]:
  "fl_finished (take_report_result E cf r fl) = fl_finished fl"
  "fl_seller_signals (take_report_result E cf r fl) = fl_seller_signals fl"
  by (simp_all add: take_report_result_def update_response_def Let_def)

lemma report_result_callback_settles:
  assumes "encryption_works E" "fl_finished fl = fs" "1 < m"
  shows "progress_settles fs m (cancellable_report_result_callback E cf responses fl)"
  using assms
  by (auto simp: cancellable_report_result_callback_def intro!: encrypt_settles report_win_settles
      split: list.split sum.split)

lemma unless_cancelled_settles:
  assumes "\<And>fl'. fl_finished fl' = fs \<Longrightarrow> progress_settles fs m (f fl')" and "fl_finished fl = fs"
  shows "progress_settles fs m (unless_cancelled E cf f fl)"
  using assms is_cancelled_frame [of E cf fl]
  by (auto simp: unless_cancelled_def intro!: finish_settles split: prod.split bool.split)

lemma run_callback_settles:
  assumes "encryption_works E" "fl_finished fl = fs"
  shows "progress_settles fs (rank a) (run_callback E cf a responses fl)"
  using assms
  by (cases a)
     (auto simp: run_callback_def Let_def intro!: unless_cancelled_settles score_ads_settles
       reporting_settles report_result_callback_settles)

lemma execute_settles:
  "fl_finished fl = fs \<Longrightarrow> settles fs 4 (execute E cf fl)"
  using is_cancelled_frame [of E cf fl]
  by (auto simp: execute_def Let_def intro!: finish_settles batch_settles
      split: prod.split bool.split sum.split)

section \<open>Runs\<close>

fun batch_size :: "awaited \<Rightarrow> nat" where
  "batch_size (Score_ads_callback debug qs) = length qs"
| "batch_size (Reporting_callback q) = 1"
| "batch_size (Report_result_callback q) = 1"
| "batch_size (Report_win_callback q) = 1"

text \<open>
  One step of a call: the callback that the reactor waits for is run, with one response for each
  request of the batch.
\<close>

inductive flow_step :: "environment \<Rightarrow> reactor_config \<Rightarrow> flow \<Rightarrow> flow \<Rightarrow> bool" for E cf where
  callback: "fl_awaits fl = Some a \<Longrightarrow> length responses = batch_size a \<Longrightarrow>
    run_callback E cf a responses fl = Running fl' \<Longrightarrow> flow_step E cf fl fl'"

inductive_cases flow_stepE [elim]: "flow_step E cf fl fl'"

definition reachable :: "environment \<Rightarrow> reactor_config \<Rightarrow> score_ads_raw_request \<Rightarrow> flow \<Rightarrow> bool" where
  "reachable E cf rq fl \<longleftrightarrow> (flow_step E cf)\<^sup>*\<^sup>* (execute E cf (initial_flow rq)) fl"

lemma reachable_induct [consumes 1, case_names execute step]:
  assumes "reachable E cf rq fl"
    and "P (execute E cf (initial_flow rq))"
    and "\<And>fl fl'. reachable E cf rq fl \<Longrightarrow> P fl \<Longrightarrow> flow_step E cf fl fl' \<Longrightarrow> P fl'"
  shows "P fl"
  using assms(1) unfolding reachable_def
  by (induction rule: rtranclp_induct) (use assms(2,3) in \<open>auto simp: reachable_def\<close>)

definition waits_or_finished :: "flow \<Rightarrow> bool" where
  "waits_or_finished fl \<longleftrightarrow>
     (if fl_awaits fl = None then length (fl_finished fl) = 1 else fl_finished fl = [])"

lemma settles_waits_or_finished: "settles [] m fl \<Longrightarrow> waits_or_finished fl"
  by (auto simp: settles_def waits_or_finished_def split: option.splits)

lemma reachable_waits_or_finished:
  assumes "encryption_works E"
  shows "reachable E cf rq fl \<Longrightarrow> waits_or_finished fl"
proof (induction rule: reachable_induct)
  case execute
  show ?case by (rule settles_waits_or_finished, rule execute_settles) (simp add: initial_flow_def)
next
  case (step fl fl')
  from step.hyps(2) obtain a responses where a: "fl_awaits fl = Some a"
    "run_callback E cf a responses fl = Running fl'" by blast
  moreover have "fl_finished fl = []" using step.IH a by (simp add: waits_or_finished_def)
  ultimately show ?case
    using run_callback_settles [OF assms, of fl "[]" a cf responses]
    by (auto intro: settles_waits_or_finished)
qed

text \<open>Running a call on a list of batches of responses, one per callback, for as long as it waits.\<close>

fun drive :: "environment \<Rightarrow> reactor_config \<Rightarrow> dispatch_response status_or list list \<Rightarrow> flow \<Rightarrow> progress" where
  "drive E cf [] fl = Running fl"
| "drive E cf (rs # rss) fl =
     (case fl_awaits fl of
        None \<Rightarrow> Running fl
      | Some a \<Rightarrow>
          (case run_callback E cf a rs fl of
             Running fl' \<Rightarrow> drive E cf rss fl'
           | Aborted \<Rightarrow> Aborted
           | Diverged \<Rightarrow> Diverged))"

lemma drive_ends:
  assumes "encryption_works E"
  shows "settles [] (Suc m) fl \<Longrightarrow> m \<le> length rss \<Longrightarrow>
    (case drive E cf rss fl of
       Running fl' \<Rightarrow> fl_awaits fl' = None \<and> length (fl_finished fl') = 1
     | _ \<Rightarrow> True)"
proof (induction rss arbitrary: m fl)
  case Nil
  then show ?case by (auto simp: settles_def split: option.splits) (simp add: rank_def split: awaited.splits)
next
  case (Cons rs rss)
  show ?case
  proof (cases "fl_awaits fl")
    case None
    then show ?thesis using Cons.prems by (auto simp: settles_def)
  next
    case (Some a)
    then have fs: "fl_finished fl = []" and r: "rank a \<le> m" using Cons.prems by (auto simp: settles_def)
    show ?thesis
    proof (cases "run_callback E cf a rs fl")
      case (Running fl')
      have "settles [] (rank a) fl'"
        using run_callback_settles [OF assms fs, of a cf rs] Running by simp
      moreover have "rank a = Suc (rank a - 1)" by (simp add: rank_def split: awaited.split)
      ultimately have "settles [] (Suc (rank a - 1)) fl'" by metis
      from Cons.IH [OF this] show ?thesis using Some Running r Cons.prems(2) by simp
    qed (simp_all add: Some)
  qed
qed

section \<open>What reportWin() is sent\<close>

text \<open>
  A reportWin() request that is under way: it was allowed, runs the code of the winning buyer's
  domain, passes on what reportResult() returned, and its signals are a buyer's document.
\<close>

definition report_win_sound :: "environment \<Rightarrow> reactor_config \<Rightarrow> flow \<Rightarrow> udf_request \<Rightarrow> bool" where
  "report_win_sound E cf fl q \<longleftrightarrow>
     cf_enable_report_win_url_generation cf \<and> report_win_enabled cf (fl_buyer fl)
     \<and> (case get_domain_from_url (ev_curl E) (bdd_buyer_origin (fl_buyer fl)) of
          Inl e \<Rightarrow> False
        | Inr host \<Rightarrow>
            uq_version_string q
              = (if bdd_egress_payload (fl_buyer fl) = None then ''pa_'' else ''pas_'') @ host)
     \<and> uq_input q ! 2 = bdd_signals_for_winner (fl_buyer fl)
     \<and> serialize_signals (ev_libs E) (fl_seller_signals fl) = Inr (uq_input q ! 3)
     \<and> buyer_document (fl_buyer fl) (fl_seller_signals fl)"

definition sound :: "environment \<Rightarrow> reactor_config \<Rightarrow> flow \<Rightarrow> bool" where
  "sound E cf fl \<longleftrightarrow>
     (case fl_awaits fl of
        Some (Report_result_callback q) \<Rightarrow> seller_document (fl_seller_signals fl)
      | Some (Report_win_callback q) \<Rightarrow> report_win_sound E cf fl q
      | _ \<Rightarrow> True)"

definition progress_sound :: "environment \<Rightarrow> reactor_config \<Rightarrow> progress \<Rightarrow> bool" where
  "progress_sound E cf p \<longleftrightarrow> (case p of Running fl \<Rightarrow> sound E cf fl | _ \<Rightarrow> True)"

lemma progress_sound_simps [simp]:
  "progress_sound E cf (Running fl) = sound E cf fl"
  "progress_sound E cf Aborted" "progress_sound E cf Diverged"
  by (simp_all add: progress_sound_def)

lemma ended_sound [simp]:
  "sound E cf (finish_with_status s fl)" "sound E cf (encrypt_and_finish_ok E' fl)"
  by (simp_all add: sound_def finish_with_status_def encrypt_and_finish_ok_def)

lemma batch_sound:
  assumes "\<And>s fl'. sound E cf (on_error s fl')"
    and "\<And>n. sound E cf (fl\<lparr>fl_batches := n, fl_awaits := Some a\<rparr>)"
  shows "sound E cf (batch_execute E a on_error fl)"
  using assms by (simp add: batch_execute_def Let_def)

lemma report_result_with_sound:
  "seller_document (fst r) \<Longrightarrow> sound E cf (report_result_with E d r fl)"
  by (auto simp: report_result_with_def dispatch_or_finish_def Let_def intro!: batch_sound
      split: sum.split) (simp add: sound_def)

lemma report_result_sound:
  "sound E cf (dispatch_seller_report E cf' w fl)"
  "sound E cf (dispatch_report_result_request_for_top_level_auction E k fl)"
  by (auto simp: dispatch_seller_report_def dispatch_report_result_request_def
      dispatch_report_result_request_for_component_auction_def
      dispatch_report_result_request_for_top_level_auction_def Let_def
      intro!: report_result_with_sound seller_signals_document component_signals_document
        top_level_signals_document split: prod.split option.split)

lemma joint_sound: "progress_sound E cf (dispatch_reporting_request E cf' d fl)"
  by (auto simp: dispatch_reporting_request_def intro!: batch_sound
      split: prod.split bool.split option.split) (simp add: sound_def)

lemma isolated_sound:
  "sound E cf (perform_reporting_with_seller_and_buyer_code_isolation E cf' w k fl)"
  by (auto simp: perform_reporting_with_seller_and_buyer_code_isolation_def Let_def
      intro!: report_result_sound split: prod.split option.split)

lemma perform_reporting_sound: "progress_sound E cf (perform_reporting E cf' w k fl)"
  by (auto simp: perform_reporting_def dispatch_reporting_request_for_pa_def
      dispatch_reporting_request_for_pas_def Let_def intro!: joint_sound split: prod.split option.split)

lemma win_reporting_sound: "progress_sound E cf (do_win_and_debug_reporting E cf' debug w k fl)"
  by (auto simp: do_win_and_debug_reporting_def Let_def
      intro!: isolated_sound perform_reporting_sound)

lemma score_ads_sound: "progress_sound E cf (score_ads_callback E cf' debug responses fl)"
  by (auto simp: score_ads_callback_def Let_def intro!: win_reporting_sound
      split: prod.split option.split sum.split)

lemma execute_report_win_sound:
  assumes "seller_document (fl_seller_signals fl)"
  shows "progress_sound E cf (execute_report_win E cf fl)"
proof (cases "cf_enable_report_win_url_generation cf \<and> report_win_enabled cf (fl_buyer fl)")
  case False
  then show ?thesis by (auto simp: execute_report_win_def)
next
  case True
  let ?perform = "(if bdd_egress_payload (fl_buyer fl) = None then perform_pa_report_win
      else perform_pas_report_win) (ev_libs E) (ev_curl E) (ev_bits E) (fl_reporting_config fl)
      (fl_buyer fl) (fl_seller_signals fl) (fl_random fl)"
  show ?thesis
  proof (cases ?perform)
    case None
    then show ?thesis using True by (simp add: execute_report_win_def)
  next
    case (Some res)
    obtain r ms n where res: "res = (r, ms, n)" by (cases res)
    let ?fl = "fl\<lparr>fl_seller_signals := ms, fl_random := n\<rparr>"
    have run: "execute_report_win E cf fl = Running (dispatch_or_finish E Report_win_callback r ?fl)"
      using True Some res by (auto simp: execute_report_win_def)
    show ?thesis
    proof (cases r)
      case (Inl e)
      then show ?thesis by (simp add: run dispatch_or_finish_def)
    next
      case (Inr q)
      obtain signals host where q: "generate_buyer_device_signals (ev_libs E) (ev_bits E) (fl_buyer fl)
            (fl_seller_signals fl) (fl_random fl) = Some (Inr signals, ms, n)"
        "get_domain_from_url (ev_curl E) (bdd_buyer_origin (fl_buyer fl)) = Inr host"
        "uq_version_string q = (if bdd_egress_payload (fl_buyer fl) = None then ''pa_'' else ''pas_'') @ host"
        "uq_input q ! 2 = bdd_signals_for_winner (fl_buyer fl)" "uq_input q ! 3 = signals"
      proof (cases "bdd_egress_payload (fl_buyer fl) = None")
        case True
        then have "perform_pa_report_win (ev_libs E) (ev_curl E) (ev_bits E) (fl_reporting_config fl)
            (fl_buyer fl) (fl_seller_signals fl) (fl_random fl) = Some (Inr q, ms, n)"
          using Some res Inr by simp
        then obtain signals host where "generate_buyer_device_signals (ev_libs E) (ev_bits E)
            (fl_buyer fl) (fl_seller_signals fl) (fl_random fl) = Some (Inr signals, ms, n)"
          "get_domain_from_url (ev_curl E) (bdd_buyer_origin (fl_buyer fl)) = Inr host"
          "uq_version_string q = ''pa_'' @ host"
          "uq_input q = get_report_win_input signals (fl_reporting_config fl) (fl_buyer fl)"
          by (rule perform_pa_report_win_request)
        then show thesis using True by (intro that) (simp_all add: get_report_win_input_def)
      next
        case False
        then have "perform_pas_report_win (ev_libs E) (ev_curl E) (ev_bits E) (fl_reporting_config fl)
            (fl_buyer fl) (fl_seller_signals fl) (fl_random fl) = Some (Inr q, ms, n)"
          using Some res Inr by (simp only: if_False)
        then obtain signals host where "generate_buyer_device_signals (ev_libs E) (ev_bits E)
            (fl_buyer fl) (fl_seller_signals fl) (fl_random fl) = Some (Inr signals, ms, n)"
          "get_domain_from_url (ev_curl E) (bdd_buyer_origin (fl_buyer fl)) = Inr host"
          "uq_version_string q = ''pas_'' @ host"
          "uq_input q = get_pas_report_win_input signals (fl_reporting_config fl) (fl_buyer fl)"
          by (rule perform_pas_report_win_request)
        then show thesis using False by (intro that) (simp_all add: get_pas_report_win_input_def)
      qed
      note doc = generate_buyer_document [OF assms q(1)]
      have "sound E cf (?fl\<lparr>fl_batches := m, fl_awaits := Some (Report_win_callback q)\<rparr>)" for m
        using True q doc by (simp add: sound_def report_win_sound_def)
      then show ?thesis by (simp add: run Inr dispatch_or_finish_def batch_sound)
    qed
  qed
qed

lemma run_callback_sound:
  assumes "sound E cf fl" "fl_awaits fl = Some a"
  shows "progress_sound E cf (run_callback E cf a responses fl)"
proof (cases a)
  case (Report_result_callback q)
  then have doc: "seller_document (fl_seller_signals fl)" using assms by (simp add: sound_def)
  have "fl_seller_signals fl' = fl_seller_signals fl"
    if "is_cancelled E cf (fl\<lparr>fl_awaits := None\<rparr>) = (b, fl')" for b fl'
    using that by (auto simp: is_cancelled_def split: if_splits)
  then show ?thesis
    using doc
    by (auto simp: Report_result_callback run_callback_def unless_cancelled_def
        cancellable_report_result_callback_def intro!: execute_report_win_sound
        split: prod.split bool.split list.split sum.split)
qed (auto simp: run_callback_def unless_cancelled_def score_ads_sound reporting_callback_def
    report_win_callback_def split: prod.split bool.split)

lemma execute_sound: "sound E cf (execute E cf fl)"
  by (auto simp: execute_def Let_def intro!: batch_sound split: prod.split bool.split sum.split)
     (simp add: sound_def)

lemma reachable_sound: "reachable E cf rq fl \<Longrightarrow> sound E cf fl"
proof (induction rule: reachable_induct)
  case execute
  show ?case by (rule execute_sound)
next
  case (step fl fl')
  from step.hyps(2) obtain a responses where "fl_awaits fl = Some a"
    "run_callback E cf a responses fl = Running fl'" by blast
  then show ?case using run_callback_sound [OF step.IH, of a responses] by simp
qed

end
