(* ===== verification/Score_Ads_Progress.thy ===== *)
theory Score_Ads_Progress
  imports Score_Ads_Runs
begin

text \<open>
  Why a call makes progress: with a random source that does not fail to be acceptable for ever no
  noise loop hangs, and when no script failed no handler aborts.
\<close>

section \<open>Random draws return\<close>

text \<open>Time and again a request for random bits fails or yields a word below \<open>2 ^ 63\<close>.\<close>

definition fair_bits :: "(nat \<Rightarrow> 64 word option) \<Rightarrow> bool" where
  "fair_bits bits \<longleftrightarrow>
     (\<forall>n. \<exists>k. case bits (n + k) of None \<Rightarrow> True | Some w \<Rightarrow> unat w < 2 ^ 63)"

lemma max_acceptable_large:
  assumes "0 < rng" "unat rng \<le> 2 ^ 31"
  shows "2 ^ 63 \<le> unat (max_acceptable_value rng)"
proof -
  define q m where "q = (2 ^ 64 - 1) div unat rng * unat rng" and "m = (2 ^ 64 - 1 :: nat) mod unat rng"
  have "q + m = 2 ^ 64 - 1" unfolding q_def m_def by (rule div_mult_mod_eq)
  moreover have "m < unat rng" using assms(1) by (simp add: m_def word_less_nat_alt)
  moreover have "unat (max_acceptable_value rng) + 1 = q"
    using max_acceptable_value_unat [OF assms(1)] by (simp add: q_def)
  ultimately show ?thesis using assms(2) by simp
qed

lemma rand_int_returns:
  assumes "fair_bits bits" "mx - mn < 2 ^ 31"
  shows "\<exists>r n'. rand_int bits mn mx n = Some (r, n')"
proof (cases "mn < mx")
  case True
  let ?rng = "word_of_int (mx - mn + 1) :: 64 word"
  have pos: "0 < ?rng" using range_word_pos [OF True assms(2)] .
  have "unat ?rng \<le> 2 ^ 31"
  proof -
    have "uint ?rng = mx - mn + 1"
      using True assms(2) by (simp add: unsigned_of_int take_bit_int_eq_self del: of_int_add of_int_diff)
    then have "uint ?rng \<le> 2 ^ 31" using assms(2) by linarith
    then show ?thesis unfolding unat_eq_nat_uint nat_le_iff by simp
  qed
  then have large: "2 ^ 63 \<le> unat (max_acceptable_value ?rng)" by (rule max_acceptable_large [OF pos])
  obtain k where "case bits (n + k) of None \<Rightarrow> True | Some w \<Rightarrow> unat w < 2 ^ 63"
    using assms(1) by (auto simp: fair_bits_def)
  then have "case bits (n + k) of None \<Rightarrow> True | Some w \<Rightarrow> w \<le> max_acceptable_value ?rng"
    using large by (auto simp: word_le_nat_alt split: option.splits)
  then obtain r where "rand_loop bits (max_acceptable_value ?rng) n = Some r"
    using rand_loop_returns by blast
  then obtain r' where "rand_generator bits ?rng n = Some r'"
    using rand_generator_total [OF pos] by blast
  then show ?thesis using True by (cases r') (auto simp: rand_int_def split: sum.split)
next
  case False
  then show ?thesis by (simp add: rand_int_def)
qed

lemma noise_returns:
  assumes "fair_bits bits" "mx - mn < 2 ^ 31"
  shows "\<exists>r n'. noise bits v mn mx n = Some (r, n')"
proof -
  obtain d n1 where d: "rand_int bits 0 100 n = Some (d, n1)"
    using rand_int_returns [OF assms(1), of 100 0 n] by auto
  obtain r n2 where r: "rand_int bits mn mx n1 = Some (r, n2)"
    using rand_int_returns [OF assms] by blast
  show ?thesis by (simp add: noise_def d r split: sum.split)
qed

lemma noised_inputs_return:
  assumes "fair_bits bits"
  shows "\<exists>r n'. noise_and_bucket_join_count bits j n = Some (r, n')"
    and "\<exists>r n'. noise_and_bucket_recency bits j n = Some (r, n')"
    and "\<exists>r n'. noise_and_mask_modeling_signals bits w n = Some (r, n')"
  using noise_returns [OF assms]
  by (simp_all add: noise_and_bucket_join_count_def noise_and_bucket_recency_def
      noise_and_mask_modeling_signals_def)

lemma noised_member_returns:
  assumes "\<And>i n. \<exists>r n'. f i n = Some (r, n')"
  shows "\<exists>r n'. noised_member k f v n = Some (r, n')"
    and "\<exists>r n'. noised_or_raw_member k noising f v n = Some (r, n')"
proof -
  have "\<exists>r n'. noised_member k f (Some i) n = Some (r, n')
      \<and> (\<exists>r n'. noised_or_raw_member k noising f (Some i) n = Some (r, n'))" for i
    using assms [of i n]
    by (auto simp: noised_member_def noised_or_raw_member_def split: sum.split)
  then show "\<exists>r n'. noised_member k f v n = Some (r, n')"
    "\<exists>r n'. noised_or_raw_member k noising f v n = Some (r, n')"
    by (cases v; auto simp: noised_member_def noised_or_raw_member_def)+
qed

lemma noised_members_return:
  assumes "fair_bits bits"
  shows "\<exists>ms n'. noised_members bits d n = Some (ms, n')"
    and "\<exists>ms n'. reporting_noised_members bits noising b n = Some (ms, n')"
proof -
  note returns = noised_inputs_return [OF assms]
  obtain ms1 n1 where 1: "noised_member ''joinCount'' (noise_and_bucket_join_count bits) (bdd_join_count d) n
      = Some (ms1, n1)" using noised_member_returns(1) returns(1) by blast
  obtain ms2 n2 where 2: "noised_member ''recency'' (noise_and_bucket_recency bits) (bdd_recency d) n1
      = Some (ms2, n2)" using noised_member_returns(1) returns(2) by blast
  obtain ms3 n3 where 3: "noised_member ''modelingSignals''
      (\<lambda>i. noise_and_mask_modeling_signals bits (word_of_int i)) (bdd_modeling_signals d) n2
      = Some (ms3, n3)" 
    using noised_member_returns(1) [where f = "\<lambda>i. noise_and_mask_modeling_signals bits (word_of_int i)",
      OF returns(3)] by blast
  show "\<exists>ms n'. noised_members bits d n = Some (ms, n')" by (simp add: noised_members_def 1 2 3)
  obtain ms1 n1 where 1: "noised_or_raw_member ''joinCount'' noising (noise_and_bucket_join_count bits)
      (brm_join_count b) n = Some (ms1, n1)" using noised_member_returns(2) returns(1) by blast
  obtain ms2 n2 where 2: "noised_or_raw_member ''recency'' noising (noise_and_bucket_recency bits)
      (brm_recency b) n1 = Some (ms2, n2)" using noised_member_returns(2) returns(2) by blast
  obtain ms3 n3 where 3: "noised_member ''modelingSignals''
      (\<lambda>i. noise_and_mask_modeling_signals bits (word_of_int i)) (brm_modeling_signals b) n2
      = Some (ms3, n3)" 
    using noised_member_returns(1) [where f = "\<lambda>i. noise_and_mask_modeling_signals bits (word_of_int i)",
      OF returns(3)] by blast
  show "\<exists>ms n'. reporting_noised_members bits noising b n = Some (ms, n')"
    by (simp add: reporting_noised_members_def 1 2 3)
qed

section \<open>Handlers return\<close>

lemma generate_buyer_returns:
  assumes "fair_bits bits"
  shows "\<exists>r ms' n'. generate_buyer_device_signals L bits d ms n = Some (r, ms', n')"
proof -
  obtain noised n1 where "noised_members bits d n = Some (noised, n1)"
    using noised_members_return(1) [OF assms] by blast
  then show ?thesis
    by (cases "round_to_k_bits bits (bdd_ad_cost d) n1")
       (simp add: generate_buyer_device_signals_def Let_def)
qed

lemma report_win_returns:
  assumes "fair_bits bits"
  shows "\<exists>r ms' n'. perform_pa_report_win L C bits cfg d ms n = Some (r, ms', n')"
    and "\<exists>r ms' n'. perform_pas_report_win L C bits cfg d ms n = Some (r, ms', n')"
proof -
  obtain r ms' n' where r: "generate_buyer_device_signals L bits d ms n = Some (r, ms', n')"
    using generate_buyer_returns [OF assms] by blast
  show "\<exists>r ms' n'. perform_pa_report_win L C bits cfg d ms n = Some (r, ms', n')"
    by (simp add: perform_pa_report_win_def r split: sum.split)
  show "\<exists>r ms' n'. perform_pas_report_win L C bits cfg d ms n = Some (r, ms', n')"
    by (simp add: perform_pas_report_win_def r split: sum.split)
qed

lemma reporting_request_returns:
  assumes "fair_bits bits"
  shows "\<exists>q n'. get_reporting_dispatch_request L bits t cfg d n = Some (q, n')"
proof -
  have meta: "\<exists>s n'. get_buyer_metadata_json L bits cfg d n = Some (s, n')" for n
  proof (cases "rdc_enable_report_win_url_generation cfg")
    case True
    obtain ms n1 where ms: "reporting_noised_members bits (rdc_enable_report_win_input_noising cfg)
        (rdd_buyer d) n = Some (ms, n1)"
      using noised_members_return(2) [OF assms] by blast
    show ?thesis
      by (cases "get_eight_bit_rounded_value_if bits (rdc_enable_report_win_input_noising cfg)
            (brm_ad_cost (rdd_buyer d)) n1")
         (simp add: get_buyer_metadata_json_def True ms Let_def)
  qed (simp add: get_buyer_metadata_json_def)
  obtain r n1 where r: "get_seller_reporting_signals L bits d cfg n = (r, n1)" by fastforce
  obtain s n2 where "get_buyer_metadata_json L bits cfg d n1 = Some (s, n2)" using meta by blast
  then have "\<exists>i n'. get_reporting_input L bits t cfg d n = Some (i, n')"
    by (simp add: get_reporting_input_def r split: sum.split)
  then show ?thesis by (auto simp: get_reporting_dispatch_request_def)
qed

definition returns :: "progress \<Rightarrow> bool" where
  "returns p \<longleftrightarrow> (case p of Running fl \<Rightarrow> True | _ \<Rightarrow> False)"

lemma returns_simps [simp]: "returns (Running fl)" "\<not> returns Aborted" "\<not> returns Diverged"
  by (simp_all add: returns_def)

lemma joint_returns:
  assumes "fair_bits (ev_bits E)"
  shows "returns (dispatch_reporting_request E cf d fl)"
proof -
  obtain b fl1 where c: "is_cancelled E cf fl = (b, fl1)" by fastforce
  obtain q n where "get_reporting_dispatch_request (ev_libs E) (ev_bits E) (ev_temporary_egress E)
      (reporting_config_of cf []) d (fl_random fl1) = Some (q, n)"
    using reporting_request_returns [OF assms] by blast
  then show ?thesis by (simp add: dispatch_reporting_request_def c split: bool.split)
qed

text \<open>The joint execution looks the buyer's signals up; the separate one tolerates their absence.\<close>

definition signals_present :: "reactor_config \<Rightarrow> score_ads_raw_request \<Rightarrow> bool" where
  "signals_present cf rq \<longleftrightarrow>
     cf_enable_seller_and_buyer_code_isolation cf \<or> (\<forall>owner. rq_per_buyer_signals rq owner \<noteq> None)"

lemma update_request [simp]:
  "fl_request (update_scoring g fl) = fl_request fl"
  "fl_request (do_debug_reporting E cf d fl) = fl_request fl"
  by (simp_all add: update_scoring_def do_debug_reporting_def Let_def split: prod.split)

lemma joint_report_returns:
  assumes "fair_bits (ev_bits E)"
  shows "returns (dispatch_reporting_request_for_pa E cf k w b fl)"
    and "returns (dispatch_reporting_request_for_pas E cf b x y fl)"
  by (simp_all add: dispatch_reporting_request_for_pa_def dispatch_reporting_request_for_pas_def
      Let_def joint_returns [OF assms])

lemma perform_reporting_returns:
  assumes "fair_bits (ev_bits E)" "\<forall>owner. rq_per_buyer_signals (fl_request fl) owner \<noteq> None"
  shows "returns (perform_reporting E cf w k fl)"
proof -
  obtain pa pas where t: "find_scored_ad_type (ss_data (fl_scoring fl)) k = (pa, pas)" by fastforce
  show ?thesis
    using spec [OF assms(2), of "as_interest_group_owner w"]
    by (cases pa; cases pas) (auto simp: perform_reporting_def t Let_def joint_report_returns [OF assms(1)])
qed

lemma win_reporting_returns:
  assumes "fair_bits (ev_bits E)" "signals_present cf (fl_request fl)"
  shows "returns (do_win_and_debug_reporting E cf debug w k fl)"
proof (cases "cf_enable_seller_and_buyer_code_isolation cf")
  case True
  then show ?thesis by (simp add: do_win_and_debug_reporting_def Let_def)
next
  case False
  then have "\<forall>owner. rq_per_buyer_signals (fl_request fl) owner \<noteq> None"
    using assms(2) by (simp add: signals_present_def)
  then show ?thesis
    using False by (simp add: do_win_and_debug_reporting_def Let_def perform_reporting_returns [OF assms(1)])
qed

lemma report_result_callback_returns:
  assumes "fair_bits (ev_bits E)"
  shows "returns (cancellable_report_result_callback E cf responses fl)"
proof -
  have "returns (execute_report_win E cf fl)" for fl
    using report_win_returns [OF assms, of "ev_libs E" "ev_curl E" "fl_reporting_config fl"
        "fl_buyer fl" "fl_seller_signals fl" "fl_random fl"]
    by (auto simp: execute_report_win_def)
  then show ?thesis by (simp add: cancellable_report_result_callback_def split: list.split)
qed

definition script_ok :: "dispatch_response status_or \<Rightarrow> bool" where
  "script_ok r \<longleftrightarrow> (case r of Inl e \<Rightarrow> False | Inr p \<Rightarrow> True)"

lemma collect_length:
  assumes "collect_valid_roma_responses L cf responses st = (ads, st', docs)"
  shows "length ads \<le> length responses"
proof -
  have "length (fst (fold (collect_response L cf) rs acc)) \<le> length (fst acc) + length rs" for rs acc
  proof (induction rs arbitrary: acc)
    case (Cons r rs)
    have "length (fst (collect_response L cf r acc)) \<le> length (fst acc) + 1"
      by (cases acc) (auto simp: collect_response_def split: sum.split option.split)
    then show ?case using Cons.IH [of "collect_response L cf r acc"] by simp
  qed simp
  from this [of responses "([], st, [])"] show ?thesis
    using assms by (simp add: collect_valid_roma_responses_def)
qed

lemma winner_index_bound:
  assumes "std_sort scored_ad_greater srt" "std_sample smp"
    and fw: "find_winning_ad srt smp cf rq parsed scores0 = (data, ads, scores)"
    and "sc_winner_index data = Some i"
  shows "i < length parsed"
proof -
  obtain sorted where s: "mset sorted = kept_ads cf rq parsed" "scored_ad_ordered sorted"
    "find_candidates sorted = (ads, sc_winner_cands data, sc_ghost_winner_cands data)"
    "sc_winner_index data = choose_winner smp (sc_winner_cands data)"
    using find_winning_ad_sorted [OF assms(1) fw] by metis
  have "i \<in> set (sc_winner_cands data)"
    using s(4) assms(4) choose_winner_in(1) [OF assms(2)] by simp
  then have "i < length sorted"
    using find_candidates_inv [OF s(2)] by (auto simp: s(3) cands_inv_def)
  also have "length sorted \<le> length parsed"
  proof -
    have "length sorted = size (kept_ads cf rq parsed)" using s(1) by (metis size_mset)
    also have "\<dots> \<le> size (image_mset (update_ad cf) (mset parsed))"
      unfolding kept_ads_def by (rule size_filter_mset_lesseq)
    finally show ?thesis by simp
  qed
  finally show ?thesis .
qed

lemma score_ads_returns:
  assumes "std_sort scored_ad_greater (ev_sort_ads E)" "std_sample (ev_sample E)"
    and "fair_bits (ev_bits E)" "signals_present cf (fl_request fl)"
    and ok: "list_all script_ok responses"
  shows "returns (score_ads_callback E cf debug responses fl)"
proof -
  obtain parsed st docs where c: "collect_valid_roma_responses (ev_libs E) cf responses
      (ss_data (fl_scoring fl)) = (parsed, st, docs)" by (metis prod_cases3)
  obtain data ads ad_scores where f: "find_winning_ad (ev_sort_ads E) (ev_sample E) cf (fl_request fl)
      parsed (ss_ad_scores (fl_scoring fl)) = (data, ads, ad_scores)" by (metis prod_cases3)
  show ?thesis
  proof (cases "sc_winner_index data")
    case None
    then show ?thesis by (simp add: score_ads_callback_def c f Let_def)
  next
    case (Some i)
    have "i < length responses"
      using winner_index_bound [OF assms(1,2) f Some] collect_length [OF c] by simp
    then have "script_ok (responses ! i)" using ok by (simp add: list_all_length)
    then obtain r where r: "responses ! i = Inr r" by (auto simp: script_ok_def split: sum.splits)
    show ?thesis
      by (simp add: score_ads_callback_def c f Let_def Some r)
         (rule win_reporting_returns [OF assms(3)], simp add: assms(4))
  qed
qed

lemma is_cancelled_request: "is_cancelled E cf fl = (b, fl') \<Longrightarrow> fl_request fl' = fl_request fl"
  by (auto simp: is_cancelled_def split: if_splits)

lemma signals_present_cong:
  "rq_per_buyer_signals rq' = rq_per_buyer_signals rq \<Longrightarrow> signals_present cf rq' = signals_present cf rq"
  by (simp add: signals_present_def)

lemma run_callback_returns:
  assumes "std_sort scored_ad_greater (ev_sort_ads E)" "std_sample (ev_sample E)"
    and "fair_bits (ev_bits E)" "rank a = 3 \<longrightarrow> signals_present cf (fl_request fl)" "list_all script_ok responses"
  shows "returns (run_callback E cf a responses fl)"
proof -
  obtain b fl1 where c: "is_cancelled E cf (fl\<lparr>fl_awaits := None\<rparr>) = (b, fl1)" by fastforce
  have rq: "fl_request fl1 = fl_request fl" using is_cancelled_request [OF c] by simp
  show ?thesis
    using assms(4) rq
    by (cases a; cases b)
       (auto simp: run_callback_def unless_cancelled_def c
         intro!: score_ads_returns [OF assms(1-3) _ assms(5)] report_result_callback_returns [OF assms(3)])
qed

text \<open>A call that only good responses reach runs to its end.\<close>

lemma drive_returns:
  assumes "std_sort scored_ad_greater (ev_sort_ads E)" "std_sample (ev_sample E)"
    and "fair_bits (ev_bits E)" "encryption_works E"
  shows "settles [] (Suc m) fl \<Longrightarrow>
    (\<forall>a. fl_awaits fl = Some a \<longrightarrow> rank a = 3 \<longrightarrow> signals_present cf (fl_request fl)) \<Longrightarrow>
    list_all (list_all script_ok) rss \<Longrightarrow> m \<le> 3 \<Longrightarrow> returns (drive E cf rss fl)"
proof (induction rss arbitrary: m fl)
  case (Cons rs rss)
  show ?case
  proof (cases "fl_awaits fl")
    case (Some a)
    then have fs: "fl_finished fl = []" and r: "rank a \<le> m" using Cons.prems by (auto simp: settles_def)
    have "returns (run_callback E cf a rs fl)"
      using Cons.prems Some by (intro run_callback_returns assms) auto
    then obtain fl' where fl': "run_callback E cf a rs fl = Running fl'"
      by (cases "run_callback E cf a rs fl") auto
    have st: "settles [] (rank a) fl'"
      using run_callback_settles [OF assms(4) fs, of a cf rs] fl' by simp
    have low: "rank b \<noteq> 3" if "fl_awaits fl' = Some b" for b
      using st that r Cons.prems(4) by (auto simp: settles_def)
    have pos: "rank a = Suc (rank a - 1)" by (simp add: rank_def split: awaited.split)
    have "returns (drive E cf rss fl')"
    proof (rule Cons.IH [of "rank a - 1"])
      show "settles [] (Suc (rank a - 1)) fl'" using st pos by metis
      show "list_all (list_all script_ok) rss" using Cons.prems(3) by simp
      show "rank a - 1 \<le> 3" using r Cons.prems(4) by simp
    qed (use low in auto)
    then show ?thesis using Some fl' by simp
  qed simp
qed simp

lemma execute_request:
  "rq_per_buyer_signals (fl_request (execute E cf fl)) = rq_per_buyer_signals (fl_request fl)"
proof -
  obtain b fl1 where c: "is_cancelled E cf fl = (b, fl1)" by fastforce
  show ?thesis
    using is_cancelled_request [OF c]
    by (auto simp: execute_def c finish_with_status_def batch_execute_def discard_disabled_bids_def Let_def
        split: bool.split sum.split)
qed

end
