(* ===== verification/Concrete_Inputs.thy ===== *)
theory Concrete_Inputs
  imports Score_Ads_Progress
begin

text \<open>
  Small concrete requests, configurations and scored ads, on which the properties of the root
  theory are instantiated, and the library functions they are run with: a JSON parser and writer
  that know a few documents, and a replacement function that leaves the URL alone.
\<close>

definition scoring_signals_doc :: json where
  "scoring_signals_doc =
     JObj [(''renderUrls'', JObj [(''u1'', JObj [(''r'', JInt 1)]), (''u2'', JInt 2)]),
           (''adComponentRenderUrls'', JObj [(''c1'', JInt 3)])]"

definition sample_parse :: "string \<Rightarrow> json option" where
  "sample_parse s =
     (if s = ''SIGNALS'' then Some scoring_signals_doc
      else if s = ''BAD'' then None else Some (JStr s))"

definition sample_libs :: libs where
  "sample_libs =
     \<lparr>json_parse = sample_parse, json_write = (\<lambda>v. Some (case v of JStr s \<Rightarrow> s | _ \<Rightarrow> ''doc'')),
      message_to_json_string = (\<lambda>v. Some ''ad''), str_replace_all = (\<lambda>s _. s)\<rparr>"

definition sample_config :: "auction_scope \<Rightarrow> reactor_config" where
  "sample_config scope =
     \<lparr>cf_enable_cancellation = False, cf_enable_seller_debug_url_generation = True,
      cf_enable_adtech_code_logging = False, cf_enable_report_result_url_generation = True,
      cf_enable_protected_app_signals = True, cf_enable_private_aggregate_reporting = True,
      cf_enable_report_win_input_noising = False, cf_max_allowed_size_debug_url_chars = 100,
      cf_max_allowed_size_all_debug_urls_chars = 1000,
      cf_debug_reporting_sampling_upper_bound = 10, cf_auction_scope = scope,
      cf_enable_report_win_url_generation = True,
      cf_enable_seller_and_buyer_code_isolation = False,
      cf_require_scoring_signals_for_scoring = True, cf_enable_enforce_kanon = True,
      cf_buyers_with_report_win_enabled = {''b1''},
      cf_pas_buyers_with_report_win_enabled = {}, cf_code_version = ''v1''\<rparr>"

definition sample_ad :: "string \<Rightarrow> f32 \<Rightarrow> ad_with_bid" where
  "sample_ad url bid =
     default_ad_with_bid\<lparr>aw_ad := Pb_string ''ad'', aw_bid := bid, aw_render := url,
       aw_interest_group_name := ''g'', aw_interest_group_owner := ''b1''\<rparr>"

definition sample_result :: "string \<Rightarrow> auction_result" where
  "sample_result gid =
     default_auction_result
       \<lparr>ar_ad_render_url := ''u1'', ar_interest_group_name := ''g'', ar_interest_group_owner := ''b1'',
        ar_bid := 2, ar_ad_type := AD_TYPE_PROTECTED_AUDIENCE_AD, ar_ciphertext_generation_id := gid,
        ar_component_seller := ''s1''\<rparr>"

definition sample_request :: score_ads_raw_request where
  "sample_request =
     \<lparr>rq_ad_bids = [sample_ad ''u1'' 1, sample_ad ''u3'' 2], rq_seller_signals = ''{}'',
      rq_auction_signals = ''{}'', rq_scoring_signals = ''SIGNALS'', rq_publisher_hostname = ''p'',
      rq_enable_debug_reporting = True, rq_per_buyer_signals = Map.empty, rq_pas_ad_bids = [],
      rq_seller = ''s'', rq_top_level_seller = [], rq_seller_currency = [],
      rq_component_auction_results = [], rq_num_allowed_ghost_winners = 1,
      rq_enforce_kanon = True, rq_seller_data_version = 0, rq_is_sampled_for_debug = False,
      rq_score_ad_version = [],
      rq_fdo_flags = \<lparr>fdo_enable_sampled_debug_reporting = False,
        fdo_in_cooldown_or_lockout = False\<rparr>\<rparr>"

definition sample_scored_ad :: "string \<Rightarrow> f32 \<Rightarrow> bool \<Rightarrow> scored_ad" where
  "sample_scored_ad k d k_anon =
     \<lparr>sd_ad_score = default_ad_score\<lparr>as_desirability := d, as_buyer_bid := 1\<rparr>,
      sd_response_json = JInt 1, sd_protected_audience = None, sd_protected_app_signals = None,
      sd_id = k, sd_k_anon_status = k_anon\<rparr>"

definition sample_unspecified :: unspecified where
  "sample_unspecified =
     \<lparr>un_uint64 = (\<lambda>_. 0), un_element = (\<lambda>_ _. JNull), un_members = (\<lambda>_. []),
      un_elements = (\<lambda>_. []), un_word_at = (\<lambda>_ _. 0), un_to_uint64 = (\<lambda>_. 0),
      un_to_int = (\<lambda>_. 0), un_int_sum = (\<lambda>_. 0), un_float = 0,
      un_string = (\<lambda>_. [])\<rparr>"

text \<open>
  A call from end to end: one ad, scored by a script that returns \<open>SCORE\<close>, reported by scripts that
  return \<open>RESULT\<close> and \<open>WIN\<close>, all run by a dispatcher, a random source and a cipher that work.
\<close>

definition flow_parse :: "string \<Rightarrow> json option" where
  "flow_parse s =
     (if s = ''SCORE'' then Some (JObj [(''response'', JObj [(''desirability'', JInt 5)])])
      else if s = ''RESULT'' then Some (JObj [(''response'', JObj [(''reportResultUrl'', JStr ''r'')])])
      else if s = ''WIN'' then Some (JObj [(''response'', JObj [(''reportWinUrl'', JStr ''w'')])])
      else None)"

definition flow_libs :: libs where
  "flow_libs = sample_libs\<lparr>json_parse := flow_parse\<rparr>"

definition sample_curl :: curl where
  "sample_curl =
     \<lparr>curl_init = True, curl_url_set = (\<lambda>_. 0), curl_get_host = Inr, curl_get_path = (\<lambda>_. Inr ''/'')\<rparr>"

definition sample_environment :: environment where
  "sample_environment =
     \<lparr>ev_libs = flow_libs, ev_curl = sample_curl, ev_unspecified = sample_unspecified,
      ev_bits = (\<lambda>_. Some 0), ev_sort_ads = stable_sort scored_ad_greater,
      ev_sort_scores = stable_sort int_score_before, ev_sample = first_sample,
      ev_draw = (\<lambda>_. None), ev_attested = None, ev_cancelled = (\<lambda>_. False),
      ev_batch_execute = (\<lambda>_. ok_status), ev_encrypt = (\<lambda>_. Inr ''cipher''), ev_export_event = False,
      ev_temporary_egress = False\<rparr>"

definition flow_config :: reactor_config where
  "flow_config =
     (sample_config AUCTION_SCOPE_SINGLE_SELLER)
       \<lparr>cf_enable_seller_debug_url_generation := False, cf_enable_private_aggregate_reporting := False,
        cf_enable_seller_and_buyer_code_isolation := True, cf_enable_enforce_kanon := False,
        cf_require_scoring_signals_for_scoring := False\<rparr>"

definition flow_request :: score_ads_raw_request where
  "flow_request =
     sample_request\<lparr>rq_ad_bids := [sample_ad ''u1'' 1], rq_scoring_signals := [],
       rq_per_buyer_signals := [''b1'' \<mapsto> ''sig'']\<rparr>"

definition answers :: "string list \<Rightarrow> dispatch_response status_or list list" where
  "answers ts = map (\<lambda>t. [Inr \<lparr>dp_id = ''u1'', dp_resp = t\<rparr>]) ts"

end
