(* ===== verification/Concrete_Run.thy ===== *)
theory Concrete_Run
  imports Concrete_Inputs
begin

text \<open>
  The call of \<open>Concrete_Inputs\<close> run step by step, until it waits for reportWin().
\<close>

definition run_tables :: "dispatch_request \<Rightarrow> dispatch_state" where
  "run_tables q = empty_dispatch_state\<lparr>ds_requests := [q], ds_ad_data := [''u1'' \<mapsto> sample_ad ''u1'' 1]\<rparr>"

lemma run_scoring_requests:
  obtains q where "scoring_requests flow_libs flow_config flow_request = Inr (run_tables q)"
proof -
  have "pa_dispatch_request flow_libs flow_config flow_request d None c (sample_ad ''u1'' 1) \<noteq> None
      \<and> (\<forall>q. pa_dispatch_request flow_libs flow_config flow_request d None c (sample_ad ''u1'' 1) = Some q
          \<longrightarrow> dq_id q = ''u1'')" for d c
    by (simp add: pa_dispatch_request_def signals_for_def build_score_ad_request_for_def
        ad_object_json_def sample_ad_def build_score_ad_request_def)
  then obtain q where q: "pa_dispatch_request flow_libs flow_config flow_request
      (debug_reporting_enabled flow_config flow_request) None (build_auction_config flow_request)
      (sample_ad ''u1'' 1) = Some q" "dq_id q = ''u1''" by blast
  have "build_trusted_scoring_signals flow_libs flow_request False
      = Inl (invalid_argument ''Empty trusted scoring signals'')"
    by (simp add: build_trusted_scoring_signals_def flow_request_def)
  moreover have "cf_require_scoring_signals_for_scoring flow_config = False"
    "cf_auction_scope flow_config = AUCTION_SCOPE_SINGLE_SELLER"
    by (simp_all add: flow_config_def sample_config_def)
  moreover have "rq_ad_bids flow_request = [sample_ad ''u1'' 1]" "rq_pas_ad_bids flow_request = []"
    by (simp_all add: flow_request_def sample_request_def)
  ultimately have "scoring_requests flow_libs flow_config flow_request = Inr (run_tables q)"
    using q
    by (simp add: scoring_requests_def populate_protected_audience_dispatch_requests_def
        may_populate_protected_app_signals_dispatch_requests_def populate_pa_ad_def put_ad_def
        try_emplace_def empty_dispatch_state_def push_request_def run_tables_def Let_def)
  then show thesis by (rule that)
qed

definition scored_flow :: "dispatch_request \<Rightarrow> flow" where
  "scored_flow q =
     (initial_flow flow_request)
       \<lparr>fl_scoring := initial_scoring_state\<lparr>ss_data := run_tables q\<rparr>,
        fl_awaits := Some (Score_ads_callback False [q]), fl_batches := 1\<rparr>"

lemma run_execute:
  obtains q where "execute sample_environment flow_config (initial_flow flow_request) = scored_flow q"
proof -
  obtain q where q: "scoring_requests flow_libs flow_config flow_request = Inr (run_tables q)"
    by (rule run_scoring_requests)
  have "is_cancelled sample_environment flow_config fl = (False, fl)" for fl
    by (simp add: is_cancelled_def flow_config_def sample_config_def)
  moreover have "discard_disabled_bids flow_config flow_request = flow_request"
    by (simp add: discard_disabled_bids_def flow_request_def sample_request_def)
  moreover have "debug_reporting_enabled flow_config flow_request = False"
    by (simp add: debug_reporting_enabled_def flow_config_def)
  moreover have "ev_libs sample_environment = flow_libs" "ev_batch_execute sample_environment 0 = ok_status"
    by (simp_all add: sample_environment_def)
  ultimately have "execute sample_environment flow_config (initial_flow flow_request) = scored_flow q"
    using q
    by (simp add: execute_def initial_flow_def run_tables_def batch_execute_def update_scoring_def
        scored_flow_def Let_def)
  then show thesis by (rule that)
qed

definition run_scored :: scored_ad where
  "run_scored =
     \<lparr>sd_ad_score = default_ad_score
        \<lparr>as_desirability := 5, as_interest_group_name := ''g'', as_interest_group_owner := ''b1'',
         as_ad_type := AD_TYPE_PROTECTED_AUDIENCE_AD, as_buyer_bid := 1\<rparr>,
      sd_response_json = JObj [(''desirability'', JInt 5)],
      sd_protected_audience = Some (sample_ad ''u1'' 1), sd_protected_app_signals = None,
      sd_id = ''u1'', sd_k_anon_status = True\<rparr>"

lemma run_f32: "to_f32 (to_f64 5) = 5"
proof -
  have e: "exponent_of 5 = 2" by (simp add: exponent_of_def log2_floor.simps)
  show ?thesis
    by (simp add: to_f32_def to_f64_def f32_ulp_def f64_ulp_def e pow2_def round_half_even_def)
qed

lemma run_collect:
  "collect_valid_roma_responses flow_libs flow_config [Inr \<lparr>dp_id = ''u1'', dp_resp = ''SCORE''\<rparr>]
     (run_tables q) = ([run_scored], run_tables q, [])"
  by (simp add: collect_valid_roma_responses_def collect_response_def score_response_def
      metadata_of_id_def find_scored_ad_type_def run_tables_def empty_dispatch_state_def
      parse_json_string_def flow_libs_def flow_parse_def parse_and_get_score_ad_response_json_def
      score_ad_response_json_to_proto_def float_if_number_def flow_config_def sample_config_def
      may_add_k_anon_join_candidate_def collect_paapi_contributions_def populate_ad_score_data_def
      scoring_data_from_pa_ad_def sample_ad_def parse_debug_report_urls_def run_scored_def
      default_ad_with_bid_def default_ad_score_def get_float_def run_f32 Let_def)

definition run_data :: scoring_data where
  "run_data =
     \<lparr>sc_winner_index = Some 0, sc_seller_rejected_bid_count = 0, sc_score_ad_map = [(5, [0])],
      sc_ad_rejection_reasons = [], sc_winner_cands = [0], sc_ghost_winner_cands = [],
      sc_ghost_winner_indices = []\<rparr>"

lemma run_winner:
  "find_winning_ad (stable_sort scored_ad_greater) first_sample flow_config flow_request [run_scored] []
     = (run_data, [run_scored], [(''u1'', sd_ad_score run_scored)])"
proof -
  have up: "update_ad flow_config run_scored = run_scored"
    by (simp add: update_ad_def check_and_update_modified_bid_def flow_config_def sample_config_def)
  have keep: "rejection flow_config flow_request run_scored = None" "\<not> disallowed flow_config run_scored"
    by (simp_all add: rejection_def disallowed_def get_ad_rejection_reason_def
        is_bid_currency_mismatched_def is_incoming_bid_illegally_modified_def flow_request_def
        sample_request_def flow_config_def sample_config_def run_scored_def default_ad_score_def
        parse_ad_rejection_reason_def to_seller_rejection_reason_def build_ad_rejection_reason_def
        get_string_member_def Let_def)
  have f: "filter_ads flow_config flow_request 0
      \<lparr>fr_ads = [run_scored], fr_end = Suc 0, fr_ad_scores = [], fr_reasons = [], fr_count = 0\<rparr>
    = \<lparr>fr_ads = [run_scored], fr_end = Suc 0, fr_ad_scores = [(''u1'', sd_ad_score run_scored)],
       fr_reasons = [], fr_count = 0\<rparr>"
    by (subst filter_ads.simps, subst filter_ads.simps)
       (simp add: up keep al_emplace_def Let_def, simp add: run_scored_def)
  have c: "find_candidates [run_scored] = ([run_scored], [0], [])"
    by (simp add: find_candidates_def cand_step_def desirability_at_def run_scored_def Let_def
        add_if_cands_empty_or_has_eq_last_desirability_def)
  have m: "build_score_ad_map [run_scored] [] = [(5, [0])]"
    by (simp add: build_score_ad_map_def desirability_at_def run_scored_def)
  show ?thesis
    by (simp add: find_winning_ad_def f c m stable_sort_def choose_winner_def
        first_sample_def choose_ghost_winners_def run_data_def Let_def)
qed

section \<open>Random draws of zero\<close>

lemma zero_rounding:
  "get_eight_bit_rounded_value (\<lambda>_. Some 0) 1 n = (Fin 1, Suc n)"
  "get_eight_bit_rounded_value (\<lambda>_. Some 0) 5 n = (Fin 5, Suc n)"
  "round_to_k_bits (\<lambda>_. Some 0) 0 n = (Inr (Fin 0), Suc n)"
proof -
  have "frexp_exp 1 = 1" "frexp_exp 5 = 3" "frexp_exp 0 = 0"
    by (simp_all add: frexp_exp_def exponent_of_def log2_floor.simps)
  then show "get_eight_bit_rounded_value (\<lambda>_. Some 0) 1 n = (Fin 1, Suc n)"
    "get_eight_bit_rounded_value (\<lambda>_. Some 0) 5 n = (Fin 5, Suc n)"
    "round_to_k_bits (\<lambda>_. Some 0) 0 n = (Inr (Fin 0), Suc n)"
    by (simp_all add: get_eight_bit_rounded_value_def round_to_k_bits_def round_stochastically_def
        frexp_norm_def pow2_def trunc_int_def rand_uint64_def bits_to_unit_interval_def Let_def)
qed

lemma zero_noise:
  "\<exists>n'. noise (\<lambda>_. Some 0) v mn mx n = Some (Inr v, n')"
proof -
  have "rand_loop (\<lambda>_. Some 0) m n = Some (Inr 0, Suc n)" for m n
    by (subst rand_loop_step) simp
  then have "rand_int (\<lambda>_. Some 0) 0 100 n = Some (Inr 0, Suc n)"
    by (simp add: rand_int_def rand_generator_def)
  then show ?thesis by (simp add: noise_def)
qed

section \<open>After scoreAd()\<close>

definition all_plain :: "device_signals \<Rightarrow> bool" where
  "all_plain ms \<longleftrightarrow> (\<forall>m \<in> set ms. snd m \<noteq> Infinite)"

lemma all_plain_members: "all_plain ms \<Longrightarrow> \<exists>vs. plain_members ms = Some vs"
  by (induction ms rule: plain_members.induct)
     (auto simp: all_plain_def split: signal.splits option.splits)

lemma all_plain_remove: "all_plain ms \<Longrightarrow> all_plain (remove_member k ms)"
proof (cases "ms = []")
  case False
  moreover assume "all_plain ms"
  ultimately show ?thesis
    using set_update_subset_insert [of ms "length (takeWhile (\<lambda>m. fst m \<noteq> k) ms)" "last ms"]
      last_in_set [of ms]
    by (auto simp: all_plain_def remove_member_def Let_def dest!: in_set_butlastD)
qed (simp add: remove_member_def)

lemma serialize_all_plain:
  "all_plain ms \<Longrightarrow> serialize_signals flow_libs ms = Inr ''doc''"
  using all_plain_members [of ms]
  by (auto simp: serialize_signals_def serialize_json_doc_def flow_libs_def sample_libs_def)

definition run_buyer :: buyer_dispatch_data where
  "run_buyer =
     default_buyer_dispatch_data
       \<lparr>bdd_auction_config := build_auction_config flow_request, bdd_buyer_signals := ''sig'',
        bdd_join_count := Some 0, bdd_recency := Some 0, bdd_modeling_signals := Some 0,
        bdd_seller := ''s'', bdd_interest_group_name := ''g'', bdd_buyer_origin := ''b1'',
        bdd_winning_ad_render_url := ''u1''\<rparr>"

definition run_winner_state :: "dispatch_request \<Rightarrow> scoring_state" where
  "run_winner_state q =
     add_winner_to_response (stable_sort int_score_before) flow_config flow_request 0 run_data
       [run_scored]
       (initial_scoring_state\<lparr>ss_data := run_tables q, ss_paapi_docs := [],
          ss_ad_scores := [(''u1'', sd_ad_score run_scored)]\<rparr>)"

lemma run_environment:
  "is_cancelled sample_environment flow_config fl = (False, fl)"
  "ev_libs sample_environment = flow_libs" "ev_bits sample_environment = (\<lambda>_. Some 0)"
  "ev_batch_execute sample_environment n = ok_status"
  "ev_sort_ads sample_environment = stable_sort scored_ad_greater"
  "ev_sample sample_environment = first_sample"
  "ev_sort_scores sample_environment = stable_sort int_score_before"
  "ev_curl sample_environment = sample_curl"
  "ev_unspecified sample_environment = sample_unspecified"
  by (simp_all add: is_cancelled_def flow_config_def sample_config_def sample_environment_def)

lemma run_config:
  "\<not> cf_enable_private_aggregate_reporting flow_config"
  "cf_enable_report_result_url_generation flow_config"
  "cf_enable_report_win_url_generation flow_config"
  "cf_auction_scope flow_config = AUCTION_SCOPE_SINGLE_SELLER"
  "cf_enable_seller_and_buyer_code_isolation flow_config"
  "\<not> cf_enable_enforce_kanon flow_config"
  "cf_buyers_with_report_win_enabled flow_config = {''b1''}"
  by (simp_all add: flow_config_def sample_config_def)

lemma run_winner_facts:
  "ds_ad_data (ss_data (run_winner_state q)) ''u1'' = Some (sample_ad ''u1'' 1)"
  "pas_winning_bid (ss_signals (run_winner_state q)) = 1"
  "pas_winning_score (ss_signals (run_winner_state q)) = 5"
  "pas_winning_bid_in_seller_currency (ss_signals (run_winner_state q)) = 0"
  "as_interest_group_owner (response_ad_score (ss_response (run_winner_state q))) = ''b1''"
  "as_interest_group_name (response_ad_score (ss_response (run_winner_state q))) = ''g''"
  "pas_made_highest_scoring_other_bid (ss_signals (run_winner_state q)) = False"
proof -
  have "populate_relevant_fields flow_config ''u1'' (sd_ad_score run_scored) (run_tables q)
      = ((sd_ad_score run_scored)\<lparr>as_render := ''u1''\<rparr>, run_tables q)"
    by (simp add: populate_relevant_fields_def find_scored_ad_type_def run_tables_def
        empty_dispatch_state_def run_config sample_ad_def default_ad_with_bid_def run_scored_def
        default_ad_score_def fun_eq_iff)
  moreover have "populate_highest_scoring_other_bids (stable_sort int_score_before) flow_config flow_request
      st scores 0 [(5, [0])] ads sc = sc" for st scores ads sc
    by (simp add: populate_highest_scoring_other_bids_def run_config other_bid_indices_def top_scores_def
        stable_sort_def add_other_bid_def)
  ultimately have w: "run_winner_state q = set_post_auction_signals flow_config flow_request
      (initial_scoring_state\<lparr>ss_data := run_tables q, ss_paapi_docs := [],
        ss_ad_scores := [(''u1'', sd_ad_score run_scored)],
        ss_response := empty_response\<lparr>rs_ad_score := Some ((sd_ad_score run_scored)
          \<lparr>as_render := ''u1'', as_ad_rejection_reasons := []\<rparr>)\<rparr>\<rparr>)"
    by (simp add: run_winner_state_def add_winner_to_response_def run_data_def initial_scoring_state_def
        run_scored_def Let_def)
  show "ds_ad_data (ss_data (run_winner_state q)) ''u1'' = Some (sample_ad ''u1'' 1)"
    "pas_winning_bid (ss_signals (run_winner_state q)) = 1"
    "pas_winning_score (ss_signals (run_winner_state q)) = 5"
    "pas_winning_bid_in_seller_currency (ss_signals (run_winner_state q)) = 0"
    "as_interest_group_owner (response_ad_score (ss_response (run_winner_state q))) = ''b1''"
    "as_interest_group_name (response_ad_score (ss_response (run_winner_state q))) = ''g''"
    "pas_made_highest_scoring_other_bid (ss_signals (run_winner_state q)) = False"
    by (simp_all add: w set_post_auction_signals_def run_config generate_post_auction_signals_def
        run_scored_def default_ad_score_def run_tables_def response_ad_score_def Let_def)
qed

lemma seller_signals_plain:
  assumes "pas_winning_bid (sdd_signals d) = 1" "pas_winning_score (sdd_signals d) = 5"
    "pas_winning_bid_in_seller_currency (sdd_signals d) = 0"
  shows "all_plain (fst (generate_seller_device_signals (\<lambda>_. Some 0) d n))"
  using assms
  by (auto simp: generate_seller_device_signals_def zero_rounding all_plain_def auction_members_def
      str_member_def rounded_member_def double_signal_def nonempty_member_def positive_member_def
      optional_member_def Let_def split: if_splits option.splits)

lemma run_scored_flow:
  obtains fl q1 where
    "run_callback sample_environment flow_config (Score_ads_callback False [q])
       [Inr \<lparr>dp_id = ''u1'', dp_resp = ''SCORE''\<rparr>] (scored_flow q) = Running fl"
    "fl_awaits fl = Some (Report_result_callback q1)" "all_plain (fl_seller_signals fl)"
    "fl_buyer fl = run_buyer"
proof -
  define fl1 where "fl1 = (scored_flow q)\<lparr>fl_awaits := None, fl_winning_ad_dispatch_id := ''u1'',
      fl_scoring := run_winner_state q\<rparr>"
  have step: "run_callback sample_environment flow_config (Score_ads_callback False [q])
       [Inr \<lparr>dp_id = ''u1'', dp_resp = ''SCORE''\<rparr>] (scored_flow q)
     = do_win_and_debug_reporting sample_environment flow_config False ''u1'' ''u1'' fl1"
  proof -
    have "ss_data (fl_scoring (scored_flow q)) = run_tables q" "fl_request (scored_flow q) = flow_request"
      "ss_ad_scores (fl_scoring (scored_flow q)) = []"
      by (simp_all add: scored_flow_def initial_flow_def initial_scoring_state_def)
    moreover have "sd_id run_scored = ''u1''" by (simp add: run_scored_def)
    ultimately show ?thesis
      by (simp add: run_callback_def unless_cancelled_def run_environment score_ads_callback_def
          run_collect run_winner add_ghost_winners_to_response_def update_scoring_def run_data_def
          run_winner_state_def fl1_def scored_flow_def initial_flow_def Let_def)
  qed
  define w where "w = response_ad_score (ss_response (run_winner_state q))"
  have "do_win_and_debug_reporting sample_environment flow_config False ''u1'' ''u1'' fl1
      = Running (perform_reporting_with_seller_and_buyer_code_isolation sample_environment flow_config w ''u1'' fl1)"
    by (simp add: do_win_and_debug_reporting_def do_debug_reporting_def run_config w_def fl1_def Let_def)
  moreover define fl2 where "fl2 = fl1
      \<lparr>fl_reporting_config := reporting_config_of flow_config (cf_code_version flow_config),
       fl_buyer := run_buyer\<rparr>"
  have "perform_reporting_with_seller_and_buyer_code_isolation sample_environment flow_config w ''u1'' fl1
      = dispatch_report_result_request sample_environment fl2"
  proof -
    have "fl_buyer fl1 = default_buyer_dispatch_data" "fl_request fl1 = flow_request"
      by (simp_all add: fl1_def scored_flow_def initial_flow_def)
    moreover have "fl_scoring fl1 = run_winner_state q" by (simp add: fl1_def)
    moreover have "as_interest_group_owner w = ''b1''" "as_interest_group_name w = ''g''"
      by (simp_all add: w_def run_winner_facts)
    moreover have "rq_per_buyer_signals flow_request ''b1'' = Some ''sig''" "rq_seller flow_request = ''s''"
      by (simp_all add: flow_request_def sample_request_def)
    ultimately show ?thesis
      by (simp add: perform_reporting_with_seller_and_buyer_code_isolation_def find_scored_ad_type_def
          run_config run_winner_facts dispatch_seller_report_def
          initialize_buyer_reporting_dispatch_request_data_def pa_buyer_data_def
          set_reporting_ids_in_raw_response_and_dispatch_request_data_def override_def sample_ad_def
          default_ad_with_bid_def default_buyer_dispatch_data_def fl2_def run_buyer_def Let_def)
  qed
  moreover have "all_plain (fst (generate_seller_device_signals (\<lambda>_. Some 0)
      (seller_data fl2 no_component_metadata) n))" for n
    by (rule seller_signals_plain) (simp_all add: seller_data_def fl2_def fl1_def run_winner_facts)
  moreover define q1 where "q1 = get_report_result_dispatch_request (fl_reporting_config fl2)
      (seller_data fl2 no_component_metadata) ''doc''"
  moreover define r where "r = generate_seller_device_signals (\<lambda>_. Some 0)
      (seller_data fl2 no_component_metadata) (fl_random fl2)"
  ultimately have "run_callback sample_environment flow_config (Score_ads_callback False [q])
       [Inr \<lparr>dp_id = ''u1'', dp_resp = ''SCORE''\<rparr>] (scored_flow q)
     = Running (fl2\<lparr>fl_seller_signals := fst r, fl_random := snd r,
         fl_batches := Suc (fl_batches fl2), fl_awaits := Some (Report_result_callback q1)\<rparr>)"
    by (simp add: step dispatch_report_result_request_def report_result_with_def run_environment
        perform_report_result_def serialize_all_plain dispatch_or_finish_def batch_execute_def Let_def)
  then show thesis
    by (rule that)
       (simp_all add: fl2_def r_def seller_signals_plain seller_data_def fl1_def run_winner_facts)
qed

section \<open>After reportResult()\<close>

lemma run_noised:
  obtains ms n' where "noised_members (\<lambda>_. Some 0) run_buyer n = Some (ms, n')" "all_plain ms"
proof -
  obtain n1 where 1: "noise_and_bucket_join_count (\<lambda>_. Some 0) 0 n = Some (Inr (bucket_join_count 0), n1)"
    using zero_noise unfolding noise_and_bucket_join_count_def by blast
  obtain n2 where 2: "noise_and_bucket_recency (\<lambda>_. Some 0) 0 n1 = Some (Inr (bucket_recency 0), n2)"
    using zero_noise unfolding noise_and_bucket_recency_def by blast
  obtain n3 where 3: "noise_and_mask_modeling_signals (\<lambda>_. Some 0) 0 n2 = Some (Inr (uint (and (0 :: 16 word) 0xFFF)), n3)"
    using zero_noise unfolding noise_and_mask_modeling_signals_def by blast
  show thesis
    by (rule that) (auto simp: noised_members_def noised_member_def run_buyer_def 1 2 3 all_plain_def)
qed

lemma all_plain_append [simp]: "all_plain (ms @ ms') \<longleftrightarrow> all_plain ms \<and> all_plain ms'"
  by (auto simp: all_plain_def)

lemma run_buyer_signals:
  assumes "all_plain ms"
  obtains ms' n' where "generate_buyer_device_signals flow_libs (\<lambda>_. Some 0) run_buyer ms n
      = Some (Inr ''doc'', ms', n')"
proof -
  obtain noised n1 where noised: "noised_members (\<lambda>_. Some 0) run_buyer n = Some (noised, n1)"
    "all_plain noised" by (rule run_noised)
  define public where "public = remove_member ''dataVersion''
      (remove_member ''modifiedBid'' (remove_member ''desirability'' ms))"
  have public: "all_plain public" unfolding public_def by (intro all_plain_remove assms)
  define ms' where "ms' = set_reporting_ids run_buyer
      (public @ [(''madeHighestScoringOtherBid'', Plain (JBool False))] @ noised
        @ nonempty_member ''seller'' ''s'' @ rounded_member_if_ok ''adCost'' (Inr (Fin 0)))
      @ positive_member ''dataVersion'' 0 @ [str_member ''kAnonStatus'' ''notCalculated'']"
  have "all_plain ms'"
    using public noised(2)
    by (simp add: ms'_def set_reporting_ids_def run_buyer_def default_buyer_dispatch_data_def)
       (simp add: all_plain_def nonempty_member_def rounded_member_if_ok_def positive_member_def
         str_member_def double_signal_def)
  then have "generate_buyer_device_signals flow_libs (\<lambda>_. Some 0) run_buyer ms n
      = Some (Inr ''doc'', ms', Suc n1)"
    using noised(1)
    by (simp add: generate_buyer_device_signals_def Let_def serialize_all_plain flip: public_def)
       (simp add: ms'_def run_buyer_def default_buyer_dispatch_data_def zero_rounding serialize_all_plain)
  then show thesis by (rule that)
qed

lemma run_reported_flow:
  assumes "fl_buyer fl = run_buyer" "all_plain (fl_seller_signals fl)"
  obtains fl' q where
    "run_callback sample_environment flow_config (Report_result_callback q1)
       [Inr \<lparr>dp_id = ''u1'', dp_resp = ''RESULT''\<rparr>] fl = Running fl'"
    "fl_awaits fl' = Some (Report_win_callback q)"
proof -
  define r where "r = \<lparr>rrr_url = ''r'', rrr_interaction = [], rrr_send_report_to_invoked = False,
      rrr_register_ad_beacon_invoked = False, rrr_signals_for_winner = ''null'',
      rrr_pagg = no_pagg_response\<rparr>"
  have r: "parse_report_result_response flow_libs sample_unspecified ''RESULT'' bv = Inr r" for bv
    by (simp add: parse_report_result_response_def parse_json_string_def flow_libs_def flow_parse_def
        r_def get_members_def string_if_present_def object_if_present_def interaction_urls_def
        signals_or_null_def response_pagg_def Let_def)
  define fl1 where "fl1 = take_report_result sample_environment flow_config r (fl\<lparr>fl_awaits := None\<rparr>)"
  have b: "fl_buyer fl1 = run_buyer"
    using assms(1)
    by (simp add: fl1_def take_report_result_def run_config r_def Let_def)
       (simp add: run_buyer_def default_buyer_dispatch_data_def)
  have s: "fl_seller_signals fl1 = fl_seller_signals fl" by (simp add: fl1_def)
  obtain ms' n' where doc: "generate_buyer_device_signals flow_libs (\<lambda>_. Some 0) run_buyer
      (fl_seller_signals fl) (fl_random fl1) = Some (Inr ''doc'', ms', n')"
    by (rule run_buyer_signals [OF assms(2)])
  define q where "q = \<lparr>uq_id = bdd_winning_ad_render_url run_buyer, uq_version_string = ''pa_b1'',
      uq_handler_name = ''reportWinEntryFunction'',
      uq_input = get_report_win_input ''doc'' (fl_reporting_config fl1) run_buyer\<rparr>"
  have q: "perform_pa_report_win flow_libs sample_curl (\<lambda>_. Some 0) (fl_reporting_config fl1) run_buyer
      (fl_seller_signals fl) (fl_random fl1) = Some (Inr q, ms', n')"
    by (simp add: perform_pa_report_win_def doc get_report_win_dispatch_request_def
        get_buyer_report_win_version_def get_domain_from_url_def parse_url_def sample_curl_def q_def)
       (simp add: run_buyer_def)
  have "run_callback sample_environment flow_config (Report_result_callback q1)
      [Inr \<lparr>dp_id = ''u1'', dp_resp = ''RESULT''\<rparr>] fl
    = execute_report_win sample_environment flow_config fl1"
    by (simp add: run_callback_def unless_cancelled_def run_environment
        cancellable_report_result_callback_def r fl1_def)
  also have "\<dots> = Running (fl1\<lparr>fl_seller_signals := ms', fl_random := n',
      fl_batches := Suc (fl_batches fl1), fl_awaits := Some (Report_win_callback q)\<rparr>)"
  proof -
    have "report_win_enabled flow_config run_buyer" "bdd_egress_payload run_buyer = None"
      by (simp_all add: report_win_enabled_def run_config run_buyer_def default_buyer_dispatch_data_def)
    then show ?thesis
      by (simp add: execute_report_win_def run_config run_environment b s q dispatch_or_finish_def
          batch_execute_def Let_def)
  qed
  finally show thesis by (rule that) simp
qed

text \<open>The call reaches a state in which it waits for reportWin().\<close>

lemma run_reaches_report_win:
  obtains fl q where "reachable sample_environment flow_config flow_request fl"
    "fl_awaits fl = Some (Report_win_callback q)"
proof -
  obtain q where q: "execute sample_environment flow_config (initial_flow flow_request) = scored_flow q"
    by (rule run_execute)
  obtain fl1 q1 where 1: "run_callback sample_environment flow_config (Score_ads_callback False [q])
       [Inr \<lparr>dp_id = ''u1'', dp_resp = ''SCORE''\<rparr>] (scored_flow q) = Running fl1"
    "fl_awaits fl1 = Some (Report_result_callback q1)" "all_plain (fl_seller_signals fl1)"
    "fl_buyer fl1 = run_buyer" by (rule run_scored_flow)
  obtain fl2 q2 where 2: "run_callback sample_environment flow_config (Report_result_callback q1)
       [Inr \<lparr>dp_id = ''u1'', dp_resp = ''RESULT''\<rparr>] fl1 = Running fl2"
    "fl_awaits fl2 = Some (Report_win_callback q2)" by (rule run_reported_flow [OF 1(4,3)])
  have "flow_step sample_environment flow_config (scored_flow q) fl1"
    by (rule flow_step.callback [OF _ _ 1(1)]) (simp_all add: scored_flow_def)
  moreover have "flow_step sample_environment flow_config fl1 fl2"
    by (rule flow_step.callback [OF 1(2) _ 2(1)]) simp
  ultimately have "reachable sample_environment flow_config flow_request fl2"
    unfolding reachable_def q by (meson converse_rtranclp_into_rtranclp rtranclp.rtrancl_refl)
  then show thesis using 2(2) by (rule that)
qed

end
