(* ===== verification/Doubly_Linked_List.thy ===== *)
theory Doubly_Linked_List
  imports Prelude "HOL-Library.Monad_Syntax"
begin

text \<open>
  \<open>common/cache/doubly_linked_list.h\<close> over an explicit store. Addresses are natural numbers; 0 and 1
  are the head and tail sentinels. A pointer is an optional address, \<open>None\<close> the null pointer. Every
  operation is partial: \<open>None\<close> is a dereference of a null or freed pointer. The interface a client
  needs is the locale \<open>recency_list\<close>, interpreted on the operations at the end.
\<close>

section \<open>Store and operations\<close>

record 'd node =
  nd_data :: "'d option"
  nd_next :: "nat option"
  nd_prev :: "nat option"

type_synonym 'd store = "nat \<rightharpoonup> 'd node"

record 'd dll =
  dl_store :: "'d store"
  dl_fresh :: nat

definition head_addr :: nat where
  "head_addr = 0"

definition tail_addr :: nat where
  "tail_addr = 1"

definition deref :: "'d store \<Rightarrow> nat option \<Rightarrow> 'd node option" where
  "deref h p = (case p of None \<Rightarrow> None | Some a \<Rightarrow> h a)"

definition set_next :: "nat option \<Rightarrow> nat option \<Rightarrow> 'd store \<Rightarrow> 'd store option" where
  "set_next p q h =
     (case p of
        None \<Rightarrow> None
      | Some a \<Rightarrow> (case h a of None \<Rightarrow> None | Some n \<Rightarrow> Some (h(a \<mapsto> n\<lparr>nd_next := q\<rparr>))))"

definition set_prev :: "nat option \<Rightarrow> nat option \<Rightarrow> 'd store \<Rightarrow> 'd store option" where
  "set_prev p q h =
     (case p of
        None \<Rightarrow> None
      | Some a \<Rightarrow> (case h a of None \<Rightarrow> None | Some n \<Rightarrow> Some (h(a \<mapsto> n\<lparr>nd_prev := q\<rparr>))))"

definition empty_dll :: "'d dll" where
  "empty_dll =
     \<lparr>dl_store =
        [head_addr \<mapsto> \<lparr>nd_data = None, nd_next = Some tail_addr, nd_prev = None\<rparr>,
         tail_addr \<mapsto> \<lparr>nd_data = None, nd_next = None, nd_prev = Some head_addr\<rparr>],
      dl_fresh = 2\<rparr>"

text \<open>The two assignments that put a node, whose own pointers are set, in front.\<close>

definition link_front :: "nat \<Rightarrow> 'd store \<Rightarrow> 'd store option" where
  "link_front a h =
     do {
       hd \<leftarrow> deref h (Some head_addr);
       h1 \<leftarrow> set_prev (nd_next hd) (Some a) h;
       set_next (Some head_addr) (Some a) h1
     }"

definition insert_at_front :: "'d \<Rightarrow> 'd dll \<Rightarrow> ('d dll \<times> nat) option" where
  "insert_at_front d l =
     (let h = dl_store l; a = dl_fresh l
      in do {
        hd \<leftarrow> deref h (Some head_addr);
        h1 \<leftarrow> link_front a
                (h(a \<mapsto> \<lparr>nd_data = Some d, nd_next = nd_next hd, nd_prev = Some head_addr\<rparr>));
        Some (l\<lparr>dl_store := h1, dl_fresh := Suc a\<rparr>, a)
      })"

text \<open>The two assignments that disconnect a node, shared by \<open>MoveToFront\<close> and \<open>Remove\<close>.\<close>

definition unlink :: "nat \<Rightarrow> 'd store \<Rightarrow> 'd store option" where
  "unlink a h =
     do {
       n \<leftarrow> h a;
       h1 \<leftarrow> set_next (nd_prev n) (nd_next n) h;
       n1 \<leftarrow> h1 a;
       set_prev (nd_next n1) (nd_prev n1) h1
     }"

definition move_to_front :: "nat \<Rightarrow> 'd dll \<Rightarrow> 'd dll option" where
  "move_to_front a l =
     do {
       h \<leftarrow> unlink a (dl_store l);
       hd \<leftarrow> deref h (Some head_addr);
       h1 \<leftarrow> set_next (Some a) (nd_next hd) h;
       h2 \<leftarrow> set_prev (Some a) (Some head_addr) h1;
       h3 \<leftarrow> link_front a h2;
       Some (l\<lparr>dl_store := h3\<rparr>)
     }"

text \<open>\<open>Remove\<close> also frees the node.\<close>

definition remove_node :: "nat \<Rightarrow> 'd dll \<Rightarrow> 'd dll option" where
  "remove_node a l =
     do {
       h \<leftarrow> unlink a (dl_store l);
       Some (l\<lparr>dl_store := h(a := None)\<rparr>)
     }"

text \<open>\<open>Tail\<close> returns the null pointer, here the inner \<open>None\<close>, on an empty list.\<close>

definition tail_node :: "'d dll \<Rightarrow> nat option option" where
  "tail_node l =
     do {
       t \<leftarrow> deref (dl_store l) (Some tail_addr);
       Some (if nd_prev t = Some head_addr then None else nd_prev t)
     }"

definition head_node :: "'d dll \<Rightarrow> nat option option" where
  "head_node l =
     do {
       t \<leftarrow> deref (dl_store l) (Some head_addr);
       Some (if nd_next t = Some tail_addr then None else nd_next t)
     }"

section \<open>Links\<close>

definition next_of :: "'d store \<Rightarrow> nat \<Rightarrow> nat option" where
  "next_of h a = Option.bind (h a) nd_next"

definition prev_of :: "'d store \<Rightarrow> nat \<Rightarrow> nat option" where
  "prev_of h a = Option.bind (h a) nd_prev"

definition data_of :: "'d store \<Rightarrow> nat \<Rightarrow> 'd option" where
  "data_of h a = Option.bind (h a) nd_data"

lemmas field_defs = next_of_def prev_of_def data_of_def

fun links :: "'d store \<Rightarrow> nat list \<Rightarrow> bool" where
  "links h (a # b # as) \<longleftrightarrow> next_of h a = Some b \<and> prev_of h b = Some a \<and> links h (b # as)"
| "links h _ \<longleftrightarrow> True"

lemma links_append: "links h (as @ b # bs) \<longleftrightarrow> links h (as @ [b]) \<and> links h (b # bs)"
proof (induction as)
  case Nil
  then show ?case by simp
next
  case (Cons a as)
  then show ?case by (cases as) auto
qed

lemma links_cong:
  assumes "\<forall>a \<in> set (butlast as). next_of h' a = next_of h a"
    and "\<forall>a \<in> set (tl as). prev_of h' a = prev_of h a"
  shows "links h' as = links h as"
  using assms
proof (induction h as rule: links.induct)
  case (1 h a b as)
  then show ?case by (cases as) auto
qed simp_all

text \<open>What the setters do to the fields.\<close>

lemma set_next_eq:
  assumes "h a \<noteq> None"
  shows "\<exists>h'. set_next (Some a) q h = Some h' \<and> next_of h' = (next_of h)(a := q)
     \<and> prev_of h' = prev_of h \<and> data_of h' = data_of h \<and> dom h' = dom h"
proof -
  from assms obtain n where "h a = Some n" by blast
  then show ?thesis
    by (intro exI [of _ "h(a \<mapsto> n\<lparr>nd_next := q\<rparr>)"]) (auto simp: set_next_def field_defs fun_eq_iff)
qed

lemma set_prev_eq:
  assumes "h a \<noteq> None"
  shows "\<exists>h'. set_prev (Some a) q h = Some h' \<and> prev_of h' = (prev_of h)(a := q)
     \<and> next_of h' = next_of h \<and> data_of h' = data_of h \<and> dom h' = dom h"
proof -
  from assms obtain n where "h a = Some n" by blast
  then show ?thesis
    by (intro exI [of _ "h(a \<mapsto> n\<lparr>nd_prev := q\<rparr>)"]) (auto simp: set_prev_def field_defs fun_eq_iff)
qed

lemma deref_next: "h a \<noteq> None \<Longrightarrow> \<exists>n. deref h (Some a) = Some n \<and> nd_next n = next_of h a \<and> nd_prev n = prev_of h a"
  by (auto simp: deref_def field_defs)

section \<open>Representation\<close>

text \<open>The nodes \<open>as\<close>, front first, between the sentinels; allocated addresses are below the next fresh one.\<close>

definition dll_repr :: "'d dll \<Rightarrow> nat list \<Rightarrow> bool" where
  "dll_repr l as \<longleftrightarrow>
     links (dl_store l) (head_addr # as @ [tail_addr])
     \<and> distinct (head_addr # as @ [tail_addr])
     \<and> set (head_addr # as @ [tail_addr]) \<subseteq> dom (dl_store l)
     \<and> (\<forall>a \<in> dom (dl_store l). a < dl_fresh l)"

lemma dll_repr_empty [simp]: "dll_repr empty_dll []"
  by (simp add: dll_repr_def empty_dll_def head_addr_def tail_addr_def field_defs)

lemma split_at: "a \<in> set as \<Longrightarrow> distinct as \<Longrightarrow> \<exists>xs ys. as = xs @ a # ys \<and> remove1 a as = xs @ ys"
  by (metis distinct_remove1 remove1_append remove1.simps(2) split_list_first)

text \<open>Unlinking a node leaves the links of the others, and the node's own fields.\<close>

lemma unlink_eq:
  assumes ln: "links h (xs @ p # a # q # ys)" and dist: "distinct (xs @ p # a # q # ys)"
    and dom: "set (xs @ p # a # q # ys) \<subseteq> dom h"
  shows "\<exists>h'. unlink a h = Some h' \<and> links h' (xs @ p # q # ys) \<and> dom h' = dom h
    \<and> data_of h' = data_of h \<and> (\<forall>x. x \<noteq> p \<longrightarrow> next_of h' x = next_of h x)
    \<and> (\<forall>x. x \<noteq> q \<longrightarrow> prev_of h' x = prev_of h x)"
proof -
  from ln have l1: "links h (xs @ [p])" and la: "prev_of h a = Some p" "next_of h a = Some q"
    and l2: "links h (q # ys)"
    using links_append [of h xs p "a # q # ys"] by auto
  obtain n where n: "h a = Some n" using dom by auto
  then have n': "nd_prev n = Some p" "nd_next n = Some q" using la by (auto simp: field_defs)
  from set_next_eq [of h p "Some q"] dom obtain h1 where h1: "set_next (Some p) (Some q) h = Some h1"
    "next_of h1 = (next_of h)(p := Some q)" "prev_of h1 = prev_of h" "data_of h1 = data_of h"
    "dom h1 = dom h" by auto
  have "h1 a = Some n"
    using h1(1) dist n by (auto simp: set_next_def split: option.splits)
  moreover from set_prev_eq [of h1 q "Some p"] dom h1(5) obtain h2 where h2:
    "set_prev (Some q) (Some p) h1 = Some h2" "prev_of h2 = (prev_of h1)(q := Some p)"
    "next_of h2 = next_of h1" "data_of h2 = data_of h1" "dom h2 = dom h1" by auto
  ultimately have run: "unlink a h = Some h2" by (simp add: unlink_def n n' h1(1) h2(1))
  have "links h2 (xs @ [p])"
    using l1 dist h1 h2 by (subst links_cong [of _ _ h]) (auto simp: tl_append split: list.splits)
  moreover have "links h2 (q # ys)"
    using l2 dist h1 h2 by (subst links_cong [of _ _ h]) (auto dest: in_set_butlastD)
  ultimately have "links h2 (xs @ p # q # ys)"
    using h1 h2 links_append [of h2 xs p "q # ys"] by simp
  then show ?thesis using run h1 h2 by auto
qed

lemma link_front_eq:
  assumes ln: "links h (p # b # bs)" and p: "p = head_addr"
    and a: "next_of h a = Some b" "prev_of h a = Some p" "a \<notin> set (p # b # bs)"
    and dist: "distinct (p # b # bs)" and dom: "set (p # b # bs) \<subseteq> dom h"
  shows "\<exists>h'. link_front a h = Some h' \<and> links h' (p # a # b # bs) \<and> dom h' = dom h
    \<and> data_of h' = data_of h"
proof -
  obtain n where n: "deref h (Some p) = Some n" "nd_next n = Some b"
    using deref_next [of h p] dom ln by auto
  from set_prev_eq [of h b "Some a"] dom obtain h1 where h1: "set_prev (Some b) (Some a) h = Some h1"
    "prev_of h1 = (prev_of h)(b := Some a)" "next_of h1 = next_of h" "data_of h1 = data_of h"
    "dom h1 = dom h" by auto
  from set_next_eq [of h1 p "Some a"] dom h1(5) obtain h2 where h2:
    "set_next (Some p) (Some a) h1 = Some h2" "next_of h2 = (next_of h1)(p := Some a)"
    "prev_of h2 = prev_of h1" "data_of h2 = data_of h1" "dom h2 = dom h1" by auto
  have "links h2 (b # bs)"
    using ln dist h1 h2 by (subst links_cong [of _ _ h]) (auto dest: in_set_butlastD)
  then show ?thesis
    using n h1 h2 a dist p by (auto simp: link_front_def)
qed

section \<open>The operations on the represented list\<close>

lemma insert_at_front_repr:
  assumes "dll_repr l as"
  shows "\<exists>l' a. insert_at_front d l = Some (l', a) \<and> a \<notin> set as \<and> dll_repr l' (a # as)
    \<and> data_of (dl_store l') a = Some d
    \<and> (\<forall>x \<in> set as. data_of (dl_store l') x = data_of (dl_store l) x)"
proof -
  let ?h = "dl_store l" and ?a = "dl_fresh l"
  obtain b bs where bs: "as @ [tail_addr] = b # bs" by (cases as) auto
  have ln: "links ?h (head_addr # b # bs)" and dist: "distinct (head_addr # b # bs)"
    and dom: "set (head_addr # b # bs) \<subseteq> dom ?h" and fresh: "\<forall>a \<in> dom ?h. a < ?a"
    using assms unfolding dll_repr_def bs by auto
  then have a: "?a \<notin> set (head_addr # b # bs)" "?h ?a = None" by blast+
  obtain n where n: "deref ?h (Some head_addr) = Some n" "nd_next n = Some b"
    using deref_next [of ?h head_addr] dom ln by auto
  define h0 where "h0 = ?h(?a \<mapsto> \<lparr>nd_data = Some d, nd_next = Some b, nd_prev = Some head_addr\<rparr>)"
  have fields: "next_of h0 = (next_of ?h)(?a := Some b)" "prev_of h0 = (prev_of ?h)(?a := Some head_addr)"
    "data_of h0 = (data_of ?h)(?a := Some d)" "dom h0 = insert ?a (dom ?h)"
    by (auto simp: h0_def field_defs fun_eq_iff)
  have "links h0 (head_addr # b # bs)"
    by (subst links_cong [of _ _ ?h]) (use ln a fields in \<open>auto dest: in_set_butlastD\<close>)
  from link_front_eq [OF this refl, of ?a] obtain h1 where h1: "link_front ?a h0 = Some h1"
    "links h1 (head_addr # ?a # b # bs)" "dom h1 = dom h0" "data_of h1 = data_of h0"
    using a dist dom fields by (auto simp del: links.simps)
  have "dll_repr (l\<lparr>dl_store := h1, dl_fresh := Suc ?a\<rparr>) (?a # as)"
    using h1(2,3) dist dom a(1) fresh fields(4) unfolding dll_repr_def
    by (simp add: bs less_SucI del: links.simps) blast
  moreover have "insert_at_front d l = Some (l\<lparr>dl_store := h1, dl_fresh := Suc ?a\<rparr>, ?a)"
    using n h1(1) by (simp add: insert_at_front_def h0_def Let_def)
  moreover have "set as \<subseteq> set (b # bs)" using arg_cong [OF bs, of set] by auto
  ultimately show ?thesis
    using a h1(4) fields(3) by (intro exI [of _ "l\<lparr>dl_store := h1, dl_fresh := Suc ?a\<rparr>"] exI [of _ ?a]) auto
qed

text \<open>Unlinking a represented node.\<close>

lemma unlink_repr:
  assumes "dll_repr l as" and "a \<in> set as"
  shows "\<exists>h'. unlink a (dl_store l) = Some h' \<and> links h' (head_addr # remove1 a as @ [tail_addr])
    \<and> dom h' = dom (dl_store l) \<and> data_of h' = data_of (dl_store l)"
proof -
  from assms obtain xs ys where as: "as = xs @ a # ys" "remove1 a as = xs @ ys"
    using split_at [of a as] by (auto simp: dll_repr_def)
  obtain us p where p: "head_addr # xs = us @ [p]" by (metis append_butlast_last_id list.discI)
  obtain q vs where q: "ys @ [tail_addr] = q # vs" by (cases ys) auto
  have eq: "head_addr # as @ [tail_addr] = us @ p # a # q # vs"
    "head_addr # remove1 a as @ [tail_addr] = us @ p # q # vs"
    using p q as by (metis append.assoc append_Cons append_Nil)+
  show ?thesis
    using unlink_eq [of "dl_store l" us p a q vs] assms(1) unfolding dll_repr_def eq by blast
qed

lemma move_to_front_repr:
  assumes "dll_repr l as" and "a \<in> set as"
  shows "\<exists>l'. move_to_front a l = Some l' \<and> dll_repr l' (a # remove1 a as)
    \<and> data_of (dl_store l') = data_of (dl_store l)"
proof -
  let ?as = "remove1 a as"
  obtain h where h: "unlink a (dl_store l) = Some h" "links h (head_addr # ?as @ [tail_addr])"
    "dom h = dom (dl_store l)" "data_of h = data_of (dl_store l)"
    using unlink_repr [OF assms] by blast
  have dist: "distinct (head_addr # ?as @ [tail_addr])" "a \<notin> set (head_addr # ?as @ [tail_addr])"
    and dom: "set (head_addr # ?as @ [tail_addr]) \<subseteq> dom h" "a \<in> dom h"
    using assms h(3) unfolding dll_repr_def by (auto dest: notin_set_remove1 set_remove1_subset [THEN subsetD])
  obtain b bs where bs: "?as @ [tail_addr] = b # bs" by (cases ?as) auto
  note h = h(1) h(2-4) [unfolded bs] and dist = dist [unfolded bs] and dom = dom [unfolded bs]
  obtain n where n: "deref h (Some head_addr) = Some n" "nd_next n = Some b"
    using deref_next [of h head_addr] dom h(2) by auto
  from set_next_eq [of h a "Some b"] dom obtain h1 where h1: "set_next (Some a) (Some b) h = Some h1"
    "next_of h1 = (next_of h)(a := Some b)" "prev_of h1 = prev_of h" "data_of h1 = data_of h"
    "dom h1 = dom h" by auto
  from set_prev_eq [of h1 a "Some head_addr"] dom h1(5) obtain h2 where h2:
    "set_prev (Some a) (Some head_addr) h1 = Some h2" "prev_of h2 = (prev_of h1)(a := Some head_addr)"
    "next_of h2 = next_of h1" "data_of h2 = data_of h1" "dom h2 = dom h1" by auto
  have "links h2 (head_addr # b # bs)"
    by (subst links_cong [of _ _ h]) (use h dist h1 h2 in \<open>auto dest: in_set_butlastD\<close>)
  from link_front_eq [OF this refl, of a] obtain h3 where h3: "link_front a h2 = Some h3"
    "links h3 (head_addr # a # b # bs)" "dom h3 = dom h2" "data_of h3 = data_of h2"
    using dist dom h1 h2 by (auto simp del: links.simps)
  have "dll_repr (l\<lparr>dl_store := h3\<rparr>) (a # ?as)"
    using h3 h2(5) h1(5) h(3) dist dom assms(1) unfolding dll_repr_def
    by (simp add: bs del: links.simps)
  moreover have "move_to_front a l = Some (l\<lparr>dl_store := h3\<rparr>)"
    by (simp add: move_to_front_def h n h1(1) h2(1) h3(1))
  ultimately show ?thesis using h h1 h2 h3 by simp
qed

lemma remove_node_repr:
  assumes "dll_repr l as" and "a \<in> set as"
  shows "\<exists>l'. remove_node a l = Some l' \<and> dll_repr l' (remove1 a as)
    \<and> (\<forall>x. x \<noteq> a \<longrightarrow> data_of (dl_store l') x = data_of (dl_store l) x)"
proof -
  obtain h where h: "unlink a (dl_store l) = Some h" "links h (head_addr # remove1 a as @ [tail_addr])"
    "dom h = dom (dl_store l)" "data_of h = data_of (dl_store l)"
    using unlink_repr [OF assms] by blast
  have dist: "distinct (head_addr # remove1 a as @ [tail_addr])"
      "a \<notin> set (head_addr # remove1 a as @ [tail_addr])"
    and dom: "set (head_addr # remove1 a as @ [tail_addr]) \<subseteq> dom h"
    using assms h(3) unfolding dll_repr_def by (auto dest: notin_set_remove1)
  have "links (h(a := None)) (head_addr # remove1 a as @ [tail_addr])"
    by (subst links_cong [of _ _ h]) (use h dist in \<open>auto simp: field_defs dest: in_set_butlastD\<close>)
  then have "dll_repr (l\<lparr>dl_store := h(a := None)\<rparr>) (remove1 a as)"
    using dist dom assms(1) h(3) unfolding dll_repr_def by auto
  then show ?thesis using h by (auto simp: remove_node_def field_defs fun_eq_iff)
qed

lemma tail_node_repr:
  assumes "dll_repr l as"
  shows "tail_node l = Some (if as = [] then None else Some (last as))"
proof (cases as rule: rev_cases)
  case Nil
  then show ?thesis
    using assms by (auto simp: dll_repr_def tail_node_def deref_def field_defs)
next
  case (snoc bs b)
  then have "links (dl_store l) ((head_addr # bs) @ b # [tail_addr])" "b \<noteq> head_addr"
    "tail_addr \<in> dom (dl_store l)"
    using assms by (auto simp: dll_repr_def)
  then have "prev_of (dl_store l) tail_addr = Some b" "b \<noteq> head_addr" "tail_addr \<in> dom (dl_store l)"
    using links_append [of "dl_store l" "head_addr # bs" b "[tail_addr]"] by auto
  then show ?thesis by (auto simp: snoc tail_node_def deref_def field_defs)
qed

lemma head_node_repr:
  assumes "dll_repr l as"
  shows "head_node l = Some (if as = [] then None else Some (hd as))"
  using assms by (cases as) (auto simp: dll_repr_def head_node_def deref_def field_defs)

section \<open>The interface\<close>

text \<open>
  A list of nodes ordered by recency: what the cache relies on. No operation on a represented list
  faults, and each has the effect of its list counterpart.
\<close>

locale recency_list =
  fixes repr :: "'l \<Rightarrow> 'n list \<Rightarrow> bool"
    and item :: "'l \<Rightarrow> 'n \<Rightarrow> 'd option"
    and ins :: "'d \<Rightarrow> 'l \<Rightarrow> ('l \<times> 'n) option"
    and front :: "'n \<Rightarrow> 'l \<Rightarrow> 'l option"
    and del :: "'n \<Rightarrow> 'l \<Rightarrow> 'l option"
    and oldest :: "'l \<Rightarrow> 'n option option"
  assumes repr_distinct: "repr l as \<Longrightarrow> distinct as"
    and ins_law: "repr l as \<Longrightarrow> \<exists>l' a. ins d l = Some (l', a) \<and> a \<notin> set as \<and> repr l' (a # as)
        \<and> item l' a = Some d \<and> (\<forall>x \<in> set as. item l' x = item l x)"
    and front_law: "repr l as \<Longrightarrow> a \<in> set as \<Longrightarrow>
        \<exists>l'. front a l = Some l' \<and> repr l' (a # remove1 a as) \<and> (\<forall>x \<in> set as. item l' x = item l x)"
    and del_law: "repr l as \<Longrightarrow> a \<in> set as \<Longrightarrow>
        \<exists>l'. del a l = Some l' \<and> repr l' (remove1 a as) \<and> (\<forall>x \<in> set as - {a}. item l' x = item l x)"
    and oldest_law: "repr l as \<Longrightarrow> oldest l = Some (if as = [] then None else Some (last as))"
begin

text \<open>The list of items, which is what a client sees.\<close>

lemma ins_items:
  assumes "repr l as" and "map (item l) as = map Some ds"
  obtains l' a where "ins d l = Some (l', a)" "a \<notin> set as" "repr l' (a # as)"
    "map (item l') (a # as) = map Some (d # ds)"
proof -
  obtain l' a where op: "ins d l = Some (l', a)" "a \<notin> set as" "repr l' (a # as)" "item l' a = Some d"
    "\<forall>x \<in> set as. item l' x = item l x"
    using ins_law [OF assms(1)] by blast
  have "map (item l') as = map (item l) as" using op(5) by simp
  then have "map (item l') (a # as) = map Some (d # ds)" using op(4) assms(2) by simp
  then show thesis using that op by blast
qed

lemma front_items:
  assumes "repr l (xs @ a # ys)" and "map (item l) (xs @ a # ys) = map Some (ds @ d # es)"
    and "length xs = length ds"
  obtains l' where "front a l = Some l'" "repr l' (a # xs @ ys)"
    "map (item l') (a # xs @ ys) = map Some (d # ds @ es)"
proof -
  have dist: "distinct (xs @ a # ys)" by (rule repr_distinct [OF assms(1)])
  then have rm: "remove1 a (xs @ a # ys) = xs @ ys" by (simp add: remove1_append)
  obtain l' where op: "front a l = Some l'" "repr l' (a # xs @ ys)"
    "\<forall>x \<in> set (xs @ a # ys). item l' x = item l x"
    using front_law [OF assms(1), of a] by (auto simp: rm)
  have "map (item l) xs = map Some ds" "item l a = Some d" "map (item l) ys = map Some es"
    using assms(2,3) by auto
  moreover have "map (item l') xs = map (item l) xs" "map (item l') ys = map (item l) ys"
    using op(3) by simp_all
  ultimately show thesis using that op by simp
qed

lemma del_items:
  assumes "repr l (xs @ a # ys)" and "map (item l) (xs @ a # ys) = map Some (ds @ d # es)"
    and "length xs = length ds"
  obtains l' where "del a l = Some l'" "repr l' (xs @ ys)" "map (item l') (xs @ ys) = map Some (ds @ es)"
proof -
  have dist: "distinct (xs @ a # ys)" by (rule repr_distinct [OF assms(1)])
  then have rm: "remove1 a (xs @ a # ys) = xs @ ys" by (simp add: remove1_append)
  obtain l' where op: "del a l = Some l'" "repr l' (xs @ ys)"
    "\<forall>x \<in> set (xs @ a # ys) - {a}. item l' x = item l x"
    using del_law [OF assms(1), of a] by (auto simp: rm)
  have "map (item l) xs = map Some ds" "map (item l) ys = map Some es"
    using assms(2,3) by auto
  moreover have "map (item l') xs = map (item l) xs" "map (item l') ys = map (item l) ys"
    using op(3) dist by auto
  ultimately show thesis using that op by simp
qed

end

interpretation dll: recency_list dll_repr "\<lambda>l. data_of (dl_store l)" insert_at_front move_to_front
  remove_node tail_node
proof
  show "dll_repr l as \<Longrightarrow> distinct as" for l :: "'a dll" and as by (simp add: dll_repr_def)
  show "\<exists>l' a. insert_at_front d l = Some (l', a) \<and> a \<notin> set as \<and> dll_repr l' (a # as)
      \<and> data_of (dl_store l') a = Some d
      \<and> (\<forall>x \<in> set as. data_of (dl_store l') x = data_of (dl_store l) x)"
    if "dll_repr l as" for l :: "'a dll" and as d
    by (rule insert_at_front_repr [OF that])
qed (use move_to_front_repr remove_node_repr tail_node_repr in fastforce)+

end
