(* ===== verification/Lru_Cache.thy ===== *)
theory Lru_Cache
  imports Doubly_Linked_List
begin

text \<open>
  \<open>common/cache/cache.h\<close>: the cache of k-anonymity answers. A state holds the doubly linked list, the
  map from keys to nodes and the number of entries. The locked section of each operation is one
  step; a timer that fires is the step \<open>expire\<close> of its key. A set of keys and a map of entries are
  lists in iteration order. The specification is a list of entries, most recently used first.
\<close>

section \<open>The cache\<close>

record ('k, 'v) cache =
  ch_dll :: "('k \<times> 'v) dll"
  ch_nodes :: "'k \<rightharpoonup> nat"
  ch_num_entries :: int
  ch_capacity :: int

definition new_cache :: "int \<Rightarrow> ('k, 'v) cache" where
  "new_cache capacity =
     \<lparr>ch_dll = empty_dll, ch_nodes = Map.empty, ch_num_entries = 0, ch_capacity = capacity\<rparr>"

fun query_loop ::
  "'k list \<Rightarrow> ('k, 'v) cache \<Rightarrow> ('k \<rightharpoonup> 'v) \<Rightarrow> (('k, 'v) cache \<times> ('k \<rightharpoonup> 'v)) option" where
  "query_loop [] c found = Some (c, found)"
| "query_loop (k # ks) c found =
     (case ch_nodes c k of
        None \<Rightarrow> query_loop ks c found
      | Some a \<Rightarrow>
          do {
            l \<leftarrow> move_to_front a (ch_dll c);
            (k', v) \<leftarrow> data_of (dl_store l) a;
            query_loop ks (c\<lparr>ch_dll := l\<rparr>) (fst (try_emplace k v found))
          })"

definition query :: "'k list \<Rightarrow> ('k, 'v) cache \<Rightarrow> (('k, 'v) cache \<times> ('k \<rightharpoonup> 'v)) option" where
  "query ks c = query_loop ks c Map.empty"

text \<open>
  \<open>Evict\<close>: the loop ends with the list or when the count is used up; the number of entries that
  could not be evicted decides the status. A negative count evicts nothing and is an error.
\<close>

fun evict_loop :: "nat \<Rightarrow> ('k, 'v) cache \<Rightarrow> (('k, 'v) cache \<times> nat) option" where
  "evict_loop 0 c = Some (c, 0)"
| "evict_loop (Suc n) c =
     do {
       t \<leftarrow> tail_node (ch_dll c);
       (case t of
          None \<Rightarrow> Some (c, Suc n)
        | Some a \<Rightarrow>
            do {
              (k, v) \<leftarrow> data_of (dl_store (ch_dll c)) a;
              l \<leftarrow> remove_node a (ch_dll c);
              evict_loop n
                (c\<lparr>ch_nodes := (ch_nodes c)(k := None), ch_dll := l,
                   ch_num_entries := ch_num_entries c - 1\<rparr>)
            })
     }"

definition evict :: "int \<Rightarrow> ('k, 'v) cache \<Rightarrow> (('k, 'v) cache \<times> status) option" where
  "evict n c =
     (if n < 0 then Some (c, internal_error ''No more entries to evict'')
      else do {
        (c', left) \<leftarrow> evict_loop (nat n) c;
        Some (c', if left = 0 then ok_status else internal_error ''No more entries to evict'')
      })"

text \<open>
  An \<open>int\<close>, a \<open>size_t\<close> and an \<open>int\<close> added at 64 bits and stored in an \<open>int\<close>: the overflow.
\<close>

definition overflow_count :: "int \<Rightarrow> nat \<Rightarrow> int \<Rightarrow> int" where
  "overflow_count num n capacity = signed_take_bit 31 ((num + int n - capacity) mod 2 ^ 64)"

text \<open>The insertion loop stops once the cache is full, but only after it has added an entry.\<close>

fun insert_loop :: "('k \<times> 'v) list \<Rightarrow> ('k, 'v) cache \<Rightarrow> ('k, 'v) cache option" where
  "insert_loop [] c = Some c"
| "insert_loop ((k, v) # es) c =
     (case ch_nodes c k of
        Some a \<Rightarrow>
          do {
            l \<leftarrow> move_to_front a (ch_dll c);
            insert_loop es (c\<lparr>ch_dll := l\<rparr>)
          }
      | None \<Rightarrow>
          do {
            (l, a) \<leftarrow> insert_at_front (k, v) (ch_dll c);
            (let c' = c\<lparr>ch_dll := l, ch_nodes := (ch_nodes c)(k \<mapsto> a),
                        ch_num_entries := ch_num_entries c + 1\<rparr>
             in if ch_num_entries c' = ch_capacity c then Some c' else insert_loop es c')
          })"

definition insert_entries :: "('k \<times> 'v) list \<Rightarrow> ('k, 'v) cache \<Rightarrow> ('k, 'v) cache option" where
  "insert_entries es c =
     (let overflow = overflow_count (ch_num_entries c) (length es) (ch_capacity c)
      in do {
        c' \<leftarrow> (if overflow > 0 then map_option fst (evict overflow c) else Some c);
        insert_loop es c'
      })"

text \<open>The callback of a timer that fired.\<close>

definition expire :: "'k \<Rightarrow> ('k, 'v) cache \<Rightarrow> ('k, 'v) cache option" where
  "expire k c =
     (case ch_nodes c k of
        None \<Rightarrow> Some c
      | Some a \<Rightarrow>
          do {
            l \<leftarrow> remove_node a (ch_dll c);
            Some (c\<lparr>ch_nodes := (ch_nodes c)(k := None), ch_dll := l,
                  ch_num_entries := ch_num_entries c - 1\<rparr>)
          })"

section \<open>Specification: a list of entries, most recent first\<close>

type_synonym ('k, 'v) recency = "('k \<times> 'v) list"

definition drop_key :: "'k \<Rightarrow> ('k, 'v) recency \<Rightarrow> ('k, 'v) recency" where
  "drop_key k es = filter (\<lambda>e. fst e \<noteq> k) es"

definition touch :: "'k \<Rightarrow> ('k, 'v) recency \<Rightarrow> ('k, 'v) recency" where
  "touch k es = (case map_of es k of None \<Rightarrow> es | Some v \<Rightarrow> (k, v) # drop_key k es)"

fun insert_spec :: "int \<Rightarrow> ('k \<times> 'v) list \<Rightarrow> ('k, 'v) recency \<Rightarrow> ('k, 'v) recency" where
  "insert_spec capacity [] s = s"
| "insert_spec capacity ((k, v) # es) s =
     (case map_of s k of
        Some w \<Rightarrow> insert_spec capacity es (touch k s)
      | None \<Rightarrow>
          (let s' = (k, v) # s
           in if int (length s') = capacity then s' else insert_spec capacity es s'))"

definition evict_spec :: "nat \<Rightarrow> ('k, 'v) recency \<Rightarrow> ('k, 'v) recency" where
  "evict_spec n s = take (length s - n) s"

section \<open>The refinement\<close>

definition refines :: "('k, 'v) cache \<Rightarrow> ('k, 'v) recency \<Rightarrow> bool" where
  "refines c s \<longleftrightarrow>
     distinct (map fst s) \<and> ch_num_entries c = int (length s)
     \<and> (\<exists>as. dll_repr (ch_dll c) as \<and> map (data_of (dl_store (ch_dll c))) as = map Some s
          \<and> ch_nodes c = map_of (zip (map fst s) as))"

lemma refines_new [simp]: "refines (new_cache capacity) []"
  by (auto simp: refines_def new_cache_def intro!: exI [of _ "[]"])

text \<open>The node of a key, and the entry at that place of the specification.\<close>

lemma map_of_zip_split:
  assumes "distinct ks" and "length ks = length as" and "map_of (zip ks as) k = Some a"
  obtains ks1 ks2 as1 as2 where "ks = ks1 @ k # ks2" "as = as1 @ a # as2" "length ks1 = length as1"
proof -
  from assms obtain i where i: "i < length ks" "ks ! i = k" "as ! i = a"
    by (auto simp: map_of_zip_nth in_set_zip dest!: map_of_SomeD)
  show thesis
    by (rule that [of "take i ks" "drop (Suc i) ks" "take i as" "drop (Suc i) as"])
       (use i assms(2) id_take_nth_drop [of i ks] id_take_nth_drop [of i as] in auto)
qed

lemma zip_drop_key:
  assumes "distinct (ks1 @ k # ks2)" and "length ks1 = length as1" and "length ks2 = length as2"
  shows "map_of (zip (ks1 @ ks2) (as1 @ as2))
       = (map_of (zip (ks1 @ k # ks2) (as1 @ a # as2)))(k := None)"
    and "map_of (zip (k # ks1 @ ks2) (a # as1 @ as2))
       = map_of (zip (ks1 @ k # ks2) (as1 @ a # as2))"
proof -
  let ?m = "map_of (zip ks2 as2) ++ map_of (zip ks1 as1)"
  have k: "k \<notin> dom (map_of (zip ks1 as1))" "k \<notin> dom ?m"
    using assms by (simp_all add: dom_map_of_zip)
  have "map_of (zip (ks1 @ k # ks2) (as1 @ a # as2)) = ?m(k \<mapsto> a)"
    using assms(2) by (simp add: map_add_upd_left [OF k(1)])
  moreover have "?m(k := None) = ?m"
    using k(2) by (simp add: domIff fun_upd_idem)
  ultimately show "map_of (zip (ks1 @ ks2) (as1 @ as2))
       = (map_of (zip (ks1 @ k # ks2) (as1 @ a # as2)))(k := None)"
    and "map_of (zip (k # ks1 @ ks2) (a # as1 @ as2))
       = map_of (zip (ks1 @ k # ks2) (as1 @ a # as2))"
    using assms(2) by simp_all
qed

lemma drop_key_middle:
  assumes "k \<notin> fst ` set s1" and "k \<notin> fst ` set s2"
  shows "drop_key k (s1 @ (k, v) # s2) = s1 @ s2"
proof -
  have "filter (\<lambda>e. fst e \<noteq> k) s1 = s1" "filter (\<lambda>e. fst e \<noteq> k) s2 = s2"
    using assms by (auto intro!: filter_True)
  then show ?thesis by (simp add: drop_key_def)
qed

lemma refines_lookup:
  assumes "refines c s"
  shows "ch_nodes c k = None \<longleftrightarrow> map_of s k = None"
    and "ch_nodes c k = Some a \<Longrightarrow> \<exists>s1 v s2 as1 as2. s = s1 @ (k, v) # s2 \<and> length s1 = length as1
        \<and> length s2 = length as2 \<and> drop_key k s = s1 @ s2 \<and> map_of s k = Some v
        \<and> dll_repr (ch_dll c) (as1 @ a # as2)
        \<and> map (data_of (dl_store (ch_dll c))) (as1 @ a # as2) = map Some s
        \<and> ch_nodes c = map_of (zip (map fst s) (as1 @ a # as2))"
proof -
  obtain as where as: "dll_repr (ch_dll c) as" "map (data_of (dl_store (ch_dll c))) as = map Some s"
    "ch_nodes c = map_of (zip (map fst s) as)" and dist: "distinct (map fst s)"
    using assms by (auto simp: refines_def)
  have len: "length as = length s" using as(2) by (metis length_map)
  have "dom (ch_nodes c) = fst ` set s" using as(3) len by (simp add: dom_map_of_zip)
  then show "ch_nodes c k = None \<longleftrightarrow> map_of s k = None"
    by (metis domIff map_of_eq_None_iff)
  assume "ch_nodes c k = Some a"
  then obtain ks1 ks2 as1 as2 where sp: "map fst s = ks1 @ k # ks2" "as = as1 @ a # as2"
    "length ks1 = length as1"
    using map_of_zip_split [OF dist, of as k a] as(3) len by (metis length_map)
  then obtain s1 v s2 where s: "s = s1 @ (k, v) # s2" "map fst s1 = ks1" "map fst s2 = ks2"
    by (auto simp: map_eq_append_conv map_eq_Cons_conv)
  have k: "k \<notin> fst ` set s1" "k \<notin> fst ` set s2" using dist by (auto simp: s(1))
  then have "drop_key k s = s1 @ s2" by (simp add: drop_key_middle s)
  moreover have "map_of s k = Some v"
    using k(1) by (simp add: s map_add_Some_iff map_of_eq_None_iff)
  moreover have "length s1 = length as1" "length s2 = length as2"
    using sp s len by auto
  ultimately show "\<exists>s1 v s2 as1 as2. s = s1 @ (k, v) # s2 \<and> length s1 = length as1
        \<and> length s2 = length as2 \<and> drop_key k s = s1 @ s2 \<and> map_of s k = Some v
        \<and> dll_repr (ch_dll c) (as1 @ a # as2)
        \<and> map (data_of (dl_store (ch_dll c))) (as1 @ a # as2) = map Some s
        \<and> ch_nodes c = map_of (zip (map fst s) (as1 @ a # as2))"
    using as s sp by blast
qed

text \<open>Moving an entry to the front, removing it, and adding a new one.\<close>

lemma refines_touch:
  assumes r: "refines c s" and a: "ch_nodes c k = Some a"
  shows "\<exists>l v. move_to_front a (ch_dll c) = Some l \<and> data_of (dl_store l) a = Some (k, v)
    \<and> map_of s k = Some v \<and> refines (c\<lparr>ch_dll := l\<rparr>) (touch k s)"
proof -
  obtain s1 v s2 as1 as2 where sp: "s = s1 @ (k, v) # s2" "length s1 = length as1"
    "length s2 = length as2" "drop_key k s = s1 @ s2" "map_of s k = Some v"
    "dll_repr (ch_dll c) (as1 @ a # as2)"
    "map (data_of (dl_store (ch_dll c))) (as1 @ a # as2) = map Some s"
    "ch_nodes c = map_of (zip (map fst s) (as1 @ a # as2))"
    using refines_lookup(2) [OF r a] by blast
  obtain l where l: "move_to_front a (ch_dll c) = Some l" "dll_repr l (a # as1 @ as2)"
    "map (data_of (dl_store l)) (a # as1 @ as2) = map Some ((k, v) # s1 @ s2)"
    by (rule dll.front_items [OF sp(6) sp(7) [unfolded sp(1)] sp(2) [symmetric]])
  have t: "touch k s = (k, v) # s1 @ s2" using sp by (simp add: touch_def)
  have dist: "distinct (map fst s)" "ch_num_entries c = int (length s)" using r by (simp_all add: refines_def)
  have "ch_nodes c = map_of (zip (map fst (touch k s)) (a # as1 @ as2))"
    unfolding t using zip_drop_key(2) [of "map fst s1" k "map fst s2" as1 as2 a] dist(1) sp(1-3,8)
    by simp
  then have "refines (c\<lparr>ch_dll := l\<rparr>) (touch k s)"
    using l(2,3) dist sp(1) unfolding refines_def t by (intro conjI exI [of _ "a # as1 @ as2"]) auto
  then show ?thesis using l sp(5) by auto
qed

lemma refines_remove:
  assumes r: "refines c s" and a: "ch_nodes c k = Some a"
  shows "\<exists>l. remove_node a (ch_dll c) = Some l
    \<and> refines (c\<lparr>ch_nodes := (ch_nodes c)(k := None), ch_dll := l,
                  ch_num_entries := ch_num_entries c - 1\<rparr>) (drop_key k s)"
proof -
  obtain s1 v s2 as1 as2 where sp: "s = s1 @ (k, v) # s2" "length s1 = length as1"
    "length s2 = length as2" "drop_key k s = s1 @ s2" "map_of s k = Some v"
    "dll_repr (ch_dll c) (as1 @ a # as2)"
    "map (data_of (dl_store (ch_dll c))) (as1 @ a # as2) = map Some s"
    "ch_nodes c = map_of (zip (map fst s) (as1 @ a # as2))"
    using refines_lookup(2) [OF r a] by blast
  obtain l where l: "remove_node a (ch_dll c) = Some l" "dll_repr l (as1 @ as2)"
    "map (data_of (dl_store l)) (as1 @ as2) = map Some (s1 @ s2)"
    by (rule dll.del_items [OF sp(6) sp(7) [unfolded sp(1)] sp(2) [symmetric]])
  have dist: "distinct (map fst s)" "ch_num_entries c = int (length s)" using r by (simp_all add: refines_def)
  have "(ch_nodes c)(k := None) = map_of (zip (map fst (s1 @ s2)) (as1 @ as2))"
    using zip_drop_key(1) [of "map fst s1" k "map fst s2" as1 as2 a] dist(1) sp by simp
  then show ?thesis
    using l dist sp(1) unfolding refines_def sp(4)
    by (intro exI [of _ l] conjI exI [of _ "as1 @ as2"]) auto
qed

lemma refines_add:
  assumes r: "refines c s" and k: "ch_nodes c k = None"
  shows "\<exists>l a. insert_at_front (k, v) (ch_dll c) = Some (l, a)
    \<and> refines (c\<lparr>ch_dll := l, ch_nodes := (ch_nodes c)(k \<mapsto> a),
                  ch_num_entries := ch_num_entries c + 1\<rparr>) ((k, v) # s)"
proof -
  obtain as where as: "dll_repr (ch_dll c) as" "map (data_of (dl_store (ch_dll c))) as = map Some s"
    "ch_nodes c = map_of (zip (map fst s) as)" "distinct (map fst s)" "ch_num_entries c = int (length s)"
    using r by (auto simp: refines_def)
  obtain l a where l: "insert_at_front (k, v) (ch_dll c) = Some (l, a)" "dll_repr l (a # as)"
    "map (data_of (dl_store l)) (a # as) = map Some ((k, v) # s)"
    by (rule dll.ins_items [OF as(1,2)])
  have "k \<notin> fst ` set s" using refines_lookup(1) [OF r] k by (simp add: map_of_eq_None_iff)
  then show ?thesis
    using l as unfolding refines_def
    by (intro exI [of _ l] exI [of _ a] conjI exI [of _ "a # as"]) auto
qed

section \<open>The operations implement the specification\<close>

text \<open>A query returns the entries of the keys that are present, and makes them the most recent.\<close>

lemma map_of_drop_key: "map_of (drop_key k s) x = (if x = k then None else map_of s x)"
  by (induction s) (auto simp: drop_key_def)

lemma map_of_touch [simp]: "map_of (touch k s) = map_of s"
  by (auto simp: touch_def map_of_drop_key fun_eq_iff split: option.split)

lemma query_loop_refines:
  "refines c s \<Longrightarrow>
     \<exists>c'. query_loop ks c found
        = Some (c', \<lambda>k. case found k of Some v \<Rightarrow> Some v | None \<Rightarrow> if k \<in> set ks then map_of s k else None)
      \<and> refines c' (fold touch ks s) \<and> ch_capacity c' = ch_capacity c"
proof (induction ks arbitrary: c s found)
  case Nil
  then show ?case by (auto simp: fun_eq_iff split: option.split)
next
  case (Cons k ks)
  show ?case
  proof (cases "ch_nodes c k")
    case None
    then have "map_of s k = None" using refines_lookup(1) [OF Cons.prems] by simp
    then have "touch k s = s" by (simp add: touch_def)
    with \<open>map_of s k = None\<close> None Cons.IH [OF Cons.prems, of found] show ?thesis
      by (fastforce simp: fun_eq_iff split: option.split)
  next
    case (Some a)
    obtain l v where l: "move_to_front a (ch_dll c) = Some l" "data_of (dl_store l) a = Some (k, v)"
      "map_of s k = Some v" "refines (c\<lparr>ch_dll := l\<rparr>) (touch k s)"
      using refines_touch [OF Cons.prems Some] by blast
    from Cons.IH [OF l(4), of "fst (try_emplace k v found)"] Some l show ?thesis
      by (fastforce simp: fun_eq_iff try_emplace_def split: option.split)
  qed
qed

lemma query_refines:
  assumes "refines c s"
  shows "\<exists>c'. query ks c = Some (c', \<lambda>k. if k \<in> set ks then map_of s k else None)
    \<and> refines c' (fold touch ks s) \<and> ch_capacity c' = ch_capacity c"
  using query_loop_refines [OF assms, of ks Map.empty] by (simp add: query_def)

lemma expire_refines:
  assumes "refines c s"
  shows "\<exists>c'. expire k c = Some c' \<and> refines c' (drop_key k s) \<and> ch_capacity c' = ch_capacity c"
proof (cases "ch_nodes c k")
  case None
  then have "k \<notin> fst ` set s" using refines_lookup(1) [OF assms] by (simp add: map_of_eq_None_iff)
  then have "drop_key k s = s" by (auto simp: drop_key_def intro!: filter_True)
  then show ?thesis using None assms by (simp add: expire_def)
next
  case (Some a)
  then show ?thesis using refines_remove [OF assms Some] by (auto simp: expire_def)
qed

lemma insert_loop_refines:
  "refines c s \<Longrightarrow>
     \<exists>c'. insert_loop es c = Some c' \<and> refines c' (insert_spec (ch_capacity c) es s)
      \<and> ch_capacity c' = ch_capacity c"
proof (induction es arbitrary: c s)
  case Nil
  then show ?case by simp
next
  case (Cons e es)
  obtain k v where e: "e = (k, v)" by fastforce
  show ?case
  proof (cases "ch_nodes c k")
    case None
    then have mk: "map_of s k = None" using refines_lookup(1) [OF Cons.prems] by simp
    obtain l a where la: "insert_at_front (k, v) (ch_dll c) = Some (l, a)"
      "refines (c\<lparr>ch_dll := l, ch_nodes := (ch_nodes c)(k \<mapsto> a),
                  ch_num_entries := ch_num_entries c + 1\<rparr>) ((k, v) # s)"
      using refines_add [OF Cons.prems None] by blast
    have "ch_num_entries c = int (length s)" using Cons.prems by (simp add: refines_def)
    then show ?thesis using None mk la Cons.IH [OF la(2)] by (auto simp: e Let_def)
  next
    case (Some a)
    obtain l v' where l: "move_to_front a (ch_dll c) = Some l" "map_of s k = Some v'"
      "refines (c\<lparr>ch_dll := l\<rparr>) (touch k s)"
      using refines_touch [OF Cons.prems Some] by blast
    then show ?thesis using Some Cons.IH [OF l(3)] by (auto simp: e)
  qed
qed

lemma evict_loop_refines:
  "refines c s \<Longrightarrow>
     \<exists>c'. evict_loop n c = Some (c', n - length s) \<and> refines c' (evict_spec n s)
      \<and> ch_capacity c' = ch_capacity c"
proof (induction n arbitrary: c s)
  case 0
  then show ?case by (simp add: evict_spec_def)
next
  case (Suc n)
  obtain as where as: "dll_repr (ch_dll c) as" "map (data_of (dl_store (ch_dll c))) as = map Some s"
    "ch_nodes c = map_of (zip (map fst s) as)" "distinct (map fst s)"
    using Suc.prems by (auto simp: refines_def)
  have len: "length as = length s" using as(2) by (metis length_map)
  show ?case
  proof (cases s rule: rev_cases)
    case Nil
    then show ?thesis
      using as len Suc.prems dll.oldest_law [OF as(1)] by (simp add: evict_spec_def)
  next
    case (snoc s' e)
    obtain k v where e: "e = (k, v)" by fastforce
    obtain as' a where asn: "as = as' @ [a]" using len snoc by (cases as rule: rev_cases) auto
    have "ch_nodes c k = Some a"
      using as(3,4) len by (simp add: snoc e asn map_add_Some_iff map_of_eq_None_iff)
        (auto dest: set_zip_leftD)
    from refines_remove [OF Suc.prems this] obtain l where l: "remove_node a (ch_dll c) = Some l"
      "refines (c\<lparr>ch_nodes := (ch_nodes c)(k := None), ch_dll := l,
                  ch_num_entries := ch_num_entries c - 1\<rparr>) (drop_key k s)"
      by blast
    have "k \<notin> fst ` set s'" using as(4) by (simp add: snoc e)
    then have dk: "drop_key k s = s'"
      by (auto simp: drop_key_def snoc e intro!: filter_True)
    have "tail_node (ch_dll c) = Some (Some a)"
      using dll.oldest_law [OF as(1)] by (simp add: asn)
    moreover have "data_of (dl_store (ch_dll c)) a = Some (k, v)"
      using as(2) by (simp add: asn snoc e)
    ultimately show ?thesis
      using l Suc.IH [OF l(2) [unfolded dk]] by (auto simp: evict_spec_def snoc)
  qed
qed

text \<open>Insertion: make room for all the new entries first, then enter them.\<close>

definition insert_reference :: "int \<Rightarrow> ('k \<times> 'v) list \<Rightarrow> ('k, 'v) recency \<Rightarrow> ('k, 'v) recency" where
  "insert_reference capacity es s =
     insert_spec capacity es
       (evict_spec (nat (overflow_count (int (length s)) (length es) capacity)) s)"

lemma insert_refines:
  assumes "refines c s"
  shows "\<exists>c'. insert_entries es c = Some c' \<and> refines c' (insert_reference (ch_capacity c) es s)
    \<and> ch_capacity c' = ch_capacity c"
proof -
  let ?o = "overflow_count (ch_num_entries c) (length es) (ch_capacity c)"
  have num: "ch_num_entries c = int (length s)" using assms by (simp add: refines_def)
  obtain c1 where c1: "(if ?o > 0 then map_option fst (evict ?o c) else Some c) = Some c1"
    "refines c1 (evict_spec (nat ?o) s)" "ch_capacity c1 = ch_capacity c"
  proof (cases "?o > 0")
    case True
    from evict_loop_refines [OF assms, of "nat ?o"] obtain c1 where
      "evict_loop (nat ?o) c = Some (c1, nat ?o - length s)" "refines c1 (evict_spec (nat ?o) s)"
      "ch_capacity c1 = ch_capacity c"
      by blast
    then show thesis using True by (intro that [of c1]) (simp_all add: evict_def)
  next
    case False
    then show thesis using assms by (intro that [of c]) (simp_all add: evict_spec_def)
  qed
  have "insert_entries es c = insert_loop es c1"
    by (simp add: insert_entries_def Let_def c1(1))
  then show ?thesis
    using insert_loop_refines [OF c1(2), of es] by (simp add: insert_reference_def c1(3) num)
qed

section \<open>What the specification promises\<close>

lemma overflow_count_small:
  assumes "\<bar>num + int n - capacity\<bar> < 2 ^ 31"
  shows "overflow_count num n capacity = num + int n - capacity"
proof -
  let ?x = "num + int n - capacity"
  have "signed_take_bit 31 (?x mod 2 ^ 64) = signed_take_bit 31 (take_bit 64 ?x)"
    by (simp add: take_bit_eq_mod)
  also have "\<dots> = signed_take_bit 31 ?x" by (simp add: signed_take_bit_take_bit)
  also have "\<dots> = ?x" using assms by (intro signed_take_bit_int_eq_self) auto
  finally show ?thesis by (simp add: overflow_count_def)
qed

lemma length_drop_key: "length (drop_key k s) \<le> length s"
  by (simp add: drop_key_def)

lemma length_touch:
  assumes "distinct (map fst s)"
  shows "length (touch k s) = length s \<and> distinct (map fst (touch k s))"
proof (cases "map_of s k")
  case None
  then show ?thesis using assms by (simp add: touch_def)
next
  case (Some v)
  then obtain s1 s2 where s: "s = s1 @ (k, v) # s2" by (metis map_of_SomeD split_list)
  then have "drop_key k s = s1 @ s2"
    using assms drop_key_middle [of k s1 s2 v] by auto
  then show ?thesis using Some assms by (auto simp: touch_def s)
qed

text \<open>The cache never holds more entries than its (positive) capacity.\<close>

lemma insert_spec_bounded:
  "distinct (map fst s) \<Longrightarrow> 0 < capacity \<Longrightarrow> int (length s) \<le> capacity \<Longrightarrow>
     (int (length s) = capacity \<longrightarrow> (\<forall>e \<in> set es. map_of s (fst e) \<noteq> None)) \<Longrightarrow>
     int (length (insert_spec capacity es s)) \<le> capacity"
proof (induction capacity es s rule: insert_spec.induct)
  case (2 capacity k v es s)
  show ?case
  proof (cases "map_of s k")
    case None
    then have "k \<notin> fst ` set s" by (simp add: map_of_eq_None_iff)
    then show ?thesis using 2 None by (auto simp: Let_def)
  next
    case (Some w)
    show ?thesis
      using "2.IH"(2) [OF Some] length_touch [OF "2.prems"(1), of k] "2.prems" Some by auto
  qed
qed simp

lemma length_evict_spec: "length (evict_spec n s) = length s - n"
  by (simp add: evict_spec_def)

lemma insert_reference_bounded:
  assumes "distinct (map fst s)" and "0 < capacity" and "int (length s) \<le> capacity"
    and "int (length s) + int (length es) < 2 ^ 31" and "capacity < 2 ^ 31"
  shows "int (length (insert_reference capacity es s)) \<le> capacity"
proof -
  have o: "overflow_count (int (length s)) (length es) capacity = int (length s) + int (length es) - capacity"
    using assms by (intro overflow_count_small) auto
  let ?s = "evict_spec (nat (int (length s) + int (length es) - capacity)) s"
  have d: "distinct (map fst ?s)"
    using assms(1) by (simp add: evict_spec_def flip: take_map)
  have len: "length ?s = length s - nat (int (length s) + int (length es) - capacity)"
    by (rule length_evict_spec)
  have full: "es = []" if "int (length ?s) = capacity"
    using that assms(2,3) len by (cases es) auto
  show ?thesis
    unfolding insert_reference_def o
    by (rule insert_spec_bounded [OF d assms(2)]) (use len assms full in auto)
qed

text \<open>A batch that fits the capacity is stored whole: keys that were present keep their value.\<close>

lemma insert_spec_lookup:
  "int (length s) + int (length es) \<le> capacity \<Longrightarrow> distinct (map fst s) \<Longrightarrow>
     map_of (insert_spec capacity es s) k
       = (case map_of s k of Some v \<Rightarrow> Some v | None \<Rightarrow> map_of es k)"
proof (induction capacity es s rule: insert_spec.induct)
  case (1 capacity s)
  then show ?case by (simp split: option.split)
next
  case (2 capacity k' v es s)
  show ?case
  proof (cases "map_of s k'")
    case None
    then have fresh: "k' \<notin> fst ` set s" by (simp add: map_of_eq_None_iff)
    show ?thesis
    proof (cases "es = []")
      case True
      then show ?thesis using None by (auto simp: Let_def split: option.split)
    next
      case False
      then have "int (length ((k', v) # s)) \<noteq> capacity"
        using "2.prems"(1) by (cases es) auto
      then show ?thesis
        using "2.IH"(1) [OF None refl] "2.prems" None fresh by (auto simp: Let_def split: option.split)
    qed
  next
    case (Some w)
    then show ?thesis
      using "2.IH"(2) [OF Some] length_touch [OF "2.prems"(2), of k'] "2.prems" Some
      by (auto split: option.split)
  qed
qed

section \<open>Sequences of operations\<close>

text \<open>
  What threads and timers do to a cache: the locked sections run one after the other, in any order.
\<close>

datatype ('k, 'v) cache_op = Query_op "'k list" | Insert_op "('k \<times> 'v) list" | Expire_op 'k

fun run_op :: "('k, 'v) cache_op \<Rightarrow> ('k, 'v) cache \<Rightarrow> ('k, 'v) cache option" where
  "run_op (Query_op ks) c = map_option fst (query ks c)"
| "run_op (Insert_op es) c = insert_entries es c"
| "run_op (Expire_op k) c = expire k c"

fun run_ops :: "('k, 'v) cache_op list \<Rightarrow> ('k, 'v) cache \<Rightarrow> ('k, 'v) cache option" where
  "run_ops [] c = Some c"
| "run_ops (op # ops) c = do { c' \<leftarrow> run_op op c; run_ops ops c' }"

fun spec_op :: "int \<Rightarrow> ('k, 'v) cache_op \<Rightarrow> ('k, 'v) recency \<Rightarrow> ('k, 'v) recency" where
  "spec_op capacity (Query_op ks) s = fold touch ks s"
| "spec_op capacity (Insert_op es) s = insert_reference capacity es s"
| "spec_op capacity (Expire_op k) s = drop_key k s"

definition spec_ops :: "int \<Rightarrow> ('k, 'v) cache_op list \<Rightarrow> ('k, 'v) recency" where
  "spec_ops capacity ops = fold (spec_op capacity) ops []"

lemma run_op_refines:
  assumes "refines c s"
  shows "\<exists>c'. run_op op c = Some c' \<and> refines c' (spec_op (ch_capacity c) op s)
    \<and> ch_capacity c' = ch_capacity c"
  using query_refines [OF assms] insert_refines [OF assms] expire_refines [OF assms]
  by (cases op) fastforce+

lemma run_ops_refines:
  "refines c s \<Longrightarrow>
     \<exists>c'. run_ops ops c = Some c' \<and> refines c' (fold (spec_op (ch_capacity c)) ops s)
      \<and> ch_capacity c' = ch_capacity c"
proof (induction ops arbitrary: c s)
  case (Cons op ops)
  obtain c1 where c1: "run_op op c = Some c1" "refines c1 (spec_op (ch_capacity c) op s)"
    "ch_capacity c1 = ch_capacity c"
    using run_op_refines [OF Cons.prems] by blast
  from Cons.IH [OF c1(2)] c1 show ?case by simp
qed simp

text \<open>The batches of a sequence are small enough for 32-bit counts.\<close>

definition small_op :: "int \<Rightarrow> ('k, 'v) cache_op \<Rightarrow> bool" where
  "small_op capacity op \<longleftrightarrow>
     (case op of Insert_op es \<Rightarrow> capacity + int (length es) < 2 ^ 31 | _ \<Rightarrow> True)"

lemma fold_touch: "distinct (map fst s) \<Longrightarrow>
    length (fold touch ks s) = length s \<and> distinct (map fst (fold touch ks s))"
  by (induction ks arbitrary: s) (simp_all add: length_touch)

lemma spec_op_bounded:
  assumes "distinct (map fst s)" and "0 < capacity" and "int (length s) \<le> capacity"
    and "small_op capacity op"
  shows "int (length (spec_op capacity op s)) \<le> capacity"
proof (cases op)
  case (Insert_op es)
  then show ?thesis
    using insert_reference_bounded [OF assms(1-3), of es] assms(2-4) by (simp add: small_op_def)
qed (use assms fold_touch [OF assms(1)] length_drop_key [of _ s] in \<open>auto intro: order_trans [rotated]\<close>)

lemma run_ops_bounded:
  "refines c s \<Longrightarrow> int (length s) \<le> ch_capacity c \<Longrightarrow> 0 < ch_capacity c \<Longrightarrow>
     list_all (small_op (ch_capacity c)) ops \<Longrightarrow> run_ops ops c = Some c' \<Longrightarrow>
     ch_num_entries c' \<le> ch_capacity c"
proof (induction ops arbitrary: c s)
  case Nil
  then show ?case by (auto simp: refines_def)
next
  case (Cons op ops)
  obtain c1 where c1: "run_op op c = Some c1" "refines c1 (spec_op (ch_capacity c) op s)"
    "ch_capacity c1 = ch_capacity c"
    using run_op_refines [OF Cons.prems(1)] by blast
  have "distinct (map fst s)" using Cons.prems(1) by (simp add: refines_def)
  then have "int (length (spec_op (ch_capacity c) op s)) \<le> ch_capacity c"
    using Cons.prems by (intro spec_op_bounded) auto
  with Cons.IH [OF c1(2)] Cons.prems c1 show ?case by simp
qed

end
