(* ===== verification/Seller_Types.thy ===== *)
theory Seller_Types
  imports Private_Aggregation
begin

text \<open>
  The messages of \<open>api/bidding_auction_servers.proto\<close> that the seller front end reads and writes:
  SelectAd requests, the inputs of buyers, GetBids requests and responses. The conventions are those of
  \<open>Auction_Types\<close>. Encodings (gzip, CBOR, protobuf's wire format, HPKE) are third-party code.
\<close>

datatype client_type = CLIENT_TYPE_UNKNOWN | CLIENT_TYPE_ANDROID | CLIENT_TYPE_BROWSER

section \<open>SelectAd requests\<close>

record buyer_blob_versions =
  bbv_protected_audience_generate_bid_udf :: string
  bbv_protected_app_signals_generate_bid_udf :: string
  bbv_prepare_data_for_ad_retrieval_udf :: string
  bbv_egress_schema :: string
  bbv_temporary_unlimited_egress_schema :: string

record contextual_pas_data =
  cpd_ad_render_ids :: "string list"
  cpd_fetch_ads_from_retrieval_service :: bool

record per_buyer_config =
  pbc_buyer_signals :: string
  pbc_buyer_kv_experiment_group_id :: "int option"
  pbc_buyer_debug_id :: string
  pbc_buyer_currency :: string
  pbc_contextual_pas_data :: "contextual_pas_data option"
  pbc_multi_bid_limit :: int
  pbc_priority_signals_overrides :: string
  pbc_blob_versions :: "buyer_blob_versions option"

record seller_code_experiment =
  sce_seller_kv_experiment_group_id :: "int option"
  sce_score_ad_version :: string

record auction_config =
  ac_seller_signals :: string
  ac_auction_signals :: string
  ac_buyer_list :: "string list"
  ac_seller :: string
  ac_per_buyer_config :: "(string \<times> per_buyer_config) list"
  ac_code_experiment_spec :: "seller_code_experiment option"
  ac_seller_debug_id :: string
  ac_buyer_timeout_ms :: int
  ac_top_level_seller :: string
  ac_seller_currency :: string
  ac_top_level_cloud_platform :: encryption_cloud_platform
  ac_per_component_seller_currency :: "(string \<times> string) list"
  ac_priority_signals :: string
  ac_ad_auction_result_nonce :: string

definition default_auction_config :: auction_config where
  "default_auction_config =
     \<lparr>ac_seller_signals = [], ac_auction_signals = [], ac_buyer_list = [], ac_seller = [],
      ac_per_buyer_config = [], ac_code_experiment_spec = None, ac_seller_debug_id = [],
      ac_buyer_timeout_ms = 0, ac_top_level_seller = [], ac_seller_currency = [],
      ac_top_level_cloud_platform = ENCRYPTION_CLOUD_PLATFORM_UNSPECIFIED,
      ac_per_component_seller_currency = [], ac_priority_signals = [],
      ac_ad_auction_result_nonce = []\<rparr>"

record encrypted_auction_result =
  ear_auction_result_ciphertext :: string
  ear_key_id :: string

record select_ad_request =
  sr_protected_audience_ciphertext :: string
  sr_auction_config :: "auction_config option"
  sr_client_type :: client_type
  sr_protected_auction_ciphertext :: string
  sr_component_auction_results :: "encrypted_auction_result list"
  sr_compressed_auction_config :: "string option"

text \<open>The field \<open>auction_config\<close> of the request, which reads as the default instance when it is not set.\<close>

definition request_auction_config :: "select_ad_request \<Rightarrow> auction_config" where
  "request_auction_config rq =
     (case sr_auction_config rq of None \<Rightarrow> default_auction_config | Some c \<Rightarrow> c)"

text \<open>
  \<open>ProtectedAudienceInput\<close> and \<open>ProtectedAuctionInput\<close> have the same fields; the code treats the two
  alternatives of the variant alike. The debug configuration is a message of another repository and
  kept as it came.
\<close>

record protected_input =
  pi_buyer_input :: "(string \<times> string) list"
  pi_publisher_name :: string
  pi_enable_debug_reporting :: bool
  pi_generation_id :: string
  pi_consented_debug_config :: "string option"
  pi_enable_unlimited_egress :: bool
  pi_num_k_anon_ghost_winners :: int
  pi_enforce_kanon :: bool
  pi_fdo_flags :: fdo_flags

definition default_protected_input :: protected_input where
  "default_protected_input =
     \<lparr>pi_buyer_input = [], pi_publisher_name = [], pi_enable_debug_reporting = False,
      pi_generation_id = [], pi_consented_debug_config = None, pi_enable_unlimited_egress = False,
      pi_num_k_anon_ghost_winners = 0, pi_enforce_kanon = False,
      pi_fdo_flags = \<lparr>fdo_enable_sampled_debug_reporting = False,
        fdo_in_cooldown_or_lockout = False\<rparr>\<rparr>"

section \<open>Inputs of buyers\<close>

record browser_signals =
  bs_join_count :: int
  bs_bid_count :: int
  bs_recency :: int
  bs_prev_wins :: string
  bs_recency_ms :: "int option"

record browser_signals_for_bidding = browser_signals +
  bs_prev_wins_ms :: "string option"

datatype 'b device_signals_of = No_device_signals | Android_signals | Browser_signals 'b

record 'b interest_group_of =
  ig_name :: string
  ig_bidding_signals_keys :: "string list"
  ig_ad_render_ids :: "string list"
  ig_component_ads :: "string list"
  ig_user_bidding_signals :: string
  ig_device_signals :: "'b device_signals_of"
  ig_origin :: string

type_synonym interest_group = "browser_signals interest_group_of"
type_synonym interest_group_for_bidding = "browser_signals_for_bidding interest_group_of"

record protected_app_signals =
  pas_app_install_signals :: string
  pas_encoding_version :: int

definition no_protected_app_signals :: protected_app_signals where
  "no_protected_app_signals = \<lparr>pas_app_install_signals = [], pas_encoding_version = 0\<rparr>"

record 'b buyer_input_of =
  bi_interest_groups :: "'b interest_group_of list"
  bi_protected_app_signals :: "protected_app_signals option"
  bi_in_cooldown_or_lockout :: bool

type_synonym buyer_input = "browser_signals buyer_input_of"
type_synonym buyer_input_for_bidding = "browser_signals_for_bidding buyer_input_of"

section \<open>GetBids\<close>

record pas_buyer_input =
  pbi_protected_app_signals :: "protected_app_signals option"
  pbi_contextual_pas_data :: "contextual_pas_data option"

record get_bids_raw_request =
  gb_is_chaff :: bool
  gb_buyer_input :: "buyer_input option"
  gb_auction_signals :: string
  gb_buyer_signals :: string
  gb_seller :: string
  gb_publisher_name :: string
  gb_enable_debug_reporting :: bool
  gb_generation_id :: string
  gb_adtech_debug_id :: string
  gb_consented_debug_config :: "string option"
  gb_pas_buyer_input :: "pas_buyer_input option"
  gb_client_type :: client_type
  gb_top_level_seller :: string
  gb_buyer_kv_experiment_group_id :: "int option"
  gb_enable_unlimited_egress :: bool
  gb_multi_bid_limit :: int
  gb_enforce_kanon :: bool
  gb_is_debug_eligible :: bool
  gb_priority_signals :: string
  gb_blob_versions :: "buyer_blob_versions option"
  gb_buyer_input_for_bidding :: "buyer_input_for_bidding option"
  gb_enable_sampled_debug_reporting :: bool

definition default_get_bids_request :: get_bids_raw_request where
  "default_get_bids_request =
     \<lparr>gb_is_chaff = False, gb_buyer_input = None, gb_auction_signals = [], gb_buyer_signals = [],
      gb_seller = [], gb_publisher_name = [], gb_enable_debug_reporting = False,
      gb_generation_id = [], gb_adtech_debug_id = [], gb_consented_debug_config = None,
      gb_pas_buyer_input = None, gb_client_type = CLIENT_TYPE_UNKNOWN, gb_top_level_seller = [],
      gb_buyer_kv_experiment_group_id = None, gb_enable_unlimited_egress = False,
      gb_multi_bid_limit = 0, gb_enforce_kanon = False, gb_is_debug_eligible = False,
      gb_priority_signals = [], gb_blob_versions = None, gb_buyer_input_for_bidding = None,
      gb_enable_sampled_debug_reporting = False\<rparr>"

text \<open>A bid of a buyer (\<open>AdWithBid\<close>, \<open>ProtectedAppSignalsAdWithBid\<close>).\<close>

record buyer_bid =
  bb_ad :: pb_value
  bb_bid :: f32
  bb_render :: string
  bb_ad_components :: "string list"
  bb_allow_component_auction :: bool
  bb_interest_group_name :: string
  bb_ad_cost :: f64
  bb_debug_report_urls :: "debug_report_urls option"
  bb_modeling_signals :: int
  bb_bid_currency :: string
  bb_buyer_reporting_id :: "string option"
  bb_pagg_contributions :: "pagg_contribution list"
  bb_buyer_and_seller_reporting_id :: "string option"
  bb_selected_buyer_and_seller_reporting_id :: "string option"
  bb_data_version :: int
  bb_debug_win_url_failed_sampling :: bool
  bb_debug_loss_url_failed_sampling :: bool

record pas_buyer_bid =
  pb_ad :: pb_value
  pb_bid :: f32
  pb_render :: string
  pb_ad_cost :: f64
  pb_bid_currency :: string
  pb_egress_payload :: string
  pb_temporary_unlimited_egress_payload :: string

record get_bids_raw_response =
  gr_bids :: "buyer_bid list"
  gr_pas_bids :: "pas_buyer_bid list"
  gr_update_interest_group_list :: update_interest_group_list

type_synonym buyer_bids_map = "(string \<times> get_bids_raw_response) list"

definition default_buyer_bid :: buyer_bid where
  "default_buyer_bid =
     \<lparr>bb_ad = Pb_other, bb_bid = 0, bb_render = [], bb_ad_components = [],
      bb_allow_component_auction = False, bb_interest_group_name = [], bb_ad_cost = 0,
      bb_debug_report_urls = None, bb_modeling_signals = 0, bb_bid_currency = [],
      bb_buyer_reporting_id = None, bb_pagg_contributions = [],
      bb_buyer_and_seller_reporting_id = None, bb_selected_buyer_and_seller_reporting_id = None,
      bb_data_version = 0, bb_debug_win_url_failed_sampling = False,
      bb_debug_loss_url_failed_sampling = False\<rparr>"

end
