(* ===== verification/Priority_Vector.thy ===== *)
theory Priority_Vector
  imports Seller_Types
begin

text \<open>
  Priority signals of interest groups (\<open>common/util/priority_vector/priority_vector_utils.cc\<close>): the
  seller's signals, merged with overrides for a buyer, and the dot product with the vectors of the
  interest groups. A priority vector is a RapidJSON object, kept as its list of members. Durations are
  exact: they are whole milliseconds, for ages of less than eighteen years.
\<close>

type_synonym members = "(string \<times> json) list"

section \<open>Parsing and merging\<close>

text \<open>Names of members are strings in every parsed document.\<close>

definition sanitize_priority_vector :: "members \<Rightarrow> members" where
  "sanitize_priority_vector ms = filter (\<lambda>(k, v). is_number v) ms"

definition parse_priority_vector :: "libs \<Rightarrow> string \<Rightarrow> members status_or" where
  "parse_priority_vector L s =
     (case parse_json_string L s of
        Inr (JObj ms) \<Rightarrow> Inr (sanitize_priority_vector ms)
      | _ \<Rightarrow> Inl (invalid_argument ''Malformed priority vector JSON''))"

text \<open>\<open>FindMember\<close> and then \<open>SetDouble\<close> on what it found, or \<open>AddMember\<close>.\<close>

fun add_or_update_value :: "string \<Rightarrow> f64 \<Rightarrow> members \<Rightarrow> members" where
  "add_or_update_value k d [] = [(k, JDouble d)]"
| "add_or_update_value k d ((k', v) # ms) =
     (if k' = k then (k', JDouble d) # ms else (k', v) # add_or_update_value k d ms)"

definition apply_overrides :: "members \<Rightarrow> members \<Rightarrow> members" where
  "apply_overrides overrides ms =
     fold (\<lambda>(k, v) ms. if is_number v then add_or_update_value k (get_double v) ms else ms)
       overrides ms"

definition get_buyer_priority_signals ::
  "libs \<Rightarrow> members \<Rightarrow> (string \<times> per_buyer_config) list \<Rightarrow> string \<Rightarrow> string status_or" where
  "get_buyer_priority_signals L signals configs buyer =
     (case map_of configs buyer of
        None \<Rightarrow> serialize_json_doc L (JObj signals)
      | Some c \<Rightarrow>
          if pbc_priority_signals_overrides c = [] then serialize_json_doc L (JObj signals)
          else
            (case parse_json_string L (pbc_priority_signals_overrides c) of
               Inr (JObj ms) \<Rightarrow> serialize_json_doc L (JObj (apply_overrides ms signals))
             | _ \<Rightarrow> Inl (invalid_argument
                      (''Malformed priority signals overrides for buyer: '' @ buyer))))"

section \<open>Priorities\<close>

definition get_recency_ms :: "'a browser_signals_scheme \<Rightarrow> int" where
  "get_recency_ms bs = (case bs_recency_ms bs of Some ms \<Rightarrow> ms | None \<Rightarrow> bs_recency bs * 1000)"

definition calculate_dot_product :: "members \<Rightarrow> json \<Rightarrow> f64" where
  "calculate_dot_product vector1 vector2 =
     fold (\<lambda>(k, v) priority.
         case find_member vector2 k of
           Some w \<Rightarrow> if is_number v \<and> is_number w
                     then to_f64 (priority + f64_mul (get_double v) (get_double w)) else priority
         | None \<Rightarrow> priority)
       vector1 0"

definition populate_device_signal_fields :: "'a browser_signals_scheme \<Rightarrow> members \<Rightarrow> members" where
  "populate_device_signal_fields bs ms =
     (let age = rat_of_int (get_recency_ms bs); minutes = to_f64 (age / 60000);
          hours = to_f64 (age / 3600000); days = to_f64 (hours / 24)
      in add_or_update_value ''deviceSignals.ageInDaysMax30'' (min days 30)
          (add_or_update_value ''deviceSignals.ageInHoursMax24'' (min hours 24)
            (add_or_update_value ''deviceSignals.ageInMinutesMax60'' (min minutes 60)
              (add_or_update_value ''deviceSignals.ageInMinutes'' minutes
                (add_or_update_value ''deviceSignals.one'' 1 ms)))))"

text \<open>\<open>RemoveMember\<close> fills the place of the removed member with the last one.\<close>

definition remove_member_swap :: "string \<Rightarrow> members \<Rightarrow> members" where
  "remove_member_swap k ms =
     (case dropWhile (\<lambda>m. fst m \<noteq> k) ms of
        [] \<Rightarrow> ms
      | _ # rest \<Rightarrow>
          (let before = takeWhile (\<lambda>m. fst m \<noteq> k) ms
           in if rest = [] then before else before @ last rest # butlast rest))"

definition device_signal_keys :: "string list" where
  "device_signal_keys =
     [''deviceSignals.one'', ''deviceSignals.ageInMinutes'', ''deviceSignals.ageInMinutesMax60'',
      ''deviceSignals.ageInHoursMax24'', ''deviceSignals.ageInDaysMax30'']"

definition browser_signals_of ::
  "'b interest_group_of \<Rightarrow> 'b \<Rightarrow> 'b" where
  "browser_signals_of ig dflt = (case ig_device_signals ig of Browser_signals bs \<Rightarrow> bs | _ \<Rightarrow> dflt)"

definition no_browser_signals :: browser_signals_for_bidding where
  "no_browser_signals =
     \<lparr>bs_join_count = 0, bs_bid_count = 0, bs_recency = 0, bs_prev_wins = [], bs_recency_ms = None,
      bs_prev_wins_ms = None\<rparr>"

definition prioritise ::
  "(string \<rightharpoonup> json) \<Rightarrow> interest_group_for_bidding \<Rightarrow> members \<times> (string \<rightharpoonup> f64)
     \<Rightarrow> members \<times> (string \<rightharpoonup> f64)" where
  "prioritise vectors ig = (\<lambda>(ms, priorities).
     let ms' = populate_device_signal_fields (browser_signals_of ig no_browser_signals) ms;
         p = (case vectors (ig_name ig) of None \<Rightarrow> 0 | Some v \<Rightarrow> calculate_dot_product ms' v)
     in (ms', priorities(ig_name ig \<mapsto> p)))"

definition calculate_interest_group_priorities ::
  "members \<Rightarrow> buyer_input_for_bidding \<Rightarrow> (string \<rightharpoonup> json) \<Rightarrow> (string \<rightharpoonup> f64) \<times> members" where
  "calculate_interest_group_priorities signals input vectors =
     (let (ms, priorities) = fold (prioritise vectors) (bi_interest_groups input) (signals, Map.empty)
      in (priorities, fold remove_member_swap device_signal_keys ms))"

section \<open>Lemmas\<close>

lemma map_of_add_or_update:
  "map_of (add_or_update_value k d ms) = (map_of ms)(k \<mapsto> JDouble d)"
  by (induction ms) (auto simp: fun_eq_iff)

lemma keys_add_or_update:
  "fst ` set (add_or_update_value k d ms) = insert k (fst ` set ms)"
  by (induction k d ms rule: add_or_update_value.induct) (simp_all add: insert_commute)

text \<open>The merged document gives the overriding number where there is one, the last one counting.\<close>

lemma map_of_apply_overrides:
  "map_of (apply_overrides overrides ms) k
     = (case map_of (rev (filter (\<lambda>(k, v). is_number v) overrides)) k of
          None \<Rightarrow> map_of ms k | Some v \<Rightarrow> Some (JDouble (get_double v)))"
proof (induction overrides arbitrary: ms)
  case (Cons kv overrides)
  obtain k' v where kv: "kv = (k', v)" by fastforce
  show ?case
    using Cons [of "if is_number v then add_or_update_value k' (get_double v) ms else ms"]
    by (auto simp: kv apply_overrides_def map_of_add_or_update map_add_def split: option.splits)
qed (simp add: apply_overrides_def)

lemma mset_last_first: "xs \<noteq> [] \<Longrightarrow> add_mset (last xs) (mset (butlast xs)) = mset xs"
  by (induction xs rule: rev_induct) auto

lemma remove_member_swap_mset:
  assumes "distinct (map fst ms)"
  shows "mset (remove_member_swap k ms) = filter_mset (\<lambda>m. fst m \<noteq> k) (mset ms)"
proof (cases "dropWhile (\<lambda>m. fst m \<noteq> k) ms")
  case Nil
  then have "filter_mset (\<lambda>m. fst m \<noteq> k) (mset ms) = mset ms"
    by (simp add: dropWhile_eq_Nil_conv filter_mset_eq_conv)
  then show ?thesis by (simp only: remove_member_swap_def Nil list.case)
next
  case (Cons m rest)
  define before where "before = takeWhile (\<lambda>m. fst m \<noteq> k) ms"
  have ms: "ms = before @ m # rest"
    using takeWhile_dropWhile_id [of "\<lambda>m. fst m \<noteq> k" ms] Cons by (simp add: before_def)
  have m: "fst m = k" using hd_dropWhile [of "\<lambda>m. fst m \<noteq> k" ms] Cons by simp
  have b: "\<forall>m \<in> set before. fst m \<noteq> k" by (auto simp: before_def dest: set_takeWhileD)
  have "distinct (map fst (before @ m # rest))" using assms ms by metis
  then have "fst m \<notin> fst ` set rest" by simp
  then have "\<forall>m \<in> set rest. fst m \<noteq> k" unfolding m by (metis image_eqI)
  with b have "filter_mset (\<lambda>m. fst m \<noteq> k) (mset before) = mset before"
    and "filter_mset (\<lambda>m. fst m \<noteq> k) (mset rest) = mset rest"
    by (auto simp: filter_mset_eq_conv)
  then have "filter_mset (\<lambda>m. fst m \<noteq> k) (mset ms) = mset before + mset rest"
    by (simp add: ms m)
  then show ?thesis
    using Cons by (auto simp: remove_member_swap_def before_def [symmetric] Let_def mset_last_first)
qed

end
