(* ===== verification/Request_Validation.thy ===== *)
theory Request_Validation
  imports Priority_Vector "HOL-Library.List_Lexorder" "HOL-Library.Char_ord"
begin

text \<open>
  The errors of a SelectAd request: the accumulator (\<open>common/util/error_accumulator.cc\<close>), the checks
  of \<open>select_ad_reactor\<close> and of \<open>seller_frontend_service/util/validation_utils.cc\<close>, and the
  configuration of the seller front end that they and later steps read. gzip and protobuf's wire
  format are the fields of \<open>codecs\<close>.
\<close>

record sfe_config =
  sf_enable_protected_app_signals :: bool
  sf_enable_protected_audience :: bool
  sf_enable_tkv_v2_browser :: bool
  sf_enable_chaffing :: bool
  sf_enable_chaffing_v2 :: bool
  sf_enable_buyer_caching :: bool
  sf_enable_cancellation :: bool
  sf_enable_kanon :: bool
  sf_enable_buyer_pagg_reporting :: bool
  sf_contributions_limit :: int
  sf_max_buyers_solicited :: int
  sf_seller_origin_domain :: string
  sf_allow_compressed_auction_config :: "bool option"
  sf_enable_priority_vector :: "bool option"
  sf_signals_not_fetched :: bool
  sf_test_mode :: bool
  sf_tkv_v2_signals_host :: string
  sf_buyers :: "string list"
  sf_report_win_urls :: "(string \<times> string) list"

record codecs =
  gzip_decompress :: "string \<Rightarrow> string status_or"
  gzip_compress :: "string \<Rightarrow> string status_or"
  zstd_decompress :: "string \<Rightarrow> string status_or"
  zstd_compress :: "string \<Rightarrow> string status_or"
  parse_auction_config :: "string \<Rightarrow> auction_config option"
  parse_buyer_input :: "string \<Rightarrow> buyer_input option"
  parse_protected_input :: "string \<Rightarrow> protected_input option"
  parse_auction_result :: "string \<Rightarrow> auction_result option"

section \<open>The accumulator of errors\<close>

datatype error_visibility = CLIENT_VISIBLE | AD_SERVER_VISIBLE

datatype error_code = CLIENT_SIDE | SERVER_SIDE

fun error_code_number :: "error_code \<Rightarrow> int" where
  "error_code_number CLIENT_SIDE = 400"
| "error_code_number SERVER_SIDE = 500"

text \<open>A \<open>std::set<std::string>\<close> is the sorted list of its elements; an absent entry is empty.\<close>

type_synonym error_map = "error_visibility \<Rightarrow> error_code \<Rightarrow> string list"

definition no_errors :: error_map where
  "no_errors = (\<lambda>_ _. [])"

definition report_error :: "error_visibility \<Rightarrow> string \<Rightarrow> error_code \<Rightarrow> error_map \<Rightarrow> error_map" where
  "report_error vis msg code errors =
     errors(vis := (errors vis)(code := insort_insert msg (errors vis code)))"

definition has_visible_errors :: "error_visibility \<Rightarrow> error_map \<Rightarrow> bool" where
  "has_visible_errors vis errors \<longleftrightarrow> errors vis CLIENT_SIDE \<noteq> [] \<or> errors vis SERVER_SIDE \<noteq> []"

definition has_errors :: "error_map \<Rightarrow> bool" where
  "has_errors errors \<longleftrightarrow>
     has_visible_errors CLIENT_VISIBLE errors \<or> has_visible_errors AD_SERVER_VISIBLE errors"

fun str_join :: "string \<Rightarrow> string list \<Rightarrow> string" where
  "str_join sep [] = []"
| "str_join sep [s] = s"
| "str_join sep (s # t # ts) = s @ sep @ str_join sep (t # ts)"

definition get_accumulated_error_string :: "error_visibility \<Rightarrow> error_map \<Rightarrow> string" where
  "get_accumulated_error_string vis errors = str_join ''; '' (errors vis CLIENT_SIDE)"

text \<open>\<open>report_error_lambda\<close>: a failed check is reported and makes the request invalid.\<close>

definition check :: "bool \<Rightarrow> string \<Rightarrow> error_map \<times> bool \<Rightarrow> error_map \<times> bool" where
  "check has_error msg = (\<lambda>(errors, valid).
     if has_error then (report_error AD_SERVER_VISIBLE msg CLIENT_SIDE errors, False)
     else (errors, valid))"

text \<open>\<open>std::regex_match\<close> with \<open>^[A-Z]{3}$\<close>.\<close>

definition is_currency_code :: "string \<Rightarrow> bool" where
  "is_currency_code s \<longleftrightarrow> length s = 3 \<and> list_all (\<lambda>c. CHR ''A'' \<le> c \<and> c \<le> CHR ''Z'') s"

section \<open>Requests with component auction results\<close>

definition is_filled_result :: "encrypted_auction_result \<Rightarrow> bool" where
  "is_filled_result r \<longleftrightarrow> ear_auction_result_ciphertext r \<noteq> [] \<and> ear_key_id r \<noteq> []"

definition check_component_seller :: "string \<times> string \<Rightarrow> error_map \<times> bool \<Rightarrow> error_map \<times> bool" where
  "check_component_seller = (\<lambda>(seller, currency) acc.
     let acc' = check (seller = [])
                  ''One or more seller keys are empty in per component seller config map'' acc
     in if currency = [] then acc'
        else check (\<not> is_currency_code currency)
               ''Invalid Expected Component Seller Currency'' acc')"

definition validate_encrypted_select_ad_request ::
  "select_ad_request \<Rightarrow> auction_scope \<Rightarrow> string \<Rightarrow> error_map \<Rightarrow> error_map \<times> bool" where
  "validate_encrypted_select_ad_request rq scope seller_domain errors =
     (let c = request_auction_config rq; results = sr_component_auction_results rq;
          acc = check (sr_protected_auction_ciphertext rq = [] \<and> sr_protected_audience_ciphertext rq = [])
                  ''protected_auction_ciphertext must be non-null.'' (errors, True);
          acc = check (ac_seller_signals c = []) ''Seller signals missing in auction config'' acc;
          acc = check (ac_auction_signals c = []) ''Auction signals missing in auction config'' acc;
          acc = check (ac_seller c = []) ''Seller origin missing in auction config'' acc;
          acc = check (seller_domain \<noteq> ac_seller c)
                  ''Seller domain passed in request does not match this server's domain'' acc;
          acc = check (sr_client_type rq = CLIENT_TYPE_UNKNOWN) ''Unsupported client type.'' acc
      in if scope = AUCTION_SCOPE_SERVER_TOP_LEVEL_SELLER then
           (let acc = check (results = [])
                  ''No Component Auction Results for Top Level Seller auction'' acc;
                acc = check (filter is_filled_result results = [] \<and> results \<noteq> [])
                  ''Empty Component Auction Results for Top Level Seller auction'' acc
            in fold check_component_seller (ac_per_component_seller_currency c) acc)
         else acc)"

definition is_auction_result_bid_currency_as_expected :: "string \<Rightarrow> auction_result \<Rightarrow> bool" where
  "is_auction_result_bid_currency_as_expected expected r \<longleftrightarrow>
     expected = [] \<or> ar_bid_currency r = [] \<or> expected = ar_bid_currency r"

definition error_in_auction_result :: "string \<Rightarrow> string" where
  "error_in_auction_result s = ''Error while validating component auction_result: '' @ s @ ''.''"

definition validate_component_auction_result ::
  "auction_result \<Rightarrow> string \<Rightarrow> string \<Rightarrow> (string \<times> string) list \<Rightarrow> error_map
     \<Rightarrow> error_map \<times> bool" where
  "validate_component_auction_result r request_generation_id seller_domain configs errors =
     (if ar_is_chaff r \<or> snd (ar_error r) \<noteq> [] then (errors, True)
      else
        (let expected = (case map_of configs (ar_component_seller r) of None \<Rightarrow> [] | Some c \<Rightarrow> c);
             acc = check (ar_ciphertext_generation_id r \<noteq> request_generation_id)
                     (error_in_auction_result ''Mismatched generationId.'') (errors, True);
             acc = check (ar_top_level_seller r \<noteq> seller_domain)
                     (error_in_auction_result ''Mismatched top level seller.'') acc;
             acc = check (ar_component_seller r = [])
                     (error_in_auction_result
                       ''Component Seller Auction Result must contain component seller domain'') acc;
             acc = check (ar_ad_type r \<noteq> AD_TYPE_PROTECTED_AUDIENCE_AD
                          \<and> ar_ad_type r \<noteq> AD_TYPE_PROTECTED_APP_SIGNALS_AD)
                     (error_in_auction_result ''Unsupported ad type.'') acc;
             acc = check (ru_url (wru_top_level_seller (ar_win_reporting_urls r)) \<noteq> [])
                     (error_in_auction_result
                       ''Top Level Win Reporting URLs should not be present.'') acc
         in check (\<not> is_auction_result_bid_currency_as_expected expected r)
              (error_in_auction_result
                (''Component seller auction result bid currency does not match top-level ''
                 @ ''seller's expected currency for this component seller.'')) acc))"

section \<open>SelectAd requests\<close>

definition extract_auction_config ::
  "codecs \<Rightarrow> sfe_config \<Rightarrow> select_ad_request \<Rightarrow> auction_config status_or" where
  "extract_auction_config C sf rq =
     (case (sr_auction_config rq, sr_compressed_auction_config rq) of
        (Some c, None) \<Rightarrow> Inr c
      | (None, Some compressed) \<Rightarrow>
          if sf_allow_compressed_auction_config sf \<noteq> Some True
          then Inl (invalid_argument
            (''Server is not accepting compressed AuctionConfig protos; ''
             @ ''provide the uncompressed_auction_config field in SelectAdRequest''))
          else (case gzip_decompress C compressed of
              Inl _ \<Rightarrow>
                Inl (invalid_argument ''Unable to decompress compressed_auction_config field'')
            | Inr s \<Rightarrow>
                (case parse_auction_config C s of
                   None \<Rightarrow> Inl (invalid_argument
                     (''Unable to parse AuctionConfig proto from ''
                      @ ''decompressed compressed_auction_config''))
                 | Some c \<Rightarrow> Inr c))
      | _ \<Rightarrow> Inl (invalid_argument ''Provide one AuctionConfig value in SelectAdRequest''))"

definition report_if :: "bool \<Rightarrow> error_visibility \<Rightarrow> string \<Rightarrow> error_map \<Rightarrow> error_map" where
  "report_if b vis msg errors = (if b then report_error vis msg CLIENT_SIDE errors else errors)"

definition check_per_buyer_config :: "string \<times> per_buyer_config \<Rightarrow> error_map \<Rightarrow> error_map" where
  "check_per_buyer_config = (\<lambda>(buyer, c) errors.
     let errors = report_if (buyer = []) AD_SERVER_VISIBLE
           ''One or more buyer keys are empty in per buyer config map'' errors;
         errors = report_if (pbc_buyer_signals c = []) AD_SERVER_VISIBLE
           (''Buyer signals missing in auction config for buyer: '' @ buyer) errors
     in report_if (pbc_buyer_currency c \<noteq> [] \<and> \<not> is_currency_code (pbc_buyer_currency c))
          AD_SERVER_VISIBLE ''Invalid Buyer Currency'' errors)"

definition ad_server_errors ::
  "sfe_config \<Rightarrow> client_type \<Rightarrow> auction_scope \<Rightarrow> auction_config \<Rightarrow> error_map \<Rightarrow> error_map" where
  "ad_server_errors sf client scope c errors =
     (let errors = report_if (ac_seller_signals c = []) AD_SERVER_VISIBLE
            ''Seller signals missing in auction config'' errors;
          errors = report_if (ac_auction_signals c = []) AD_SERVER_VISIBLE
            ''Auction signals missing in auction config'' errors;
          errors = report_if (ac_buyer_list c = []) AD_SERVER_VISIBLE ''No buyers specified'' errors;
          errors = report_if (ac_seller c = []) AD_SERVER_VISIBLE
            ''Seller origin missing in auction config'' errors;
          errors = report_if (ac_seller_currency c \<noteq> [] \<and> \<not> is_currency_code (ac_seller_currency c))
            AD_SERVER_VISIBLE ''Invalid Seller Currency'' errors;
          errors = report_if (sf_seller_origin_domain sf \<noteq> ac_seller c) AD_SERVER_VISIBLE
            ''Seller domain passed in request does not match this server's domain'' errors;
          errors = fold check_per_buyer_config (ac_per_buyer_config c) errors
      in report_if (client = CLIENT_TYPE_ANDROID
                    \<and> scope = AUCTION_SCOPE_DEVICE_COMPONENT_MULTI_SELLER) AD_SERVER_VISIBLE
           ''Device orchestrated Component Auctions not supported for Android'' errors)"

text \<open>
  The errors and \<open>priority_signals_vector_\<close>. Signals that do not parse are reported, and then the
  result of the parser is dereferenced all the same, which ends the process: \<open>None\<close>.
\<close>

definition may_populate_ad_server_visible_errors ::
  "libs \<Rightarrow> sfe_config \<Rightarrow> client_type \<Rightarrow> auction_scope \<Rightarrow> auction_config \<Rightarrow> error_map
     \<Rightarrow> (error_map \<times> members) option" where
  "may_populate_ad_server_visible_errors L sf client scope c errors =
     (let errors = ad_server_errors sf client scope c errors
      in if sf_enable_priority_vector sf = Some True \<and> ac_priority_signals c \<noteq> [] then
           (case parse_priority_vector L (ac_priority_signals c) of
              Inl _ \<Rightarrow> None
            | Inr v \<Rightarrow> Some (errors, v))
         else Some (errors, []))"

text \<open>What is wrong with a buyer's input, and whether anything is.\<close>

definition buyer_input_errors :: "string \<times> buyer_input_for_bidding \<Rightarrow> string list" where
  "buyer_input_errors = (\<lambda>(buyer, input).
     (if buyer = [] then [''One or more interest group owner name is empty in buyer inputs''] else [])
     @ (if bi_interest_groups input = [] \<and> bi_protected_app_signals input = None
        then [''Request is missing interest groups and protected signals for buyer: '' @ buyer]
        else []))"

definition validate_protected_auction_input ::
  "protected_input \<Rightarrow> (string \<times> buyer_input_for_bidding) list \<Rightarrow> error_map \<Rightarrow> error_map" where
  "validate_protected_auction_input input buyer_inputs errors =
     (let errors = report_if (pi_generation_id input = []) CLIENT_VISIBLE
            ''Request is missing generation ID'' errors;
          errors = report_if (pi_publisher_name input = []) CLIENT_VISIBLE
            ''Request is missing publisher name'' errors
      in if buyer_inputs = []
         then report_error CLIENT_VISIBLE ''Request is missing buyer inputs'' CLIENT_SIDE errors
         else
           (let observed = fold insort_insert (concat (map buyer_input_errors buyer_inputs)) []
            in report_if (list_all (\<lambda>b. buyer_input_errors b \<noteq> []) buyer_inputs) CLIENT_VISIBLE
                 (''BuyerInput map is present but malformed: '' @ str_join ''; '' observed) errors))"

definition may_populate_client_visible_errors :: "error_map \<Rightarrow> (int \<times> string) \<Rightarrow> int \<times> string" where
  "may_populate_client_visible_errors errors error =
     (if has_visible_errors CLIENT_VISIBLE errors
      then (error_code_number CLIENT_SIDE, get_accumulated_error_string CLIENT_VISIBLE errors)
      else error)"

section \<open>Lemmas\<close>

lemma snd_check [simp]: "snd (check b m acc) \<longleftrightarrow> snd acc \<and> \<not> b"
  by (cases acc) (simp add: check_def)

lemma fst_check: "fst (check b m acc) = (if b then report_error AD_SERVER_VISIBLE m CLIENT_SIDE (fst acc) else fst acc)"
  by (cases acc) (simp add: check_def)

lemma report_error_visible [simp]:
  "has_visible_errors vis (report_error vis' m code errors) \<longleftrightarrow> vis = vis' \<or> has_visible_errors vis errors"
proof -
  have "insort_insert m xs \<noteq> []" for xs :: "string list"
    by (cases xs) (auto simp: insort_insert_key_def)
  moreover have "(insort_insert m xs = []) = False" for xs :: "string list"
    using calculation by simp
  ultimately show ?thesis by (cases code) (auto simp: has_visible_errors_def report_error_def)
qed

lemma report_if_visible [simp]:
  "has_visible_errors vis (report_if b vis' m errors) \<longleftrightarrow> (b \<and> vis = vis') \<or> has_visible_errors vis errors"
  by (auto simp: report_if_def)

lemma no_visible_errors [simp]: "\<not> has_visible_errors vis no_errors"
  by (simp add: has_visible_errors_def no_errors_def)

text \<open>A request is invalid exactly when the checks have reported an error.\<close>

definition checked :: "error_map \<Rightarrow> error_map \<times> bool \<Rightarrow> bool" where
  "checked errors acc \<longleftrightarrow>
     (if snd acc then fst acc = errors else has_visible_errors AD_SERVER_VISIBLE (fst acc))"

lemma checked_start [simp]: "checked errors (errors, True)"
  by (simp add: checked_def)

lemma checked_check: "checked errors acc \<Longrightarrow> checked errors (check b m acc)"
  by (cases acc) (auto simp: checked_def check_def)

lemma checked_component_seller: "checked errors acc \<Longrightarrow> checked errors (check_component_seller sc acc)"
  by (cases sc) (simp add: check_component_seller_def Let_def checked_check)

lemma checked_component_sellers:
  "checked errors acc \<Longrightarrow> checked errors (fold check_component_seller scs acc)"
  by (induction scs arbitrary: acc) (simp_all add: checked_component_seller)

lemma snd_check_component_sellers [simp]:
  "snd (fold check_component_seller scs acc) \<longleftrightarrow>
     snd acc \<and> list_all (\<lambda>(s, c). s \<noteq> [] \<and> (c = [] \<or> is_currency_code c)) scs"
proof (induction scs arbitrary: acc)
  case (Cons sc scs)
  obtain s c where "sc = (s, c)" by fastforce
  then show ?case using Cons by (auto simp: check_component_seller_def Let_def)
qed simp

lemma validate_encrypted_request_checked:
  "checked errors (validate_encrypted_select_ad_request rq scope domain errors)"
  by (auto simp: validate_encrypted_select_ad_request_def Let_def
      intro!: checked_check checked_component_sellers)

lemma validate_component_result_checked:
  "checked errors (validate_component_auction_result r gen domain configs errors)"
  by (auto simp: validate_component_auction_result_def Let_def intro!: checked_check)

lemma validate_component_result_valid:
  "snd (validate_component_auction_result r gen domain configs errors) \<longleftrightarrow>
     ar_is_chaff r \<or> snd (ar_error r) \<noteq> []
     \<or> (ar_ciphertext_generation_id r = gen \<and> ar_top_level_seller r = domain
        \<and> ar_component_seller r \<noteq> [] \<and> ar_ad_type r \<noteq> AD_TYPE_UNKNOWN
        \<and> ru_url (wru_top_level_seller (ar_win_reporting_urls r)) = []
        \<and> is_auction_result_bid_currency_as_expected
             (or_empty (map_of configs (ar_component_seller r))) r)"
  by (cases "ar_ad_type r")
     (auto simp: validate_component_auction_result_def Let_def or_empty_def)

definition faulty_buyer_config :: "string \<times> per_buyer_config \<Rightarrow> bool" where
  "faulty_buyer_config = (\<lambda>(buyer, c).
     buyer = [] \<or> pbc_buyer_signals c = []
     \<or> (pbc_buyer_currency c \<noteq> [] \<and> \<not> is_currency_code (pbc_buyer_currency c)))"

lemma check_per_buyer_config_visible:
  "has_visible_errors AD_SERVER_VISIBLE (check_per_buyer_config bc errors) \<longleftrightarrow>
     faulty_buyer_config bc \<or> has_visible_errors AD_SERVER_VISIBLE errors"
  by (cases bc) (auto simp: check_per_buyer_config_def faulty_buyer_config_def Let_def)

lemma check_per_buyer_configs_visible:
  "has_visible_errors AD_SERVER_VISIBLE (fold check_per_buyer_config cs errors) \<longleftrightarrow>
     has_visible_errors AD_SERVER_VISIBLE errors \<or> list_ex faulty_buyer_config cs"
  by (induction cs arbitrary: errors) (simp_all add: check_per_buyer_config_visible disj_ac)

text \<open>What the front end requires of the configuration of an auction.\<close>

definition acceptable_config :: "sfe_config \<Rightarrow> client_type \<Rightarrow> auction_scope \<Rightarrow> auction_config \<Rightarrow> bool" where
  "acceptable_config sf client scope c \<longleftrightarrow>
     ac_seller_signals c \<noteq> [] \<and> ac_auction_signals c \<noteq> [] \<and> ac_buyer_list c \<noteq> []
     \<and> ac_seller c \<noteq> [] \<and> sf_seller_origin_domain sf = ac_seller c
     \<and> (ac_seller_currency c = [] \<or> is_currency_code (ac_seller_currency c))
     \<and> \<not> list_ex faulty_buyer_config (ac_per_buyer_config c)
     \<and> \<not> (client = CLIENT_TYPE_ANDROID \<and> scope = AUCTION_SCOPE_DEVICE_COMPONENT_MULTI_SELLER)"

lemma ad_server_errors_visible:
  "has_visible_errors AD_SERVER_VISIBLE (ad_server_errors sf client scope c errors) \<longleftrightarrow>
     has_visible_errors AD_SERVER_VISIBLE errors \<or> \<not> acceptable_config sf client scope c"
  unfolding acceptable_config_def ad_server_errors_def Let_def
  by (simp add: check_per_buyer_configs_visible) blast

text \<open>An input is usable when it can be attributed to a request and a buyer with something to bid on.\<close>

definition usable_input :: "protected_input \<Rightarrow> (string \<times> buyer_input_for_bidding) list \<Rightarrow> bool" where
  "usable_input input buyer_inputs \<longleftrightarrow>
     pi_generation_id input \<noteq> [] \<and> pi_publisher_name input \<noteq> []
     \<and> list_ex (\<lambda>(buyer, bi). buyer \<noteq> [] \<and> (bi_interest_groups bi \<noteq> [] \<or> bi_protected_app_signals bi \<noteq> None))
          buyer_inputs"

lemma validate_protected_input_visible:
  "has_visible_errors CLIENT_VISIBLE (validate_protected_auction_input input buyer_inputs errors) \<longleftrightarrow>
     has_visible_errors CLIENT_VISIBLE errors \<or> \<not> usable_input input buyer_inputs"
proof -
  have "list_all (\<lambda>b. buyer_input_errors b \<noteq> []) buyer_inputs
      \<longleftrightarrow> \<not> list_ex (\<lambda>(buyer, bi). buyer \<noteq> []
            \<and> (bi_interest_groups bi \<noteq> [] \<or> bi_protected_app_signals bi \<noteq> None)) buyer_inputs"
    by (auto simp: list_all_iff list_ex_iff buyer_input_errors_def case_prod_beta split: if_splits)
  then show ?thesis
    by (cases buyer_inputs) (auto simp: validate_protected_auction_input_def usable_input_def Let_def)
qed

end
