(* ===== verification/Buyer_Inputs.thy ===== *)
theory Buyer_Inputs
  imports Request_Validation
begin

text \<open>
  The inputs of buyers (\<open>seller_frontend_service/util/buyer_input_proto_utils.cc\<close>,
  \<open>select_ad_reactor_app.cc\<close>) and the GetBids requests made of them. A product that does not fit its
  integer type is taken from \<open>unspecified\<close>.
\<close>

section \<open>The two representations of a buyer's input\<close>

definition fits_int :: "int \<Rightarrow> bool" where
  "fits_int i \<longleftrightarrow> - (2 ^ 31) \<le> i \<and> i < 2 ^ 31"

fun scale_prev_win :: "unspecified \<Rightarrow> json \<Rightarrow> json option" where
  "scale_prev_win U (JArr [JInt i, JStr s]) =
     (if fits_int i
      then Some (JArr [JInt (if fits_int (i * 1000) then i * 1000 else un_int_sum U (i * 1000)), JStr s])
      else None)"
| "scale_prev_win U _ = None"

fun scale_prev_wins :: "unspecified \<Rightarrow> json list \<Rightarrow> json list option" where
  "scale_prev_wins U [] = Some []"
| "scale_prev_wins U (v # vs) =
     (case scale_prev_win U v of
        None \<Rightarrow> None
      | Some w \<Rightarrow> (case scale_prev_wins U vs of None \<Rightarrow> None | Some ws \<Rightarrow> Some (w # ws)))"

definition to_prev_wins_ms :: "libs \<Rightarrow> unspecified \<Rightarrow> string \<Rightarrow> string status_or" where
  "to_prev_wins_ms L U prev_wins =
     (case parse_json_string L prev_wins of
        Inr (JArr vs) \<Rightarrow>
          (case scale_prev_wins U vs of
             None \<Rightarrow> Inl (invalid_argument ''prev_wins supplied in an unexpected format'')
           | Some ws \<Rightarrow> serialize_json_doc L (JArr ws))
      | _ \<Rightarrow> Inl (invalid_argument ''Could not parse array from prev_wins field''))"

definition to_browser_signals_for_bidding ::
  "libs \<Rightarrow> unspecified \<Rightarrow> browser_signals \<Rightarrow> browser_signals_for_bidding" where
  "to_browser_signals_for_bidding L U bs =
     browser_signals.extend bs
       \<lparr>bs_prev_wins_ms = (case to_prev_wins_ms L U (bs_prev_wins bs) of Inl _ \<Rightarrow> None | Inr s \<Rightarrow> Some s)\<rparr>"

definition map_device_signals :: "('a \<Rightarrow> 'b) \<Rightarrow> 'a interest_group_of \<Rightarrow> 'b interest_group_of" where
  "map_device_signals f ig =
     \<lparr>ig_name = ig_name ig, ig_bidding_signals_keys = ig_bidding_signals_keys ig,
      ig_ad_render_ids = ig_ad_render_ids ig, ig_component_ads = ig_component_ads ig,
      ig_user_bidding_signals = ig_user_bidding_signals ig,
      ig_device_signals =
        (case ig_device_signals ig of
           Browser_signals bs \<Rightarrow> Browser_signals (f bs)
         | Android_signals \<Rightarrow> Android_signals
         | No_device_signals \<Rightarrow> No_device_signals),
      ig_origin = ig_origin ig\<rparr>"

definition to_interest_group_for_bidding ::
  "libs \<Rightarrow> unspecified \<Rightarrow> interest_group \<Rightarrow> interest_group_for_bidding" where
  "to_interest_group_for_bidding L U ig = map_device_signals (to_browser_signals_for_bidding L U) ig"

definition to_buyer_input_for_bidding ::
  "libs \<Rightarrow> unspecified \<Rightarrow> buyer_input \<Rightarrow> buyer_input_for_bidding" where
  "to_buyer_input_for_bidding L U bi =
     \<lparr>bi_interest_groups = map (to_interest_group_for_bidding L U) (bi_interest_groups bi),
      bi_protected_app_signals = bi_protected_app_signals bi,
      bi_in_cooldown_or_lockout = bi_in_cooldown_or_lockout bi\<rparr>"

text \<open>Assigning the field \<open>protected_app_signals\<close> makes it present, whether or not the source has it.\<close>

definition to_buyer_input :: "buyer_input_for_bidding \<Rightarrow> buyer_input" where
  "to_buyer_input bi =
     \<lparr>bi_interest_groups = map (map_device_signals browser_signals.truncate) (bi_interest_groups bi),
      bi_protected_app_signals =
        Some (case bi_protected_app_signals bi of None \<Rightarrow> no_protected_app_signals | Some p \<Rightarrow> p),
      bi_in_cooldown_or_lockout = bi_in_cooldown_or_lockout bi\<rparr>"

section \<open>Decoding (\<open>SelectAdReactorForApp\<close>)\<close>

definition decode_buyer_input ::
  "libs \<Rightarrow> unspecified \<Rightarrow> codecs \<Rightarrow> string \<times> string
     \<Rightarrow> (string \<times> buyer_input_for_bidding) list \<times> error_map
     \<Rightarrow> (string \<times> buyer_input_for_bidding) list \<times> error_map" where
  "decode_buyer_input L U C = (\<lambda>(owner, compressed) (inputs, errors).
     case gzip_decompress C compressed of
       Inl _ \<Rightarrow>
         (inputs, report_error CLIENT_VISIBLE
                    (''Unable to decompress buyer input for buyer: '' @ owner) CLIENT_SIDE errors)
     | Inr s \<Rightarrow>
         (case parse_buyer_input C s of
            None \<Rightarrow>
              (inputs, report_error CLIENT_VISIBLE
                         (''Unable to decode BuyerInput binary proto for buyer: '' @ owner)
                         CLIENT_SIDE errors)
          | Some bi \<Rightarrow> (al_emplace owner (to_buyer_input_for_bidding L U bi) inputs, errors)))"

definition get_decoded_buyer_inputs ::
  "libs \<Rightarrow> unspecified \<Rightarrow> codecs \<Rightarrow> (string \<times> string) list \<Rightarrow> error_map
     \<Rightarrow> (string \<times> buyer_input_for_bidding) list \<times> error_map" where
  "get_decoded_buyer_inputs L U C encoded errors = fold (decode_buyer_input L U C) encoded ([], errors)"

section \<open>GetBids requests\<close>

definition with_per_buyer_config ::
  "bool \<Rightarrow> per_buyer_config option \<Rightarrow> get_bids_raw_request \<Rightarrow> get_bids_raw_request" where
  "with_per_buyer_config enforce_kanon config r =
     (case config of
        None \<Rightarrow> r
      | Some c \<Rightarrow>
          r\<lparr>gb_adtech_debug_id := pbc_buyer_debug_id c,
            gb_buyer_kv_experiment_group_id := pbc_buyer_kv_experiment_group_id c,
            gb_blob_versions := pbc_blob_versions c, gb_buyer_signals := pbc_buyer_signals c,
            gb_multi_bid_limit := (if enforce_kanon then pbc_multi_bid_limit c else 0)\<rparr>)"

definition create_get_bids_request ::
  "libs \<Rightarrow> sfe_config \<Rightarrow> bool \<Rightarrow> client_type \<Rightarrow> auction_config \<Rightarrow> protected_input \<Rightarrow> members
     \<Rightarrow> string \<Rightarrow> buyer_input_for_bidding \<Rightarrow> get_bids_raw_request" where
  "create_get_bids_request L sf enforce_kanon client c input priority_signals_vector buyer bi =
     (let r = with_per_buyer_config enforce_kanon (map_of (ac_per_buyer_config c) buyer)
            (default_get_bids_request
              \<lparr>gb_is_chaff := False, gb_seller := ac_seller c, gb_client_type := client,
               gb_auction_signals := ac_auction_signals c\<rparr>);
          r = r\<lparr>gb_buyer_input := Some (to_buyer_input bi), gb_buyer_input_for_bidding := Some bi,
                gb_top_level_seller := ac_top_level_seller c,
                gb_publisher_name := pi_publisher_name input,
                gb_enable_debug_reporting := pi_enable_debug_reporting input,
                gb_enable_sampled_debug_reporting :=
                  fdo_enable_sampled_debug_reporting (pi_fdo_flags input),
                gb_generation_id := pi_generation_id input,
                gb_consented_debug_config := pi_consented_debug_config input,
                gb_enable_unlimited_egress := pi_enable_unlimited_egress input,
                gb_enforce_kanon := enforce_kanon \<and> pi_enforce_kanon input\<rparr>;
          r = (if \<not> sf_enable_protected_audience sf
               then r\<lparr>gb_buyer_input_for_bidding := Some (bi\<lparr>bi_interest_groups := []\<rparr>)\<rparr> else r)
      in if sf_enable_priority_vector sf = Some True then
           (case get_buyer_priority_signals L priority_signals_vector (ac_per_buyer_config c) buyer of
              Inl _ \<Rightarrow> r
            | Inr s \<Rightarrow> r\<lparr>gb_priority_signals := s\<rparr>)
         else r)"

definition clear_pas :: "'b buyer_input_of option \<Rightarrow> 'b buyer_input_of option" where
  "clear_pas = map_option (bi_protected_app_signals_update (\<lambda>_. None))"

definition pas_of :: "'b buyer_input_of option \<Rightarrow> protected_app_signals" where
  "pas_of b = (case b of None \<Rightarrow> no_protected_app_signals
     | Some bi \<Rightarrow> (case bi_protected_app_signals bi of None \<Rightarrow> no_protected_app_signals | Some p \<Rightarrow> p))"

text \<open>The contextual data comes from the request's own configuration, not from the one in use.\<close>

definition contextual_pas_data_of_buyer ::
  "select_ad_request \<Rightarrow> string \<Rightarrow> contextual_pas_data option" where
  "contextual_pas_data_of_buyer rq buyer =
     (case map_of (ac_per_buyer_config (request_auction_config rq)) buyer of
        None \<Rightarrow> None
      | Some c \<Rightarrow>
          (case pbc_contextual_pas_data c of
             None \<Rightarrow> None
           | Some d \<Rightarrow> if cpd_ad_render_ids d = [] then None else Some d))"

definition may_populate_protected_app_signals_buyer_input ::
  "bool \<Rightarrow> select_ad_request \<Rightarrow> string \<Rightarrow> get_bids_raw_request \<Rightarrow> get_bids_raw_request" where
  "may_populate_protected_app_signals_buyer_input is_pas_enabled rq buyer r =
     (if \<not> is_pas_enabled then
        r\<lparr>gb_buyer_input := clear_pas (gb_buyer_input r),
          gb_buyer_input_for_bidding := clear_pas (gb_buyer_input_for_bidding r)\<rparr>
      else if pas_app_install_signals (pas_of (gb_buyer_input r)) = [] then
        r\<lparr>gb_buyer_input := clear_pas (gb_buyer_input r)\<rparr>
      else if pas_app_install_signals (pas_of (gb_buyer_input_for_bidding r)) = [] then
        r\<lparr>gb_buyer_input_for_bidding := clear_pas (gb_buyer_input_for_bidding r)\<rparr>
      else
        r\<lparr>gb_pas_buyer_input :=
            Some \<lparr>pbi_protected_app_signals = Some (pas_of (gb_buyer_input_for_bidding r)),
                  pbi_contextual_pas_data = contextual_pas_data_of_buyer rq buyer\<rparr>,
          gb_buyer_input := clear_pas (gb_buyer_input r),
          gb_buyer_input_for_bidding := clear_pas (gb_buyer_input_for_bidding r)\<rparr>)"

definition create_get_bids_request_for_app ::
  "libs \<Rightarrow> sfe_config \<Rightarrow> bool \<Rightarrow> bool \<Rightarrow> select_ad_request \<Rightarrow> auction_config \<Rightarrow> protected_input
     \<Rightarrow> members \<Rightarrow> string \<Rightarrow> buyer_input_for_bidding \<Rightarrow> get_bids_raw_request" where
  "create_get_bids_request_for_app L sf is_pas_enabled enforce_kanon rq c input signals buyer bi =
     (let r = create_get_bids_request L sf enforce_kanon (sr_client_type rq) c input signals buyer bi
      in may_populate_protected_app_signals_buyer_input is_pas_enabled rq buyer
           (r\<lparr>gb_enable_debug_reporting := False, gb_enable_sampled_debug_reporting := False,
              gb_is_debug_eligible := gb_enable_unlimited_egress r\<rparr>))"

section \<open>Lemmas\<close>

lemma truncate_extend [simp]: "browser_signals.truncate (browser_signals.extend bs e) = bs"
  by (cases bs) (simp add: browser_signals.truncate_def browser_signals.extend_def)

lemma map_device_signals_comp [simp]:
  "map_device_signals f (map_device_signals g ig) = map_device_signals (\<lambda>x. f (g x)) ig"
  by (auto simp: map_device_signals_def split: device_signals_of.split)

lemma map_device_signals_id [simp]: "map_device_signals (\<lambda>x. x) ig = ig"
  by (cases ig) (auto simp: map_device_signals_def split: device_signals_of.split)

lemma map_device_signals_keeps [simp]:
  "ig_name (map_device_signals f ig) = ig_name ig"
  "ig_origin (map_device_signals f ig) = ig_origin ig"
  by (simp_all add: map_device_signals_def)

lemma truncate_to_browser_signals [simp]:
  "browser_signals.truncate (to_browser_signals_for_bidding L U bs) = bs"
  by (simp add: to_browser_signals_for_bidding_def)

lemma to_buyer_input_inverse:
  "to_buyer_input (to_buyer_input_for_bidding L U bi)
     = bi\<lparr>bi_protected_app_signals :=
           Some (case bi_protected_app_signals bi of None \<Rightarrow> no_protected_app_signals | Some p \<Rightarrow> p)\<rparr>"
  by (cases bi)
     (simp add: to_buyer_input_def to_buyer_input_for_bidding_def to_interest_group_for_bidding_def
       cong: map_cong)

lemma pas_of_clear_pas [simp]: "pas_of (clear_pas b) = no_protected_app_signals"
  by (cases b) (simp_all add: clear_pas_def pas_of_def)

lemma pas_of_to_buyer_input: "pas_of (Some (to_buyer_input bi)) = pas_of (Some bi)"
  by (simp add: pas_of_def to_buyer_input_def split: option.split)

lemma no_app_install_signals [simp]: "pas_app_install_signals no_protected_app_signals = []"
  by (simp add: no_protected_app_signals_def)

lemma create_get_bids_request_inputs:
  "gb_buyer_input (create_get_bids_request L sf k cl c input s buyer bi) = Some (to_buyer_input bi)"
  "gb_buyer_input_for_bidding (create_get_bids_request L sf k cl c input s buyer bi)
     = Some (if sf_enable_protected_audience sf then bi else bi\<lparr>bi_interest_groups := []\<rparr>)"
  "gb_pas_buyer_input (create_get_bids_request L sf k cl c input s buyer bi) = None"
  by (auto simp: create_get_bids_request_def with_per_buyer_config_def Let_def
      default_get_bids_request_def split: option.split sum.split)

lemma decode_buyer_input_step:
  "decode_buyer_input L U C (owner, e) (inputs, errors) =
     (case (case gzip_decompress C e of Inl _ \<Rightarrow> None | Inr s \<Rightarrow> parse_buyer_input C s) of
        Some bi \<Rightarrow> (al_emplace owner (to_buyer_input_for_bidding L U bi) inputs, errors)
      | None \<Rightarrow> (inputs, snd (decode_buyer_input L U C (owner, e) (inputs, errors))))"
  by (simp add: decode_buyer_input_def split: sum.split option.split)

end
