(* ===== verification/Moving_Median.thy ===== *)
theory Moving_Median
  imports Json_Model
begin

text \<open>
  \<open>MovingMedian\<close> and \<open>MovingMedianManager\<close> (\<open>common/chaffing\<close>): the median of the last sizes of a
  buyer's requests, which sizes the chaff. \<open>std::multiset\<close> is the sorted list of its elements. The
  draws of the random number generator (\<open>common/random/rng.h\<close>, which leaves them to the standard
  library) are arguments.
\<close>

record moving_median =
  mm_window_size :: nat
  mm_window :: "int list"
  mm_window_data :: "int list"
  mm_median :: "int status_or"
  mm_sampling_probability :: f64

definition window_not_full :: "string \<Rightarrow> status" where
  "window_not_full m = \<lparr>st_code = FAILED_PRECONDITION, st_message = m\<rparr>"

definition new_moving_median :: "nat \<Rightarrow> f64 \<Rightarrow> moving_median" where
  "new_moving_median window_size p =
     \<lparr>mm_window_size = window_size, mm_window = [], mm_window_data = [],
      mm_median = Inl (window_not_full ''Window is not full''), mm_sampling_probability = p\<rparr>"

text \<open>
  \<open>mid_\<close> is the position \<open>(window_size_ - 1) / 2\<close> of the window, set whenever the window is full. The
  sum and its half are exact in \<open>double\<close>, and the conversion to \<open>int\<close> drops the fraction.
\<close>

definition calculate_median :: "moving_median \<Rightarrow> int status_or" where
  "calculate_median m =
     (let mid = (mm_window_size m - 1) div 2
      in if length (mm_window_data m) < mm_window_size m
         then Inl (window_not_full ''Window is not full.'')
         else if even (mm_window_size m)
         then Inr (trunc_int (rat_of_int (mm_window m ! mid + mm_window m ! (mid + 1)) / 2))
         else Inr (mm_window m ! mid))"

text \<open>\<open>draw\<close> is what \<open>GetUniformDouble(0, 1)\<close> returns, if it is called.\<close>

definition add_number :: "f64 \<Rightarrow> int \<Rightarrow> moving_median \<Rightarrow> moving_median" where
  "add_number draw v m =
     (if mm_window_size m \<le> length (mm_window_data m)
         \<and> (mm_sampling_probability m = 0 \<or> mm_sampling_probability m \<le> draw)
      then m
      else
        (let window = insort v (mm_window m); data = mm_window_data m @ [v];
             m' = (if mm_window_size m < length window
                   then m\<lparr>mm_window := remove1 (hd data) window, mm_window_data := tl data\<rparr>
                   else m\<lparr>mm_window := window, mm_window_data := data\<rparr>)
         in m'\<lparr>mm_median := calculate_median m'\<rparr>))"

definition is_window_filled :: "moving_median \<Rightarrow> bool" where
  "is_window_filled m \<longleftrightarrow> mm_window_size m = length (mm_window_data m)"

section \<open>The medians of all buyers\<close>

type_synonym moving_medians = "(string \<times> moving_median) list"

definition moving_median_manager :: "string list \<Rightarrow> nat \<Rightarrow> f64 \<Rightarrow> moving_medians" where
  "moving_median_manager buyers window_size p = map (\<lambda>b. (b, new_moving_median window_size p)) buyers"

definition buyer_not_present :: "string \<Rightarrow> status" where
  "buyer_not_present buyer =
     invalid_argument (''Buyer not present in moving median manager: '' @ buyer)"

definition add_number_to_buyer_window ::
  "string \<Rightarrow> f64 \<Rightarrow> int \<Rightarrow> moving_medians \<Rightarrow> status \<times> moving_medians" where
  "add_number_to_buyer_window buyer draw v ms =
     (case map_of ms buyer of
        None \<Rightarrow> (buyer_not_present buyer, ms)
      | Some _ \<Rightarrow>
          (ok_status, map (\<lambda>(b, m). (b, if b = buyer then add_number draw v m else m)) ms))"

definition get_median :: "string \<Rightarrow> moving_medians \<Rightarrow> int status_or" where
  "get_median buyer ms =
     (case map_of ms buyer of None \<Rightarrow> Inl (buyer_not_present buyer) | Some m \<Rightarrow> mm_median m)"

definition get_is_window_filled :: "string \<Rightarrow> moving_medians \<Rightarrow> bool status_or" where
  "get_is_window_filled buyer ms =
     (case map_of ms buyer of
        None \<Rightarrow> Inl (buyer_not_present buyer) | Some m \<Rightarrow> Inr (is_window_filled m))"

section \<open>The window\<close>

text \<open>
  The specification: the window holds the last values that were kept, at most \<open>window_size_\<close> of them, and the
  median is that of the sorted values.
\<close>

definition median_of :: "nat \<Rightarrow> int list \<Rightarrow> int" where
  "median_of n xs =
     (let ys = sort xs; mid = (n - 1) div 2
      in if even n then trunc_int (rat_of_int (ys ! mid + ys ! (mid + 1)) / 2) else ys ! mid)"

definition median_inv :: "moving_median \<Rightarrow> bool" where
  "median_inv m \<longleftrightarrow>
     length (mm_window_data m) \<le> mm_window_size m \<and> mm_window m = sort (mm_window_data m)
     \<and> (if is_window_filled m then mm_median m = Inr (median_of (mm_window_size m) (mm_window_data m))
        else isl (mm_median m))"

definition slide :: "nat \<Rightarrow> int \<Rightarrow> int list \<Rightarrow> int list" where
  "slide n v xs = (if length xs < n then xs @ [v] else tl (xs @ [v]))"

definition skips :: "f64 \<Rightarrow> moving_median \<Rightarrow> bool" where
  "skips draw m \<longleftrightarrow> is_window_filled m
     \<and> (mm_sampling_probability m = 0 \<or> mm_sampling_probability m \<le> draw)"

lemma sort_snoc: "insort v (sort xs) = sort (xs @ [v :: int])"
  by (rule sym, rule properties_for_sort) (simp_all add: sorted_insort)

lemma sort_tl: "xs \<noteq> [] \<Longrightarrow> remove1 (hd xs) (sort xs) = sort (tl (xs :: int list))"
  by (rule sym, rule properties_for_sort) (cases xs; simp add: sorted_remove1)+

lemma calculate_median_sorted:
  assumes "mm_window m = sort (mm_window_data m)" "length (mm_window_data m) \<le> mm_window_size m"
  shows "calculate_median m =
    (if is_window_filled m then Inr (median_of (mm_window_size m) (mm_window_data m))
     else Inl (window_not_full ''Window is not full.''))"
  using assms by (auto simp: calculate_median_def is_window_filled_def median_of_def Let_def)

lemma add_number_data:
  assumes "median_inv m" "0 < mm_window_size m"
  shows "mm_window_data (add_number draw v m)
      = (if skips draw m then mm_window_data m else slide (mm_window_size m) v (mm_window_data m))"
    and "mm_window_size (add_number draw v m) = mm_window_size m"
  using assms
  by (auto simp: add_number_def skips_def slide_def median_inv_def is_window_filled_def Let_def)

lemma add_number_inv:
  assumes inv: "median_inv m" and pos: "0 < mm_window_size m"
  shows "median_inv (add_number draw v m)"
proof (cases "skips draw m")
  case True
  then have "add_number draw v m = m"
    using inv by (simp add: add_number_def skips_def is_window_filled_def)
  then show ?thesis using inv by simp
next
  case False
  let ?m = "add_number draw v m"
  have w: "mm_window m = sort (mm_window_data m)" and l: "length (mm_window_data m) \<le> mm_window_size m"
    using inv by (simp_all add: median_inv_def)
  have win: "mm_window ?m = sort (mm_window_data ?m)"
    using False w l pos sort_snoc [of v "mm_window_data m"] sort_tl [of "mm_window_data m @ [v]"]
    by (auto simp: add_number_def skips_def is_window_filled_def Let_def)
  have len: "length (mm_window_data ?m) \<le> mm_window_size ?m"
    using False l pos by (auto simp: add_number_data [OF inv pos] slide_def)
  have "mm_median ?m = calculate_median ?m"
    using False l by (auto simp: add_number_def skips_def is_window_filled_def Let_def calculate_median_def)
  then show ?thesis
    using win len calculate_median_sorted [OF win len] by (simp add: median_inv_def)
qed

lemma moving_median_inv: "0 < n \<Longrightarrow> median_inv (new_moving_median n p)"
  by (simp add: median_inv_def new_moving_median_def is_window_filled_def)

lemma fold_add_number_inv:
  assumes "0 < n"
  shows "median_inv (fold (\<lambda>(draw, v). add_number draw v) draws (new_moving_median n p))
    \<and> mm_window_size (fold (\<lambda>(draw, v). add_number draw v) draws (new_moving_median n p)) = n"
proof (induction draws rule: rev_induct)
  case Nil
  then show ?case using moving_median_inv [OF assms] by (simp add: new_moving_median_def)
next
  case (snoc d draws)
  then show ?case
    using assms by (cases d) (simp add: add_number_inv add_number_data)
qed

end
