(* ===== verification/Task_Tracker.thy ===== *)
theory Task_Tracker
  imports Prelude
begin

text \<open>
  \<open>AsyncTaskTracker\<close> (\<open>common/util/async_task_tracker.cc\<close>): counts the asynchronous tasks of a request
  and calls back when the last one is done. A call of \<open>TaskCompleted\<close> holds the lock while it
  counts, so that the completions of any interleaving are a list.
\<close>

datatype task_status =
    TASK_UNKNOWN | TASK_SKIPPED | TASK_EMPTY_RESPONSE | TASK_CANCELLED | TASK_ERROR | TASK_SUCCESS

record task_tracker =
  tt_num_tasks_to_track :: int
  tt_pending :: int
  tt_successful :: int
  tt_empty :: int
  tt_skipped :: int
  tt_error :: int
  tt_cancelled :: int

definition set_num_tasks_to_track :: "int \<Rightarrow> task_tracker" where
  "set_num_tasks_to_track n =
     \<lparr>tt_num_tasks_to_track = n, tt_pending = n, tt_successful = 0, tt_empty = 0, tt_skipped = 0,
      tt_error = 0, tt_cancelled = 0\<rparr>"

definition any_task_successfully_completed :: "task_tracker \<Rightarrow> bool" where
  "any_task_successfully_completed t \<longleftrightarrow>
     tt_successful t > 0 \<or> (tt_empty t > 0 \<or> tt_skipped t > 0) \<or> tt_error t = 0"

fun count_task :: "task_status \<Rightarrow> task_tracker \<Rightarrow> task_tracker" where
  "count_task TASK_ERROR t = t\<lparr>tt_error := tt_error t + 1\<rparr>"
| "count_task TASK_EMPTY_RESPONSE t = t\<lparr>tt_empty := tt_empty t + 1\<rparr>"
| "count_task TASK_SKIPPED t = t\<lparr>tt_skipped := tt_skipped t + 1\<rparr>"
| "count_task TASK_CANCELLED t = t\<lparr>tt_cancelled := tt_cancelled t + 1\<rparr>"
| "count_task TASK_SUCCESS t = t\<lparr>tt_successful := tt_successful t + 1\<rparr>"
| "count_task TASK_UNKNOWN t = t"

text \<open>The second component is the argument of \<open>on_all_tasks_done_\<close>, when it is called.\<close>

definition task_completed :: "task_status \<Rightarrow> task_tracker \<Rightarrow> task_tracker \<times> bool option" where
  "task_completed s t =
     (let t' = count_task s (t\<lparr>tt_pending := tt_pending t - 1\<rparr>)
      in (t', if tt_pending t' = 0 then Some (any_task_successfully_completed t') else None))"

text \<open>The arguments of the calls back that a list of completions makes.\<close>

fun calls_back :: "task_status list \<Rightarrow> task_tracker \<Rightarrow> bool list" where
  "calls_back [] t = []"
| "calls_back (s # ss) t =
     (case task_completed s t of (t', called) \<Rightarrow>
        (case called of None \<Rightarrow> calls_back ss t' | Some any \<Rightarrow> any # calls_back ss t'))"

section \<open>Lemmas\<close>

lemma count_task_pending [simp]: "tt_pending (count_task s t) = tt_pending t"
  by (cases s) simp_all

lemma task_completed_pending [simp]: "tt_pending (fst (task_completed s t)) = tt_pending t - 1"
  by (simp add: task_completed_def Let_def)

lemma calls_back_exhausted: "tt_pending t \<le> 0 \<Longrightarrow> calls_back ss t = []"
proof (induction ss arbitrary: t)
  case (Cons s ss)
  then show ?case by (simp add: task_completed_def Let_def)
qed simp

text \<open>The counters are the numbers of completions with each status.\<close>

definition tallied :: "task_status list \<Rightarrow> task_tracker \<Rightarrow> bool" where
  "tallied ss t \<longleftrightarrow>
     tt_successful t = int (count_list ss TASK_SUCCESS) \<and> tt_empty t = int (count_list ss TASK_EMPTY_RESPONSE)
     \<and> tt_skipped t = int (count_list ss TASK_SKIPPED) \<and> tt_error t = int (count_list ss TASK_ERROR)
     \<and> tt_cancelled t = int (count_list ss TASK_CANCELLED)"

lemma tallied_initial: "tallied [] (set_num_tasks_to_track n)"
  by (simp add: tallied_def set_num_tasks_to_track_def)

lemma tallied_step: "tallied ss t \<Longrightarrow> tallied (ss @ [s]) (fst (task_completed s t))"
  by (cases s) (simp_all add: tallied_def task_completed_def Let_def)

lemma count_list_pos_iff: "0 < count_list xs x \<longleftrightarrow> x \<in> set xs"
  by (metis count_list_0_iff neq0_conv)

text \<open>
  Whether the tasks are reported to have succeeded: one succeeded, returned nothing or was skipped, or
  none failed.
\<close>

definition some_task_succeeded :: "task_status list \<Rightarrow> bool" where
  "some_task_succeeded ss \<longleftrightarrow>
     TASK_SUCCESS \<in> set ss \<or> TASK_EMPTY_RESPONSE \<in> set ss \<or> TASK_SKIPPED \<in> set ss
     \<or> TASK_ERROR \<notin> set ss"

lemma any_task_tallied: "tallied ss t \<Longrightarrow> any_task_successfully_completed t = some_task_succeeded ss"
  by (auto simp: any_task_successfully_completed_def some_task_succeeded_def tallied_def
      count_list_pos_iff count_list_0_iff)

lemma calls_back_counted:
  assumes "tallied seen t" and "tt_pending t = int n" and "0 < n"
  shows "calls_back ss t
    = (if length ss < n then [] else [some_task_succeeded (seen @ take n ss)])"
  using assms
proof (induction ss arbitrary: seen t n)
  case (Cons s ss)
  obtain t' called where step: "task_completed s t = (t', called)" by fastforce
  have c: "tallied (seen @ [s]) t'" using tallied_step [OF Cons.prems(1), of s] step by simp
  have p: "tt_pending t' = int (n - 1)"
    using task_completed_pending [of s t] Cons.prems step by simp
  have called: "called = (if n = 1 then Some (any_task_successfully_completed t') else None)"
    using step p Cons.prems(3) by (auto simp: task_completed_def Let_def)
  show ?case
  proof (cases "n = 1")
    case True
    then show ?thesis
      using step called p calls_back_exhausted [of t' ss] any_task_tallied [OF c] by simp
  next
    case False
    then have "0 < n - 1" using Cons.prems(3) by simp
    from Cons.IH [OF c p this] show ?thesis
      using step called False Cons.prems(3) by (cases n) auto
  qed
qed simp

lemma task_tracker_calls_back:
  "0 < n \<Longrightarrow> calls_back ss (set_num_tasks_to_track (int n))
     = (if length ss < n then [] else [some_task_succeeded (take n ss)])"
  using calls_back_counted [OF tallied_initial, of "int n" n ss]
  by (simp add: set_num_tasks_to_track_def)

end
