(* ===== verification/Chaffing.thy ===== *)
theory Chaffing
  imports Buyer_Inputs Moving_Median Task_Tracker
begin

text \<open>
  Which buyers a SelectAd call asks for bids, and how large the requests are: chaffing
  (\<open>seller_frontend_service/util/chaffing_utils.cc\<close>, \<open>SelectAdReactor::FetchBids\<close> and its helpers).
  \<open>RandomNumberGenerator\<close> (\<open>common/random/rng.cc\<close>) hands its draws to the standard library; it is a
  state and the record of its operations, of which \<open>rng_source\<close> states what the distributions promise.
\<close>

record 'g rng_ops =
  get_uniform_int :: "int \<Rightarrow> int \<Rightarrow> 'g \<Rightarrow> int \<times> 'g"
  get_uniform_double :: "f64 \<Rightarrow> f64 \<Rightarrow> 'g \<Rightarrow> f64 \<times> 'g"
  get_normal_double :: "f64 \<Rightarrow> f64 \<Rightarrow> 'g \<Rightarrow> f64 \<times> 'g"
  shuffled_positions :: "nat \<Rightarrow> 'g \<Rightarrow> nat list \<times> 'g"

text \<open>\<open>std::shuffle\<close> does not look at the elements: it puts the positions in a random order.\<close>

definition shuffle :: "'g rng_ops \<Rightarrow> 'a list \<Rightarrow> 'g \<Rightarrow> 'a list \<times> 'g" where
  "shuffle R xs g = (case shuffled_positions R (length xs) g of (ps, g') \<Rightarrow> (map ((!) xs) ps, g'))"

locale rng_source =
  fixes R :: "'g rng_ops"
  assumes uniform_int: "lower \<le> upper \<Longrightarrow> fst (get_uniform_int R lower upper g) \<in> {lower..upper}"
    and shuffles: "mset (fst (shuffled_positions R n g)) = mset [0..<n]"
begin

lemma mset_shuffle [simp]: "mset (fst (shuffle R xs g)) = mset xs"
proof -
  obtain ps g' where s: "shuffled_positions R (length xs) g = (ps, g')" by fastforce
  then have "mset ps = mset [0..<length xs]" using shuffles [of "length xs" g] by simp
  then have "mset (map ((!) xs) ps) = mset (map ((!) xs) [0..<length xs])" by simp
  then show ?thesis by (simp add: shuffle_def s map_nth)
qed

lemma length_shuffle [simp]: "length (fst (shuffle R xs g)) = length xs"
  using mset_eq_length [OF mset_shuffle] .

lemma set_shuffle [simp]: "set (fst (shuffle R xs g)) = set xs"
  using mset_eq_setD [OF mset_shuffle] .

end

text \<open>A generator that draws the lower bound and leaves the order alone meets the laws.\<close>

definition lowest_draws :: "unit rng_ops" where
  "lowest_draws =
     \<lparr>get_uniform_int = (\<lambda>l u g. (l, g)), get_uniform_double = (\<lambda>l u g. (u, g)),
      get_normal_double = (\<lambda>m d g. (m, g)), shuffled_positions = (\<lambda>n g. ([0..<n], g))\<rparr>"

interpretation lowest_draws: rng_source lowest_draws
  by unfold_locales (simp_all add: lowest_draws_def)

section \<open>The sizes of requests\<close>

datatype compression_type = Uncompressed | Gzip | Zstd

record request_config =
  rc_minimum_request_size :: int
  rc_compression_type :: compression_type
  rc_is_chaff_request :: bool

definition make_request_config :: "int \<Rightarrow> compression_type \<Rightarrow> bool \<Rightarrow> request_config" where
  "make_request_config min_size algo is_chaff =
     \<lparr>rc_minimum_request_size = min_size, rc_compression_type = algo, rc_is_chaff_request = is_chaff\<rparr>"

definition get_chaffing_v1_request_config ::
  "'g rng_ops \<Rightarrow> bool \<Rightarrow> compression_type \<Rightarrow> 'g \<Rightarrow> request_config \<times> 'g" where
  "get_chaffing_v1_request_config R is_chaff algo g =
     (if is_chaff then
        (case get_uniform_int R 9000 95000 g of (k, g') \<Rightarrow> (make_request_config k algo is_chaff, g'))
      else (make_request_config 0 algo is_chaff, g))"

definition unfilled_window_request_size :: int where
  "unfilled_window_request_size = 100000"

definition get_chaffing_v2_request_config ::
  "string \<Rightarrow> bool \<Rightarrow> moving_medians \<Rightarrow> compression_type \<Rightarrow> request_config" where
  "get_chaffing_v2_request_config buyer is_chaff medians algo =
     make_request_config
       (case get_is_window_filled buyer medians of
          Inl _ \<Rightarrow> unfilled_window_request_size
        | Inr filled \<Rightarrow>
            if \<not> is_chaff then if filled then 0 else unfilled_window_request_size
            else (case get_median buyer medians of
                    Inl _ \<Rightarrow> unfilled_window_request_size
                  | Inr m \<Rightarrow> if filled then m else unfilled_window_request_size))
       algo is_chaff"

definition should_skip_chaffing :: "'g rng_ops \<Rightarrow> nat \<Rightarrow> 'g \<Rightarrow> bool \<times> 'g" where
  "should_skip_chaffing R num_buyers g =
     (case get_uniform_double R 0 1 g of
        (d, g') \<Rightarrow> (if num_buyers \<le> 5 then d < to_f64 (99 / 100) else d < to_f64 (95 / 100), g'))"

section \<open>Which buyers are asked\<close>

record chaffing_config =
  cc_chaff_request_candidates :: "string list"
  cc_num_chaff_requests :: int
  cc_num_real_requests :: int

record invoked_buyers =
  ib_chaff_buyer_names :: "string list"
  ib_non_chaff_buyer_names :: "string list"

text \<open>
  The number of chaff requests: uniform between the lower bound and the number of candidates; the
  second version scales it by a normal draw clamped to [0, 1] and rounds up.
\<close>

definition chaff_lower_bound :: "int \<Rightarrow> nat \<Rightarrow> int" where
  "chaff_lower_bound num_real n_candidates = min (if num_real = 0 then 2 else 1) (int n_candidates)"

definition draw_num_chaff_requests ::
  "'g rng_ops \<Rightarrow> bool \<Rightarrow> int \<Rightarrow> nat \<Rightarrow> 'g \<Rightarrow> int \<times> 'g" where
  "draw_num_chaff_requests R v2 num_real n g =
     (case get_uniform_int R (chaff_lower_bound num_real n) (int n) g of (k, g1) \<Rightarrow>
        if v2 then
          (case get_normal_double R (to_f32 (rat_of_nat n / 6)) (to_f32 (3 / 10)) g1 of
             (d, g2) \<Rightarrow> (\<lceil>f64_mul (rat_of_int k) (max 0 (min 1 d))\<rceil>, g2))
        else (k, g1))"

definition get_chaffing_config ::
  "'g rng_ops \<Rightarrow> sfe_config \<Rightarrow> invoked_buyers option \<Rightarrow> string list
     \<Rightarrow> (string \<times> buyer_input_for_bidding) list \<Rightarrow> 'g \<Rightarrow> chaffing_config \<times> 'g" where
  "get_chaffing_config R sf invoked buyer_list buyer_inputs g =
     (case (if sf_enable_buyer_caching sf then invoked else None) of
        Some b \<Rightarrow>
          (\<lparr>cc_chaff_request_candidates = ib_chaff_buyer_names b,
            cc_num_chaff_requests = int (length (ib_chaff_buyer_names b)),
            cc_num_real_requests = int (length (ib_non_chaff_buyer_names b))\<rparr>, g)
      | None \<Rightarrow>
          (let configured = filter (\<lambda>b. b \<in> set buyer_list) (sf_buyers sf);
               candidates = filter (\<lambda>b. map_of buyer_inputs b = None) configured;
               num_real = int (length (filter (\<lambda>b. map_of buyer_inputs b \<noteq> None) configured));
               no_chaff = \<lparr>cc_chaff_request_candidates = [], cc_num_chaff_requests = 0,
                           cc_num_real_requests = num_real\<rparr>
           in if \<not> sf_enable_chaffing sf then (no_chaff, g)
              else
                (case should_skip_chaffing R (length (sf_buyers sf)) g of (skip, g1) \<Rightarrow>
                   if skip then (no_chaff, g1)
                   else
                     (case (if candidates = [] then (0, g1)
                            else draw_num_chaff_requests R (sf_enable_chaffing_v2 sf) num_real
                                   (length candidates) g1) of (num_chaff, g2) \<Rightarrow>
                        (case shuffle R candidates g2 of (shuffled, g3) \<Rightarrow>
                           (\<lparr>cc_chaff_request_candidates = shuffled,
                             cc_num_chaff_requests = num_chaff,
                             cc_num_real_requests = num_real\<rparr>, g3))))))"

definition get_effective_number_of_buyers :: "sfe_config \<Rightarrow> chaffing_config \<Rightarrow> int" where
  "get_effective_number_of_buyers sf cc =
     (if sf_enable_chaffing sf then cc_num_real_requests cc + cc_num_chaff_requests cc
      else cc_num_real_requests cc)"

definition get_non_chaff_buyer_names ::
  "sfe_config \<Rightarrow> string list \<Rightarrow> (string \<times> buyer_input_for_bidding) list \<Rightarrow> chaffing_config
     \<Rightarrow> string list" where
  "get_non_chaff_buyer_names sf buyer_list buyer_inputs cc =
     filter (\<lambda>b. \<not> (sf_enable_chaffing sf \<and> b \<in> set (cc_chaff_request_candidates cc))
               \<and> b \<in> set buyer_list \<and> map_of buyer_inputs b \<noteq> None) (sf_buyers sf)"

section \<open>\<open>FetchBids\<close>\<close>

record 'g bids_fetch =
  bf_num_tasks :: int
  bf_sent :: "(string \<times> get_bids_raw_request) list"
  bf_skipped :: nat
  bf_invoked :: invoked_buyers
  bf_rng :: 'g

text \<open>\<open>create\<close> is \<open>CreateGetBidsRequest\<close>, which the reactor of each client overrides.\<close>

definition real_requests ::
  "(string \<Rightarrow> buyer_input_for_bidding \<Rightarrow> get_bids_raw_request)
     \<Rightarrow> (string \<times> buyer_input_for_bidding) list \<Rightarrow> string list
     \<Rightarrow> (string \<times> get_bids_raw_request) list" where
  "real_requests create buyer_inputs buyers =
     List.map_filter
       (\<lambda>b. case map_of buyer_inputs b of None \<Rightarrow> None | Some bi \<Rightarrow> Some (b, create b bi)) buyers"

definition chaff_request :: "protected_input \<Rightarrow> get_bids_raw_request" where
  "chaff_request input =
     default_get_bids_request\<lparr>gb_is_chaff := True, gb_generation_id := pi_generation_id input\<rparr>"

definition chaff_requests ::
  "protected_input \<Rightarrow> int \<Rightarrow> string list \<Rightarrow> (string \<times> get_bids_raw_request) list" where
  "chaff_requests input num_chaff candidates =
     map (\<lambda>b. (b, chaff_request input)) (take (nat num_chaff) candidates)"

text \<open>The number of tasks to wait for, and \<open>buyer_get_bids_requests\<close>.\<close>

definition buyer_get_bids_requests ::
  "sfe_config \<Rightarrow> (string \<Rightarrow> buyer_input_for_bidding \<Rightarrow> get_bids_raw_request)
     \<Rightarrow> invoked_buyers option \<Rightarrow> string list \<Rightarrow> protected_input
     \<Rightarrow> (string \<times> buyer_input_for_bidding) list \<Rightarrow> chaffing_config
     \<Rightarrow> (string \<times> get_bids_raw_request) list" where
  "buyer_get_bids_requests sf create invoked buyer_list input buyer_inputs cc =
     (case (if sf_enable_buyer_caching sf then invoked else None) of
        Some b \<Rightarrow>
          real_requests create buyer_inputs (ib_non_chaff_buyer_names b)
          @ chaff_requests input (cc_num_chaff_requests cc) (ib_chaff_buyer_names b)
      | None \<Rightarrow>
          real_requests create buyer_inputs (get_non_chaff_buyer_names sf buyer_list buyer_inputs cc)
          @ chaff_requests input (cc_num_chaff_requests cc) (cc_chaff_request_candidates cc))"

definition max_buyers_solicited :: "sfe_config \<Rightarrow> int" where
  "max_buyers_solicited sf = (if sf_enable_chaffing sf then 15 else sf_max_buyers_solicited sf)"

definition solicit :: "sfe_config \<Rightarrow> int \<Rightarrow> (string \<times> get_bids_raw_request) list \<Rightarrow> 'g \<Rightarrow> 'g bids_fetch" where
  "solicit sf n requests g =
     (let solicited = take (nat (max_buyers_solicited sf)) requests
      in \<lparr>bf_num_tasks = n, bf_sent = solicited, bf_skipped = length requests - length solicited,
          bf_invoked =
            \<lparr>ib_chaff_buyer_names = map fst (filter (gb_is_chaff \<circ> snd) solicited),
             ib_non_chaff_buyer_names = map fst (filter (Not \<circ> gb_is_chaff \<circ> snd) solicited)\<rparr>,
          bf_rng = g\<rparr>)"

definition fetch_bids ::
  "'g rng_ops \<Rightarrow> sfe_config \<Rightarrow> (string \<Rightarrow> buyer_input_for_bidding \<Rightarrow> get_bids_raw_request)
     \<Rightarrow> invoked_buyers option \<Rightarrow> string list \<Rightarrow> protected_input
     \<Rightarrow> (string \<times> buyer_input_for_bidding) list \<Rightarrow> 'g \<Rightarrow> 'g bids_fetch" where
  "fetch_bids R sf create invoked buyer_list input buyer_inputs g =
     (case get_chaffing_config R sf invoked buyer_list buyer_inputs g of (cc, g1) \<Rightarrow>
        let n = get_effective_number_of_buyers sf cc;
            requests = buyer_get_bids_requests sf create invoked buyer_list input buyer_inputs cc
        in if n = 0 then solicit sf 0 [] g1
           else (case (if sf_enable_chaffing sf then shuffle R requests g1 else (requests, g1)) of
                   (requests', g2) \<Rightarrow> solicit sf n requests' g2))"

section \<open>Lemmas\<close>

lemma round_half_even_le: "x \<le> of_int k \<Longrightarrow> round_half_even x \<le> k"
proof -
  assume "x \<le> of_int k"
  then consider "\<lfloor>x\<rfloor> < k" | "x = of_int k" by linarith
  then show ?thesis by cases (auto simp: round_half_even_def Let_def)
qed

lemma round_half_even_ge: "of_int k \<le> x \<Longrightarrow> k \<le> round_half_even x"
proof -
  assume "of_int k \<le> x"
  then have "k \<le> \<lfloor>x\<rfloor>" by (simp add: le_floor_iff)
  then show ?thesis by (auto simp: round_half_even_def Let_def)
qed

lemma pow2_nonpos: "j \<le> 0 \<Longrightarrow> of_int k / pow2 j = of_int (k * 2 ^ nat (- j))"
  by (auto simp: pow2_def)

text \<open>Rounding to \<open>double\<close> does not lead past an integer that it represents.\<close>

lemma to_f64_le_int:
  assumes "0 \<le> x" "x \<le> of_int k" "k < 2 ^ 53"
  shows "0 \<le> to_f64 x" and "to_f64 x \<le> of_int k"
proof -
  define j where "j = max (exponent_of x) (- 1022) - 52"
  have u: "0 < pow2 j" by simp
  have j: "j \<le> 0" if "x \<noteq> 0"
  proof (rule ccontr)
    assume "\<not> j \<le> 0"
    then have e: "53 \<le> exponent_of x" by (simp add: j_def)
    have "(2 :: rat) ^ 53 \<le> 2 ^ nat (exponent_of x)" using e by (intro power_increasing) auto
    also have "\<dots> = pow2 (exponent_of x)" using e by (simp add: pow2_def)
    also have "\<dots> \<le> x" using exponent_of_bounds [OF that] assms(1) by simp
    also have "\<dots> \<le> of_int k" by (rule assms(2))
    also have "\<dots> < 2 ^ 53" using assms(3) by (metis of_int_less_iff of_int_numeral of_int_power)
    finally show False by simp
  qed
  have "0 \<le> round_half_even (x / pow2 j)"
    using divide_nonneg_pos [OF assms(1) u] by (intro round_half_even_ge) simp
  then have "0 \<le> rat_of_int (round_half_even (x / pow2 j)) * pow2 j"
    using less_imp_le [OF u] by (intro mult_nonneg_nonneg) simp_all
  then show "0 \<le> to_f64 x" by (simp add: to_f64_def f64_ulp_def j_def)
  show "to_f64 x \<le> of_int k"
  proof (cases "x = 0")
    case True
    then show ?thesis using assms(2) by simp
  next
    case False
    define N where "N = k * 2 ^ nat (- j)"
    have N: "of_int k / pow2 j = of_int N" using pow2_nonpos [OF j [OF False]] by (simp add: N_def)
    have "x / pow2 j \<le> of_int N" unfolding N [symmetric]
      using divide_right_mono [OF assms(2) less_imp_le [OF u]] .
    then have "round_half_even (x / pow2 j) \<le> N" by (rule round_half_even_le)
    then have "(of_int (round_half_even (x / pow2 j)) :: rat) * pow2 j \<le> of_int N * pow2 j"
      using less_imp_le [OF u] by (intro mult_right_mono) simp_all
    also have "\<dots> = of_int k" using N u by (metis less_irrefl nonzero_divide_eq_eq)
    finally show ?thesis using False by (simp add: to_f64_def f64_ulp_def j_def)
  qed
qed

lemma map_filter_total:
  "(\<And>x. x \<in> set xs \<Longrightarrow> f x \<noteq> None) \<Longrightarrow> length (List.map_filter f xs) = length xs"
proof (induction xs)
  case (Cons x xs)
  obtain y where "f x = Some y" using Cons.prems [of x] by auto
  then show ?case using Cons by (simp add: List.map_filter_simps)
qed (simp add: List.map_filter_simps)

lemma real_requests_length:
  "(\<And>b. b \<in> set bs \<Longrightarrow> map_of inputs b \<noteq> None)
     \<Longrightarrow> length (real_requests create inputs bs) = length bs"
  unfolding real_requests_def by (rule map_filter_total) (auto split: option.split)

lemma clamp_product:
  assumes "0 \<le> k" "k < 2 ^ 53"
  shows "\<lceil>f64_mul (rat_of_int k) (max 0 (min 1 d))\<rceil> \<in> {0..k}"
proof -
  have "0 \<le> rat_of_int k * max 0 (min 1 d)" using assms(1) by simp
  moreover have "rat_of_int k * max 0 (min 1 d) \<le> of_int k"
    using assms(1) mult_left_mono [of "max 0 (min 1 d)" 1 "rat_of_int k"] by simp
  ultimately have "0 \<le> f64_mul (rat_of_int k) (max 0 (min 1 d))"
    and "f64_mul (rat_of_int k) (max 0 (min 1 d)) \<le> of_int k"
    using to_f64_le_int [OF _ _ assms(2)] by (simp_all add: f64_mul_def)
  then show ?thesis by (simp add: ceiling_le_iff)
qed

context rng_source begin

lemma num_chaff_without_v2:
  "fst (draw_num_chaff_requests R False num_real n g) \<in> {chaff_lower_bound num_real n..int n}"
  using uniform_int [of "chaff_lower_bound num_real n" "int n" g]
  by (auto simp: draw_num_chaff_requests_def chaff_lower_bound_def split: prod.splits)

lemma num_chaff_bounds:
  assumes "n < 2 ^ 53"
  shows "fst (draw_num_chaff_requests R v2 num_real n g) \<in> {0..int n}"
proof -
  obtain k g1 where k: "get_uniform_int R (chaff_lower_bound num_real n) (int n) g = (k, g1)"
    by fastforce
  have "0 \<le> chaff_lower_bound num_real n" "chaff_lower_bound num_real n \<le> int n"
    by (simp_all add: chaff_lower_bound_def)
  then have b: "0 \<le> k" "k \<le> int n"
    using uniform_int [of "chaff_lower_bound num_real n" "int n" g] by (simp_all add: k)
  have "int n < 2 ^ 53" using assms by (metis of_nat_less_iff of_nat_numeral of_nat_power)
  then have "k < 2 ^ 53" using b(2) by linarith
  obtain d g2 where d: "get_normal_double R (to_f32 (rat_of_nat n / 6)) (to_f32 (3 / 10)) g1 = (d, g2)"
    by fastforce
  have "\<lceil>f64_mul (rat_of_int k) (max 0 (min 1 d))\<rceil> \<in> {0..int n}"
    using clamp_product [OF b(1) \<open>k < 2 ^ 53\<close>, of d] b(2) by (meson atLeastAtMost_iff order_trans)
  then show ?thesis using b by (simp add: draw_num_chaff_requests_def k d)
qed

text \<open>What \<open>GetChaffingConfig\<close> returns without cached buyers.\<close>

lemma chaffing_config_cases:
  fixes sf bl inputs
  defines "configured \<equiv> filter (\<lambda>b. b \<in> set bl) (sf_buyers sf)"
  defines "cs \<equiv> filter (\<lambda>b. map_of inputs b = None) configured"
    and "num_real \<equiv> int (length (filter (\<lambda>b. map_of inputs b \<noteq> None) configured))"
  obtains "fst (get_chaffing_config R sf None bl inputs g)
      = \<lparr>cc_chaff_request_candidates = [], cc_num_chaff_requests = 0, cc_num_real_requests = num_real\<rparr>"
  | k cs' g1 where "sf_enable_chaffing sf" and "mset cs' = mset cs"
    and "k = (if cs = [] then 0 else fst (draw_num_chaff_requests R (sf_enable_chaffing_v2 sf) num_real (length cs) g1))"
    and "fst (get_chaffing_config R sf None bl inputs g)
      = \<lparr>cc_chaff_request_candidates = cs', cc_num_chaff_requests = k, cc_num_real_requests = num_real\<rparr>"
proof (cases "sf_enable_chaffing sf")
  case False
  then show ?thesis by (intro that(1)) (simp add: get_chaffing_config_def Let_def configured_def num_real_def)
next
  case True
  obtain skip g1 where skip: "should_skip_chaffing R (length (sf_buyers sf)) g = (skip, g1)" by fastforce
  obtain k g2 where k: "(if cs = [] then (0, g1) else
      draw_num_chaff_requests R (sf_enable_chaffing_v2 sf) num_real (length cs) g1) = (k, g2)"
    by fastforce
  obtain cs' g3 where sh: "shuffle R cs g2 = (cs', g3)" by fastforce
  have m: "mset cs' = mset cs" using mset_shuffle [of cs g2] sh by simp
  have eq: "fst (get_chaffing_config R sf None bl inputs g) =
      (if skip then \<lparr>cc_chaff_request_candidates = [], cc_num_chaff_requests = 0,
                      cc_num_real_requests = num_real\<rparr>
       else \<lparr>cc_chaff_request_candidates = cs', cc_num_chaff_requests = k,
             cc_num_real_requests = num_real\<rparr>)"
    unfolding get_chaffing_config_def Let_def
    unfolding configured_def [symmetric]
    unfolding cs_def [symmetric] num_real_def [symmetric]
    by (simp add: True skip k sh)
  show ?thesis
  proof (cases skip)
    case True
    then show ?thesis using eq that(1) by simp
  next
    case False
    moreover have "k = (if cs = [] then 0 else
        fst (draw_num_chaff_requests R (sf_enable_chaffing_v2 sf) num_real (length cs) g1))"
      using k by (auto split: if_splits)
    ultimately show ?thesis using eq m True that(2) [of cs' k g1] by simp
  qed
qed

text \<open>Without cached buyers every expected task has a request, whose completion is counted.\<close>

lemma chaffing_config_bounds:
  fixes sf bl inputs g
  defines "cc \<equiv> fst (get_chaffing_config R sf None bl inputs g)"
  assumes size: "length (sf_buyers sf) < 2 ^ 53"
  shows "0 \<le> cc_num_chaff_requests cc"
    and "cc_num_chaff_requests cc \<le> int (length (cc_chaff_request_candidates cc))"
    and "\<And>b. b \<in> set (cc_chaff_request_candidates cc) \<Longrightarrow> map_of inputs b = None"
    and "cc_num_real_requests cc = int (length (get_non_chaff_buyer_names sf bl inputs cc))"
    and "\<not> sf_enable_chaffing sf \<Longrightarrow> cc_num_chaff_requests cc = 0"
proof -
  let ?configured = "filter (\<lambda>b. b \<in> set bl) (sf_buyers sf)"
  let ?cs = "filter (\<lambda>b. map_of inputs b = None) ?configured"
  have "length ?cs \<le> length (sf_buyers sf)" by (meson length_filter_le le_trans)
  then have n: "length ?cs < 2 ^ 53" using size by linarith
  have "0 \<le> cc_num_chaff_requests cc
      \<and> cc_num_chaff_requests cc \<le> int (length (cc_chaff_request_candidates cc))
      \<and> (\<forall>b \<in> set (cc_chaff_request_candidates cc). map_of inputs b = None)
      \<and> cc_num_real_requests cc
          = int (length (filter (\<lambda>b. map_of inputs b \<noteq> None) ?configured))
      \<and> (\<not> sf_enable_chaffing sf \<longrightarrow> cc_num_chaff_requests cc = 0)"
  proof (cases rule: chaffing_config_cases [of sf bl inputs g])
    case 1
    then show ?thesis by (simp add: cc_def)
  next
    case (2 k cs' g1)
    have "length cs' = length ?cs" using mset_eq_length [OF 2(2)] .
    moreover have "set cs' = set ?cs" using mset_eq_setD [OF 2(2)] .
    ultimately show ?thesis
      using 2 num_chaff_bounds [OF n] by (auto simp: cc_def)
  qed
  note facts = this
  then show "0 \<le> cc_num_chaff_requests cc"
    and "cc_num_chaff_requests cc \<le> int (length (cc_chaff_request_candidates cc))"
    and *: "\<And>b. b \<in> set (cc_chaff_request_candidates cc) \<Longrightarrow> map_of inputs b = None"
    and "\<not> sf_enable_chaffing sf \<Longrightarrow> cc_num_chaff_requests cc = 0"
    by auto
  have "get_non_chaff_buyer_names sf bl inputs cc
      = filter (\<lambda>b. map_of inputs b \<noteq> None) ?configured"
    by (auto simp: get_non_chaff_buyer_names_def dest: * intro!: filter_cong)
  then show "cc_num_real_requests cc = int (length (get_non_chaff_buyer_names sf bl inputs cc))"
    using facts by simp
qed

lemma every_task_has_a_request:
  fixes sf bl inputs g
  assumes size: "length (sf_buyers sf) < 2 ^ 53"
    and fetch: "fetch_bids R sf create None bl input inputs g = f"
  shows "int (length (bf_sent f) + bf_skipped f) = bf_num_tasks f"
proof -
  define cc where "cc = fst (get_chaffing_config R sf None bl inputs g)"
  note b = chaffing_config_bounds [OF size, where bl = bl and inputs = inputs and g = g, folded cc_def]
  let ?names = "get_non_chaff_buyer_names sf bl inputs cc"
  define requests where "requests = buyer_get_bids_requests sf create None bl input inputs cc"
  have "length (real_requests create inputs ?names) = length ?names"
    by (rule real_requests_length) (simp add: get_non_chaff_buyer_names_def)
  moreover have "length (chaff_requests input (cc_num_chaff_requests cc)
      (cc_chaff_request_candidates cc)) = nat (cc_num_chaff_requests cc)"
    using b(1,2) by (simp add: chaff_requests_def)
  ultimately have n: "int (length requests) = get_effective_number_of_buyers sf cc"
    using b(1,4,5)
    by (simp add: requests_def buyer_get_bids_requests_def get_effective_number_of_buyers_def)
  obtain g1 where g1: "get_chaffing_config R sf None bl inputs g = (cc, g1)"
    by (metis cc_def prod.collapse)
  obtain requests' g2 where sh: "(if sf_enable_chaffing sf then shuffle R requests g1
      else (requests, g1)) = (requests', g2)" by fastforce
  have len: "length requests' = length requests"
    using sh by (metis fst_conv length_shuffle)
  have "f = (if get_effective_number_of_buyers sf cc = 0 then solicit sf 0 [] g1
      else solicit sf (get_effective_number_of_buyers sf cc) requests' g2)"
    unfolding fetch [symmetric] fetch_bids_def g1 prod.case Let_def requests_def [symmetric] sh ..
  then show ?thesis using n len by (simp add: solicit_def Let_def)
qed

end

end
