(* ===== verification/Buyer_Debug_Reports.thy ===== *)
theory Buyer_Debug_Reports
  imports Seller_Types
begin

text \<open>
  Debug reporting in the seller front end (\<open>SelectAdReactor::PerformDebugReporting\<close> and its helpers):
  which reports about the buyers' bids, and which of the seller's, reach the response, and which URLs
  the server pings. The map of reports by adtech is an association list in which every origin
  occurs once.
\<close>

type_synonym debug_urls_map = "(string \<times> debug_report list) list"

definition reports_of :: "debug_urls_map \<Rightarrow> string \<Rightarrow> debug_report list" where
  "reports_of m origin = (case map_of m origin of None \<Rightarrow> [] | Some rs \<Rightarrow> rs)"

text \<open>\<open>m[origin]\<close>, which inserts an empty entry, and the update of the entry.\<close>

definition update_reports ::
  "string \<Rightarrow> (debug_report list \<Rightarrow> debug_report list) \<Rightarrow> debug_urls_map \<Rightarrow> debug_urls_map" where
  "update_reports origin f m =
     map (\<lambda>(o', rs). (o', if o' = origin then f rs else rs)) (al_emplace origin [] m)"

definition add_buyer_debug_report_to_response ::
  "libs \<Rightarrow> string \<Rightarrow> string \<Rightarrow> bool \<Rightarrow> bool \<Rightarrow> debug_reporting_placeholder option
     \<Rightarrow> debug_urls_map \<Rightarrow> debug_urls_map" where
  "add_buyer_debug_report_to_response L url origin is_win is_component_win placeholder m =
     update_reports origin
       (\<lambda>rs. rs @ [\<lparr>dr_url = (case placeholder of
                         Some p \<Rightarrow> create_debug_reporting_url L url p (is_win \<or> is_component_win)
                       | None \<Rightarrow> url),
                   dr_is_win_report = is_win, dr_is_seller_report = False,
                   dr_is_component_win = is_component_win\<rparr>]) m"

definition bid_win_url :: "buyer_bid \<Rightarrow> string" where
  "bid_win_url b = (case bb_debug_report_urls b of None \<Rightarrow> [] | Some u \<Rightarrow> debug_win_url u)"

definition bid_loss_url :: "buyer_bid \<Rightarrow> string" where
  "bid_loss_url b = (case bb_debug_report_urls b of None \<Rightarrow> [] | Some u \<Rightarrow> debug_loss_url u)"

definition is_bid_of_winner :: "post_auction_signals \<Rightarrow> string \<Rightarrow> buyer_bid \<Rightarrow> bool" where
  "is_bid_of_winner sig owner b \<longleftrightarrow>
     owner = pas_winning_ig_owner sig \<and> bb_interest_group_name b = pas_winning_ig_name sig"

definition placeholder_of ::
  "post_auction_signals \<Rightarrow> string \<Rightarrow> buyer_bid \<Rightarrow> debug_reporting_placeholder" where
  "placeholder_of sig owner b =
     get_placeholder_data_for_interest_group owner (bb_interest_group_name b) sig"

section \<open>With sampling, in an auction of a single seller\<close>

fun sampled_reports_of_buyer ::
  "libs \<Rightarrow> post_auction_signals \<Rightarrow> string \<Rightarrow> buyer_bid list \<Rightarrow> bool \<Rightarrow> bool
     \<Rightarrow> debug_urls_map \<Rightarrow> debug_urls_map" where
  "sampled_reports_of_buyer L sig owner [] win_cooldown loss_cooldown m =
     (if win_cooldown then add_buyer_debug_report_to_response L [] owner True False None m
      else if loss_cooldown then add_buyer_debug_report_to_response L [] owner False False None m
      else m)"
| "sampled_reports_of_buyer L sig owner (b # bs) win_cooldown loss_cooldown m =
     (let winning = is_bid_of_winner sig owner b;
          url = (if winning then bid_win_url b else bid_loss_url b)
      in if winning \<and> bb_debug_win_url_failed_sampling b
         then sampled_reports_of_buyer L sig owner bs True loss_cooldown m
         else if \<not> winning \<and> bb_debug_loss_url_failed_sampling b
         then sampled_reports_of_buyer L sig owner bs win_cooldown True m
         else if url = [] then sampled_reports_of_buyer L sig owner bs win_cooldown loss_cooldown m
         else add_buyer_debug_report_to_response L url owner winning False
                (Some (placeholder_of sig owner b)) m)"

section \<open>With sampling, in a component auction\<close>

definition handle_sampled_win_report ::
  "libs \<Rightarrow> post_auction_signals \<Rightarrow> buyer_bid \<Rightarrow> debug_urls_map \<Rightarrow> debug_urls_map" where
  "handle_sampled_win_report L sig b m =
     (if bid_win_url b \<noteq> []
      then add_buyer_debug_report_to_response L (bid_win_url b) (pas_winning_ig_owner sig) True True
             (Some (get_placeholder_data_for_interest_group (pas_winning_ig_owner sig)
                      (pas_winning_ig_name sig) sig)) m
      else if bb_debug_win_url_failed_sampling b
      then add_buyer_debug_report_to_response L [] (pas_winning_ig_owner sig) True True None m
      else m)"

text \<open>The last two components are \<open>loss_url_selected\<close> and the cooldown for a confirmed loss.\<close>

definition handle_sampled_loss_report ::
  "libs \<Rightarrow> post_auction_signals \<Rightarrow> string \<Rightarrow> buyer_bid \<Rightarrow> debug_urls_map \<times> bool \<times> bool
     \<Rightarrow> debug_urls_map \<times> bool \<times> bool" where
  "handle_sampled_loss_report L sig owner b = (\<lambda>(m, loss_selected, confirmed).
     let url = bid_loss_url b; winning = is_bid_of_winner sig owner b
     in if \<not> bb_debug_loss_url_failed_sampling b \<and> url = [] then (m, loss_selected, confirmed)
        else if \<not> loss_selected \<and> url \<noteq> [] then
          (add_buyer_debug_report_to_response L url owner False winning
             (Some (placeholder_of sig owner b)) m, True, confirmed)
        else if winning then
          (add_buyer_debug_report_to_response L [] owner False True None m, loss_selected, confirmed)
        else (m, loss_selected, True))"

fun sampled_component_reports_of_buyer ::
  "libs \<Rightarrow> post_auction_signals \<Rightarrow> string \<Rightarrow> buyer_bid list \<Rightarrow> bool \<Rightarrow> debug_urls_map \<times> bool \<times> bool
     \<Rightarrow> debug_urls_map" where
  "sampled_component_reports_of_buyer L sig owner [] win_checked (m, loss_selected, confirmed) =
     (if confirmed then add_buyer_debug_report_to_response L [] owner False False None m else m)"
| "sampled_component_reports_of_buyer L sig owner (b # bs) win_checked (m, loss_selected, confirmed) =
     (if win_checked \<and> loss_selected \<and> confirmed
      then add_buyer_debug_report_to_response L [] owner False False None m
      else
        (let winning = is_bid_of_winner sig owner b;
             m' = (if winning then handle_sampled_win_report L sig b m else m)
         in sampled_component_reports_of_buyer L sig owner bs (win_checked \<or> winning)
              (handle_sampled_loss_report L sig owner b (m', loss_selected, confirmed))))"

definition perform_sampled_debug_reporting_for_buyers ::
  "libs \<Rightarrow> auction_scope \<Rightarrow> post_auction_signals \<Rightarrow> buyer_bids_map \<Rightarrow> debug_urls_map
     \<Rightarrow> debug_urls_map" where
  "perform_sampled_debug_reporting_for_buyers L scope sig bids m =
     fold (\<lambda>(owner, r) m.
         if is_component_auction scope
         then sampled_component_reports_of_buyer L sig owner (gr_bids r) False (m, False, False)
         else sampled_reports_of_buyer L sig owner (gr_bids r) False False m)
       bids m"

section \<open>Without sampling\<close>

definition unsampled_reports_of_component_winner ::
  "libs \<Rightarrow> post_auction_signals \<Rightarrow> buyer_bid \<Rightarrow> debug_urls_map \<Rightarrow> debug_urls_map" where
  "unsampled_reports_of_component_winner L sig b m =
     (let owner = pas_winning_ig_owner sig; p = placeholder_of sig owner b;
          m = (if bid_win_url b \<noteq> []
               then add_buyer_debug_report_to_response L (bid_win_url b) owner True True (Some p) m
               else m)
      in if bid_loss_url b \<noteq> []
         then add_buyer_debug_report_to_response L (bid_loss_url b) owner False True (Some p) m
         else m)"

definition unsampled_reports_of_bid ::
  "libs \<Rightarrow> auction_scope \<Rightarrow> post_auction_signals \<Rightarrow> string \<Rightarrow> buyer_bid \<Rightarrow> debug_urls_map \<times> string list
     \<Rightarrow> debug_urls_map \<times> string list" where
  "unsampled_reports_of_bid L scope sig owner b = (\<lambda>(m, pings).
     if bb_debug_report_urls b = None then (m, pings)
     else
       (let winning = is_bid_of_winner sig owner b
        in if winning \<and> is_component_auction scope
           then (unsampled_reports_of_component_winner L sig b m, pings)
           else (m, pings @ send_debug_reporting_ping L
                       (if winning then bid_win_url b else bid_loss_url b) owner
                       (bb_interest_group_name b) winning sig)))"

definition perform_unsampled_debug_reporting_for_buyers ::
  "libs \<Rightarrow> auction_scope \<Rightarrow> post_auction_signals \<Rightarrow> buyer_bids_map \<Rightarrow> debug_urls_map \<times> string list
     \<Rightarrow> debug_urls_map \<times> string list" where
  "perform_unsampled_debug_reporting_for_buyers L scope sig bids acc =
     fold (\<lambda>(owner, r) acc. fold (unsampled_reports_of_bid L scope sig owner) (gr_bids r) acc) bids acc"

section \<open>The seller's reports\<close>

definition merge_seller_debug_reports_to_response ::
  "bool \<Rightarrow> auction_scope \<Rightarrow> string \<Rightarrow> debug_report list \<Rightarrow> debug_urls_map \<Rightarrow> debug_urls_map" where
  "merge_seller_debug_reports_to_response sampled scope seller seller_reports m =
     (if seller_reports = [] then m
      else
        (let counts = fold decrement_counts_for_debug_report (reports_of m seller)
               (create_debug_report_counts sampled (is_component_auction scope))
         in update_reports seller (\<lambda>rs. rs @ admit_debug_reports counts seller_reports) m))"

definition perform_debug_reporting_for_buyers ::
  "libs \<Rightarrow> auction_scope \<Rightarrow> auction_config \<Rightarrow> protected_input \<Rightarrow> nat \<Rightarrow> ad_score option
     \<Rightarrow> buyer_bids_map \<Rightarrow> debug_report list \<Rightarrow> debug_urls_map \<Rightarrow> debug_urls_map \<times> string list" where
  "perform_debug_reporting_for_buyers L scope c input data_version high_score bids seller_reports m =
     (if \<not> pi_enable_debug_reporting input then (m, [])
      else
        (let sampled = fdo_enable_sampled_debug_reporting (pi_fdo_flags input);
             sig = generate_post_auction_signals high_score (ac_seller_currency c) data_version;
             (m, pings) = (if sampled then (perform_sampled_debug_reporting_for_buyers L scope sig bids m, [])
                           else perform_unsampled_debug_reporting_for_buyers L scope sig bids (m, []))
         in (merge_seller_debug_reports_to_response sampled scope (ac_seller c) seller_reports m, pings)))"

section \<open>How many reports an adtech can get\<close>

lemma map_of_update_entry:
  "map_of (map (\<lambda>(k, v). (k, if k = x then f v else v)) al) k
     = map_option (\<lambda>v. if k = x then f v else v) (map_of al k)"
  by (induction al) auto

lemma reports_of_update:
  "reports_of (update_reports origin f m) o'
     = (if o' = origin then f (reports_of m origin) else reports_of m o')"
proof -
  have "map_of (update_reports origin f m) o'
      = map_option (\<lambda>rs. if o' = origin then f rs else rs) (map_of (al_emplace origin [] m) o')"
    unfolding update_reports_def by (rule map_of_update_entry)
  moreover have "map_of (al_emplace origin [] m) origin = Some (reports_of m origin)"
    using amap.look_ins_same [of origin "[]" m] by (simp add: reports_of_def split: option.split)
  moreover have "map_of (al_emplace origin [] m) o' = map_of m o'" if "o' \<noteq> origin"
    using that amap.look_ins_other [of origin o' "[]" m] by simp
  ultimately show ?thesis by (auto simp: reports_of_def split: option.split)
qed

lemma reports_of_add [simp]:
  "reports_of (add_buyer_debug_report_to_response L url origin w cw p m) o'
     = reports_of m o' @ (if o' = origin then
         [\<lparr>dr_url = (case p of Some p \<Rightarrow> create_debug_reporting_url L url p (w \<or> cw) | None \<Rightarrow> url),
           dr_is_win_report = w, dr_is_seller_report = False, dr_is_component_win = cw\<rparr>] else [])"
  by (simp add: add_buyer_debug_report_to_response_def reports_of_update)

text \<open>In a single seller's auction a buyer gets one report at most.\<close>

lemma sampled_reports_of_buyer_bound:
  "\<exists>rs. length rs \<le> 1 \<and> (\<forall>o'. reports_of (sampled_reports_of_buyer L sig owner bs w l m) o'
     = reports_of m o' @ (if o' = owner then rs else []))"
proof (induction L sig owner bs w l m rule: sampled_reports_of_buyer.induct)
  case (1 L sig owner w l m)
  show ?case
  proof (cases "w \<or> l")
    case True
    then show ?thesis by (auto intro!: exI [of _ "[_]"])
  next
    case False
    then show ?thesis by (auto intro!: exI [of _ "[]"])
  qed
next
  case (2 L sig owner b bs w l m)
  let ?winning = "is_bid_of_winner sig owner b"
  let ?url = "if ?winning then bid_win_url b else bid_loss_url b"
  consider "?winning \<and> bb_debug_win_url_failed_sampling b"
    | "\<not> ?winning \<and> bb_debug_loss_url_failed_sampling b"
    | "\<not> (?winning \<and> bb_debug_win_url_failed_sampling b)"
      "\<not> (\<not> ?winning \<and> bb_debug_loss_url_failed_sampling b)" "?url = []"
    | "\<not> (?winning \<and> bb_debug_win_url_failed_sampling b)"
      "\<not> (\<not> ?winning \<and> bb_debug_loss_url_failed_sampling b)" "?url \<noteq> []"
    by blast
  then show ?case
  proof cases
    case 1
    then show ?thesis using "2.IH"(1) [OF refl refl 1] by simp
  next
    case 2
    then show ?thesis using "2.IH"(2) [OF refl refl _ 2] by simp
  next
    case 3
    then show ?thesis using "2.IH"(3) [OF refl refl 3] by (simp split: if_splits)
  next
    case 4
    then show ?thesis by (auto simp: Let_def intro!: exI [of _ "[_]"])
  qed
qed

lemma perform_sampled_single_seller_bound:
  assumes "\<not> is_component_auction scope" "distinct (map fst bids)"
  shows "length (reports_of (perform_sampled_debug_reporting_for_buyers L scope sig bids m) o')
    \<le> length (reports_of m o') + (if o' \<in> set (map fst bids) then 1 else 0)"
  using assms(2)
proof (induction bids arbitrary: m)
  case Nil
  then show ?case by (simp add: perform_sampled_debug_reporting_for_buyers_def)
next
  case (Cons b bids)
  obtain owner r where b: "b = (owner, r)" by fastforce
  let ?m = "sampled_reports_of_buyer L sig owner (gr_bids r) False False m"
  obtain rs where rs: "length rs \<le> 1"
    "\<And>o'. reports_of ?m o' = reports_of m o' @ (if o' = owner then rs else [])"
    using sampled_reports_of_buyer_bound [of L sig owner "gr_bids r" False False m] by blast
  have "perform_sampled_debug_reporting_for_buyers L scope sig (b # bids) m
      = perform_sampled_debug_reporting_for_buyers L scope sig bids ?m"
    using assms(1) by (simp add: perform_sampled_debug_reporting_for_buyers_def b)
  then show ?case using Cons.IH [of ?m] Cons.prems rs(1)
    by (cases "o' = owner") (simp_all add: b rs(2) split: if_splits)
qed

text \<open>Merging the seller's reports respects the limits that its reports as a buyer left.\<close>

lemma decrement_counts_fold:
  "allowed_win_report_count (fold decrement_counts_for_debug_report rs c)
     = allowed_win_report_count c - int (nonempty_wins rs)"
  "allowed_loss_report_count (fold decrement_counts_for_debug_report rs c)
     = allowed_loss_report_count c - int (nonempty_losses rs)"
  "allowed_report_count (fold decrement_counts_for_debug_report rs c)
     = allowed_report_count c - int (nonempty_wins rs + nonempty_losses rs)"
  by (induction rs arbitrary: c)
     (simp_all add: nonempty_wins_def nonempty_losses_def decrement_counts_for_debug_report_def)

lemma nonempty_append:
  "nonempty_wins (rs @ ss) = nonempty_wins rs + nonempty_wins ss"
  "nonempty_losses (rs @ ss) = nonempty_losses rs + nonempty_losses ss"
  by (simp_all add: nonempty_wins_def nonempty_losses_def)

definition nonempty_reports :: "debug_report list \<Rightarrow> nat" where
  "nonempty_reports rs = nonempty_wins rs + nonempty_losses rs"

lemma nonempty_reports_le: "nonempty_reports rs \<le> length rs"
  by (induction rs) (auto simp: nonempty_reports_def nonempty_wins_def nonempty_losses_def)

lemma admitted_reports_bound:
  "0 \<le> allowed_report_count c \<Longrightarrow>
     int (nonempty_reports (admit_debug_reports c rs)) \<le> allowed_report_count c"
proof (induction c rs rule: admit_debug_reports.induct)
  case (1 c)
  then show ?case by (simp add: nonempty_reports_def nonempty_wins_def nonempty_losses_def)
next
  case (2 c r rs)
  show ?case
  proof (cases "can_add_debug_report c r")
    case True
    then have "0 \<le> allowed_report_count (decrement_counts_for_debug_report r c)"
      using "2.prems"
      by (auto simp: can_add_debug_report_def decrement_counts_for_debug_report_def split: if_splits)
    from "2.IH"(1) [OF True this] True show ?thesis
      by (auto simp: nonempty_reports_def nonempty_wins_def nonempty_losses_def
          decrement_counts_for_debug_report_def split: if_splits)
  next
    case False
    from "2.IH"(2) [OF False "2.prems"] False show ?thesis by simp
  qed
qed

lemma merged_reports_within_limit:
  fixes sampled scope
  defines "limit \<equiv> allowed_report_count (create_debug_report_counts sampled (is_component_auction scope))"
  assumes "int (nonempty_reports (reports_of m o')) \<le> limit"
  shows "int (nonempty_reports (reports_of
      (merge_seller_debug_reports_to_response sampled scope seller rs m) o')) \<le> limit"
proof (cases "rs = [] \<or> o' \<noteq> seller")
  case True
  then show ?thesis
    using assms by (auto simp: merge_seller_debug_reports_to_response_def Let_def reports_of_update)
next
  case False
  let ?c = "fold decrement_counts_for_debug_report (reports_of m seller)
      (create_debug_report_counts sampled (is_component_auction scope))"
  have c: "allowed_report_count ?c = limit - int (nonempty_reports (reports_of m seller))"
    by (simp add: decrement_counts_fold limit_def nonempty_reports_def)
  then have "int (nonempty_reports (admit_debug_reports ?c rs)) \<le> allowed_report_count ?c"
    using assms False by (intro admitted_reports_bound) simp
  then show ?thesis
    using c False
    by (simp add: merge_seller_debug_reports_to_response_def Let_def reports_of_update
        nonempty_reports_def nonempty_append)
qed

text \<open>A loss URL of a component auction is selected once.\<close>

lemma handle_sampled_loss_report_losses:
  assumes "handle_sampled_loss_report L sig owner b (m, selected, confirmed) = (m', selected', confirmed')"
    and "selected \<longleftrightarrow> 0 < n" and "n \<le> 1"
    and "nonempty_losses (reports_of m o') \<le> k + (if o' = owner then n else 0)"
  obtains n' where "selected' \<longleftrightarrow> 0 < n'" "n' \<le> 1" "n \<le> n'"
    "nonempty_losses (reports_of m' o') \<le> k + (if o' = owner then n' else 0)"
proof (cases "\<not> selected \<and> bid_loss_url b \<noteq> []")
  case True
  then show ?thesis
    using assms by (intro that [of 1])
      (auto simp: handle_sampled_loss_report_def Let_def nonempty_append nonempty_losses_def split: if_splits)
next
  case False
  then show ?thesis
    using assms by (intro that [of n])
      (auto simp: handle_sampled_loss_report_def Let_def nonempty_append nonempty_losses_def split: if_splits)
qed

lemma handle_sampled_win_report_losses [simp]:
  "nonempty_losses (reports_of (handle_sampled_win_report L sig b m) o') = nonempty_losses (reports_of m o')"
  by (simp add: handle_sampled_win_report_def nonempty_append) (simp add: nonempty_losses_def)

lemma sampled_component_losses:
  assumes "selected \<longleftrightarrow> 0 < n" and "n \<le> 1"
    and "nonempty_losses (reports_of m o') \<le> k + (if o' = owner then n else 0)"
  shows "nonempty_losses (reports_of
      (sampled_component_reports_of_buyer L sig owner bs checked (m, selected, confirmed)) o')
    \<le> k + (if o' = owner then 1 else 0)"
  using assms
proof (induction bs arbitrary: checked m selected confirmed n)
  case Nil
  then show ?case by (auto simp: nonempty_append nonempty_losses_def)
next
  case (Cons b bs)
  let ?m = "if is_bid_of_winner sig owner b then handle_sampled_win_report L sig b m else m"
  obtain m' selected' confirmed' where h:
    "handle_sampled_loss_report L sig owner b (?m, selected, confirmed) = (m', selected', confirmed')"
    by (metis prod_cases3)
  have "nonempty_losses (reports_of ?m o') \<le> k + (if o' = owner then n else 0)"
    using Cons.prems(3) by (auto split: if_splits)
  from handle_sampled_loss_report_losses [OF h Cons.prems(1,2) this]
  obtain n' where n': "selected' \<longleftrightarrow> 0 < n'" "n' \<le> 1" "n \<le> n'"
    "nonempty_losses (reports_of m' o') \<le> k + (if o' = owner then n' else 0)" .
  show ?case
  proof (cases "checked \<and> selected \<and> confirmed")
    case True
    then show ?thesis using Cons.prems by (auto simp: nonempty_append nonempty_losses_def)
  next
    case False
    then have step: "sampled_component_reports_of_buyer L sig owner (b # bs) checked (m, selected, confirmed)
        = sampled_component_reports_of_buyer L sig owner bs (checked \<or> is_bid_of_winner sig owner b)
            (m', selected', confirmed')"
      using h by (auto simp: Let_def)
    show ?thesis unfolding step by (rule Cons.IH [OF n'(1,2,4)])
  qed
qed

end
