(* ===== verification/Buyer_Bids.thy ===== *)
theory Buyer_Bids
  imports Buyer_Inputs "HOL-Library.Signed_Division"
begin

text \<open>
  What becomes of the buyers' bids before scoring (\<open>select_ad_reactor.cc\<close>, \<open>select_ad_reactor_app.cc\<close>,
  \<open>common/util/hash_util.cc\<close>): the currency check, the k-anonymity hashes and statuses, and the
  ScoreAds request. A bid's address in memory, by which the reactor keeps its hashes and status, is the
  buyer and the position of the bid.
\<close>

section \<open>Bids in another currency\<close>

text \<open>
  \<open>FilterBidsWithMismatchingCurrencyHelper\<close>: the loop over \<open>i\<close> and \<open>remove_starting_at\<close>. A mismatching
  bid changes places with the last one not yet removed.
\<close>

definition currency_mismatch :: "('a \<Rightarrow> string) \<Rightarrow> string \<Rightarrow> 'a \<Rightarrow> bool" where
  "currency_mismatch currency expected b \<longleftrightarrow> currency b \<noteq> [] \<and> expected \<noteq> currency b"

function filter_currency_loop ::
  "('a \<Rightarrow> string) \<Rightarrow> string \<Rightarrow> 'a list \<Rightarrow> nat \<Rightarrow> nat \<Rightarrow> 'a list" where
  "filter_currency_loop currency expected bids i stop =
     (if i < stop then
        if currency_mismatch currency expected (bids ! i)
        then filter_currency_loop currency expected
               (bids[i := bids ! (stop - 1), stop - 1 := bids ! i]) i (stop - 1)
        else filter_currency_loop currency expected bids (i + 1) stop
      else take stop bids)"
  by pat_completeness auto
termination by (relation "measure (\<lambda>(_, _, _, i, stop). stop - i)") auto

declare filter_currency_loop.simps [simp del]

definition filter_bids_with_currency :: "('a \<Rightarrow> string) \<Rightarrow> string \<Rightarrow> 'a list \<Rightarrow> 'a list" where
  "filter_bids_with_currency currency expected bids =
     filter_currency_loop currency expected bids 0 (length bids)"

definition has_bids :: "sfe_config \<Rightarrow> bool \<Rightarrow> get_bids_raw_response \<Rightarrow> bool" where
  "has_bids sf is_pas_enabled r \<longleftrightarrow>
     (sf_enable_protected_audience sf \<and> gr_bids r \<noteq> []) \<or> (is_pas_enabled \<and> gr_pas_bids r \<noteq> [])"

definition filter_buyer ::
  "(string \<times> per_buyer_config) list \<Rightarrow> string \<times> get_bids_raw_response
     \<Rightarrow> string \<times> get_bids_raw_response" where
  "filter_buyer configs = (\<lambda>(buyer, r).
     case map_of configs buyer of
       None \<Rightarrow> (buyer, r)
     | Some c \<Rightarrow>
         if pbc_buyer_currency c = [] then (buyer, r)
         else (buyer, r\<lparr>gr_bids := filter_bids_with_currency bb_bid_currency (pbc_buyer_currency c) (gr_bids r),
                        gr_pas_bids := filter_bids_with_currency pb_bid_currency (pbc_buyer_currency c)
                          (gr_pas_bids r)\<rparr>))"

text \<open>A buyer without an expected currency counts as having valid bids.\<close>

definition has_valid_bids ::
  "sfe_config \<Rightarrow> bool \<Rightarrow> (string \<times> per_buyer_config) list \<Rightarrow> string \<times> get_bids_raw_response \<Rightarrow> bool" where
  "has_valid_bids sf is_pas_enabled configs = (\<lambda>(buyer, r).
     (case map_of configs buyer of None \<Rightarrow> True | Some c \<Rightarrow> pbc_buyer_currency c = [])
     \<or> has_bids sf is_pas_enabled (snd (filter_buyer configs (buyer, r))))"

definition filter_bids_with_mismatching_currency ::
  "sfe_config \<Rightarrow> bool \<Rightarrow> (string \<times> per_buyer_config) list \<Rightarrow> buyer_bids_map \<Rightarrow> bool \<times> buyer_bids_map" where
  "filter_bids_with_mismatching_currency sf is_pas_enabled configs bids =
     (list_ex (has_valid_bids sf is_pas_enabled configs) bids,
      filter (has_bids sf is_pas_enabled \<circ> snd) (map (filter_buyer configs) bids))"

section \<open>k-anonymity keys (\<open>hash_util.cc\<close>)\<close>

text \<open>GURL's canonical form of a URL, and OpenSSL's SHA-256.\<close>

record hashing =
  canonicalize_url :: "string \<Rightarrow> string"
  sha256 :: "string \<Rightarrow> string"

record reporting_id_param =
  rip_buyer_reporting_id :: "string option"
  rip_buyer_and_seller_reporting_id :: "string option"
  rip_selected_buyer_and_seller_reporting_id :: "string option"

definition line_feed :: char where
  "line_feed = CHR 0x0A"

definition big_endian_u32 :: "32 word \<Rightarrow> string" where
  "big_endian_u32 w =
     map (\<lambda>i. char_of (unat (ucast (drop_bit (8 * i) w) :: 8 word))) [3, 2, 1, 0]"

definition append_reporting_id :: "string option \<Rightarrow> string \<Rightarrow> string" where
  "append_reporting_id reporting_id key =
     (case reporting_id of
        None \<Rightarrow> key @ line_feed # replicate 5 (CHR 0x00)
      | Some r \<Rightarrow> key @ line_feed # CHR 0x01 # big_endian_u32 (word_of_nat (length r)) @ r)"

definition plain_text_key_for_ad_render_url :: "hashing \<Rightarrow> string \<Rightarrow> string \<Rightarrow> string \<Rightarrow> string" where
  "plain_text_key_for_ad_render_url H owner bidding_url render_url =
     ''AdBid'' @ line_feed # canonicalize_url H owner @ line_feed # canonicalize_url H bidding_url
     @ line_feed # canonicalize_url H render_url"

definition plain_text_key_for_ad_component_render_url :: "hashing \<Rightarrow> string \<Rightarrow> string" where
  "plain_text_key_for_ad_component_render_url H url =
     ''ComponentBid'' @ line_feed # canonicalize_url H url"

definition plain_text_key_for_reporting_id ::
  "hashing \<Rightarrow> string \<Rightarrow> string \<Rightarrow> string \<Rightarrow> string \<Rightarrow> reporting_id_param \<Rightarrow> string" where
  "plain_text_key_for_reporting_id H owner name bidding_url render_url ids =
     (let middle = canonicalize_url H owner @ line_feed # canonicalize_url H bidding_url
            @ line_feed # canonicalize_url H render_url
      in case rip_selected_buyer_and_seller_reporting_id ids of
           Some selected \<Rightarrow>
             append_reporting_id (rip_buyer_reporting_id ids)
               (append_reporting_id (rip_buyer_and_seller_reporting_id ids)
                 (append_reporting_id (Some selected)
                   (''SelectedBuyerAndSellerReportId'' @ line_feed # middle)))
         | None \<Rightarrow>
             (case rip_buyer_and_seller_reporting_id ids of
                Some s \<Rightarrow> ''BuyerAndSellerReportId'' @ line_feed # middle @ line_feed # s
              | None \<Rightarrow>
                  (case rip_buyer_reporting_id ids of
                     Some s \<Rightarrow> ''BuyerReportId'' @ line_feed # middle @ line_feed # s
                   | None \<Rightarrow> ''NameReport'' @ line_feed # middle @ line_feed # name)))"

section \<open>k-anonymity of bids\<close>

datatype bid_address = Pa_bid string nat | Pas_bid string nat

definition reporting_ids_of_bid :: "buyer_bid \<Rightarrow> reporting_id_param" where
  "reporting_ids_of_bid b =
     \<lparr>rip_buyer_reporting_id = bb_buyer_reporting_id b,
      rip_buyer_and_seller_reporting_id = bb_buyer_and_seller_reporting_id b,
      rip_selected_buyer_and_seller_reporting_id = bb_selected_buyer_and_seller_reporting_id b\<rparr>"

definition k_anon_hashes_of_bid :: "hashing \<Rightarrow> string \<Rightarrow> string \<Rightarrow> buyer_bid \<Rightarrow> string list" where
  "k_anon_hashes_of_bid H owner report_win_url b =
     sha256 H (plain_text_key_for_ad_render_url H owner report_win_url (bb_render b))
     # sha256 H (plain_text_key_for_reporting_id H owner (bb_interest_group_name b) report_win_url
         (bb_render b) (reporting_ids_of_bid b))
     # map (\<lambda>url. sha256 H (plain_text_key_for_ad_component_render_url H url)) (bb_ad_components b)"

definition k_anon_hashes_of_pas_bid :: "hashing \<Rightarrow> string \<Rightarrow> string \<Rightarrow> pas_buyer_bid \<Rightarrow> string list" where
  "k_anon_hashes_of_pas_bid H owner report_win_url b =
     [sha256 H (plain_text_key_for_ad_render_url H owner report_win_url (pb_render b))]"

definition k_anon_hashes_of_buyer ::
  "hashing \<Rightarrow> (string \<times> string) list \<Rightarrow> string \<times> get_bids_raw_response
     \<Rightarrow> (bid_address \<times> string list) list" where
  "k_anon_hashes_of_buyer H report_win_urls = (\<lambda>(owner, r).
     case map_of report_win_urls owner of
       None \<Rightarrow> []
     | Some url \<Rightarrow> map (\<lambda>(i, b). (Pa_bid owner i, k_anon_hashes_of_bid H owner url b))
                    (enumerate 0 (gr_bids r)))"

definition get_k_anon_hashes_for_bids ::
  "hashing \<Rightarrow> (string \<times> string) list \<Rightarrow> buyer_bids_map \<Rightarrow> (bid_address \<times> string list) list" where
  "get_k_anon_hashes_for_bids H report_win_urls bids =
     concat (map (k_anon_hashes_of_buyer H report_win_urls) bids)"

definition k_anon_hashes_of_pas_buyer ::
  "hashing \<Rightarrow> (string \<times> string) list \<Rightarrow> string \<times> get_bids_raw_response
     \<Rightarrow> (bid_address \<times> string list) list" where
  "k_anon_hashes_of_pas_buyer H report_win_urls = (\<lambda>(owner, r).
     case map_of report_win_urls owner of
       None \<Rightarrow> []
     | Some url \<Rightarrow> map (\<lambda>(i, b). (Pas_bid owner i, k_anon_hashes_of_pas_bid H owner url b))
                    (enumerate 0 (gr_pas_bids r)))"

definition get_k_anon_hashes_for_bids_for_app ::
  "hashing \<Rightarrow> (string \<times> string) list \<Rightarrow> buyer_bids_map \<Rightarrow> (bid_address \<times> string list) list" where
  "get_k_anon_hashes_for_bids_for_app H report_win_urls bids =
     get_k_anon_hashes_for_bids H report_win_urls bids
     @ concat (map (k_anon_hashes_of_pas_buyer H report_win_urls) bids)"

text \<open>\<open>bid_k_anon_status_\<close>: reading the status of a bid that has none inserts and yields \<open>false\<close>.\<close>

definition populate_k_anon_status ::
  "bool \<Rightarrow> string set \<Rightarrow> (bid_address \<times> string list) list \<Rightarrow> (bid_address \<rightharpoonup> bool)" where
  "populate_k_anon_status enforce_kanon queried hash_sets =
     map_of (map (\<lambda>(bid, hashes).
       (bid, \<not> enforce_kanon \<or> list_all (\<lambda>h. h \<in> queried) hashes)) hash_sets)"

definition k_anon_status :: "(bid_address \<rightharpoonup> bool) \<Rightarrow> bid_address \<Rightarrow> bool" where
  "k_anon_status status bid = (case status bid of None \<Rightarrow> False | Some b \<Rightarrow> b)"

section \<open>ScoreAds requests\<close>

definition ig_browser_signals :: "interest_group_for_bidding \<Rightarrow> browser_signals_for_bidding" where
  "ig_browser_signals ig = browser_signals_of ig no_browser_signals"

definition recency_minutes :: "browser_signals_for_bidding \<Rightarrow> int" where
  "recency_minutes bs =
     (case bs_recency_ms bs of
        Some ms \<Rightarrow> signed_take_bit 31 (ms sdiv 60000)
      | None \<Rightarrow> signed_take_bit 31 (bs_recency bs sdiv 60))"

text \<open>
  \<open>interest_group_index_map_\<close> keeps the first index of an owner and a name. The interest group is the
  first one of the buyer's input with the bid's name.
\<close>

type_synonym ig_index_map = "string \<times> string \<rightharpoonup> int"

fun find_interest_group ::
  "string \<Rightarrow> nat \<Rightarrow> interest_group_for_bidding list \<Rightarrow> (nat \<times> interest_group_for_bidding) option" where
  "find_interest_group name i [] = None"
| "find_interest_group name i (ig # igs) =
     (if ig_name ig = name then Some (i, ig) else find_interest_group name (i + 1) igs)"

definition build_ad_with_bid_metadata ::
  "client_type \<Rightarrow> bool \<Rightarrow> buyer_input_for_bidding \<Rightarrow> string \<Rightarrow> bool \<Rightarrow> buyer_bid \<Rightarrow> ig_index_map
     \<Rightarrow> ad_with_bid \<times> ig_index_map" where
  "build_ad_with_bid_metadata client enforce_kanon input owner status b index_map =
     (let ad = default_ad_with_bid
           \<lparr>aw_ad := bb_ad b, aw_bid := bb_bid b, aw_render := bb_render b,
            aw_ad_components := bb_ad_components b,
            aw_interest_group_name := bb_interest_group_name b, aw_ad_cost := bb_ad_cost b,
            aw_modeling_signals := bb_modeling_signals b, aw_bid_currency := bb_bid_currency b,
            aw_data_version := nat (bb_data_version b mod 2 ^ 32), aw_interest_group_owner := owner,
            aw_k_anon_status := (if enforce_kanon then status else True),
            aw_buyer_reporting_id := bb_buyer_reporting_id b,
            aw_buyer_and_seller_reporting_id := bb_buyer_and_seller_reporting_id b,
            aw_selected_buyer_and_seller_reporting_id :=
              bb_selected_buyer_and_seller_reporting_id b\<rparr>
      in case find_interest_group (bb_interest_group_name b) 0 (bi_interest_groups input) of
           None \<Rightarrow> (ad, index_map)
         | Some (i, ig) \<Rightarrow>
             (let ad = ad\<lparr>aw_interest_group_origin := ig_origin ig, aw_interest_group_idx := int i\<rparr>;
                  ad = (if client = CLIENT_TYPE_BROWSER
                        then ad\<lparr>aw_join_count := signed_take_bit 31 (bs_join_count (ig_browser_signals ig)),
                                aw_recency := recency_minutes (ig_browser_signals ig)\<rparr>
                        else ad)
              in (ad, fst (try_emplace (owner, bb_interest_group_name b) (int i) index_map))))"

text \<open>
  The bids of all buyers. \<open>buyer_inputs_->find(owner)->second\<close> has no defined result for a buyer that
  is not among the inputs: \<open>None\<close>.
\<close>

definition add_buyer_ad ::
  "client_type \<Rightarrow> bool \<Rightarrow> (bid_address \<rightharpoonup> bool) \<Rightarrow> buyer_input_for_bidding \<Rightarrow> string
     \<Rightarrow> nat \<times> buyer_bid \<Rightarrow> ad_with_bid list \<times> ig_index_map \<Rightarrow> ad_with_bid list \<times> ig_index_map" where
  "add_buyer_ad client enforce_kanon status input owner = (\<lambda>(i, b) (ads, index_map).
     case build_ad_with_bid_metadata client enforce_kanon input owner
            (k_anon_status status (Pa_bid owner i)) b index_map of
       (ad, index_map') \<Rightarrow> (ads @ [ad], index_map'))"

fun collect_ad_bids ::
  "client_type \<Rightarrow> bool \<Rightarrow> (bid_address \<rightharpoonup> bool) \<Rightarrow> (string \<times> buyer_input_for_bidding) list
     \<Rightarrow> buyer_bids_map \<Rightarrow> ad_with_bid list \<times> ig_index_map \<Rightarrow> (ad_with_bid list \<times> ig_index_map) option" where
  "collect_ad_bids client k status inputs [] acc = Some acc"
| "collect_ad_bids client k status inputs ((owner, r) # bids) acc =
     (if gr_bids r = [] then collect_ad_bids client k status inputs bids acc
      else (case map_of inputs owner of
              None \<Rightarrow> None
            | Some input \<Rightarrow>
                collect_ad_bids client k status inputs bids
                  (fold (add_buyer_ad client k status input owner) (enumerate 0 (gr_bids r)) acc)))"

record scoring_signals_fetched =
  sg_scoring_signals :: string
  sg_data_version :: nat

definition create_score_ads_request ::
  "sfe_config \<Rightarrow> bool \<Rightarrow> client_type \<Rightarrow> auction_config \<Rightarrow> protected_input
     \<Rightarrow> scoring_signals_fetched option \<Rightarrow> bool \<Rightarrow> (bid_address \<rightharpoonup> bool)
     \<Rightarrow> (string \<times> buyer_input_for_bidding) list \<Rightarrow> buyer_bids_map
     \<Rightarrow> (score_ads_raw_request \<times> ig_index_map) option" where
  "create_score_ads_request sf enforce_kanon client c input signals is_sampled status inputs bids =
     (case (if sf_enable_protected_audience sf
            then collect_ad_bids client enforce_kanon status inputs bids ([], Map.empty)
            else Some ([], Map.empty)) of
        None \<Rightarrow> None
      | Some (ads, index_map) \<Rightarrow>
          Some
            (\<lparr>rq_ad_bids = ads, rq_seller_signals = ac_seller_signals c,
              rq_auction_signals = ac_auction_signals c,
              rq_scoring_signals = (case signals of None \<Rightarrow> [] | Some s \<Rightarrow> sg_scoring_signals s),
              rq_publisher_hostname = pi_publisher_name input,
              rq_enable_debug_reporting = pi_enable_debug_reporting input,
              rq_per_buyer_signals =
                map_of (map (\<lambda>(b, pbc). (b, pbc_buyer_signals pbc)) (ac_per_buyer_config c)),
              rq_pas_ad_bids = [], rq_seller = ac_seller c,
              rq_top_level_seller = ac_top_level_seller c,
              rq_seller_currency = ac_seller_currency c, rq_component_auction_results = [],
              rq_num_allowed_ghost_winners = (if enforce_kanon then 1 else 0),
              rq_enforce_kanon = enforce_kanon \<and> pi_enforce_kanon input,
              rq_seller_data_version = (case signals of None \<Rightarrow> 0 | Some s \<Rightarrow> sg_data_version s),
              rq_is_sampled_for_debug = is_sampled,
              rq_score_ad_version =
                (case ac_code_experiment_spec c of None \<Rightarrow> [] | Some e \<Rightarrow> sce_score_ad_version e),
              rq_fdo_flags =
                \<lparr>fdo_enable_sampled_debug_reporting =
                   fdo_enable_sampled_debug_reporting (pi_fdo_flags input),
                 fdo_in_cooldown_or_lockout = fdo_in_cooldown_or_lockout (pi_fdo_flags input)\<rparr>\<rparr>,
             index_map))"

section \<open>ScoreAds requests of apps\<close>

definition build_pas_ad_with_bid_metadata ::
  "bool \<Rightarrow> string \<Rightarrow> bool \<Rightarrow> pas_buyer_bid \<Rightarrow> pas_ad_with_bid" where
  "build_pas_ad_with_bid_metadata enforce_kanon owner status b =
     default_pas_ad_with_bid
       \<lparr>pas_ad := pb_ad b, pas_bid := pb_bid b, pas_render := pb_render b, pas_ad_cost := pb_ad_cost b,
        pas_owner := owner, pas_bid_currency := pb_bid_currency b,
        pas_egress_payload := pb_egress_payload b,
        pas_temporary_unlimited_egress_payload := pb_temporary_unlimited_egress_payload b,
        pas_k_anon_status := enforce_kanon \<and> status\<rparr>"

definition pas_ad_bids ::
  "bool \<Rightarrow> (bid_address \<rightharpoonup> bool) \<Rightarrow> buyer_bids_map \<Rightarrow> pas_ad_with_bid list" where
  "pas_ad_bids enforce_kanon status bids =
     concat (map (\<lambda>(owner, r).
       map (\<lambda>(i, b). build_pas_ad_with_bid_metadata enforce_kanon owner
                       (k_anon_status status (Pas_bid owner i)) b) (enumerate 0 (gr_pas_bids r))) bids)"

definition create_score_ads_request_for_app ::
  "sfe_config \<Rightarrow> bool \<Rightarrow> bool \<Rightarrow> client_type \<Rightarrow> auction_config \<Rightarrow> protected_input
     \<Rightarrow> scoring_signals_fetched option \<Rightarrow> bool \<Rightarrow> (bid_address \<rightharpoonup> bool)
     \<Rightarrow> (string \<times> buyer_input_for_bidding) list \<Rightarrow> buyer_bids_map
     \<Rightarrow> (score_ads_raw_request \<times> ig_index_map) option" where
  "create_score_ads_request_for_app sf is_pas_enabled enforce_kanon client c input signals is_sampled
       status inputs bids =
     (case create_score_ads_request sf enforce_kanon client c input signals is_sampled status inputs bids of
        None \<Rightarrow> None
      | Some (r, index_map) \<Rightarrow>
          Some (r\<lparr>rq_enable_debug_reporting := False,
                  rq_fdo_flags := (rq_fdo_flags r)\<lparr>fdo_enable_sampled_debug_reporting := False\<rparr>,
                  rq_num_allowed_ghost_winners :=
                    (if enforce_kanon then pi_num_k_anon_ghost_winners input
                     else rq_num_allowed_ghost_winners r),
                  rq_pas_ad_bids := (if is_pas_enabled then pas_ad_bids enforce_kanon status bids else [])\<rparr>,
                index_map))"

section \<open>The currency check removes the mismatching bids\<close>

definition slice :: "nat \<Rightarrow> nat \<Rightarrow> 'a list \<Rightarrow> 'a list" where
  "slice i stop xs = drop i (take stop xs)"

lemma slice_first: "i < stop \<Longrightarrow> stop \<le> length xs \<Longrightarrow> slice i stop xs = xs ! i # slice (i + 1) stop xs"
  by (simp add: slice_def Cons_nth_drop_Suc [symmetric])

lemma slice_swap:
  assumes "i < stop" "stop \<le> length xs"
  shows "add_mset (xs ! i) (mset (slice i (stop - 1) (xs[i := xs ! (stop - 1), stop - 1 := xs ! i])))
    = mset (slice i stop xs)"
proof (cases "i = stop - 1")
  case True
  then show ?thesis using assms slice_first [OF assms] by (simp add: slice_def)
next
  case False
  then have i: "i < stop - 1" using assms(1) by simp
  let ?xs = "xs[i := xs ! (stop - 1), stop - 1 := xs ! i]"
  have "slice i (stop - 1) ?xs = xs ! (stop - 1) # slice (i + 1) (stop - 1) ?xs"
    using slice_first [OF i, of ?xs] assms i by simp
  also have "slice (i + 1) (stop - 1) ?xs = slice (i + 1) (stop - 1) xs"
    using assms(2) i by (intro nth_equalityI) (auto simp: slice_def nth_list_update)
  finally have 1: "slice i (stop - 1) ?xs = xs ! (stop - 1) # slice (i + 1) (stop - 1) xs" .
  have "take stop xs = take (stop - 1) xs @ [xs ! (stop - 1)]"
    using assms take_Suc_conv_app_nth [of "stop - 1" xs] by simp
  then have "slice (i + 1) stop xs = slice (i + 1) (stop - 1) xs @ [xs ! (stop - 1)]"
    using i assms by (simp add: slice_def)
  then have 2: "slice i stop xs = xs ! i # slice (i + 1) (stop - 1) xs @ [xs ! (stop - 1)]"
    using slice_first [OF assms] by simp
  show ?thesis unfolding 1 2 by simp
qed

lemma filter_currency_loop_mset:
  "stop \<le> length bids \<Longrightarrow> i \<le> stop \<Longrightarrow>
    mset (filter_currency_loop currency expected bids i stop)
      = mset (take i bids) + filter_mset (\<lambda>b. \<not> currency_mismatch currency expected b) (mset (slice i stop bids))"
proof (induction currency expected bids i stop rule: filter_currency_loop.induct)
  case (1 currency expected bids i stop)
  let ?bad = "currency_mismatch currency expected"
  consider "i = stop" | "i < stop" "?bad (bids ! i)" | "i < stop" "\<not> ?bad (bids ! i)"
    using 1(4) by fastforce
  then show ?case
  proof cases
    case 1
    then show ?thesis by (simp add: filter_currency_loop.simps slice_def)
  next
    case 2
    let ?bids = "bids[i := bids ! (stop - 1), stop - 1 := bids ! i]"
    have "take i ?bids = take i bids" using 2(1) by (simp add: take_update_cancel)
    moreover have "filter_mset (\<lambda>b. \<not> ?bad b) (mset (slice i stop bids))
        = filter_mset (\<lambda>b. \<not> ?bad b) (mset (slice i (stop - 1) ?bids))"
      using 2(2) slice_swap [OF 2(1) 1(3), symmetric] by simp
    ultimately show ?thesis using 2 1 by (simp add: filter_currency_loop.simps [of currency expected bids])
  next
    case 3
    have "take (i + 1) bids = take i bids @ [bids ! i]"
      using 3(1) 1(3) by (simp add: take_Suc_conv_app_nth)
    then show ?thesis
      using 3 1 slice_first [OF 3(1) 1(3)] by (simp add: filter_currency_loop.simps [of currency expected bids])
  qed
qed

lemma filter_bids_with_currency_mset:
  "mset (filter_bids_with_currency currency expected bids)
     = filter_mset (\<lambda>b. \<not> currency_mismatch currency expected b) (mset bids)"
  by (simp add: filter_bids_with_currency_def filter_currency_loop_mset slice_def)

section \<open>What a k-anonymity key tells\<close>

lemma split_at_newline:
  "xs @ c # s = ys @ c # t \<Longrightarrow> c \<notin> set xs \<Longrightarrow> c \<notin> set ys \<Longrightarrow> xs = ys \<and> s = t"
proof (induction xs arbitrary: ys)
  case Nil
  then show ?case by (cases ys) auto
next
  case (Cons x xs)
  then show ?case by (cases ys) auto
qed

lemma big_endian_u32_length [simp]: "length (big_endian_u32 w) = 4"
  by (simp add: big_endian_u32_def)

lemma big_endian_u32_inj: "big_endian_u32 v = big_endian_u32 w \<Longrightarrow> v = w"
proof -
  assume "big_endian_u32 v = big_endian_u32 w"
  then have "\<forall>i \<in> set [3, 2, 1, 0]. (char_of (unat (ucast (drop_bit (8 * i) v) :: 8 word)) :: char)
      = char_of (unat (ucast (drop_bit (8 * i) w) :: 8 word))"
    unfolding big_endian_u32_def map_eq_conv .
  moreover have "x = y" if "(char_of (unat x) :: char) = char_of (unat y)" for x y :: "8 word"
  proof -
    have "unat x < 256" "unat y < 256" using unsigned_less [of x] unsigned_less [of y] by simp_all
    then have "unat x = unat y" using that by (metis mod_less of_char_of)
    then show ?thesis by (metis unsigned_word_eqI)
  qed
  ultimately have *: "\<forall>i \<in> set [3, 2, 1, 0]. (ucast (drop_bit (8 * i) v) :: 8 word) = ucast (drop_bit (8 * i) w)"
    by blast
  show "v = w"
  proof (rule bit_word_eqI)
    fix n
    assume n: "n < LENGTH(32)"
    have "n div 8 \<in> set [3, 2, 1, 0]" using n by auto
    then have "bit (ucast (drop_bit (8 * (n div 8)) v) :: 8 word) (n mod 8)
        = bit (ucast (drop_bit (8 * (n div 8)) w) :: 8 word) (n mod 8)"
      using * by metis
    then show "bit v n = bit w n" using n by (simp add: bit_simps)
  qed
qed

definition encoded_id :: "string option \<Rightarrow> string" where
  "encoded_id r = append_reporting_id r []"

lemma append_reporting_id_eq: "append_reporting_id r key = key @ encoded_id r"
  by (simp add: append_reporting_id_def encoded_id_def split: option.split)

definition id_fits :: "string option \<Rightarrow> bool" where
  "id_fits r \<longleftrightarrow> (case r of None \<Rightarrow> True | Some s \<Rightarrow> length s < 2 ^ 32)"

lemma encoded_id_prefix_free:
  assumes "encoded_id r @ s = encoded_id r' @ t" "id_fits r" "id_fits r'"
  shows "r = r' \<and> s = t"
proof (cases r)
  case None
  then show ?thesis
    using assms(1) by (cases r') (auto simp: encoded_id_def append_reporting_id_def numeral_eq_Suc)
next
  case (Some x)
  then obtain y where y: "r' = Some y"
    using assms(1) by (cases r') (auto simp: encoded_id_def append_reporting_id_def numeral_eq_Suc)
  have "big_endian_u32 (word_of_nat (length x)) = big_endian_u32 (word_of_nat (length y))"
    and xy: "x @ s = y @ t"
    using assms(1) by (auto simp: Some y encoded_id_def append_reporting_id_def)
  then have "(word_of_nat (length x) :: 32 word) = word_of_nat (length y)" using big_endian_u32_inj by blast
  then have "length x = length y"
    using assms(2,3) by (simp add: Some y id_fits_def word_of_nat_eq_iff take_bit_nat_eq_self)
  then show ?thesis using xy Some y by simp
qed

text \<open>The reporting ids a key is made of.\<close>

datatype reported_ids =
    Selected_id string "string option" "string option"
  | Buyer_and_seller_id string
  | Buyer_id string
  | Interest_group_name string

definition reported_ids_of :: "reporting_id_param \<Rightarrow> string \<Rightarrow> reported_ids" where
  "reported_ids_of ids name =
     (case (rip_selected_buyer_and_seller_reporting_id ids, rip_buyer_and_seller_reporting_id ids,
            rip_buyer_reporting_id ids) of
        (Some s, bs, b) \<Rightarrow> Selected_id s bs b
      | (None, Some bs, _) \<Rightarrow> Buyer_and_seller_id bs
      | (None, None, Some b) \<Rightarrow> Buyer_id b
      | (None, None, None) \<Rightarrow> Interest_group_name name)"

fun key_prefix :: "reported_ids \<Rightarrow> string" where
  "key_prefix (Selected_id _ _ _) = ''SelectedBuyerAndSellerReportId''"
| "key_prefix (Buyer_and_seller_id _) = ''BuyerAndSellerReportId''"
| "key_prefix (Buyer_id _) = ''BuyerReportId''"
| "key_prefix (Interest_group_name _) = ''NameReport''"

fun key_suffix :: "reported_ids \<Rightarrow> string" where
  "key_suffix (Selected_id s bs b) = encoded_id (Some s) @ encoded_id bs @ encoded_id b"
| "key_suffix (Buyer_and_seller_id s) = line_feed # s"
| "key_suffix (Buyer_id s) = line_feed # s"
| "key_suffix (Interest_group_name s) = line_feed # s"

lemma plain_text_key_parts:
  "plain_text_key_for_reporting_id H owner name bidding_url render_url ids
     = key_prefix (reported_ids_of ids name) @ line_feed # canonicalize_url H owner
       @ line_feed # canonicalize_url H bidding_url @ line_feed # canonicalize_url H render_url
       @ key_suffix (reported_ids_of ids name)"
  by (simp add: plain_text_key_for_reporting_id_def reported_ids_of_def append_reporting_id_eq
      split: option.split)

lemma newline_notin_prefix [simp]: "line_feed \<notin> set (key_prefix r)"
  by (cases r) (auto simp: line_feed_def)

lemma key_suffix_newline: "\<exists>s. key_suffix r = line_feed # s"
  by (cases r) (auto simp: encoded_id_def append_reporting_id_def)

lemma key_suffix_inj:
  assumes "key_suffix r = key_suffix r'" "key_prefix r = key_prefix r'"
    and "case r of Selected_id s bs b \<Rightarrow> length s < 2 ^ 32 \<and> id_fits bs \<and> id_fits b | _ \<Rightarrow> True"
    and "case r' of Selected_id s bs b \<Rightarrow> length s < 2 ^ 32 \<and> id_fits bs \<and> id_fits b | _ \<Rightarrow> True"
  shows "r = r'"
proof (cases r)
  case (Selected_id s bs b)
  then obtain s' bs' b' where r': "r' = Selected_id s' bs' b'" using assms(2) by (cases r') simp_all
  have eq: "encoded_id (Some s) @ encoded_id bs @ encoded_id b
      = encoded_id (Some s') @ encoded_id bs' @ encoded_id b'"
    using assms(1) by (simp add: Selected_id r')
  have f: "id_fits (Some s)" "id_fits bs" "id_fits b" "id_fits (Some s')" "id_fits bs'" "id_fits b'"
    using assms(3,4) by (simp_all add: Selected_id r' id_fits_def)
  have 1: "Some s = Some s'" "encoded_id bs @ encoded_id b = encoded_id bs' @ encoded_id b'"
    using encoded_id_prefix_free [OF eq f(1,4)] by simp_all
  have 2: "bs = bs'" "encoded_id b @ [] = encoded_id b' @ []"
    using encoded_id_prefix_free [OF 1(2) f(2,5)] by simp_all
  have "b = b'" using encoded_id_prefix_free [OF 2(2) f(3,6)] by simp
  then show ?thesis using 1 2 Selected_id r' by simp
qed (cases r'; use assms(1,2) in simp)+

section \<open>The ads of a ScoreAds request\<close>

definition ad_of_bid ::
  "client_type \<Rightarrow> bool \<Rightarrow> (bid_address \<rightharpoonup> bool) \<Rightarrow> buyer_input_for_bidding \<Rightarrow> string \<Rightarrow> nat \<times> buyer_bid
     \<Rightarrow> ad_with_bid" where
  "ad_of_bid client k status input owner = (\<lambda>(i, b).
     fst (build_ad_with_bid_metadata client k input owner (k_anon_status status (Pa_bid owner i)) b Map.empty))"

lemma build_ad_ignores_index_map:
  "fst (build_ad_with_bid_metadata client k input owner status b m)
     = fst (build_ad_with_bid_metadata client k input owner status b m')"
  by (simp add: build_ad_with_bid_metadata_def Let_def split: option.split)

lemma ad_of_bid_fields [simp]:
  "aw_interest_group_owner (ad_of_bid client k status input owner (i, b)) = owner"
  "aw_interest_group_name (ad_of_bid client k status input owner (i, b)) = bb_interest_group_name b"
  "aw_render (ad_of_bid client k status input owner (i, b)) = bb_render b"
  "aw_ad_components (ad_of_bid client k status input owner (i, b)) = bb_ad_components b"
  "aw_bid (ad_of_bid client k status input owner (i, b)) = bb_bid b"
  "aw_bid_currency (ad_of_bid client k status input owner (i, b)) = bb_bid_currency b"
  "aw_buyer_reporting_id (ad_of_bid client k status input owner (i, b)) = bb_buyer_reporting_id b"
  "aw_buyer_and_seller_reporting_id (ad_of_bid client k status input owner (i, b))
     = bb_buyer_and_seller_reporting_id b"
  "aw_selected_buyer_and_seller_reporting_id (ad_of_bid client k status input owner (i, b))
     = bb_selected_buyer_and_seller_reporting_id b"
  "aw_k_anon_status (ad_of_bid client k status input owner (i, b))
     = (k \<longrightarrow> k_anon_status status (Pa_bid owner i))"
  by (auto simp: ad_of_bid_def build_ad_with_bid_metadata_def Let_def split: option.split)

lemma fold_add_buyer_ad:
  "fst (fold (add_buyer_ad client k status input owner) ibs acc)
     = fst acc @ map (ad_of_bid client k status input owner) ibs"
proof (induction ibs arbitrary: acc)
  case (Cons ib ibs)
  obtain i b where ib: "ib = (i, b)" by fastforce
  obtain ads m where acc: "acc = (ads, m)" by fastforce
  obtain ad m' where step: "build_ad_with_bid_metadata client k input owner
      (k_anon_status status (Pa_bid owner i)) b m = (ad, m')" by fastforce
  have "ad = ad_of_bid client k status input owner (i, b)"
    using build_ad_ignores_index_map [of client k input owner _ b m Map.empty] step
    by (simp add: ad_of_bid_def) (metis fst_conv)
  then show ?case using Cons.IH [of "(ads @ [ad], m')"] step by (simp add: add_buyer_ad_def ib acc)
qed simp

definition ads_of_buyer ::
  "client_type \<Rightarrow> bool \<Rightarrow> (bid_address \<rightharpoonup> bool) \<Rightarrow> (string \<times> buyer_input_for_bidding) list
     \<Rightarrow> string \<times> get_bids_raw_response \<Rightarrow> ad_with_bid list" where
  "ads_of_buyer client k status inputs = (\<lambda>(owner, r).
     map (ad_of_bid client k status (the (map_of inputs owner)) owner) (enumerate 0 (gr_bids r)))"

lemma collect_ad_bids_ads:
  "collect_ad_bids client k status inputs bids acc = Some (ads, m)
     \<Longrightarrow> ads = fst acc @ concat (map (ads_of_buyer client k status inputs) bids)"
proof (induction bids arbitrary: acc)
  case (Cons ob bids)
  obtain owner r where ob: "ob = (owner, r)" by fastforce
  show ?case
  proof (cases "gr_bids r = []")
    case True
    then show ?thesis using Cons.IH [of acc] Cons.prems by (simp add: ob ads_of_buyer_def)
  next
    case False
    then obtain input where input: "map_of inputs owner = Some input"
      using Cons.prems by (auto simp: ob split: option.splits)
    then show ?thesis
      using False Cons.prems
        Cons.IH [of "fold (add_buyer_ad client k status input owner) (enumerate 0 (gr_bids r)) acc"]
      by (simp add: ob fold_add_buyer_ad ads_of_buyer_def [of client k status inputs])
  qed
qed simp

lemma collect_ad_bids_defined:
  "(collect_ad_bids client k status inputs bids acc \<noteq> None)
     = list_all (\<lambda>(owner, r). gr_bids r = [] \<or> map_of inputs owner \<noteq> None) bids"
proof (induction bids arbitrary: acc)
  case (Cons ob bids)
  obtain owner r where "ob = (owner, r)" by fastforce
  then show ?case using Cons.IH by (simp split: option.split)
qed simp

lemma mem_ads_of_buyers:
  assumes "ad \<in> set (concat (map (ads_of_buyer client k status inputs) bids))"
  obtains owner r i where "(owner, r) \<in> set bids" and "i < length (gr_bids r)"
    and "ad = ad_of_bid client k status (the (map_of inputs owner)) owner (i, gr_bids r ! i)"
proof -
  from assms obtain owner r where r: "(owner, r) \<in> set bids"
    and ad: "ad \<in> set (ads_of_buyer client k status inputs (owner, r))" by auto
  from ad obtain i where "i < length (gr_bids r)"
    "ad = ad_of_bid client k status (the (map_of inputs owner)) owner (i, gr_bids r ! i)"
    by (auto simp: ads_of_buyer_def in_set_enumerate_eq)
  with r that show thesis by blast
qed

lemma populated_status:
  assumes "k_anon_status (populate_k_anon_status True queried hash_sets) bid"
  obtains hashes where "(bid, hashes) \<in> set hash_sets" and "set hashes \<subseteq> queried"
proof -
  from assms have "map_of (map (\<lambda>(bid, hashes). (bid, list_all (\<lambda>h. h \<in> queried) hashes)) hash_sets) bid
      = Some True"
    by (auto simp: populate_k_anon_status_def k_anon_status_def split: option.splits)
  then have "(bid, True) \<in> set (map (\<lambda>(bid, hashes). (bid, list_all (\<lambda>h. h \<in> queried) hashes)) hash_sets)"
    by (rule map_of_SomeD)
  then show thesis using that by (auto simp: list_all_iff)
qed

lemma mem_k_anon_hashes:
  assumes "(Pa_bid owner i, hashes) \<in> set (get_k_anon_hashes_for_bids H urls bids)"
    and "distinct (map fst bids)" and "(owner, r) \<in> set bids"
  obtains url where "map_of urls owner = Some url" and "i < length (gr_bids r)"
    and "hashes = k_anon_hashes_of_bid H owner url (gr_bids r ! i)"
proof -
  from assms(1) obtain o' r' where r': "(o', r') \<in> set bids"
    and m: "(Pa_bid owner i, hashes) \<in> set (k_anon_hashes_of_buyer H urls (o', r'))"
    by (auto simp: get_k_anon_hashes_for_bids_def)
  from m obtain url where url: "map_of urls o' = Some url"
    by (cases "map_of urls o'") (auto simp: k_anon_hashes_of_buyer_def)
  with m have "o' = owner" "i < length (gr_bids r')"
    "hashes = k_anon_hashes_of_bid H owner url (gr_bids r' ! i)"
    by (auto simp: k_anon_hashes_of_buyer_def in_set_enumerate_eq)
  moreover from this r' assms(2,3) have "r' = r" by (metis eq_key_imp_eq_value)
  ultimately show thesis using that url by simp
qed

end
