(* ===== verification/Payload_Framing.thy ===== *)
theory Payload_Framing
  imports Chaffing
begin

text \<open>
  The payloads that front ends exchange: GetBids messages with padding that hides their size
  (\<open>common/chaffing/transcoding_utils.h\<close>, \<open>common/compression/compression_utils.cc\<close>) and the size of an
  encoded auction result (\<open>seller_frontend_service/util/framing_utils.cc\<close>). Strings are bytes;
  messages are smaller than 2 GiB, so that sizes fit \<open>int\<close>.
\<close>

section \<open>Bytes\<close>

definition byte :: "8 word \<Rightarrow> char" where
  "byte w = char_of (unat w)"

definition u8 :: "char \<Rightarrow> 8 word" where
  "u8 c = word_of_nat (of_char c)"

lemma u8_byte [simp]: "u8 (byte w) = w"
proof -
  have "unat w < 256" using unsigned_less [of w] by simp
  then show ?thesis by (simp add: u8_def byte_def)
qed

text \<open>
  quiche's writer and reader put 32-bit integers into four bytes. \<open>wire\<close> is what the code relies on;
  network byte order meets it.
\<close>

locale wire =
  fixes put_u32 :: "32 word \<Rightarrow> string"
    and get_u32 :: "string \<Rightarrow> 32 word"
  assumes put_length: "length (put_u32 w) = 4"
    and get_put: "get_u32 (put_u32 w) = w"
begin

lemma take_put [simp]: "take 4 (put_u32 w @ s) = put_u32 w"
  by (simp add: put_length)

lemma drop_put [simp]: "drop 4 (put_u32 w @ s) = s"
  by (simp add: put_length)

end

definition put_network_order :: "32 word \<Rightarrow> string" where
  "put_network_order w =
     map byte [ucast (drop_bit 24 w), ucast (drop_bit 16 w), ucast (drop_bit 8 w), ucast w]"

definition get_network_order :: "string \<Rightarrow> 32 word" where
  "get_network_order s = fold (\<lambda>c w. or (push_bit 8 w) (ucast (u8 c))) s 0"

lemma network_order_inverse:
  "or (or (or (push_bit 24 (ucast (ucast (drop_bit 24 w) :: 8 word)))
      (push_bit 16 (ucast (ucast (drop_bit 16 w) :: 8 word))))
      (push_bit 8 (ucast (ucast (drop_bit 8 w) :: 8 word)))) (ucast (ucast w :: 8 word))
     = (w :: 32 word)" (is "?v = w")
proof (rule bit_word_eqI)
  fix n
  assume "n < LENGTH(32)"
  then consider "n < 8" | "8 \<le> n" "n < 16" | "16 \<le> n" "n < 24" | "24 \<le> n" "n < 32" by fastforce
  then show "bit ?v n = bit w n" by cases (auto simp: bit_simps)
qed

interpretation network_order: wire put_network_order get_network_order
  by unfold_locales (simp_all add: put_network_order_def get_network_order_def network_order_inverse)

section \<open>Compression\<close>

fun compression_type_number :: "compression_type \<Rightarrow> 8 word" where
  "compression_type_number Uncompressed = 0"
| "compression_type_number Gzip = 1"
| "compression_type_number Zstd = 2"

definition to_compression_type :: "8 word \<Rightarrow> compression_type status_or" where
  "to_compression_type n =
     (if n = 0 then Inr Uncompressed else if n = 1 then Inr Gzip else if n = 2 then Inr Zstd
      else Inl (invalid_argument ''Cannot convert value to CompressionType enum''))"

fun compress :: "codecs \<Rightarrow> string \<Rightarrow> compression_type \<Rightarrow> string status_or" where
  "compress C s Uncompressed = Inr s"
| "compress C s Gzip = gzip_compress C s"
| "compress C s Zstd = zstd_compress C s"

fun decompress :: "codecs \<Rightarrow> compression_type \<Rightarrow> string \<Rightarrow> string status_or" where
  "decompress C Gzip s = gzip_decompress C s"
| "decompress C Zstd s = zstd_decompress C s"
| "decompress C Uncompressed s =
     Inl (invalid_argument ''Invalid compression type supplied during decompression'')"

section \<open>GetBids payloads\<close>

record 'm decoded_payload =
  dp_version :: "8 word"
  dp_compression_type :: compression_type
  dp_payload_length :: "32 word"
  dp_message :: 'm

definition encode_and_compress_payload ::
  "(32 word \<Rightarrow> string) \<Rightarrow> codecs \<Rightarrow> ('m \<Rightarrow> string) \<Rightarrow> 'm \<Rightarrow> compression_type \<Rightarrow> nat
     \<Rightarrow> string status_or" where
  "encode_and_compress_payload put_u32 C serialize m algo min_size =
     (case compress C (serialize m) algo of
        Inl e \<Rightarrow> Inl e
      | Inr payload \<Rightarrow>
          (let encoded_size = 5 + max (length payload) min_size;
               written = byte (compression_type_number algo)
                 # put_u32 (word_of_nat (length payload)) @ payload
           in Inr (written @ replicate (encoded_size - length written) (byte 0))))"

definition decode_payload ::
  "(string \<Rightarrow> 32 word) \<Rightarrow> codecs \<Rightarrow> (string \<Rightarrow> 'm option) \<Rightarrow> string
     \<Rightarrow> 'm decoded_payload status_or" where
  "decode_payload get_u32 C parse s =
     (case s of
        [] \<Rightarrow> Inl (invalid_argument ''Cannot read version/compression byte'')
      | first # rest \<Rightarrow>
          if length rest < 4 then Inl (invalid_argument ''Cannot read payload length bytes'')
          else
            (let n = get_u32 (take 4 rest); body = drop 4 rest
             in if length body < unat n then Inl (invalid_argument ''Cannot read payload'')
                else
                  (case to_compression_type (and (u8 first) 0x0F) of
                     Inl e \<Rightarrow> Inl e
                   | Inr algo \<Rightarrow>
                       (case (if algo = Uncompressed then Inr (take (unat n) body)
                              else decompress C algo (take (unat n) body)) of
                          Inl e \<Rightarrow> Inl e
                        | Inr plain \<Rightarrow>
                            (case parse plain of
                               None \<Rightarrow>
                                 Inl (invalid_argument ''Cannot parse proto from GetBids payload'')
                             | Some m \<Rightarrow>
                                 Inr \<lparr>dp_version = and (u8 first) 0xF0,
                                      dp_compression_type = algo, dp_payload_length = n,
                                      dp_message = m\<rparr>)))))"

lemma compression_type_number_masks:
  "and (compression_type_number algo) 0x0F = compression_type_number algo"
  "and (compression_type_number algo) 0xF0 = 0"
  "to_compression_type (compression_type_number algo) = Inr algo"
  by (cases algo; simp add: to_compression_type_def)+

text \<open>What the codecs promise: decompressing what was compressed gives it back.\<close>

definition lossless :: "codecs \<Rightarrow> bool" where
  "lossless C \<longleftrightarrow>
     (\<forall>s t. gzip_compress C s = Inr t \<longrightarrow> gzip_decompress C t = Inr s)
     \<and> (\<forall>s t. zstd_compress C s = Inr t \<longrightarrow> zstd_decompress C t = Inr s)"

lemma decompress_compress:
  "lossless C \<Longrightarrow> compress C s algo = Inr t
     \<Longrightarrow> (if algo = Uncompressed then Inr t else decompress C algo t) = Inr s"
  by (cases algo) (auto simp: lossless_def)

context wire begin

lemma encoded_length:
  "encode_and_compress_payload put_u32 C serialize m algo min_size = Inr s
     \<Longrightarrow> \<exists>t. compress C (serialize m) algo = Inr t \<and> length s = 5 + max (length t) min_size"
  by (auto simp: encode_and_compress_payload_def Let_def put_length split: sum.splits)

lemma decode_encode:
  assumes "lossless C" and "parse (serialize m) = Some m"
    and "encode_and_compress_payload put_u32 C serialize m algo min_size = Inr s"
    and "compress C (serialize m) algo = Inr t" and "length t < 2 ^ 32"
  shows "decode_payload get_u32 C parse s
    = Inr \<lparr>dp_version = 0, dp_compression_type = algo, dp_payload_length = word_of_nat (length t),
           dp_message = m\<rparr>"
proof -
  obtain pad where s: "s = byte (compression_type_number algo)
      # put_u32 (word_of_nat (length t)) @ t @ pad"
    using assms(3) by (auto simp: encode_and_compress_payload_def assms(4) Let_def)
  have n: "unat (word_of_nat (length t) :: 32 word) = length t"
    using assms(5) by (simp add: unat_of_nat)
  note d = decompress_compress [OF assms(1,4)]
  have p: "algo = Uncompressed \<Longrightarrow> parse t = Some m" using d assms(2) by simp
  have q: "algo \<noteq> Uncompressed \<Longrightarrow> decompress C algo t = Inr (serialize m)" using d by simp
  show ?thesis
    unfolding decode_payload_def s list.case
    by (simp add: put_length get_put n compression_type_number_masks assms(2) p q Let_def)
qed

end

section \<open>The size of an encoded auction result\<close>

text \<open>\<open>absl::bit_ceil\<close>: the least power of two that is not below its argument.\<close>

function bit_ceil :: "nat \<Rightarrow> nat" where
  "bit_ceil n = (if n \<le> 1 then 1 else 2 * bit_ceil ((n + 1) div 2))"
  by pat_completeness auto
termination by (relation "measure id") auto

declare bit_ceil.simps [simp del]

definition get_encoded_data_size :: "nat \<Rightarrow> nat" where
  "get_encoded_data_size encapsulated_payload_size =
     max (bit_ceil (1 + 4 + encapsulated_payload_size)) 512"

lemma bit_ceil_power: "\<exists>k. bit_ceil n = 2 ^ k"
proof (induction n rule: bit_ceil.induct)
  case (1 n)
  show ?case
  proof (cases "n \<le> 1")
    case True
    then have "bit_ceil n = 2 ^ 0" by (simp add: bit_ceil.simps [of n])
    then show ?thesis ..
  next
    case False
    then obtain k where "bit_ceil ((n + 1) div 2) = 2 ^ k" using 1 by auto
    then have "bit_ceil n = 2 ^ Suc k" using False by (simp add: bit_ceil.simps [of n])
    then show ?thesis ..
  qed
qed

lemma bit_ceil_bounds: "1 \<le> n \<Longrightarrow> n \<le> bit_ceil n \<and> bit_ceil n < 2 * n"
proof (induction n rule: bit_ceil.induct)
  case (1 n)
  show ?case
  proof (cases "n \<le> 1")
    case True
    then show ?thesis using 1 by (simp add: bit_ceil.simps [of n])
  next
    case False
    then have "(n + 1) div 2 \<le> bit_ceil ((n + 1) div 2) \<and> bit_ceil ((n + 1) div 2) < 2 * ((n + 1) div 2)"
      using 1 by simp
    moreover have "bit_ceil n = 2 * bit_ceil ((n + 1) div 2)" using False by (simp add: bit_ceil.simps [of n])
    moreover have "bit_ceil ((n + 1) div 2) < n"
    proof -
      obtain k where k: "bit_ceil ((n + 1) div 2) = 2 ^ k" using bit_ceil_power by blast
      show ?thesis
      proof (cases k)
        case 0
        then show ?thesis using k False by simp
      next
        case (Suc l)
        then have "even (bit_ceil ((n + 1) div 2))" using k by simp
        moreover have "bit_ceil ((n + 1) div 2) \<le> n"
          using \<open>(n + 1) div 2 \<le> bit_ceil ((n + 1) div 2) \<and> _\<close> by linarith
        moreover have "bit_ceil ((n + 1) div 2) \<noteq> n" if "odd n" using that \<open>even _\<close> by auto
        moreover have "2 * ((n + 1) div 2) = n" if "even n" using that by simp
        ultimately show ?thesis
          using \<open>(n + 1) div 2 \<le> bit_ceil ((n + 1) div 2) \<and> _\<close> by (cases "even n") auto
      qed
    qed
    ultimately show ?thesis by auto
  qed
qed

end
