(* ===== verification/Component_Results.thy ===== *)
theory Component_Results
  imports Buyer_Bids Payload_Framing Auction_Outcome
begin

text \<open>
  Results of component auctions (\<open>seller_frontend_service/util/proto_mapping_util.cc\<close>,
  \<open>k_anon/k_anon_utils.cc\<close>, \<open>ConvertIntArrayToByteString\<close>) and the top-level auction over them
  (\<open>select_auction_result_reactor.cc\<close>). HPKE, OHTTP and the padding of payloads are third-party
  code, and the CBOR encoding of \<open>web_utils.cc\<close> is not modelled: they are the fields of \<open>packaging\<close>.
\<close>

record k_anon_auction_result_data =
  kd_ghost_winners :: "k_anon_ghost_winner list option"
  kd_winner_join_candidates :: "k_anon_join_candidate option"

type_synonym igs_with_bids_map = "(string \<times> int list) list"
type_synonym update_group_map = "(string \<times> update_interest_group_list) list"

record packaging =
  pk_hpke_decrypt :: "string \<Rightarrow> string \<Rightarrow> string status_or"
  pk_decrypt_request :: "string \<Rightarrow> string status_or"
  pk_decode_request_payload :: "string \<Rightarrow> string status_or"
  pk_decode_protected_input :: "client_type \<Rightarrow> string \<Rightarrow> error_map \<Rightarrow> protected_input \<times> error_map"
  pk_encode_for_web ::
    "ad_score option \<Rightarrow> igs_with_bids_map \<Rightarrow> update_group_map \<Rightarrow> (int \<times> string) option
       \<Rightarrow> string \<Rightarrow> k_anon_auction_result_data option \<Rightarrow> string status_or"
  pk_serialize_auction_result :: "auction_result \<Rightarrow> string"
  pk_encode_response_payload :: "string \<Rightarrow> nat \<Rightarrow> string status_or"
  pk_encrypt_response :: "string \<Rightarrow> string status_or"

section \<open>From scores to auction results\<close>

definition map_ad_score_to_auction_result ::
  "ad_score option \<Rightarrow> (int \<times> string) option \<Rightarrow> k_anon_auction_result_data option \<Rightarrow> auction_result" where
  "map_ad_score_to_auction_result high_score error kanon_data =
     (case (error, high_score) of
        (Some e, _) \<Rightarrow> default_auction_result\<lparr>ar_error := e\<rparr>
      | (None, Some s) \<Rightarrow>
          (let r = default_auction_result
              \<lparr>ar_is_chaff := False, ar_bid := (if as_bid s > 0 then as_bid s else 0),
               ar_score := as_desirability s, ar_interest_group_name := as_interest_group_name s,
               ar_interest_group_owner := as_interest_group_owner s,
               ar_interest_group_origin := as_interest_group_origin s,
               ar_ad_render_url := as_render s,
               ar_win_reporting_urls := as_win_reporting_urls s,
               ar_top_level_contributions := as_top_level_contributions s,
               ar_ad_component_render_urls := as_component_renders s, ar_ad_type := as_ad_type s\<rparr>
           in (case kanon_data of
                 None \<Rightarrow> r
               | Some d \<Rightarrow>
                   r\<lparr>ar_k_anon_ghost_winners :=
                       (case kd_ghost_winners d of None \<Rightarrow> [] | Some gs \<Rightarrow> gs),
                     ar_k_anon_winner_join_candidates :=
                       (case kd_winner_join_candidates d of None \<Rightarrow> no_join_candidate | Some j \<Rightarrow> j)\<rparr>))
      | (None, None) \<Rightarrow> default_auction_result\<lparr>ar_is_chaff := True\<rparr>)"

definition ad_score_to_auction_result ::
  "ad_score option \<Rightarrow> igs_with_bids_map option \<Rightarrow> update_group_map \<Rightarrow> (int \<times> string) option
     \<Rightarrow> auction_scope \<Rightarrow> string \<Rightarrow> protected_input \<Rightarrow> string \<Rightarrow> k_anon_auction_result_data option
     \<Rightarrow> auction_result" where
  "ad_score_to_auction_result high_score bidding_groups update_groups error scope seller input
       top_level_seller kanon_data =
     (let r = map_ad_score_to_auction_result high_score error kanon_data
      in if high_score \<noteq> None \<and> scope = AUCTION_SCOPE_SERVER_COMPONENT_MULTI_SELLER
         then r\<lparr>ar_ciphertext_generation_id := pi_generation_id input, ar_component_seller := seller,
                ar_top_level_seller := top_level_seller,
                ar_bidding_groups := (case bidding_groups of None \<Rightarrow> [] | Some g \<Rightarrow> g),
                ar_update_groups := update_groups\<rparr>
         else r)"

text \<open>\<open>buyer_inputs.at(buyer)\<close> ends the process for a buyer that has no input: \<open>None\<close>.\<close>

definition bidding_group_indices :: "buyer_input_for_bidding \<Rightarrow> buyer_bid list \<Rightarrow> int list" where
  "bidding_group_indices input bids =
     map (int \<circ> fst) (filter (\<lambda>(i, ig). \<exists>b \<in> set bids. bb_bid b > 0 \<and> bb_interest_group_name b = ig_name ig)
       (enumerate 0 (bi_interest_groups input)))"

fun get_bidding_groups ::
  "buyer_bids_map \<Rightarrow> (string \<times> buyer_input_for_bidding) list \<Rightarrow> igs_with_bids_map
     \<Rightarrow> igs_with_bids_map option" where
  "get_bidding_groups [] inputs groups = Some groups"
| "get_bidding_groups ((buyer, r) # bids) inputs groups =
     (case map_of inputs buyer of
        None \<Rightarrow> None
      | Some input \<Rightarrow>
          get_bidding_groups bids inputs
            (al_emplace buyer (bidding_group_indices input (gr_bids r)) groups))"

section \<open>k-anonymity data of a result (\<open>k_anon_utils.cc\<close>)\<close>

definition ghost_winner_data_for_top_level :: "ad_score \<Rightarrow> ghost_winner_for_top_level" where
  "ghost_winner_data_for_top_level s =
     \<lparr>gt_ad_render_url = as_render s, gt_ad_component_render_urls = as_component_renders s,
      gt_modified_bid = as_bid s, gt_bid_currency = as_bid_currency s,
      gt_ad_metadata = as_ad_metadata s, gt_buyer_reporting_id = as_buyer_reporting_id s,
      gt_selected_buyer_and_seller_reporting_id = as_selected_buyer_and_seller_reporting_id s,
      gt_buyer_and_seller_reporting_id = as_buyer_and_seller_reporting_id s,
      gt_ad_type = as_ad_type s\<rparr>"

definition big_endian_u64 :: "64 word \<Rightarrow> string" where
  "big_endian_u64 w =
     map (\<lambda>i. char_of (unat (ucast (drop_bit (8 * i) w) :: 8 word))) [7, 6, 5, 4, 3, 2, 1, 0]"

definition convert_int_array_to_byte_string :: "pagg_bucket \<Rightarrow> string" where
  "convert_int_array_to_byte_string bucket =
     (let bits = (case bucket of Bucket_128_bit ws \<Rightarrow> ws | _ \<Rightarrow> []);
          lower = (case bits of w # _ \<Rightarrow> w | [] \<Rightarrow> 0);
          upper = (case bits of [_, w] \<Rightarrow> w | _ \<Rightarrow> 0)
      in big_endian_u64 upper @ big_endian_u64 lower)"

definition add_loss_signal ::
  "pagg_contribution \<Rightarrow> ghost_winner_pagg_signals list \<times> int \<Rightarrow> ghost_winner_pagg_signals list \<times> int" where
  "add_loss_signal c = (\<lambda>(signals, idx).
     if map_option fst (pc_event c) = Some EVENT_TYPE_LOSS then
       (signals @ [\<lparr>gps_bucket = convert_int_array_to_byte_string (pc_bucket c),
                    gps_value = (case pc_value c of Int_value v \<Rightarrow> v | _ \<Rightarrow> 0)\<rparr>],
        case pc_ig_idx c of None \<Rightarrow> idx | Some i \<Rightarrow> i)
     else (signals, idx))"

text \<open>The loop ends at the first response of another adtech after signals were found.\<close>

fun populate_ghost_winner_pagg_signals ::
  "string \<Rightarrow> pagg_response list \<Rightarrow> ghost_winner_pagg_signals list \<times> int
     \<Rightarrow> ghost_winner_pagg_signals list \<times> int" where
  "populate_ghost_winner_pagg_signals owner [] acc = acc"
| "populate_ghost_winner_pagg_signals owner (r # rs) acc =
     (if pr_adtech_origin r = owner
      then populate_ghost_winner_pagg_signals owner rs (fold add_loss_signal (pr_contributions r) acc)
      else if fst acc \<noteq> [] then acc
      else populate_ghost_winner_pagg_signals owner rs acc)"

text \<open>
  The hashes with which a winner counts towards k-anonymity. The entry of the owner is dereferenced
  without a test: \<open>None\<close> when there is none.
\<close>

definition reporting_ids_of_score :: "ad_score \<Rightarrow> reporting_id_param" where
  "reporting_ids_of_score s =
     \<lparr>rip_buyer_reporting_id = as_buyer_reporting_id s,
      rip_buyer_and_seller_reporting_id = as_buyer_and_seller_reporting_id s,
      rip_selected_buyer_and_seller_reporting_id = None\<rparr>"

definition get_k_anon_join_candidate ::
  "hashing \<Rightarrow> (string \<times> string) list \<Rightarrow> ad_score \<Rightarrow> k_anon_join_candidate option" where
  "get_k_anon_join_candidate H report_win_urls s =
     (case map_of report_win_urls (as_interest_group_owner s) of
        None \<Rightarrow> None
      | Some url \<Rightarrow>
          Some \<lparr>kjc_ad_render_url_hash =
                  sha256 H (plain_text_key_for_ad_render_url H (as_interest_group_owner s) url (as_render s)),
                kjc_ad_component_render_urls_hash =
                  map (\<lambda>u. sha256 H (plain_text_key_for_ad_component_render_url H u))
                    (as_component_renders s),
                kjc_reporting_id_hash =
                  sha256 H (plain_text_key_for_reporting_id H (as_interest_group_owner s)
                    (as_interest_group_name s) url (as_render s) (reporting_ids_of_score s))\<rparr>)"

text \<open>\<open>join\<close> is the reactor's \<open>GetKAnonJoinCandidate\<close>.\<close>

definition k_anon_ghost_winner_of ::
  "(ad_score \<Rightarrow> k_anon_join_candidate option) \<Rightarrow> bool \<Rightarrow> ad_score \<Rightarrow> k_anon_ghost_winner option" where
  "k_anon_ghost_winner_of join component s =
     (case join s of
        None \<Rightarrow> None
      | Some j \<Rightarrow>
          (case populate_ghost_winner_pagg_signals (as_interest_group_owner s) (as_top_level_contributions s)
                  ([], 0) of (signals, idx) \<Rightarrow>
             Some \<lparr>gw_join_candidates = j, gw_interest_group_index = idx,
                   gw_owner = as_interest_group_owner s, gw_origin = [],
                   gw_ig_name = as_interest_group_name s, gw_pagg_signals = signals,
                   gw_for_top_level =
                     (if component then Some (ghost_winner_data_for_top_level s) else None)\<rparr>))"

definition get_k_anon_auction_result_data ::
  "(ad_score \<Rightarrow> k_anon_join_candidate option) \<Rightarrow> ad_score option \<Rightarrow> ad_score list option \<Rightarrow> bool
     \<Rightarrow> k_anon_auction_result_data option" where
  "get_k_anon_auction_result_data join high_score ghosts component =
     (case (case high_score of None \<Rightarrow> Some None | Some s \<Rightarrow> map_option Some (join s)) of
        None \<Rightarrow> None
      | Some winner \<Rightarrow>
          (case ghosts of
             None \<Rightarrow> Some \<lparr>kd_ghost_winners = None, kd_winner_join_candidates = winner\<rparr>
           | Some ss \<Rightarrow>
               (case those (map (k_anon_ghost_winner_of join component) ss) of
                  None \<Rightarrow> None
                | Some gs \<Rightarrow> Some \<lparr>kd_ghost_winners = Some gs, kd_winner_join_candidates = winner\<rparr>)))"

definition get_k_anon_auction_result_data_for_top_level ::
  "ad_score option \<Rightarrow> ad_score list \<Rightarrow> k_anon_auction_result_data" where
  "get_k_anon_auction_result_data_for_top_level high_score ghosts =
     \<lparr>kd_ghost_winners =
        Some (map (\<lambda>s. \<lparr>gw_join_candidates =
                           (case as_k_anon_join_candidate s of None \<Rightarrow> no_join_candidate | Some j \<Rightarrow> j),
                         gw_interest_group_index = 0, gw_owner = as_interest_group_owner s,
                         gw_origin = [], gw_ig_name = as_interest_group_name s,
                         gw_pagg_signals = [], gw_for_top_level = None\<rparr>) ghosts),
      kd_winner_join_candidates =
        (case high_score of None \<Rightarrow> None | Some s \<Rightarrow> as_k_anon_join_candidate s)\<rparr>"

section \<open>Reading component auction results\<close>

definition unpackage_component_result ::
  "packaging \<Rightarrow> codecs \<Rightarrow> encrypted_auction_result \<Rightarrow> auction_result status_or" where
  "unpackage_component_result P C enc =
     (case pk_hpke_decrypt P (ear_auction_result_ciphertext enc) (ear_key_id enc) of
        Inl e \<Rightarrow> Inl e
      | Inr encoded \<Rightarrow>
          (case pk_decode_request_payload P encoded of
             Inl e \<Rightarrow> Inl e
           | Inr compressed \<Rightarrow>
               (case gzip_decompress C compressed of
                  Inl e \<Rightarrow> Inl e
                | Inr payload \<Rightarrow>
                    (case parse_auction_result C payload of
                       None \<Rightarrow> Inl (invalid_argument ''Unable to decode binary proto'')
                     | Some r \<Rightarrow> Inr r))))"

text \<open>The loop, with the sellers met so far and the results accepted so far.\<close>

fun read_component_results ::
  "packaging \<Rightarrow> codecs \<Rightarrow> string \<Rightarrow> string \<Rightarrow> (string \<times> string) list \<Rightarrow> encrypted_auction_result list
     \<Rightarrow> string list \<Rightarrow> auction_result list \<Rightarrow> error_map \<Rightarrow> auction_result list \<times> error_map" where
  "read_component_results P C domain gen configs [] sellers results errors = (results, errors)"
| "read_component_results P C domain gen configs (enc # encs) sellers results errors =
     (case unpackage_component_result P C enc of
        Inl e \<Rightarrow>
          read_component_results P C domain gen configs encs sellers results
            (report_error AD_SERVER_VISIBLE
               (''Error while decrypting auction_result_ciphertext: '' @ st_message e @ ''.'')
               CLIENT_SIDE errors)
      | Inr r \<Rightarrow>
          (case validate_component_auction_result r gen domain configs errors of (errors', valid) \<Rightarrow>
             if \<not> valid then read_component_results P C domain gen configs encs sellers results errors'
             else if ar_component_seller r \<in> set sellers then
               ([], report_error AD_SERVER_VISIBLE
                      (''Top Level Auction contains multiple auction results for the same seller: ''
                       @ ar_component_seller r @ ''.'') CLIENT_SIDE errors')
             else read_component_results P C domain gen configs encs (ar_component_seller r # sellers)
                    (results @ [r]) errors'))"

definition decrypt_and_validate_component_auction_results ::
  "packaging \<Rightarrow> codecs \<Rightarrow> select_ad_request \<Rightarrow> string \<Rightarrow> string \<Rightarrow> error_map
     \<Rightarrow> auction_result list \<times> error_map" where
  "decrypt_and_validate_component_auction_results P C rq domain gen errors =
     read_component_results P C domain gen
       (ac_per_component_seller_currency (request_auction_config rq))
       (sr_component_auction_results rq) [] [] errors"

text \<open>
  The interest groups that bid, over all components. A set of indices is listed in some order; the
  entry of a buyer that only one component has is moved as it is.
\<close>

type_synonym ig_sets = "(string \<times> int list) list"

definition add_to_index_set :: "string \<Rightarrow> int list \<Rightarrow> ig_sets \<Rightarrow> ig_sets" where
  "add_to_index_set buyer idx sets =
     map (\<lambda>(b, s). (b, if b = buyer then remdups (s @ idx) else s)) sets"

definition collate_bidding_group ::
  "string \<times> int list \<Rightarrow> igs_with_bids_map \<times> ig_sets \<Rightarrow> igs_with_bids_map \<times> ig_sets" where
  "collate_bidding_group = (\<lambda>(buyer, idx) (out, colliding).
     case map_of out buyer of
       None \<Rightarrow> (al_emplace buyer idx out, colliding)
     | Some previous \<Rightarrow>
         (out, add_to_index_set buyer idx (al_emplace buyer (remdups previous) colliding)))"

definition get_buyer_igs_with_bids_map :: "igs_with_bids_map list \<Rightarrow> igs_with_bids_map" where
  "get_buyer_igs_with_bids_map groups =
     (case fold collate_bidding_group (concat groups) ([], []) of
        (out, colliding) \<Rightarrow>
          map (\<lambda>(b, idx). (b, case map_of colliding b of None \<Rightarrow> idx | Some s \<Rightarrow> s)) out)"

section \<open>The request of the top-level auction\<close>

definition create_top_level_score_ads_request ::
  "auction_config \<Rightarrow> protected_input \<Rightarrow> auction_result list \<Rightarrow> bool \<Rightarrow> int \<Rightarrow> score_ads_raw_request" where
  "create_top_level_score_ads_request c input results enable_kanon num_ghost_winners =
     \<lparr>rq_ad_bids = [], rq_seller_signals = ac_seller_signals c,
      rq_auction_signals = ac_auction_signals c, rq_scoring_signals = [],
      rq_publisher_hostname = pi_publisher_name input,
      rq_enable_debug_reporting = pi_enable_debug_reporting input, rq_per_buyer_signals = Map.empty,
      rq_pas_ad_bids = [], rq_seller = ac_seller c, rq_top_level_seller = [],
      rq_seller_currency = ac_seller_currency c,
      rq_component_auction_results = filter (\<lambda>r. \<not> ar_is_chaff r) results,
      rq_num_allowed_ghost_winners = (if enable_kanon then num_ghost_winners else 0),
      rq_enforce_kanon = enable_kanon \<and> pi_enforce_kanon input, rq_seller_data_version = 0,
      rq_is_sampled_for_debug = False, rq_score_ad_version = [],
      rq_fdo_flags = \<lparr>fdo_enable_sampled_debug_reporting = False, fdo_in_cooldown_or_lockout = False\<rparr>\<rparr>"

section \<open>Packaging the result\<close>

definition package_auction_result_ciphertext ::
  "packaging \<Rightarrow> codecs \<Rightarrow> string \<Rightarrow> string status_or" where
  "package_auction_result_ciphertext P C serialized =
     (case gzip_compress C serialized of
        Inl e \<Rightarrow> Inl e
      | Inr s \<Rightarrow>
          (case pk_encode_response_payload P s (get_encoded_data_size (length s)) of
             Inl e \<Rightarrow> Inl e
           | Inr plain \<Rightarrow> pk_encrypt_response P plain))"

definition package_auction_result_for_web ::
  "packaging \<Rightarrow> codecs \<Rightarrow> string \<Rightarrow> ad_score option \<Rightarrow> igs_with_bids_map option \<Rightarrow> update_group_map
     \<Rightarrow> (int \<times> string) option \<Rightarrow> k_anon_auction_result_data option \<Rightarrow> string status_or" where
  "package_auction_result_for_web P C nonce high_score groups updates error kanon_data =
     (case pk_encode_for_web P high_score (case groups of None \<Rightarrow> [] | Some g \<Rightarrow> g) updates error
             nonce kanon_data of
        Inl e \<Rightarrow> Inl e
      | Inr s \<Rightarrow> package_auction_result_ciphertext P C s)"

definition package_top_level_auction_result_for_app ::
  "packaging \<Rightarrow> codecs \<Rightarrow> ad_score option \<Rightarrow> (int \<times> string) option
     \<Rightarrow> k_anon_auction_result_data option \<Rightarrow> string status_or" where
  "package_top_level_auction_result_for_app P C high_score error kanon_data =
     (let r = map_ad_score_to_auction_result high_score error kanon_data;
          r = (case high_score of None \<Rightarrow> r | Some s \<Rightarrow> r\<lparr>ar_component_seller := as_seller s\<rparr>)
      in package_auction_result_ciphertext P C (pk_serialize_auction_result P r))"

definition create_auction_result_ciphertext ::
  "packaging \<Rightarrow> codecs \<Rightarrow> string \<Rightarrow> ad_score option \<Rightarrow> igs_with_bids_map option \<Rightarrow> update_group_map
     \<Rightarrow> (int \<times> string) option \<Rightarrow> k_anon_auction_result_data option \<Rightarrow> client_type \<Rightarrow> string status_or" where
  "create_auction_result_ciphertext P C nonce high_score groups updates error kanon_data client =
     (case client of
        CLIENT_TYPE_ANDROID \<Rightarrow> package_top_level_auction_result_for_app P C high_score error kanon_data
      | CLIENT_TYPE_BROWSER \<Rightarrow>
          package_auction_result_for_web P C nonce high_score groups updates error kanon_data
      | CLIENT_TYPE_UNKNOWN \<Rightarrow> Inl (invalid_argument ''Unsupported client type.''))"

section \<open>\<open>SelectAuctionResultReactor\<close>\<close>

text \<open>
  A call ends with a status (and the ciphertext of the response), waits for the auction service, or
  the process ends where a pointer is followed that was not set. \<open>dispatched\<close> tells whether the
  client accepted the ScoreAds request.
\<close>

record top_level_state =
  tl_bidding_groups :: "igs_with_bids_map list"
  tl_update_groups :: update_group_map

datatype top_level_progress =
    Top_level_finished status "string option"
  | Top_level_scoring score_ads_raw_request top_level_state
  | Top_level_aborted

definition finish_with_response :: "string status_or \<Rightarrow> top_level_progress" where
  "finish_with_response result =
     (case result of
        Inl _ \<Rightarrow> Top_level_finished (internal_error ''Internal server error.'') None
      | Inr s \<Rightarrow> Top_level_finished ok_status (Some s))"

definition finish_with_client_visible_errors ::
  "packaging \<Rightarrow> codecs \<Rightarrow> select_ad_request \<Rightarrow> string \<Rightarrow> top_level_progress" where
  "finish_with_client_visible_errors P C rq message =
     finish_with_response
       (create_auction_result_ciphertext P C (ac_ad_auction_result_nonce (request_auction_config rq))
          None None [] (Some (error_code_number CLIENT_SIDE, message)) None (sr_client_type rq))"

definition score_component_results ::
  "bool \<Rightarrow> bool \<Rightarrow> bool \<Rightarrow> bool \<Rightarrow> select_ad_request \<Rightarrow> protected_input \<Rightarrow> auction_result list
     \<Rightarrow> top_level_progress" where
  "score_component_results cancelled dispatched enable_kanon is_sampled rq input results =
     (if cancelled then
        Top_level_finished \<lparr>st_code = CANCELLED, st_message = ''Request Cancelled by Client.''\<rparr> None
      else if \<not> dispatched then
        Top_level_finished (internal_error ''Internal server error.'') None
      else
        Top_level_scoring
          ((create_top_level_score_ads_request (request_auction_config rq) input results enable_kanon 1)
             \<lparr>rq_is_sampled_for_debug := is_sampled\<rparr>)
          \<lparr>tl_bidding_groups = map ar_bidding_groups results,
           tl_update_groups = fold (\<lambda>(k, v). al_emplace k v) (concat (map ar_update_groups results)) []\<rparr>)"

definition top_level_execute ::
  "packaging \<Rightarrow> codecs \<Rightarrow> sfe_config \<Rightarrow> bool \<Rightarrow> bool \<Rightarrow> bool \<Rightarrow> select_ad_request
     \<Rightarrow> top_level_progress" where
  "top_level_execute P C sf cancelled dispatched is_sampled rq =
     (let domain = sf_seller_origin_domain sf in
      if domain = [] then
        Top_level_finished (invalid_argument ''Seller domain in server must be configured.'') None
      else
        (case validate_encrypted_select_ad_request rq AUCTION_SCOPE_SERVER_TOP_LEVEL_SELLER domain
                no_errors of (errors, valid) \<Rightarrow>
           if \<not> valid then
             Top_level_finished
               (invalid_argument (get_accumulated_error_string AD_SERVER_VISIBLE errors)) None
           else
             (case pk_decrypt_request P
                     (if sr_protected_auction_ciphertext rq \<noteq> [] then sr_protected_auction_ciphertext rq
                      else sr_protected_audience_ciphertext rq) of
                Inl _ \<Rightarrow> Top_level_aborted
              | Inr plaintext \<Rightarrow>
                  (case pk_decode_protected_input P (sr_client_type rq) plaintext errors of
                     (input, errors) \<Rightarrow>
                     if pi_generation_id input = [] then
                       finish_with_client_visible_errors P C rq ''Request is missing generation ID''
                     else
                       (case decrypt_and_validate_component_auction_results P C rq domain
                               (pi_generation_id input) errors of (results, errors) \<Rightarrow>
                          if results = [] then
                            Top_level_finished
                              (invalid_argument
                                (get_accumulated_error_string AD_SERVER_VISIBLE errors)) None
                          else
                            score_component_results (sf_enable_cancellation sf \<and> cancelled) dispatched
                              (sf_enable_kanon sf) is_sampled rq input results)))))"

definition top_level_on_score_ads_done ::
  "packaging \<Rightarrow> codecs \<Rightarrow> bool \<Rightarrow> select_ad_request \<Rightarrow> top_level_state \<Rightarrow> raw_response status_or
     \<Rightarrow> top_level_progress" where
  "top_level_on_score_ads_done P C enable_kanon rq st response =
     (let nonce = ac_ad_auction_result_nonce (request_auction_config rq);
          chaff = finish_with_response
            (create_auction_result_ciphertext P C nonce None None [] None None (sr_client_type rq))
      in case response of
           Inl e \<Rightarrow> if st_code e \<noteq> INTERNAL then Top_level_finished e None else chaff
         | Inr r \<Rightarrow>
             (let score = (case rs_ad_score r of None \<Rightarrow> default_ad_score | Some s \<Rightarrow> s);
                  has_winner = (rs_ad_score r \<noteq> None \<and> as_buyer_bid score > 0);
                  ghosts = rs_ghost_winning_ad_scores r;
                  winner_hash = (case as_k_anon_join_candidate score of
                    None \<Rightarrow> [] | Some j \<Rightarrow> kjc_ad_render_url_hash j)
              in if has_winner \<or> enable_kanon \<and> ghosts \<noteq> [] then
                   finish_with_response
                     (create_auction_result_ciphertext P C nonce (Some score)
                        (Some (get_buyer_igs_with_bids_map (tl_bidding_groups st)))
                        (tl_update_groups st) None
                        (if enable_kanon \<and> (ghosts \<noteq> [] \<or> winner_hash \<noteq> [])
                         then Some (get_k_anon_auction_result_data_for_top_level
                                (if has_winner then Some score else None) ghosts)
                         else None)
                        (sr_client_type rq))
                 else chaff))"

section \<open>Lemmas\<close>

definition accepted_results ::
  "packaging \<Rightarrow> codecs \<Rightarrow> string \<Rightarrow> string \<Rightarrow> (string \<times> string) list \<Rightarrow> encrypted_auction_result list
     \<Rightarrow> auction_result list" where
  "accepted_results P C domain gen configs encs =
     List.map_filter (\<lambda>e. case unpackage_component_result P C e of
         Inl _ \<Rightarrow> None
       | Inr r \<Rightarrow> if snd (validate_component_auction_result r gen domain configs no_errors)
                  then Some r else None) encs"

lemma validity_ignores_errors:
  "snd (validate_component_auction_result r gen domain configs errors)
     = snd (validate_component_auction_result r gen domain configs no_errors)"
  by (simp only: validate_component_result_valid)

lemma accepted_results_simps [simp]:
  "accepted_results P C domain gen configs [] = []"
  "accepted_results P C domain gen configs (e # es) =
     (case unpackage_component_result P C e of
        Inl _ \<Rightarrow> accepted_results P C domain gen configs es
      | Inr r \<Rightarrow> if snd (validate_component_auction_result r gen domain configs no_errors)
                 then r # accepted_results P C domain gen configs es
                 else accepted_results P C domain gen configs es)"
  by (simp_all add: accepted_results_def List.map_filter_simps split: sum.split)

lemma read_component_results_eq:
  assumes "distinct (map ar_component_seller results)" "set sellers = ar_component_seller ` set results"
  shows "fst (read_component_results P C domain gen configs encs sellers results errors)
    = (let all = results @ accepted_results P C domain gen configs encs
       in if distinct (map ar_component_seller all) then all else [])"
  using assms
proof (induction encs arbitrary: sellers results errors)
  case (Cons e encs)
  show ?case
  proof (cases "unpackage_component_result P C e")
    case (Inl x)
    then show ?thesis using Cons by simp
  next
    case (Inr r)
    obtain errors' valid where v:
      "validate_component_auction_result r gen domain configs errors = (errors', valid)" by fastforce
    then have valid: "snd (validate_component_auction_result r gen domain configs no_errors) = valid"
      using validity_ignores_errors [of r gen domain configs errors] by simp
    show ?thesis
    proof (cases "valid \<and> ar_component_seller r \<notin> set sellers")
      case True
      have "distinct (map ar_component_seller (results @ [r]))"
        "set (ar_component_seller r # sellers) = ar_component_seller ` set (results @ [r])"
        using Cons.prems True by auto
      from Cons.IH [OF this] show ?thesis using Inr v valid True by simp
    next
      case False
      then show ?thesis using Cons Inr v valid by (auto simp: Let_def)
    qed
  qed
qed (simp add: Let_def)

lemma chaff_has_no_seller:
  "ar_component_seller (ad_score_to_auction_result None g u e scope seller input tls k) = []"
  by (simp add: ad_score_to_auction_result_def map_ad_score_to_auction_result_def
      default_auction_result_def split: option.split)

lemma chaff_is_valid:
  "snd (validate_component_auction_result
      (ad_score_to_auction_result None g u None scope seller input tls k) gen domain configs errors)"
  by (simp add: validate_component_result_valid ad_score_to_auction_result_def
      map_ad_score_to_auction_result_def default_auction_result_def)

text \<open>Collation: what is looked up for a buyer, and how a component's entry changes it.\<close>

definition collated :: "igs_with_bids_map \<times> ig_sets \<Rightarrow> string \<Rightarrow> int set" where
  "collated = (\<lambda>(out, colliding) b.
     case map_of colliding b of
       Some s \<Rightarrow> set s
     | None \<Rightarrow> (case map_of out b of None \<Rightarrow> {} | Some s \<Rightarrow> set s))"

definition collation_inv :: "igs_with_bids_map \<times> ig_sets \<Rightarrow> bool" where
  "collation_inv = (\<lambda>(out, colliding). dom (map_of colliding) \<subseteq> dom (map_of out))"

lemma map_of_add_to_index_set:
  "map_of (add_to_index_set buyer idx sets) b
     = map_option (\<lambda>s. if b = buyer then remdups (s @ idx) else s) (map_of sets b)"
  by (induction sets) (auto simp: add_to_index_set_def)

lemma collate_step:
  assumes "collation_inv acc"
  shows "collation_inv (collate_bidding_group (buyer, idx) acc)"
    and "collated (collate_bidding_group (buyer, idx) acc) b
      = collated acc b \<union> (if b = buyer then set idx else {})"
proof -
  obtain out colliding where acc: "acc = (out, colliding)" by fastforce
  have l: "map_of (al_emplace buyer v al) b' = (if b' = buyer then
      Some (case map_of al buyer of None \<Rightarrow> v | Some w \<Rightarrow> w) else map_of al b')"
    for v :: "int list" and al b'
    by (auto simp: amap.look_ins_same)
  show "collation_inv (collate_bidding_group (buyer, idx) acc)"
    using assms
    by (auto simp: collation_inv_def collate_bidding_group_def acc l map_of_add_to_index_set dom_def
        split: option.splits if_splits)
  show "collated (collate_bidding_group (buyer, idx) acc) b
      = collated acc b \<union> (if b = buyer then set idx else {})"
    using assms
    by (auto simp: collation_inv_def collated_def collate_bidding_group_def acc l
        map_of_add_to_index_set dom_def split: option.splits if_splits)
qed

lemma collate_fold:
  assumes "collation_inv acc"
  shows "collation_inv (fold collate_bidding_group entries acc)
    \<and> collated (fold collate_bidding_group entries acc) b
       = collated acc b \<union> \<Union> {set idx | idx. (b, idx) \<in> set entries}"
  using assms
proof (induction entries arbitrary: acc)
  case (Cons e entries)
  obtain buyer idx where e: "e = (buyer, idx)" by fastforce
  have inv: "collation_inv (collate_bidding_group e acc)"
    using collate_step(1) [OF Cons.prems] by (simp add: e)
  have "\<Union> {set i | i. (b, i) \<in> set (e # entries)}
      = (if b = buyer then set idx else {}) \<union> \<Union> {set i | i. (b, i) \<in> set entries}"
    by (auto simp: e)
  then show ?case
    using Cons.IH [OF inv] collate_step(2) [OF Cons.prems, of buyer idx b] by (simp add: e Un_assoc)
qed auto

lemma igs_with_bids_union:
  "(case map_of (get_buyer_igs_with_bids_map groups) b of None \<Rightarrow> {} | Some idx \<Rightarrow> set idx)
     = \<Union> {set idx | idx. (b, idx) \<in> set (concat groups)}"
proof -
  obtain out colliding where f: "fold collate_bidding_group (concat groups) ([], []) = (out, colliding)"
    by fastforce
  have inv: "collation_inv (out, colliding)"
    and c: "collated (out, colliding) b = \<Union> {set idx | idx. (b, idx) \<in> set (concat groups)}"
    using collate_fold [of "([], [])" "concat groups" b]
    by (simp_all add: f collation_inv_def collated_def)
  have "map_of (get_buyer_igs_with_bids_map groups) b
      = map_option (\<lambda>idx. case map_of colliding b of None \<Rightarrow> idx | Some s \<Rightarrow> s) (map_of out b)"
    unfolding get_buyer_igs_with_bids_map_def f prod.case
    by (induction out) (auto split: option.split)
  then show ?thesis
    using inv c [symmetric]
    by (auto simp: collated_def collation_inv_def dom_def split: option.splits)
qed

end
