(* ===== verification/Seller_Pagg.thy ===== *)
theory Seller_Pagg
  imports Component_Results
begin

text \<open>
  Private aggregation in the seller front end
  (\<open>seller_frontend_service/private_aggregation/private_aggregation_helper.cc\<close>): which of the buyers'
  contributions enter the result, what they become, and how they are grouped by adtech. A
  contribution that was moved out of a bid leaves a default message behind. The CBOR encoding
  is not part of it.
\<close>

section \<open>Contributions of one bid\<close>

definition no_contribution :: pagg_contribution where
  "no_contribution = \<lparr>pc_bucket = No_bucket, pc_value = No_value, pc_event = None, pc_ig_idx = None\<rparr>"

definition contribution_event_type :: "pagg_contribution \<Rightarrow> event_type" where
  "contribution_event_type c =
     (case pc_event c of None \<Rightarrow> EVENT_TYPE_UNSPECIFIED | Some (ev, name) \<Rightarrow> ev)"

definition filter_win_contributions :: "buyer_bid \<Rightarrow> buyer_bid" where
  "filter_win_contributions b =
     b\<lparr>bb_pagg_contributions := filter
         (\<lambda>c. contribution_event_type c \<in> {EVENT_TYPE_WIN, EVENT_TYPE_CUSTOM, EVENT_TYPE_ALWAYS})
         (bb_pagg_contributions b)\<rparr>"

definition filter_loss_contributions :: "buyer_bid \<Rightarrow> buyer_bid" where
  "filter_loss_contributions b =
     b\<lparr>bb_pagg_contributions := filter
         (\<lambda>c. contribution_event_type c \<in> {EVENT_TYPE_LOSS, EVENT_TYPE_ALWAYS})
         (bb_pagg_contributions b)\<rparr>"

definition base_values_of_score :: "ad_score \<Rightarrow> base_values" where
  "base_values_of_score s =
     \<lparr>bv_winning_bid =
        (if as_incoming_bid_in_seller_currency s > 0 then as_incoming_bid_in_seller_currency s
         else as_buyer_bid s),
      bv_highest_scoring_other_bid =
        (case as_highest_scoring_other_bids s of (_, v # _) # _ \<Rightarrow> to_f32 v | _ \<Rightarrow> 0),
      bv_reject_reason = None\<rparr>"

definition process_contribution ::
  "unspecified \<Rightarrow> base_values \<Rightarrow> pagg_contribution \<Rightarrow> pagg_contribution option" where
  "process_contribution U bv c =
     (case (get_value_post_auction U bv (pc_value c), get_bucket_post_auction U bv (pc_bucket c)) of
        (Inr i, Inr ws) \<Rightarrow>
          Some (c\<lparr>pc_value := Int_value i, pc_bucket := Bucket_128_bit ws, pc_event := None\<rparr>)
      | _ \<Rightarrow> None)"

definition get_processed_and_filtered_contributions ::
  "unspecified \<Rightarrow> base_values \<Rightarrow> buyer_bid \<Rightarrow> pagg_contribution list \<times> buyer_bid" where
  "get_processed_and_filtered_contributions U bv b =
     (List.map_filter (process_contribution U bv) (bb_pagg_contributions b),
      b\<lparr>bb_pagg_contributions :=
          map (\<lambda>c. if process_contribution U bv c = None then c else no_contribution)
            (bb_pagg_contributions b)\<rparr>)"

section \<open>The winner's message\<close>

definition is_winner :: "ad_score \<Rightarrow> string \<Rightarrow> buyer_bid \<Rightarrow> bool" where
  "is_winner s owner b \<longleftrightarrow>
     as_interest_group_owner s = owner \<and> bb_interest_group_name b = as_interest_group_name s"

definition first_rejection :: "ad_score \<Rightarrow> string \<Rightarrow> buyer_bid \<Rightarrow> seller_rejection_reason option" where
  "first_rejection s owner b =
     map_option arr_rejection_reason
       (List.find (\<lambda>r. arr_interest_group_owner r = owner
                     \<and> arr_interest_group_name r = bb_interest_group_name b)
          (as_ad_rejection_reasons s))"

definition contributions_of_bid ::
  "unspecified \<Rightarrow> ig_index_map \<Rightarrow> ad_score \<Rightarrow> string \<Rightarrow> buyer_bid \<Rightarrow> pagg_contribution list \<times> buyer_bid" where
  "contributions_of_bid U indices s owner b =
     (if bb_pagg_contributions b = [] then ([], b)
      else
        (case indices (owner, bb_interest_group_name b) of
           None \<Rightarrow> ([], b)
         | Some idx \<Rightarrow>
             (let (b1, bv) =
                (if is_winner s owner b then (filter_win_contributions b, base_values_of_score s)
                 else (filter_loss_contributions b,
                       (base_values_of_score s)\<lparr>bv_reject_reason := first_rejection s owner b\<rparr>))
              in if bb_pagg_contributions b1 = [] then ([], b1)
                 else
                   (case get_processed_and_filtered_contributions U bv b1 of
                      (cs, b2) \<Rightarrow> (map (\<lambda>c. c\<lparr>pc_ig_idx := Some idx\<rparr>) cs, b2)))))"

definition contributions_of_buyer ::
  "unspecified \<Rightarrow> ig_index_map \<Rightarrow> ad_score \<Rightarrow> string \<times> get_bids_raw_response
     \<Rightarrow> pagg_response \<times> (string \<times> get_bids_raw_response)" where
  "contributions_of_buyer U indices s = (\<lambda>(owner, r).
     let results = map (contributions_of_bid U indices s owner) (gr_bids r)
     in (\<lparr>pr_contributions = concat (map fst results), pr_adtech_origin = owner\<rparr>,
         (owner, r\<lparr>gr_bids := map snd results\<rparr>)))"

definition handle_private_aggregation_contributions ::
  "unspecified \<Rightarrow> ig_index_map \<Rightarrow> ad_score \<Rightarrow> buyer_bids_map \<Rightarrow> ad_score \<times> buyer_bids_map" where
  "handle_private_aggregation_contributions U indices s bids =
     (let results = map (contributions_of_buyer U indices s) bids
      in (s\<lparr>as_top_level_contributions := as_top_level_contributions s
               @ filter (\<lambda>r. pr_contributions r \<noteq> []) (map fst results)\<rparr>,
          map snd results))"

section \<open>Ghost winners' messages\<close>

text \<open>
  The loop over the bids of the owner ends with the first that contributes. \<open>BaseValues\<close> is not
  initialised except for the reason.
\<close>

definition ghost_base_values :: "unspecified \<Rightarrow> base_values" where
  "ghost_base_values U =
     \<lparr>bv_winning_bid = un_float U, bv_highest_scoring_other_bid = un_float U,
      bv_reject_reason = Some DID_NOT_MEET_THE_KANONYMITY_THRESHOLD\<rparr>"

fun ghost_contributions_of_bids ::
  "unspecified \<Rightarrow> ig_index_map \<Rightarrow> ad_score \<Rightarrow> buyer_bid list \<Rightarrow> pagg_contribution list \<times> buyer_bid list" where
  "ghost_contributions_of_bids U indices s [] = ([], [])"
| "ghost_contributions_of_bids U indices s (b # bs) =
     (case (if bb_pagg_contributions b = [] \<or> bb_interest_group_name b \<noteq> as_interest_group_name s
            then ([], b)
            else
              (case indices (as_interest_group_owner s, bb_interest_group_name b) of
                 None \<Rightarrow> ([], b)
               | Some idx \<Rightarrow>
                   (case get_processed_and_filtered_contributions U (ghost_base_values U)
                           (filter_loss_contributions b) of
                      (cs, b') \<Rightarrow> (map (\<lambda>c. c\<lparr>pc_ig_idx := Some idx\<rparr>) cs, b')))) of
        (cs, b') \<Rightarrow>
          if cs \<noteq> [] then (cs, b' # bs)
          else (case ghost_contributions_of_bids U indices s bs of (cs', bs') \<Rightarrow> (cs', b' # bs')))"

definition handle_private_aggregation_contributions_for_ghost_winner ::
  "unspecified \<Rightarrow> ig_index_map \<Rightarrow> buyer_bids_map \<Rightarrow> ad_score \<Rightarrow> ad_score \<times> buyer_bids_map" where
  "handle_private_aggregation_contributions_for_ghost_winner U indices bids s =
     (case map_of bids (as_interest_group_owner s) of
        None \<Rightarrow> (s, bids)
      | Some r \<Rightarrow>
          (case ghost_contributions_of_bids U indices s (gr_bids r) of
             (cs, bs) \<Rightarrow>
               (if cs = [] then s
                else s\<lparr>as_top_level_contributions := as_top_level_contributions s
                         @ [\<lparr>pr_contributions = cs, pr_adtech_origin = as_interest_group_owner s\<rparr>]\<rparr>,
                map (\<lambda>(o', r'). (o', if o' = as_interest_group_owner s then r'\<lparr>gr_bids := bs\<rparr> else r'))
                  bids)))"

text \<open>The loop of \<open>OnScoreAdsDone\<close> over the ghost winners.\<close>

fun handle_ghost_winners ::
  "unspecified \<Rightarrow> ig_index_map \<Rightarrow> buyer_bids_map \<Rightarrow> ad_score list \<Rightarrow> ad_score list \<times> buyer_bids_map" where
  "handle_ghost_winners U indices bids [] = ([], bids)"
| "handle_ghost_winners U indices bids (s # ss) =
     (case handle_private_aggregation_contributions_for_ghost_winner U indices bids s of
        (s', bids') \<Rightarrow>
          (case handle_ghost_winners U indices bids' ss of (ss', bids'') \<Rightarrow> (s' # ss', bids'')))"

section \<open>Grouping and encoding\<close>

text \<open>
  The size of a list is compared with the limit as a \<open>size_t\<close>, to which the limit is converted. The
  hash map is the association list in order of first insertion.
\<close>

definition add_within_limit ::
  "int \<Rightarrow> pagg_contribution \<Rightarrow> pagg_contribution list \<Rightarrow> pagg_contribution list" where
  "add_within_limit limit c cs = (if int (length cs) < limit mod 2 ^ 64 then cs @ [c] else cs)"

definition group_response ::
  "int \<Rightarrow> pagg_response \<Rightarrow> (string \<times> pagg_contribution list) list \<Rightarrow> (string \<times> pagg_contribution list) list" where
  "group_response limit r m =
     map (\<lambda>(o', cs). (o', if o' = pr_adtech_origin r
                          then fold (add_within_limit limit) (pr_contributions r) cs else cs))
       (al_emplace (pr_adtech_origin r) [] m)"

definition group_contributions_by_ad_tech ::
  "int \<Rightarrow> pagg_response list \<Rightarrow> (string \<times> pagg_contribution list) list" where
  "group_contributions_by_ad_tech limit rs = fold (group_response limit) rs []"

definition get_bucket_from_byte_string :: "string \<Rightarrow> pagg_bucket status_or" where
  "get_bucket_from_byte_string s =
     (if length s \<noteq> 16 then Inl (internal_error ''Byte string size is not exactly 16 bytes.'')
      else
        (let host = (\<lambda>t. fold (\<lambda>c w. or (push_bit 8 w) (ucast (u8 c))) t (0 :: 64 word))
         in Inr (Bucket_128_bit [host (drop 8 s), host (take 8 s)])))"

definition get_event :: "pagg_contribution \<Rightarrow> string" where
  "get_event c =
     (case pc_event c of
        Some (EVENT_TYPE_WIN, _) \<Rightarrow> ''reserved.win''
      | Some (EVENT_TYPE_LOSS, _) \<Rightarrow> ''reserved.loss''
      | Some (EVENT_TYPE_ALWAYS, _) \<Rightarrow> ''reserved.always''
      | Some (EVENT_TYPE_CUSTOM, name) \<Rightarrow> name
      | _ \<Rightarrow> [])"

definition decode_private_agg_event :: "string \<Rightarrow> event_type \<times> string" where
  "decode_private_agg_event name =
     (if name = [] then (EVENT_TYPE_UNSPECIFIED, [])
      else if name = ''reserved.win'' then (EVENT_TYPE_WIN, [])
      else if name = ''reserved.loss'' then (EVENT_TYPE_LOSS, [])
      else if name = ''reserved.always'' then (EVENT_TYPE_ALWAYS, [])
      else (EVENT_TYPE_CUSTOM, name))"

section \<open>Lemmas\<close>

lemma process_contribution_event: "process_contribution U bv c = Some c' \<Longrightarrow> pc_event c' = None"
  by (auto simp: process_contribution_def split: sum.splits)

lemma in_map_filterD: "y \<in> set (List.map_filter f xs) \<Longrightarrow> \<exists>x \<in> set xs. f x = Some y"
  by (auto simp: List.map_filter_def)

lemma reported_contribution:
  assumes "c' \<in> set (fst (contributions_of_bid U indices s owner b))"
  shows "\<exists>c idx bv. c \<in> set (bb_pagg_contributions b)
    \<and> contribution_event_type c
        \<in> (if is_winner s owner b then {EVENT_TYPE_WIN, EVENT_TYPE_CUSTOM, EVENT_TYPE_ALWAYS}
           else {EVENT_TYPE_LOSS, EVENT_TYPE_ALWAYS})
    \<and> indices (owner, bb_interest_group_name b) = Some idx
    \<and> (\<exists>p. process_contribution U bv c = Some p \<and> c' = p\<lparr>pc_ig_idx := Some idx\<rparr>)"
proof -
  obtain idx where idx: "indices (owner, bb_interest_group_name b) = Some idx"
    using assms by (auto simp: contributions_of_bid_def split: if_splits option.splits)
  define b1 where "b1 = (if is_winner s owner b then filter_win_contributions b else filter_loss_contributions b)"
  have "\<exists>bv. c' \<in> set (map (\<lambda>c. c\<lparr>pc_ig_idx := Some idx\<rparr>)
      (List.map_filter (process_contribution U bv) (bb_pagg_contributions b1)))"
    using assms idx
    by (auto simp: contributions_of_bid_def get_processed_and_filtered_contributions_def b1_def Let_def
        split: if_splits)
  then obtain bv p where p: "p \<in> set (List.map_filter (process_contribution U bv) (bb_pagg_contributions b1))"
      "c' = p\<lparr>pc_ig_idx := Some idx\<rparr>" by auto
  then obtain c where c: "c \<in> set (bb_pagg_contributions b1)" "process_contribution U bv c = Some p"
    by (auto dest: in_map_filterD)
  moreover have "c \<in> set (bb_pagg_contributions b)"
    and "contribution_event_type c
        \<in> (if is_winner s owner b then {EVENT_TYPE_WIN, EVENT_TYPE_CUSTOM, EVENT_TYPE_ALWAYS}
           else {EVENT_TYPE_LOSS, EVENT_TYPE_ALWAYS})"
    using c(1) by (auto simp: b1_def filter_win_contributions_def filter_loss_contributions_def
        split: if_splits)
  ultimately show ?thesis using idx p(2) by blast
qed

text \<open>A ghost winner's contributions have lost their events when they enter its message.\<close>

lemma processed_have_no_event:
  "c \<in> set (List.map_filter (process_contribution U bv) cs) \<Longrightarrow> pc_event c = None"
  by (auto dest!: in_map_filterD process_contribution_event)

lemma ghost_contributions_have_no_event:
  "c \<in> set (fst (ghost_contributions_of_bids U indices s bs)) \<Longrightarrow> pc_event c = None"
proof (induction bs)
  case (Cons b bs)
  then show ?case
    by (auto simp: get_processed_and_filtered_contributions_def processed_have_no_event
        split: prod.splits if_splits option.splits)
qed simp

lemma fold_add_loss_signal_no_event:
  "list_all (\<lambda>c. pc_event c = None) cs \<Longrightarrow> fold add_loss_signal cs acc = acc"
  by (induction cs arbitrary: acc) (auto simp: add_loss_signal_def split: prod.splits)

lemma populate_no_event:
  "list_all (\<lambda>r. list_all (\<lambda>c. pc_event c = None) (pr_contributions r)) rs
     \<Longrightarrow> populate_ghost_winner_pagg_signals owner rs acc = acc"
  by (induction rs arbitrary: acc) (auto simp: fold_add_loss_signal_no_event)

text \<open>Groups.\<close>

lemma fold_add_within_limit:
  assumes "0 \<le> limit" and "limit < 2 ^ 64" and "int (length acc) \<le> limit"
  shows "fold (add_within_limit limit) cs acc = take (nat limit) (acc @ cs)"
  using assms(3)
proof (induction cs arbitrary: acc)
  case Nil
  then show ?case using assms(1) by simp
next
  case (Cons c cs)
  show ?case
  proof (cases "int (length acc) < limit")
    case True
    then show ?thesis using Cons.IH [of "acc @ [c]"] assms by (simp add: add_within_limit_def)
  next
    case False
    then have "length acc = nat limit" using Cons.prems by simp
    then show ?thesis using Cons.IH [of acc] Cons.prems assms by (simp add: add_within_limit_def)
  qed
qed

definition contributions_from :: "string \<Rightarrow> pagg_response list \<Rightarrow> pagg_contribution list" where
  "contributions_from origin rs =
     concat (map pr_contributions (filter (\<lambda>r. pr_adtech_origin r = origin) rs))"

definition group_of :: "(string \<times> pagg_contribution list) list \<Rightarrow> string \<Rightarrow> pagg_contribution list" where
  "group_of m origin = (case map_of m origin of None \<Rightarrow> [] | Some cs \<Rightarrow> cs)"

lemma group_of_response:
  "group_of (group_response limit r m) origin
     = (if origin = pr_adtech_origin r
        then fold (add_within_limit limit) (pr_contributions r) (group_of m origin)
        else group_of m origin)"
proof -
  have m: "map_of (map (\<lambda>(o', cs). (o', if o' = x then f cs else cs)) al) k
      = map_option (\<lambda>cs. if k = x then f cs else cs) (map_of al k)" for x f al and k :: string
    by (induction al) auto
  show ?thesis
    using amap.look_ins_same [of "pr_adtech_origin r" "[]" m]
      amap.look_ins_other [of "pr_adtech_origin r" origin "[]" m]
    by (cases "origin = pr_adtech_origin r")
      (auto simp: group_of_def group_response_def m split: option.splits)
qed

lemma group_of_responses:
  assumes "0 \<le> limit" and "limit < 2 ^ 64" and "int (length (group_of m origin)) \<le> limit"
  shows "group_of (fold (group_response limit) rs m) origin
    = take (nat limit) (group_of m origin @ contributions_from origin rs)"
  using assms(3)
proof (induction rs arbitrary: m)
  case Nil
  then show ?case using assms(1) by (simp add: contributions_from_def)
next
  case (Cons r rs)
  define g where "g = group_of (group_response limit r m) origin"
  have g: "g = (if origin = pr_adtech_origin r then take (nat limit) (group_of m origin @ pr_contributions r)
      else group_of m origin)"
    using fold_add_within_limit [OF assms(1,2) Cons.prems]
    by (cases "origin = pr_adtech_origin r") (simp_all add: g_def group_of_response)
  then have "int (length g) \<le> limit" using Cons.prems assms(1) by (auto simp: min_def)
  then have "group_of (fold (group_response limit) (r # rs) m) origin
      = take (nat limit) (g @ contributions_from origin rs)"
    using Cons.IH [of "group_response limit r m"] by (simp add: g_def)
  also have "\<dots> = take (nat limit) (group_of m origin @ contributions_from origin (r # rs))"
    by (auto simp: g contributions_from_def min_def)
  finally show ?case .
qed

lemma group_contributions_within_limit:
  assumes "0 \<le> limit" and "limit < 2 ^ 64"
  shows "group_of (group_contributions_by_ad_tech limit rs) origin
    = take (nat limit) (contributions_from origin rs)"
  using group_of_responses [OF assms, of "[]" origin rs] assms(1)
  by (simp add: group_contributions_by_ad_tech_def group_of_def)

section \<open>Buckets as byte strings\<close>

lemma fold_bytes:
  fixes w acc :: "64 word"
  shows "fold (\<lambda>c w. or (push_bit 8 w) (ucast (u8 c)))
      (map (\<lambda>i. byte (ucast (drop_bit (8 * i) w))) (rev [0..<n])) acc
    = or (push_bit (8 * n) acc) (take_bit (8 * n) w)"
proof (induction n arbitrary: acc)
  case (Suc n)
  let ?b = "ucast (ucast (drop_bit (8 * n) w) :: 8 word) :: 64 word"
  have "or (push_bit (8 * n) (or (push_bit 8 acc) ?b)) (take_bit (8 * n) w)
      = or (push_bit (8 * Suc n) acc) (take_bit (8 * Suc n) w)" (is "?l = ?r")
  proof (rule bit_word_eqI)
    fix k
    assume k: "k < LENGTH(64)"
    consider "k < 8 * n" | "8 * n \<le> k" "k < 8 * n + 8" | "8 * n + 8 \<le> k" by linarith
    then show "bit ?l k = bit ?r k"
    proof cases
      case 2
      then have "8 * n + (k - 8 * n) = k" by simp
      with 2 k show ?thesis by (auto simp: bit_simps)
    next
      case 3
      then have "k - 8 * n - 8 = k - (8 * n + 8)" "k - (8 + 8 * n) = k - (8 * n + 8)" by simp_all
      with 3 k show ?thesis by (auto simp: bit_simps)
    qed (use k in \<open>auto simp: bit_simps\<close>)
  qed
  then show ?case by (simp add: Suc.IH)
qed simp

lemma host_of_big_endian:
  "fold (\<lambda>c w. or (push_bit 8 w) (ucast (u8 c))) (big_endian_u64 w) (0 :: 64 word) = w"
proof -
  have "big_endian_u64 w = map (\<lambda>i. byte (ucast (drop_bit (8 * i) w))) (rev [0..<8])"
    by (simp add: big_endian_u64_def byte_def upt_rec)
  then show ?thesis by (simp only: fold_bytes) (simp add: take_bit_word_eq_self)
qed

lemma length_big_endian [simp]: "length (big_endian_u64 w) = 8"
  by (simp add: big_endian_u64_def)

lemma bucket_of_byte_string:
  "get_bucket_from_byte_string (convert_int_array_to_byte_string (Bucket_128_bit [lower, upper]))
     = Inr (Bucket_128_bit [lower, upper])"
  by (simp add: get_bucket_from_byte_string_def convert_int_array_to_byte_string_def host_of_big_endian)

lemma event_of_name:
  assumes "ev \<in> {EVENT_TYPE_WIN, EVENT_TYPE_LOSS, EVENT_TYPE_ALWAYS} \<and> name = []
    \<or> ev = EVENT_TYPE_CUSTOM \<and> name \<notin> {[], ''reserved.win'', ''reserved.loss'', ''reserved.always''}"
  shows "decode_private_agg_event (get_event (c\<lparr>pc_event := Some (ev, name)\<rparr>)) = (ev, name)"
  using assms by (auto simp: decode_private_agg_event_def get_event_def)

end
