(* ===== verification/Kv_Requests.thy ===== *)
theory Kv_Requests
  imports Buyer_Bids
begin

text \<open>
  The request for scoring signals of version 2 of the key/value server's interface
  (\<open>seller_frontend_service/kv_seller_signals_adapter.cc\<close>, \<open>UseKvV2\<close> of
  \<open>common/clients/kv_server/kv_v2.cc\<close>). The messages of the key/value server belong to another
  repository; the records keep the fields the code sets.
\<close>

definition use_kv_v2 :: "client_type \<Rightarrow> bool \<Rightarrow> bool \<Rightarrow> bool \<Rightarrow> bool" where
  "use_kv_v2 client browser_enabled test_mode v2_empty =
     (case client of
        CLIENT_TYPE_BROWSER \<Rightarrow> browser_enabled
      | CLIENT_TYPE_ANDROID \<Rightarrow> \<not> (test_mode \<and> v2_empty)
      | CLIENT_TYPE_UNKNOWN \<Rightarrow> False)"

record udf_argument =
  ua_tag :: string
  ua_keys :: "string list"

record request_partition =
  rp_id :: nat
  rp_compression_group_id :: nat
  rp_arguments :: "udf_argument list"

record get_values_request =
  gv_client_version :: string
  gv_client_type :: string
  gv_experiment_group_id :: string
  gv_consented_debug_config :: "string option"
  gv_partitions :: "request_partition list"

fun client_type_number :: "client_type \<Rightarrow> nat" where
  "client_type_number CLIENT_TYPE_UNKNOWN = 0"
| "client_type_number CLIENT_TYPE_ANDROID = 1"
| "client_type_number CLIENT_TYPE_BROWSER = 2"

definition empty_request_with_metadata :: "client_type \<Rightarrow> string \<Rightarrow> get_values_request" where
  "empty_request_with_metadata client experiment =
     \<lparr>gv_client_version = ''Bna.PA.Seller.20240930'',
      gv_client_type = nat_digits (client_type_number client), gv_experiment_group_id = experiment,
      gv_consented_debug_config = None, gv_partitions = []\<rparr>"

text \<open>\<open>BuildArgument\<close> leaves out empty keys; an argument without keys is not added.\<close>

definition build_argument :: "string list \<Rightarrow> string \<Rightarrow> udf_argument" where
  "build_argument keys tag = \<lparr>ua_tag = tag, ua_keys = filter (\<lambda>k. k \<noteq> []) keys\<rparr>"

definition add_partition :: "udf_argument list \<Rightarrow> request_partition list \<Rightarrow> request_partition list" where
  "add_partition arguments ps =
     (case filter (\<lambda>a. ua_keys a \<noteq> []) arguments of
        [] \<Rightarrow> ps
      | as \<Rightarrow> ps @ [\<lparr>rp_id = length ps, rp_compression_group_id = length ps, rp_arguments = as\<rparr>])"

definition bid_arguments :: "buyer_bid \<Rightarrow> udf_argument list" where
  "bid_arguments b =
     [build_argument [bb_render b] ''renderUrls'',
      build_argument (bb_ad_components b) ''adComponentRenderUrls'']"

definition pas_bid_arguments :: "pas_buyer_bid \<Rightarrow> udf_argument list" where
  "pas_bid_arguments b = [build_argument [pb_render b] ''renderUrls'']"

definition add_buyer_partitions ::
  "bool \<Rightarrow> string \<times> get_bids_raw_response \<Rightarrow> request_partition list \<Rightarrow> request_partition list" where
  "add_buyer_partitions is_pas_enabled = (\<lambda>(buyer, r) ps.
     let ps = fold (add_partition \<circ> bid_arguments) (gr_bids r) ps
     in if is_pas_enabled then fold (add_partition \<circ> pas_bid_arguments) (gr_pas_bids r) ps else ps)"

definition create_v2_scoring_request ::
  "client_type \<Rightarrow> string \<Rightarrow> bool \<Rightarrow> string option \<Rightarrow> buyer_bids_map \<Rightarrow> get_values_request status_or" where
  "create_v2_scoring_request client experiment is_pas_enabled consented bids =
     (let r = (empty_request_with_metadata client experiment)
            \<lparr>gv_consented_debug_config := consented,
             gv_partitions := fold (add_buyer_partitions is_pas_enabled) bids []\<rparr>
      in if gv_partitions r = []
         then Inl (invalid_argument
                (''No renderUrls and adComponentRenderUrls in scoring_signals_request''))
         else Inr r)"

section \<open>Lemmas\<close>

definition numbered :: "request_partition list \<Rightarrow> bool" where
  "numbered ps \<longleftrightarrow> map rp_id ps = [0..<length ps]"

lemma numbered_add: "numbered ps \<Longrightarrow> numbered (add_partition as ps)"
  by (simp add: numbered_def add_partition_def split: list.split)

lemma numbered_fold:
  "(\<And>x ps. numbered ps \<Longrightarrow> numbered (f x ps)) \<Longrightarrow> numbered ps \<Longrightarrow> numbered (fold f xs ps)"
  by (induction xs arbitrary: ps) auto

lemma numbered_buyer: "numbered ps \<Longrightarrow> numbered (add_buyer_partitions pas e ps)"
  by (cases e) (simp add: add_buyer_partitions_def Let_def numbered_fold numbered_add)

text \<open>A partition that was added stays.\<close>

lemma subset_add: "set ps \<subseteq> set (add_partition as ps)"
  by (auto simp: add_partition_def split: list.split)

lemma subset_fold: "(\<And>x ps. set ps \<subseteq> set (f x ps)) \<Longrightarrow> set ps \<subseteq> set (fold f xs ps)"
proof (induction xs arbitrary: ps)
  case (Cons x xs)
  have "set ps \<subseteq> set (f x ps)" by (rule Cons.prems)
  also have "\<dots> \<subseteq> set (fold f xs (f x ps))" by (rule Cons.IH) (rule Cons.prems)
  finally show ?case by simp
qed simp

lemma subset_buyer: "set ps \<subseteq> set (add_buyer_partitions pas (buyer, r) ps)"
proof -
  have f: "set qs \<subseteq> set ((add_partition \<circ> bid_arguments) x qs)"
    and g: "set qs \<subseteq> set ((add_partition \<circ> pas_bid_arguments) y qs)" for x y qs
    by (simp_all add: subset_add)
  have "set ps \<subseteq> set (fold (add_partition \<circ> bid_arguments) (gr_bids r) ps)" (is "_ \<subseteq> set ?q")
    by (rule subset_fold) (rule f)
  moreover have "set ?q \<subseteq> set (fold (add_partition \<circ> pas_bid_arguments) (gr_pas_bids r) ?q)"
    by (rule subset_fold) (rule g)
  ultimately show ?thesis by (simp add: add_buyer_partitions_def Let_def) (blast dest: subsetD)
qed

lemma subset_buyers: "set ps \<subseteq> set (add_buyer_partitions pas e ps)"
  by (cases e) (simp only: subset_buyer)

lemma mem_fold:
  assumes sub: "\<And>x ps. set ps \<subseteq> set (f x ps)" and x: "x \<in> set xs"
    and hit: "\<And>ps. \<exists>p \<in> set (f x ps). P p"
  shows "\<exists>p \<in> set (fold f xs ps). P p"
proof -
  obtain ys zs where "xs = ys @ x # zs" using x by (auto simp: in_set_conv_decomp)
  then have "fold f xs ps = fold f zs (f x (fold f ys ps))" by simp
  moreover obtain p where "p \<in> set (f x (fold f ys ps))" "P p" using hit by blast
  ultimately show ?thesis using subset_fold [of f "f x (fold f ys ps)" zs, OF sub] by auto
qed

lemma mem_buyer:
  assumes "b \<in> set (gr_bids r)" and hit: "\<And>ps. \<exists>p \<in> set (add_partition (bid_arguments b) ps). P p"
  shows "\<exists>p \<in> set (add_buyer_partitions pas (buyer, r) ps). P p"
proof -
  have "\<exists>p \<in> set (fold (add_partition \<circ> bid_arguments) (gr_bids r) ps). P p"
    by (rule mem_fold [OF _ assms(1)]) (use hit in \<open>simp_all add: subset_add\<close>)
  then obtain p where p: "p \<in> set (fold (add_partition \<circ> bid_arguments) (gr_bids r) ps)" (is "p \<in> set ?q")
    and "P p" ..
  have "set ?q \<subseteq> set (fold (add_partition \<circ> pas_bid_arguments) (gr_pas_bids r) ?q)"
    by (rule subset_fold) (simp add: subset_add)
  with p have "p \<in> set (add_buyer_partitions pas (buyer, r) ps)"
    by (auto simp: add_buyer_partitions_def Let_def)
  with \<open>P p\<close> show ?thesis ..
qed

lemma mem_partitions:
  assumes "(buyer, r) \<in> set bids" and "b \<in> set (gr_bids r)"
    and hit: "\<And>ps. \<exists>p \<in> set (add_partition (bid_arguments b) ps). P p"
  shows "\<exists>p \<in> set (fold (add_buyer_partitions pas) bids []). P p"
proof (rule mem_fold [where x = "(buyer, r)"])
  show "\<exists>p \<in> set (add_buyer_partitions pas (buyer, r) ps). P p" for ps
    by (rule mem_buyer [OF assms(2) hit])
qed (rule subset_buyers assms(1))+

lemma partition_added:
  assumes "a \<in> set as" and "ua_keys a \<noteq> []"
  shows "\<exists>p \<in> set (add_partition as ps). a \<in> set (rp_arguments p)"
proof -
  have "a \<in> set (filter (\<lambda>a. ua_keys a \<noteq> []) as)" using assms by simp
  then show ?thesis
    by (cases "filter (\<lambda>a. ua_keys a \<noteq> []) as") (auto simp: add_partition_def)
qed

definition asks_for :: "string \<Rightarrow> string \<Rightarrow> request_partition \<Rightarrow> bool" where
  "asks_for tag key p \<longleftrightarrow> (\<exists>a \<in> set (rp_arguments p). ua_tag a = tag \<and> key \<in> set (ua_keys a))"

lemma asks_for_added:
  assumes "build_argument keys tag \<in> set as" and "key \<in> set keys" and "key \<noteq> []"
  shows "\<exists>p \<in> set (add_partition as ps). asks_for tag key p"
proof -
  have k: "key \<in> set (ua_keys (build_argument keys tag))" and t: "ua_tag (build_argument keys tag) = tag"
    using assms(2,3) by (simp_all add: build_argument_def)
  then have "ua_keys (build_argument keys tag) \<noteq> []" by auto
  from partition_added [OF assms(1) this] show ?thesis using k t unfolding asks_for_def by blast
qed

lemma v2_request_partitions:
  "create_v2_scoring_request client e pas consented bids
     = (let ps = fold (add_buyer_partitions pas) bids []
        in if ps = [] then Inl (invalid_argument
                (''No renderUrls and adComponentRenderUrls in scoring_signals_request''))
           else Inr ((empty_request_with_metadata client e)
                  \<lparr>gv_consented_debug_config := consented, gv_partitions := ps\<rparr>))"
  by (simp add: create_v2_scoring_request_def Let_def)

lemma v2_requestD:
  "create_v2_scoring_request client e pas consented bids = Inr r
     \<Longrightarrow> gv_partitions r = fold (add_buyer_partitions pas) bids []"
  by (auto simp: v2_request_partitions Let_def split: if_splits)

text \<open>Every render URL and component URL of the Protected Audience bids is asked for.\<close>

lemma v2_request_asks_for_render:
  assumes "create_v2_scoring_request client e pas consented bids = Inr r"
    and "(buyer, resp) \<in> set bids" and "b \<in> set (gr_bids resp)" and "bb_render b \<noteq> []"
  shows "\<exists>p \<in> set (gv_partitions r). asks_for ''renderUrls'' (bb_render b) p"
  unfolding v2_requestD [OF assms(1)]
  by (rule mem_partitions [OF assms(2,3)], rule asks_for_added [of "[bb_render b]"])
    (simp_all add: bid_arguments_def assms(4))

lemma v2_request_asks_for_component:
  assumes "create_v2_scoring_request client e pas consented bids = Inr r"
    and "(buyer, resp) \<in> set bids" and "b \<in> set (gr_bids resp)"
    and "url \<in> set (bb_ad_components b)" and "url \<noteq> []"
  shows "\<exists>p \<in> set (gv_partitions r). asks_for ''adComponentRenderUrls'' url p"
  unfolding v2_requestD [OF assms(1)]
  by (rule mem_partitions [OF assms(2,3)], rule asks_for_added [OF _ assms(4,5)])
    (simp add: bid_arguments_def)

lemma v2_request_numbered:
  "create_v2_scoring_request client e pas consented bids = Inr r
     \<Longrightarrow> map rp_id (gv_partitions r) = [0..<length (gv_partitions r)]"
  using numbered_fold [of "add_buyer_partitions pas" "[]" bids] numbered_buyer [of _ pas]
  by (simp add: v2_requestD numbered_def)

text \<open>The request can only be refused when no bid names a URL.\<close>

lemma v2_request_refused:
  assumes "create_v2_scoring_request client e pas consented bids = Inl s"
    and "(buyer, resp) \<in> set bids" and "b \<in> set (gr_bids resp)"
  shows "bb_render b = []"
proof (rule ccontr)
  assume "bb_render b \<noteq> []"
  then have "\<exists>p \<in> set (fold (add_buyer_partitions pas) bids []). asks_for ''renderUrls'' (bb_render b) p"
    by (intro mem_partitions [OF assms(2,3)] asks_for_added [of "[bb_render b]"])
      (simp_all add: bid_arguments_def)
  moreover have "fold (add_buyer_partitions pas) bids [] = []"
    using assms(1) by (simp add: v2_request_partitions Let_def split: if_splits)
  ultimately show False by simp
qed

end
