(* ===== verification/Select_Ad_Flow.thy ===== *)
theory Select_Ad_Flow
  imports Chaffing Buyer_Debug_Reports Seller_Pagg Kv_Requests
begin

text \<open>
  A SelectAd call of the seller front end (\<open>select_ad_reactor.cc\<close> with its overrides in
  \<open>select_ad_reactor_app.cc\<close> and \<open>select_ad_reactor_web.cc\<close>). The record \<open>select_ad\<close> is the reactor;
  the functions are its handlers, and an event is one callback or one round of the loop over the
  buyers. \<open>None\<close> is the end of the process, where a pointer or \<open>StatusOr\<close> is followed that holds
  nothing.
\<close>

section \<open>The surroundings of a call\<close>

text \<open>
  CBOR (\<open>util/web_utils.cc\<close>): decoding of buyer inputs, encoding of results. Encoding calls its error
  handler, which finishes the call; the first component lists the statuses it was called with.
\<close>

record cbor =
  cb_decode_buyer_inputs ::
    "(string \<times> string) list \<Rightarrow> error_map \<Rightarrow> (string \<times> buyer_input_for_bidding) list \<times> error_map"
  cb_encode ::
    "ad_score option \<Rightarrow> igs_with_bids_map \<Rightarrow> update_group_map \<Rightarrow> debug_urls_map
       \<Rightarrow> (int \<times> string) option \<Rightarrow> int \<Rightarrow> string \<Rightarrow> k_anon_auction_result_data option
       \<Rightarrow> status list \<times> string status_or"
  cb_encode_component ::
    "string \<Rightarrow> ad_score option \<Rightarrow> igs_with_bids_map \<Rightarrow> update_group_map \<Rightarrow> debug_urls_map
       \<Rightarrow> (int \<times> string) option \<Rightarrow> string \<Rightarrow> k_anon_auction_result_data option
       \<Rightarrow> status list \<times> string status_or"

record 'g sfe_env =
  en_libs :: libs
  en_codecs :: codecs
  en_hashing :: hashing
  en_unspecified :: unspecified
  en_packaging :: packaging
  en_cbor :: cbor
  en_hpke_encrypt :: "encryption_cloud_platform \<Rightarrow> string \<Rightarrow> (string \<times> string) status_or"
  en_config :: sfe_config
  en_request :: select_ad_request
  en_metadata :: status
  en_rng :: "'g rng_ops"
  en_seed :: 'g
  en_is_sampled :: bool
  en_invoked :: "invoked_buyers option"
  en_medians :: moving_medians
  en_compression :: compression_type
  en_has_v1_provider :: bool
  en_has_v2_client :: bool

text \<open>
  What happens while a handler runs: whether each of its tests finds the call cancelled, and whether
  the clients accept the calls it makes.
\<close>

datatype cancel_point =
    At_execute | At_fetch_bid | At_bid_answer | At_all_bids_done | At_fetch_signals
  | At_signals_answer | At_score_ads | At_scores_answer

record choices =
  ch_cancelled :: "cancel_point \<Rightarrow> bool"
  ch_k_anon_status :: status
  ch_signals_accepted :: bool
  ch_scoring_accepted :: bool

section \<open>The reactor\<close>

datatype signals_call = Signals_v1 | Signals_v2

record 'g select_ad =
  sa_config :: auction_config
  sa_input :: protected_input
  sa_buyer_inputs :: "(string \<times> buyer_input_for_bidding) list"
  sa_priority_signals :: members
  sa_errors :: error_map
  sa_error :: "int \<times> string"
  sa_enforce_kanon :: bool
  sa_rng :: 'g
  sa_medians :: moving_medians
  sa_bid_tracker :: task_tracker
  sa_to_send :: "(string \<times> get_bids_raw_request) list"
  sa_to_skip :: nat
  sa_invoked :: invoked_buyers
  sa_sent :: "(string \<times> get_bids_raw_request \<times> request_config) list"
  sa_awaited_bids :: "(string \<times> bool) list"
  sa_bids :: buyer_bids_map
  sa_updates :: update_group_map
  sa_join_tracker :: task_tracker
  sa_k_anon_scheduled :: bool
  sa_k_anon_awaited :: bool
  sa_hashes :: "(bid_address \<times> string list) list"
  sa_queried :: "string set"
  sa_k_anon_status :: "bid_address \<rightharpoonup> bool"
  sa_signals_awaited :: "signals_call option"
  sa_maybe_signals :: "scoring_signals_fetched status_or"
  sa_signals :: "scoring_signals_fetched option"
  sa_ig_indices :: ig_index_map
  sa_scoring_request :: "score_ads_raw_request option"
  sa_scores_awaited :: bool
  sa_debug_urls :: debug_urls_map
  sa_pings :: "string list"
  sa_ciphertext :: "(string \<times> string) option"
  sa_cached :: "invoked_buyers option"
  sa_finished :: "status list"

definition initial_select_ad :: "'g sfe_env \<Rightarrow> 'g select_ad" where
  "initial_select_ad E =
     \<lparr>sa_config = default_auction_config, sa_input = default_protected_input, sa_buyer_inputs = [],
      sa_priority_signals = [], sa_errors = no_errors, sa_error = (0, []),
      sa_enforce_kanon = sf_enable_kanon (en_config E), sa_rng = en_seed E,
      sa_medians = en_medians E, sa_bid_tracker = set_num_tasks_to_track 0, sa_to_send = [],
      sa_to_skip = 0,
      sa_invoked = \<lparr>ib_chaff_buyer_names = [], ib_non_chaff_buyer_names = []\<rparr>,
      sa_sent = [], sa_awaited_bids = [], sa_bids = [], sa_updates = [],
      sa_join_tracker = set_num_tasks_to_track 1, sa_k_anon_scheduled = False,
      sa_k_anon_awaited = False, sa_hashes = [], sa_queried = {}, sa_k_anon_status = Map.empty,
      sa_signals_awaited = None,
      sa_maybe_signals = Inl \<lparr>st_code = UNKNOWN, st_message = []\<rparr>, sa_signals = None,
      sa_ig_indices = Map.empty, sa_scoring_request = None, sa_scores_awaited = False,
      sa_debug_urls = [], sa_pings = [], sa_ciphertext = None, sa_cached = None, sa_finished = []\<rparr>"

text \<open>The scope is that of the request's own configuration, also when a compressed one is in use.\<close>

definition sa_scope :: "'g sfe_env \<Rightarrow> auction_scope" where
  "sa_scope E =
     (let c = request_auction_config (en_request E)
      in get_auction_scope_select_ad (ac_top_level_seller c) (ac_top_level_cloud_platform c)
           (length (sr_component_auction_results (en_request E))))"

definition sa_is_app :: "'g sfe_env \<Rightarrow> bool" where
  "sa_is_app E \<longleftrightarrow> sr_client_type (en_request E) = CLIENT_TYPE_ANDROID"

definition sa_pas_enabled :: "'g sfe_env \<Rightarrow> bool" where
  "sa_pas_enabled E \<longleftrightarrow>
     sf_enable_protected_app_signals (en_config E) \<and> sa_scope E = AUCTION_SCOPE_SINGLE_SELLER"

definition sa_fetches_signals :: "'g sfe_env \<Rightarrow> bool" where
  "sa_fetches_signals E \<longleftrightarrow> \<not> sf_signals_not_fetched (en_config E)"

definition sa_cancelled :: "'g sfe_env \<Rightarrow> choices \<Rightarrow> cancel_point \<Rightarrow> bool" where
  "sa_cancelled E ch p \<longleftrightarrow> sf_enable_cancellation (en_config E) \<and> ch_cancelled ch p"

definition select_ad_cancelled :: status where
  "select_ad_cancelled = \<lparr>st_code = CANCELLED, st_message = ''Request Cancelled by Client.''\<rparr>"

definition select_ad_server_error :: status where
  "select_ad_server_error = internal_error ''Internal server error.''"

definition finish_select_ad :: "status \<Rightarrow> 'g select_ad \<Rightarrow> 'g select_ad" where
  "finish_select_ad s st = st\<lparr>sa_finished := sa_finished st @ [s]\<rparr>"

section \<open>The end of a call\<close>

text \<open>\<open>GetNonEncryptedResponse\<close>: the plaintext, and what the error handler of the encoder was given.\<close>

definition compress_and_encode :: "'g sfe_env \<Rightarrow> string \<Rightarrow> string status_or" where
  "compress_and_encode E data =
     (case gzip_compress (en_codecs E) data of
        Inl e \<Rightarrow> Inl (internal_error [])
      | Inr s \<Rightarrow> pk_encode_response_payload (en_packaging E) s (get_encoded_data_size (length s)))"

definition app_auction_result ::
  "'g sfe_env \<Rightarrow> ad_score option \<Rightarrow> (int \<times> string) option \<Rightarrow> 'g select_ad \<Rightarrow> auction_result option" where
  "app_auction_result E high_score error st =
     (let c = request_auction_config (en_request E);
          result = (\<lambda>groups. ad_score_to_auction_result high_score groups (sa_updates st) error
            (sa_scope E) (ac_seller c) (sa_input st) (ac_top_level_seller c) None)
      in if high_score = None then Some (result None)
         else map_option (result \<circ> Some) (get_bidding_groups (sa_bids st) (sa_buyer_inputs st) []))"

definition get_non_encrypted_response_for_app ::
  "'g sfe_env \<Rightarrow> ad_score option \<Rightarrow> (int \<times> string) option \<Rightarrow> 'g select_ad
     \<Rightarrow> (status list \<times> string status_or) option" where
  "get_non_encrypted_response_for_app E high_score error st =
     map_option
       (\<lambda>r. ([], compress_and_encode E (pk_serialize_auction_result (en_packaging E) r)))
       (app_auction_result E high_score error st)"

definition web_k_anon_data ::
  "'g sfe_env \<Rightarrow> ad_score option \<Rightarrow> ad_score list option \<Rightarrow> 'g select_ad
     \<Rightarrow> k_anon_auction_result_data option option" where
  "web_k_anon_data E high_score ghosts st =
     (if sa_enforce_kanon st then
        map_option Some
          (get_k_anon_auction_result_data
            (get_k_anon_join_candidate (en_hashing E) (sf_report_win_urls (en_config E)))
            high_score ghosts (is_component_auction (sa_scope E)))
      else Some None)"

definition web_encoded_result ::
  "'g sfe_env \<Rightarrow> ad_score option \<Rightarrow> (int \<times> string) option \<Rightarrow> k_anon_auction_result_data option
     \<Rightarrow> 'g select_ad \<Rightarrow> (status list \<times> string status_or) option" where
  "web_encoded_result E high_score error kanon_data st =
     (let c = request_auction_config (en_request E);
          nonce = ac_ad_auction_result_nonce (sa_config st);
          groups = get_bidding_groups (sa_bids st) (sa_buyer_inputs st) []
      in if sa_scope E = AUCTION_SCOPE_DEVICE_COMPONENT_MULTI_SELLER then
           map_option
             (\<lambda>g. cb_encode_component (en_cbor E) (ac_top_level_seller c) high_score g (sa_updates st)
                    (sa_debug_urls st) error nonce kanon_data) groups
         else if sa_scope E = AUCTION_SCOPE_SERVER_COMPONENT_MULTI_SELLER then
           map_option
             (\<lambda>(g, top_level_seller).
                ([], Inr (pk_serialize_auction_result (en_packaging E)
                  (ad_score_to_auction_result high_score g (sa_updates st) error (sa_scope E)
                    (ac_seller c) (sa_input st) top_level_seller kanon_data))))
             (if high_score = None then Some (None, [])
              else map_option (\<lambda>g. (Some g, ac_top_level_seller c)) groups)
         else
           map_option
             (\<lambda>g. cb_encode (en_cbor E) high_score g (sa_updates st) (sa_debug_urls st) error
                    (sf_contributions_limit (en_config E)) nonce kanon_data) groups)"

definition get_non_encrypted_response_for_web ::
  "'g sfe_env \<Rightarrow> ad_score option \<Rightarrow> (int \<times> string) option \<Rightarrow> ad_score list option \<Rightarrow> 'g select_ad
     \<Rightarrow> (status list \<times> string status_or) option" where
  "get_non_encrypted_response_for_web E high_score error ghosts st =
     (case web_k_anon_data E high_score ghosts st of
        None \<Rightarrow> None
      | Some kanon_data \<Rightarrow>
          (case web_encoded_result E high_score error kanon_data st of
             None \<Rightarrow> None
           | Some (handled, Inl e) \<Rightarrow> Some (handled, Inl e)
           | Some (handled, Inr data) \<Rightarrow> Some (handled, compress_and_encode E data)))"

definition get_non_encrypted_response ::
  "'g sfe_env \<Rightarrow> ad_score option \<Rightarrow> (int \<times> string) option \<Rightarrow> ad_score list option \<Rightarrow> 'g select_ad
     \<Rightarrow> (status list \<times> string status_or) option" where
  "get_non_encrypted_response E high_score error ghosts st =
     (if sa_is_app E then get_non_encrypted_response_for_app E high_score error st
      else get_non_encrypted_response_for_web E high_score error ghosts st)"

text \<open>\<open>EncryptResponse\<close>: the ciphertext and the key's id, which is empty for a device.\<close>

definition encrypt_select_ad_response :: "'g sfe_env \<Rightarrow> 'g select_ad \<Rightarrow> string \<Rightarrow> (string \<times> string) status_or" where
  "encrypt_select_ad_response E st plaintext =
     (if sa_scope E = AUCTION_SCOPE_SERVER_COMPONENT_MULTI_SELLER
      then en_hpke_encrypt E (ac_top_level_cloud_platform (sa_config st)) plaintext
      else map_sum id (\<lambda>c. (c, [])) (pk_encrypt_response (en_packaging E) plaintext))"

definition send_response ::
  "'g sfe_env \<Rightarrow> ad_score option \<Rightarrow> ad_score list option \<Rightarrow> 'g select_ad \<Rightarrow> 'g select_ad option" where
  "send_response E high_score ghosts st =
     (let error = (if has_visible_errors CLIENT_VISIBLE (sa_errors st) then Some (sa_error st) else None)
      in case get_non_encrypted_response E high_score error ghosts st of
           None \<Rightarrow> None
         | Some (handled, response) \<Rightarrow>
             (let st = fold finish_select_ad handled st
              in case response of
                   Inl e \<Rightarrow> Some (finish_select_ad select_ad_server_error st)
                 | Inr plaintext \<Rightarrow>
                     (case encrypt_select_ad_response E st plaintext of
                        Inl e \<Rightarrow> Some (finish_select_ad select_ad_server_error st)
                      | Inr c \<Rightarrow> Some (finish_select_ad ok_status (st\<lparr>sa_ciphertext := Some c\<rparr>)))))"

text \<open>The winner and the ghost winners of a response, with the contributions and reports about them.\<close>

definition winner_of :: "raw_response \<Rightarrow> ad_score option" where
  "winner_of r =
     (case rs_ad_score r of None \<Rightarrow> None | Some s \<Rightarrow> if as_buyer_bid s > 0 then Some s else None)"

definition record_ghost_winners ::
  "'g sfe_env \<Rightarrow> ad_score list \<Rightarrow> 'g select_ad \<Rightarrow> ad_score list option \<times> 'g select_ad" where
  "record_ghost_winners E ghosts st =
     (if ghosts = [] then (None, st)
      else if sf_enable_buyer_pagg_reporting (en_config E) then
        (case handle_ghost_winners (en_unspecified E) (sa_ig_indices st) (sa_bids st) ghosts of
           (ghosts', bids) \<Rightarrow> (Some ghosts', st\<lparr>sa_bids := bids\<rparr>))
      else (Some ghosts, st))"

definition report_on_bids ::
  "'g sfe_env \<Rightarrow> ad_score option \<Rightarrow> debug_report list \<Rightarrow> 'g select_ad \<Rightarrow> 'g select_ad" where
  "report_on_bids E high_score seller_reports st =
     (case perform_debug_reporting_for_buyers (en_libs E) (sa_scope E) (sa_config st) (sa_input st)
             (case sa_signals st of None \<Rightarrow> 0 | Some s \<Rightarrow> sg_data_version s) high_score (sa_bids st)
             seller_reports (sa_debug_urls st) of
        (urls, pings) \<Rightarrow> st\<lparr>sa_debug_urls := urls, sa_pings := sa_pings st @ pings\<rparr>)"

definition record_contributions ::
  "'g sfe_env \<Rightarrow> ad_score option \<Rightarrow> 'g select_ad \<Rightarrow> ad_score option \<times> 'g select_ad" where
  "record_contributions E high_score st =
     (case high_score of
        None \<Rightarrow> (None, st)
      | Some s \<Rightarrow>
          if sf_enable_buyer_pagg_reporting (en_config E) then
            (case handle_private_aggregation_contributions (en_unspecified E) (sa_ig_indices st) s
                    (sa_bids st) of (s', bids) \<Rightarrow> (Some s', st\<lparr>sa_bids := bids\<rparr>))
          else (Some s, st))"

definition on_score_ads_done ::
  "'g sfe_env \<Rightarrow> raw_response status_or \<Rightarrow> 'g select_ad \<Rightarrow> 'g select_ad option" where
  "on_score_ads_done E response st =
     (if has_visible_errors AD_SERVER_VISIBLE (sa_errors st) then
        Some (finish_select_ad
          (invalid_argument (get_accumulated_error_string AD_SERVER_VISIBLE (sa_errors st))) st)
      else
        (case response of
           Inl e \<Rightarrow>
             if st_code e \<noteq> INTERNAL then Some (finish_select_ad e st)
             else send_response E None None st
         | Inr r \<Rightarrow>
             (case record_ghost_winners E (rs_ghost_winning_ad_scores r) st of
                (ghosts, st1) \<Rightarrow>
                  (case record_contributions E (winner_of r)
                          (report_on_bids E (winner_of r) (rs_seller_debug_reports r) st1) of
                     (high_score, st2) \<Rightarrow> send_response E high_score ghosts st2))))"

section \<open>Scoring\<close>

definition create_sa_score_ads_request ::
  "'g sfe_env \<Rightarrow> 'g select_ad \<Rightarrow> (score_ads_raw_request \<times> ig_index_map) option" where
  "create_sa_score_ads_request E st =
     (if sa_is_app E
      then create_score_ads_request_for_app (en_config E) (sa_pas_enabled E) (sa_enforce_kanon st)
             (sr_client_type (en_request E)) (sa_config st) (sa_input st) (sa_signals st)
             (en_is_sampled E) (sa_k_anon_status st) (sa_buyer_inputs st) (sa_bids st)
      else create_score_ads_request (en_config E) (sa_enforce_kanon st)
             (sr_client_type (en_request E)) (sa_config st) (sa_input st) (sa_signals st)
             (en_is_sampled E) (sa_k_anon_status st) (sa_buyer_inputs st) (sa_bids st))"

text \<open>The signals are moved into the request; their data version stays.\<close>

definition score_ads :: "'g sfe_env \<Rightarrow> choices \<Rightarrow> 'g select_ad \<Rightarrow> 'g select_ad option" where
  "score_ads E ch st =
     (if sa_cancelled E ch At_score_ads then Some (finish_select_ad select_ad_cancelled st)
      else
        (case create_sa_score_ads_request E st of
           None \<Rightarrow> None
         | Some (r, indices) \<Rightarrow>
             (let st = st\<lparr>sa_ig_indices := indices,
                         sa_signals := map_option (\<lambda>s. s\<lparr>sg_scoring_signals := []\<rparr>) (sa_signals st)\<rparr>
              in if rq_ad_bids r = [] \<and> rq_pas_ad_bids r = [] then
                   on_score_ads_done E (Inr empty_response) st
                 else if ch_scoring_accepted ch then
                   Some (st\<lparr>sa_scoring_request := Some r, sa_scores_awaited := True\<rparr>)
                 else Some (finish_select_ad select_ad_server_error st))))"

definition on_fetch_scoring_signals_done ::
  "'g sfe_env \<Rightarrow> choices \<Rightarrow> 'g select_ad \<Rightarrow> 'g select_ad option" where
  "on_fetch_scoring_signals_done E ch st =
     (if \<not> sa_fetches_signals E then score_ads E ch st
      else
        (case sa_maybe_signals st of
           Inl e \<Rightarrow>
             on_score_ads_done E (Inr empty_response)
               (st\<lparr>sa_errors :=
                     report_error AD_SERVER_VISIBLE ''Internal Error'' SERVER_SIDE (sa_errors st)\<rparr>)
         | Inr signals \<Rightarrow>
             (let st = st\<lparr>sa_signals := Some signals\<rparr>
              in if sg_scoring_signals signals = []
                 then on_score_ads_done E (Inr empty_response) st
                 else score_ads E ch st)))"

text \<open>\<open>fetch_scoring_signals_query_kanon_tracker_.TaskCompleted\<close>\<close>

definition join_task_completed ::
  "'g sfe_env \<Rightarrow> choices \<Rightarrow> task_status \<Rightarrow> 'g select_ad \<Rightarrow> 'g select_ad option" where
  "join_task_completed E ch s st =
     (case task_completed s (sa_join_tracker st) of
        (t, called) \<Rightarrow>
          (let st = st\<lparr>sa_join_tracker := t\<rparr>
           in if called = None then Some st else on_fetch_scoring_signals_done E ch st))"

section \<open>k-anonymity\<close>

definition populate_statuses :: "'g select_ad \<Rightarrow> 'g select_ad" where
  "populate_statuses st =
     st\<lparr>sa_k_anon_status :=
         sa_k_anon_status st
           ++ populate_k_anon_status (sa_enforce_kanon st) (sa_queried st) (sa_hashes st)\<rparr>"

definition sa_hashes_for_bids :: "'g sfe_env \<Rightarrow> 'g select_ad \<Rightarrow> (bid_address \<times> string list) list" where
  "sa_hashes_for_bids E st =
     (if sa_is_app E
      then get_k_anon_hashes_for_bids_for_app (en_hashing E) (sf_report_win_urls (en_config E)) (sa_bids st)
      else get_k_anon_hashes_for_bids (en_hashing E) (sf_report_win_urls (en_config E)) (sa_bids st))"

definition query_k_anon_hashes :: "'g sfe_env \<Rightarrow> choices \<Rightarrow> 'g select_ad \<Rightarrow> 'g select_ad option" where
  "query_k_anon_hashes E ch st =
     (let st = st\<lparr>sa_hashes := sa_hashes_for_bids E st\<rparr>
      in if list_all (\<lambda>(bid, hs). hs = []) (sa_hashes st) then join_task_completed E ch TASK_SKIPPED st
         else if is_ok (ch_k_anon_status ch) then Some (st\<lparr>sa_k_anon_awaited := True\<rparr>)
         else join_task_completed E ch TASK_ERROR (populate_statuses st))"

definition on_k_anon_answer ::
  "'g sfe_env \<Rightarrow> choices \<Rightarrow> string set status_or \<Rightarrow> 'g select_ad \<Rightarrow> 'g select_ad option" where
  "on_k_anon_answer E ch response st =
     (let st = st\<lparr>sa_k_anon_awaited := False\<rparr>
      in case response of
           Inl e \<Rightarrow> join_task_completed E ch TASK_ERROR st
         | Inr hashes \<Rightarrow>
             join_task_completed E ch TASK_SUCCESS (populate_statuses (st\<lparr>sa_queried := hashes\<rparr>)))"

section \<open>Scoring signals\<close>

definition sa_experiment_group :: "'g select_ad \<Rightarrow> string" where
  "sa_experiment_group st =
     (case ac_code_experiment_spec (sa_config st) of
        None \<Rightarrow> []
      | Some e \<Rightarrow>
          (case sce_seller_kv_experiment_group_id e of
             None \<Rightarrow> [] | Some i \<Rightarrow> (if i < 0 then ''-'' else []) @ nat_digits (nat \<bar>i\<bar>)))"

definition fetch_signals_v1 :: "'g sfe_env \<Rightarrow> 'g select_ad \<Rightarrow> 'g select_ad" where
  "fetch_signals_v1 E st =
     (if \<not> sa_fetches_signals E then
        finish_select_ad (internal_error
          (''Definite logical error: Called V1 function to get scoring signals despite ''
           @ ''SCORING_SIGNALS_FETCH_MODE being NOT_FETCHED.'')) st
      else if \<not> en_has_v1_provider E then
        finish_select_ad (internal_error
          (''Definite logical error: Called V1 function to get scoring signals despite ''
           @ ''the kv async client being nullptr.'')) st
      else st\<lparr>sa_signals_awaited := Some Signals_v1\<rparr>)"

text \<open>A request that cannot be created, or that the client refuses, is dropped: nothing follows.\<close>

definition fetch_signals_v2 :: "'g sfe_env \<Rightarrow> choices \<Rightarrow> 'g select_ad \<Rightarrow> 'g select_ad" where
  "fetch_signals_v2 E ch st =
     (if \<not> sa_fetches_signals E then
        finish_select_ad (internal_error
          (''Definite logical error: Called V2 function to get scoring signals despite ''
           @ ''SCORING_SIGNALS_FETCH_MODE being NOT_FETCHED.'')) st
      else if \<not> en_has_v2_client E then
        finish_select_ad (internal_error
          (''Definite logical error: Called V2 function to get scoring signals despite ''
           @ ''the kv async client being nullptr.'')) st
      else
        (case create_v2_scoring_request (sr_client_type (en_request E)) (sa_experiment_group st)
                (sa_pas_enabled E) (pi_consented_debug_config (sa_input st)) (sa_bids st) of
           Inl e \<Rightarrow> st
         | Inr r \<Rightarrow> if ch_signals_accepted ch then st\<lparr>sa_signals_awaited := Some Signals_v2\<rparr> else st))"

definition sa_uses_v2 :: "'g sfe_env \<Rightarrow> bool" where
  "sa_uses_v2 E \<longleftrightarrow>
     use_kv_v2 (sr_client_type (en_request E)) (sf_enable_tkv_v2_browser (en_config E))
       (sf_test_mode (en_config E))
       (sf_tkv_v2_signals_host (en_config E) \<in> {[], ''PLACEHOLDER''})"

definition fetch_scoring_signals :: "'g sfe_env \<Rightarrow> choices \<Rightarrow> 'g select_ad \<Rightarrow> 'g select_ad" where
  "fetch_scoring_signals E ch st =
     (if sa_cancelled E ch At_fetch_signals then finish_select_ad select_ad_cancelled st
      else if sa_uses_v2 E then fetch_signals_v2 E ch st
      else fetch_signals_v1 E st)"

definition on_signals_v1_answer ::
  "'g sfe_env \<Rightarrow> choices \<Rightarrow> scoring_signals_fetched status_or \<Rightarrow> 'g select_ad \<Rightarrow> 'g select_ad option" where
  "on_signals_v1_answer E ch result st =
     (let st = st\<lparr>sa_signals_awaited := None\<rparr>
      in if sa_cancelled E ch At_signals_answer then join_task_completed E ch TASK_CANCELLED st
         else join_task_completed E ch TASK_SUCCESS (st\<lparr>sa_maybe_signals := result\<rparr>))"

text \<open>
  The look-up's result, and within it that of its conversion, which is dereferenced without a test.
\<close>

definition on_signals_v2_answer ::
  "'g sfe_env \<Rightarrow> choices \<Rightarrow> scoring_signals_fetched status_or status_or \<Rightarrow> 'g select_ad
     \<Rightarrow> 'g select_ad option" where
  "on_signals_v2_answer E ch result st =
     (let st = st\<lparr>sa_signals_awaited := None\<rparr>
      in if sa_cancelled E ch At_signals_answer then Some (finish_select_ad select_ad_cancelled st)
         else
           (case result of
              Inl e \<Rightarrow>
                on_score_ads_done E (Inr empty_response)
                  (st\<lparr>sa_errors :=
                        report_error AD_SERVER_VISIBLE ''Internal Error'' SERVER_SIDE (sa_errors st)\<rparr>)
            | Inr (Inl e) \<Rightarrow> None
            | Inr (Inr signals) \<Rightarrow>
                join_task_completed E ch TASK_SUCCESS (st\<lparr>sa_maybe_signals := Inr signals\<rparr>)))"

definition on_scores_answer ::
  "'g sfe_env \<Rightarrow> choices \<Rightarrow> raw_response status_or \<Rightarrow> 'g select_ad \<Rightarrow> 'g select_ad option" where
  "on_scores_answer E ch result st =
     (let st = st\<lparr>sa_scores_awaited := False\<rparr>
      in if sa_cancelled E ch At_scores_answer then Some (finish_select_ad select_ad_cancelled st)
         else on_score_ads_done E result st)"

section \<open>Bids\<close>

definition no_bid_matches_currency :: status where
  "no_bid_matches_currency =
     invalid_argument ''All bids rejected for failure to match buyer currency.''"

definition on_all_bids_done :: "'g sfe_env \<Rightarrow> choices \<Rightarrow> bool \<Rightarrow> 'g select_ad \<Rightarrow> 'g select_ad option" where
  "on_all_bids_done E ch any_successful_bids st =
     (if sa_cancelled E ch At_all_bids_done then Some (finish_select_ad select_ad_cancelled st)
      else if sa_bids st = [] then
        if \<not> any_successful_bids then Some (finish_select_ad select_ad_server_error st)
        else on_score_ads_done E (Inr empty_response) st
      else
        (case filter_bids_with_mismatching_currency (en_config E) (sa_pas_enabled E)
                (ac_per_buyer_config (sa_config st)) (sa_bids st) of
           (any_valid_bids, bids) \<Rightarrow>
             (let st = st\<lparr>sa_bids := bids\<rparr>
              in if \<not> any_valid_bids then Some (finish_select_ad no_bid_matches_currency st)
                 else if sa_fetches_signals E then
                   Some (fetch_scoring_signals E ch
                     (if sa_enforce_kanon st then st\<lparr>sa_k_anon_scheduled := True\<rparr>
                      else populate_statuses st))
                 else if sa_enforce_kanon st then query_k_anon_hashes E ch st
                 else score_ads E ch (populate_statuses st))))"

definition bid_task_completed ::
  "'g sfe_env \<Rightarrow> choices \<Rightarrow> task_status \<Rightarrow> 'g select_ad \<Rightarrow> 'g select_ad option" where
  "bid_task_completed E ch s st =
     (case task_completed s (sa_bid_tracker st) of
        (t, called) \<Rightarrow>
          (let st = st\<lparr>sa_bid_tracker := t\<rparr>
           in case called of None \<Rightarrow> Some st | Some any \<Rightarrow> on_all_bids_done E ch any st))"

definition get_bids_config ::
  "'g sfe_env \<Rightarrow> string \<Rightarrow> bool \<Rightarrow> 'g select_ad \<Rightarrow> request_config \<times> 'g" where
  "get_bids_config E buyer is_chaff st =
     (if sf_enable_chaffing (en_config E) \<and> \<not> sf_enable_chaffing_v2 (en_config E) then
        get_chaffing_v1_request_config (en_rng E) is_chaff (en_compression E) (sa_rng st)
      else if sf_enable_chaffing (en_config E) then
        (get_chaffing_v2_request_config buyer is_chaff (sa_medians st) (en_compression E), sa_rng st)
      else (make_request_config 0 (en_compression E) False, sa_rng st))"

text \<open>\<open>FetchBid\<close>; \<open>accepted\<close> is whether the client takes the call.\<close>

definition fetch_bid ::
  "'g sfe_env \<Rightarrow> choices \<Rightarrow> bool \<Rightarrow> string \<Rightarrow> get_bids_raw_request \<Rightarrow> 'g select_ad
     \<Rightarrow> 'g select_ad option" where
  "fetch_bid E ch accepted buyer request st =
     (if sa_cancelled E ch At_fetch_bid then bid_task_completed E ch TASK_CANCELLED st
      else if buyer \<notin> set (sf_buyers (en_config E)) then bid_task_completed E ch TASK_SKIPPED st
      else
        (case get_bids_config E buyer (gb_is_chaff request) st of
           (config, g) \<Rightarrow>
             (let st = st\<lparr>sa_rng := g\<rparr>
              in if accepted then
                   Some (st\<lparr>sa_sent := sa_sent st @ [(buyer, request, config)],
                            sa_awaited_bids := sa_awaited_bids st @ [(buyer, gb_is_chaff request)]\<rparr>)
                 else bid_task_completed E ch TASK_ERROR st)))"

text \<open>
  One round of the loop of \<open>FetchBids\<close>. After the last one the buyers are put into the cache, on a
  reactor that may have finished meanwhile.
\<close>

definition cache_invoked_buyers :: "'g sfe_env \<Rightarrow> 'g select_ad \<Rightarrow> 'g select_ad" where
  "cache_invoked_buyers E st =
     (if sa_to_send st = [] \<and> sa_to_skip st = 0 \<and> sf_enable_buyer_caching (en_config E)
         \<and> en_invoked E = None
      then st\<lparr>sa_cached := Some (sa_invoked st)\<rparr> else st)"

definition solicit_next ::
  "'g sfe_env \<Rightarrow> choices \<Rightarrow> bool \<Rightarrow> 'g select_ad \<Rightarrow> 'g select_ad option" where
  "solicit_next E ch accepted st =
     map_option (cache_invoked_buyers E)
       (case sa_to_send st of
          (buyer, request) # rest \<Rightarrow> fetch_bid E ch accepted buyer request (st\<lparr>sa_to_send := rest\<rparr>)
        | [] \<Rightarrow> bid_task_completed E ch TASK_SKIPPED (st\<lparr>sa_to_skip := sa_to_skip st - 1\<rparr>))"

definition record_updates ::
  "string \<Rightarrow> get_bids_raw_response \<Rightarrow> 'g select_ad \<Rightarrow> 'g select_ad \<times> get_bids_raw_response" where
  "record_updates buyer r st =
     (if gr_update_interest_group_list r = [] then (st, r)
      else (st\<lparr>sa_updates := al_emplace buyer (gr_update_interest_group_list r) (sa_updates st)\<rparr>,
            r\<lparr>gr_update_interest_group_list := []\<rparr>))"

definition on_fetch_bids_done ::
  "'g sfe_env \<Rightarrow> choices \<Rightarrow> string \<Rightarrow> get_bids_raw_response status_or \<Rightarrow> 'g select_ad
     \<Rightarrow> 'g select_ad option" where
  "on_fetch_bids_done E ch buyer response st =
     (case response of
        Inl e \<Rightarrow> bid_task_completed E ch TASK_ERROR st
      | Inr r \<Rightarrow>
          (case record_updates buyer r st of
             (st', r') \<Rightarrow>
               if \<not> has_bids (en_config E) (sa_pas_enabled E) r
               then bid_task_completed E ch TASK_EMPTY_RESPONSE st'
               else bid_task_completed E ch TASK_SUCCESS
                      (st'\<lparr>sa_bids := al_emplace buyer r' (sa_bids st')\<rparr>)))"

text \<open>\<open>request_size\<close> is that of the request on the wire, and \<open>draw\<close> the number the median's sampling draws.\<close>

definition on_bid_answer ::
  "'g sfe_env \<Rightarrow> choices \<Rightarrow> nat \<Rightarrow> int \<Rightarrow> f64 \<Rightarrow> get_bids_raw_response status_or \<Rightarrow> 'g select_ad
     \<Rightarrow> 'g select_ad option" where
  "on_bid_answer E ch i request_size draw response st =
     (case sa_awaited_bids st ! i of
        (buyer, is_chaff) \<Rightarrow>
          (let st = st\<lparr>sa_awaited_bids := take i (sa_awaited_bids st) @ drop (Suc i) (sa_awaited_bids st)\<rparr>
           in if sa_cancelled E ch At_bid_answer then bid_task_completed E ch TASK_CANCELLED st
              else on_fetch_bids_done E ch buyer response
                     (if sf_enable_chaffing_v2 (en_config E) \<and> \<not> is_chaff
                      then st\<lparr>sa_medians :=
                               snd (add_number_to_buyer_window buyer draw request_size (sa_medians st))\<rparr>
                      else st)))"

section \<open>\<open>Execute\<close>\<close>

definition create_sa_get_bids_request ::
  "'g sfe_env \<Rightarrow> 'g select_ad \<Rightarrow> string \<Rightarrow> buyer_input_for_bidding \<Rightarrow> get_bids_raw_request" where
  "create_sa_get_bids_request E st =
     (if sa_is_app E
      then create_get_bids_request_for_app (en_libs E) (en_config E) (sa_pas_enabled E)
             (sa_enforce_kanon st) (en_request E) (sa_config st) (sa_input st) (sa_priority_signals st)
      else create_get_bids_request (en_libs E) (en_config E) (sa_enforce_kanon st)
             (sr_client_type (en_request E)) (sa_config st) (sa_input st) (sa_priority_signals st))"

definition start_fetching_bids :: "'g sfe_env \<Rightarrow> choices \<Rightarrow> 'g select_ad \<Rightarrow> 'g select_ad option" where
  "start_fetching_bids E ch st =
     (let f = fetch_bids (en_rng E) (en_config E) (create_sa_get_bids_request E st) (en_invoked E)
            (ac_buyer_list (sa_config st)) (sa_input st) (sa_buyer_inputs st) (sa_rng st);
          st = st\<lparr>sa_bid_tracker := set_num_tasks_to_track (bf_num_tasks f), sa_rng := bf_rng f\<rparr>
      in if bf_num_tasks f = 0 then on_all_bids_done E ch True st
         else Some (cache_invoked_buyers E
                (st\<lparr>sa_to_send := bf_sent f, sa_to_skip := bf_skipped f, sa_invoked := bf_invoked f\<rparr>)))"

definition decode_sa_buyer_inputs ::
  "'g sfe_env \<Rightarrow> (string \<times> string) list \<Rightarrow> error_map
     \<Rightarrow> (string \<times> buyer_input_for_bidding) list \<times> error_map" where
  "decode_sa_buyer_inputs E encoded errors =
     (if sa_is_app E
      then get_decoded_buyer_inputs (en_libs E) (en_unspecified E) (en_codecs E) encoded errors
      else cb_decode_buyer_inputs (en_cbor E) encoded errors)"

definition decrypt_request :: "'g sfe_env \<Rightarrow> 'g select_ad \<Rightarrow> status + 'g select_ad" where
  "decrypt_request E st =
     (let rq = en_request E;
          ciphertext = (if sr_protected_auction_ciphertext rq \<noteq> [] then sr_protected_auction_ciphertext rq
                        else sr_protected_audience_ciphertext rq)
      in if ciphertext = [] then
           Inl (invalid_argument ''protected_auction_ciphertext must be non-null.'')
         else
           (case pk_decrypt_request (en_packaging E) ciphertext of
              Inl e \<Rightarrow>
                Inl (invalid_argument (''Error while decrypting protected_auction_ciphertext: ''
                  @ st_message e @ ''.''))
            | Inr plaintext \<Rightarrow>
                (case pk_decode_protected_input (en_packaging E) (sr_client_type rq) plaintext
                        (sa_errors st) of
                   (input, errors) \<Rightarrow>
                     (case decode_sa_buyer_inputs E (pi_buyer_input input) errors of
                        (buyer_inputs, errors) \<Rightarrow>
                          (let enforce = (sa_enforce_kanon st \<and> pi_enforce_kanon input)
                           in Inr (st\<lparr>sa_input := input, sa_errors := errors,
                                      sa_buyer_inputs := buyer_inputs, sa_enforce_kanon := enforce,
                                      sa_join_tracker :=
                                        (if enforce
                                         then set_num_tasks_to_track
                                                (if sa_fetches_signals E then 2 else 1)
                                         else sa_join_tracker st)\<rparr>))))))"

text \<open>What \<open>Execute\<close> does once the request is decrypted.\<close>

definition validate_and_fetch :: "'g sfe_env \<Rightarrow> choices \<Rightarrow> 'g select_ad \<Rightarrow> 'g select_ad option" where
  "validate_and_fetch E ch st =
     (case may_populate_ad_server_visible_errors (en_libs E) (en_config E)
             (sr_client_type (en_request E)) (sa_scope E) (sa_config st) (sa_errors st) of
        None \<Rightarrow> None
      | Some (errors, priority_signals) \<Rightarrow>
          (let st = st\<lparr>sa_errors := errors, sa_priority_signals := priority_signals\<rparr>
           in if has_visible_errors AD_SERVER_VISIBLE errors
              then on_score_ads_done E (Inr empty_response) st
              else
                (let errors = (if has_visible_errors CLIENT_VISIBLE errors then errors
                       else validate_protected_auction_input (sa_input st) (sa_buyer_inputs st) errors);
                     st = st\<lparr>sa_errors := errors,
                             sa_error := may_populate_client_visible_errors errors (sa_error st)\<rparr>
                 in if has_errors errors then on_score_ads_done E (Inr empty_response) st
                    else start_fetching_bids E ch st)))"

definition execute_select_ad :: "'g sfe_env \<Rightarrow> choices \<Rightarrow> 'g select_ad option" where
  "execute_select_ad E ch =
     (let st = initial_select_ad E
      in if sa_cancelled E ch At_execute then Some (finish_select_ad select_ad_cancelled st)
         else if \<not> is_ok (en_metadata E) then Some (finish_select_ad (en_metadata E) st)
         else
           (case extract_auction_config (en_codecs E) (en_config E) (en_request E) of
              Inl e \<Rightarrow> Some (finish_select_ad e st)
            | Inr c \<Rightarrow>
                (let st = st\<lparr>sa_config := c,
                            sa_bid_tracker := set_num_tasks_to_track (int (length (ac_buyer_list c)))\<rparr>
                 in case decrypt_request E st of
                      Inl e \<Rightarrow> Some (finish_select_ad e st)
                    | Inr st \<Rightarrow> validate_and_fetch E ch st)))"

section \<open>Runs\<close>

inductive select_ad_step :: "'g sfe_env \<Rightarrow> 'g select_ad \<Rightarrow> 'g select_ad option \<Rightarrow> bool" for E where
  solicits: "sa_to_send st \<noteq> [] \<or> 0 < sa_to_skip st \<Longrightarrow> select_ad_step E st (solicit_next E ch accepted st)"
| bid_answered: "i < length (sa_awaited_bids st) \<Longrightarrow>
    select_ad_step E st (on_bid_answer E ch i request_size draw response st)"
| k_anon_runs: "sa_k_anon_scheduled st \<Longrightarrow>
    select_ad_step E st (query_k_anon_hashes E ch (st\<lparr>sa_k_anon_scheduled := False\<rparr>))"
| k_anon_answered: "sa_k_anon_awaited st \<Longrightarrow>
    select_ad_step E st (on_k_anon_answer E ch hashes st)"
| signals_v1_answered: "sa_signals_awaited st = Some Signals_v1 \<Longrightarrow>
    select_ad_step E st (on_signals_v1_answer E ch result st)"
| signals_v2_answered: "sa_signals_awaited st = Some Signals_v2 \<Longrightarrow>
    select_ad_step E st (on_signals_v2_answer E ch lookup st)"
| scores_answered: "sa_scores_awaited st \<Longrightarrow>
    select_ad_step E st (on_scores_answer E ch scores st)"

inductive_cases select_ad_stepE: "select_ad_step E st r"

inductive select_ad_reachable :: "'g sfe_env \<Rightarrow> 'g select_ad \<Rightarrow> bool" for E where
  executes: "execute_select_ad E ch = Some st \<Longrightarrow> select_ad_reachable E st"
| proceeds: "select_ad_reachable E st \<Longrightarrow> select_ad_step E st (Some st') \<Longrightarrow> select_ad_reachable E st'"

end
