(* ===== verification/Select_Ad_Runs.thy ===== *)
theory Select_Ad_Runs
  imports Select_Ad_Flow
begin

text \<open>
  What holds in every reachable state of a SelectAd call. \<open>control\<close> is the part of the state that
  says which answers are awaited; the handlers are first described by what they do to it.
\<close>

section \<open>Control state\<close>

record control_state =
  ct_bid_pending :: int
  ct_bid_work :: "nat \<times> nat \<times> nat"
  ct_scheduled :: bool
  ct_k_anon :: bool
  ct_signals :: "signals_call option"
  ct_scores :: bool
  ct_join :: int
  ct_enforce :: bool
  ct_finished :: nat

definition control :: "'g select_ad \<Rightarrow> control_state" where
  "control st =
     \<lparr>ct_bid_pending = tt_pending (sa_bid_tracker st),
      ct_bid_work = (length (sa_to_send st), sa_to_skip st, length (sa_awaited_bids st)),
      ct_scheduled = sa_k_anon_scheduled st, ct_k_anon = sa_k_anon_awaited st,
      ct_signals = sa_signals_awaited st, ct_scores = sa_scores_awaited st,
      ct_join = tt_pending (sa_join_tracker st), ct_enforce = sa_enforce_kanon st,
      ct_finished = length (sa_finished st)\<rparr>"

lemmas control_eq = control_def control_state.defs

definition finished_once :: "control_state \<Rightarrow> control_state" where
  "finished_once c = c\<lparr>ct_finished := Suc (ct_finished c)\<rparr>"

text \<open>The encoder of web results does not report errors to its handler.\<close>

definition quiet_encoder :: "'g sfe_env \<Rightarrow> bool" where
  "quiet_encoder E \<longleftrightarrow>
     sa_is_app E
     \<or> (\<forall>s g u d e l n k. fst (cb_encode (en_cbor E) s g u d e l n k) = [])
       \<and> (\<forall>t s g u d e n k. fst (cb_encode_component (en_cbor E) t s g u d e n k) = [])"

section \<open>The handlers\<close>

lemma control_finish [simp]: "control (finish_select_ad s st) = finished_once (control st)"
  by (simp add: finish_select_ad_def control_def finished_once_def)

lemma control_updates [simp]:
  "control (st\<lparr>sa_ciphertext := x1\<rparr>) = control st"
  "control (st\<lparr>sa_errors := x2\<rparr>) = control st"
  "control (st\<lparr>sa_error := x3\<rparr>) = control st"
  "control (st\<lparr>sa_priority_signals := x4\<rparr>) = control st"
  "control (st\<lparr>sa_bids := x5\<rparr>) = control st"
  "control (st\<lparr>sa_updates := x6\<rparr>) = control st"
  "control (st\<lparr>sa_signals := x7\<rparr>) = control st"
  "control (st\<lparr>sa_maybe_signals := x8\<rparr>) = control st"
  "control (st\<lparr>sa_ig_indices := x9\<rparr>) = control st"
  "control (st\<lparr>sa_hashes := x10\<rparr>) = control st"
  "control (st\<lparr>sa_queried := x11\<rparr>) = control st"
  "control (st\<lparr>sa_k_anon_status := x12\<rparr>) = control st"
  "control (st\<lparr>sa_debug_urls := x13\<rparr>) = control st"
  "control (st\<lparr>sa_pings := x14\<rparr>) = control st"
  "control (st\<lparr>sa_medians := x15\<rparr>) = control st"
  "control (st\<lparr>sa_rng := x16\<rparr>) = control st"
  "control (st\<lparr>sa_cached := x17\<rparr>) = control st"
  "control (st\<lparr>sa_sent := x18\<rparr>) = control st"
  "control (st\<lparr>sa_invoked := x19\<rparr>) = control st"
  "control (st\<lparr>sa_scoring_request := x20\<rparr>) = control st"
  by (simp_all add: control_def)

lemma control_changes [simp]:
  "control (st\<lparr>sa_k_anon_scheduled := b\<rparr>) = control st\<lparr>ct_scheduled := b\<rparr>"
  "control (st\<lparr>sa_k_anon_awaited := b\<rparr>) = control st\<lparr>ct_k_anon := b\<rparr>"
  "control (st\<lparr>sa_signals_awaited := c\<rparr>) = control st\<lparr>ct_signals := c\<rparr>"
  "control (st\<lparr>sa_scores_awaited := b\<rparr>) = control st\<lparr>ct_scores := b\<rparr>"
  "control (st\<lparr>sa_join_tracker := t\<rparr>) = control st\<lparr>ct_join := tt_pending t\<rparr>"
  "control (st\<lparr>sa_bid_tracker := t\<rparr>) = control st\<lparr>ct_bid_pending := tt_pending t\<rparr>"
  by (simp_all add: control_def)

lemma control_fields [simp]:
  "ct_bid_pending (control st) = tt_pending (sa_bid_tracker st)"
  "ct_bid_work (control st) = (length (sa_to_send st), sa_to_skip st, length (sa_awaited_bids st))"
  "ct_scheduled (control st) = sa_k_anon_scheduled st"
  "ct_k_anon (control st) = sa_k_anon_awaited st"
  "ct_signals (control st) = sa_signals_awaited st"
  "ct_scores (control st) = sa_scores_awaited st"
  "ct_join (control st) = tt_pending (sa_join_tracker st)"
  "ct_enforce (control st) = sa_enforce_kanon st"
  "ct_finished (control st) = length (sa_finished st)"
  by (simp_all add: control_def)

lemma response_is_quiet:
  assumes "quiet_encoder E" and "get_non_encrypted_response E high error ghosts st = Some (handled, r)"
  shows "handled = []"
  using assms
  by (auto simp: quiet_encoder_def get_non_encrypted_response_def get_non_encrypted_response_for_app_def
      get_non_encrypted_response_for_web_def web_encoded_result_def Let_def
      split: if_splits option.splits sum.splits prod.splits)
    (metis fst_conv)+

lemma send_response_control:
  assumes "quiet_encoder E" and "send_response E high ghosts st = Some st'"
  shows "control st' = finished_once (control st)"
  using assms(2)
  by (auto simp: send_response_def Let_def split: option.splits prod.splits sum.splits
      dest!: response_is_quiet [OF assms(1)])

lemma record_ghost_winners_control:
  "record_ghost_winners E ghosts st = (g, st') \<Longrightarrow> control st' = control st"
  by (auto simp: record_ghost_winners_def split: if_splits prod.splits)

lemma report_on_bids_control [simp]: "control (report_on_bids E high reports st) = control st"
  by (simp add: report_on_bids_def split: prod.split)

lemma record_contributions_control:
  "record_contributions E high st = (h, st') \<Longrightarrow> control st' = control st"
  by (auto simp: record_contributions_def split: option.splits if_splits prod.splits)

lemma on_score_ads_done_control:
  assumes "quiet_encoder E" and "on_score_ads_done E r st = Some st'"
  shows "control st' = finished_once (control st)"
  using assms(2) send_response_control [OF assms(1)]
  by (auto simp: on_score_ads_done_def split: if_splits sum.splits prod.splits
      dest!: record_ghost_winners_control record_contributions_control)

definition asks_for_scores :: "control_state \<Rightarrow> control_state" where
  "asks_for_scores c = c\<lparr>ct_scores := True\<rparr>"

text \<open>After both tasks of the join: the call finishes or waits for scores.\<close>

lemma score_ads_control:
  assumes "quiet_encoder E" and "score_ads E ch st = Some st'"
  shows "control st' \<in> {finished_once (control st), asks_for_scores (control st)}"
  using assms(2)
  by (auto simp: score_ads_def Let_def asks_for_scores_def split: if_splits option.splits prod.splits
      dest!: on_score_ads_done_control [OF assms(1)])

lemma on_fetch_scoring_signals_done_control:
  assumes "quiet_encoder E" and "on_fetch_scoring_signals_done E ch st = Some st'"
  shows "control st' \<in> {finished_once (control st), asks_for_scores (control st)}"
  using assms(2)
  by (auto simp: on_fetch_scoring_signals_done_def Let_def split: if_splits sum.splits
      dest: score_ads_control [OF assms(1)] on_score_ads_done_control [OF assms(1)])

lemma task_completed_outcome:
  "task_completed s t = (t', called) \<Longrightarrow>
     tt_pending t' = tt_pending t - 1 \<and> (called = None \<longleftrightarrow> tt_pending t \<noteq> 1)"
  by (cases s) (auto simp: task_completed_def Let_def)

definition one_task_less :: "control_state \<Rightarrow> control_state" where
  "one_task_less c = c\<lparr>ct_join := ct_join c - 1\<rparr>"

lemma join_task_completed_control:
  assumes "quiet_encoder E" and "join_task_completed E ch s st = Some st'"
  shows "if ct_join (control st) = 1
    then control st' \<in> {finished_once (one_task_less (control st)), asks_for_scores (one_task_less (control st))}
    else control st' = one_task_less (control st)"
proof -
  obtain t called where t: "task_completed s (sa_join_tracker st) = (t, called)"
    by (cases "task_completed s (sa_join_tracker st)")
  then have c: "control (st\<lparr>sa_join_tracker := t\<rparr>) = one_task_less (control st)"
    by (simp add: one_task_less_def task_completed_outcome)
  show ?thesis
  proof (cases called)
    case None
    then show ?thesis using assms(2) t c task_completed_outcome [OF t]
      by (auto simp: join_task_completed_def Let_def)
  next
    case (Some any)
    then have "on_fetch_scoring_signals_done E ch (st\<lparr>sa_join_tracker := t\<rparr>) = Some st'"
      using assms(2) t by (simp add: join_task_completed_def Let_def)
    from on_fetch_scoring_signals_done_control [OF assms(1) this, unfolded c] show ?thesis
      using task_completed_outcome [OF t] Some by simp
  qed
qed

lemma populate_statuses_control [simp]: "control (populate_statuses st) = control st"
  by (simp add: populate_statuses_def)

section \<open>The invariant\<close>

definition outstanding :: "control_state \<Rightarrow> bool" where
  "outstanding c \<longleftrightarrow> ct_scheduled c \<or> ct_k_anon c"

definition bid_work :: "control_state \<Rightarrow> bool" where
  "bid_work c \<longleftrightarrow> ct_bid_work c \<noteq> (0, 0, 0)"

text \<open>No answer but the buyers' is awaited, and the join has all its tasks before it.\<close>

definition fresh :: "'g sfe_env \<Rightarrow> control_state \<Rightarrow> bool" where
  "fresh E c \<longleftrightarrow>
     ct_finished c = 0 \<and> \<not> outstanding c \<and> ct_signals c = None \<and> \<not> ct_scores c
     \<and> ct_join c = (if ct_enforce c \<and> sa_fetches_signals E then 2 else 1)"

definition settled :: "control_state \<Rightarrow> bool" where
  "settled c \<longleftrightarrow>
     \<not> (ct_scheduled c \<and> ct_k_anon c)
     \<and> (ct_scores c \<longrightarrow> ct_finished c = 0 \<and> \<not> outstanding c \<and> ct_signals c = None)
     \<and> (ct_signals c \<noteq> None \<longrightarrow> ct_finished c = 0 \<and> ct_join c = 1 + of_bool (outstanding c))
     \<and> (outstanding c \<longrightarrow> ct_join c = 1 \<and> ct_finished c = 0 \<and> ct_signals c = None \<or> ct_join c = 2)
     \<and> ct_finished c \<le> 1"

definition flow_inv :: "'g sfe_env \<Rightarrow> control_state \<Rightarrow> bool" where
  "flow_inv E c \<longleftrightarrow> settled c \<and> (bid_work c \<and> 0 < ct_bid_pending c \<longrightarrow> fresh E c)"

lemma fresh_settled: "fresh E c \<Longrightarrow> settled c"
  by (auto simp: fresh_def settled_def outstanding_def)

lemma fresh_outcomes:
  assumes "fresh E c"
  shows "settled (finished_once c)" "settled (asks_for_scores c)"
    "\<not> sa_fetches_signals E \<or> \<not> ct_enforce c \<Longrightarrow> settled (finished_once (one_task_less c))"
  using assms by (auto simp: fresh_def settled_def finished_once_def asks_for_scores_def
      one_task_less_def outstanding_def split: if_splits)

lemma fresh_signals_outcomes:
  assumes "fresh E c" and "sa_fetches_signals E" and "\<not> ct_enforce c"
  shows "settled (c\<lparr>ct_signals := Some v\<rparr>)"
  using assms by (auto simp: fresh_def settled_def outstanding_def)

lemma fresh_both_outcomes:
  assumes "fresh E c" and "sa_fetches_signals E" and "ct_enforce c"
  shows "settled (c\<lparr>ct_scheduled := True, ct_signals := Some v\<rparr>)" "settled (c\<lparr>ct_scheduled := True\<rparr>)"
    "settled (finished_once (c\<lparr>ct_scheduled := True\<rparr>))"
  using assms by (auto simp: fresh_def settled_def outstanding_def finished_once_def)

lemma fresh_k_anon_outcomes:
  assumes "fresh E c" and "\<not> sa_fetches_signals E" and "ct_enforce c"
  shows "settled (c\<lparr>ct_k_anon := True\<rparr>)" "settled (finished_once (one_task_less c))"
    "settled (asks_for_scores (one_task_less c))" "ct_join c = 1"
  using assms by (auto simp: fresh_def settled_def outstanding_def finished_once_def
      asks_for_scores_def one_task_less_def)

lemma fetch_scoring_signals_control:
  "control (fetch_scoring_signals E ch st) = finished_once (control st)
   \<or> (\<exists>v. control (fetch_scoring_signals E ch st) = control st\<lparr>ct_signals := Some v\<rparr>)
   \<or> control (fetch_scoring_signals E ch st) = control st \<and> sa_uses_v2 E \<and> en_has_v2_client E"
  by (auto simp: fetch_scoring_signals_def fetch_signals_v1_def fetch_signals_v2_def split: sum.splits)

lemma query_k_anon_hashes_control:
  assumes "quiet_encoder E" and "query_k_anon_hashes E ch st = Some st'"
  shows "control st' = control st\<lparr>ct_k_anon := True\<rparr>
    \<or> (if ct_join (control st) = 1
       then control st' \<in> {finished_once (one_task_less (control st)),
                          asks_for_scores (one_task_less (control st))}
       else control st' = one_task_less (control st))"
  using assms(2)
  by (auto simp: query_k_anon_hashes_def Let_def split: if_splits
      dest!: join_task_completed_control [OF assms(1)])

text \<open>
  All bids are in: the call finishes, waits for scores, or for signals, k-anonymity or both. The
  request for signals may be dropped when version 2 is in use.
\<close>

definition after_signals :: "'g sfe_env \<Rightarrow> control_state \<Rightarrow> control_state \<Rightarrow> bool" where
  "after_signals E c c' \<longleftrightarrow>
     c' = finished_once c \<or> (\<exists>v. c' = c\<lparr>ct_signals := Some v\<rparr>) \<or> c' = c \<and> sa_uses_v2 E"

definition after_join :: "control_state \<Rightarrow> control_state \<Rightarrow> bool" where
  "after_join c c' \<longleftrightarrow>
     (if ct_join c = 1
      then c' \<in> {finished_once (one_task_less c), asks_for_scores (one_task_less c)}
      else c' = one_task_less c)"

definition after_bids :: "'g sfe_env \<Rightarrow> control_state \<Rightarrow> control_state \<Rightarrow> bool" where
  "after_bids E c c' \<longleftrightarrow>
     c' = finished_once c
     \<or> (if sa_fetches_signals E
        then after_signals E (if ct_enforce c then c\<lparr>ct_scheduled := True\<rparr> else c) c'
        else if ct_enforce c then c' = c\<lparr>ct_k_anon := True\<rparr> \<or> after_join c c'
        else c' = asks_for_scores c)"

lemma on_all_bids_done_control:
  assumes quiet: "quiet_encoder E" and run: "on_all_bids_done E ch any st = Some st'"
  shows "after_bids E (control st) (control st')"
proof -
  consider (finish) "control st' = finished_once (control st)"
    | (signals) bids where "sa_fetches_signals E" "\<not> sa_enforce_kanon st"
        "st' = fetch_scoring_signals E ch (populate_statuses (st\<lparr>sa_bids := bids\<rparr>))"
    | (both) bids where "sa_fetches_signals E" "sa_enforce_kanon st"
        "st' = fetch_scoring_signals E ch (st\<lparr>sa_bids := bids, sa_k_anon_scheduled := True\<rparr>)"
    | (k_anon) bids where "\<not> sa_fetches_signals E" "sa_enforce_kanon st"
        "query_k_anon_hashes E ch (st\<lparr>sa_bids := bids\<rparr>) = Some st'"
    | (scores) bids where "\<not> sa_fetches_signals E" "\<not> sa_enforce_kanon st"
        "score_ads E ch (populate_statuses (st\<lparr>sa_bids := bids\<rparr>)) = Some st'"
    using run
    by (auto simp: on_all_bids_done_def Let_def split: if_splits prod.splits
        dest!: on_score_ads_done_control [OF quiet])
  then show ?thesis
  proof cases
    case finish
    then show ?thesis by (simp add: after_bids_def)
  next
    case signals
    then show ?thesis
      using fetch_scoring_signals_control [of E ch "populate_statuses (st\<lparr>sa_bids := bids\<rparr>)"]
      by (auto simp: after_bids_def after_signals_def simp del: control_fields simp: control_fields(8))
  next
    case both
    then show ?thesis
      using fetch_scoring_signals_control [of E ch "st\<lparr>sa_bids := bids, sa_k_anon_scheduled := True\<rparr>"]
      by (auto simp: after_bids_def after_signals_def simp del: control_fields simp: control_fields(8))
  next
    case k_anon
    then have "ct_enforce (control st)" by simp
    then show ?thesis
      using query_k_anon_hashes_control [OF quiet k_anon(3)] k_anon(1)
      by (auto simp: after_bids_def after_join_def simp del: control_fields split: if_splits)
  next
    case scores
    then show ?thesis
      using score_ads_control [OF quiet scores(3)]
      by (auto simp: after_bids_def simp del: control_fields simp: control_fields(8))
  qed
qed

lemma after_bids_settled:
  assumes "fresh E c" and "after_bids E c c'"
  shows "settled c'"
  using assms fresh_outcomes [OF assms(1)] fresh_settled [OF assms(1)] fresh_signals_outcomes [OF assms(1)]
    fresh_both_outcomes [OF assms(1)] fresh_k_anon_outcomes [OF assms(1)]
  by (auto simp: after_bids_def after_signals_def after_join_def split: if_splits)

lemma after_bids_bid_part:
  "after_bids E c c' \<Longrightarrow> ct_bid_pending c' = ct_bid_pending c \<and> ct_bid_work c' = ct_bid_work c"
  by (auto simp: after_bids_def after_signals_def after_join_def finished_once_def asks_for_scores_def
      one_task_less_def split: if_splits)

section \<open>Steps keep it\<close>

lemma bid_task_completed_inv:
  assumes quiet: "quiet_encoder E" and run: "bid_task_completed E ch s st = Some st'"
    and settled: "settled (control st)"
    and fresh: "0 < ct_bid_pending (control st) \<Longrightarrow> fresh E (control st)"
  shows "flow_inv E (control st')"
proof -
  obtain t called where t: "task_completed s (sa_bid_tracker st) = (t, called)"
    by (cases "task_completed s (sa_bid_tracker st)")
  define c where "c = control (st\<lparr>sa_bid_tracker := t\<rparr>)"
  have c: "c = control st\<lparr>ct_bid_pending := ct_bid_pending (control st) - 1\<rparr>"
    using task_completed_outcome [OF t] by (simp add: c_def)
  have fresh_c: "fresh E c" if "0 < ct_bid_pending (control st)"
    using fresh [OF that] by (simp add: c fresh_def outstanding_def del: control_fields)
  show ?thesis
  proof (cases called)
    case None
    then have "control st' = c" using run t by (simp add: bid_task_completed_def Let_def c_def)
    moreover have "settled c"
      using settled by (simp add: c settled_def outstanding_def del: control_fields)
    moreover have "ct_bid_pending c = ct_bid_pending (control st) - 1" by (simp add: c del: control_fields)
    ultimately show ?thesis using fresh_c by (simp add: flow_inv_def del: control_fields)
  next
    case (Some any)
    then have "on_all_bids_done E ch any (st\<lparr>sa_bid_tracker := t\<rparr>) = Some st'"
      using run t by (simp add: bid_task_completed_def Let_def)
    from on_all_bids_done_control [OF quiet this] have after: "after_bids E c (control st')"
      by (simp only: c_def)
    have one: "ct_bid_pending (control st) = 1" using task_completed_outcome [OF t] Some by simp
    then have "ct_bid_pending (control st') = 0"
      using after_bids_bid_part [OF after] by (simp add: c del: control_fields)
    moreover have "settled (control st')"
      by (rule after_bids_settled [OF fresh_c after]) (simp only: one)
    ultimately show ?thesis by (simp add: flow_inv_def del: control_fields)
  qed
qed

text \<open>An answer in the join: \<open>c1\<close> is the state once it is no longer awaited.\<close>

lemma settled_k_anon_answer:
  assumes "settled c" and "outstanding c" and "after_join (c\<lparr>ct_scheduled := False, ct_k_anon := False\<rparr>) c'"
  shows "settled c'"
  using assms by (auto simp: settled_def after_join_def outstanding_def finished_once_def
      asks_for_scores_def one_task_less_def split: if_splits)

lemma settled_k_anon_query:
  "settled c \<Longrightarrow> ct_scheduled c \<Longrightarrow> settled (c\<lparr>ct_scheduled := False, ct_k_anon := True\<rparr>)"
  by (auto simp: settled_def outstanding_def)

lemma settled_signals_answer:
  assumes "settled c" and "ct_signals c \<noteq> None"
  shows "after_join (c\<lparr>ct_signals := None\<rparr>) c' \<Longrightarrow> settled c'"
    and "settled (finished_once (c\<lparr>ct_signals := None\<rparr>))"
  using assms by (auto simp: settled_def after_join_def outstanding_def finished_once_def
      asks_for_scores_def one_task_less_def split: if_splits)

lemma settled_scores_answer:
  "settled c \<Longrightarrow> ct_scores c \<Longrightarrow> settled (finished_once (c\<lparr>ct_scores := False\<rparr>))"
  by (auto simp: settled_def outstanding_def finished_once_def)

definition same_bids :: "control_state \<Rightarrow> control_state \<Rightarrow> bool" where
  "same_bids c c' \<longleftrightarrow> ct_bid_pending c' = ct_bid_pending c \<and> ct_bid_work c' = ct_bid_work c"

lemma after_join_same_bids: "after_join c c' \<Longrightarrow> same_bids c c'"
  by (auto simp: after_join_def same_bids_def finished_once_def asks_for_scores_def one_task_less_def
      split: if_splits)

lemma idle_update:
  "\<not> ct_k_anon c \<Longrightarrow> c\<lparr>ct_scheduled := b, ct_k_anon := False\<rparr> = c\<lparr>ct_scheduled := b\<rparr>"
  "\<not> ct_scheduled c \<Longrightarrow> c\<lparr>ct_scheduled := False, ct_k_anon := b\<rparr> = c\<lparr>ct_k_anon := b\<rparr>"
  by (cases c; simp)+

lemma flow_inv_join:
  assumes "flow_inv E c" and "outstanding c \<or> ct_signals c \<noteq> None \<or> ct_scores c"
    and "same_bids c c'" and "settled c'"
  shows "flow_inv E c'"
  using assms by (auto simp: flow_inv_def fresh_def same_bids_def bid_work_def)

lemma join_task_completed_after:
  "quiet_encoder E \<Longrightarrow> join_task_completed E ch s st = Some st' \<Longrightarrow> after_join (control st) (control st')"
  unfolding after_join_def by (rule join_task_completed_control)

lemma query_k_anon_hashes_after:
  "quiet_encoder E \<Longrightarrow> query_k_anon_hashes E ch st = Some st' \<Longrightarrow>
     control st' = control st\<lparr>ct_k_anon := True\<rparr> \<or> after_join (control st) (control st')"
  unfolding after_join_def by (rule query_k_anon_hashes_control)

lemma on_k_anon_answer_after:
  assumes "quiet_encoder E" and "on_k_anon_answer E ch response st = Some st'"
  shows "after_join (control st\<lparr>ct_k_anon := False\<rparr>) (control st')"
  using assms(2)
  by (auto simp: on_k_anon_answer_def Let_def simp del: control_fields split: sum.splits
      dest!: join_task_completed_after [OF assms(1)])

lemma on_signals_v1_answer_after:
  assumes "quiet_encoder E" and "on_signals_v1_answer E ch result st = Some st'"
  shows "after_join (control st\<lparr>ct_signals := None\<rparr>) (control st')"
  using assms(2)
  by (auto simp: on_signals_v1_answer_def Let_def simp del: control_fields split: if_splits
      dest!: join_task_completed_after [OF assms(1)])

lemma on_signals_v2_answer_after:
  assumes "quiet_encoder E" and "on_signals_v2_answer E ch result st = Some st'"
  shows "control st' = finished_once (control st\<lparr>ct_signals := None\<rparr>)
    \<or> after_join (control st\<lparr>ct_signals := None\<rparr>) (control st')"
  using assms(2)
  by (auto simp: on_signals_v2_answer_def Let_def simp del: control_fields split: if_splits sum.splits
      dest!: join_task_completed_after [OF assms(1)] on_score_ads_done_control [OF assms(1)])

lemma on_scores_answer_after:
  assumes "quiet_encoder E" and "on_scores_answer E ch result st = Some st'"
  shows "control st' = finished_once (control st\<lparr>ct_scores := False\<rparr>)"
  using assms(2)
  by (auto simp: on_scores_answer_def Let_def simp del: control_fields split: if_splits
      dest!: on_score_ads_done_control [OF assms(1)])

lemma settled_bid_work [simp]: "settled (c\<lparr>ct_bid_work := w\<rparr>) = settled c"
  by (simp add: settled_def outstanding_def)

lemma fresh_bid_work [simp]: "fresh E (c\<lparr>ct_bid_work := w\<rparr>) = fresh E c"
  by (simp add: fresh_def outstanding_def)

lemma control_bid_work:
  "control (st\<lparr>sa_to_send := x\<rparr>) = control st\<lparr>ct_bid_work := (length x, sa_to_skip st, length (sa_awaited_bids st))\<rparr>"
  "control (st\<lparr>sa_to_skip := n\<rparr>) = control st\<lparr>ct_bid_work := (length (sa_to_send st), n, length (sa_awaited_bids st))\<rparr>"
  "control (st\<lparr>sa_awaited_bids := y\<rparr>) = control st\<lparr>ct_bid_work := (length (sa_to_send st), sa_to_skip st, length y)\<rparr>"
  by (simp_all add: control_def)

lemma fetch_bid_inv:
  assumes quiet: "quiet_encoder E" and "fetch_bid E ch accepted buyer r st = Some st'"
    and "settled (control st)" and "0 < ct_bid_pending (control st) \<Longrightarrow> fresh E (control st)"
  shows "flow_inv E (control st')"
proof -
  obtain config g where g: "get_bids_config E buyer (gb_is_chaff r) st = (config, g)" by fastforce
  consider s st1 where "bid_task_completed E ch s st1 = Some st'" "control st1 = control st"
    | "control st' = control st\<lparr>ct_bid_work := ct_bid_work (control st')\<rparr>"
    using assms(2) g
    by (auto simp: fetch_bid_def Let_def control_bid_work split: if_splits)
  then show ?thesis
  proof cases
    case 1
    show ?thesis by (rule bid_task_completed_inv [OF quiet 1(1)]) (use 1(2) assms(3,4) in \<open>simp_all only:\<close>)
  next
    case 2
    define w where "w = ct_bid_work (control st')"
    have "control st' = control st\<lparr>ct_bid_work := w\<rparr>" using 2 by (simp only: w_def)
    then show ?thesis using assms(3,4) by (simp add: flow_inv_def del: control_fields)
  qed
qed

lemma flow_inv_bids:
  assumes "flow_inv E (control st)" and "bid_work (control st)"
  shows "settled (control st)" and "0 < ct_bid_pending (control st) \<Longrightarrow> fresh E (control st)"
  using assms by (simp_all add: flow_inv_def del: control_fields)

lemma cache_invoked_buyers_control [simp]: "control (cache_invoked_buyers E st) = control st"
  by (simp add: cache_invoked_buyers_def)

lemma solicit_next_inv:
  assumes quiet: "quiet_encoder E" and run: "solicit_next E ch accepted st = Some st'"
    and inv: "flow_inv E (control st)" and work: "sa_to_send st \<noteq> [] \<or> 0 < sa_to_skip st"
  shows "flow_inv E (control st')"
proof -
  have "bid_work (control st)" using work by (auto simp: bid_work_def)
  note inv = flow_inv_bids [OF inv this]
  obtain st0 where st': "st' = cache_invoked_buyers E st0" and round:
    "(case sa_to_send st of
        (b, r) # rest \<Rightarrow> fetch_bid E ch accepted b r (st\<lparr>sa_to_send := rest\<rparr>)
      | [] \<Rightarrow> bid_task_completed E ch TASK_SKIPPED (st\<lparr>sa_to_skip := sa_to_skip st - 1\<rparr>)) = Some st0"
    using run by (auto simp: solicit_next_def)
  have "flow_inv E (control st0)"
  proof (cases "sa_to_send st")
    case Nil
    then have "bid_task_completed E ch TASK_SKIPPED (st\<lparr>sa_to_skip := sa_to_skip st - 1\<rparr>) = Some st0"
      using round by simp
    then show ?thesis
      by (rule bid_task_completed_inv [OF quiet]) (simp_all add: inv control_bid_work del: control_fields)
  next
    case (Cons p rest)
    obtain b r where "p = (b, r)" by (cases p)
    with Cons round have "fetch_bid E ch accepted b r (st\<lparr>sa_to_send := rest\<rparr>) = Some st0" by simp
    then show ?thesis
      by (rule fetch_bid_inv [OF quiet]) (simp_all add: inv control_bid_work del: control_fields)
  qed
  then show ?thesis by (simp add: st' del: control_fields)
qed

lemma on_bid_answer_inv:
  assumes quiet: "quiet_encoder E" and run: "on_bid_answer E ch i n draw response st = Some st'"
    and inv: "flow_inv E (control st)" and work: "i < length (sa_awaited_bids st)"
  shows "flow_inv E (control st')"
proof -
  have "bid_work (control st)" using work by (auto simp: bid_work_def)
  note inv = flow_inv_bids [OF inv this]
  obtain s st1 w where done_: "bid_task_completed E ch s st1 = Some st'"
      and c: "control st1 = control st\<lparr>ct_bid_work := w\<rparr>"
    using run
    by (auto simp: on_bid_answer_def on_fetch_bids_done_def record_updates_def Let_def control_bid_work
        simp del: control_fields split: prod.splits if_splits sum.splits)
  show ?thesis
    by (rule bid_task_completed_inv [OF quiet done_])
      (use inv in \<open>simp_all add: c fresh_def outstanding_def del: control_fields\<close>)
qed

lemma select_ad_step_inv:
  assumes quiet: "quiet_encoder E" and step: "select_ad_step E st (Some st')" and inv: "flow_inv E (control st)"
  shows "flow_inv E (control st')"
proof -
  note join = flow_inv_join [OF inv]
  have settled: "settled (control st)" using inv by (simp add: flow_inv_def)
  from step show ?thesis
  proof (cases rule: select_ad_step.cases)
    case (solicits ch accepted)
    then show ?thesis using solicit_next_inv [OF quiet _ inv] by metis
  next
    case (bid_answered i ch n draw response)
    then show ?thesis using on_bid_answer_inv [OF quiet _ inv] by metis
  next
    case (k_anon_runs ch)
    have out: "outstanding (control st)" using k_anon_runs(2) by (simp add: outstanding_def)
    then have k: "\<not> ct_k_anon (control st)" using settled k_anon_runs(2) by (auto simp: settled_def)
    from query_k_anon_hashes_after [OF quiet k_anon_runs(1) [symmetric]] show ?thesis
    proof
      assume "control st' = control (st\<lparr>sa_k_anon_scheduled := False\<rparr>)\<lparr>ct_k_anon := True\<rparr>"
      then have c: "control st' = control st\<lparr>ct_scheduled := False, ct_k_anon := True\<rparr>" by (simp del: control_fields)
      show ?thesis
      proof (rule join)
        show "settled (control st')"
          unfolding c using k_anon_runs(2) by (intro settled_k_anon_query [OF settled]) simp
      qed (use out c in \<open>simp_all add: same_bids_def del: control_fields\<close>)
    next
      assume "after_join (control (st\<lparr>sa_k_anon_scheduled := False\<rparr>)) (control st')"
      then have a: "after_join (control st\<lparr>ct_scheduled := False, ct_k_anon := False\<rparr>) (control st')"
        by (simp add: idle_update(1) [OF k] del: control_fields)
      show ?thesis
        by (rule join) (use out settled_k_anon_answer [OF settled out a] after_join_same_bids [OF a]
            in \<open>simp_all add: same_bids_def del: control_fields\<close>)
    qed
  next
    case (k_anon_answered ch hashes)
    have out: "outstanding (control st)" using k_anon_answered(2) by (simp add: outstanding_def)
    then have k: "\<not> ct_scheduled (control st)" using settled k_anon_answered(2) by (auto simp: settled_def)
    from on_k_anon_answer_after [OF quiet k_anon_answered(1) [symmetric]]
    have a: "after_join (control st\<lparr>ct_scheduled := False, ct_k_anon := False\<rparr>) (control st')"
      by (simp add: idle_update(2) [OF k] del: control_fields)
    show ?thesis
      by (rule join) (use out settled_k_anon_answer [OF settled out a] after_join_same_bids [OF a]
          in \<open>simp_all add: same_bids_def del: control_fields\<close>)
  next
    case (signals_v1_answered ch result)
    have aw: "ct_signals (control st) \<noteq> None" using signals_v1_answered(2) by simp
    note a = on_signals_v1_answer_after [OF quiet signals_v1_answered(1) [symmetric]]
    show ?thesis
      by (rule join) (use aw settled_signals_answer(1) [OF settled aw a] after_join_same_bids [OF a]
          in \<open>simp_all add: same_bids_def del: control_fields\<close>)
  next
    case (signals_v2_answered ch lookup)
    have aw: "ct_signals (control st) \<noteq> None" using signals_v2_answered(2) by simp
    from on_signals_v2_answer_after [OF quiet signals_v2_answered(1) [symmetric]] show ?thesis
    proof
      assume c: "control st' = finished_once (control st\<lparr>ct_signals := None\<rparr>)"
      show ?thesis
        by (rule join) (use aw settled_signals_answer(2) [OF settled aw] in
            \<open>simp_all add: c same_bids_def finished_once_def del: control_fields\<close>)
    next
      assume a: "after_join (control st\<lparr>ct_signals := None\<rparr>) (control st')"
      show ?thesis
        by (rule join) (use aw settled_signals_answer(1) [OF settled aw a] after_join_same_bids [OF a]
            in \<open>simp_all add: same_bids_def del: control_fields\<close>)
    qed
  next
    case (scores_answered ch scores)
    have aw: "ct_scores (control st)" using scores_answered(2) by simp
    note c = on_scores_answer_after [OF quiet scores_answered(1) [symmetric]]
    show ?thesis
      by (rule join) (use aw settled_scores_answer [OF settled aw] in
          \<open>simp_all add: c same_bids_def finished_once_def del: control_fields\<close>)
  qed
qed

section \<open>Every reachable state\<close>

lemma flow_inv_no_bid_work: "settled c \<Longrightarrow> \<not> bid_work c \<Longrightarrow> flow_inv E c"
  by (simp add: flow_inv_def)

text \<open>Before the bids nothing but the trackers and the enforcement changes.\<close>

definition idle :: "control_state \<Rightarrow> bool" where
  "idle c \<longleftrightarrow> ct_finished c = 0 \<and> \<not> outstanding c \<and> ct_signals c = None \<and> \<not> ct_scores c \<and> \<not> bid_work c"

lemma idle_finished:
  assumes "idle c"
  shows "flow_inv E (finished_once c)"
  using assms
  by (intro flow_inv_no_bid_work)
    (auto simp: idle_def settled_def finished_once_def outstanding_def bid_work_def)

lemma initial_idle [simp]: "idle (control (initial_select_ad E))"
  by (simp add: idle_def initial_select_ad_def control_def outstanding_def bid_work_def)

lemma start_fetching_bids_inv:
  assumes quiet: "quiet_encoder E" and run: "start_fetching_bids E ch st = Some st'"
    and idle: "idle (control st)"
    and join: "ct_join (control st) = (if sa_enforce_kanon st \<and> sa_fetches_signals E then 2 else 1)"
  shows "flow_inv E (control st')"
proof -
  define f where "f = fetch_bids (en_rng E) (en_config E) (create_sa_get_bids_request E st) (en_invoked E)
            (ac_buyer_list (sa_config st)) (sa_input st) (sa_buyer_inputs st) (sa_rng st)"
  define st0 where "st0 = st\<lparr>sa_bid_tracker := set_num_tasks_to_track (bf_num_tasks f), sa_rng := bf_rng f\<rparr>"
  have fresh: "fresh E (control st0)"
    using idle join by (simp add: fresh_def idle_def outstanding_def st0_def)
  show ?thesis
  proof (cases "bf_num_tasks f = 0")
    case True
    then have "on_all_bids_done E ch True st0 = Some st'"
      using run by (simp add: start_fetching_bids_def Let_def f_def [symmetric] st0_def)
    from on_all_bids_done_control [OF quiet this] have after: "after_bids E (control st0) (control st')" .
    have "\<not> bid_work (control st0)" using idle by (simp add: idle_def bid_work_def st0_def)
    then show ?thesis
      using after_bids_settled [OF fresh after] after_bids_bid_part [OF after]
      by (simp add: flow_inv_no_bid_work bid_work_def del: control_fields)
  next
    case False
    then have "st' = cache_invoked_buyers E
        (st0\<lparr>sa_to_send := bf_sent f, sa_to_skip := bf_skipped f, sa_invoked := bf_invoked f\<rparr>)"
      using run by (simp add: start_fetching_bids_def Let_def f_def [symmetric] st0_def)
    then have "fresh E (control st')"
      using fresh by (simp add: control_bid_work del: control_fields)
    then show ?thesis by (simp add: flow_inv_def fresh_settled del: control_fields)
  qed
qed

lemma validate_and_fetch_outcome:
  assumes run: "validate_and_fetch E ch st = Some st'"
  obtains st1 where "on_score_ads_done E (Inr empty_response) st1 = Some st'" "control st1 = control st"
    | st1 where "start_fetching_bids E ch st1 = Some st'" "control st1 = control st"
        "sa_enforce_kanon st1 = sa_enforce_kanon st"
  using run
  by (auto simp: validate_and_fetch_def Let_def simp del: control_fields
      split: option.splits prod.splits if_splits)

lemma validate_and_fetch_inv:
  assumes quiet: "quiet_encoder E" and run: "validate_and_fetch E ch st = Some st'"
    and idle: "idle (control st)"
    and join: "ct_join (control st) = (if sa_enforce_kanon st \<and> sa_fetches_signals E then 2 else 1)"
  shows "flow_inv E (control st')"
  using run
proof (cases rule: validate_and_fetch_outcome)
  case (1 st1)
  from on_score_ads_done_control [OF quiet 1(1)] show ?thesis
    using idle_finished [OF idle] by (simp only: 1(2))
next
  case (2 st1)
  show ?thesis by (rule start_fetching_bids_inv [OF quiet 2(1)]) (simp_all only: 2(2,3) idle join)
qed

lemma decrypt_request_control:
  assumes "decrypt_request E st = Inr st'" and "idle (control st)" and "ct_join (control st) = 1"
  shows "idle (control st')
    \<and> ct_join (control st') = (if sa_enforce_kanon st' \<and> sa_fetches_signals E then 2 else 1)"
  using assms
  by (auto simp: decrypt_request_def Let_def idle_def outstanding_def bid_work_def
      set_num_tasks_to_track_def split: if_splits sum.splits prod.splits)

lemma execute_select_ad_outcome:
  assumes run: "execute_select_ad E ch = Some st"
  obtains s st0 where "st = finish_select_ad s st0" "idle (control st0)"
    | st1 where "validate_and_fetch E ch st1 = Some st" "idle (control st1)"
        "ct_join (control st1) = (if sa_enforce_kanon st1 \<and> sa_fetches_signals E then 2 else 1)"
proof -
  define st0 where "st0 = initial_select_ad E"
  have idle: "idle (control st0)" by (simp add: st0_def)
  have config: "idle (control (st0\<lparr>sa_config := c, sa_bid_tracker := t\<rparr>))"
      "ct_join (control (st0\<lparr>sa_config := c, sa_bid_tracker := t\<rparr>)) = 1" for c t
    by (simp_all add: st0_def idle_def initial_select_ad_def control_def outstanding_def bid_work_def
        set_num_tasks_to_track_def)
  consider s where "st = finish_select_ad s st0"
    | s c t where "st = finish_select_ad s (st0\<lparr>sa_config := c, sa_bid_tracker := t\<rparr>)"
    | c t st1 where "decrypt_request E (st0\<lparr>sa_config := c, sa_bid_tracker := t\<rparr>) = Inr st1"
        "validate_and_fetch E ch st1 = Some st"
    using run by (auto simp: execute_select_ad_def Let_def st0_def [symmetric] split: if_splits sum.splits)
  then show thesis
  proof cases
    case 1
    then show thesis using idle that(1) by blast
  next
    case 2
    then show thesis using config(1) that(1) by blast
  next
    case 3
    from decrypt_request_control [OF 3(1) config] that(2) [OF 3(2)] show thesis by blast
  qed
qed

lemma execute_select_ad_inv:
  assumes quiet: "quiet_encoder E" and run: "execute_select_ad E ch = Some st"
  shows "flow_inv E (control st)"
  using run
proof (cases rule: execute_select_ad_outcome)
  case (1 s st0)
  then show ?thesis by (simp add: idle_finished del: control_fields)
next
  case (2 st1)
  then show ?thesis using validate_and_fetch_inv [OF quiet] by blast
qed

theorem reachable_flow_inv:
  assumes "quiet_encoder E" and "select_ad_reachable E st"
  shows "flow_inv E (control st)"
  using assms(2)
  by induction (blast intro: execute_select_ad_inv [OF assms(1)] select_ad_step_inv [OF assms(1)])+

lemma reachable_finished_at_most_once:
  assumes "quiet_encoder E" and "select_ad_reachable E st"
  shows "length (sa_finished st) \<le> 1"
  using reachable_flow_inv [OF assms] by (simp add: flow_inv_def settled_def)

end
