(* ===== verification/Select_Ad_Progress.thy ===== *)
theory Select_Ad_Progress
  imports Select_Ad_Runs
begin

text \<open>
  Progress of a SelectAd call: every step lowers a measure, and a call in which no step is left has
  finished. The second part needs the scoring signals to come from a version 1 server, or not to be
  fetched, since a version 2 request may be dropped without an answer.
\<close>

section \<open>The measure\<close>

definition control_measure :: "control_state \<Rightarrow> nat" where
  "control_measure c =
     (case ct_bid_work c of (to_send, to_skip, awaited) \<Rightarrow> 10 * to_send + 9 * to_skip + 9 * awaited)
     + 4 * of_bool (ct_scheduled c) + 3 * of_bool (ct_k_anon c)
     + 3 * of_bool (ct_signals c \<noteq> None) + of_bool (ct_scores c)"

definition sa_remaining :: "'g select_ad \<Rightarrow> nat" where
  "sa_remaining st = control_measure (control st)"

lemma measure_outcomes [simp]:
  "control_measure (finished_once c) = control_measure c"
  "control_measure (one_task_less c) = control_measure c"
  "control_measure (c\<lparr>ct_bid_pending := p\<rparr>) = control_measure c"
  by (simp_all add: control_measure_def finished_once_def one_task_less_def)

lemma measure_scores: "control_measure (asks_for_scores c) \<le> control_measure c + 1"
  by (simp add: control_measure_def asks_for_scores_def split: prod.split)

lemma measure_after_join: "after_join c c' \<Longrightarrow> control_measure c' \<le> control_measure c + 1"
  using measure_scores [of "one_task_less c"] by (auto simp: after_join_def split: if_splits)

lemma measure_signals: "control_measure (c\<lparr>ct_signals := Some v\<rparr>) \<le> control_measure c + 3"
  by (simp add: control_measure_def split: prod.split)

lemma measure_scheduled: "control_measure (c\<lparr>ct_scheduled := True\<rparr>) \<le> control_measure c + 4"
  by (simp add: control_measure_def split: prod.split)

lemma measure_after_signals: "after_signals E c c' \<Longrightarrow> control_measure c' \<le> control_measure c + 3"
  using measure_signals by (fastforce simp: after_signals_def)

lemma measure_after_bids:
  assumes "after_bids E c c'"
  shows "control_measure c' \<le> control_measure c + 7"
proof -
  have k: "control_measure (c\<lparr>ct_k_anon := True\<rparr>) \<le> control_measure c + 3"
    by (simp add: control_measure_def split: prod.split)
  show ?thesis
    using assms k measure_scores [of c] measure_scheduled [of c]
      measure_after_signals [of E "c\<lparr>ct_scheduled := True\<rparr>" c'] measure_after_signals [of E c c']
      measure_after_join [of c c']
    by (auto simp: after_bids_def split: if_splits)
qed

section \<open>A bid's task\<close>

definition amount :: "control_state \<Rightarrow> nat" where
  "amount c = (case ct_bid_work c of (a, b, d) \<Rightarrow> a + b + d)"

text \<open>The call has finished, or an answer is awaited on which it goes on.\<close>

definition concluding :: "control_state \<Rightarrow> bool" where
  "concluding c \<longleftrightarrow>
     0 < ct_finished c \<or> ct_scores c \<or> ct_signals c \<noteq> None \<or> outstanding c \<and> ct_join c = 1"

definition live :: "control_state \<Rightarrow> bool" where
  "live c \<longleftrightarrow> concluding c \<or> 0 < amount c \<and> ct_bid_pending c = int (amount c)"

lemma bid_task_completed_control:
  assumes quiet: "quiet_encoder E" and run: "bid_task_completed E ch s st = Some st'"
  defines "c \<equiv> control st\<lparr>ct_bid_pending := ct_bid_pending (control st) - 1\<rparr>"
  shows "if ct_bid_pending (control st) = 1 then after_bids E c (control st') else control st' = c"
proof -
  obtain t called where t: "task_completed s (sa_bid_tracker st) = (t, called)"
    by (cases "task_completed s (sa_bid_tracker st)")
  note pending = task_completed_outcome [OF t]
  then have c: "control (st\<lparr>sa_bid_tracker := t\<rparr>) = c" by (simp add: c_def)
  show ?thesis
  proof (cases called)
    case None
    then show ?thesis using run t c pending by (auto simp: bid_task_completed_def Let_def)
  next
    case (Some any)
    then have "on_all_bids_done E ch any (st\<lparr>sa_bid_tracker := t\<rparr>) = Some st'"
      using run t by (simp add: bid_task_completed_def Let_def)
    from on_all_bids_done_control [OF quiet this, unfolded c] show ?thesis using pending Some by simp
  qed
qed

lemma measure_bid_task:
  assumes "quiet_encoder E" and "bid_task_completed E ch s st = Some st'"
  shows "control_measure (control st') \<le> control_measure (control st) + 7"
  using bid_task_completed_control [OF assms]
  by (auto dest: measure_after_bids simp del: control_fields split: if_splits)

lemma fresh_not_concluding: "fresh E c \<Longrightarrow> \<not> concluding c"
  by (auto simp: fresh_def concluding_def)

lemma concluding_bids [simp]:
  "concluding (c\<lparr>ct_bid_pending := p\<rparr>) = concluding c"
  "concluding (c\<lparr>ct_bid_work := w\<rparr>) = concluding c"
  by (simp_all add: concluding_def outstanding_def)

lemma amount_pending [simp]: "amount (c\<lparr>ct_bid_pending := p\<rparr>) = amount c"
  by (simp add: amount_def)

lemma fresh_pending [simp]: "fresh E (c\<lparr>ct_bid_pending := p\<rparr>) = fresh E c"
  by (simp add: fresh_def outstanding_def)

lemma after_bids_concluding:
  assumes "\<not> sa_uses_v2 E" and "fresh E c" and "after_bids E c c'"
  shows "concluding c'"
  using assms
  by (auto simp: after_bids_def after_signals_def after_join_def concluding_def fresh_def outstanding_def
      finished_once_def asks_for_scores_def one_task_less_def split: if_splits)

lemma bid_task_completed_live:
  assumes quiet: "quiet_encoder E" and v1: "\<not> sa_uses_v2 E"
    and run: "bid_task_completed E ch s st = Some st'"
    and fresh: "0 < ct_bid_pending (control st) \<Longrightarrow> fresh E (control st)"
    and live: "concluding (control st) \<or> ct_bid_pending (control st) = int (amount (control st)) + 1"
  shows "live (control st')"
proof (cases "ct_bid_pending (control st) = 1")
  case True
  then have after: "after_bids E (control st\<lparr>ct_bid_pending := 0\<rparr>) (control st')"
    using bid_task_completed_control [OF quiet run] by (simp del: control_fields)
  have "fresh E (control st\<lparr>ct_bid_pending := 0\<rparr>)" using fresh True by (simp del: control_fields)
  from after_bids_concluding [OF v1 this after] show ?thesis by (simp add: live_def)
next
  case False
  then have c: "control st' = control st\<lparr>ct_bid_pending := ct_bid_pending (control st) - 1\<rparr>"
    using bid_task_completed_control [OF quiet run] by (simp del: control_fields)
  show ?thesis using live False by (auto simp: live_def c simp del: control_fields)
qed

section \<open>Steps\<close>

lemma fetch_bid_outcome:
  assumes "fetch_bid E ch accepted buyer r st = Some st'"
  obtains s st1 where "bid_task_completed E ch s st1 = Some st'" "control st1 = control st"
  | "control st' = control st\<lparr>ct_bid_work :=
        (length (sa_to_send st), sa_to_skip st, Suc (length (sa_awaited_bids st)))\<rparr>"
proof -
  obtain config g where g: "get_bids_config E buyer (gb_is_chaff r) st = (config, g)" by fastforce
  show ?thesis
    using assms g that by (auto simp: fetch_bid_def Let_def control_bid_work split: if_splits)
qed

lemma solicit_next_outcome:
  assumes run: "solicit_next E ch accepted st = Some st'" and work: "sa_to_send st \<noteq> [] \<or> 0 < sa_to_skip st"
  obtains (completed) s st1 st0 w where "bid_task_completed E ch s st1 = Some st0" "control st' = control st0"
      "control st1 = control st\<lparr>ct_bid_work := w\<rparr>"
      "amount (control st) = Suc (amount (control st1))"
      "control_measure (control st1) + 9 \<le> control_measure (control st)"
  | (sent) "control st' = control st\<lparr>ct_bid_work := (length (sa_to_send st) - 1, sa_to_skip st,
        Suc (length (sa_awaited_bids st)))\<rparr>" "sa_to_send st \<noteq> []"
proof -
  obtain st0 where c: "control st' = control st0" and round:
    "(case sa_to_send st of
        (b, r) # rest \<Rightarrow> fetch_bid E ch accepted b r (st\<lparr>sa_to_send := rest\<rparr>)
      | [] \<Rightarrow> bid_task_completed E ch TASK_SKIPPED (st\<lparr>sa_to_skip := sa_to_skip st - 1\<rparr>)) = Some st0"
    using run by (auto simp: solicit_next_def)
  show thesis
  proof (cases "sa_to_send st")
    case Nil
    then have skip: "0 < sa_to_skip st" using work by simp
    from Nil round have "bid_task_completed E ch TASK_SKIPPED (st\<lparr>sa_to_skip := sa_to_skip st - 1\<rparr>) = Some st0"
      by simp
    then show thesis
      by (rule completed [OF _ c]) (use skip Nil in \<open>auto simp: control_bid_work amount_def control_measure_def\<close>)
  next
    case (Cons p rest)
    obtain b r where "p = (b, r)" by (cases p)
    with Cons round have "fetch_bid E ch accepted b r (st\<lparr>sa_to_send := rest\<rparr>) = Some st0" by simp
    then show thesis
    proof (cases rule: fetch_bid_outcome)
      case (1 s st1)
      show thesis
        by (rule completed [OF 1(1) c]) (use Cons in \<open>simp_all add: 1(2) control_bid_work amount_def control_measure_def\<close>)
    next
      case 2
      show thesis by (rule sent) (use Cons 2 c in \<open>simp_all add: control_bid_work\<close>)
    qed
  qed
qed

lemma on_bid_answer_outcome:
  assumes run: "on_bid_answer E ch i n draw response st = Some st'" and work: "i < length (sa_awaited_bids st)"
  obtains s st1 where "bid_task_completed E ch s st1 = Some st'"
      "control st1 = control st\<lparr>ct_bid_work :=
         (length (sa_to_send st), sa_to_skip st, length (sa_awaited_bids st) - 1)\<rparr>"
proof -
  have "min (length (sa_awaited_bids st)) i + (length (sa_awaited_bids st) - Suc i)
      = length (sa_awaited_bids st) - 1" using work by simp
  then show thesis
    using run that
    by (auto simp: on_bid_answer_def on_fetch_bids_done_def record_updates_def Let_def control_bid_work
        simp del: control_fields split: prod.splits if_splits sum.splits)
qed

lemma measure_drops:
  "control_measure (c\<lparr>ct_scheduled := False\<rparr>) + 4 * of_bool (ct_scheduled c) = control_measure c"
  "control_measure (c\<lparr>ct_k_anon := False\<rparr>) + 3 * of_bool (ct_k_anon c) = control_measure c"
  "control_measure (c\<lparr>ct_signals := None\<rparr>) + 3 * of_bool (ct_signals c \<noteq> None) = control_measure c"
  "control_measure (c\<lparr>ct_scores := False\<rparr>) + of_bool (ct_scores c) = control_measure c"
  by (simp_all add: control_measure_def split: prod.split)

lemma measure_k_anon_query:
  "ct_scheduled c \<Longrightarrow> control_measure (c\<lparr>ct_scheduled := False, ct_k_anon := True\<rparr>) < control_measure c"
  by (simp add: control_measure_def split: prod.split)

lemma select_ad_step_measure:
  assumes quiet: "quiet_encoder E" and step: "select_ad_step E st (Some st')"
  shows "sa_remaining st' < sa_remaining st"
  unfolding sa_remaining_def
  using step
proof (cases rule: select_ad_step.cases)
  case (solicits ch accepted)
  from solicits(1) [symmetric] solicits(2) show "control_measure (control st') < control_measure (control st)"
  proof (cases rule: solicit_next_outcome)
    case (completed s st1 st0 w)
    then show ?thesis using measure_bid_task [OF quiet completed(1)] by (simp del: control_fields)
  next
    case sent
    then show ?thesis by (cases "sa_to_send st") (simp_all add: control_measure_def)
  qed
next
  case (bid_answered i ch n draw response)
  from bid_answered(1) [symmetric] bid_answered(2) obtain s st1
    where run: "bid_task_completed E ch s st1 = Some st'"
      and c: "control st1 = control st\<lparr>ct_bid_work :=
         (length (sa_to_send st), sa_to_skip st, length (sa_awaited_bids st) - 1)\<rparr>"
    by (rule on_bid_answer_outcome)
  have "control_measure (control st1) + 9 = control_measure (control st)"
    using bid_answered(2) by (simp add: c control_measure_def)
  then show "control_measure (control st') < control_measure (control st)"
    using measure_bid_task [OF quiet run] by simp
next
  case (k_anon_runs ch)
  define c where "c = control st"
  have sched: "ct_scheduled c" using k_anon_runs(2) by (simp add: c_def)
  from query_k_anon_hashes_after [OF quiet k_anon_runs(1) [symmetric]]
  have "control st' = c\<lparr>ct_scheduled := False, ct_k_anon := True\<rparr>
      \<or> after_join (c\<lparr>ct_scheduled := False\<rparr>) (control st')"
    by (simp add: c_def del: control_fields)
  then show "control_measure (control st') < control_measure (control st)"
    unfolding c_def [symmetric]
    using measure_k_anon_query [OF sched] measure_drops(1) [of c] sched
      measure_after_join [of "c\<lparr>ct_scheduled := False\<rparr>" "control st'"]
    by (elim disjE) simp_all
next
  case (k_anon_answered ch hashes)
  from measure_after_join [OF on_k_anon_answer_after [OF quiet k_anon_answered(1) [symmetric]]]
  show "control_measure (control st') < control_measure (control st)"
    using k_anon_answered(2) measure_drops(2) [of "control st"] by simp
next
  case (signals_v1_answered ch result)
  from measure_after_join [OF on_signals_v1_answer_after [OF quiet signals_v1_answered(1) [symmetric]]]
  show "control_measure (control st') < control_measure (control st)"
    using signals_v1_answered(2) measure_drops(3) [of "control st"] by simp
next
  case (signals_v2_answered ch lookup)
  from on_signals_v2_answer_after [OF quiet signals_v2_answered(1) [symmetric]]
  show "control_measure (control st') < control_measure (control st)"
    using signals_v2_answered(2) measure_drops(3) [of "control st"]
      measure_after_join [of "control st\<lparr>ct_signals := None\<rparr>" "control st'"]
    by (elim disjE) simp_all
next
  case (scores_answered ch scores)
  from on_scores_answer_after [OF quiet scores_answered(1) [symmetric]]
  show "control_measure (control st') < control_measure (control st)"
    using scores_answered(2) measure_drops(4) [of "control st"] by simp
qed

text \<open>Steps that are not about bids keep what is concluding.\<close>

lemma after_join_concluding:
  assumes "after_join c c'" and "ct_join c = 1 \<or> concluding (one_task_less c)"
  shows "concluding c'"
  using assms by (auto simp: after_join_def concluding_def finished_once_def asks_for_scores_def split: if_splits)

lemma k_anon_query_concluding:
  "concluding c \<Longrightarrow> outstanding c \<Longrightarrow> concluding (c\<lparr>ct_scheduled := False, ct_k_anon := True\<rparr>)"
  by (auto simp: concluding_def outstanding_def)

lemma k_anon_answer_concluding:
  assumes "settled c" and "outstanding c" and "concluding c"
    and "after_join (c\<lparr>ct_scheduled := False, ct_k_anon := False\<rparr>) c'"
  shows "concluding c'"
  using assms by (auto simp: settled_def after_join_def outstanding_def finished_once_def
      asks_for_scores_def one_task_less_def concluding_def split: if_splits)

lemma signals_answer_concluding:
  assumes "settled c" and "ct_signals c \<noteq> None" and "after_join (c\<lparr>ct_signals := None\<rparr>) c'"
  shows "concluding c'"
  using assms by (auto simp: settled_def after_join_def outstanding_def finished_once_def
      asks_for_scores_def one_task_less_def concluding_def split: if_splits)

lemma finished_once_concluding [simp]: "concluding (finished_once c)"
  by (simp add: concluding_def finished_once_def)

lemma live_bids_not_fresh:
  assumes "live c" and "flow_inv E c" and "\<not> fresh E c"
  shows "concluding c"
  using assms by (auto simp: live_def flow_inv_def bid_work_def amount_def)

lemma select_ad_step_live:
  assumes quiet: "quiet_encoder E" and v1: "\<not> sa_uses_v2 E" and step: "select_ad_step E st (Some st')"
    and inv: "flow_inv E (control st)" and live: "live (control st)"
  shows "live (control st')"
proof -
  have settled: "settled (control st)" using inv by (simp add: flow_inv_def)
  have fresh: "fresh E (control st)" if "bid_work (control st)" "0 < ct_bid_pending (control st)"
    using inv that by (simp add: flow_inv_def del: control_fields)
  from step show ?thesis
  proof (cases rule: select_ad_step.cases)
    case (solicits ch accepted)
    then have work: "bid_work (control st)" by (auto simp: bid_work_def)
    from solicits(1) [symmetric] solicits(2) show ?thesis
    proof (cases rule: solicit_next_outcome)
      case (completed s st1 st0 w)
      have "live (control st0)"
        by (rule bid_task_completed_live [OF quiet v1 completed(1)])
          (use fresh [OF work] live completed(4) in
            \<open>auto simp: completed(3) live_def simp del: control_fields\<close>)
      then show ?thesis by (simp add: completed(2))
    next
      case sent
      then show ?thesis using live by (cases "sa_to_send st") (auto simp: live_def amount_def)
    qed
  next
    case (bid_answered i ch n draw response)
    then have work: "bid_work (control st)" by (auto simp: bid_work_def)
    from bid_answered(1) [symmetric] bid_answered(2) obtain s st1
      where run: "bid_task_completed E ch s st1 = Some st'"
        and c: "control st1 = control st\<lparr>ct_bid_work :=
           (length (sa_to_send st), sa_to_skip st, length (sa_awaited_bids st) - 1)\<rparr>"
      by (rule on_bid_answer_outcome)
    have "amount (control st) = Suc (amount (control st1))"
      using bid_answered(2) by (simp add: c amount_def)
    then show ?thesis
      by (intro bid_task_completed_live [OF quiet v1 run])
        (use fresh [OF work] live in \<open>auto simp: c live_def simp del: control_fields\<close>)
  next
    case (k_anon_runs ch)
    then have out: "outstanding (control st)" by (simp add: outstanding_def)
    then have con: "concluding (control st)" by (intro live_bids_not_fresh [OF live inv]) (simp add: fresh_def)
    from settled out k_anon_runs(2) have k: "\<not> ct_k_anon (control st)" by (auto simp: settled_def)
    from query_k_anon_hashes_after [OF quiet k_anon_runs(1) [symmetric]] show ?thesis
    proof
      assume "control st' = control (st\<lparr>sa_k_anon_scheduled := False\<rparr>)\<lparr>ct_k_anon := True\<rparr>"
      then have "control st' = control st\<lparr>ct_scheduled := False, ct_k_anon := True\<rparr>"
        by (simp del: control_fields)
      with k_anon_query_concluding [OF con out] show ?thesis by (simp add: live_def)
    next
      assume "after_join (control (st\<lparr>sa_k_anon_scheduled := False\<rparr>)) (control st')"
      then have "after_join (control st\<lparr>ct_scheduled := False, ct_k_anon := False\<rparr>) (control st')"
        by (simp add: idle_update(1) [OF k] del: control_fields)
      from k_anon_answer_concluding [OF settled out con this] show ?thesis by (simp add: live_def)
    qed
  next
    case (k_anon_answered ch hashes)
    then have out: "outstanding (control st)" by (simp add: outstanding_def)
    then have con: "concluding (control st)" by (intro live_bids_not_fresh [OF live inv]) (simp add: fresh_def)
    from settled k_anon_answered(2) have k: "\<not> ct_scheduled (control st)" by (auto simp: settled_def)
    from on_k_anon_answer_after [OF quiet k_anon_answered(1) [symmetric]]
    have "after_join (control st\<lparr>ct_scheduled := False, ct_k_anon := False\<rparr>) (control st')"
      by (simp add: idle_update(2) [OF k] del: control_fields)
    from k_anon_answer_concluding [OF settled out con this] show ?thesis by (simp add: live_def)
  next
    case (signals_v1_answered ch result)
    then have aw: "ct_signals (control st) \<noteq> None" by simp
    from signals_answer_concluding [OF settled aw
        on_signals_v1_answer_after [OF quiet signals_v1_answered(1) [symmetric]]]
    show ?thesis by (simp add: live_def)
  next
    case (signals_v2_answered ch lookup)
    then have aw: "ct_signals (control st) \<noteq> None" by simp
    from on_signals_v2_answer_after [OF quiet signals_v2_answered(1) [symmetric]]
      signals_answer_concluding [OF settled aw]
    show ?thesis by (auto simp: live_def simp del: control_fields)
  next
    case (scores_answered ch scores)
    from on_scores_answer_after [OF quiet scores_answered(1) [symmetric]] show ?thesis
      by (simp add: live_def)
  qed
qed

section \<open>A call that is stuck has finished\<close>

text \<open>
  The tracker of the bids counts as many tasks as there are requests sent and buyers skipped. With
  cached buyers it may count more.
\<close>

definition tasks_match :: "'g sfe_env \<Rightarrow> bool" where
  "tasks_match E \<longleftrightarrow>
     (\<forall>create buyers input inputs g.
        let f = fetch_bids (en_rng E) (en_config E) create (en_invoked E) buyers input inputs g
        in int (length (bf_sent f) + bf_skipped f) = bf_num_tasks f)"

lemma start_fetching_bids_live:
  assumes quiet: "quiet_encoder E" and v1: "\<not> sa_uses_v2 E" and tasks: "tasks_match E"
    and run: "start_fetching_bids E ch st = Some st'" and idle: "idle (control st)"
    and join: "ct_join (control st) = (if sa_enforce_kanon st \<and> sa_fetches_signals E then 2 else 1)"
  shows "live (control st')"
proof -
  define f where "f = fetch_bids (en_rng E) (en_config E) (create_sa_get_bids_request E st) (en_invoked E)
            (ac_buyer_list (sa_config st)) (sa_input st) (sa_buyer_inputs st) (sa_rng st)"
  define st0 where "st0 = st\<lparr>sa_bid_tracker := set_num_tasks_to_track (bf_num_tasks f), sa_rng := bf_rng f\<rparr>"
  have fresh: "fresh E (control st0)"
    using idle join by (simp add: fresh_def idle_def outstanding_def st0_def)
  show ?thesis
  proof (cases "bf_num_tasks f = 0")
    case True
    then have "on_all_bids_done E ch True st0 = Some st'"
      using run by (simp add: start_fetching_bids_def Let_def f_def [symmetric] st0_def)
    from after_bids_concluding [OF v1 fresh on_all_bids_done_control [OF quiet this]] show ?thesis
      by (simp add: live_def)
  next
    case False
    then have "st' = cache_invoked_buyers E
        (st0\<lparr>sa_to_send := bf_sent f, sa_to_skip := bf_skipped f, sa_invoked := bf_invoked f\<rparr>)"
      using run by (simp add: start_fetching_bids_def Let_def f_def [symmetric] st0_def)
    moreover have "bf_num_tasks f = int (length (bf_sent f) + bf_skipped f)"
      using tasks by (simp add: tasks_match_def Let_def f_def)
    moreover have "sa_awaited_bids st = []" using idle by (simp add: idle_def bid_work_def)
    moreover have "0 < length (bf_sent f) + bf_skipped f" using False calculation(2) by linarith
    ultimately show ?thesis
      by (simp add: live_def amount_def control_bid_work set_num_tasks_to_track_def st0_def)
  qed
qed

lemma validate_and_fetch_live:
  assumes quiet: "quiet_encoder E" and v1: "\<not> sa_uses_v2 E" and tasks: "tasks_match E"
    and run: "validate_and_fetch E ch st = Some st'" and idle: "idle (control st)"
    and join: "ct_join (control st) = (if sa_enforce_kanon st \<and> sa_fetches_signals E then 2 else 1)"
  shows "live (control st')"
  using run
proof (cases rule: validate_and_fetch_outcome)
  case (1 st1)
  from on_score_ads_done_control [OF quiet 1(1)] show ?thesis by (simp add: live_def)
next
  case (2 st1)
  show ?thesis
    by (rule start_fetching_bids_live [OF quiet v1 tasks 2(1)]) (simp_all only: 2(2,3) idle join)
qed

lemma execute_select_ad_live:
  assumes quiet: "quiet_encoder E" and v1: "\<not> sa_uses_v2 E" and tasks: "tasks_match E"
    and run: "execute_select_ad E ch = Some st"
  shows "live (control st)"
  using run
proof (cases rule: execute_select_ad_outcome)
  case (1 s st0)
  then show ?thesis by (simp add: live_def)
next
  case (2 st1)
  then show ?thesis using validate_and_fetch_live [OF quiet v1 tasks] by blast
qed

lemma reachable_live:
  assumes "quiet_encoder E" and "\<not> sa_uses_v2 E" and "tasks_match E" and "select_ad_reachable E st"
  shows "live (control st)"
  using assms(4)
proof induction
  case (executes ch st)
  then show ?case by (rule execute_select_ad_live [OF assms(1-3)])
next
  case (proceeds st st')
  show ?case
    by (rule select_ad_step_live [OF assms(1,2) proceeds(2) _ proceeds(3)])
      (rule reachable_flow_inv [OF assms(1) proceeds(1)])
qed

text \<open>As long as the measure is positive there is an event that can happen.\<close>

lemma no_event_left:
  assumes "\<And>r. \<not> select_ad_step E st r"
  shows "sa_to_send st = []" "sa_to_skip st = 0" "sa_awaited_bids st = []" "\<not> sa_k_anon_scheduled st"
    "\<not> sa_k_anon_awaited st" "sa_signals_awaited st = None" "\<not> sa_scores_awaited st"
proof -
  show "\<not> sa_k_anon_scheduled st" using assms select_ad_step.k_anon_runs by blast
  show "\<not> sa_k_anon_awaited st" using assms select_ad_step.k_anon_answered by blast
  show "\<not> sa_scores_awaited st" using assms select_ad_step.scores_answered by blast
  show "sa_signals_awaited st = None"
    using assms select_ad_step.signals_v1_answered select_ad_step.signals_v2_answered
    by (metis not_None_eq signals_call.exhaust)
  show "sa_to_send st = []" "sa_to_skip st = 0" using assms select_ad_step.solicits by blast+
  show "sa_awaited_bids st = []"
    using assms select_ad_step.bid_answered by (metis length_greater_0_conv)
qed

lemma stuck_call_has_finished:
  assumes "quiet_encoder E" and "\<not> sa_uses_v2 E" and "tasks_match E" and "select_ad_reachable E st"
    and stuck: "\<And>r. \<not> select_ad_step E st r"
  shows "length (sa_finished st) = 1"
proof -
  have "live (control st)" by (rule reachable_live [OF assms(1-4)])
  then have "sa_finished st \<noteq> []"
    using no_event_left [OF stuck] by (simp add: live_def concluding_def outstanding_def amount_def)
  moreover have "length (sa_finished st) \<le> 1"
    by (rule reachable_finished_at_most_once [OF assms(1,4)])
  ultimately show ?thesis by (cases "sa_finished st") auto
qed

lemma no_step_at_zero:
  assumes "sa_remaining st = 0"
  shows "\<not> select_ad_step E st r"
proof
  assume "select_ad_step E st r"
  then show False
    using assms by (cases rule: select_ad_step.cases) (auto simp: sa_remaining_def control_measure_def)
qed

lemma step_while_positive: "sa_remaining st \<noteq> 0 \<Longrightarrow> \<exists>r. select_ad_step E st r"
  using no_event_left [of E st] by (fastforce simp: sa_remaining_def control_measure_def)

end
