(* ===== verification/Select_Ad_KAnon.thy ===== *)
theory Select_Ad_KAnon
  imports Select_Ad_Progress
begin

text \<open>
  In every reachable SelectAd call that enforces k-anonymity, an ad that a ScoreAds request declares
  k-anonymous has all its hashes among those the k-anonymity service confirmed for this call.
\<close>

section \<open>The hashes of an ad\<close>

definition hashes_of_ad :: "hashing \<Rightarrow> string \<Rightarrow> ad_with_bid \<Rightarrow> string list" where
  "hashes_of_ad H report_win_url ad =
     sha256 H (plain_text_key_for_ad_render_url H (aw_interest_group_owner ad) report_win_url (aw_render ad))
     # sha256 H (plain_text_key_for_reporting_id H (aw_interest_group_owner ad) (aw_interest_group_name ad)
         report_win_url (aw_render ad)
         \<lparr>rip_buyer_reporting_id = aw_buyer_reporting_id ad,
          rip_buyer_and_seller_reporting_id = aw_buyer_and_seller_reporting_id ad,
          rip_selected_buyer_and_seller_reporting_id = aw_selected_buyer_and_seller_reporting_id ad\<rparr>)
     # map (\<lambda>url. sha256 H (plain_text_key_for_ad_component_render_url H url)) (aw_ad_components ad)"

lemma hashes_of_ad_of_bid [simp]:
  "hashes_of_ad H url (ad_of_bid client k status input owner (i, b)) = k_anon_hashes_of_bid H owner url b"
  by (simp add: hashes_of_ad_def k_anon_hashes_of_bid_def reporting_ids_of_bid_def)

definition confirmed_ad :: "'g sfe_env \<Rightarrow> string set \<Rightarrow> ad_with_bid \<Rightarrow> bool" where
  "confirmed_ad E queried ad \<longleftrightarrow>
     (\<exists>url. map_of (sf_report_win_urls (en_config E)) (aw_interest_group_owner ad) = Some url
        \<and> set (hashes_of_ad (en_hashing E) url ad) \<subseteq> queried)"

definition confirmed_request :: "'g sfe_env \<Rightarrow> string set \<Rightarrow> score_ads_raw_request \<Rightarrow> bool" where
  "confirmed_request E queried r \<longleftrightarrow>
     (\<forall>ad \<in> set (rq_ad_bids r). aw_k_anon_status ad \<longrightarrow> confirmed_ad E queried ad)"

definition confirmed_statuses :: "'g select_ad \<Rightarrow> bool" where
  "confirmed_statuses st \<longleftrightarrow>
     (\<forall>bid. k_anon_status (sa_k_anon_status st) bid
        \<longrightarrow> (\<exists>hashes. (bid, hashes) \<in> set (sa_hashes st) \<and> set hashes \<subseteq> sa_queried st))"

definition hashes_of_bids :: "'g sfe_env \<Rightarrow> 'g select_ad \<Rightarrow> bool" where
  "hashes_of_bids E st \<longleftrightarrow>
     distinct (map fst (sa_bids st)) \<and> set (sa_hashes st) \<subseteq> set (sa_hashes_for_bids E st)"

lemma Pa_hashes_for_bids:
  assumes "(Pa_bid owner i, hashes) \<in> set (sa_hashes_for_bids E st)"
  shows "(Pa_bid owner i, hashes)
    \<in> set (get_k_anon_hashes_for_bids (en_hashing E) (sf_report_win_urls (en_config E)) (sa_bids st))"
  using assms
  by (auto simp: sa_hashes_for_bids_def get_k_anon_hashes_for_bids_for_app_def k_anon_hashes_of_pas_buyer_def
      split: if_splits option.splits)

lemma created_request_ads:
  assumes "create_sa_score_ads_request E st = Some (r, m)" and "ad \<in> set (rq_ad_bids r)"
  obtains client owner resp i where "(owner, resp) \<in> set (sa_bids st)" and "i < length (gr_bids resp)"
    and "ad = ad_of_bid client (sa_enforce_kanon st) (sa_k_anon_status st)
          (the (map_of (sa_buyer_inputs st) owner)) owner (i, gr_bids resp ! i)"
proof -
  from assms obtain ads m' where ads: "collect_ad_bids (sr_client_type (en_request E)) (sa_enforce_kanon st)
      (sa_k_anon_status st) (sa_buyer_inputs st) (sa_bids st) ([], Map.empty) = Some (ads, m')"
      and ad: "ad \<in> set ads"
    by (auto simp: create_sa_score_ads_request_def create_score_ads_request_for_app_def
        create_score_ads_request_def split: if_splits option.splits prod.splits)
  from collect_ad_bids_ads [OF ads] ad have "ad \<in> set (concat (map (ads_of_buyer (sr_client_type (en_request E))
      (sa_enforce_kanon st) (sa_k_anon_status st) (sa_buyer_inputs st)) (sa_bids st)))" by simp
  then show thesis by (rule mem_ads_of_buyers) (rule that)
qed

lemma created_request_confirmed:
  assumes req: "create_sa_score_ads_request E st = Some (r, m)" and enforce: "sa_enforce_kanon st"
    and bids: "hashes_of_bids E st" and statuses: "confirmed_statuses st"
  shows "confirmed_request E (sa_queried st) r"
  unfolding confirmed_request_def
proof (intro ballI impI)
  fix ad assume mem: "ad \<in> set (rq_ad_bids r)" and status: "aw_k_anon_status ad"
  from req mem obtain client owner resp i where resp: "(owner, resp) \<in> set (sa_bids st)"
    and "i < length (gr_bids resp)"
    and ad: "ad = ad_of_bid client (sa_enforce_kanon st) (sa_k_anon_status st)
          (the (map_of (sa_buyer_inputs st) owner)) owner (i, gr_bids resp ! i)"
    by (rule created_request_ads)
  from status ad enforce have "k_anon_status (sa_k_anon_status st) (Pa_bid owner i)" by simp
  then obtain hashes where h: "(Pa_bid owner i, hashes) \<in> set (sa_hashes st)" "set hashes \<subseteq> sa_queried st"
    using statuses by (auto simp: confirmed_statuses_def)
  then have "(Pa_bid owner i, hashes) \<in> set (sa_hashes_for_bids E st)"
    using bids by (auto simp: hashes_of_bids_def)
  from Pa_hashes_for_bids [OF this] obtain url
    where "map_of (sf_report_win_urls (en_config E)) owner = Some url"
      and "hashes = k_anon_hashes_of_bid (en_hashing E) owner url (gr_bids resp ! i)"
    by (rule mem_k_anon_hashes) (use bids resp in \<open>auto simp: hashes_of_bids_def\<close>)
  with h(2) show "confirmed_ad E (sa_queried st) ad" by (auto simp: confirmed_ad_def ad)
qed

section \<open>What the handlers leave alone\<close>

definition kanon_part :: "'g select_ad \<Rightarrow> bool \<times> string set \<times> (bid_address \<rightharpoonup> bool)
    \<times> (bid_address \<times> string list) list \<times> score_ads_raw_request option" where
  "kanon_part st =
     (sa_enforce_kanon st, sa_queried st, sa_k_anon_status st, sa_hashes st, sa_scoring_request st)"

lemma kanon_part_finish [simp]: "kanon_part (finish_select_ad s st) = kanon_part st"
  by (simp add: kanon_part_def finish_select_ad_def)

lemma kanon_part_fold_finish [simp]: "kanon_part (fold finish_select_ad ss st) = kanon_part st"
  by (induction ss arbitrary: st) simp_all

lemma kanon_part_updates [simp]:
  "kanon_part (st\<lparr>sa_ciphertext := x1\<rparr>) = kanon_part st"
  "kanon_part (st\<lparr>sa_errors := x2\<rparr>) = kanon_part st"
  "kanon_part (st\<lparr>sa_bids := x3\<rparr>) = kanon_part st"
  "kanon_part (st\<lparr>sa_debug_urls := x4\<rparr>) = kanon_part st"
  "kanon_part (st\<lparr>sa_pings := x5\<rparr>) = kanon_part st"
  "kanon_part (st\<lparr>sa_signals := x6\<rparr>) = kanon_part st"
  "kanon_part (st\<lparr>sa_maybe_signals := x7\<rparr>) = kanon_part st"
  "kanon_part (st\<lparr>sa_ig_indices := x8\<rparr>) = kanon_part st"
  "kanon_part (st\<lparr>sa_scores_awaited := b1\<rparr>) = kanon_part st"
  "kanon_part (st\<lparr>sa_signals_awaited := c1\<rparr>) = kanon_part st"
  "kanon_part (st\<lparr>sa_k_anon_awaited := b2\<rparr>) = kanon_part st"
  "kanon_part (st\<lparr>sa_k_anon_scheduled := b3\<rparr>) = kanon_part st"
  "kanon_part (st\<lparr>sa_join_tracker := t1\<rparr>) = kanon_part st"
  "kanon_part (st\<lparr>sa_bid_tracker := t2\<rparr>) = kanon_part st"
  "kanon_part (st\<lparr>sa_to_send := x9\<rparr>) = kanon_part st"
  "kanon_part (st\<lparr>sa_to_skip := n1\<rparr>) = kanon_part st"
  "kanon_part (st\<lparr>sa_awaited_bids := x10\<rparr>) = kanon_part st"
  "kanon_part (st\<lparr>sa_sent := x11\<rparr>) = kanon_part st"
  "kanon_part (st\<lparr>sa_rng := x12\<rparr>) = kanon_part st"
  "kanon_part (st\<lparr>sa_medians := x13\<rparr>) = kanon_part st"
  "kanon_part (st\<lparr>sa_updates := x14\<rparr>) = kanon_part st"
  "kanon_part (st\<lparr>sa_cached := x15\<rparr>) = kanon_part st"
  "kanon_part (st\<lparr>sa_invoked := x16\<rparr>) = kanon_part st"
  "kanon_part (st\<lparr>sa_priority_signals := x17\<rparr>) = kanon_part st"
  "kanon_part (st\<lparr>sa_error := x18\<rparr>) = kanon_part st"
  "kanon_part (st\<lparr>sa_config := x19\<rparr>) = kanon_part st"
  by (simp_all add: kanon_part_def)

lemma send_response_kanon: "send_response E high ghosts st = Some st' \<Longrightarrow> kanon_part st' = kanon_part st"
  by (auto simp: send_response_def Let_def split: option.splits prod.splits sum.splits)

lemma on_score_ads_done_kanon: "on_score_ads_done E r st = Some st' \<Longrightarrow> kanon_part st' = kanon_part st"
  by (auto simp: on_score_ads_done_def record_ghost_winners_def record_contributions_def report_on_bids_def
      split: if_splits sum.splits prod.splits option.splits dest!: send_response_kanon)

text \<open>The call finishes, or is sent for scoring.\<close>

definition scored_or_finished :: "'g sfe_env \<Rightarrow> 'g select_ad \<Rightarrow> 'g select_ad \<Rightarrow> bool" where
  "scored_or_finished E st st' \<longleftrightarrow>
     kanon_part st' = kanon_part st
     \<or> (\<exists>r m signals. create_sa_score_ads_request E (st\<lparr>sa_signals := signals\<rparr>) = Some (r, m)
         \<and> kanon_part st' = kanon_part (st\<lparr>sa_scoring_request := Some r\<rparr>)
         \<and> sa_scores_awaited st' \<and> sa_bids st' = sa_bids st)"

lemma score_ads_kanon:
  assumes "score_ads E ch (st\<lparr>sa_signals := signals\<rparr>) = Some st'"
  shows "scored_or_finished E st st'"
proof (cases "sa_cancelled E ch At_score_ads")
  case True
  then show ?thesis using assms by (auto simp: score_ads_def scored_or_finished_def)
next
  case False
  with assms obtain r m where r: "create_sa_score_ads_request E (st\<lparr>sa_signals := signals\<rparr>) = Some (r, m)"
    by (auto simp: score_ads_def split: option.splits)
  define st1 where "st1 = st\<lparr>sa_ig_indices := m,
      sa_signals := map_option (\<lambda>s. s\<lparr>sg_scoring_signals := []\<rparr>) signals\<rparr>"
  have "(if rq_ad_bids r = [] \<and> rq_pas_ad_bids r = [] then on_score_ads_done E (Inr empty_response) st1
      else if ch_scoring_accepted ch then Some (st1\<lparr>sa_scoring_request := Some r, sa_scores_awaited := True\<rparr>)
      else Some (finish_select_ad select_ad_server_error st1)) = Some st'"
    using assms False r by (simp add: score_ads_def st1_def Let_def cong: if_cong split del: if_split)
  then consider "on_score_ads_done E (Inr empty_response) st1 = Some st'"
    | "st' = st1\<lparr>sa_scoring_request := Some r, sa_scores_awaited := True\<rparr>"
    | "st' = finish_select_ad select_ad_server_error st1"
    by (fastforce split: if_splits)
  then show ?thesis
  proof cases
    case 1
    from on_score_ads_done_kanon [OF this] show ?thesis by (simp add: scored_or_finished_def st1_def)
  next
    case 2
    have "kanon_part st' = kanon_part (st\<lparr>sa_scoring_request := Some r\<rparr>)"
      by (simp add: 2 st1_def kanon_part_def)
    moreover have "sa_scores_awaited st'" "sa_bids st' = sa_bids st" by (simp_all add: 2 st1_def)
    ultimately show ?thesis using r unfolding scored_or_finished_def by blast
  next
    case 3
    then show ?thesis by (simp add: scored_or_finished_def st1_def)
  qed
qed

lemma on_fetch_scoring_signals_done_kanon:
  assumes "on_fetch_scoring_signals_done E ch st = Some st'"
  shows "scored_or_finished E st st'"
proof -
  consider "score_ads E ch st = Some st'"
    | signals where "score_ads E ch (st\<lparr>sa_signals := signals\<rparr>) = Some st'"
    | st1 where "on_score_ads_done E (Inr empty_response) st1 = Some st'" "kanon_part st1 = kanon_part st"
    using assms
    by (auto simp: on_fetch_scoring_signals_done_def Let_def split: if_splits sum.splits)
  then show ?thesis
  proof cases
    case 1
    then have "score_ads E ch (st\<lparr>sa_signals := sa_signals st\<rparr>) = Some st'" by simp
    then show ?thesis by (rule score_ads_kanon)
  next
    case 2
    then show ?thesis by (rule score_ads_kanon)
  next
    case 3
    then show ?thesis using on_score_ads_done_kanon [OF 3(1)] by (simp add: scored_or_finished_def)
  qed
qed

section \<open>The invariant\<close>

definition untouched :: "'g select_ad \<Rightarrow> bool" where
  "untouched st \<longleftrightarrow> sa_hashes st = [] \<and> sa_k_anon_status st = Map.empty \<and> sa_scoring_request st = None"

definition bids_awaited :: "'g select_ad \<Rightarrow> bool" where
  "bids_awaited st \<longleftrightarrow> bid_work (control st) \<and> 0 < ct_bid_pending (control st)"

definition ended :: "'g select_ad \<Rightarrow> bool" where
  "ended st \<longleftrightarrow> sa_finished st \<noteq> [] \<or> sa_scores_awaited st"

definition kanon_inv :: "'g sfe_env \<Rightarrow> 'g select_ad \<Rightarrow> bool" where
  "kanon_inv E st \<longleftrightarrow>
     (sa_enforce_kanon st \<longrightarrow>
        (ended st \<or> hashes_of_bids E st) \<and> confirmed_statuses st
        \<and> (bids_awaited st \<longrightarrow> untouched st)
        \<and> (outstanding (control st) \<longrightarrow> sa_k_anon_status st = Map.empty)
        \<and> (outstanding (control st) \<or> sa_signals_awaited st \<noteq> None \<longrightarrow> sa_scoring_request st = None)
        \<and> (case sa_scoring_request st of None \<Rightarrow> True | Some r \<Rightarrow> confirmed_request E (sa_queried st) r))"

lemma ended_control: "ended st \<longleftrightarrow> 0 < ct_finished (control st) \<or> ct_scores (control st)"
  by (simp add: ended_def)

lemma kanon_part_eqD:
  assumes "kanon_part st' = kanon_part st"
  shows "sa_enforce_kanon st' = sa_enforce_kanon st" "sa_queried st' = sa_queried st"
    "sa_k_anon_status st' = sa_k_anon_status st" "sa_hashes st' = sa_hashes st"
    "sa_scoring_request st' = sa_scoring_request st"
    "untouched st' = untouched st" "confirmed_statuses st' = confirmed_statuses st"
  using assms by (simp_all add: kanon_part_def untouched_def confirmed_statuses_def)

lemma no_statuses [simp]: "sa_k_anon_status st = Map.empty \<Longrightarrow> confirmed_statuses st"
  by (simp add: confirmed_statuses_def k_anon_status_def)

lemma untouched_inv:
  assumes "untouched st" and "kanon_part st' = kanon_part st" and "ended st' \<or> distinct (map fst (sa_bids st'))"
  shows "kanon_inv E st'"
  using assms kanon_part_eqD [OF assms(2)] by (auto simp: kanon_inv_def untouched_def hashes_of_bids_def)

lemma kanon_inv_frame:
  assumes inv: "kanon_inv E st" and same: "kanon_part st' = kanon_part st"
    and "outstanding (control st') \<Longrightarrow> outstanding (control st)"
    and "sa_signals_awaited st' \<noteq> None \<Longrightarrow> sa_signals_awaited st \<noteq> None"
    and "bids_awaited st' \<Longrightarrow> bids_awaited st"
    and "sa_enforce_kanon st \<Longrightarrow> ended st' \<or> hashes_of_bids E st'"
  shows "kanon_inv E st'"
  using assms(1,3-) by (auto simp: kanon_inv_def kanon_part_eqD [OF same] split: option.splits)

section \<open>The join\<close>

lemma scored_or_finished_tracker:
  "scored_or_finished E (st\<lparr>sa_join_tracker := t\<rparr>) st' = scored_or_finished E st st'"
proof -
  have "create_sa_score_ads_request E (st\<lparr>sa_join_tracker := t, sa_signals := signals\<rparr>)
      = create_sa_score_ads_request E (st\<lparr>sa_signals := signals\<rparr>)" for signals
    by (simp add: create_sa_score_ads_request_def)
  moreover have "kanon_part (st\<lparr>sa_join_tracker := t, sa_scoring_request := Some r\<rparr>)
      = kanon_part (st\<lparr>sa_scoring_request := Some r\<rparr>)" for r by (simp add: kanon_part_def)
  ultimately show ?thesis by (simp add: scored_or_finished_def)
qed

lemma kanon_facts_updates [simp]:
  "hashes_of_bids E (st\<lparr>sa_signals := x1\<rparr>) = hashes_of_bids E st"
  "hashes_of_bids E (st\<lparr>sa_maybe_signals := x2\<rparr>) = hashes_of_bids E st"
  "hashes_of_bids E (st\<lparr>sa_signals_awaited := x3\<rparr>) = hashes_of_bids E st"
  "hashes_of_bids E (st\<lparr>sa_k_anon_awaited := b1\<rparr>) = hashes_of_bids E st"
  "hashes_of_bids E (st\<lparr>sa_k_anon_scheduled := b2\<rparr>) = hashes_of_bids E st"
  "hashes_of_bids E (st\<lparr>sa_queried := x4\<rparr>) = hashes_of_bids E st"
  "hashes_of_bids E (st\<lparr>sa_k_anon_status := x5\<rparr>) = hashes_of_bids E st"
  "confirmed_statuses (st\<lparr>sa_signals := x1\<rparr>) = confirmed_statuses st"
  "confirmed_statuses (st\<lparr>sa_maybe_signals := x2\<rparr>) = confirmed_statuses st"
  "confirmed_statuses (st\<lparr>sa_signals_awaited := x3\<rparr>) = confirmed_statuses st"
  by (simp_all add: hashes_of_bids_def confirmed_statuses_def sa_hashes_for_bids_def)

lemma join_task_completed_kanon:
  assumes quiet: "quiet_encoder E" and run: "join_task_completed E ch s st = Some st'"
  shows "(ct_join (control st) = 1 \<and> scored_or_finished E st st' \<and> ended st')
    \<or> (kanon_part st' = kanon_part st \<and> sa_bids st' = sa_bids st \<and> control st' = one_task_less (control st))"
proof -
  obtain t called where t: "task_completed s (sa_join_tracker st) = (t, called)"
    by (cases "task_completed s (sa_join_tracker st)")
  show ?thesis
  proof (cases called)
    case None
    then have "st' = st\<lparr>sa_join_tracker := t\<rparr>" using run t by (simp add: join_task_completed_def Let_def)
    then show ?thesis using task_completed_outcome [OF t] by (simp add: one_task_less_def)
  next
    case (Some any)
    then have join: "ct_join (control st) = 1" using task_completed_outcome [OF t] by simp
    from Some have "on_fetch_scoring_signals_done E ch (st\<lparr>sa_join_tracker := t\<rparr>) = Some st'"
      using run t by (simp add: join_task_completed_def Let_def)
    from on_fetch_scoring_signals_done_kanon [OF this]
      on_fetch_scoring_signals_done_control [OF quiet this]
    have "scored_or_finished E st st'" and "ended st'"
      unfolding scored_or_finished_tracker ended_control
      by (auto simp: finished_once_def asks_for_scores_def simp del: control_fields)
    with join show ?thesis by blast
  qed
qed

text \<open>\<open>st\<close> is the state in which the answer is no longer awaited.\<close>

lemma join_task_completed_kanon_inv:
  assumes quiet: "quiet_encoder E" and run: "join_task_completed E ch s st = Some st'"
    and settled: "settled (control st')"
    and waits: "\<not> bids_awaited st" and none: "sa_scoring_request st = None"
    and statuses: "sa_enforce_kanon st \<Longrightarrow> confirmed_statuses st"
    and out: "outstanding (control st) \<Longrightarrow> sa_k_anon_status st = Map.empty"
    and bids: "sa_enforce_kanon st \<Longrightarrow> ct_join (control st) = 1 \<Longrightarrow> hashes_of_bids E st"
    and bids': "sa_enforce_kanon st \<Longrightarrow> ended st \<or> hashes_of_bids E st"
  shows "kanon_inv E st'"
proof -
  have "same_bids (control st) (control st')"
    using after_join_same_bids [OF join_task_completed_after [OF quiet run]] .
  then have waits': "\<not> bids_awaited st'" using waits by (simp add: bids_awaited_def bid_work_def same_bids_def del: control_fields)
  from join_task_completed_kanon [OF quiet run] show ?thesis
  proof
    assume *: "ct_join (control st) = 1 \<and> scored_or_finished E st st' \<and> ended st'"
    then consider "kanon_part st' = kanon_part st"
      | r m signals where "create_sa_score_ads_request E (st\<lparr>sa_signals := signals\<rparr>) = Some (r, m)"
          "kanon_part st' = kanon_part (st\<lparr>sa_scoring_request := Some r\<rparr>)" "sa_scores_awaited st'"
      by (auto simp: scored_or_finished_def)
    then show ?thesis
    proof cases
      case 1
      have "outstanding (control st')  \<Longrightarrow> outstanding (control st)"
        using join_task_completed_after [OF quiet run]
        by (auto simp: after_join_def outstanding_def one_task_less_def finished_once_def
            asks_for_scores_def split: if_splits simp del: control_fields)
      then show ?thesis
        using * waits' none statuses out by (auto simp: kanon_inv_def kanon_part_eqD [OF 1])
    next
      case 2
      have "\<not> outstanding (control st')" "sa_signals_awaited st' = None"
        using settled 2(3) by (auto simp: settled_def)
      moreover have "confirmed_request E (sa_queried st) r" if "sa_enforce_kanon st"
        using created_request_confirmed [OF 2(1)] that bids [OF that] statuses [OF that] * by simp
      moreover have "confirmed_statuses st' = confirmed_statuses st"
        using 2(2) by (simp add: kanon_part_def confirmed_statuses_def)
      ultimately show ?thesis
        using * 2(2) waits' statuses by (auto simp: kanon_inv_def kanon_part_def)
    qed
  next
    assume *: "kanon_part st' = kanon_part st \<and> sa_bids st' = sa_bids st
      \<and> control st' = one_task_less (control st)"
    then have c: "control st' = one_task_less (control st)" by blast
    have "ended st' = ended st" "outstanding (control st') = outstanding (control st)"
      unfolding ended_control c by (simp_all add: outstanding_def one_task_less_def del: control_fields)
    moreover have "hashes_of_bids E st' = hashes_of_bids E st"
      using * by (simp add: hashes_of_bids_def kanon_part_def sa_hashes_for_bids_def)
    moreover note eqs = kanon_part_eqD [OF conjunct1 [OF *]]
    ultimately show ?thesis
      using waits' none statuses out bids' by (simp add: kanon_inv_def)
  qed
qed

section \<open>The query\<close>

lemma populated_confirmed:
  assumes "sa_k_anon_status st = Map.empty" and "sa_enforce_kanon st"
  shows "confirmed_statuses (populate_statuses st)"
  using assms by (auto simp: confirmed_statuses_def populate_statuses_def elim!: populated_status)

lemma kanon_populate [simp]:
  "sa_scoring_request (populate_statuses st) = sa_scoring_request st"
  "sa_enforce_kanon (populate_statuses st) = sa_enforce_kanon st"
  "ended (populate_statuses st) = ended st"
  "hashes_of_bids E (populate_statuses st) = hashes_of_bids E st"
  "bids_awaited (populate_statuses st) = bids_awaited st"
  by (simp_all add: populate_statuses_def ended_def hashes_of_bids_def sa_hashes_for_bids_def
      bids_awaited_def del: control_fields)

lemma awaited_updates [simp]:
  "bids_awaited (st\<lparr>sa_hashes := x1\<rparr>) = bids_awaited st"
  "bids_awaited (st\<lparr>sa_queried := x2\<rparr>) = bids_awaited st"
  "bids_awaited (st\<lparr>sa_maybe_signals := x3\<rparr>) = bids_awaited st"
  "bids_awaited (st\<lparr>sa_bids := x4\<rparr>) = bids_awaited st"
  "bids_awaited (st\<lparr>sa_k_anon_awaited := b1\<rparr>) = bids_awaited st"
  "bids_awaited (st\<lparr>sa_k_anon_scheduled := b2\<rparr>) = bids_awaited st"
  "bids_awaited (st\<lparr>sa_signals_awaited := c\<rparr>) = bids_awaited st"
  "ended (st\<lparr>sa_hashes := x1\<rparr>) = ended st"
  "ended (st\<lparr>sa_queried := x2\<rparr>) = ended st"
  "ended (st\<lparr>sa_maybe_signals := x3\<rparr>) = ended st"
  "ended (st\<lparr>sa_k_anon_awaited := b1\<rparr>) = ended st"
  "ended (st\<lparr>sa_k_anon_scheduled := b2\<rparr>) = ended st"
  "ended (st\<lparr>sa_signals_awaited := c\<rparr>) = ended st"
  by (simp_all add: bids_awaited_def bid_work_def ended_def)

lemma query_k_anon_hashes_inv:
  assumes quiet: "quiet_encoder E" and run: "query_k_anon_hashes E ch st = Some st'"
    and settled: "settled (control st')" and waits: "\<not> bids_awaited st"
    and none: "sa_scoring_request st = None" "sa_k_anon_status st = Map.empty"
    and out: "\<not> outstanding (control st)"
    and bids: "sa_enforce_kanon st \<Longrightarrow> ended st \<or> distinct (map fst (sa_bids st))"
    and join: "ct_join (control st) = 1 \<Longrightarrow> \<not> ended st"
  shows "kanon_inv E st'"
proof -
  define st1 where "st1 = st\<lparr>sa_hashes := sa_hashes_for_bids E st\<rparr>"
  have c: "control st1 = control st" by (simp add: st1_def)
  have same: "sa_scoring_request st1 = None" "sa_k_anon_status st1 = Map.empty"
      "sa_enforce_kanon st1 = sa_enforce_kanon st" "ended st1 = ended st" "\<not> bids_awaited st1"
    using none waits by (simp_all add: st1_def)
  have bids1: "ended st \<or> hashes_of_bids E st1" if "sa_enforce_kanon st"
    using bids [OF that] by (auto simp: st1_def hashes_of_bids_def sa_hashes_for_bids_def)
  have out1: "\<not> outstanding (control (populate_statuses st1))" "\<not> outstanding (control st1)"
    using out by (simp_all add: c del: control_fields)
  have join1: "ct_join (control st1) = 1 \<Longrightarrow> \<not> ended st" using join c by simp
  have "(if list_all (\<lambda>(bid, hs). hs = []) (sa_hashes st1) then join_task_completed E ch TASK_SKIPPED st1
      else if is_ok (ch_k_anon_status ch) then Some (st1\<lparr>sa_k_anon_awaited := True\<rparr>)
      else join_task_completed E ch TASK_ERROR (populate_statuses st1)) = Some st'"
    using run unfolding query_k_anon_hashes_def Let_def st1_def .
  then consider "join_task_completed E ch TASK_SKIPPED st1 = Some st'"
    | "st' = st1\<lparr>sa_k_anon_awaited := True\<rparr>"
    | "join_task_completed E ch TASK_ERROR (populate_statuses st1) = Some st'"
    by (metis option.inject)
  then show ?thesis
  proof cases
    case 1
    show ?thesis
      by (rule join_task_completed_kanon_inv [OF quiet 1 settled])
        (use same bids1 join1 out1 in \<open>auto simp del: control_fields\<close>)
  next
    case 2
    then show ?thesis using same bids1 none by (auto simp: kanon_inv_def simp del: control_fields)
  next
    case 3
    show ?thesis
      by (rule join_task_completed_kanon_inv [OF quiet 3 settled])
        (use same bids1 join1 out1 populated_confirmed [of st1] in \<open>auto simp del: control_fields\<close>)
  qed
qed

lemma settled_outstanding:
  "settled c \<Longrightarrow> outstanding c \<Longrightarrow> ct_join c = 1 \<Longrightarrow> ct_finished c = 0 \<and> \<not> ct_scores c"
  by (auto simp: settled_def)

lemma on_k_anon_answer_inv:
  assumes quiet: "quiet_encoder E" and run: "on_k_anon_answer E ch response st = Some st'"
    and inv: "kanon_inv E st" and flow: "flow_inv E (control st)" and settled: "settled (control st')"
    and awaited: "sa_k_anon_awaited st"
  shows "kanon_inv E st'"
proof -
  define st1 where "st1 = st\<lparr>sa_k_anon_awaited := False\<rparr>"
  have out: "outstanding (control st)" using awaited by (simp add: outstanding_def)
  have "settled (control st)" using flow by (simp add: flow_inv_def)
  then have now: "\<not> outstanding (control st1)" and join: "ct_join (control st) = 1 \<Longrightarrow> \<not> ended st"
    using awaited settled_outstanding [OF _ out]
    by (auto simp: st1_def outstanding_def settled_def ended_def)
  have waits: "\<not> bids_awaited st"
    using flow out by (auto simp: flow_inv_def bids_awaited_def fresh_def)
  show ?thesis
  proof (cases "sa_enforce_kanon st")
    case False
    have "sa_enforce_kanon st' = sa_enforce_kanon st"
      using on_k_anon_answer_after [OF quiet run]
      by (auto simp: after_join_def finished_once_def asks_for_scores_def one_task_less_def control_def
          split: if_splits)
    with False show ?thesis by (simp add: kanon_inv_def)
  next
    case True
    with inv out have facts: "ended st \<or> hashes_of_bids E st" "sa_k_anon_status st = Map.empty"
        "sa_scoring_request st = None"
      by (auto simp: kanon_inv_def)
    consider "join_task_completed E ch TASK_ERROR st1 = Some st'"
      | queried where "join_task_completed E ch TASK_SUCCESS
            (populate_statuses (st1\<lparr>sa_queried := queried\<rparr>)) = Some st'"
      using run by (auto simp: on_k_anon_answer_def Let_def st1_def split: sum.splits)
    then show ?thesis
    proof cases
      case 1
      show ?thesis
        by (rule join_task_completed_kanon_inv [OF quiet 1 settled])
          (use facts now join waits in \<open>auto simp: st1_def\<close>)
    next
      case 2
      show ?thesis
        by (rule join_task_completed_kanon_inv [OF quiet 2 settled])
          (use facts now join waits True in
            \<open>auto simp: st1_def outstanding_def intro!: populated_confirmed\<close>)
    qed
  qed
qed

section \<open>The other answers\<close>

lemma same_enforce:
  "after_join c c' \<Longrightarrow> ct_enforce c' = ct_enforce c"
  "after_bids E c c' \<Longrightarrow> ct_enforce c' = ct_enforce c"
  by (auto simp: after_join_def after_bids_def after_signals_def finished_once_def asks_for_scores_def
      one_task_less_def split: if_splits)

lemma not_enforced: "\<not> ct_enforce (control st) \<Longrightarrow> kanon_inv E st"
  by (simp add: kanon_inv_def)

lemma signals_join_inv:
  assumes quiet: "quiet_encoder E" and inv: "kanon_inv E st" and flow: "flow_inv E (control st)"
    and run: "join_task_completed E ch s st1 = Some st'" and settled: "settled (control st')"
    and awaited: "sa_signals_awaited st \<noteq> None"
    and st1: "st1 = st\<lparr>sa_signals_awaited := None, sa_maybe_signals := m\<rparr>"
  shows "kanon_inv E st'"
proof -
  have "settled (control st)" using flow by (simp add: flow_inv_def)
  then have going: "\<not> ended st" using awaited by (auto simp: settled_def ended_def)
  have waits: "\<not> bids_awaited st"
    using flow awaited by (auto simp: flow_inv_def bids_awaited_def fresh_def)
  show ?thesis
  proof (cases "sa_enforce_kanon st")
    case False
    then have "\<not> ct_enforce (control st')"
      using same_enforce(1) [OF join_task_completed_after [OF quiet run]] by (simp add: st1)
    then show ?thesis by (rule not_enforced)
  next
    case True
    with inv awaited going have facts: "hashes_of_bids E st" "sa_scoring_request st = None"
        "confirmed_statuses st" "outstanding (control st) \<longrightarrow> sa_k_anon_status st = Map.empty"
      by (auto simp: kanon_inv_def)
    show ?thesis
      by (rule join_task_completed_kanon_inv [OF quiet run settled])
        (use facts waits in \<open>auto simp: st1 outstanding_def\<close>)
  qed
qed

lemma ended_kanon_inv:
  assumes "kanon_inv E st" and "kanon_part st' = kanon_part st" and "ended st'"
    and "control st' = finished_once (c)" and "same_bids (control st) c"
    and "outstanding c \<Longrightarrow> outstanding (control st)" and "ct_signals c \<noteq> None \<Longrightarrow> sa_signals_awaited st \<noteq> None"
  shows "kanon_inv E st'"
proof (rule kanon_inv_frame [OF assms(1,2)])
  show "bids_awaited st' \<Longrightarrow> bids_awaited st"
    using assms(4,5) by (simp add: bids_awaited_def bid_work_def same_bids_def finished_once_def del: control_fields)
  show "outstanding (control st') \<Longrightarrow> outstanding (control st)"
    using assms(4,6) by (simp add: outstanding_def finished_once_def del: control_fields)
  have "ct_signals (control st') = ct_signals c" by (simp add: assms(4) finished_once_def del: control_fields)
  then show "sa_signals_awaited st' \<noteq> None \<Longrightarrow> sa_signals_awaited st \<noteq> None" using assms(7) by simp
qed (simp add: assms(3))

lemma finished_once_ended: "control st' = finished_once c \<Longrightarrow> ended st'"
  by (simp add: ended_control finished_once_def del: control_fields)

lemma on_signals_v1_answer_inv:
  assumes quiet: "quiet_encoder E" and inv: "kanon_inv E st" and flow: "flow_inv E (control st)"
    and run: "on_signals_v1_answer E ch result st = Some st'" and settled: "settled (control st')"
    and awaited: "sa_signals_awaited st \<noteq> None"
  shows "kanon_inv E st'"
proof -
  obtain s m where "join_task_completed E ch s (st\<lparr>sa_signals_awaited := None, sa_maybe_signals := m\<rparr>) = Some st'"
  proof (cases "sa_cancelled E ch At_signals_answer")
    case True
    then have "join_task_completed E ch TASK_CANCELLED
        (st\<lparr>sa_signals_awaited := None, sa_maybe_signals := sa_maybe_signals st\<rparr>) = Some st'"
      using run by (simp add: on_signals_v1_answer_def Let_def)
    then show thesis by (rule that)
  next
    case False
    with run that show thesis by (simp add: on_signals_v1_answer_def Let_def)
  qed
  from signals_join_inv [OF quiet inv flow this settled awaited refl] show ?thesis .
qed

lemma on_signals_v2_answer_inv:
  assumes quiet: "quiet_encoder E" and inv: "kanon_inv E st" and flow: "flow_inv E (control st)"
    and run: "on_signals_v2_answer E ch result st = Some st'" and settled: "settled (control st')"
    and awaited: "sa_signals_awaited st \<noteq> None"
  shows "kanon_inv E st'"
proof -
  define st1 where "st1 = st\<lparr>sa_signals_awaited := None\<rparr>"
  consider "st' = finish_select_ad select_ad_cancelled st1"
    | errors where "on_score_ads_done E (Inr empty_response) (st1\<lparr>sa_errors := errors\<rparr>) = Some st'"
    | m where "join_task_completed E ch TASK_SUCCESS (st1\<lparr>sa_maybe_signals := Inr m\<rparr>) = Some st'"
  proof (cases "sa_cancelled E ch At_signals_answer")
    case True
    with run show thesis
      by (intro that(1)) (simp add: on_signals_v2_answer_def Let_def st1_def)
  next
    case False
    then have going: "(case result of
          Inl e \<Rightarrow> on_score_ads_done E (Inr empty_response) (st1\<lparr>sa_errors :=
                report_error AD_SERVER_VISIBLE ''Internal Error'' SERVER_SIDE (sa_errors st1)\<rparr>)
        | Inr (Inl e) \<Rightarrow> None
        | Inr (Inr m) \<Rightarrow> join_task_completed E ch TASK_SUCCESS (st1\<lparr>sa_maybe_signals := Inr m\<rparr>)) = Some st'"
      using run unfolding on_signals_v2_answer_def Let_def st1_def by (simp only: if_False)
    show thesis
    proof (cases result)
      case (Inl e)
      with going show thesis by (intro that(2)) (simp only: sum.case)
    next
      case (Inr r)
      with going show thesis by (cases r) (auto intro: that(3))
    qed
  qed
  then show ?thesis
  proof cases
    case 1
    then have "control st' = finished_once (control st1)" by simp
    from ended_kanon_inv [OF inv _ finished_once_ended [OF this] this] show ?thesis
      by (auto simp: 1 st1_def same_bids_def outstanding_def)
  next
    case 2
    then have "control st' = finished_once (control st1)"
      using on_score_ads_done_control [OF quiet 2] by (simp del: control_fields)
    from ended_kanon_inv [OF inv _ finished_once_ended [OF this] this] show ?thesis
      using on_score_ads_done_kanon [OF 2] by (auto simp: st1_def same_bids_def outstanding_def)
  next
    case 3
    from signals_join_inv [OF quiet inv flow 3 settled awaited] show ?thesis by (simp add: st1_def)
  qed
qed

lemma on_scores_answer_inv:
  assumes quiet: "quiet_encoder E" and inv: "kanon_inv E st"
    and run: "on_scores_answer E ch result st = Some st'"
  shows "kanon_inv E st'"
proof -
  define st1 where "st1 = st\<lparr>sa_scores_awaited := False\<rparr>"
  have c: "control st' = finished_once (control st1)"
    using on_scores_answer_after [OF quiet run] by (simp add: st1_def del: control_fields)
  have "kanon_part st' = kanon_part st1"
    using run on_score_ads_done_kanon [of E result st1 st']
    by (auto simp: on_scores_answer_def Let_def st1_def [symmetric] split: if_splits)
  then have "kanon_part st' = kanon_part st" by (simp add: st1_def)
  from ended_kanon_inv [OF inv this finished_once_ended [OF c] c] show ?thesis
    by (simp add: st1_def same_bids_def outstanding_def)
qed

section \<open>Bids\<close>

lemma fetch_scoring_signals_kanon [simp]:
  "kanon_part (fetch_scoring_signals E ch st) = kanon_part st"
  "sa_bids (fetch_scoring_signals E ch st) = sa_bids st"
  by (simp_all add: fetch_scoring_signals_def fetch_signals_v1_def fetch_signals_v2_def finish_select_ad_def
      kanon_part_def split: sum.split)

lemma distinct_filtered:
  assumes "distinct (map fst bids)"
  shows "distinct (map fst (snd (filter_bids_with_mismatching_currency sf pas configs bids)))"
proof -
  have "map fst (map (filter_buyer configs) bids) = map fst bids"
    by (simp add: filter_buyer_def split: prod.split option.split)
  then have "distinct (map fst (map (filter_buyer configs) bids))" using assms by (simp only:)
  then show ?thesis by (simp add: filter_bids_with_mismatching_currency_def distinct_map_filter)
qed

lemma on_all_bids_done_inv:
  assumes quiet: "quiet_encoder E" and run: "on_all_bids_done E ch any st = Some st'"
    and fresh: "fresh E (control st)" and untouched: "untouched st"
    and distinct: "sa_enforce_kanon st \<Longrightarrow> distinct (map fst (sa_bids st))" and waits: "\<not> bids_awaited st"
  shows "kanon_inv E st'"
proof (cases "sa_enforce_kanon st")
  case False
  then have "\<not> ct_enforce (control st')"
    using same_enforce(2) [OF on_all_bids_done_control [OF quiet run]] by simp
  then show ?thesis by (rule not_enforced)
next
  case True
  define bids where "bids = snd (filter_bids_with_mismatching_currency (en_config E) (sa_pas_enabled E)
      (ac_per_buyer_config (sa_config st)) (sa_bids st))"
  have bids: "distinct (map fst bids)" unfolding bids_def by (rule distinct_filtered [OF distinct [OF True]])
  consider "kanon_part st' = kanon_part st" "ended st'"
    | "st' = fetch_scoring_signals E ch (st\<lparr>sa_bids := bids, sa_k_anon_scheduled := True\<rparr>)"
    | "query_k_anon_hashes E ch (st\<lparr>sa_bids := bids\<rparr>) = Some st'"
    using run True
    by (auto simp: on_all_bids_done_def Let_def bids_def ended_def finish_select_ad_def kanon_part_def
        split: if_splits prod.splits dest: on_score_ads_done_kanon)
      (metis finished_once_ended on_score_ads_done_control [OF quiet] ended_def kanon_part_eqD on_score_ads_done_kanon)+
  then show ?thesis
  proof cases
    case 1
    then show ?thesis by (intro untouched_inv [OF untouched]) simp_all
  next
    case 2
    then show ?thesis using bids by (intro untouched_inv [OF untouched]) simp_all
  next
    case 3
    show ?thesis
    proof (rule query_k_anon_hashes_inv [OF quiet 3])
      show "settled (control st')"
        by (rule after_bids_settled [OF fresh on_all_bids_done_control [OF quiet run]])
    qed (use untouched waits bids fresh in \<open>auto simp: untouched_def fresh_def ended_control simp del: control_fields\<close>)
  qed
qed

lemma hashes_of_more_bids:
  assumes "hashes_of_bids E st" and "kanon_part st1 = kanon_part st"
    and "sa_bids st1 = sa_bids st \<or> sa_bids st1 = al_emplace buyer r (sa_bids st)"
  shows "hashes_of_bids E st1"
proof -
  have "set (sa_bids st) \<subseteq> set (sa_bids st1)"
    using assms(3) by (auto simp: al_emplace_def split: option.splits)
  then have "set (sa_hashes_for_bids E st) \<subseteq> set (sa_hashes_for_bids E st1)"
    by (auto simp: sa_hashes_for_bids_def get_k_anon_hashes_for_bids_for_app_def get_k_anon_hashes_for_bids_def)
  moreover have "sa_hashes st1 = sa_hashes st" using assms(2) by (simp add: kanon_part_def)
  ultimately show ?thesis
    using assms(1,3) by (auto simp: hashes_of_bids_def al_emplace_distinct)
qed

text \<open>\<open>st1\<close> is the state in which the bid's answer has been taken in.\<close>

lemma bid_task_completed_kanon_inv:
  assumes quiet: "quiet_encoder E" and inv: "kanon_inv E st" and flow: "flow_inv E (control st)"
    and work: "bid_work (control st)" and run: "bid_task_completed E ch s st1 = Some st'"
    and st1: "control st1 = control st\<lparr>ct_bid_work := w\<rparr>" "kanon_part st1 = kanon_part st"
      "sa_bids st1 = sa_bids st \<or> sa_bids st1 = al_emplace buyer r (sa_bids st)"
  shows "kanon_inv E st'"
proof (cases "sa_enforce_kanon st")
  case False
  have "ct_enforce (control st') = ct_enforce (control st)"
    using bid_task_completed_control [OF quiet run]
    by (auto simp: st1(1) same_enforce(2) simp del: control_fields split: if_splits)
  with False show ?thesis by (intro not_enforced) simp
next
  case True
  obtain t called where t: "task_completed s (sa_bid_tracker st1) = (t, called)"
    by (cases "task_completed s (sa_bid_tracker st1)")
  define st2 where "st2 = st1\<lparr>sa_bid_tracker := t\<rparr>"
  have c2: "control st2 = control st\<lparr>ct_bid_work := w, ct_bid_pending := ct_bid_pending (control st) - 1\<rparr>"
    using task_completed_outcome [OF t] st1(1) by (simp add: st2_def) (metis control_fields(1) control_state.select_convs(1) control_state.surjective control_state.update_convs)
  have part: "kanon_part st2 = kanon_part st" and bids: "sa_bids st2 = sa_bids st1"
    using st1(2) by (simp_all add: st2_def)
  have more: "hashes_of_bids E st \<Longrightarrow> hashes_of_bids E st2"
    using hashes_of_more_bids [OF _ part, of E buyer r] st1(3) bids by simp
  have "ended st2 = ended st" unfolding ended_control c2 by (simp del: control_fields)
  have whole: "(case called of None \<Rightarrow> Some st2 | Some any \<Rightarrow> on_all_bids_done E ch any st2) = Some st'"
    using run t unfolding st2_def by (simp add: bid_task_completed_def Let_def)
  show ?thesis
  proof (cases called)
    case None
    with whole have st': "st' = st2" by simp
    show ?thesis
      unfolding st'
    proof (rule kanon_inv_frame [OF inv part])
      show "bids_awaited st2 \<Longrightarrow> bids_awaited st"
        using work by (simp add: bids_awaited_def c2 del: control_fields)
      show "outstanding (control st2) \<Longrightarrow> outstanding (control st)"
        by (simp add: outstanding_def c2 del: control_fields)
      have "ct_signals (control st2) = ct_signals (control st)" by (simp add: c2 del: control_fields)
      then show "sa_signals_awaited st2 \<noteq> None \<Longrightarrow> sa_signals_awaited st \<noteq> None" by simp
      show "ended st2 \<or> hashes_of_bids E st2"
        using inv True more \<open>ended st2 = ended st\<close> by (auto simp: kanon_inv_def)
    qed
  next
    case (Some any)
    then have pending: "ct_bid_pending (control st) = 1"
      using task_completed_outcome [OF t] st1(1) by (metis control_fields(1) control_state.select_convs(1) control_state.surjective control_state.update_convs(2) option.distinct(1))
    then have awaited: "bids_awaited st" using work by (simp add: bids_awaited_def del: control_fields)
    then have fresh: "fresh E (control st)" using flow by (auto simp: flow_inv_def bids_awaited_def)
    have "\<not> ended st" using fresh by (simp add: fresh_def ended_control del: control_fields)
    then have "hashes_of_bids E st2" "untouched st"
      using inv True awaited more by (auto simp: kanon_inv_def)
    then have 1: "distinct (map fst (sa_bids st2))" "untouched st2"
      by (simp_all add: hashes_of_bids_def kanon_part_eqD [OF part])
    have 2: "fresh E (control st2)" using fresh by (simp add: c2 fresh_def outstanding_def del: control_fields)
    have 3: "\<not> bids_awaited st2" by (simp add: bids_awaited_def c2 pending del: control_fields)
    from whole Some have "on_all_bids_done E ch any st2 = Some st'" by simp
    then show ?thesis by (rule on_all_bids_done_inv [OF quiet _ 2 1(2) 1(1) 3])
  qed
qed

lemma sent_inv:
  assumes inv: "kanon_inv E st" and work: "bid_work (control st)"
    and c: "control st' = control st\<lparr>ct_bid_work := w\<rparr>" and part: "kanon_part st' = kanon_part st"
    and bids: "sa_bids st' = sa_bids st"
  shows "kanon_inv E st'"
proof (rule kanon_inv_frame [OF inv part])
  show "bids_awaited st' \<Longrightarrow> bids_awaited st" using work by (simp add: bids_awaited_def c del: control_fields)
  show "outstanding (control st') \<Longrightarrow> outstanding (control st)"
    by (simp add: outstanding_def c del: control_fields)
  have "ct_signals (control st') = ct_signals (control st)" by (simp add: c del: control_fields)
  then show "sa_signals_awaited st' \<noteq> None \<Longrightarrow> sa_signals_awaited st \<noteq> None" by simp
  have "ended st' = ended st" unfolding ended_control c by (simp del: control_fields)
  moreover have "hashes_of_bids E st \<Longrightarrow> hashes_of_bids E st'" using hashes_of_more_bids [OF _ part] bids by blast
  ultimately show "sa_enforce_kanon st \<Longrightarrow> ended st' \<or> hashes_of_bids E st'"
    using inv by (auto simp: kanon_inv_def)
qed

lemma fetch_bid_cases:
  assumes "fetch_bid E ch accepted buyer r st = Some st'"
  obtains s g where "bid_task_completed E ch s (st\<lparr>sa_rng := g\<rparr>) = Some st'"
  | g sent awaited where "st' = st\<lparr>sa_rng := g, sa_sent := sent, sa_awaited_bids := awaited\<rparr>"
proof -
  obtain config g where g: "get_bids_config E buyer (gb_is_chaff r) st = (config, g)" by fastforce
  have same: "st\<lparr>sa_rng := sa_rng st\<rparr> = st" by simp
  consider "bid_task_completed E ch TASK_CANCELLED st = Some st'"
    | "bid_task_completed E ch TASK_SKIPPED st = Some st'"
    | "(if accepted then
          Some (st\<lparr>sa_rng := g, sa_sent := sa_sent st @ [(buyer, r, config)],
                   sa_awaited_bids := sa_awaited_bids st @ [(buyer, gb_is_chaff r)]\<rparr>)
        else bid_task_completed E ch TASK_ERROR (st\<lparr>sa_rng := g\<rparr>)) = Some st'"
    using assms g by (simp add: fetch_bid_def Let_def split: if_split_asm)
  then show thesis
  proof cases
    case 1
    then show thesis using that(1) [of TASK_CANCELLED "sa_rng st"] same by simp
  next
    case 2
    then show thesis using that(1) [of TASK_SKIPPED "sa_rng st"] same by simp
  next
    case 3
    show thesis
    proof (cases accepted)
      case True
      with 3 have "st' = st\<lparr>sa_rng := g, sa_sent := sa_sent st @ [(buyer, r, config)],
                   sa_awaited_bids := sa_awaited_bids st @ [(buyer, gb_is_chaff r)]\<rparr>" by simp
      then show thesis by (rule that(2))
    next
      case False
      with 3 show thesis by (intro that(1)) simp
    qed
  qed
qed

lemma cache_invoked_buyers_inv: "kanon_inv E st \<Longrightarrow> kanon_inv E (cache_invoked_buyers E st)"
proof -
  assume inv: "kanon_inv E st"
  have "kanon_part (cache_invoked_buyers E st) = kanon_part st" "sa_bids (cache_invoked_buyers E st) = sa_bids st"
    by (simp_all add: cache_invoked_buyers_def)
  moreover have c: "control (cache_invoked_buyers E st) = control st" by simp
  moreover have "sa_signals_awaited (cache_invoked_buyers E st) = sa_signals_awaited st"
    by (simp add: cache_invoked_buyers_def)
  moreover have "hashes_of_bids E st \<Longrightarrow> hashes_of_bids E (cache_invoked_buyers E st)"
    using hashes_of_more_bids calculation(1,2) by blast
  moreover have "ended (cache_invoked_buyers E st) = ended st" "bids_awaited (cache_invoked_buyers E st) = bids_awaited st"
    unfolding ended_control bids_awaited_def c by simp_all
  ultimately show ?thesis
    using inv c by (intro kanon_inv_frame [OF inv]) (auto simp: kanon_inv_def simp del: control_fields)
qed

lemma solicit_next_kanon_inv:
  assumes quiet: "quiet_encoder E" and run: "solicit_next E ch accepted st = Some st'"
    and inv: "kanon_inv E st" and flow: "flow_inv E (control st)" and work: "sa_to_send st \<noteq> [] \<or> 0 < sa_to_skip st"
  shows "kanon_inv E st'"
proof -
  have bid_work: "bid_work (control st)" using work by (auto simp: bid_work_def)
  obtain st0 where st': "st' = cache_invoked_buyers E st0" and round:
    "(case sa_to_send st of
        (b, r) # rest \<Rightarrow> fetch_bid E ch accepted b r (st\<lparr>sa_to_send := rest\<rparr>)
      | [] \<Rightarrow> bid_task_completed E ch TASK_SKIPPED (st\<lparr>sa_to_skip := sa_to_skip st - 1\<rparr>)) = Some st0"
    using run by (auto simp: solicit_next_def)
  note completed = bid_task_completed_kanon_inv [OF quiet inv flow bid_work]
  have "kanon_inv E st0"
  proof (cases "sa_to_send st")
    case Nil
    with round have "bid_task_completed E ch TASK_SKIPPED (st\<lparr>sa_to_skip := sa_to_skip st - 1\<rparr>) = Some st0" by simp
    then show ?thesis by (rule completed) (simp_all add: control_bid_work)
  next
    case (Cons p rest)
    obtain b r where "p = (b, r)" by (cases p)
    with Cons round have "fetch_bid E ch accepted b r (st\<lparr>sa_to_send := rest\<rparr>) = Some st0" by simp
    then show ?thesis
    proof (cases rule: fetch_bid_cases)
      case (1 s g)
      then show ?thesis by (rule completed) (simp_all add: control_bid_work)
    next
      case (2 g sent awaited)
      show ?thesis by (rule sent_inv [OF inv bid_work]) (simp_all add: 2 control_bid_work)
    qed
  qed
  then show ?thesis unfolding st' by (rule cache_invoked_buyers_inv)
qed

lemma on_fetch_bids_done_cases:
  assumes "on_fetch_bids_done E ch buyer response st = Some st'"
  obtains s st1 r where "bid_task_completed E ch s st1 = Some st'" and "control st1 = control st"
    and "kanon_part st1 = kanon_part st"
    and "sa_bids st1 = sa_bids st \<or> sa_bids st1 = al_emplace buyer r (sa_bids st)"
proof (cases response)
  case (Inl e)
  then have "bid_task_completed E ch TASK_ERROR st = Some st'" using assms by (simp add: on_fetch_bids_done_def)
  then show thesis by (rule that) simp_all
next
  case (Inr r)
  obtain st1 r' where st1: "record_updates buyer r st = (st1, r')" by fastforce
  then have same: "control st1 = control st" "kanon_part st1 = kanon_part st" "sa_bids st1 = sa_bids st"
    by (auto simp: record_updates_def split: if_splits)
  show thesis
  proof (cases "has_bids (en_config E) (sa_pas_enabled E) r")
    case True
    then have "bid_task_completed E ch TASK_SUCCESS (st1\<lparr>sa_bids := al_emplace buyer r' (sa_bids st1)\<rparr>) = Some st'"
      using assms Inr st1 by (simp add: on_fetch_bids_done_def)
    then show thesis by (rule that [where r = r']) (simp_all add: same)
  next
    case False
    then have "bid_task_completed E ch TASK_EMPTY_RESPONSE st1 = Some st'"
      using assms Inr st1 by (simp add: on_fetch_bids_done_def)
    then show thesis by (rule that) (simp_all add: same)
  qed
qed

lemma on_bid_answer_kanon_inv:
  assumes quiet: "quiet_encoder E" and run: "on_bid_answer E ch i n draw response st = Some st'"
    and inv: "kanon_inv E st" and flow: "flow_inv E (control st)" and work: "i < length (sa_awaited_bids st)"
  shows "kanon_inv E st'"
proof -
  have bid_work: "bid_work (control st)" using work by (auto simp: bid_work_def)
  note completed = bid_task_completed_kanon_inv [OF quiet inv flow bid_work]
  obtain buyer chaff where b: "sa_awaited_bids st ! i = (buyer, chaff)" by fastforce
  define st0 where "st0 = st\<lparr>sa_awaited_bids := take i (sa_awaited_bids st) @ drop (Suc i) (sa_awaited_bids st)\<rparr>"
  have st0: "control st0 = control st\<lparr>ct_bid_work := ct_bid_work (control st0)\<rparr>"
      "kanon_part st0 = kanon_part st" "sa_bids st0 = sa_bids st"
    by (simp_all add: st0_def control_bid_work)
  consider "bid_task_completed E ch TASK_CANCELLED st0 = Some st'"
    | m where "on_fetch_bids_done E ch buyer response (st0\<lparr>sa_medians := m\<rparr>) = Some st'"
  proof (cases "sa_cancelled E ch At_bid_answer")
    case True
    with run b show thesis by (intro that(1)) (simp add: on_bid_answer_def st0_def)
  next
    case False
    with run b have done1: "on_fetch_bids_done E ch buyer response
        (if sf_enable_chaffing_v2 (en_config E) \<and> \<not> chaff
         then st0\<lparr>sa_medians := snd (add_number_to_buyer_window buyer draw n (sa_medians st0))\<rparr> else st0)
        = Some st'"
      unfolding on_bid_answer_def st0_def Let_def by simp
    have "on_fetch_bids_done E ch buyer response
        (st0\<lparr>sa_medians := (if sf_enable_chaffing_v2 (en_config E) \<and> \<not> chaff
           then snd (add_number_to_buyer_window buyer draw n (sa_medians st0)) else sa_medians st0)\<rparr>) = Some st'"
      using done1 by (cases "sf_enable_chaffing_v2 (en_config E)"; cases chaff) simp_all
    then show thesis by (rule that(2))
  qed
  then show ?thesis
  proof cases
    case 1
    then show ?thesis by (rule completed) (use st0 in auto)
  next
    case 2
    then obtain s st1 r where run1: "bid_task_completed E ch s st1 = Some st'"
        and same: "control st1 = control st0" "kanon_part st1 = kanon_part st0"
          "sa_bids st1 = sa_bids st0 \<or> sa_bids st1 = al_emplace buyer r (sa_bids st0)"
      by (rule on_fetch_bids_done_cases) simp_all
    show ?thesis
      by (rule completed [OF run1, where w = "ct_bid_work (control st0)"]) (use same st0 in auto)
  qed
qed

section \<open>Every reachable state\<close>

lemma select_ad_step_kanon_inv:
  assumes quiet: "quiet_encoder E" and step: "select_ad_step E st (Some st')"
    and inv: "kanon_inv E st" and flow: "flow_inv E (control st)"
  shows "kanon_inv E st'"
proof -
  have settled': "settled (control st')"
    using select_ad_step_inv [OF quiet step flow] by (simp add: flow_inv_def)
  have settled: "settled (control st)" using flow by (simp add: flow_inv_def)
  from step show ?thesis
  proof (cases rule: select_ad_step.cases)
    case (solicits ch accepted)
    show ?thesis by (rule solicit_next_kanon_inv [OF quiet solicits(1) [symmetric] inv flow solicits(2)])
  next
    case (bid_answered i ch n draw response)
    show ?thesis by (rule on_bid_answer_kanon_inv [OF quiet bid_answered(1) [symmetric] inv flow bid_answered(2)])
  next
    case (k_anon_runs ch)
    define st1 where "st1 = st\<lparr>sa_k_anon_scheduled := False\<rparr>"
    have out: "outstanding (control st)" using k_anon_runs(2) by (simp add: outstanding_def)
    have join: "ct_join (control st) = 1 \<Longrightarrow> \<not> ended st"
      using settled_outstanding [OF settled out] by (simp add: ended_def)
    have now: "\<not> outstanding (control st1)" using settled k_anon_runs(2) by (auto simp: st1_def outstanding_def settled_def)
    have "\<not> bids_awaited st"
      using flow out by (auto simp: flow_inv_def bids_awaited_def fresh_def)
    then have waits: "\<not> bids_awaited st1" by (simp add: st1_def)
    have run: "query_k_anon_hashes E ch st1 = Some st'" using k_anon_runs(1) by (simp add: st1_def)
    show ?thesis
    proof (cases "sa_enforce_kanon st")
      case False
      then have "\<not> ct_enforce (control st1)" by (simp add: st1_def)
      with query_k_anon_hashes_after [OF quiet run] have "\<not> ct_enforce (control st')"
        by (elim disjE) (simp_all add: same_enforce(1) del: control_fields)
      then show ?thesis by (rule not_enforced)
    next
      case True
      show ?thesis
        by (rule query_k_anon_hashes_inv [OF quiet run settled' waits])
          (use True inv out now join in \<open>auto simp: kanon_inv_def st1_def hashes_of_bids_def\<close>)
    qed
  next
    case (k_anon_answered ch hashes)
    show ?thesis
      by (rule on_k_anon_answer_inv [OF quiet k_anon_answered(1) [symmetric] inv flow settled' k_anon_answered(2)])
  next
    case (signals_v1_answered ch result)
    show ?thesis
      by (rule on_signals_v1_answer_inv [OF quiet inv flow signals_v1_answered(1) [symmetric] settled'])
        (simp add: signals_v1_answered(2))
  next
    case (signals_v2_answered ch lookup)
    show ?thesis
      by (rule on_signals_v2_answer_inv [OF quiet inv flow signals_v2_answered(1) [symmetric] settled'])
        (simp add: signals_v2_answered(2))
  next
    case (scores_answered ch scores)
    show ?thesis by (rule on_scores_answer_inv [OF quiet inv scores_answered(1) [symmetric]])
  qed
qed

lemma initial_untouched [simp]: "untouched (initial_select_ad E)" "sa_bids (initial_select_ad E) = []"
  by (simp_all add: untouched_def initial_select_ad_def)

lemma start_fetching_bids_kanon_inv:
  assumes quiet: "quiet_encoder E" and run: "start_fetching_bids E ch st = Some st'"
    and idle: "idle (control st)" and untouched: "untouched st" and bids: "sa_bids st = []"
    and join: "ct_join (control st) = (if sa_enforce_kanon st \<and> sa_fetches_signals E then 2 else 1)"
  shows "kanon_inv E st'"
proof -
  define f where "f = fetch_bids (en_rng E) (en_config E) (create_sa_get_bids_request E st) (en_invoked E)
            (ac_buyer_list (sa_config st)) (sa_input st) (sa_buyer_inputs st) (sa_rng st)"
  define st0 where "st0 = st\<lparr>sa_bid_tracker := set_num_tasks_to_track (bf_num_tasks f), sa_rng := bf_rng f\<rparr>"
  have untouched0: "untouched st0" "sa_bids st0 = []" using untouched bids by (simp_all add: st0_def untouched_def)
  show ?thesis
  proof (cases "bf_num_tasks f = 0")
    case True
    then have all: "on_all_bids_done E ch True st0 = Some st'"
      using run by (simp add: start_fetching_bids_def Let_def f_def [symmetric] st0_def)
    have "fresh E (control st0)"
      using idle join by (simp add: fresh_def idle_def outstanding_def st0_def)
    moreover have "\<not> bids_awaited st0" using idle by (simp add: bids_awaited_def idle_def bid_work_def st0_def)
    ultimately show ?thesis
      by (intro on_all_bids_done_inv [OF quiet all]) (simp_all add: untouched0)
  next
    case False
    then have "st' = cache_invoked_buyers E
        (st0\<lparr>sa_to_send := bf_sent f, sa_to_skip := bf_skipped f, sa_invoked := bf_invoked f\<rparr>)"
      using run by (simp add: start_fetching_bids_def Let_def f_def [symmetric] st0_def)
    moreover have "kanon_inv E (st0\<lparr>sa_to_send := bf_sent f, sa_to_skip := bf_skipped f, sa_invoked := bf_invoked f\<rparr>)"
      by (rule untouched_inv [OF untouched0(1)]) (simp_all add: untouched0)
    ultimately show ?thesis by (simp add: cache_invoked_buyers_inv)
  qed
qed

lemma validate_and_fetch_kanon_inv:
  assumes quiet: "quiet_encoder E" and run: "validate_and_fetch E ch st = Some st'"
    and idle: "idle (control st)" and untouched: "untouched st" and bids: "sa_bids st = []"
    and join: "ct_join (control st) = (if sa_enforce_kanon st \<and> sa_fetches_signals E then 2 else 1)"
  shows "kanon_inv E st'"
proof -
  consider st1 where "on_score_ads_done E (Inr empty_response) st1 = Some st'" "kanon_part st1 = kanon_part st"
    | st1 where "start_fetching_bids E ch st1 = Some st'" "control st1 = control st"
        "kanon_part st1 = kanon_part st" "sa_bids st1 = sa_bids st"
    using run
    by (auto simp: validate_and_fetch_def Let_def simp del: control_fields
        split: option.splits prod.splits if_splits)
  then show ?thesis
  proof cases
    case 1
    have part: "kanon_part st' = kanon_part st" using on_score_ads_done_kanon [OF 1(1)] 1(2) by simp
    show ?thesis
      by (rule untouched_inv [OF untouched part])
        (simp add: finished_once_ended [OF on_score_ads_done_control [OF quiet 1(1)]])
  next
    case 2
    have same: "untouched st1" "sa_enforce_kanon st1 = sa_enforce_kanon st"
      using untouched by (simp_all add: kanon_part_eqD [OF 2(3)])
    show ?thesis
      by (rule start_fetching_bids_kanon_inv [OF quiet 2(1)]) (simp_all only: same 2(2,4) idle bids join)
  qed
qed

lemma decrypt_request_kanon:
  "decrypt_request E st = Inr st' \<Longrightarrow> untouched st' = untouched st \<and> sa_bids st' = sa_bids st"
  by (auto simp: decrypt_request_def Let_def untouched_def split: if_splits sum.splits prod.splits)

lemma execute_select_ad_kanon_inv:
  assumes quiet: "quiet_encoder E" and run: "execute_select_ad E ch = Some st"
  shows "kanon_inv E st"
proof -
  define st0 where "st0 = initial_select_ad E"
  have start: "untouched st0" "sa_bids st0 = []" by (simp_all add: st0_def)
  have config: "idle (control (st0\<lparr>sa_config := c, sa_bid_tracker := t\<rparr>))"
      "ct_join (control (st0\<lparr>sa_config := c, sa_bid_tracker := t\<rparr>)) = 1"
      "untouched (st0\<lparr>sa_config := c, sa_bid_tracker := t\<rparr>)" for c t
    by (simp_all add: st0_def idle_def initial_select_ad_def control_def outstanding_def bid_work_def
        set_num_tasks_to_track_def untouched_def)
  consider s st1 where "st = finish_select_ad s st1" "kanon_part st1 = kanon_part st0"
    | c t st1 where "decrypt_request E (st0\<lparr>sa_config := c, sa_bid_tracker := t\<rparr>) = Inr st1"
        "validate_and_fetch E ch st1 = Some st"
    using run by (auto simp: execute_select_ad_def Let_def st0_def [symmetric] split: if_splits sum.splits)
  then show ?thesis
  proof cases
    case 1
    have "ended (finish_select_ad s st1)" by (simp add: ended_def finish_select_ad_def)
    with 1 show ?thesis by (intro untouched_inv [OF start(1)]) simp_all
  next
    case 2
    from decrypt_request_control [OF 2(1) config(1,2)] decrypt_request_kanon [OF 2(1)] config(3) start
    show ?thesis by (intro validate_and_fetch_kanon_inv [OF quiet 2(2)]) simp_all
  qed
qed

theorem reachable_kanon_inv:
  assumes "quiet_encoder E" and "select_ad_reachable E st"
  shows "kanon_inv E st"
  using assms(2)
proof induction
  case (executes ch st)
  then show ?case by (rule execute_select_ad_kanon_inv [OF assms(1)])
next
  case (proceeds st st')
  show ?case
    by (rule select_ad_step_kanon_inv [OF assms(1) proceeds(2,3)]) (rule reachable_flow_inv [OF assms(1) proceeds(1)])
qed

lemma reachable_confirmed_ad:
  assumes "quiet_encoder E" and "select_ad_reachable E st" and "sa_enforce_kanon st"
    and "sa_scoring_request st = Some r" and "ad \<in> set (rq_ad_bids r)" and "aw_k_anon_status ad"
  shows "confirmed_ad E (sa_queried st) ad"
  using reachable_kanon_inv [OF assms(1,2)] assms(3-) by (simp add: kanon_inv_def confirmed_request_def)

end
