(* ===== verification/Seller_Inputs.thy ===== *)
theory Seller_Inputs
  imports Select_Ad_KAnon Concrete_Inputs
begin

text \<open>
  A small seller front end for the properties about SelectAd calls: one buyer, a browser's request
  whose ciphertext is its plaintext, codecs that copy, and a generator that draws the least number.
  The run at the end takes a call from its start to the buyer's answer.
\<close>

definition copying_codecs :: codecs where
  "copying_codecs =
     \<lparr>gzip_decompress = Inr, gzip_compress = Inr, zstd_decompress = Inr, zstd_compress = Inr,
      parse_auction_config = (\<lambda>s. None), parse_buyer_input = (\<lambda>s. None),
      parse_protected_input = (\<lambda>s. None), parse_auction_result = (\<lambda>s. None)\<rparr>"

definition seller_config :: sfe_config where
  "seller_config =
     \<lparr>sf_enable_protected_app_signals = False, sf_enable_protected_audience = True,
      sf_enable_tkv_v2_browser = False, sf_enable_chaffing = False, sf_enable_chaffing_v2 = False,
      sf_enable_buyer_caching = False, sf_enable_cancellation = False, sf_enable_kanon = True,
      sf_enable_buyer_pagg_reporting = False, sf_contributions_limit = 100,
      sf_max_buyers_solicited = 2, sf_seller_origin_domain = ''seller'',
      sf_allow_compressed_auction_config = None, sf_enable_priority_vector = None,
      sf_signals_not_fetched = False, sf_test_mode = False, sf_tkv_v2_signals_host = [],
      sf_buyers = [''buyer''], sf_report_win_urls = [(''buyer'', ''win'')]\<rparr>"

definition one_group :: buyer_input_for_bidding where
  "one_group =
     \<lparr>bi_interest_groups =
        [\<lparr>ig_name = ''g'', ig_bidding_signals_keys = [], ig_ad_render_ids = [], ig_component_ads = [],
          ig_user_bidding_signals = [], ig_device_signals = No_device_signals, ig_origin = []\<rparr>],
      bi_protected_app_signals = None, bi_in_cooldown_or_lockout = False\<rparr>"

definition seller_input :: protected_input where
  "seller_input =
     default_protected_input\<lparr>pi_generation_id := ''id'', pi_publisher_name := ''publisher'',
       pi_enforce_kanon := True\<rparr>"

definition identity_packaging :: packaging where
  "identity_packaging =
     \<lparr>pk_hpke_decrypt = (\<lambda>k. Inr), pk_decrypt_request = Inr, pk_decode_request_payload = Inr,
      pk_decode_protected_input = (\<lambda>c s errors. (seller_input, errors)),
      pk_encode_for_web = (\<lambda>s g u e n k. Inr []), pk_serialize_auction_result = (\<lambda>r. []),
      pk_encode_response_payload = (\<lambda>s n. Inr s), pk_encrypt_response = Inr\<rparr>"

definition empty_cbor :: cbor where
  "empty_cbor =
     \<lparr>cb_decode_buyer_inputs = (\<lambda>encoded errors. ([(''buyer'', one_group)], errors)),
      cb_encode = (\<lambda>s g u d e l n k. ([], Inr [])),
      cb_encode_component = (\<lambda>t s g u d e n k. ([], Inr []))\<rparr>"

definition seller_auction_config :: auction_config where
  "seller_auction_config =
     default_auction_config\<lparr>ac_seller_signals := ''{}'', ac_auction_signals := ''{}'',
       ac_buyer_list := [''buyer''], ac_seller := ''seller''\<rparr>"

definition browser_request :: select_ad_request where
  "browser_request =
     \<lparr>sr_protected_audience_ciphertext = [], sr_auction_config = Some seller_auction_config,
      sr_client_type = CLIENT_TYPE_BROWSER, sr_protected_auction_ciphertext = ''c'',
      sr_component_auction_results = [], sr_compressed_auction_config = None\<rparr>"

definition plain_hashing :: hashing where
  "plain_hashing = \<lparr>canonicalize_url = (\<lambda>s. s), sha256 = (\<lambda>s. s)\<rparr>"

definition seller_env :: "unit sfe_env" where
  "seller_env =
     \<lparr>en_libs = sample_libs, en_codecs = copying_codecs, en_hashing = plain_hashing,
      en_unspecified = sample_unspecified, en_packaging = identity_packaging, en_cbor = empty_cbor,
      en_hpke_encrypt = (\<lambda>p s. Inr (s, [])), en_config = seller_config,
      en_request = browser_request, en_metadata = ok_status, en_rng = lowest_draws, en_seed = (),
      en_is_sampled = False, en_invoked = None, en_medians = [], en_compression = Uncompressed,
      en_has_v1_provider = True, en_has_v2_client = False\<rparr>"

definition all_go :: choices where
  "all_go =
     \<lparr>ch_cancelled = (\<lambda>p. False), ch_k_anon_status = ok_status, ch_signals_accepted = True,
      ch_scoring_accepted = True\<rparr>"

lemma seller_env_quiet: "quiet_encoder seller_env"
  by (simp add: quiet_encoder_def seller_env_def empty_cbor_def)

lemma seller_env_v1: "\<not> sa_uses_v2 seller_env"
  by (simp add: sa_uses_v2_def use_kv_v2_def seller_env_def browser_request_def seller_config_def)

section \<open>A call from its start to its end\<close>

definition buyer_answer :: get_bids_raw_response where
  "buyer_answer =
     \<lparr>gr_bids = [default_buyer_bid\<lparr>bb_bid := 1, bb_render := ''ad'', bb_interest_group_name := ''g''\<rparr>],
      gr_pas_bids = [], gr_update_interest_group_list = []\<rparr>"

definition scores_answer :: raw_response where
  "scores_answer =
     empty_response\<lparr>rs_ad_score := Some (default_ad_score\<lparr>as_buyer_bid := 1, as_render := ''ad'',
       as_interest_group_name := ''g'', as_interest_group_owner := ''buyer'', as_desirability := 1\<rparr>)\<rparr>"

definition answered_run :: "unit select_ad option" where
  "answered_run =
     Option.bind (Option.bind (execute_select_ad seller_env all_go) (solicit_next seller_env all_go True))
       (on_bid_answer seller_env all_go 0 100 0 (Inr buyer_answer))"

definition k_anon_run :: "unit select_ad option" where
  "k_anon_run =
     Option.bind
       (Option.bind answered_run
          (\<lambda>st. query_k_anon_hashes seller_env all_go (st\<lparr>sa_k_anon_scheduled := False\<rparr>)))
       (\<lambda>st. on_k_anon_answer seller_env all_go (Inr (set (concat (map snd (sa_hashes st))))) st)"

definition scoring_run :: "unit select_ad option" where
  "scoring_run =
     Option.bind k_anon_run
       (on_signals_v1_answer seller_env all_go (Inr \<lparr>sg_scoring_signals = ''SIGNALS'', sg_data_version = 7\<rparr>))"

definition finished_run :: "unit select_ad option" where
  "finished_run = Option.bind scoring_run (on_scores_answer seller_env all_go (Inr scores_answer))"

definition can_step_through :: "unit select_ad option \<Rightarrow> (unit select_ad \<Rightarrow> bool) \<Rightarrow> bool" where
  "can_step_through r P = (case r of None \<Rightarrow> False | Some st \<Rightarrow> P st)"

lemma can_step_through_iff: "can_step_through r P \<longleftrightarrow> (\<exists>st. r = Some st \<and> P st)"
  by (simp add: can_step_through_def split: option.split)

text \<open>What is awaited along the run, so that each of its stages is a step.\<close>

lemma run_awaits:
  "can_step_through (execute_select_ad seller_env all_go) (\<lambda>st. sa_to_send st \<noteq> [])
   \<and> can_step_through (Option.bind (execute_select_ad seller_env all_go) (solicit_next seller_env all_go True))
       (\<lambda>st. sa_awaited_bids st \<noteq> [])
   \<and> can_step_through answered_run sa_k_anon_scheduled
   \<and> can_step_through (Option.bind answered_run
        (\<lambda>st. query_k_anon_hashes seller_env all_go (st\<lparr>sa_k_anon_scheduled := False\<rparr>))) sa_k_anon_awaited
   \<and> can_step_through k_anon_run (\<lambda>st. sa_signals_awaited st = Some Signals_v1)
   \<and> can_step_through scoring_run (\<lambda>st. sa_scores_awaited st \<and> sa_enforce_kanon st
        \<and> map_option (map aw_k_anon_status \<circ> rq_ad_bids) (sa_scoring_request st) = Some [True])
   \<and> can_step_through finished_run (\<lambda>st. sa_finished st = [ok_status] \<and> sa_remaining st = 0)"
  by code_simp

lemma run_reaches:
  obtains st st' where "scoring_run = Some st" and "select_ad_reachable seller_env st"
    and "sa_enforce_kanon st" and "map_option (map aw_k_anon_status \<circ> rq_ad_bids) (sa_scoring_request st) = Some [True]"
    and "finished_run = Some st'" and "select_ad_reachable seller_env st'" and "sa_finished st' = [ok_status]"
    and "sa_scores_awaited st" and "sa_remaining st' = 0"
proof -
  note steps = run_awaits [unfolded can_step_through_iff]
  from steps obtain st0 where 0: "execute_select_ad seller_env all_go = Some st0" "sa_to_send st0 \<noteq> []"
    by blast
  from steps obtain st1 where "Option.bind (execute_select_ad seller_env all_go)
      (solicit_next seller_env all_go True) = Some st1" and 1: "sa_awaited_bids st1 \<noteq> []"
    by blast
  with 0 have 1: "solicit_next seller_env all_go True st0 = Some st1" "sa_awaited_bids st1 \<noteq> []" by simp_all
  from steps obtain st2 where run2: "answered_run = Some st2" and 2: "sa_k_anon_scheduled st2" by blast
  with 0 1 have 2: "on_bid_answer seller_env all_go 0 100 0 (Inr buyer_answer) st1 = Some st2"
      "sa_k_anon_scheduled st2" by (simp_all add: answered_run_def)
  from steps obtain st3 where "Option.bind answered_run
      (\<lambda>st. query_k_anon_hashes seller_env all_go (st\<lparr>sa_k_anon_scheduled := False\<rparr>)) = Some st3"
      and 3: "sa_k_anon_awaited st3"
    by blast
  then have 3: "query_k_anon_hashes seller_env all_go (st2\<lparr>sa_k_anon_scheduled := False\<rparr>) = Some st3"
      "sa_k_anon_awaited st3"
    by (simp_all only: run2 Option.bind.simps)
  from steps obtain st4 where run4: "k_anon_run = Some st4" and 4: "sa_signals_awaited st4 = Some Signals_v1"
    by blast
  have on4: "on_k_anon_answer seller_env all_go (Inr (set (concat (map snd (sa_hashes st3))))) st3 = Some st4"
    using run4 unfolding k_anon_run_def run2 Option.bind.simps 3(1) .
  from steps obtain st5 where run5: "scoring_run = Some st5" and 5: "sa_scores_awaited st5" "sa_enforce_kanon st5"
      "map_option (map aw_k_anon_status \<circ> rq_ad_bids) (sa_scoring_request st5) = Some [True]"
    by blast
  have on5: "on_signals_v1_answer seller_env all_go
        (Inr \<lparr>sg_scoring_signals = ''SIGNALS'', sg_data_version = 7\<rparr>) st4 = Some st5"
    using run5 unfolding scoring_run_def run4 Option.bind.simps .
  from steps obtain st6 where run6: "finished_run = Some st6" "sa_finished st6 = [ok_status]"
      "sa_remaining st6 = 0" by blast
  have on6: "on_scores_answer seller_env all_go (Inr scores_answer) st5 = Some st6"
    using run6(1) unfolding finished_run_def run5 Option.bind.simps .
  have r0: "select_ad_reachable seller_env st0" using 0(1) by (rule select_ad_reachable.executes)
  have r1: "select_ad_reachable seller_env st1"
    using select_ad_reachable.proceeds [OF r0] select_ad_step.solicits [of st0 seller_env all_go True] 0 1 by simp
  have r2: "select_ad_reachable seller_env st2"
    using select_ad_reachable.proceeds [OF r1]
      select_ad_step.bid_answered [of 0 st1 seller_env all_go 100 0 "Inr buyer_answer"] 1 2 by simp
  have r3: "select_ad_reachable seller_env st3"
    using select_ad_reachable.proceeds [OF r2] select_ad_step.k_anon_runs [of st2 seller_env all_go] 2 3 by simp
  have r4: "select_ad_reachable seller_env st4"
    using select_ad_reachable.proceeds [OF r3] select_ad_step.k_anon_answered [of st3 seller_env all_go] 3 on4 by metis
  have r5: "select_ad_reachable seller_env st5"
    using select_ad_reachable.proceeds [OF r4] select_ad_step.signals_v1_answered [of st4 seller_env all_go] 4 on5 by metis
  have r6: "select_ad_reachable seller_env st6"
    using select_ad_reachable.proceeds [OF r5] select_ad_step.scores_answered [of st5 seller_env all_go] 5 on6 by metis
  show thesis by (rule that [OF run5 r5 5(2,3) run6(1) r6 run6(2) 5(1) run6(3)])
qed

lemma run_measures:
  obtains st st' where "select_ad_reachable seller_env st" and "select_ad_reachable seller_env st'"
    and "sa_scores_awaited st" and "sa_remaining st' = 0"
  using run_reaches by metis

end
