(* ===== verification/Batch_Dispatch.thy ===== *)
theory Batch_Dispatch
  imports Score_Ads_Runs
begin

text \<open>
  \<open>V8Dispatcher::BatchExecute\<close> (\<open>common/clients/code_dispatcher/v8_dispatcher.cc\<close>): the requests of a
  batch are handed to Roma one by one, and Roma answers each of them on a thread of its own. The
  record \<open>batch\<close> holds what the threads share and where each of them stands; a step is one access of
  one thread to the shared state. What Roma documents is built into the steps: it answers a request it
  accepted exactly once, and none that it refused.
\<close>

section \<open>State\<close>

text \<open>
  The callback of one request: not handed over, not answered, its answer stored, the counter
  incremented (with the value the counter had), over.
\<close>

datatype callback_phase = Unsent | Sent | Stored | Counted nat | Returned

record batch =
  bt_index :: nat
  bt_status :: "status option"
  bt_phases :: "callback_phase list"
  bt_responses :: "dispatch_response status_or list"
  bt_finished_counter :: nat
  bt_calls :: "dispatch_response status_or list list"

definition no_response :: "dispatch_response status_or" where
  "no_response = Inl \<lparr>st_code = UNKNOWN, st_message = []\<rparr>"

definition initial_batch :: "nat \<Rightarrow> batch" where
  "initial_batch n =
     \<lparr>bt_index = 0, bt_status = None, bt_phases = replicate n Unsent,
      bt_responses = replicate n no_response, bt_finished_counter = 0, bt_calls = []\<rparr>"

section \<open>Operations\<close>

text \<open>
  One round of the loops of \<open>BatchExecute\<close>, with the status that Roma's \<open>Execute\<close> returns: a refused
  request is tried again, unless it is the first.
\<close>

definition submit_round :: "nat \<Rightarrow> status \<Rightarrow> batch \<Rightarrow> batch" where
  "submit_round n s b =
     (if bt_index b = n then b\<lparr>bt_status := Some ok_status\<rparr>
      else if is_ok s
      then b\<lparr>bt_phases := (bt_phases b)[bt_index b := Sent], bt_index := Suc (bt_index b)\<rparr>
      else if bt_index b = 0 then b\<lparr>bt_status := Some s\<rparr>
      else b)"

text \<open>The three accesses of the callback of one request. The call moves the responses out.\<close>

definition store_response :: "nat \<Rightarrow> dispatch_response status_or \<Rightarrow> batch \<Rightarrow> batch" where
  "store_response i r b =
     b\<lparr>bt_responses := (bt_responses b)[i := r], bt_phases := (bt_phases b)[i := Stored]\<rparr>"

definition fetch_add :: "nat \<Rightarrow> batch \<Rightarrow> batch" where
  "fetch_add i b =
     b\<lparr>bt_phases := (bt_phases b)[i := Counted (bt_finished_counter b)],
       bt_finished_counter := Suc (bt_finished_counter b)\<rparr>"

definition call_when_last :: "nat \<Rightarrow> nat \<Rightarrow> batch \<Rightarrow> batch" where
  "call_when_last i finished_value b =
     (let b' = b\<lparr>bt_phases := (bt_phases b)[i := Returned]\<rparr>
      in if finished_value + 1 = length (bt_responses b)
         then b'\<lparr>bt_calls := bt_calls b @ [bt_responses b], bt_responses := []\<rparr>
         else b')"

section \<open>Runs\<close>

text \<open>\<open>answer i\<close> is what Roma answers to request \<open>i\<close>.\<close>

inductive batch_step :: "nat \<Rightarrow> (nat \<Rightarrow> dispatch_response status_or) \<Rightarrow> batch \<Rightarrow> batch \<Rightarrow> bool"
  for n answer where
  submit: "bt_status b = None \<Longrightarrow> batch_step n answer b (submit_round n s b)"
| store: "i < n \<Longrightarrow> bt_phases b ! i = Sent \<Longrightarrow>
    batch_step n answer b (store_response i (answer i) b)"
| add: "i < n \<Longrightarrow> bt_phases b ! i = Stored \<Longrightarrow> batch_step n answer b (fetch_add i b)"
| call: "i < n \<Longrightarrow> bt_phases b ! i = Counted v \<Longrightarrow> batch_step n answer b (call_when_last i v b)"

inductive_cases batch_stepE: "batch_step n answer b b'"

definition batch_reachable :: "nat \<Rightarrow> (nat \<Rightarrow> dispatch_response status_or) \<Rightarrow> batch \<Rightarrow> bool" where
  "batch_reachable n answer b \<longleftrightarrow> (batch_step n answer)\<^sup>*\<^sup>* (initial_batch n) b"

section \<open>Invariant\<close>

fun counted :: "callback_phase \<Rightarrow> bool" where
  "counted (Counted v) = True"
| "counted Returned = True"
| "counted _ = False"

fun answered :: "callback_phase \<Rightarrow> bool" where
  "answered Unsent = False"
| "answered Sent = False"
| "answered _ = True"

lemma counted_answered: "counted p \<Longrightarrow> answered p"
  by (cases p) simp_all

definition number_counted :: "batch \<Rightarrow> nat" where
  "number_counted b = length (List.filter counted (bt_phases b))"

definition batch_inv :: "nat \<Rightarrow> (nat \<Rightarrow> dispatch_response status_or) \<Rightarrow> batch \<Rightarrow> bool" where
  "batch_inv n answer b \<longleftrightarrow>
     bt_index b \<le> n \<and> length (bt_phases b) = n
   \<and> (\<forall>i < n. bt_phases b ! i = Unsent \<longleftrightarrow> bt_index b \<le> i)
   \<and> (\<forall>s. bt_status b = Some s \<longrightarrow> (if is_ok s then bt_index b = n else bt_index b = 0))
   \<and> bt_finished_counter b = number_counted b
   \<and> (\<forall>i < n. \<forall>v. bt_phases b ! i = Counted v \<longrightarrow> v < number_counted b)
   \<and> (if bt_calls b = []
      then length (bt_responses b) = n
         \<and> (\<forall>i < n. answered (bt_phases b ! i) \<longrightarrow> bt_responses b ! i = answer i)
         \<and> (number_counted b = n \<longrightarrow> 0 < n \<longrightarrow> Counted (n - 1) \<in> set (bt_phases b))
      else bt_calls b = [map answer [0..<n]] \<and> number_counted b = n \<and> 0 < n \<and> bt_responses b = [])"

lemma number_counted_simps [simp]:
  "number_counted (b\<lparr>bt_status := s\<rparr>) = number_counted b"
  "number_counted (b\<lparr>bt_index := i\<rparr>) = number_counted b"
  "number_counted (b\<lparr>bt_responses := rs\<rparr>) = number_counted b"
  "number_counted (b\<lparr>bt_finished_counter := c\<rparr>) = number_counted b"
  "number_counted (b\<lparr>bt_calls := cs\<rparr>) = number_counted b"
  by (simp_all add: number_counted_def)

lemma number_counted_update:
  "i < length ps \<Longrightarrow>
   length (List.filter counted (ps[i := p])) + of_bool (counted (ps ! i))
     = length (List.filter counted ps) + of_bool (counted p)"
proof (induction ps arbitrary: i)
  case (Cons q ps)
  show ?case
  proof (cases i)
    case (Suc j)
    then show ?thesis using Cons.IH [of j] Cons.prems by (cases "counted q") simp_all
  qed (simp split: if_splits)
qed simp

lemma all_counted:
  assumes "length (List.filter counted ps) = length ps" "i < length ps"
  shows "counted (ps ! i)"
proof -
  have "\<forall>p \<in> set ps. counted p"
    using assms(1) by (metis length_filter_less less_irrefl)
  then show ?thesis using assms(2) by (simp add: nth_mem)
qed

lemma in_set_list_update:
  "x \<in> set ps \<Longrightarrow> ps ! i \<noteq> x \<Longrightarrow> x \<in> set (ps[i := p])"
  by (metis in_set_conv_nth length_list_update nth_list_update_neq)

text \<open>The facts about an index that a step of its callback uses.\<close>

lemma batch_inv_phases:
  assumes "batch_inv n answer b"
  shows "length (bt_phases b) = n" "number_counted b \<le> n" "bt_finished_counter b = number_counted b"
  using assms by (auto simp: batch_inv_def number_counted_def)

lemma batch_inv_all_counted:
  assumes "batch_inv n answer b" "number_counted b = n" "i < n"
  shows "counted (bt_phases b ! i)"
  using assms all_counted [of "bt_phases b" i] by (auto simp: batch_inv_def number_counted_def)

lemma initial_batch_inv: "batch_inv n answer (initial_batch n)"
  by (simp add: batch_inv_def initial_batch_def number_counted_def)

lemma submit_round_inv:
  assumes inv: "batch_inv n answer b" and "bt_status b = None"
  shows "batch_inv n answer (submit_round n s b)"
proof -
  note b = inv [unfolded batch_inv_def]
  show ?thesis
  proof (cases "bt_index b = n")
    case True
    then show ?thesis using b by (auto simp: batch_inv_def submit_round_def)
  next
    case False
    then have less: "bt_index b < n" using b by simp
    show ?thesis
    proof (cases "is_ok s")
      case True
      have sent: "bt_phases b ! bt_index b = Unsent" using b less by simp
      then have "\<not> counted (bt_phases b ! bt_index b)" by simp
      then have count: "number_counted (submit_round n s b) = number_counted b"
        using number_counted_update [of "bt_index b" "bt_phases b" Sent] b less True False
        by (simp add: submit_round_def number_counted_def)
      have "number_counted b \<noteq> n" using batch_inv_all_counted [OF inv _ less] sent by auto
      then show ?thesis
        unfolding batch_inv_def count
        using b less True False sent assms(2)
        by (auto simp: submit_round_def nth_list_update intro: in_set_list_update)
    next
      case False
      then show ?thesis using b less assms(2)
        by (auto simp: batch_inv_def submit_round_def)
    qed
  qed
qed

lemma store_response_inv:
  assumes inv: "batch_inv n answer b" and i: "i < n" "bt_phases b ! i = Sent"
  shows "batch_inv n answer (store_response i (answer i) b)"
proof -
  note b = inv [unfolded batch_inv_def]
  have count: "number_counted (store_response i (answer i) b) = number_counted b"
    using number_counted_update [of i "bt_phases b" Stored] b i
    by (simp add: store_response_def number_counted_def)
  have "number_counted b \<noteq> n" using batch_inv_all_counted [OF inv _ i(1)] i(2) by auto
  then have "bt_calls b = []" using b by presburger
  then show ?thesis
    unfolding batch_inv_def count using b i
    by (auto simp: store_response_def nth_list_update intro: in_set_list_update)
qed

lemma fetch_add_inv:
  assumes inv: "batch_inv n answer b" and i: "i < n" "bt_phases b ! i = Stored"
  shows "batch_inv n answer (fetch_add i b)"
proof -
  note b = inv [unfolded batch_inv_def]
  have count: "number_counted (fetch_add i b) = Suc (number_counted b)"
    using number_counted_update [of i "bt_phases b" "Counted (bt_finished_counter b)"] b i
    by (simp add: fetch_add_def number_counted_def)
  have "number_counted b \<noteq> n" using batch_inv_all_counted [OF inv _ i(1)] i(2) by auto
  then have "bt_calls b = []" using b by presburger
  moreover have "Counted (number_counted b) \<in> set ((bt_phases b)[i := Counted (number_counted b)])"
    using b i by (simp add: set_update_memI)
  then have "Suc (number_counted b) = length (bt_phases b) \<longrightarrow> Counted (length (bt_phases b) - Suc 0)
      \<in> set ((bt_phases b)[i := Counted (number_counted b)])"
    by (metis diff_Suc_1 diff_Suc_Suc minus_nat.diff_0)
  ultimately show ?thesis
    unfolding batch_inv_def count using b i
    by (auto simp: fetch_add_def nth_list_update intro: less_SucI set_update_memI)
qed

lemma call_when_last_inv:
  assumes inv: "batch_inv n answer b" and i: "i < n" "bt_phases b ! i = Counted v"
  shows "batch_inv n answer (call_when_last i v b)"
proof -
  note b = inv [unfolded batch_inv_def]
  have count: "number_counted (call_when_last i v b) = number_counted b"
    using number_counted_update [of i "bt_phases b" Returned] b i
    by (simp add: call_when_last_def number_counted_def Let_def)
  have le: "number_counted b \<le> n" using batch_inv_phases [OF inv] by simp
  have v: "v < number_counted b" using b i by simp
  show ?thesis
  proof (cases "bt_calls b = [] \<and> Suc v = n")
    case True
    then have all: "number_counted b = n" using v le by simp
    have len: "length (bt_responses b) = n" using b True by presburger
    have "bt_responses b = map answer [0..<n]"
    proof (rule nth_equalityI)
      fix j assume "j < length (bt_responses b)"
      then have "j < n" using len by simp
      with b True have "answered (bt_phases b ! j) \<longrightarrow> bt_responses b ! j = answer j" by presburger
      then show "bt_responses b ! j = map answer [0..<n] ! j"
        using batch_inv_all_counted [OF inv all \<open>j < n\<close>] \<open>j < n\<close> by (simp add: counted_answered)
    qed (simp add: len)
    then show ?thesis
      unfolding batch_inv_def count using b i True all len
      by (auto simp: call_when_last_def nth_list_update Let_def split: if_splits)
  next
    case False
    then have same: "call_when_last i v b = b\<lparr>bt_phases := (bt_phases b)[i := Returned]\<rparr>"
      using b by (auto simp: call_when_last_def Let_def split: if_splits)
    show ?thesis
    proof (cases "bt_calls b = []")
      case True
      have "Suc v \<noteq> n" using False True by simp
      then have v': "v \<noteq> n - 1" using i(1) by simp
      show ?thesis
        unfolding batch_inv_def count
        using b i True v' le unfolding same
        by (auto simp: nth_list_update intro: in_set_list_update)
    next
      case False
      then show ?thesis
        unfolding batch_inv_def count using b i unfolding same by (auto simp: nth_list_update intro: in_set_list_update)
    qed
  qed
qed

lemma batch_reachable_inv: "batch_reachable n answer b \<Longrightarrow> batch_inv n answer b"
  unfolding batch_reachable_def
proof (induction rule: rtranclp_induct)
  case base
  show ?case by (rule initial_batch_inv)
next
  case (step b b')
  from step.hyps(2) step.IH show ?case
    by (auto elim!: batch_stepE intro: submit_round_inv store_response_inv fetch_add_inv call_when_last_inv)
qed

text \<open>The batch callback runs at most once, with each answer in the place of its request.\<close>

lemma batch_calls:
  assumes "batch_reachable n answer b"
  shows "bt_calls b = [] \<or> bt_calls b = [map answer [0..<n]]"
  using batch_reachable_inv [OF assms] by (auto simp: batch_inv_def split: if_splits)

text \<open>When all callbacks have returned, it has run.\<close>

lemma batch_called:
  assumes "batch_reachable n answer b" and "0 < n" and "\<forall>i < n. bt_phases b ! i = Returned"
  shows "bt_calls b = [map answer [0..<n]]"
proof -
  note inv = batch_reachable_inv [OF assms(1)]
  have ps: "bt_phases b = replicate n Returned"
    using batch_inv_phases(1) [OF inv] assms(3) by (intro nth_equalityI) auto
  then have "number_counted b = n" "Counted (n - 1) \<notin> set (bt_phases b)"
    by (simp_all add: number_counted_def)
  then show ?thesis using inv assms(2) by (auto simp: batch_inv_def split: if_splits)
qed

text \<open>When \<open>BatchExecute\<close> returns an error, no request of the batch was taken.\<close>

lemma batch_refused:
  assumes "batch_reachable n answer b" and "bt_status b = Some s" and "\<not> is_ok s"
  shows "bt_phases b = replicate n Unsent \<and> bt_calls b = []"
proof -
  note inv = batch_reachable_inv [OF assms(1)]
  then have "bt_index b = 0" using assms(2,3) by (simp add: batch_inv_def)
  then have ps: "bt_phases b = replicate n Unsent"
    using inv by (intro nth_equalityI) (auto simp: batch_inv_def)
  moreover have "number_counted b = 0" by (simp add: number_counted_def ps)
  then have "bt_calls b = []" using inv by (auto simp: batch_inv_def split: if_splits)
  ultimately show ?thesis by simp
qed

text \<open>A run that cannot go on, with all requests taken, has delivered the answers.\<close>

lemma batch_complete:
  assumes reach: "batch_reachable n answer b" and "0 < n" and "bt_status b = Some s" and "is_ok s"
    and stuck: "\<And>b'. \<not> batch_step n answer b b'"
  shows "bt_calls b = [map answer [0..<n]]"
proof (rule batch_called [OF reach assms(2)], intro allI impI)
  fix i assume i: "i < n"
  have "bt_phases b ! i \<noteq> Unsent"
    using batch_reachable_inv [OF reach] assms(3,4) i by (auto simp: batch_inv_def)
  then show "bt_phases b ! i = Returned"
    using batch_step.store [OF i] batch_step.add [OF i] batch_step.call [OF i] stuck
    by (cases "bt_phases b ! i") blast+
qed

text \<open>What the dispatcher delivers is a step of the call that waits for the batch.\<close>

lemma batch_callback_step:
  assumes "fl_awaits fl = Some a" and "batch_reachable (batch_size a) answer b"
    and "rs \<in> set (bt_calls b)" and "run_callback E cf a rs fl = Running fl'"
  shows "flow_step E cf fl fl'"
proof (rule flow_step.callback [OF assms(1) _ assms(4)])
  show "length rs = batch_size a" using batch_calls [OF assms(2)] assms(3) by auto
qed

end
