(* ===== verification/Seller_Properties.thy ===== *)
theory Seller_Properties
  imports Seller_Inputs Batch_Dispatch Payload_Framing
begin


section \<open>A SelectAd call\<close>







section \<open>Buyers\<close>



end
