(* ===== verification/Exchange_Properties.thy ===== *)
theory Exchange_Properties
  imports Seller_Inputs Batch_Dispatch Payload_Framing
begin

text \<open>
  Properties of what the servers exchange: payloads, requests, bids, component results, contributions,
  and of the counters and batches that wait for the answers.
\<close>

section \<open>Payloads and requests\<close>




text \<open>
  C31: in requests to the buyers of an app's auction, the signals of installed apps appear in neither
  form of the buyer's input; they are sent in the field made for them, with the contextual data,
  exactly if protected app signals are enabled and the input has any.
\<close>

theorem app_install_signals_go_to_their_field:
  "case create_get_bids_request_for_app L sf pas k rq c input s buyer bi of r \<Rightarrow>
     pas_app_install_signals (pas_of (gb_buyer_input r)) = []
     \<and> pas_app_install_signals (pas_of (gb_buyer_input_for_bidding r)) = []
     \<and> gb_pas_buyer_input r =
         (if pas \<and> pas_app_install_signals (pas_of (Some bi)) \<noteq> []
          then Some \<lparr>pbi_protected_app_signals = Some (pas_of (Some bi)),
                     pbi_contextual_pas_data = contextual_pas_data_of_buyer rq buyer\<rparr>
          else None)"
proof -
  have pas: "pas_of (Some (bi\<lparr>bi_interest_groups := []\<rparr>)) = pas_of (Some bi)" by (simp add: pas_of_def)
  show ?thesis
    by (simp add: create_get_bids_request_for_app_def may_populate_protected_app_signals_buyer_input_def
        create_get_bids_request_inputs pas_of_to_buyer_input pas Let_def)
qed

text \<open>
  The conversion of a buyer's input for bidding and back loses nothing, but makes the absent
  protected app signals present and empty.
\<close>

theorem buyer_input_round_trip:
  "to_buyer_input (to_buyer_input_for_bidding L U bi)
     = bi\<lparr>bi_protected_app_signals :=
           Some (case bi_protected_app_signals bi of None \<Rightarrow> no_protected_app_signals | Some p \<Rightarrow> p)\<rparr>"
  by (rule to_buyer_input_inverse)

section \<open>Bids\<close>


definition reported_ids_fit :: "reported_ids \<Rightarrow> bool" where
  "reported_ids_fit r =
     (case r of Selected_id s bs b \<Rightarrow> length s < 2 ^ 32 \<and> id_fits bs \<and> id_fits b | _ \<Rightarrow> True)"

text \<open>
  C22: the plaintext from which a bid's k-anonymity hash of reporting ids is made determines the kind
  of reporting and the ids it would report, as well as the owner, the reportWin() URL and the render
  URL in canonical form: no two bids that report differently share a key.
\<close>

theorem reporting_keys_are_unambiguous:
  assumes "plain_text_key_for_reporting_id H owner name url render ids
      = plain_text_key_for_reporting_id H owner' name' url' render' ids'"
    and "\<And>u. line_feed \<notin> set (canonicalize_url H u)"
    and "reported_ids_fit (reported_ids_of ids name)" and "reported_ids_fit (reported_ids_of ids' name')"
  shows "reported_ids_of ids name = reported_ids_of ids' name'
    \<and> canonicalize_url H owner = canonicalize_url H owner'
    \<and> canonicalize_url H url = canonicalize_url H url'
    \<and> canonicalize_url H render = canonicalize_url H render'"
proof -
  let ?r = "reported_ids_of ids name" and ?r' = "reported_ids_of ids' name'"
  obtain s s' where s: "key_suffix ?r = line_feed # s" "key_suffix ?r' = line_feed # s'"
    using key_suffix_newline by metis
  note parts = assms(1) [unfolded plain_text_key_parts]
  from split_at_newline [OF parts] have 1: "key_prefix ?r = key_prefix ?r'"
      "canonicalize_url H owner @ line_feed # canonicalize_url H url @ line_feed # canonicalize_url H render
         @ key_suffix ?r
       = canonicalize_url H owner' @ line_feed # canonicalize_url H url' @ line_feed # canonicalize_url H render'
         @ key_suffix ?r'" by simp_all
  from split_at_newline [OF 1(2)] assms(2) have 2: "canonicalize_url H owner = canonicalize_url H owner'"
      "canonicalize_url H url @ line_feed # canonicalize_url H render @ key_suffix ?r
       = canonicalize_url H url' @ line_feed # canonicalize_url H render' @ key_suffix ?r'" by blast+
  from split_at_newline [OF 2(2)] assms(2) have 3: "canonicalize_url H url = canonicalize_url H url'"
      "canonicalize_url H render @ line_feed # s = canonicalize_url H render' @ line_feed # s'"
    by (auto simp: s)
  from split_at_newline [OF 3(2)] assms(2) have 4: "canonicalize_url H render = canonicalize_url H render'" "s = s'"
    by blast+
  have "?r = ?r'"
    by (rule key_suffix_inj) (use 1(1) 4(2) s assms(3,4) in \<open>simp_all add: reported_ids_fit_def\<close>)
  with 2(1) 3(1) 4(1) show ?thesis by blast
qed

theorem reporting_keys_are_unambiguous_witness:
  "case \<lparr>rip_buyer_reporting_id = None, rip_buyer_and_seller_reporting_id = None,
         rip_selected_buyer_and_seller_reporting_id = None\<rparr> of ids \<Rightarrow>
     reported_ids_of ids ''g'' = Interest_group_name ''g''
     \<and> plain_text_key_for_reporting_id (plain_hashing\<lparr>canonicalize_url := \<lambda>u. []\<rparr>) ''o'' ''g'' ''w'' ''r'' ids
       \<noteq> plain_text_key_for_reporting_id (plain_hashing\<lparr>canonicalize_url := \<lambda>u. []\<rparr>) ''o'' ''h'' ''w'' ''r'' ids"
  using reporting_keys_are_unambiguous [where H = "plain_hashing\<lparr>canonicalize_url := \<lambda>u. []\<rparr>"
      and owner = "''o''" and name = "''g''" and url = "''w''" and render = "''r''"
      and ids = "\<lparr>rip_buyer_reporting_id = None, rip_buyer_and_seller_reporting_id = None,
         rip_selected_buyer_and_seller_reporting_id = None\<rparr>"
      and owner' = "''o''" and name' = "''h''" and url' = "''w''" and render' = "''r''"
      and ids' = "\<lparr>rip_buyer_reporting_id = None, rip_buyer_and_seller_reporting_id = None,
         rip_selected_buyer_and_seller_reporting_id = None\<rparr>"]
  by (auto simp: reported_ids_of_def reported_ids_fit_def)



section \<open>Results of component auctions\<close>


text \<open>
  C28: a component seller that has nothing to offer answers with a chaff result, which names no seller
  and counts as valid; so two such results make the top-level seller drop all results, those of other
  sellers included.
\<close>

theorem two_chaff_results_void_the_auction:
  assumes "unpackage_component_result P C e1 = Inr (ad_score_to_auction_result None g1 u1 None sc1 s1 i1 t1 k1)"
    and "unpackage_component_result P C e2 = Inr (ad_score_to_auction_result None g2 u2 None sc2 s2 i2 t2 k2)"
  shows "fst (read_component_results P C domain gen configs (encs @ e1 # encs' @ e2 # encs'') [] [] errors) = []"
proof -
  let ?acc = "accepted_results P C domain gen configs"
  have app: "?acc (xs @ ys) = ?acc xs @ ?acc ys" for xs ys
    by (simp add: accepted_results_def List.map_filter_def)
  have "\<not> distinct (map ar_component_seller (?acc (encs @ e1 # encs' @ e2 # encs'')))"
    by (simp add: app assms chaff_is_valid chaff_has_no_seller)
  then show ?thesis
    using read_component_results_eq [of "[]" "[]" P C domain gen configs "encs @ e1 # encs' @ e2 # encs''" errors]
    by (simp add: Let_def)
qed

theorem two_chaff_results_void_the_auction_witness:
  "\<exists>P C e r. unpackage_component_result P C e = Inr r
     \<and> fst (read_component_results P C ''seller'' ''id'' [] [e, e] [] [] no_errors) = []
     \<and> fst (read_component_results P C ''seller'' ''id'' [] [e] [] [] no_errors) = [r]"
proof -
  define r where "r = ad_score_to_auction_result None None [] None AUCTION_SCOPE_SERVER_COMPONENT_MULTI_SELLER
    [] seller_input [] None"
  define C where "C = copying_codecs\<lparr>parse_auction_result := \<lambda>s. Some r\<rparr>"
  define e where "e = \<lparr>ear_auction_result_ciphertext = ''c'', ear_key_id = ''k''\<rparr>"
  have u: "unpackage_component_result identity_packaging C e = Inr r"
    by (simp add: unpackage_component_result_def identity_packaging_def C_def copying_codecs_def)
  have "fst (read_component_results identity_packaging C ''seller'' ''id'' [] [e, e] [] [] no_errors) = []"
    using two_chaff_results_void_the_auction [OF u [unfolded r_def] u [unfolded r_def],
        of "''seller''" "''id''" "[]" "[]" "[]" "[]" no_errors] by simp
  moreover have "fst (read_component_results identity_packaging C ''seller'' ''id'' [] [e] [] [] no_errors) = [r]"
    using read_component_results_eq [of "[]" "[]" identity_packaging C "''seller''" "''id''" "[]" "[e]" no_errors]
    by (simp add: Let_def u) (simp add: r_def chaff_is_valid)
  ultimately show ?thesis using u by blast
qed

text \<open>
  The interest groups with bids that a top-level result tells a buyer are the union of those that
  the component results tell it.
\<close>

theorem bidding_groups_are_united:
  "(case map_of (get_buyer_igs_with_bids_map groups) b of None \<Rightarrow> {} | Some idx \<Rightarrow> set idx)
     = \<Union> {set idx | idx. (b, idx) \<in> set (concat groups)}"
  by (rule igs_with_bids_union)

section \<open>Private aggregation\<close>

text \<open>
  C27: the contributions an adtech has in the result are the first ones of all its responses, in order,
  up to the limit.
\<close>

theorem contributions_are_cut_at_the_limit:
  assumes "0 \<le> limit" and "limit < 2 ^ 64"
  shows "group_of (group_contributions_by_ad_tech limit rs) origin
    = take (nat limit) (contributions_from origin rs)"
  by (rule group_contributions_within_limit [OF assms])

theorem contributions_are_cut_at_the_limit_witness:
  "group_of (group_contributions_by_ad_tech 1
      [\<lparr>pr_contributions = [no_contribution\<lparr>pc_ig_idx := Some 1\<rparr>], pr_adtech_origin = ''a''\<rparr>,
       \<lparr>pr_contributions = [no_contribution], pr_adtech_origin = ''a''\<rparr>]) ''a''
    = [no_contribution\<lparr>pc_ig_idx := Some 1\<rparr>]"
  by (simp add: contributions_are_cut_at_the_limit contributions_from_def)

text \<open>
  C34: a contribution reported for a bid stems from a contribution of that bid whose event happened:
  winning, custom or always for the winner, losing or always for the others; it is that
  contribution, processed, with the index of the bid's interest group.
\<close>

theorem reported_contributions_match_the_outcome:
  assumes "c' \<in> set (fst (contributions_of_bid U indices s owner b))"
  shows "\<exists>c idx bv. c \<in> set (bb_pagg_contributions b)
    \<and> contribution_event_type c
        \<in> (if is_winner s owner b then {EVENT_TYPE_WIN, EVENT_TYPE_CUSTOM, EVENT_TYPE_ALWAYS}
           else {EVENT_TYPE_LOSS, EVENT_TYPE_ALWAYS})
    \<and> indices (owner, bb_interest_group_name b) = Some idx
    \<and> (\<exists>p. process_contribution U bv c = Some p \<and> c' = p\<lparr>pc_ig_idx := Some idx\<rparr>)"
  by (rule reported_contribution [OF assms])


text \<open>A bid that contributes when it wins, when it loses, and always.\<close>

definition contributing_bid :: buyer_bid where
  "contributing_bid =
     default_buyer_bid\<lparr>bb_interest_group_name := ''g'', bb_pagg_contributions :=
       map (\<lambda>ev. \<lparr>pc_bucket = Bucket_128_bit [1, 0], pc_value = Int_value 5, pc_event = Some (ev, []),
                   pc_ig_idx = None\<rparr>) [EVENT_TYPE_WIN, EVENT_TYPE_LOSS, EVENT_TYPE_ALWAYS]\<rparr>"

definition plain_contribution :: pagg_contribution where
  "plain_contribution =
     \<lparr>pc_bucket = Bucket_128_bit [1, 0], pc_value = Int_value 5, pc_event = None, pc_ig_idx = Some 3\<rparr>"

lemma contributing_bid_wins:
  "fst (contributions_of_bid sample_unspecified [(''o'', ''g'') \<mapsto> 3]
     (default_ad_score\<lparr>as_interest_group_owner := ''o'', as_interest_group_name := ''g''\<rparr>) ''o'' contributing_bid)
   = [plain_contribution, plain_contribution]"
  by code_simp

theorem reported_contributions_match_the_outcome_witness:
  "\<exists>c. c \<in> set (bb_pagg_contributions contributing_bid)
     \<and> contribution_event_type c \<in> {EVENT_TYPE_WIN, EVENT_TYPE_CUSTOM, EVENT_TYPE_ALWAYS}"
proof -
  let ?s = "default_ad_score\<lparr>as_interest_group_owner := ''o'', as_interest_group_name := ''g''\<rparr>"
  have "plain_contribution \<in> set (fst (contributions_of_bid sample_unspecified [(''o'', ''g'') \<mapsto> 3] ?s ''o''
      contributing_bid))"
    by (simp add: contributing_bid_wins)
  from reported_contributions_match_the_outcome [OF this] show ?thesis
    by (auto simp: is_winner_def contributing_bid_def)
qed


section \<open>Waiting for answers\<close>

text \<open>
  C20: a task tracker calls back once, at the last of the tasks it was set to, and tells that some task
  succeeded unless some failed and none was answered, empty or skipped; later completions do nothing.
\<close>

theorem tracker_calls_back_once:
  assumes "0 < n"
  shows "calls_back ss (set_num_tasks_to_track (int n))
     = (if length ss < n then [] else [some_task_succeeded (take n ss)])"
  by (rule task_tracker_calls_back [OF assms])

theorem tracker_calls_back_once_witness:
  "calls_back [TASK_ERROR, TASK_CANCELLED, TASK_SUCCESS] (set_num_tasks_to_track 2) = [False]"
  using tracker_calls_back_once [of 2 "[TASK_ERROR, TASK_CANCELLED, TASK_SUCCESS]"]
  by (simp add: some_task_succeeded_def)

text \<open>
  C32: after any additions the moving median's window is the sorted list of the numbers kept, its median
  is theirs once the window is full, and an addition to a full window drops the oldest number, unless
  the sampling skips it.
\<close>

theorem moving_median_is_the_median_of_the_window:
  assumes "0 < n"
  shows "case fold (\<lambda>(draw, v). add_number draw v) draws (new_moving_median n p) of m \<Rightarrow>
    mm_window m = sort (mm_window_data m) \<and> length (mm_window_data m) \<le> n
    \<and> calculate_median m =
        (if is_window_filled m then Inr (median_of n (mm_window_data m))
         else Inl (window_not_full ''Window is not full.''))
    \<and> mm_window_data (add_number draw v m)
      = (if skips draw m then mm_window_data m else slide n v (mm_window_data m))"
proof -
  define m where "m = fold (\<lambda>(draw, v). add_number draw v) draws (new_moving_median n p)"
  have m: "median_inv m" "mm_window_size m = n"
    using fold_add_number_inv [OF assms] by (simp_all add: m_def)
  then have "mm_window m = sort (mm_window_data m)" "length (mm_window_data m) \<le> mm_window_size m"
    by (simp_all add: median_inv_def)
  then show ?thesis
    using calculate_median_sorted [of m] add_number_data(1) [of m draw v] m assms by (simp add: m_def [symmetric])
qed

theorem moving_median_is_the_median_of_the_window_witness:
  "case fold (\<lambda>(draw, v). add_number draw v) [(0, 7), (0, 3), (0, 5), (0, 4)] (new_moving_median 3 1) of m \<Rightarrow>
     mm_window_data m = [3, 5, 4] \<and> calculate_median m = Inr 4"
proof -
  let ?m = "fold (\<lambda>(draw, v). add_number draw v) [(0, 7), (0, 3), (0, 5), (0, 4)] (new_moving_median 3 1)"
  have "mm_window_data ?m = [3, 5, 4]" "is_window_filled ?m" "median_of 3 [3, 5, 4] = 4"
    by code_simp+
  with moving_median_is_the_median_of_the_window [of 3 "[(0, 7), (0, 3), (0, 5), (0, 4)]" 1] show ?thesis by auto
qed

text \<open>
  C10: a batch of scripts calls back at most once, with the answers in the order of the requests,
  however the threads that submit and answer them are interleaved; if it was accepted, it has called
  back when nothing is left to do, and if it was refused, nothing was sent and it never calls back.
\<close>

theorem batches_call_back_once:
  assumes "batch_reachable n answer b"
  shows "bt_calls b \<in> {[], [map answer [0..<n]]}
    \<and> (case bt_status b of None \<Rightarrow> True
       | Some s \<Rightarrow>
           if is_ok s then n = 0 \<or> (\<exists>b'. batch_step n answer b b') \<or> bt_calls b = [map answer [0..<n]]
           else bt_phases b = replicate n Unsent \<and> bt_calls b = [])"
  using batch_calls [OF assms] batch_refused [OF assms] batch_complete [OF assms]
  by (auto split: option.split)

theorem batches_call_back_once_witness:
  "\<exists>b. batch_reachable 1 (\<lambda>i. no_response) b \<and> bt_status b = Some ok_status \<and> bt_calls b = [[no_response]]"
proof -
  let ?answer = "\<lambda>i. no_response"
  define b1 where "b1 = submit_round 1 ok_status (initial_batch 1)"
  define b2 where "b2 = submit_round 1 ok_status b1"
  define b3 where "b3 = store_response 0 no_response b2"
  define b4 where "b4 = fetch_add 0 b3"
  define b5 where "b5 = call_when_last 0 0 b4"
  note defs = b1_def b2_def b3_def b4_def b5_def initial_batch_def submit_round_def store_response_def
    fetch_add_def call_when_last_def Let_def
  have "batch_step 1 ?answer (initial_batch 1) b1" "batch_step 1 ?answer b1 b2"
    using batch_step.submit [of "initial_batch 1" 1 ?answer ok_status] batch_step.submit [of b1 1 ?answer ok_status]
    by (simp_all add: defs)
  moreover have "batch_step 1 ?answer b2 b3"
    using batch_step.store [of 0 1 b2 ?answer] by (simp add: defs)
  moreover have "batch_step 1 ?answer b3 b4" using batch_step.add [of 0 1 b3 ?answer] by (simp add: defs)
  moreover have "batch_step 1 ?answer b4 b5" using batch_step.call [of 0 1 b4 0 ?answer] by (simp add: defs)
  ultimately have reach: "batch_reachable 1 ?answer b5"
    unfolding batch_reachable_def by (meson rtranclp.rtrancl_into_rtrancl rtranclp.rtrancl_refl)
  have "bt_status b5 = Some ok_status" "bt_calls b5 \<noteq> []" by (simp_all add: defs ok_status_def)
  with batches_call_back_once [OF reach] reach show ?thesis by auto
qed

end
