(* ===== verification/Generate_Bids.thy ===== *)
theory Generate_Bids
  imports Seller_Types Debug_Reporting
begin

text \<open>
  The bidding service's reactor for Protected Audience bids (\<open>bidding_service/generate_bids_reactor.cc\<close>)
  with the checks of bids (\<open>utils/validation.cc\<close>), the device signals of browsers
  (\<open>utils/browser_signals_util.cc\<close>) and the parts of \<open>code_dispatch_reactor.h\<close> it inherits. Generating
  bids is left to the buyer's script: what it returns is an input. Encryption, protobuf's JSON parser and
  the attestation of ad techs are parameters; metrics and logs are left out, with what a message adds
  for the log. Sizes of debug URLs fit \<open>long\<close>.
\<close>

section \<open>Messages\<close>

text \<open>\<open>AndroidSignalsForBidding\<close> has no fields, so that it equals its default instance.\<close>

record bidding_group =
  bg_name :: string
  bg_trusted_bidding_signals_keys :: "string list"
  bg_ad_render_ids :: "string list"
  bg_ad_component_render_ids :: "string list"
  bg_user_bidding_signals :: string
  bg_device_signals :: "browser_signals_for_bidding device_signals_of"
  bg_trusted_bidding_signals :: string

record generate_bids_raw_request =
  gg_interest_groups :: "bidding_group list"
  gg_auction_signals :: string
  gg_buyer_signals :: string
  gg_enable_debug_reporting :: bool
  gg_seller :: string
  gg_publisher_name :: string
  gg_generation_id :: string
  gg_adtech_debug_id :: string
  gg_consented_debug_config :: "string option"
  gg_top_level_seller :: string
  gg_multi_bid_limit :: int
  gg_enforce_kanon :: bool
  gg_data_version :: int
  gg_is_sampled_for_debug :: bool
  gg_blob_versions :: "buyer_blob_versions option"
  gg_fdo_flags :: fdo_flags

definition no_generate_bids_request :: generate_bids_raw_request where
  "no_generate_bids_request =
     \<lparr>gg_interest_groups = [], gg_auction_signals = [], gg_buyer_signals = [],
      gg_enable_debug_reporting = False, gg_seller = [], gg_publisher_name = [], gg_generation_id = [],
      gg_adtech_debug_id = [], gg_consented_debug_config = None, gg_top_level_seller = [],
      gg_multi_bid_limit = 0, gg_enforce_kanon = False, gg_data_version = 0,
      gg_is_sampled_for_debug = False, gg_blob_versions = None,
      gg_fdo_flags = \<lparr>fdo_enable_sampled_debug_reporting = False, fdo_in_cooldown_or_lockout = False\<rparr>\<rparr>"

record generate_bids_raw_response =
  gn_bids :: "buyer_bid list"
  gn_bidding_export_debug :: bool

record generate_bid_request =
  gq_id :: string
  gq_version_string :: string
  gq_handler_name :: string
  gq_interest_group :: string
  gq_auction_signals :: string
  gq_buyer_signals :: string
  gq_trusted_bidding_signals :: string
  gq_device_signals :: string
  gq_multi_bid_limit :: string
  gq_feature_flags :: string

section \<open>Configuration and environment\<close>

record bidding_config =
  bc_enable_buyer_debug_url_generation :: bool
  bc_max_allowed_size_debug_url_bytes :: int
  bc_max_allowed_size_all_debug_urls_kb :: int
  bc_default_protected_audience_generate_bid_version :: string
  bc_use_per_request_udf_versioning :: bool
  bc_per_adtech_paapi_contributions_limit :: int
  bc_enable_cancellation :: bool

text \<open>
  \<open>be_draw\<close> are the results of \<open>RandInt\<close> for the sampling of debug URLs, in the order of the calls.
  \<open>be_parse_request\<close> is the message after \<open>ParseFromString\<close>; what a failed parse leaves is up to it.
\<close>

record bidding_env =
  be_libs :: libs
  be_unspecified :: unspecified
  be_config :: bidding_config
  be_key_id :: string
  be_request_ciphertext :: string
  be_hpke_decrypt :: "string \<Rightarrow> (string \<Rightarrow> (string \<times> string) status_or) option"
  be_parse_request :: "string \<Rightarrow> generate_bids_raw_request"
  be_aead_encrypt :: "generate_bids_raw_response \<Rightarrow> string \<Rightarrow> string status_or"
  be_parse_bid :: "string \<Rightarrow> buyer_bid option"
  be_attested :: "(string \<Rightarrow> bool) option"
  be_draw :: "nat \<Rightarrow> nat option"
  be_is_consented :: bool
  be_export_event :: bool

section \<open>Inputs of generateBid()\<close>

text \<open>What is left of a string as a C string.\<close>

definition c_str :: "string \<Rightarrow> string" where
  "c_str s = takeWhile (\<lambda>c. c \<noteq> CHR 0x00) s"

definition json_quote :: "string \<Rightarrow> string" where
  "json_quote s = CHR 0x22 # s @ [CHR 0x22]"

definition array_or_empty :: "libs \<Rightarrow> string \<Rightarrow> json" where
  "array_or_empty L s =
     (if s = [] then JArr []
      else (case parse_json_string L s of Inl e \<Rightarrow> JArr [] | Inr v \<Rightarrow> v))"

definition script_recency_ms :: "unspecified \<Rightarrow> 'a browser_signals_scheme \<Rightarrow> int" where
  "script_recency_ms U bs =
     (case bs_recency_ms bs of
        Some ms \<Rightarrow> ms
      | None \<Rightarrow>
          (let ms = bs_recency bs * 1000
           in if - (2 ^ 63) \<le> ms \<and> ms < 2 ^ 63 then ms else un_int_sum U ms))"

definition default_multi_bid_limit :: int where
  "default_multi_bid_limit = 2"

definition make_browser_signals_for_script ::
  "libs \<Rightarrow> unspecified \<Rightarrow> string \<Rightarrow> string \<Rightarrow> string \<Rightarrow> browser_signals_for_bidding \<Rightarrow> int \<Rightarrow> int
     \<Rightarrow> fdo_flags \<Rightarrow> string" where
  "make_browser_signals_for_script L U publisher seller top_level_seller bs data_version limit fdo =
     (let doc = JObj
            ([(''topWindowHostname'', JStr publisher), (''seller'', JStr seller)]
             @ (if top_level_seller = [] then [] else [(''topLevelSeller'', JStr top_level_seller)])
             @ [(''joinCount'', JInt (bs_join_count bs)), (''bidCount'', JInt (bs_bid_count bs)),
                (''recency'', JInt (script_recency_ms U bs)),
                (''prevWins'', array_or_empty L (bs_prev_wins bs)),
                (''prevWinsMs'',
                 array_or_empty L (case bs_prev_wins_ms bs of None \<Rightarrow> [] | Some s \<Rightarrow> s)),
                (''dataVersion'', JInt data_version),
                (''forDebuggingOnlyInCooldownOrLockout'', JBool (fdo_in_cooldown_or_lockout fdo)),
                (''multiBidLimit'', JInt (if limit > 0 then limit else default_multi_bid_limit))])
      in case serialize_json_doc L doc of Inl e \<Rightarrow> ''{}'' | Inr s \<Rightarrow> s)"

definition serialize_repeated_string_field :: "libs \<Rightarrow> string list \<Rightarrow> string status_or" where
  "serialize_repeated_string_field L xs = serialize_json_doc L (JArr (map (\<lambda>x. JStr (c_str x)) xs))"

definition append_member :: "string \<Rightarrow> string \<Rightarrow> string \<Rightarrow> string" where
  "append_member name json s = s @ '','' @ json_quote name @ '':'' @ json"

definition append_array :: "libs \<Rightarrow> string \<Rightarrow> string list \<Rightarrow> string status_or \<Rightarrow> string status_or" where
  "append_array L name items acc =
     (case acc of
        Inl e \<Rightarrow> Inl e
      | Inr s \<Rightarrow>
          if items = [] then Inr s
          else (case serialize_repeated_string_field L items of
                  Inl e \<Rightarrow> Inl e
                | Inr json \<Rightarrow> Inr (append_member name json s)))"

definition serialize_ig :: "libs \<Rightarrow> bidding_group \<Rightarrow> string status_or" where
  "serialize_ig L ig =
     (case append_array L ''adComponentRenderIds'' (bg_ad_component_render_ids ig)
             (append_array L ''adRenderIds'' (bg_ad_render_ids ig)
               (append_array L ''trustedBiddingSignalsKeys'' (bg_trusted_bidding_signals_keys ig)
                 (Inr (''{'' @ json_quote ''name'' @ '':'' @ json_quote (bg_name ig))))) of
        Inl e \<Rightarrow> Inl e
      | Inr s \<Rightarrow>
          Inr ((if bg_user_bidding_signals ig = [] then s
                else append_member ''userBiddingSignals'' (bg_user_bidding_signals ig) s) @ ''}''))"

definition default_browser_signals :: browser_signals_for_bidding where
  "default_browser_signals =
     \<lparr>bs_join_count = 0, bs_bid_count = 0, bs_recency = 0, bs_prev_wins = [], bs_recency_ms = None,
      bs_prev_wins_ms = None\<rparr>"

definition device_signals_for_script ::
  "libs \<Rightarrow> unspecified \<Rightarrow> generate_bids_raw_request \<Rightarrow> bidding_group \<Rightarrow> string" where
  "device_signals_for_script L U rq ig =
     (case bg_device_signals ig of
        Browser_signals bs \<Rightarrow>
          if bs \<noteq> default_browser_signals
          then make_browser_signals_for_script L U (gg_publisher_name rq) (gg_seller rq)
                 (gg_top_level_seller rq) bs (gg_data_version rq) (gg_multi_bid_limit rq) (gg_fdo_flags rq)
          else ''{}''
      | _ \<Rightarrow> ''{}'')"

definition or_empty_text :: "string \<Rightarrow> string" where
  "or_empty_text s = (if s = [] then json_quote [] else s)"

definition debug_urls_collected :: "bidding_config \<Rightarrow> generate_bids_raw_request \<Rightarrow> bool" where
  "debug_urls_collected c rq \<longleftrightarrow>
     bc_enable_buyer_debug_url_generation c \<and> gg_enable_debug_reporting rq
     \<and> \<not> (fdo_enable_sampled_debug_reporting (gg_fdo_flags rq)
          \<and> fdo_in_cooldown_or_lockout (gg_fdo_flags rq))"

definition enable_adtech_code_logging :: "bidding_env \<Rightarrow> generate_bids_raw_request \<Rightarrow> bool" where
  "enable_adtech_code_logging E rq \<longleftrightarrow> be_is_consented E \<or> gg_is_sampled_for_debug rq"

definition generate_bid_version :: "bidding_config \<Rightarrow> generate_bids_raw_request \<Rightarrow> string" where
  "generate_bid_version c rq =
     (let v = (if bc_use_per_request_udf_versioning c
               then (case gg_blob_versions rq of
                       None \<Rightarrow> [] | Some b \<Rightarrow> bbv_protected_audience_generate_bid_udf b)
               else [])
      in if v = [] then bc_default_protected_audience_generate_bid_version c else v)"

definition build_generate_bid_request ::
  "bidding_env \<Rightarrow> generate_bids_raw_request \<Rightarrow> bidding_group \<Rightarrow> generate_bid_request status_or" where
  "build_generate_bid_request E rq ig =
     (case serialize_ig (be_libs E) ig of
        Inl e \<Rightarrow> Inl e
      | Inr serialized_ig \<Rightarrow>
          Inr \<lparr>gq_id = bg_name ig, gq_version_string = generate_bid_version (be_config E) rq,
               gq_handler_name = ''generateBidEntryFunction'', gq_interest_group = serialized_ig,
               gq_auction_signals = or_empty_text (gg_auction_signals rq),
               gq_buyer_signals = or_empty_text (gg_buyer_signals rq),
               gq_trusted_bidding_signals = bg_trusted_bidding_signals ig,
               gq_device_signals = device_signals_for_script (be_libs E) (be_unspecified E) rq ig,
               gq_multi_bid_limit = int_text (gg_multi_bid_limit rq),
               gq_feature_flags = get_feature_flag_json (enable_adtech_code_logging E rq)
                 (debug_urls_collected (be_config E) rq)\<rparr>)"

definition generate_bid_requests ::
  "bidding_env \<Rightarrow> generate_bids_raw_request \<Rightarrow> generate_bid_request list" where
  "generate_bid_requests E rq =
     List.map_filter (\<lambda>ig. case build_generate_bid_request E rq ig of Inl e \<Rightarrow> None | Inr q \<Rightarrow> Some q)
       (gg_interest_groups rq)"

section \<open>Checks of bids\<close>

definition is_valid_protected_audience_bid :: "buyer_bid \<Rightarrow> auction_scope \<Rightarrow> status" where
  "is_valid_protected_audience_bid b scope =
     (if bb_bid b = 0 then invalid_argument ''Zero bid will be ignored''
      else if scope = AUCTION_SCOPE_DEVICE_COMPONENT_MULTI_SELLER \<and> \<not> bb_allow_component_auction b
      then \<lparr>st_code = PERMISSION_DENIED, st_message = ''Component bid is not allowed''\<rparr>
      else ok_status)"

datatype url_rejection = Exceeding_size | Exceeding_total_size | During_sampling

record debug_urls_config =
  duc_max_url_chars :: int
  duc_max_total_chars :: int
  duc_enable_sampled :: bool
  duc_attested :: "(string \<Rightarrow> bool) option"

text \<open>The characters admitted so far (\<open>total_debug_urls_chars\<close>) and the random draws taken.\<close>

record debug_urls_state =
  dus_total :: int
  dus_draws :: nat

definition get_reject_reason_if_buyer_debug_url_invalid ::
  "debug_urls_config \<Rightarrow> (nat \<Rightarrow> nat option) \<Rightarrow> int \<Rightarrow> debug_urls_state
     \<Rightarrow> url_rejection option \<times> int \<times> debug_urls_state" where
  "get_reject_reason_if_buyer_debug_url_invalid c draw n t =
     (if n = 0 then (None, 0, t)
      else if n > duc_max_url_chars c then (Some Exceeding_size, 0, t)
      else if n + dus_total t > duc_max_total_chars c then (Some Exceeding_total_size, 0, t)
      else
        (let t' = (if duc_enable_sampled c then t\<lparr>dus_draws := Suc (dus_draws t)\<rparr> else t)
         in if duc_enable_sampled c \<and> \<not> debug_url_passes_sampling (draw (dus_draws t))
            then (Some During_sampling, 0, t')
            else (None, n, t'\<lparr>dus_total := dus_total t + n\<rparr>)))"

definition attest_bid_debug_urls :: "(string \<Rightarrow> bool) option \<Rightarrow> debug_report_urls \<Rightarrow> debug_report_urls" where
  "attest_bid_debug_urls attested d =
     (case attested of
        None \<Rightarrow> d
      | Some ok \<Rightarrow> \<lparr>debug_win_url = if ok (debug_win_url d) then debug_win_url d else [],
                    debug_loss_url = if ok (debug_loss_url d) then debug_loss_url d else []\<rparr>)"

definition validate_buyer_debug_urls ::
  "debug_urls_config \<Rightarrow> (nat \<Rightarrow> nat option) \<Rightarrow> buyer_bid \<Rightarrow> debug_urls_state
     \<Rightarrow> buyer_bid \<times> debug_urls_state" where
  "validate_buyer_debug_urls c draw b t =
     (case bb_debug_report_urls b of
        None \<Rightarrow> (b, t)
      | Some d0 \<Rightarrow>
          if dus_total t \<ge> duc_max_total_chars c then (b\<lparr>bb_debug_report_urls := None\<rparr>, t)
          else
            (let d = attest_bid_debug_urls (duc_attested c) d0
             in if debug_win_url d = [] \<and> debug_loss_url d = []
                then (b\<lparr>bb_debug_report_urls := None\<rparr>, t)
                else
                  (case get_reject_reason_if_buyer_debug_url_invalid c draw
                          (int (length (debug_win_url d))) t of
                     (win, win_chars, t1) \<Rightarrow>
                       (case get_reject_reason_if_buyer_debug_url_invalid c draw
                               (int (length (debug_loss_url d))) t1 of
                          (loss, loss_chars, t2) \<Rightarrow>
                            (b\<lparr>bb_debug_report_urls :=
                                 (if win_chars = 0 \<and> loss_chars = 0 then None
                                  else Some \<lparr>debug_win_url = if win = None then debug_win_url d else [],
                                             debug_loss_url = if loss = None then debug_loss_url d else []\<rparr>),
                               bb_debug_win_url_failed_sampling :=
                                 (if win = None then bb_debug_win_url_failed_sampling b
                                  else win = Some During_sampling),
                               bb_debug_loss_url_failed_sampling :=
                                 (if loss = None then bb_debug_loss_url_failed_sampling b
                                  else loss = Some During_sampling)\<rparr>, t2)))))"

text \<open>Contributions without an event type, and those beyond the limit for their type, by index.\<close>

definition event_type_of :: "pagg_contribution \<Rightarrow> event_type" where
  "event_type_of c = (case pc_event c of None \<Rightarrow> EVENT_TYPE_UNSPECIFIED | Some (ev, name) \<Rightarrow> ev)"

definition removable :: "int \<Rightarrow> (event_type \<Rightarrow> int) \<Rightarrow> pagg_contribution \<Rightarrow> bool" where
  "removable limit counts c \<longleftrightarrow>
     event_type_of c = EVENT_TYPE_UNSPECIFIED \<or> counts (event_type_of c) \<ge> limit"

fun indices_to_remove ::
  "int \<Rightarrow> (event_type \<Rightarrow> int) \<Rightarrow> nat \<Rightarrow> pagg_contribution list \<Rightarrow> nat list" where
  "indices_to_remove limit counts i [] = []"
| "indices_to_remove limit counts i (c # cs) =
     (if removable limit counts c then i # indices_to_remove limit counts (Suc i) cs
      else indices_to_remove limit
             (counts(event_type_of c := counts (event_type_of c) + 1)) (Suc i) cs)"

definition erase_at :: "nat \<Rightarrow> 'a list \<Rightarrow> 'a list" where
  "erase_at i xs = take i xs @ drop (Suc i) xs"

definition process_pagg_contributions :: "int \<Rightarrow> buyer_bid \<Rightarrow> buyer_bid" where
  "process_pagg_contributions limit b =
     b\<lparr>bb_pagg_contributions :=
         fold erase_at (rev (indices_to_remove limit (\<lambda>ev. 0) 0 (bb_pagg_contributions b)))
           (bb_pagg_contributions b)\<rparr>"

section \<open>The reactor\<close>

record generate_bids =
  gf_request :: generate_bids_raw_request
  gf_response :: generate_bids_raw_response
  gf_secret :: string
  gf_awaits :: bool
  gf_finished :: "status list"
  gf_ciphertext :: string

definition finish_bids :: "status \<Rightarrow> generate_bids \<Rightarrow> generate_bids" where
  "finish_bids s fl = fl\<lparr>gf_finished := gf_finished fl @ [s]\<rparr>"

text \<open>\<open>DecryptRequest\<close>, which the constructor calls.\<close>

definition decrypt_bids_request :: "bidding_env \<Rightarrow> generate_bids \<Rightarrow> generate_bids" where
  "decrypt_bids_request E fl =
     (if be_key_id E = [] then finish_bids (invalid_argument ''key_id must be non-null.'') fl
      else if be_request_ciphertext E = []
      then finish_bids (invalid_argument ''request_ciphertext must be non-null.'') fl
      else
        (case be_hpke_decrypt E (be_key_id E) of
           None \<Rightarrow> finish_bids (invalid_argument ''Invalid key_id.'') fl
         | Some decrypt \<Rightarrow>
             (case decrypt (be_request_ciphertext E) of
                Inl e \<Rightarrow> finish_bids (invalid_argument ''Malformed request ciphertext.'') fl
              | Inr (payload, secret) \<Rightarrow>
                  fl\<lparr>gf_secret := secret, gf_request := be_parse_request E payload\<rparr>)))"

definition new_generate_bids :: "bidding_env \<Rightarrow> generate_bids" where
  "new_generate_bids E =
     decrypt_bids_request E
       \<lparr>gf_request = no_generate_bids_request,
        gf_response = \<lparr>gn_bids = [], gn_bidding_export_debug = False\<rparr>,
        gf_secret = [], gf_awaits = False, gf_finished = [], gf_ciphertext = []\<rparr>"

definition encrypt_bids_response :: "bidding_env \<Rightarrow> generate_bids \<Rightarrow> bool \<times> generate_bids" where
  "encrypt_bids_response E fl =
     (case be_aead_encrypt E (gf_response fl) (gf_secret fl) of
        Inl e \<Rightarrow> (False, finish_bids (internal_error (status_to_string e)) fl)
      | Inr c \<Rightarrow> (True, fl\<lparr>gf_ciphertext := c\<rparr>))"

definition encrypt_response_and_finish :: "bidding_env \<Rightarrow> status \<Rightarrow> generate_bids \<Rightarrow> generate_bids" where
  "encrypt_response_and_finish E s fl =
     (case encrypt_bids_response E
             (fl\<lparr>gf_response := (gf_response fl)\<lparr>gn_bidding_export_debug := be_export_event E\<rparr>\<rparr>) of
        (encrypted, fl') \<Rightarrow>
          finish_bids (if encrypted then s else internal_error ''Internal server error.'') fl')"

definition bids_cancelled :: status where
  "bids_cancelled = \<lparr>st_code = CANCELLED, st_message = ''Request Cancelled by Client.''\<rparr>"

text \<open>\<open>accepted\<close> is what \<open>BatchExecute\<close> returns; when it is not OK, nothing is called back.\<close>

definition execute_generate_bids ::
  "bidding_env \<Rightarrow> bool \<Rightarrow> status \<Rightarrow> generate_bids \<Rightarrow> generate_bids" where
  "execute_generate_bids E cancelled accepted fl =
     (if bc_enable_cancellation (be_config E) \<and> cancelled
      then encrypt_response_and_finish E bids_cancelled fl
      else if gg_interest_groups (gf_request fl) = []
      then encrypt_response_and_finish E
             (invalid_argument ''Request must have at least one interest group.'') fl
      else if generate_bid_requests E (gf_request fl) = []
      then encrypt_response_and_finish E ok_status fl
      else if is_ok accepted then fl\<lparr>gf_awaits := True\<rparr>
      else encrypt_response_and_finish E (internal_error (status_to_string accepted)) fl)"

definition bids_auction_scope :: "generate_bids_raw_request \<Rightarrow> auction_scope" where
  "bids_auction_scope rq =
     (if gg_top_level_seller rq = [] then AUCTION_SCOPE_SINGLE_SELLER
      else AUCTION_SCOPE_DEVICE_COMPONENT_MULTI_SELLER)"

definition debug_urls_validation_config :: "bidding_env \<Rightarrow> generate_bids_raw_request \<Rightarrow> debug_urls_config" where
  "debug_urls_validation_config E rq =
     \<lparr>duc_max_url_chars = bc_max_allowed_size_debug_url_bytes (be_config E),
      duc_max_total_chars = 1024 * bc_max_allowed_size_all_debug_urls_kb (be_config E),
      duc_enable_sampled = fdo_enable_sampled_debug_reporting (gg_fdo_flags rq),
      duc_attested = be_attested E\<rparr>"

definition escape_ad :: "buyer_bid \<Rightarrow> buyer_bid" where
  "escape_ad b = (case bb_ad b of Pb_string s \<Rightarrow> b\<lparr>bb_ad := Pb_string (json_quote s)\<rparr> | _ \<Rightarrow> b)"

definition add_bid ::
  "bidding_env \<Rightarrow> generate_bids_raw_request \<Rightarrow> string \<Rightarrow> string \<Rightarrow> buyer_bid list \<times> debug_urls_state
     \<Rightarrow> buyer_bid list \<times> debug_urls_state" where
  "add_bid E rq group_name bid_response = (\<lambda>(bids, t).
     case be_parse_bid E bid_response of
       None \<Rightarrow> (bids, t)
     | Some parsed \<Rightarrow>
         (let b = escape_ad parsed
          in if \<not> is_ok (is_valid_protected_audience_bid b (bids_auction_scope rq)) then (bids, t)
             else
               (case validate_buyer_debug_urls (debug_urls_validation_config E rq) (be_draw E) b t of
                  (b1, t1) \<Rightarrow>
                    (bids @ [(process_pagg_contributions
                                (bc_per_adtech_paapi_contributions_limit (be_config E)) b1)
                              \<lparr>bb_data_version := gg_data_version rq,
                               bb_interest_group_name := group_name\<rparr>], t1))))"

definition add_bids_of_result ::
  "bidding_env \<Rightarrow> generate_bids_raw_request \<Rightarrow> dispatch_response status_or
     \<Rightarrow> buyer_bid list \<times> debug_urls_state \<Rightarrow> buyer_bid list \<times> debug_urls_state" where
  "add_bids_of_result E rq result st =
     (case result of
        Inl e \<Rightarrow> st
      | Inr r \<Rightarrow>
          (case parse_and_get_response_json_array (be_libs E) (enable_adtech_code_logging E rq) (dp_resp r) of
             Inl e \<Rightarrow> st
           | Inr responses \<Rightarrow> fold (add_bid E rq (dp_id r)) responses st))"

definition generate_bids_callback ::
  "bidding_env \<Rightarrow> dispatch_response status_or list \<Rightarrow> generate_bids \<Rightarrow> generate_bids" where
  "generate_bids_callback E output fl =
     (case fold (add_bids_of_result E (gf_request fl)) output
             (gn_bids (gf_response fl), \<lparr>dus_total = 0, dus_draws = 0\<rparr>) of
        (bids, t) \<Rightarrow> fl\<lparr>gf_response := (gf_response fl)\<lparr>gn_bids := bids\<rparr>\<rparr>)"

text \<open>What the dispatcher calls back, wrapped in \<open>CancellationWrapper\<close>.\<close>

definition on_bids_generated ::
  "bidding_env \<Rightarrow> bool \<Rightarrow> dispatch_response status_or list \<Rightarrow> generate_bids \<Rightarrow> generate_bids" where
  "on_bids_generated E cancelled output fl =
     (let fl = fl\<lparr>gf_awaits := False\<rparr>
      in if bc_enable_cancellation (be_config E) \<and> cancelled
         then encrypt_response_and_finish E bids_cancelled fl
         else encrypt_response_and_finish E ok_status (generate_bids_callback E output fl))"

text \<open>A whole call: \<open>BiddingService::GenerateBids\<close> executes the reactor that it has made.\<close>

definition run_generate_bids ::
  "bidding_env \<Rightarrow> bool \<Rightarrow> status \<Rightarrow> bool \<Rightarrow> dispatch_response status_or list \<Rightarrow> generate_bids" where
  "run_generate_bids E cancelled accepted cancelled' output =
     (let fl = execute_generate_bids E cancelled accepted (new_generate_bids E)
      in if gf_awaits fl then on_bids_generated E cancelled' output fl else fl)"

section \<open>Contributions\<close>

text \<open>Erasing from the back leaves what a filter with the same counters keeps.\<close>

fun keep_contributions ::
  "int \<Rightarrow> (event_type \<Rightarrow> int) \<Rightarrow> pagg_contribution list \<Rightarrow> pagg_contribution list" where
  "keep_contributions limit counts [] = []"
| "keep_contributions limit counts (c # cs) =
     (if removable limit counts c then keep_contributions limit counts cs
      else c # keep_contributions limit
                 (counts(event_type_of c := counts (event_type_of c) + 1)) cs)"

lemma fold_erase:
  "fold erase_at (rev (indices_to_remove limit counts (length pre) cs)) (pre @ cs)
     = pre @ keep_contributions limit counts cs"
proof (induction cs arbitrary: pre counts)
  case (Cons c cs)
  show ?case
  proof (cases "removable limit counts c")
    case True
    then show ?thesis using Cons [of counts "pre @ [c]"] by (simp add: erase_at_def [of "length pre"])
  next
    case False
    then show ?thesis
      using Cons [of "counts(event_type_of c := counts (event_type_of c) + 1)" "pre @ [c]"]
      by (simp del: fun_upd_apply)
  qed
qed simp

lemma process_pagg_contributions_eq:
  "bb_pagg_contributions (process_pagg_contributions limit b)
     = keep_contributions limit (\<lambda>ev. 0) (bb_pagg_contributions b)"
  using fold_erase [of limit "\<lambda>ev. 0" "[]" "bb_pagg_contributions b"]
  by (simp add: process_pagg_contributions_def)

lemma keep_contributions_per_type:
  "filter (\<lambda>c. event_type_of c = ev) (keep_contributions limit counts cs)
     = (if ev = EVENT_TYPE_UNSPECIFIED then []
        else take (nat (limit - counts ev)) (filter (\<lambda>c. event_type_of c = ev) cs))"
proof (induction cs arbitrary: counts)
  case (Cons c cs)
  show ?case
  proof (cases "removable limit counts c")
    case True
    then show ?thesis using Cons [of counts] by (auto simp: removable_def)
  next
    case False
    then have "event_type_of c \<noteq> EVENT_TYPE_UNSPECIFIED"
      and "nat (limit - counts (event_type_of c)) = Suc (nat (limit - (counts (event_type_of c) + 1)))"
      by (auto simp: removable_def)
    with False show ?thesis
      using Cons [of "counts(event_type_of c := counts (event_type_of c) + 1)"]
      by (cases "event_type_of c = ev") (simp_all del: fun_upd_apply add: fun_upd_same fun_upd_other)
  qed
qed simp

section \<open>Debug URLs\<close>

definition url_chars :: "buyer_bid \<Rightarrow> int" where
  "url_chars b =
     (case bb_debug_report_urls b of
        None \<Rightarrow> 0 | Some d \<Rightarrow> int (length (debug_win_url d)) + int (length (debug_loss_url d)))"

definition urls_within :: "int \<Rightarrow> buyer_bid \<Rightarrow> bool" where
  "urls_within limit b =
     (case bb_debug_report_urls b of
        None \<Rightarrow> True
      | Some d \<Rightarrow> int (length (debug_win_url d)) \<le> max 0 limit \<and> int (length (debug_loss_url d)) \<le> max 0 limit)"

lemma reject_reason_effect:
  assumes "get_reject_reason_if_buyer_debug_url_invalid c draw n t = (r, n', t')"
  shows "n' = (if r = None then n else 0)" and "dus_total t' = dus_total t + n'"
    and "n' \<le> max 0 (duc_max_url_chars c)"
    and "dus_total t \<le> max 0 (duc_max_total_chars c) \<Longrightarrow> dus_total t' \<le> max 0 (duc_max_total_chars c)"
  using assms by (auto simp: get_reject_reason_if_buyer_debug_url_invalid_def Let_def split: if_splits)

lemma validated_urls:
  assumes "validate_buyer_debug_urls c draw b t = (b', t')"
  shows "dus_total t' = dus_total t + url_chars b'" and "urls_within (duc_max_url_chars c) b'"
    and "dus_total t \<le> max 0 (duc_max_total_chars c) \<Longrightarrow> dus_total t' \<le> max 0 (duc_max_total_chars c)"
    and "bb_bid b' = bb_bid b" and "bb_allow_component_auction b' = bb_allow_component_auction b"
    and "bb_pagg_contributions b' = bb_pagg_contributions b"
proof -
  have "dus_total t' = dus_total t + url_chars b' \<and> urls_within (duc_max_url_chars c) b'
    \<and> (dus_total t \<le> max 0 (duc_max_total_chars c) \<longrightarrow> dus_total t' \<le> max 0 (duc_max_total_chars c))"
  proof (cases "bb_debug_report_urls b")
    case None
    then show ?thesis using assms by (auto simp: validate_buyer_debug_urls_def url_chars_def urls_within_def)
  next
    case (Some d0)
    define d where "d = attest_bid_debug_urls (duc_attested c) d0"
    show ?thesis
    proof (cases "duc_max_total_chars c \<le> dus_total t \<or> debug_win_url d = [] \<and> debug_loss_url d = []")
      case True
      then have "b' = b\<lparr>bb_debug_report_urls := None\<rparr>" "t' = t"
        using assms by (auto simp: validate_buyer_debug_urls_def Some d_def Let_def split: if_splits)
      then show ?thesis by (simp add: url_chars_def urls_within_def)
    next
      case False
      obtain win wc t1 where win: "get_reject_reason_if_buyer_debug_url_invalid c draw
          (int (length (debug_win_url d))) t = (win, wc, t1)" by (metis prod_cases3)
      obtain loss lc t2 where loss: "get_reject_reason_if_buyer_debug_url_invalid c draw
          (int (length (debug_loss_url d))) t1 = (loss, lc, t2)" by (metis prod_cases3)
      have b': "bb_debug_report_urls b' = (if wc = 0 \<and> lc = 0 then None
          else Some \<lparr>debug_win_url = if win = None then debug_win_url d else [],
                     debug_loss_url = if loss = None then debug_loss_url d else []\<rparr>)" and t': "t' = t2"
        using assms False by (auto simp: validate_buyer_debug_urls_def Some d_def [symmetric] win loss Let_def)
      note w = reject_reason_effect [OF win] and l = reject_reason_effect [OF loss]
      have "url_chars b' = wc + lc"
        using w(1) l(1) by (simp add: url_chars_def b')
      moreover have "urls_within (duc_max_url_chars c) b'"
        using w(1,3) l(1,3) by (auto simp: urls_within_def b' split: if_splits)
      ultimately show ?thesis using w(2,4) l(2,4) by (simp add: t')
    qed
  qed
  then show "dus_total t' = dus_total t + url_chars b'" and "urls_within (duc_max_url_chars c) b'"
    and "dus_total t \<le> max 0 (duc_max_total_chars c) \<Longrightarrow> dus_total t' \<le> max 0 (duc_max_total_chars c)" by blast+
  show "bb_bid b' = bb_bid b" and "bb_allow_component_auction b' = bb_allow_component_auction b"
    and "bb_pagg_contributions b' = bb_pagg_contributions b"
    using assms by (auto simp: validate_buyer_debug_urls_def Let_def split: option.splits prod.splits if_splits)
qed

section \<open>What is put in the response\<close>

definition bid_admitted :: "bidding_env \<Rightarrow> generate_bids_raw_request \<Rightarrow> string set \<Rightarrow> buyer_bid \<Rightarrow> bool" where
  "bid_admitted E rq names b \<longleftrightarrow>
     bb_bid b \<noteq> 0 \<and> (gg_top_level_seller rq \<noteq> [] \<longrightarrow> bb_allow_component_auction b)
     \<and> bb_interest_group_name b \<in> names \<and> bb_data_version b = gg_data_version rq
     \<and> urls_within (bc_max_allowed_size_debug_url_bytes (be_config E)) b
     \<and> (\<forall>ev. int (length (filter (\<lambda>c. event_type_of c = ev) (bb_pagg_contributions b)))
          \<le> (if ev = EVENT_TYPE_UNSPECIFIED then 0
             else max 0 (bc_per_adtech_paapi_contributions_limit (be_config E))))"

definition bids_inv ::
  "bidding_env \<Rightarrow> generate_bids_raw_request \<Rightarrow> string set \<Rightarrow> buyer_bid list \<times> debug_urls_state \<Rightarrow> bool" where
  "bids_inv E rq names = (\<lambda>(bids, t).
     list_all (bid_admitted E rq names) bids \<and> sum_list (map url_chars bids) = dus_total t
     \<and> dus_total t \<le> max 0 (1024 * bc_max_allowed_size_all_debug_urls_kb (be_config E)))"

lemma bid_admitted_mono: "bid_admitted E rq names b \<Longrightarrow> names \<subseteq> names' \<Longrightarrow> bid_admitted E rq names' b"
  by (auto simp: bid_admitted_def)

lemma escape_ad_fields [simp]:
  "bb_bid (escape_ad b) = bb_bid b" "bb_allow_component_auction (escape_ad b) = bb_allow_component_auction b"
  "bb_pagg_contributions (escape_ad b) = bb_pagg_contributions b"
  by (simp_all add: escape_ad_def split: pb_value.split)

lemma process_pagg_fields [simp]:
  "bb_bid (process_pagg_contributions limit b) = bb_bid b"
  "bb_allow_component_auction (process_pagg_contributions limit b) = bb_allow_component_auction b"
  "bb_debug_report_urls (process_pagg_contributions limit b) = bb_debug_report_urls b"
  by (simp_all add: process_pagg_contributions_def)

lemma valid_bid:
  "is_ok (is_valid_protected_audience_bid b scope)
     \<longleftrightarrow> bb_bid b \<noteq> 0
       \<and> (scope = AUCTION_SCOPE_DEVICE_COMPONENT_MULTI_SELLER \<longrightarrow> bb_allow_component_auction b)"
  by (simp add: is_valid_protected_audience_bid_def is_ok_def ok_status_def invalid_argument_def)

lemma kept_contributions_bound:
  "int (length (filter (\<lambda>c. event_type_of c = ev)
       (bb_pagg_contributions (process_pagg_contributions limit b))))
     \<le> (if ev = EVENT_TYPE_UNSPECIFIED then 0 else max 0 limit)"
  by (auto simp: process_pagg_contributions_eq keep_contributions_per_type min_def)

lemma add_bid_inv:
  assumes "bids_inv E rq names (bids, t)" and "name \<in> names"
  shows "bids_inv E rq names (add_bid E rq name s (bids, t))"
proof (cases "be_parse_bid E s")
  case None
  then show ?thesis using assms(1) by (simp add: add_bid_def)
next
  case (Some parsed)
  define b where "b = escape_ad parsed"
  show ?thesis
  proof (cases "is_ok (is_valid_protected_audience_bid b (bids_auction_scope rq))")
    case False
    then show ?thesis using assms(1) by (simp add: add_bid_def Some b_def Let_def)
  next
    case True
    then have ok: "bb_bid b \<noteq> 0" "gg_top_level_seller rq \<noteq> [] \<Longrightarrow> bb_allow_component_auction b"
      by (simp_all add: valid_bid bids_auction_scope_def)
    obtain b1 t1 where v: "validate_buyer_debug_urls (debug_urls_validation_config E rq) (be_draw E) b t = (b1, t1)"
      by fastforce
    let ?limit = "bc_per_adtech_paapi_contributions_limit (be_config E)"
    let ?b = "(process_pagg_contributions ?limit b1)
      \<lparr>bb_data_version := gg_data_version rq, bb_interest_group_name := name\<rparr>"
    have add: "add_bid E rq name s (bids, t) = (bids @ [?b], t1)"
      using True v by (simp add: add_bid_def Some b_def [symmetric] Let_def)
    have chars: "url_chars ?b = url_chars b1" by (simp add: url_chars_def)
    have "urls_within (bc_max_allowed_size_debug_url_bytes (be_config E)) ?b"
      using validated_urls(2) [OF v] by (simp add: urls_within_def debug_urls_validation_config_def)
    then have "bid_admitted E rq names ?b"
      using ok validated_urls(4,5) [OF v] assms(2) kept_contributions_bound [of _ ?limit b1]
      by (simp add: bid_admitted_def)
    moreover have "dus_total t1 = dus_total t + url_chars b1"
      and "dus_total t1 \<le> max 0 (1024 * bc_max_allowed_size_all_debug_urls_kb (be_config E))"
      using validated_urls(1,3) [OF v] assms(1)
      by (simp_all add: bids_inv_def debug_urls_validation_config_def)
    ultimately show ?thesis using assms(1) by (simp add: add bids_inv_def chars)
  qed
qed

lemma fold_add_bid_inv:
  "bids_inv E rq names st \<Longrightarrow> name \<in> names \<Longrightarrow> bids_inv E rq names (fold (add_bid E rq name) ss st)"
proof (induction ss arbitrary: st)
  case (Cons s ss)
  then show ?case using add_bid_inv [of E rq names "fst st" "snd st" name s] by simp
qed simp

lemma add_bids_of_result_inv:
  assumes "bids_inv E rq names st" and "\<And>r. result = Inr r \<Longrightarrow> dp_id r \<in> names"
  shows "bids_inv E rq names (add_bids_of_result E rq result st)"
  using assms by (auto simp: add_bids_of_result_def fold_add_bid_inv split: sum.split)

lemma add_results_inv:
  assumes "bids_inv E rq names st" and "\<And>r. Inr r \<in> set results \<Longrightarrow> dp_id r \<in> names"
  shows "bids_inv E rq names (fold (add_bids_of_result E rq) results st)"
  using assms
proof (induction results arbitrary: st)
  case (Cons result results)
  have "bids_inv E rq names (add_bids_of_result E rq result st)"
    by (rule add_bids_of_result_inv) (use Cons.prems in auto)
  then show ?case using Cons by simp
qed simp

lemma callback_bids:
  assumes "gn_bids (gf_response fl) = []"
  shows "\<exists>t. bids_inv E (gf_request fl) {dp_id r | r. Inr r \<in> set results}
    (gn_bids (gf_response (generate_bids_callback E results fl)), t)"
proof -
  let ?names = "{dp_id r | r. Inr r \<in> set results}"
  obtain bids t where f: "fold (add_bids_of_result E (gf_request fl)) results
      ([], \<lparr>dus_total = 0, dus_draws = 0\<rparr>) = (bids, t)" by fastforce
  have "bids_inv E (gf_request fl) ?names (fold (add_bids_of_result E (gf_request fl)) results
      ([], \<lparr>dus_total = 0, dus_draws = 0\<rparr>))"
    by (rule add_results_inv) (auto simp: bids_inv_def)
  then show ?thesis using assms by (auto simp: generate_bids_callback_def f)
qed

section \<open>The end of the call\<close>

definition bids_encryption_works :: "bidding_env \<Rightarrow> bool" where
  "bids_encryption_works E \<longleftrightarrow> (\<forall>r s. \<exists>c. be_aead_encrypt E r s = Inr c)"

lemma finish_bids_fields [simp]:
  "gf_finished (finish_bids s fl) = gf_finished fl @ [s]" "gf_awaits (finish_bids s fl) = gf_awaits fl"
  "gf_request (finish_bids s fl) = gf_request fl" "gf_response (finish_bids s fl) = gf_response fl"
  by (simp_all add: finish_bids_def)

lemma encrypt_and_finish_fields [simp]:
  "gf_awaits (encrypt_response_and_finish E s fl) = gf_awaits fl"
  "gf_request (encrypt_response_and_finish E s fl) = gf_request fl"
  "gn_bids (gf_response (encrypt_response_and_finish E s fl)) = gn_bids (gf_response fl)"
  by (auto simp: encrypt_response_and_finish_def encrypt_bids_response_def split: sum.split)

lemma encrypt_and_finish_once:
  "bids_encryption_works E \<Longrightarrow> gf_finished (encrypt_response_and_finish E s fl) = gf_finished fl @ [s]"
proof -
  assume "bids_encryption_works E"
  then obtain c where "be_aead_encrypt E ((gf_response fl)\<lparr>gn_bidding_export_debug := be_export_event E\<rparr>)
      (gf_secret fl) = Inr c" unfolding bids_encryption_works_def by blast
  then show ?thesis by (simp add: encrypt_response_and_finish_def encrypt_bids_response_def)
qed

text \<open>When the encryption fails, the call is finished twice.\<close>

lemma encrypt_and_finish_twice:
  assumes "\<And>r s. be_aead_encrypt E r s = Inl e"
  shows "gf_finished (encrypt_response_and_finish E s fl)
    = gf_finished fl @ [internal_error (status_to_string e), internal_error ''Internal server error.'']"
  using assms by (simp add: encrypt_response_and_finish_def encrypt_bids_response_def)

lemma decrypt_bids_fields [simp]:
  "gf_awaits (decrypt_bids_request E fl) = gf_awaits fl"
  "gf_response (decrypt_bids_request E fl) = gf_response fl"
  by (auto simp: decrypt_bids_request_def split: option.split sum.split)

lemma decrypt_bids_finishes:
  "(gf_finished (decrypt_bids_request E fl) = gf_finished fl)
     \<noteq> (\<exists>s. gf_finished (decrypt_bids_request E fl) = gf_finished fl @ [s]
        \<and> gf_request (decrypt_bids_request E fl) = gf_request fl)"
  by (auto simp: decrypt_bids_request_def split: option.split sum.split)

lemma callback_fields [simp]:
  "gf_finished (generate_bids_callback E results fl) = gf_finished fl"
  "gf_awaits (generate_bids_callback E results fl) = gf_awaits fl"
  "gf_request (generate_bids_callback E results fl) = gf_request fl"
  by (simp_all add: generate_bids_callback_def split: prod.split)

lemma execute_bids_cases:
  "(gf_awaits (execute_generate_bids E c a fl) \<and> execute_generate_bids E c a fl = fl\<lparr>gf_awaits := True\<rparr>)
     \<or> (\<exists>s. execute_generate_bids E c a fl = encrypt_response_and_finish E s fl)"
  by (simp add: execute_generate_bids_def) blast

lemma run_bids_finished:
  assumes "bids_encryption_works E"
  shows "\<exists>s. gf_finished (run_generate_bids E c a c' results) = gf_finished (new_generate_bids E) @ [s]"
    and "\<not> gf_awaits (run_generate_bids E c a c' results)"
proof -
  have n: "\<not> gf_awaits (new_generate_bids E)" by (simp add: new_generate_bids_def)
  note once = encrypt_and_finish_once [OF assms]
  have "(\<exists>s. gf_finished (run_generate_bids E c a c' results) = gf_finished (new_generate_bids E) @ [s])
      \<and> \<not> gf_awaits (run_generate_bids E c a c' results)"
    using execute_bids_cases [of E c a "new_generate_bids E"]
    by (auto simp: run_generate_bids_def on_bids_generated_def once n Let_def)
  then show "\<exists>s. gf_finished (run_generate_bids E c a c' results) = gf_finished (new_generate_bids E) @ [s]"
    and "\<not> gf_awaits (run_generate_bids E c a c' results)" by blast+
qed

lemma run_bids_response:
  "\<exists>t. bids_inv E (gf_request (new_generate_bids E)) {dp_id r | r. Inr r \<in> set results}
     (gn_bids (gf_response (run_generate_bids E c a c' results)), t)"
proof -
  let ?new = "new_generate_bids E" and ?names = "{dp_id r | r. Inr r \<in> set results}"
  have none: "gn_bids (gf_response ?new) = []" "\<not> gf_awaits ?new" by (simp_all add: new_generate_bids_def)
  have empty: "\<exists>t. bids_inv E (gf_request ?new) ?names ([], t)"
    by (rule exI [of _ "\<lparr>dus_total = 0, dus_draws = 0\<rparr>"]) (simp add: bids_inv_def)
  from execute_bids_cases [of E c a ?new] show ?thesis
  proof (elim disjE exE)
    assume ex: "gf_awaits (execute_generate_bids E c a ?new)
      \<and> execute_generate_bids E c a ?new = ?new\<lparr>gf_awaits := True\<rparr>"
    show ?thesis
    proof (cases "bc_enable_cancellation (be_config E) \<and> c'")
      case True
      then show ?thesis
        using ex none empty by (simp add: run_generate_bids_def on_bids_generated_def Let_def)
    next
      case False
      then show ?thesis
        using ex none callback_bids [of "?new\<lparr>gf_awaits := False\<rparr>" E results]
        by (auto simp: run_generate_bids_def on_bids_generated_def Let_def)
    qed
  next
    fix s
    assume "execute_generate_bids E c a ?new = encrypt_response_and_finish E s ?new"
    then show ?thesis using none empty by (simp add: run_generate_bids_def Let_def)
  qed
qed

end
