(* ===== verification/Bidding_Signals.thy ===== *)
theory Bidding_Signals
  imports Generate_Bids Kv_Requests
begin

text \<open>
  The trusted bidding signals in the buyer's front end: the requests for them in both versions of the
  key/value server's interface (\<open>buyer_frontend_service/kv_buyer_signals_adapter.cc\<close>,
  \<open>providers/http_bidding_signals_async_provider.cc\<close>), the conversion of version 2 responses
  (\<open>common/clients/kv_server/kv_v2.cc\<close>), their parsing (\<open>util/bidding_signals.cc\<close>), and the requests to
  the bidding service made of them (\<open>util/proto_factory.cc\<close>). A RapidJSON getter on a value of the wrong
  type is taken from \<open>unspecified\<close>. Hash maps and sets are taken in the order of insertion.
\<close>

record bidding_signals =
  bsg_trusted_signals :: "string option"
  bsg_data_version :: int
  bsg_is_hybrid_v1_return :: bool

definition no_bidding_signals :: bidding_signals where
  "no_bidding_signals =
     \<lparr>bsg_trusted_signals = None, bsg_data_version = 0, bsg_is_hybrid_v1_return = False\<rparr>"

section \<open>Version 1\<close>

record buyer_values_input =
  bvi_hostname :: string
  bvi_client_type :: client_type
  bvi_buyer_kv_experiment_group_id :: string
  bvi_interest_group_names :: "string set"
  bvi_keys :: "string set"

record buyer_values_output =
  bvo_result :: string
  bvo_data_version :: int
  bvo_is_hybrid_v1_return :: bool

definition int_text_if_present :: "int option \<Rightarrow> string" where
  "int_text_if_present v = (case v of None \<Rightarrow> [] | Some i \<Rightarrow> int_text i)"

definition names_and_keys :: "'b interest_group_of list \<Rightarrow> string set \<times> string set" where
  "names_and_keys igs =
     (set (map ig_name igs), set (concat (map ig_bidding_signals_keys igs)))"

definition get_buyer_values_input :: "get_bids_raw_request \<Rightarrow> buyer_values_input" where
  "get_buyer_values_input rq =
     (case (case gb_buyer_input_for_bidding rq of
              Some bi \<Rightarrow> names_and_keys (bi_interest_groups bi)
            | None \<Rightarrow>
                (case gb_buyer_input rq of
                   None \<Rightarrow> ({}, {}) | Some bi \<Rightarrow> names_and_keys (bi_interest_groups bi))) of
        (names, keys) \<Rightarrow>
          \<lparr>bvi_hostname = gb_publisher_name rq, bvi_client_type = gb_client_type rq,
           bvi_buyer_kv_experiment_group_id = int_text_if_present (gb_buyer_kv_experiment_group_id rq),
           bvi_interest_group_names = names, bvi_keys = keys\<rparr>)"

definition bidding_signals_of_output :: "client_type \<Rightarrow> buyer_values_output \<Rightarrow> bidding_signals" where
  "bidding_signals_of_output client out =
     (if client = CLIENT_TYPE_ANDROID
      then \<lparr>bsg_trusted_signals = Some (bvo_result out),
            bsg_data_version = (if bvo_data_version out \<le> 255 then bvo_data_version out else 0),
            bsg_is_hybrid_v1_return = False\<rparr>
      else \<lparr>bsg_trusted_signals = Some (bvo_result out), bsg_data_version = bvo_data_version out,
            bsg_is_hybrid_v1_return = bvo_is_hybrid_v1_return out\<rparr>)"

section \<open>Version 2: requests\<close>

record bidding_values_request =
  bvr_client_version :: string
  bvr_metadata :: "(string \<times> string) list"
  bvr_consented_debug_config :: "string option"
  bvr_generation_id :: string
  bvr_adtech_debug_id :: string
  bvr_partitions :: "request_partition list"

definition validate_interest_groups :: "interest_group_for_bidding list \<Rightarrow> status" where
  "validate_interest_groups igs =
     (if igs = [] then invalid_argument ''No interest groups in the buyer input''
      else if list_ex (\<lambda>ig. ig_bidding_signals_keys ig \<noteq> []) igs then ok_status
      else invalid_argument (''Interest groups don'' @ CHR 0x27 # ''t have any bidding signals''))"

text \<open>
  The request always has a message of consent: \<open>None\<close> stands for an empty one. The partition of a group gets its ids in the loop over the group's keys.\<close>

definition group_partition :: "nat \<Rightarrow> interest_group_for_bidding \<Rightarrow> request_partition" where
  "group_partition i ig =
     (let n = (if ig_bidding_signals_keys ig = [] then 0 else i)
      in \<lparr>rp_id = n, rp_compression_group_id = n,
          rp_arguments = \<lparr>ua_tag = ''interestGroupNames'', ua_keys = [ig_name ig]\<rparr>
            # map (\<lambda>k. \<lparr>ua_tag = ''keys'', ua_keys = [k]\<rparr>) (ig_bidding_signals_keys ig)\<rparr>)"

definition groups_for_bidding :: "get_bids_raw_request \<Rightarrow> interest_group_for_bidding list" where
  "groups_for_bidding rq =
     (case gb_buyer_input_for_bidding rq of None \<Rightarrow> [] | Some bi \<Rightarrow> bi_interest_groups bi)"

definition create_v2_bidding_request ::
  "get_bids_raw_request \<Rightarrow> bool \<Rightarrow> string option \<Rightarrow> bidding_values_request status_or" where
  "create_v2_bidding_request rq propagate_buyer_signals byos_output =
     (let igs = groups_for_bidding rq; valid = validate_interest_groups igs
      in if \<not> is_ok valid then Inl valid
         else Inr
           \<lparr>bvr_client_version = ''Bna.PA.Buyer.20240930'',
            bvr_metadata =
              [(''hostname'', gb_publisher_name rq),
               (''client_type'', nat_digits (client_type_number (gb_client_type rq)))]
              @ (case gb_buyer_kv_experiment_group_id rq of
                   None \<Rightarrow> [] | Some i \<Rightarrow> [(''experiment_group_id'', int_text i)])
              @ (if propagate_buyer_signals then [(''buyer_signals'', gb_buyer_signals rq)] else [])
              @ (case byos_output of None \<Rightarrow> [] | Some s \<Rightarrow> [(''byos_output'', s)]),
            bvr_consented_debug_config = gb_consented_debug_config rq,
            bvr_generation_id = gb_generation_id rq, bvr_adtech_debug_id = gb_adtech_debug_id rq,
            bvr_partitions = map (\<lambda>(i, ig). group_partition i ig) (enumerate 0 igs)\<rparr>)"

section \<open>Version 2: responses\<close>

fun try_fold :: "('a \<Rightarrow> 's \<Rightarrow> 's status_or) \<Rightarrow> 'a list \<Rightarrow> 's \<Rightarrow> 's status_or" where
  "try_fold f [] s = Inr s"
| "try_fold f (x # xs) s = (case f x s of Inl e \<Rightarrow> Inl e | Inr s' \<Rightarrow> try_fold f xs s')"

definition string_of_json :: "unspecified \<Rightarrow> json \<Rightarrow> string" where
  "string_of_json U v = (case v of JStr s \<Rightarrow> c_str s | _ \<Rightarrow> un_string U v)"

definition elements_of :: "unspecified \<Rightarrow> json \<Rightarrow> json list" where
  "elements_of U v = (case v of JArr vs \<Rightarrow> vs | _ \<Rightarrow> un_elements U v)"

definition maybe_parse_json_string :: "libs \<Rightarrow> json \<Rightarrow> json" where
  "maybe_parse_json_string L v =
     (case v of
        JStr s \<Rightarrow>
          if c_str s \<noteq> [] \<and> (hd s = CHR ''{'' \<or> hd s = CHR ''['')
          then (case parse_json_string L (c_str s) of Inl e \<Rightarrow> v | Inr doc \<Rightarrow> doc) else v
      | _ \<Rightarrow> v)"

text \<open>The members that move out of the response are not read again.\<close>

definition add_key_value ::
  "libs \<Rightarrow> unspecified \<Rightarrow> string \<Rightarrow> string \<times> json \<Rightarrow> members \<Rightarrow> members" where
  "add_key_value L U tag = (\<lambda>(k, wrapper) acc.
     if map_of acc k \<noteq> None then acc
     else (case wrapper of
             JObj ms \<Rightarrow>
               (case map_of ms ''value'' of
                  None \<Rightarrow> acc
                | Some v \<Rightarrow>
                    if tag = ''interestGroupNames''
                    then (case parse_json_string L (string_of_json U v) of
                            Inl e \<Rightarrow> acc | Inr doc \<Rightarrow> acc @ [(k, doc)])
                    else acc @ [(k, maybe_parse_json_string L v)])
           | _ \<Rightarrow> acc))"

definition malformed_group :: "string \<Rightarrow> nat \<Rightarrow> status" where
  "malformed_group what i =
     invalid_argument (''Incorrectly formed compression group. '' @ what @ '' Compression group index ''
       @ nat_digits i)"

definition has_tag :: "unspecified \<Rightarrow> string \<Rightarrow> json \<Rightarrow> bool" where
  "has_tag U tag output =
     (case find_member output ''tags'' of
        None \<Rightarrow> False
      | Some tags \<Rightarrow> (case elements_of U tags of [t] \<Rightarrow> string_of_json U t = tag | _ \<Rightarrow> False))"

definition add_key_group_output ::
  "libs \<Rightarrow> unspecified \<Rightarrow> string \<Rightarrow> nat \<Rightarrow> json \<Rightarrow> members \<Rightarrow> members status_or" where
  "add_key_group_output L U tag i output acc =
     (if \<not> has_tag U tag output then Inr acc
      else (case find_member output ''keyValues'' of
              Some (JObj kvs) \<Rightarrow> Inr (fold (add_key_value L U tag) kvs acc)
            | _ \<Rightarrow> Inl (malformed_group ''keyValues should be an object.'' i)))"

definition add_partition_output ::
  "libs \<Rightarrow> unspecified \<Rightarrow> string \<Rightarrow> nat \<Rightarrow> json \<Rightarrow> members \<Rightarrow> members status_or" where
  "add_partition_output L U tag i output acc =
     (if \<not> is_object output then Inl (malformed_group ''partitionOutput should be an object.'' i)
      else (case find_member output ''keyGroupOutputs'' of
              Some (JArr outputs) \<Rightarrow> try_fold (add_key_group_output L U tag i) outputs acc
            | _ \<Rightarrow> Inl (malformed_group ''keyGroupOutputs should be an array.'' i)))"

definition add_compression_group ::
  "libs \<Rightarrow> unspecified \<Rightarrow> string \<Rightarrow> nat \<times> json \<Rightarrow> members \<Rightarrow> members status_or" where
  "add_compression_group L U tag = (\<lambda>(i, doc) acc.
     case doc of
       JArr outputs \<Rightarrow> try_fold (add_partition_output L U tag i) outputs acc
     | _ \<Rightarrow> Inl (malformed_group ''Array was expected.'' i))"

definition get_ig_signals_for_key_tag ::
  "libs \<Rightarrow> unspecified \<Rightarrow> json list \<Rightarrow> string \<Rightarrow> members status_or" where
  "get_ig_signals_for_key_tag L U docs tag =
     try_fold (add_compression_group L U tag) (enumerate 0 docs) []"

fun parse_all :: "libs \<Rightarrow> string list \<Rightarrow> json list status_or" where
  "parse_all L [] = Inr []"
| "parse_all L (s # ss) =
     (case parse_json_string L s of
        Inl e \<Rightarrow> Inl e
      | Inr v \<Rightarrow> (case parse_all L ss of Inl e \<Rightarrow> Inl e | Inr vs \<Rightarrow> Inr (v # vs)))"

definition add_tag_signals ::
  "libs \<Rightarrow> unspecified \<Rightarrow> json list \<Rightarrow> string \<Rightarrow> members \<Rightarrow> members status_or" where
  "add_tag_signals L U docs tag acc =
     (case get_ig_signals_for_key_tag L U docs tag of
        Inl e \<Rightarrow> Inl e
      | Inr ms \<Rightarrow>
          Inr (if ms = [] then acc
               else acc @ [(if tag = ''interestGroupNames'' then ''perInterestGroupData'' else tag,
                            JObj ms)]))"

definition convert_kv_v2_response_to_v1_string ::
  "libs \<Rightarrow> unspecified \<Rightarrow> string list \<Rightarrow> string list \<Rightarrow> string status_or" where
  "convert_kv_v2_response_to_v1_string L U key_tags groups =
     (case parse_all L groups of
        Inl e \<Rightarrow> Inl e
      | Inr docs \<Rightarrow>
          (case try_fold (add_tag_signals L U docs) key_tags [] of
             Inl e \<Rightarrow> Inl e
           | Inr ms \<Rightarrow> if ms = [] then Inr [] else serialize_json_doc L (JObj ms)))"

definition convert_v2_bidding_signals_to_v1 ::
  "libs \<Rightarrow> unspecified \<Rightarrow> string list \<Rightarrow> bidding_signals status_or" where
  "convert_v2_bidding_signals_to_v1 L U groups =
     (case convert_kv_v2_response_to_v1_string L U [''keys'', ''interestGroupNames''] groups of
        Inl e \<Rightarrow> Inl e
      | Inr s \<Rightarrow> Inr (no_bidding_signals\<lparr>bsg_trusted_signals := Some s\<rparr>))"

section \<open>Parsing\<close>

record bidding_signal_components =
  bj_bidding_signals :: "json option"
  bj_update_igs :: update_interest_group_list
  bj_raw_size :: nat
  bj_per_ig_priority_vectors :: "string \<rightharpoonup> json"

text \<open>Changes the first member of that name; moving a value away leaves null.\<close>

fun update_member :: "(json \<Rightarrow> json) \<Rightarrow> string \<Rightarrow> members \<Rightarrow> members" where
  "update_member f k [] = []"
| "update_member f k ((k', v) # ms) =
     (if k' = k then (k', f v) # ms else (k', v) # update_member f k ms)"

definition take_priority_vector :: "string \<Rightarrow> members \<Rightarrow> members" where
  "take_priority_vector name data =
     update_member
       (\<lambda>v. case v of JObj ms \<Rightarrow> JObj (update_member (\<lambda>_. JNull) ''priorityVector'' ms) | _ \<Rightarrow> v)
       name data"

definition parse_ig_data ::
  "nat \<times> interest_group_for_bidding
     \<Rightarrow> members \<times> update_interest_group_list \<times> (string \<rightharpoonup> json)
     \<Rightarrow> members \<times> update_interest_group_list \<times> (string \<rightharpoonup> json)" where
  "parse_ig_data = (\<lambda>(i, ig) (data, updates, vectors).
     if ig_name ig = [] then (data, updates, vectors)
     else (case map_of data (c_str (ig_name ig)) of
             None \<Rightarrow> (data, updates, vectors)
           | Some doc \<Rightarrow>
               (let updates' = (case find_member doc ''updateIfOlderThanMs'' of
                      Some (JInt n) \<Rightarrow>
                        if 0 \<le> n \<and> n < 2 ^ 32 then updates @ [(int i, n)] else updates
                    | _ \<Rightarrow> updates)
                in case find_member doc ''priorityVector'' of
                     Some (JObj ms) \<Rightarrow>
                       (take_priority_vector (c_str (ig_name ig)) data, updates',
                        vectors(ig_name ig \<mapsto> JObj (sanitize_priority_vector ms)))
                   | _ \<Rightarrow> (data, updates', vectors))))"

definition parse_per_interest_group_data ::
  "json option \<Rightarrow> interest_group_for_bidding list \<Rightarrow> update_interest_group_list \<times> (string \<rightharpoonup> json)" where
  "parse_per_interest_group_data data igs =
     (case data of
        Some (JObj ms) \<Rightarrow> snd (fold parse_ig_data (enumerate 0 igs) (ms, [], Map.empty))
      | _ \<Rightarrow> ([], Map.empty))"

definition parse_trusted_bidding_signals ::
  "libs \<Rightarrow> bidding_signals \<Rightarrow> interest_group_for_bidding list \<Rightarrow> bidding_signal_components status_or" where
  "parse_trusted_bidding_signals L signals igs =
     (case bsg_trusted_signals signals of
        None \<Rightarrow> Inl (invalid_argument ''GetBiddingSignals request succeeded but was empty.'')
      | Some s \<Rightarrow>
          if s = [] then Inl (invalid_argument ''GetBiddingSignals request succeeded but was empty.'')
          else
            (case parse_json_string L s of
               Inl e \<Rightarrow> Inl (internal_error ''Could not parse trusted signals json.'')
             | Inr doc \<Rightarrow>
                 (case parse_per_interest_group_data (find_member doc ''perInterestGroupData'') igs of
                    (updates, vectors) \<Rightarrow>
                      (case find_member doc ''keys'' of
                         Some (JObj ms) \<Rightarrow>
                           Inr \<lparr>bj_bidding_signals = Some (JObj ms), bj_update_igs = updates,
                                bj_raw_size = length s, bj_per_ig_priority_vectors = vectors\<rparr>
                       | _ \<Rightarrow>
                           Inl (invalid_argument
                             (''Trusted bidding signals JSON validate error ''
                              @ ''(Missing or non-object property '' @ json_quote ''keys'' @ '')''))))))"

section \<open>Requests to the bidding service\<close>

definition signals_map_member :: "string \<times> string \<Rightarrow> string" where
  "signals_map_member = (\<lambda>(k, v). json_quote k @ '':'' @ v)"

definition serialize_signals_map :: "(string \<times> string) list \<Rightarrow> string" where
  "serialize_signals_map kvs =
     ''{'' @ concat (case map signals_map_member kvs of [] \<Rightarrow> [] | m # ms \<Rightarrow> m # map ((#) (CHR '','')) ms)
       @ ''}''"

text \<open>The signals found for the keys of a group, each key once.\<close>

definition add_signal ::
  "(string \<rightharpoonup> string) \<Rightarrow> string \<Rightarrow> (string \<times> string) list \<Rightarrow> (string \<times> string) list" where
  "add_signal signals k acc =
     (if k \<in> set (map fst acc) then acc
      else (case signals k of None \<Rightarrow> acc | Some v \<Rightarrow> acc @ [(k, v)]))"

definition get_signals_for_ig ::
  "string list \<Rightarrow> (string \<rightharpoonup> string) \<Rightarrow> (string \<times> string) list" where
  "get_signals_for_ig keys signals = fold (add_signal signals) keys []"

definition copy_ig_from_device_to_ig_for_bidding ::
  "interest_group_for_bidding \<Rightarrow> bidding_group \<Rightarrow> bidding_group" where
  "copy_ig_from_device_to_ig_for_bidding ig g =
     g\<lparr>bg_name := ig_name ig, bg_user_bidding_signals := ig_user_bidding_signals ig,
       bg_ad_render_ids := ig_ad_render_ids ig, bg_ad_component_render_ids := ig_component_ads ig,
       bg_device_signals := ig_device_signals ig\<rparr>"

definition empty_bidding_group :: bidding_group where
  "empty_bidding_group =
     \<lparr>bg_name = [], bg_trusted_bidding_signals_keys = [], bg_ad_render_ids = [],
      bg_ad_component_render_ids = [], bg_user_bidding_signals = [],
      bg_device_signals = No_device_signals, bg_trusted_bidding_signals = []\<rparr>"

text \<open>
  The options of \<open>PrepareGenerateBidsRequest\<close> and the signals it gets. A hash map of signals without
  entries is the empty map.
\<close>

record prepare_options =
  po_enable_kanon :: bool
  po_require_bidding_signals :: bool
  po_priorities :: "(string \<rightharpoonup> f64) option"

definition filtered_by_priority :: "prepare_options \<Rightarrow> interest_group_for_bidding \<Rightarrow> bool" where
  "filtered_by_priority opts ig \<longleftrightarrow>
     (case po_priorities opts of
        None \<Rightarrow> False
      | Some p \<Rightarrow> (case p (ig_name ig) of None \<Rightarrow> 0 | Some d \<Rightarrow> d) < 0)"

text \<open>The task that \<open>PrepareGenerateBidsRequest\<close> runs for each group: the group it adds, if any.\<close>

definition group_for_bidding ::
  "prepare_options \<Rightarrow> (string \<rightharpoonup> string) \<Rightarrow> interest_group_for_bidding \<Rightarrow> bidding_group option" where
  "group_for_bidding opts signals ig =
     (if ig_name ig = [] \<or> po_require_bidding_signals opts \<and> ig_bidding_signals_keys ig = [] then None
      else if filtered_by_priority opts ig then None
      else
        (let parsed = get_signals_for_ig (ig_bidding_signals_keys ig) signals
         in if po_require_bidding_signals opts \<and> parsed = [] then None
            else
              (let g = (if parsed = [] then empty_bidding_group\<lparr>bg_trusted_bidding_signals := ''null''\<rparr>
                        else empty_bidding_group
                          \<lparr>bg_trusted_bidding_signals_keys := map fst parsed,
                           bg_trusted_bidding_signals := serialize_signals_map parsed\<rparr>)
               in Some (copy_ig_from_device_to_ig_for_bidding ig g))))"

definition multi_bid_limit_for :: "bool \<Rightarrow> get_bids_raw_request \<Rightarrow> int" where
  "multi_bid_limit_for enable_kanon rq =
     (if enable_kanon \<and> gb_multi_bid_limit rq > 0 then gb_multi_bid_limit rq
      else default_multi_bid_limit)"

text \<open>\<open>ord\<close> is the order in which the executor's threads add their groups.\<close>

definition prepare_generate_bids_request ::
  "(bidding_group list \<Rightarrow> bidding_group list) \<Rightarrow> prepare_options \<Rightarrow> get_bids_raw_request
     \<Rightarrow> (string \<rightharpoonup> string) \<Rightarrow> int \<Rightarrow> generate_bids_raw_request" where
  "prepare_generate_bids_request ord opts rq signals data_version =
     no_generate_bids_request
       \<lparr>gg_interest_groups := ord (List.map_filter (group_for_bidding opts signals) (groups_for_bidding rq)),
        gg_auction_signals := gb_auction_signals rq, gg_buyer_signals := gb_buyer_signals rq,
        gg_enable_debug_reporting := gb_enable_debug_reporting rq,
        gg_fdo_flags :=
          \<lparr>fdo_enable_sampled_debug_reporting = gb_enable_sampled_debug_reporting rq,
           fdo_in_cooldown_or_lockout = (case gb_buyer_input_for_bidding rq of
              None \<Rightarrow> False | Some bi \<Rightarrow> bi_in_cooldown_or_lockout bi)\<rparr>,
        gg_seller := gb_seller rq, gg_top_level_seller := gb_top_level_seller rq,
        gg_publisher_name := gb_publisher_name rq, gg_adtech_debug_id := gb_adtech_debug_id rq,
        gg_generation_id := gb_generation_id rq,
        gg_consented_debug_config := gb_consented_debug_config rq,
        gg_multi_bid_limit := multi_bid_limit_for (po_enable_kanon opts) rq,
        gg_enforce_kanon := (po_enable_kanon opts \<and> gb_enforce_kanon rq),
        gg_data_version := data_version, gg_blob_versions := gb_blob_versions rq\<rparr>"

record generate_pas_bids_raw_request =
  gp_auction_signals :: string
  gp_buyer_signals :: string
  gp_protected_app_signals :: protected_app_signals
  gp_seller :: string
  gp_publisher_name :: string
  gp_generation_id :: string
  gp_adtech_debug_id :: string
  gp_consented_debug_config :: "string option"
  gp_enable_debug_reporting :: bool
  gp_contextual_pas_data :: "contextual_pas_data option"
  gp_enable_unlimited_egress :: bool
  gp_multi_bid_limit :: int
  gp_enforce_kanon :: bool
  gp_is_sampled_for_debug :: bool
  gp_blob_versions :: "buyer_blob_versions option"
  gp_top_level_seller :: string

definition create_generate_pas_bids_raw_request ::
  "get_bids_raw_request \<Rightarrow> bool \<Rightarrow> generate_pas_bids_raw_request" where
  "create_generate_pas_bids_raw_request rq enable_kanon =
     \<lparr>gp_auction_signals = gb_auction_signals rq, gp_buyer_signals = gb_buyer_signals rq,
      gp_protected_app_signals =
        (case gb_pas_buyer_input rq of
           None \<Rightarrow> no_protected_app_signals
         | Some p \<Rightarrow> (case pbi_protected_app_signals p of None \<Rightarrow> no_protected_app_signals | Some s \<Rightarrow> s)),
      gp_seller = gb_seller rq, gp_publisher_name = gb_publisher_name rq,
      gp_generation_id = gb_generation_id rq, gp_adtech_debug_id = gb_adtech_debug_id rq,
      gp_consented_debug_config = gb_consented_debug_config rq,
      gp_enable_debug_reporting = gb_enable_debug_reporting rq,
      gp_contextual_pas_data =
        (case gb_pas_buyer_input rq of None \<Rightarrow> None | Some p \<Rightarrow> pbi_contextual_pas_data p),
      gp_enable_unlimited_egress = gb_enable_unlimited_egress rq,
      gp_multi_bid_limit = multi_bid_limit_for enable_kanon rq,
      gp_enforce_kanon = (enable_kanon \<and> gb_enforce_kanon rq),
      gp_is_sampled_for_debug = False, gp_blob_versions = gb_blob_versions rq,
      gp_top_level_seller = gb_top_level_seller rq\<rparr>"

section \<open>Lemmas\<close>

locale task_order =
  fixes ord :: "'a list \<Rightarrow> 'a list"
  assumes ord_mset: "mset (ord xs) = mset xs"
begin

lemma ord_set: "set (ord xs) = set xs"
  using mset_eq_setD [OF ord_mset] .

lemma ord_empty: "ord xs = [] \<longleftrightarrow> xs = []"
  using ord_mset [of xs] by (metis mset_zero_iff)

end

interpretation as_submitted: task_order "\<lambda>xs. xs"
  by unfold_locales simp

interpretation reversed: task_order rev
  by unfold_locales simp

text \<open>What is known of the signals given to a group.\<close>

lemma set_add_signal:
  "set (add_signal signals k acc)
     = set acc \<union> {(k', v). k' = k \<and> k \<notin> fst ` set acc \<and> signals k = Some v}"
  by (auto simp: add_signal_def image_iff split: option.splits)

lemma distinct_add_signal: "distinct (map fst acc) \<Longrightarrow> distinct (map fst (add_signal signals k acc))"
  by (auto simp: add_signal_def split: option.split)

lemma set_fold_add_signal:
  "set (fold (add_signal signals) keys acc)
     = set acc \<union> {(k, v). k \<in> set keys - fst ` set acc \<and> signals k = Some v}"
proof (induction keys arbitrary: acc)
  case (Cons k keys)
  have "fst ` set (add_signal signals k acc)
      = fst ` set acc \<union> {k' |k'. k' = k \<and> signals k \<noteq> None}"
    by (auto simp: add_signal_def split: option.split)
  then show ?case
    using Cons [of "add_signal signals k acc"] by (auto simp: set_add_signal)
qed simp

lemma distinct_fold_add_signal:
  "distinct (map fst acc) \<Longrightarrow> distinct (map fst (fold (add_signal signals) keys acc))"
  by (induction keys arbitrary: acc) (simp_all add: distinct_add_signal)

lemma signals_for_ig:
  "set (get_signals_for_ig keys signals) = {(k, v). k \<in> set keys \<and> signals k = Some v}"
  "distinct (map fst (get_signals_for_ig keys signals))"
  by (simp_all add: get_signals_for_ig_def set_fold_add_signal distinct_fold_add_signal)

lemma group_for_bidding_cases:
  assumes "group_for_bidding opts signals ig = Some g"
  shows "bg_name g = ig_name ig" and "ig_name ig \<noteq> []" and "\<not> filtered_by_priority opts ig"
    and "bg_trusted_bidding_signals_keys g = map fst (get_signals_for_ig (ig_bidding_signals_keys ig) signals)"
    and "bg_trusted_bidding_signals g
      = (case get_signals_for_ig (ig_bidding_signals_keys ig) signals of
           [] \<Rightarrow> ''null'' | kv # kvs \<Rightarrow> serialize_signals_map (kv # kvs))"
    and "po_require_bidding_signals opts \<Longrightarrow> bg_trusted_bidding_signals_keys g \<noteq> []"
  using assms
  by (auto simp: group_for_bidding_def copy_ig_from_device_to_ig_for_bidding_def empty_bidding_group_def
      Let_def split: if_splits list.splits)

lemma prepared_groups:
  assumes "task_order ord"
  shows "mset (gg_interest_groups (prepare_generate_bids_request ord opts rq signals v))
     = mset (List.map_filter (group_for_bidding opts signals) (groups_for_bidding rq))"
  by (simp add: prepare_generate_bids_request_def task_order.ord_mset [OF assms])

text \<open>A group without keys shares the ids of the first partition.\<close>

lemma partition_ids:
  assumes "create_v2_bidding_request rq p byos = Inr r"
  shows "map rp_id (bvr_partitions r)
    = map (\<lambda>(i, ig). if ig_bidding_signals_keys ig = [] then 0 else i) (enumerate 0 (groups_for_bidding rq))"
  using assms
  by (auto simp: create_v2_bidding_request_def group_partition_def Let_def split: if_splits)

lemma keyless_group_shares_id:
  assumes "create_v2_bidding_request rq p byos = Inr r"
    and "i < length (groups_for_bidding rq)" and "0 < i"
    and "ig_bidding_signals_keys (groups_for_bidding rq ! i) = []"
  shows "\<not> distinct (map rp_id (bvr_partitions r))"
proof -
  let ?ids = "map rp_id (bvr_partitions r)"
  have nth: "?ids ! j = (if ig_bidding_signals_keys (groups_for_bidding rq ! j) = [] then 0 else j)"
    if "j < length (groups_for_bidding rq)" for j
    unfolding partition_ids [OF assms(1)] using that by (simp add: nth_enumerate_eq)
  have len: "length ?ids = length (groups_for_bidding rq)"
    unfolding partition_ids [OF assms(1)] by simp
  have "?ids ! i = 0" using nth [OF assms(2)] assms(4) by simp
  moreover have "0 < length (groups_for_bidding rq)" using assms(2) by linarith
  from nth [OF this] have "?ids ! 0 = 0" by simp
  ultimately show ?thesis using assms(2,3) len by (metis distinct_conv_nth gr_implies_not0 neq0_conv not_less_zero order_less_trans)
qed

end
