(* ===== verification/Request_Metadata.thy ===== *)
theory Request_Metadata
  imports Prelude
begin

text \<open>
  The forwarding of request metadata (\<open>common/util/request_metadata.h\<close>, \<open>request_metadata.cc\<close>). The
  metadata of a call are a multimap; \<open>find\<close> gives an entry of the key, here the first. gRPC has put
  its keys in lower case, as are the sources of every table in the code.
\<close>

definition is_valid_header_key :: "string \<Rightarrow> bool" where
  "is_valid_header_key s =
     list_all (\<lambda>c. (of_char c :: nat) \<in> {97..122} \<or> (of_char c :: nat) \<in> {48..57}
       \<or> c \<in> set ''-_.'') s"

definition is_valid_header_value :: "string \<Rightarrow> bool" where
  "is_valid_header_value s = list_all (\<lambda>c. 32 \<le> (of_char c :: nat) \<and> (of_char c :: nat) \<le> 126) s"

definition is_valid_header :: "string \<Rightarrow> string \<Rightarrow> bool" where
  "is_valid_header k v \<longleftrightarrow> is_valid_header_key k \<and> is_valid_header_value v"

definition illegal_header :: "string \<Rightarrow> string \<Rightarrow> status" where
  "illegal_header k v =
     invalid_argument (''Illegal character provided in request header: (key: '' @ k @ '', value: '' @ v @ '')'')"

fun grpc_metadata_to_request_metadata ::
  "(string \<times> string) list \<Rightarrow> (string \<times> string) list \<Rightarrow> (string \<times> string) list
     \<Rightarrow> (string \<times> string) list status_or" where
  "grpc_metadata_to_request_metadata client [] mapped = Inr mapped"
| "grpc_metadata_to_request_metadata client ((src, dst) # table) mapped =
     (case map_of client src of
        None \<Rightarrow> grpc_metadata_to_request_metadata client table mapped
      | Some v \<Rightarrow>
          if \<not> is_valid_header_value v then Inl (illegal_header src v)
          else grpc_metadata_to_request_metadata client table (al_emplace dst v mapped))"

definition request_metadata_to_http_headers ::
  "(string \<times> string) list \<Rightarrow> string list \<Rightarrow> string list" where
  "request_metadata_to_http_headers metadata mandatory =
     map (\<lambda>k. k @ '':'') (filter (\<lambda>k. map_of metadata k = None) mandatory)
     @ map (\<lambda>(k, v). k @ '':'' @ v) metadata"

definition buyer_kv_metadata :: "(string \<times> string) list" where
  "buyer_kv_metadata =
     [(''x-accept-language'', ''Accept-Language''), (''x-user-agent'', ''User-Agent''),
      (''x-bna-client-ip'', ''X-BnA-Client-IP'')]"

definition bidding_metadata :: "(string \<times> string) list" where
  "bidding_metadata =
     map (\<lambda>k. (k, k)) [''x-accept-language'', ''x-user-agent'', ''x-bna-client-ip'']"

text \<open>Only the headers of the table are forwarded, under their new names, with printable values.\<close>

lemma forwarded_metadata:
  assumes "grpc_metadata_to_request_metadata client table mapped = Inr m"
    and "list_all (\<lambda>(k, v). is_valid_header_value v) mapped"
  shows "list_all (\<lambda>(k, v). is_valid_header_value v) m \<and> fst ` set m \<subseteq> fst ` set mapped \<union> snd ` set table"
  using assms
proof (induction table arbitrary: mapped)
  case (Cons e table)
  obtain src dst where e: "e = (src, dst)" by fastforce
  show ?case
  proof (cases "map_of client src")
    case None
    then show ?thesis using Cons by (auto simp: e)
  next
    case (Some v)
    then have v: "is_valid_header_value v"
      and m: "grpc_metadata_to_request_metadata client table (al_emplace dst v mapped) = Inr m"
      using Cons.prems(1) by (auto simp: e split: if_splits)
    have sub: "set (al_emplace dst v mapped) \<subseteq> insert (dst, v) (set mapped)"
      by (auto simp: al_emplace_def split: option.splits)
    then have "list_all (\<lambda>(k, v). is_valid_header_value v) (al_emplace dst v mapped)"
      using Cons.prems(2) v by (auto simp: list_all_iff)
    moreover have "fst ` set (al_emplace dst v mapped) \<subseteq> insert dst (fst ` set mapped)"
      using image_mono [OF sub, of fst] by simp
    moreover have "fst ` set mapped \<union> snd ` set (e # table) = insert dst (fst ` set mapped) \<union> snd ` set table"
      by (auto simp: e)
    ultimately show ?thesis using Cons.IH [OF m] by blast
  qed
qed simp

end
