(* ===== verification/Get_Bids_Flow.thy ===== *)
theory Get_Bids_Flow
  imports Bidding_Signals Request_Metadata Chaffing Payload_Framing
begin

text \<open>
  A GetBids call in the buyer's front end (\<open>buyer_frontend_service/get_bids_unary_reactor.cc\<close>): the
  request is decrypted, bidding signals are fetched in one of two versions or in both, bids are asked
  of the bidding service for interest groups and for app signals, and the call is finished by the
  tracker of these tasks. Every callback is a function on the record \<open>get_bids\<close>. An answer that comes
  before \<open>Execute\<close> has sent its second request changes nothing that the rest of \<open>Execute\<close> reads, so
  that the handlers are taken one after the other. The moving medians belong to the server: what a
  call adds to them is recorded. Metrics, logs and debug information
  are left out, as is the option to treat all requests as consented.
\<close>

section \<open>Configuration and environment\<close>

datatype bidding_signals_fetch_mode = REQUIRED | FETCHED_BUT_OPTIONAL | NOT_FETCHED

record bfe_config =
  gc_is_protected_app_signals_enabled :: bool
  gc_is_protected_audience_enabled :: bool
  gc_is_chaffing_v1_enabled :: bool
  gc_is_chaffing_v2_enabled :: bool
  gc_is_tkv_v2_browser_enabled :: bool
  gc_enable_cancellation :: bool
  gc_enable_kanon :: bool
  gc_priority_vector_enabled :: bool
  gc_test_mode :: bool
  gc_tkv_v2_address_empty :: bool
  gc_bidding_signals_fetch_mode :: bidding_signals_fetch_mode
  gc_propagate_buyer_signals_to_tkv :: bool
  gc_is_hybrid_enabled :: bool

record 'g bfe_env =
  bf_libs :: libs
  bf_unspecified :: unspecified
  bf_codecs :: codecs
  bf_config :: bfe_config
  bf_key_id :: string
  bf_request_ciphertext :: string
  bf_hpke_decrypt :: "string \<Rightarrow> (string \<Rightarrow> (string \<times> string) status_or) option"
  bf_parse_request :: "string \<Rightarrow> get_bids_raw_request option"
  bf_serialize_response :: "get_bids_raw_response \<Rightarrow> string"
  bf_aead_encrypt :: "string \<Rightarrow> string \<Rightarrow> string status_or"
  bf_metadata :: "(string \<times> string) list"
  bf_has_v1_provider :: bool
  bf_has_v2_client :: bool
  bf_is_sampled :: bool
  bf_rng_ops :: "'g rng_ops"
  bf_rng_seed :: 'g
  bf_request_durations :: moving_median
  bf_response_sizes :: moving_median
  bf_duration :: int
  bf_order :: "bidding_group list \<Rightarrow> bidding_group list"

text \<open>What happens while a handler runs: cancellations, and what the clients return.\<close>

datatype bfe_cancel_point = Before_execute | Before_chaff | Before_answer | Before_finish

record bfe_choices =
  bh_cancelled :: "bfe_cancel_point \<Rightarrow> bool"
  bh_v2_accepted :: status
  bh_bids_accepted :: status
  bh_pas_accepted :: status

section \<open>The reactor\<close>

record get_bids =
  gx_request :: get_bids_raw_request
  gx_response :: get_bids_raw_response
  gx_compression :: compression_type
  gx_secret :: string
  gx_decrypt_status :: status
  gx_priority_signals :: members
  gx_tracker :: task_tracker
  gx_bid_errors :: "string list"
  gx_v1_awaited :: "bool option"
  gx_v2_awaited :: bool
  gx_bids_awaited :: bool
  gx_pas_awaited :: bool
  gx_chaff_delay :: "int option"
  gx_values_request :: "bidding_values_request option"
  gx_bids_request :: "generate_bids_raw_request option"
  gx_pas_request :: "generate_pas_bids_raw_request option"
  gx_recorded_durations :: "int list"
  gx_recorded_sizes :: "int list"
  gx_ciphertext :: string
  gx_finished :: "status list"

definition initial_get_bids :: get_bids where
  "initial_get_bids =
     \<lparr>gx_request = default_get_bids_request,
      gx_response = \<lparr>gr_bids = [], gr_pas_bids = [], gr_update_interest_group_list = []\<rparr>,
      gx_compression = Uncompressed, gx_secret = [], gx_decrypt_status = ok_status,
      gx_priority_signals = [], gx_tracker = set_num_tasks_to_track 1, gx_bid_errors = [],
      gx_v1_awaited = None, gx_v2_awaited = False, gx_bids_awaited = False, gx_pas_awaited = False,
      gx_chaff_delay = None, gx_values_request = None, gx_bids_request = None, gx_pas_request = None,
      gx_recorded_durations = [], gx_recorded_sizes = [], gx_ciphertext = [], gx_finished = []\<rparr>"

definition get_bids_cancelled :: "'g bfe_env \<Rightarrow> bfe_choices \<Rightarrow> bfe_cancel_point \<Rightarrow> bool" where
  "get_bids_cancelled E ch p \<longleftrightarrow> gc_enable_cancellation (bf_config E) \<and> bh_cancelled ch p"

definition request_cancelled_by_client :: status where
  "request_cancelled_by_client = \<lparr>st_code = CANCELLED, st_message = ''Request Cancelled by Client.''\<rparr>"

definition missing_inputs :: status where
  "missing_inputs = invalid_argument ''Missing inputs''"

text \<open>\<open>FinishWithStatus\<close>.\<close>

definition finish_get_bids :: "'g bfe_env \<Rightarrow> status \<Rightarrow> get_bids \<Rightarrow> get_bids" where
  "finish_get_bids E s st =
     (if is_ok s \<and> \<not> gb_is_chaff (gx_request st) \<and> gc_is_chaffing_v2_enabled (bf_config E)
      then st\<lparr>gx_recorded_durations := gx_recorded_durations st @ [bf_duration E],
              gx_finished := gx_finished st @ [s]\<rparr>
      else st\<lparr>gx_finished := gx_finished st @ [s]\<rparr>)"

section \<open>Decryption\<close>

text \<open>\<open>front()\<close> of an empty payload reads the terminating zero.\<close>

definition parse_raw_request_bytestring :: "'g bfe_env \<Rightarrow> string \<Rightarrow> get_bids \<Rightarrow> get_bids" where
  "parse_raw_request_bytestring E payload st =
     (if payload \<noteq> [] \<and> hd payload \<notin> {CHR 0x00, CHR 0x01, CHR 0x02}
      then st\<lparr>gx_decrypt_status := invalid_argument ''Malformed request.''\<rparr>
      else
        (case decode_payload get_network_order (bf_codecs E) (bf_parse_request E) payload of
           Inl e \<Rightarrow> st\<lparr>gx_decrypt_status := invalid_argument ''Malformed request ciphertext.''\<rparr>
         | Inr d \<Rightarrow>
             (let st = st\<lparr>gx_compression := dp_compression_type d\<rparr>
              in if dp_version d \<noteq> 0
                 then st\<lparr>gx_decrypt_status :=
                        invalid_argument ''Unsupported version and compression combination''\<rparr>
                 else st\<lparr>gx_request := dp_message d, gx_decrypt_status := ok_status\<rparr>)))"

definition decrypt_get_bids_request :: "'g bfe_env \<Rightarrow> get_bids \<Rightarrow> get_bids" where
  "decrypt_get_bids_request E st =
     (if bf_key_id E = [] then st\<lparr>gx_decrypt_status := invalid_argument ''key_id must be non-null.''\<rparr>
      else if bf_request_ciphertext E = []
      then st\<lparr>gx_decrypt_status := invalid_argument ''request_ciphertext must be non-null.''\<rparr>
      else
        (case bf_hpke_decrypt E (bf_key_id E) of
           None \<Rightarrow> st\<lparr>gx_decrypt_status := invalid_argument ''Invalid key_id.''\<rparr>
         | Some decrypt \<Rightarrow>
             (case decrypt (bf_request_ciphertext E) of
                Inl e \<Rightarrow> st\<lparr>gx_decrypt_status := invalid_argument ''Malformed request ciphertext.''\<rparr>
              | Inr (payload, secret) \<Rightarrow>
                  parse_raw_request_bytestring E payload (st\<lparr>gx_secret := secret\<rparr>))))"

definition new_get_bids :: "'g bfe_env \<Rightarrow> get_bids" where
  "new_get_bids E = decrypt_get_bids_request E initial_get_bids"

definition enable_enforce_kanon :: "'g bfe_env \<Rightarrow> get_bids \<Rightarrow> bool" where
  "enable_enforce_kanon E st \<longleftrightarrow> gc_enable_kanon (bf_config E) \<and> gb_enforce_kanon (gx_request st)"

section \<open>The end of the call\<close>

definition annotate :: "status \<Rightarrow> string \<Rightarrow> status" where
  "annotate s note = s\<lparr>st_message := st_message s @ ''; '' @ note\<rparr>"

definition encrypt_get_bids_response :: "'g bfe_env \<Rightarrow> get_bids \<Rightarrow> status \<times> get_bids" where
  "encrypt_get_bids_response E st =
     (case encode_and_compress_payload put_network_order (bf_codecs E) (bf_serialize_response E)
             (gx_response st) (gx_compression st) 0 of
        Inl e \<Rightarrow> (annotate e ''when trying to encode/compress SelectAdResponse'', st)
      | Inr payload \<Rightarrow>
          (let st = (if gc_is_chaffing_v2_enabled (bf_config E)
                     then st\<lparr>gx_recorded_sizes := gx_recorded_sizes st @ [int (length payload)]\<rparr> else st)
           in case bf_aead_encrypt E payload (gx_secret st) of
                Inl e \<Rightarrow> (e, st)
              | Inr c \<Rightarrow> (ok_status, st\<lparr>gx_ciphertext := c\<rparr>)))"

fun join_with :: "string \<Rightarrow> string list \<Rightarrow> string" where
  "join_with sep [] = []"
| "join_with sep [s] = s"
| "join_with sep (s # t # ss) = s @ sep @ join_with sep (t # ss)"

definition on_all_get_bids_done :: "'g bfe_env \<Rightarrow> bfe_choices \<Rightarrow> bool \<Rightarrow> get_bids \<Rightarrow> get_bids" where
  "on_all_get_bids_done E ch any_successful_bids st =
     (if get_bids_cancelled E ch Before_finish then finish_get_bids E request_cancelled_by_client st
      else if \<not> any_successful_bids
      then finish_get_bids E (internal_error (join_with ''; '' (gx_bid_errors st))) st
      else
        (case encrypt_get_bids_response E st of
           (s, st') \<Rightarrow>
             finish_get_bids E (if is_ok s then ok_status else internal_error (status_to_string s)) st'))"

text \<open>\<open>async_task_tracker_.TaskCompleted\<close>; the argument \<open>f\<close> is what it does to the state first.\<close>

definition get_bids_task_completed ::
  "'g bfe_env \<Rightarrow> bfe_choices \<Rightarrow> task_status \<Rightarrow> (get_bids \<Rightarrow> get_bids) \<Rightarrow> get_bids \<Rightarrow> get_bids" where
  "get_bids_task_completed E ch s f st =
     (case task_completed s (gx_tracker st) of
        (t, called) \<Rightarrow>
          (let st' = (f st)\<lparr>gx_tracker := t\<rparr>
           in case called of None \<Rightarrow> st' | Some any \<Rightarrow> on_all_get_bids_done E ch any st'))"

definition add_bid_error :: "status \<Rightarrow> get_bids \<Rightarrow> get_bids" where
  "add_bid_error s st = st\<lparr>gx_bid_errors := gx_bid_errors st @ [status_to_string s]\<rparr>"

definition get_bids_task_failed :: "'g bfe_env \<Rightarrow> bfe_choices \<Rightarrow> status \<Rightarrow> get_bids \<Rightarrow> get_bids" where
  "get_bids_task_failed E ch s = get_bids_task_completed E ch TASK_ERROR (add_bid_error s)"

section \<open>Bids\<close>

definition get_protected_signals_bids :: "'g bfe_env \<Rightarrow> bfe_choices \<Rightarrow> get_bids \<Rightarrow> get_bids" where
  "get_protected_signals_bids E ch st =
     (case gb_pas_buyer_input (gx_request st) of
        None \<Rightarrow> st
      | Some p \<Rightarrow>
          if pbi_protected_app_signals p = None then st
          else
            (let r = (create_generate_pas_bids_raw_request (gx_request st) (enable_enforce_kanon E st))
                   \<lparr>gp_is_sampled_for_debug := bf_is_sampled E\<rparr>;
                 st = st\<lparr>gx_pas_request := Some r\<rparr>
             in if is_ok (bh_pas_accepted ch) then st\<lparr>gx_pas_awaited := True\<rparr>
                else get_bids_task_failed E ch (bh_pas_accepted ch) st))"

definition no_components :: bidding_signal_components where
  "no_components =
     \<lparr>bj_bidding_signals = None, bj_update_igs = [], bj_raw_size = 0,
      bj_per_ig_priority_vectors = Map.empty\<rparr>"

definition the_buyer_input :: "get_bids_raw_request \<Rightarrow> buyer_input_for_bidding" where
  "the_buyer_input rq =
     (case gb_buyer_input_for_bidding rq of
        Some bi \<Rightarrow> bi
      | None \<Rightarrow> \<lparr>bi_interest_groups = [], bi_protected_app_signals = None,
                 bi_in_cooldown_or_lockout = False\<rparr>)"

definition send_generate_bids ::
  "'g bfe_env \<Rightarrow> bfe_choices \<Rightarrow> int \<Rightarrow> bidding_signal_components \<Rightarrow> get_bids \<Rightarrow> get_bids" where
  "send_generate_bids E ch data_version components st =
     (case (if gc_priority_vector_enabled (bf_config E)
            then (case calculate_interest_group_priorities (gx_priority_signals st)
                         (the_buyer_input (gx_request st)) (bj_per_ig_priority_vectors components) of
                    (p, ms) \<Rightarrow> (Some p, ms))
            else (None, gx_priority_signals st)) of
        (priorities, ms) \<Rightarrow>
          (let signals = (case bj_bidding_signals components of
                  None \<Rightarrow> Map.empty | Some v \<Rightarrow> bidding_signals_to_map (bf_libs E) v);
               options = \<lparr>po_enable_kanon = enable_enforce_kanon E st,
                  po_require_bidding_signals = (gc_bidding_signals_fetch_mode (bf_config E) = REQUIRED),
                  po_priorities = priorities\<rparr>;
               r = (prepare_generate_bids_request (bf_order E) options (gx_request st) signals data_version)
                     \<lparr>gg_is_sampled_for_debug := bf_is_sampled E\<rparr>;
               st = st\<lparr>gx_priority_signals := ms\<rparr>
           in if gg_interest_groups r = [] then get_bids_task_completed E ch TASK_EMPTY_RESPONSE id st
              else if is_ok (bh_bids_accepted ch)
              then st\<lparr>gx_bids_request := Some r, gx_bids_awaited := True\<rparr>
              else get_bids_task_failed E ch (bh_bids_accepted ch) (st\<lparr>gx_bids_request := Some r\<rparr>)))"

definition prepare_and_generate_protected_audience_bid ::
  "'g bfe_env \<Rightarrow> bfe_choices \<Rightarrow> bidding_signals \<Rightarrow> get_bids \<Rightarrow> get_bids" where
  "prepare_and_generate_protected_audience_bid E ch signals st =
     (case parse_trusted_bidding_signals (bf_libs E) signals (groups_for_bidding (gx_request st)) of
        Inr c \<Rightarrow>
          send_generate_bids E ch (bsg_data_version signals) c
            (st\<lparr>gx_response := (gx_response st)\<lparr>gr_update_interest_group_list := bj_update_igs c\<rparr>\<rparr>)
      | Inl e \<Rightarrow>
          if gc_bidding_signals_fetch_mode (bf_config E) = REQUIRED
          then (if st_code e = INVALID_ARGUMENT
                then get_bids_task_completed E ch TASK_EMPTY_RESPONSE id st
                else get_bids_task_failed E ch e st)
          else send_generate_bids E ch (bsg_data_version signals) no_components st)"

section \<open>Signals\<close>

definition no_signals_fetched :: "string \<Rightarrow> status" where
  "no_signals_fetched version =
     internal_error (''Definite logical error: Called '' @ version
       @ '' function to get bidding signals despite BIDDING_SIGNALS_FETCH_MODE being NOT_FETCHED.'')"

definition no_signals_provider :: "string \<Rightarrow> string \<Rightarrow> status" where
  "no_signals_provider version provider =
     internal_error (''Definite logical error: Called '' @ version
       @ '' function to get bidding signals despite the '' @ provider @ '' being nullptr.'')"

text \<open>A request of version 2 that cannot be created is dropped.\<close>

definition may_get_protected_audience_bids_v2 ::
  "'g bfe_env \<Rightarrow> bfe_choices \<Rightarrow> string option \<Rightarrow> get_bids \<Rightarrow> get_bids" where
  "may_get_protected_audience_bids_v2 E ch byos_output st =
     (if gc_bidding_signals_fetch_mode (bf_config E) = NOT_FETCHED
      then finish_get_bids E (no_signals_fetched ''V2'') st
      else if \<not> bf_has_v2_client E
      then finish_get_bids E (no_signals_provider ''V2'' ''kv async client'') st
      else
        (case create_v2_bidding_request (gx_request st)
                (gc_propagate_buyer_signals_to_tkv (bf_config E)) byos_output of
           Inl e \<Rightarrow> st
         | Inr r \<Rightarrow>
             if is_ok (bh_v2_accepted ch) then st\<lparr>gx_values_request := Some r, gx_v2_awaited := True\<rparr>
             else get_bids_task_failed E ch (bh_v2_accepted ch) st))"

definition may_get_protected_audience_bids_v1 :: "'g bfe_env \<Rightarrow> bool \<Rightarrow> get_bids \<Rightarrow> get_bids" where
  "may_get_protected_audience_bids_v1 E is_hybrid st =
     (if gc_bidding_signals_fetch_mode (bf_config E) = NOT_FETCHED
      then finish_get_bids E (no_signals_fetched ''V1'') st
      else if \<not> bf_has_v1_provider E
      then finish_get_bids E (no_signals_provider ''V1'' ''bidding signals async provider'') st
      else st\<lparr>gx_v1_awaited := Some is_hybrid\<rparr>)"

definition bfe_uses_v2 :: "'g bfe_env \<Rightarrow> get_bids \<Rightarrow> bool" where
  "bfe_uses_v2 E st \<longleftrightarrow>
     use_kv_v2 (gb_client_type (gx_request st)) (gc_is_tkv_v2_browser_enabled (bf_config E))
       (gc_test_mode (bf_config E)) (gc_tkv_v2_address_empty (bf_config E))"

definition bfe_is_hybrid :: "'g bfe_env \<Rightarrow> get_bids \<Rightarrow> bool" where
  "bfe_is_hybrid E st \<longleftrightarrow>
     gc_is_hybrid_enabled (bf_config E) \<and> gb_client_type (gx_request st) = CLIENT_TYPE_BROWSER"

definition get_protected_audience_bids :: "'g bfe_env \<Rightarrow> bfe_choices \<Rightarrow> get_bids \<Rightarrow> get_bids" where
  "get_protected_audience_bids E ch st =
     (if gc_bidding_signals_fetch_mode (bf_config E) \<noteq> NOT_FETCHED
      then if bfe_uses_v2 E st then may_get_protected_audience_bids_v2 E ch None st
           else may_get_protected_audience_bids_v1 E (bfe_is_hybrid E st) st
      else prepare_and_generate_protected_audience_bid E ch no_bidding_signals st)"

section \<open>Chaff\<close>

definition get_buyer_chaffing_v2_values :: "moving_median \<Rightarrow> moving_median \<Rightarrow> (int \<times> int) status_or" where
  "get_buyer_chaffing_v2_values durations sizes =
     (if \<not> is_window_filled durations \<or> \<not> is_window_filled sizes then Inr (500, 100000)
      else
        (case mm_median durations of
           Inl e \<Rightarrow> Inl e
         | Inr d \<Rightarrow> (case mm_median sizes of Inl e \<Rightarrow> Inl e | Inr n \<Rightarrow> Inr (d, n))))"

definition chaff_response_shape :: "'g bfe_env \<Rightarrow> (int \<times> int) status_or" where
  "chaff_response_shape E =
     (if gc_is_chaffing_v2_enabled (bf_config E)
      then get_buyer_chaffing_v2_values (bf_request_durations E) (bf_response_sizes E)
      else (case get_uniform_int (bf_rng_ops E) 25 380 (bf_rng_seed E) of
              (duration, g) \<Rightarrow>
                Inr (duration, fst (get_uniform_int (bf_rng_ops E) 1000 10500 g))))"

definition server_failure :: status where
  "server_failure = internal_error ''Internal server error.''"

definition execute_chaff_request :: "'g bfe_env \<Rightarrow> bfe_choices \<Rightarrow> get_bids \<Rightarrow> get_bids" where
  "execute_chaff_request E ch st =
     (if get_bids_cancelled E ch Before_chaff then finish_get_bids E request_cancelled_by_client st
      else if \<not> gc_is_chaffing_v1_enabled (bf_config E) \<and> \<not> gc_is_chaffing_v2_enabled (bf_config E)
      then finish_get_bids E server_failure st
      else
        (case chaff_response_shape E of
           Inl e \<Rightarrow> finish_get_bids E server_failure st
         | Inr (duration, min_size) \<Rightarrow>
             (case encode_and_compress_payload put_network_order (bf_codecs E) (bf_serialize_response E)
                     (gx_response st) (gx_compression st) (nat min_size) of
                Inl e \<Rightarrow> finish_get_bids E server_failure st
              | Inr payload \<Rightarrow>
                  (case bf_aead_encrypt E payload (gx_secret st) of
                     Inl e \<Rightarrow> finish_get_bids E server_failure st
                   | Inr c \<Rightarrow> st\<lparr>gx_ciphertext := c, gx_chaff_delay := Some duration\<rparr>))))"

section \<open>Execute\<close>

definition has_interest_groups :: "'b buyer_input_of option \<Rightarrow> bool" where
  "has_interest_groups bi = (case bi of None \<Rightarrow> False | Some bi \<Rightarrow> bi_interest_groups bi \<noteq> [])"

definition fetches_app_signals_bids :: "'g bfe_env \<Rightarrow> get_bids_raw_request \<Rightarrow> bool" where
  "fetches_app_signals_bids E rq \<longleftrightarrow>
     gc_is_protected_app_signals_enabled (bf_config E) \<and> gb_pas_buyer_input rq \<noteq> None"

definition get_number_of_maximum_bidding_calls :: "'g bfe_env \<Rightarrow> get_bids_raw_request \<Rightarrow> int" where
  "get_number_of_maximum_bidding_calls E rq =
     (if gc_is_protected_audience_enabled (bf_config E)
          \<and> (has_interest_groups (gb_buyer_input rq) \<or> has_interest_groups (gb_buyer_input_for_bidding rq))
      then 1 else 0)
     + (if fetches_app_signals_bids E rq then 1 else 0)"

definition upgrade_buyer_input :: "'g bfe_env \<Rightarrow> get_bids_raw_request \<Rightarrow> get_bids_raw_request" where
  "upgrade_buyer_input E rq =
     (case gb_buyer_input rq of
        None \<Rightarrow> rq
      | Some bi \<Rightarrow>
          rq\<lparr>gb_buyer_input_for_bidding :=
               Some (to_buyer_input_for_bidding (bf_libs E) (bf_unspecified E) bi)\<rparr>)"

definition fetch_get_bids :: "'g bfe_env \<Rightarrow> bfe_choices \<Rightarrow> get_bids \<Rightarrow> get_bids" where
  "fetch_get_bids E ch st =
     (let n = get_number_of_maximum_bidding_calls E (gx_request st)
      in if n = 0 then finish_get_bids E missing_inputs st
         else
           (let rq = upgrade_buyer_input E (gx_request st);
                st = st\<lparr>gx_tracker := set_num_tasks_to_track n, gx_request := rq\<rparr>;
                st = (if gc_is_protected_audience_enabled (bf_config E)
                         \<and> has_interest_groups (gb_buyer_input_for_bidding rq)
                      then get_protected_audience_bids E ch st else st)
            in if fetches_app_signals_bids E rq then get_protected_signals_bids E ch st else st))"

definition execute_get_bids :: "'g bfe_env \<Rightarrow> bfe_choices \<Rightarrow> get_bids \<Rightarrow> get_bids" where
  "execute_get_bids E ch st =
     (if get_bids_cancelled E ch Before_execute then finish_get_bids E request_cancelled_by_client st
      else
        (case grpc_metadata_to_request_metadata (bf_metadata E) buyer_kv_metadata [] of
           Inl e \<Rightarrow> finish_get_bids E e st
         | Inr _ \<Rightarrow>
             (case grpc_metadata_to_request_metadata (bf_metadata E) bidding_metadata [] of
                Inl e \<Rightarrow> finish_get_bids E e st
              | Inr _ \<Rightarrow>
                  if \<not> is_ok (gx_decrypt_status st) then finish_get_bids E (gx_decrypt_status st) st
                  else if gc_is_chaffing_v1_enabled (bf_config E) \<and> gb_is_chaff (gx_request st)
                  then execute_chaff_request E ch st
                  else if gc_priority_vector_enabled (bf_config E)
                      \<and> gb_priority_signals (gx_request st) \<noteq> []
                  then (case parse_priority_vector (bf_libs E) (gb_priority_signals (gx_request st)) of
                          Inl e \<Rightarrow> finish_get_bids E missing_inputs st
                        | Inr ms \<Rightarrow> fetch_get_bids E ch (st\<lparr>gx_priority_signals := ms\<rparr>))
                  else fetch_get_bids E ch st)))"

section \<open>Answers\<close>

definition unless_get_bids_cancelled ::
  "'g bfe_env \<Rightarrow> bfe_choices \<Rightarrow> (get_bids \<Rightarrow> get_bids) \<Rightarrow> get_bids \<Rightarrow> get_bids" where
  "unless_get_bids_cancelled E ch f st =
     (if get_bids_cancelled E ch Before_answer then get_bids_task_completed E ch TASK_CANCELLED id st
      else f st)"

definition on_v1_bidding_signals ::
  "'g bfe_env \<Rightarrow> bfe_choices \<Rightarrow> bool \<Rightarrow> buyer_values_output status_or \<Rightarrow> get_bids \<Rightarrow> get_bids" where
  "on_v1_bidding_signals E ch is_hybrid answer st =
     unless_get_bids_cancelled E ch
       (\<lambda>st. case answer of
          Inl e \<Rightarrow> get_bids_task_failed E ch e st
        | Inr out \<Rightarrow>
            (let signals = bidding_signals_of_output (gb_client_type (gx_request st)) out
             in if is_hybrid \<and> \<not> bsg_is_hybrid_v1_return signals
                then may_get_protected_audience_bids_v2 E ch (bsg_trusted_signals signals) st
                else prepare_and_generate_protected_audience_bid E ch signals st))
       (st\<lparr>gx_v1_awaited := None\<rparr>)"

definition on_v2_bidding_signals ::
  "'g bfe_env \<Rightarrow> bfe_choices \<Rightarrow> string list status_or \<Rightarrow> get_bids \<Rightarrow> get_bids" where
  "on_v2_bidding_signals E ch answer st =
     unless_get_bids_cancelled E ch
       (\<lambda>st. case answer of
          Inl e \<Rightarrow> get_bids_task_failed E ch e st
        | Inr groups \<Rightarrow>
            (case convert_v2_bidding_signals_to_v1 (bf_libs E) (bf_unspecified E) groups of
               Inl e \<Rightarrow> get_bids_task_failed E ch e st
             | Inr signals \<Rightarrow> prepare_and_generate_protected_audience_bid E ch signals st))
       (st\<lparr>gx_v2_awaited := False\<rparr>)"

text \<open>\<open>HandleSingleBidCompletion\<close>.\<close>

definition handle_single_bid_completion ::
  "'g bfe_env \<Rightarrow> bfe_choices \<Rightarrow> ('b list \<Rightarrow> get_bids \<Rightarrow> get_bids) \<Rightarrow> 'b list status_or \<Rightarrow> get_bids
     \<Rightarrow> get_bids" where
  "handle_single_bid_completion E ch set_bids answer st =
     (case answer of
        Inl e \<Rightarrow> get_bids_task_failed E ch e st
      | Inr bids \<Rightarrow>
          if bids = [] then get_bids_task_completed E ch TASK_EMPTY_RESPONSE id st
          else unless_get_bids_cancelled E ch
                 (get_bids_task_completed E ch TASK_SUCCESS (set_bids bids)) st)"

definition set_gr_bids :: "buyer_bid list \<Rightarrow> get_bids \<Rightarrow> get_bids" where
  "set_gr_bids bids st = st\<lparr>gx_response := (gx_response st)\<lparr>gr_bids := bids\<rparr>\<rparr>"

definition set_gr_pas_bids :: "pas_buyer_bid list \<Rightarrow> get_bids \<Rightarrow> get_bids" where
  "set_gr_pas_bids bids st = st\<lparr>gx_response := (gx_response st)\<lparr>gr_pas_bids := bids\<rparr>\<rparr>"

definition on_generated_bids ::
  "'g bfe_env \<Rightarrow> bfe_choices \<Rightarrow> buyer_bid list status_or \<Rightarrow> get_bids \<Rightarrow> get_bids" where
  "on_generated_bids E ch answer st =
     handle_single_bid_completion E ch set_gr_bids answer (st\<lparr>gx_bids_awaited := False\<rparr>)"

definition on_generated_pas_bids ::
  "'g bfe_env \<Rightarrow> bfe_choices \<Rightarrow> pas_buyer_bid list status_or \<Rightarrow> get_bids \<Rightarrow> get_bids" where
  "on_generated_pas_bids E ch answer st =
     handle_single_bid_completion E ch set_gr_pas_bids answer (st\<lparr>gx_pas_awaited := False\<rparr>)"

definition on_chaff_delay :: "'g bfe_env \<Rightarrow> get_bids \<Rightarrow> get_bids" where
  "on_chaff_delay E st = finish_get_bids E ok_status (st\<lparr>gx_chaff_delay := None\<rparr>)"

inductive get_bids_step :: "'g bfe_env \<Rightarrow> get_bids \<Rightarrow> get_bids \<Rightarrow> bool" for E where
  v1: "gx_v1_awaited st = Some h \<Longrightarrow> get_bids_step E st (on_v1_bidding_signals E ch h v1_answer st)"
| v2: "gx_v2_awaited st \<Longrightarrow> get_bids_step E st (on_v2_bidding_signals E ch v2_answer st)"
| bids: "gx_bids_awaited st \<Longrightarrow> get_bids_step E st (on_generated_bids E ch bids st)"
| pas_bids: "gx_pas_awaited st \<Longrightarrow> get_bids_step E st (on_generated_pas_bids E ch pas_bids st)"
| chaff: "gx_chaff_delay st = Some d \<Longrightarrow> get_bids_step E st (on_chaff_delay E st)"

inductive_cases get_bids_stepE: "get_bids_step E st st'"

inductive get_bids_reachable :: "'g bfe_env \<Rightarrow> get_bids \<Rightarrow> bool" for E where
  start: "get_bids_reachable E (execute_get_bids E ch (new_get_bids E))"
| step: "get_bids_reachable E st \<Longrightarrow> get_bids_step E st st' \<Longrightarrow> get_bids_reachable E st'"

end
