(* ===== verification/Get_Bids_Runs.thy ===== *)
theory Get_Bids_Runs
  imports Get_Bids_Flow
begin

text \<open>
  What holds in every reachable state of a GetBids call. \<open>bid_control\<close> is the part of the state that
  says what is awaited: the answers for interest groups (signals or bids) and for app signals, the
  delayed end of a chaff request, the pending tasks and how often the call was finished. The handlers
  are first described by what they do to it.
\<close>

record bid_control =
  bd_pa :: nat
  bd_pas :: bool
  bd_chaff :: bool
  bd_pending :: int
  bd_finished :: nat

definition pa_awaited :: "get_bids \<Rightarrow> nat" where
  "pa_awaited st =
     of_bool (gx_v1_awaited st \<noteq> None) + of_bool (gx_v2_awaited st) + of_bool (gx_bids_awaited st)"

definition bid_control :: "get_bids \<Rightarrow> bid_control" where
  "bid_control st =
     \<lparr>bd_pa = pa_awaited st, bd_pas = gx_pas_awaited st, bd_chaff = (gx_chaff_delay st \<noteq> None),
      bd_pending = tt_pending (gx_tracker st), bd_finished = length (gx_finished st)\<rparr>"

definition completed :: "bid_control \<Rightarrow> bid_control" where
  "completed c =
     (if bd_pending c = 1 then c\<lparr>bd_pending := 0, bd_finished := Suc (bd_finished c)\<rparr>
      else c\<lparr>bd_pending := bd_pending c - 1\<rparr>)"

definition bid_ended :: "bid_control \<Rightarrow> bid_control" where
  "bid_ended c = c\<lparr>bd_finished := Suc (bd_finished c)\<rparr>"

section \<open>The handlers\<close>

text \<open>Changes that the control state does not see.\<close>

definition frame :: "(get_bids \<Rightarrow> get_bids) \<Rightarrow> bool" where
  "frame f \<longleftrightarrow>
     (\<forall>st. bid_control (f st) = bid_control st \<and> gx_tracker (f st) = gx_tracker st
        \<and> gx_request (f st) = gx_request st)"

lemma frames [simp, intro]:
  "frame id" "frame (add_bid_error s)" "frame (set_gr_bids bs)" "frame (set_gr_pas_bids ps)"
  by (simp_all add: frame_def add_bid_error_def set_gr_bids_def set_gr_pas_bids_def bid_control_def
      pa_awaited_def)

lemma bid_control_updates [simp]:
  "bid_control (st\<lparr>gx_response := a\<rparr>) = bid_control st"
  "bid_control (st\<lparr>gx_request := b\<rparr>) = bid_control st"
  "bid_control (st\<lparr>gx_priority_signals := c\<rparr>) = bid_control st"
  "bid_control (st\<lparr>gx_values_request := d\<rparr>) = bid_control st"
  "bid_control (st\<lparr>gx_bids_request := e\<rparr>) = bid_control st"
  "bid_control (st\<lparr>gx_pas_request := f\<rparr>) = bid_control st"
  "bid_control (st\<lparr>gx_recorded_sizes := g\<rparr>) = bid_control st"
  "bid_control (st\<lparr>gx_ciphertext := h\<rparr>) = bid_control st"
  "bid_control (st\<lparr>gx_tracker := t\<rparr>) = bid_control st\<lparr>bd_pending := tt_pending t\<rparr>"
  "bid_control (st\<lparr>gx_pas_awaited := p\<rparr>) = bid_control st\<lparr>bd_pas := p\<rparr>"
  "bid_control (st\<lparr>gx_chaff_delay := q\<rparr>) = bid_control st\<lparr>bd_chaff := (q \<noteq> None)\<rparr>"
  by (simp_all add: bid_control_def pa_awaited_def)

lemma bid_control_fields [simp]:
  "bd_pa (bid_control st) = pa_awaited st" "bd_pas (bid_control st) = gx_pas_awaited st"
  "bd_pending (bid_control st) = tt_pending (gx_tracker st)"
  "bd_finished (bid_control st) = length (gx_finished st)"
  "bd_chaff (bid_control st) = (gx_chaff_delay st \<noteq> None)"
  by (simp_all add: bid_control_def)

lemma bid_control_finish [simp]: "bid_control (finish_get_bids E s st) = bid_ended (bid_control st)"
  by (simp add: finish_get_bids_def bid_ended_def bid_control_def pa_awaited_def)

lemma request_finish [simp]: "gx_request (finish_get_bids E s st) = gx_request st"
  by (simp add: finish_get_bids_def)

lemma bid_control_encrypt:
  "encrypt_get_bids_response E st = (s, st') \<Longrightarrow>
     bid_control st' = bid_control st \<and> gx_request st' = gx_request st"
  by (auto simp: encrypt_get_bids_response_def Let_def split: sum.splits if_splits)

lemma on_all_get_bids_done_control:
  "bid_control (on_all_get_bids_done E ch any st) = bid_ended (bid_control st)"
  "gx_request (on_all_get_bids_done E ch any st) = gx_request st"
proof -
  obtain s st' where e: "encrypt_get_bids_response E st = (s, st')" by fastforce
  then show "bid_control (on_all_get_bids_done E ch any st) = bid_ended (bid_control st)"
    and "gx_request (on_all_get_bids_done E ch any st) = gx_request st"
    using bid_control_encrypt [OF e] by (simp_all add: on_all_get_bids_done_def)
qed

lemma tracker_outcome:
  "task_completed s t = (t', called) \<Longrightarrow>
     tt_pending t' = tt_pending t - 1 \<and> (called = None \<longleftrightarrow> tt_pending t \<noteq> 1)"
  by (cases s) (auto simp: task_completed_def Let_def)

lemma task_control:
  assumes "frame f"
  shows "bid_control (get_bids_task_completed E ch s f st) = completed (bid_control st)"
    and "gx_request (get_bids_task_completed E ch s f st) = gx_request st"
proof -
  obtain t called where t: "task_completed s (gx_tracker st) = (t, called)" by fastforce
  note f = assms [unfolded frame_def, rule_format, of st]
  have "bid_control (get_bids_task_completed E ch s f st) = completed (bid_control st)
    \<and> gx_request (get_bids_task_completed E ch s f st) = gx_request st"
    using tracker_outcome [OF t] f
    by (cases called)
      (auto simp: get_bids_task_completed_def t completed_def bid_ended_def on_all_get_bids_done_control Let_def)
  then show "bid_control (get_bids_task_completed E ch s f st) = completed (bid_control st)"
    and "gx_request (get_bids_task_completed E ch s f st) = gx_request st" by blast+
qed

lemma task_failed_control [simp]:
  "bid_control (get_bids_task_failed E ch s st) = completed (bid_control st)"
  "gx_request (get_bids_task_failed E ch s st) = gx_request st"
  by (simp_all add: get_bids_task_failed_def task_control)

lemma task_id_control [simp]:
  "bid_control (get_bids_task_completed E ch s id st) = completed (bid_control st)"
  "gx_request (get_bids_task_completed E ch s id st) = gx_request st"
  by (simp_all add: task_control)

definition asks_for_pa :: "bid_control \<Rightarrow> bid_control" where
  "asks_for_pa c = c\<lparr>bd_pa := 1\<rparr>"

definition asks_for_pas :: "bid_control \<Rightarrow> bid_control" where
  "asks_for_pas c = c\<lparr>bd_pas := True\<rparr>"

lemma awaiting_pa:
  assumes "pa_awaited st = 0"
  shows "bid_control (st\<lparr>gx_v1_awaited := Some h\<rparr>) = asks_for_pa (bid_control st)"
    "bid_control (st\<lparr>gx_values_request := r, gx_v2_awaited := True\<rparr>) = asks_for_pa (bid_control st)"
    "bid_control (st\<lparr>gx_bids_request := q, gx_bids_awaited := True\<rparr>) = asks_for_pa (bid_control st)"
  using assms by (simp_all add: bid_control_def pa_awaited_def asks_for_pa_def)

lemma pa_awaited_updates [simp]:
  "pa_awaited (st\<lparr>gx_priority_signals := c\<rparr>) = pa_awaited st"
  "pa_awaited (st\<lparr>gx_response := r\<rparr>) = pa_awaited st"
  "pa_awaited (st\<lparr>gx_tracker := t\<rparr>) = pa_awaited st"
  "pa_awaited (st\<lparr>gx_request := q\<rparr>) = pa_awaited st"
  by (simp_all add: pa_awaited_def)

lemma send_generate_bids_control:
  assumes "pa_awaited st = 0"
  shows "bid_control (send_generate_bids E ch v c st) \<in> {completed (bid_control st), asks_for_pa (bid_control st)}"
    and "gx_request (send_generate_bids E ch v c st) = gx_request st"
  using assms by (auto simp: send_generate_bids_def Let_def awaiting_pa split: prod.split)

lemma prepare_and_generate_control:
  assumes "pa_awaited st = 0"
  shows "bid_control (prepare_and_generate_protected_audience_bid E ch s st)
      \<in> {completed (bid_control st), asks_for_pa (bid_control st)}"
    and "gx_request (prepare_and_generate_protected_audience_bid E ch s st) = gx_request st"
  using assms send_generate_bids_control [of "st\<lparr>gx_response := r\<rparr>" E ch for r] send_generate_bids_control [of st E ch]
  by (auto simp: prepare_and_generate_protected_audience_bid_def split: sum.split)

text \<open>A request of version 2 is dropped when no group has keys.\<close>

definition has_keys :: "get_bids_raw_request \<Rightarrow> bool" where
  "has_keys rq \<longleftrightarrow> is_ok (validate_interest_groups (groups_for_bidding rq))"

lemma v2_control:
  assumes "pa_awaited st = 0"
  shows "bid_control (may_get_protected_audience_bids_v2 E ch byos st)
      \<in> {bid_ended (bid_control st), completed (bid_control st), asks_for_pa (bid_control st)}
    \<or> bid_control (may_get_protected_audience_bids_v2 E ch byos st) = bid_control st \<and> \<not> has_keys (gx_request st)"
    and "gx_request (may_get_protected_audience_bids_v2 E ch byos st) = gx_request st"
  using assms
  by (auto simp: may_get_protected_audience_bids_v2_def awaiting_pa has_keys_def create_v2_bidding_request_def
      Let_def split: sum.splits if_splits)

lemma v1_control:
  assumes "pa_awaited st = 0"
  shows "bid_control (may_get_protected_audience_bids_v1 E h st)
      \<in> {bid_ended (bid_control st), asks_for_pa (bid_control st)}"
    and "gx_request (may_get_protected_audience_bids_v1 E h st) = gx_request st"
  using assms by (auto simp: may_get_protected_audience_bids_v1_def awaiting_pa)

text \<open>What a handler may do that acts for the interest groups, once nothing is awaited for them.\<close>

definition pa_outcome :: "bool \<Rightarrow> bid_control \<Rightarrow> bid_control \<Rightarrow> bool" where
  "pa_outcome keys c c' \<longleftrightarrow> c' \<in> {bid_ended c, completed c, asks_for_pa c} \<or> c' = c \<and> \<not> keys"

definition pas_outcome :: "bool \<Rightarrow> bid_control \<Rightarrow> bid_control \<Rightarrow> bool" where
  "pas_outcome present c c' \<longleftrightarrow> c' \<in> {completed c, asks_for_pas c} \<or> c' = c \<and> \<not> present"

lemma get_protected_audience_bids_control:
  assumes "pa_awaited st = 0"
  shows "pa_outcome (has_keys (gx_request st)) (bid_control st) (bid_control (get_protected_audience_bids E ch st))"
    and "gx_request (get_protected_audience_bids E ch st) = gx_request st"
  using v2_control [OF assms, of E ch None] v1_control [OF assms, of E "bfe_is_hybrid E st"]
    prepare_and_generate_control [OF assms, of E ch no_bidding_signals]
  by (auto simp: get_protected_audience_bids_def pa_outcome_def)

definition app_signals_present :: "get_bids_raw_request \<Rightarrow> bool" where
  "app_signals_present rq \<longleftrightarrow>
     (case gb_pas_buyer_input rq of None \<Rightarrow> False | Some p \<Rightarrow> pbi_protected_app_signals p \<noteq> None)"

lemma get_protected_signals_bids_control:
  "pas_outcome (app_signals_present (gx_request st)) (bid_control st)
     (bid_control (get_protected_signals_bids E ch st))"
  "gx_request (get_protected_signals_bids E ch st) = gx_request st"
  by (auto simp: get_protected_signals_bids_def pas_outcome_def app_signals_present_def asks_for_pas_def
      Let_def split: option.split)

lemma cleared:
  "gx_v1_awaited st = Some h \<Longrightarrow> pa_awaited st \<le> 1 \<Longrightarrow>
     pa_awaited (st\<lparr>gx_v1_awaited := None\<rparr>) = 0
     \<and> bid_control (st\<lparr>gx_v1_awaited := None\<rparr>) = bid_control st\<lparr>bd_pa := 0\<rparr>"
  "gx_v2_awaited st \<Longrightarrow> pa_awaited st \<le> 1 \<Longrightarrow>
     pa_awaited (st\<lparr>gx_v2_awaited := False\<rparr>) = 0
     \<and> bid_control (st\<lparr>gx_v2_awaited := False\<rparr>) = bid_control st\<lparr>bd_pa := 0\<rparr>"
  "gx_bids_awaited st \<Longrightarrow> pa_awaited st \<le> 1 \<Longrightarrow>
     pa_awaited (st\<lparr>gx_bids_awaited := False\<rparr>) = 0
     \<and> bid_control (st\<lparr>gx_bids_awaited := False\<rparr>) = bid_control st\<lparr>bd_pa := 0\<rparr>"
  by (auto simp: pa_awaited_def bid_control_def split: if_splits)

lemma v1_answer_control:
  assumes "gx_v1_awaited st = Some h" and "pa_awaited st \<le> 1"
  shows "pa_outcome (has_keys (gx_request st)) (bid_control st\<lparr>bd_pa := 0\<rparr>)
      (bid_control (on_v1_bidding_signals E ch h answer st))"
    and "gx_request (on_v1_bidding_signals E ch h answer st) = gx_request st"
proof -
  note c = cleared(1) [OF assms]
  have z: "pa_awaited (st\<lparr>gx_v1_awaited := None\<rparr>) = 0" using c by blast
  show "pa_outcome (has_keys (gx_request st)) (bid_control st\<lparr>bd_pa := 0\<rparr>)
      (bid_control (on_v1_bidding_signals E ch h answer st))"
    using v2_control [OF z, of E ch] prepare_and_generate_control [OF z, of E ch] c
    by (auto simp: on_v1_bidding_signals_def unless_get_bids_cancelled_def pa_outcome_def Let_def
        split: sum.split)
  show "gx_request (on_v1_bidding_signals E ch h answer st) = gx_request st"
    using v2_control [OF z, of E ch] prepare_and_generate_control [OF z, of E ch]
    by (auto simp: on_v1_bidding_signals_def unless_get_bids_cancelled_def Let_def split: sum.split)
qed

lemma v2_answer_control:
  assumes "gx_v2_awaited st" and "pa_awaited st \<le> 1"
  shows "pa_outcome keys (bid_control st\<lparr>bd_pa := 0\<rparr>) (bid_control (on_v2_bidding_signals E ch answer st))"
    and "gx_request (on_v2_bidding_signals E ch answer st) = gx_request st"
proof -
  note c = cleared(2) [OF assms]
  have z: "pa_awaited (st\<lparr>gx_v2_awaited := False\<rparr>) = 0" using c by blast
  show "pa_outcome keys (bid_control st\<lparr>bd_pa := 0\<rparr>) (bid_control (on_v2_bidding_signals E ch answer st))"
    using prepare_and_generate_control [OF z, of E ch] c
    by (auto simp: on_v2_bidding_signals_def unless_get_bids_cancelled_def pa_outcome_def split: sum.split)
  show "gx_request (on_v2_bidding_signals E ch answer st) = gx_request st"
    using prepare_and_generate_control [OF z, of E ch]
    by (auto simp: on_v2_bidding_signals_def unless_get_bids_cancelled_def split: sum.split)
qed

lemma single_bid_control:
  assumes "\<And>bs. frame (set_bids bs)"
  shows "bid_control (handle_single_bid_completion E ch set_bids answer st) = completed (bid_control st)"
    and "gx_request (handle_single_bid_completion E ch set_bids answer st) = gx_request st"
  by (auto simp: handle_single_bid_completion_def unless_get_bids_cancelled_def task_control [OF assms]
      split: sum.split)

lemma bids_answer_control:
  assumes "gx_bids_awaited st" and "pa_awaited st \<le> 1"
  shows "bid_control (on_generated_bids E ch answer st) = completed (bid_control st\<lparr>bd_pa := 0\<rparr>)"
    and "gx_request (on_generated_bids E ch answer st) = gx_request st"
  using cleared(3) [OF assms] by (simp_all add: on_generated_bids_def single_bid_control)

lemma pas_answer_control:
  "bid_control (on_generated_pas_bids E ch answer st) = completed (bid_control st\<lparr>bd_pas := False\<rparr>)"
  "gx_request (on_generated_pas_bids E ch answer st) = gx_request st"
  by (simp_all add: on_generated_pas_bids_def single_bid_control)

section \<open>The invariant\<close>

definition running :: "bid_control \<Rightarrow> bool" where
  "running c \<longleftrightarrow>
     \<not> bd_chaff c \<and> bd_pa c \<le> 1 \<and> bd_finished c \<le> 1 \<and> (bd_finished c = 1 \<longrightarrow> bd_pa c = 0)
     \<and> (bd_finished c = 0 \<longrightarrow> 0 < bd_pending c)
     \<and> int (bd_pa c + of_bool (bd_pas c) + bd_finished c) \<le> bd_pending c"

definition over :: "bid_control \<Rightarrow> bool" where
  "over c \<longleftrightarrow> \<not> bd_chaff c \<and> bd_pa c = 0 \<and> \<not> bd_pas c \<and> bd_finished c = 1"

definition delayed :: "bid_control \<Rightarrow> bool" where
  "delayed c \<longleftrightarrow> bd_chaff c \<and> bd_pa c = 0 \<and> \<not> bd_pas c \<and> bd_finished c = 0"

text \<open>No task has been lost: every pending one is awaited.\<close>

definition accounted :: "bid_control \<Rightarrow> bool" where
  "accounted c \<longleftrightarrow> bd_finished c = 1 \<or> bd_chaff c \<or> int (bd_pa c + of_bool (bd_pas c)) = bd_pending c"

definition bid_inv :: "bid_control \<Rightarrow> bool" where
  "bid_inv c \<longleftrightarrow> running c \<or> over c \<or> delayed c"

lemma running_cases:
  assumes "bid_inv c" and "bd_pa c = 1 \<or> bd_pas c"
  shows "running c"
  using assms by (auto simp: bid_inv_def over_def delayed_def)

lemma pa_outcome_inv:
  assumes "running c" and "bd_pa c = 1" and "pa_outcome keys (c\<lparr>bd_pa := 0\<rparr>) c'"
  shows "bid_inv c'" and "keys \<Longrightarrow> accounted c \<Longrightarrow> accounted c'"
  using assms
  by (auto simp: pa_outcome_def bid_inv_def running_def over_def completed_def bid_ended_def asks_for_pa_def
      accounted_def split: if_splits)

lemma pas_completed_inv:
  assumes "running c" and "bd_pas c"
  shows "bid_inv (completed (c\<lparr>bd_pas := False\<rparr>))"
    and "accounted c \<Longrightarrow> accounted (completed (c\<lparr>bd_pas := False\<rparr>))"
  using assms by (auto simp: bid_inv_def running_def over_def completed_def accounted_def)

section \<open>Execute\<close>

text \<open>The task of the app signals is still to be started.\<close>

definition room :: "bid_control \<Rightarrow> bool" where
  "room c \<longleftrightarrow> \<not> bd_pas c \<and> running (c\<lparr>bd_pas := True\<rparr>)"

definition fresh_control :: "int \<Rightarrow> bid_control" where
  "fresh_control n = \<lparr>bd_pa = 0, bd_pas = False, bd_chaff = False, bd_pending = n, bd_finished = 0\<rparr>"

lemma pa_start:
  assumes "pa_outcome keys (fresh_control n) c"
  shows "n = 1 \<Longrightarrow> bid_inv c" and "n = 1 \<Longrightarrow> keys \<Longrightarrow> accounted c"
    and "n = 2 \<Longrightarrow> room c" and "n = 2 \<Longrightarrow> keys \<Longrightarrow> accounted (c\<lparr>bd_pas := True\<rparr>)"
  using assms
  by (auto simp: pa_outcome_def bid_inv_def running_def over_def completed_def bid_ended_def asks_for_pa_def
      accounted_def fresh_control_def room_def split: if_splits)

lemma pas_start:
  assumes "room c" and "pas_outcome present c c'"
  shows "bid_inv c'" and "present \<Longrightarrow> accounted (c\<lparr>bd_pas := True\<rparr>) \<Longrightarrow> accounted c'"
  using assms
  by (auto simp: pas_outcome_def bid_inv_def running_def over_def completed_def asks_for_pas_def
      accounted_def room_def split: if_splits)

lemma fresh_room: "room (fresh_control 1)" "accounted ((fresh_control 1)\<lparr>bd_pas := True\<rparr>)"
  by (simp_all add: room_def running_def fresh_control_def accounted_def)

text \<open>
  What \<open>Execute\<close> needs for no task to be lost: that the input it upgrades keeps its interest groups,
  that one of them has keys where version 2 may be used, and that the app signals are there.
\<close>

definition no_task_lost :: "'g bfe_env \<Rightarrow> get_bids_raw_request \<Rightarrow> bool" where
  "no_task_lost E rq \<longleftrightarrow>
     (has_interest_groups (gb_buyer_input_for_bidding rq)
        \<longrightarrow> has_interest_groups (gb_buyer_input_for_bidding (upgrade_buyer_input E rq)))
     \<and> has_keys (upgrade_buyer_input E rq)
     \<and> (fetches_app_signals_bids E rq \<longrightarrow> app_signals_present rq)"

lemma upgraded_fields [simp]:
  "gb_pas_buyer_input (upgrade_buyer_input E rq) = gb_pas_buyer_input rq"
  "fetches_app_signals_bids E (upgrade_buyer_input E rq) = fetches_app_signals_bids E rq"
  "app_signals_present (upgrade_buyer_input E rq) = app_signals_present rq"
  by (auto simp: upgrade_buyer_input_def fetches_app_signals_bids_def app_signals_present_def split: option.split)

lemma upgraded_groups:
  "has_interest_groups (gb_buyer_input_for_bidding (upgrade_buyer_input E rq))
     \<longleftrightarrow> (if gb_buyer_input rq = None then has_interest_groups (gb_buyer_input_for_bidding rq)
          else has_interest_groups (gb_buyer_input rq))"
  by (auto simp: upgrade_buyer_input_def has_interest_groups_def to_buyer_input_for_bidding_def split: option.split)

lemma upgraded_buyer_input:
  "has_interest_groups (gb_buyer_input rq)
     \<Longrightarrow> has_interest_groups (gb_buyer_input_for_bidding (upgrade_buyer_input E rq))"
  unfolding upgraded_groups by (auto simp: has_interest_groups_def)

definition quiescent :: "get_bids \<Rightarrow> bool" where
  "quiescent st \<longleftrightarrow> pa_awaited st = 0 \<and> \<not> gx_pas_awaited st \<and> gx_chaff_delay st = None \<and> gx_finished st = []"

lemma quiescent_tracker:
  "quiescent st \<Longrightarrow> bid_control (st\<lparr>gx_tracker := set_num_tasks_to_track n, gx_request := rq\<rparr>) = fresh_control n"
  by (simp add: quiescent_def bid_control_def fresh_control_def set_num_tasks_to_track_def pa_awaited_def)

lemma fetch_get_bids_inv:
  assumes "quiescent st"
  shows "bid_inv (bid_control (fetch_get_bids E ch st))" (is ?inv)
    and "no_task_lost E (gx_request st) \<Longrightarrow> accounted (bid_control (fetch_get_bids E ch st))" (is "_ \<Longrightarrow> ?acc")
    and "gx_request (fetch_get_bids E ch st)
      \<in> {gx_request st, upgrade_buyer_input E (gx_request st)}"
    and "pa_awaited (fetch_get_bids E ch st) = 1
      \<Longrightarrow> gx_request (fetch_get_bids E ch st) = upgrade_buyer_input E (gx_request st)"
proof -
  let ?rq = "gx_request st"
  let ?up = "upgrade_buyer_input E ?rq"
  define n where "n = get_number_of_maximum_bidding_calls E ?rq"
  define st0 where "st0 = st\<lparr>gx_tracker := set_num_tasks_to_track n, gx_request := ?up\<rparr>"
  define pa where "pa \<longleftrightarrow> gc_is_protected_audience_enabled (bf_config E)
      \<and> has_interest_groups (gb_buyer_input_for_bidding ?up)"
  define pas where "pas \<longleftrightarrow> fetches_app_signals_bids E ?up"
  define st1 where "st1 = (if pa then get_protected_audience_bids E ch st0 else st0)"
  define st2 where "st2 = (if pas then get_protected_signals_bids E ch st1 else st1)"
  have c0: "bid_control st0 = fresh_control n" using quiescent_tracker [OF assms] by (simp add: st0_def)
  have r0: "gx_request st0 = ?up" by (simp add: st0_def)
  have z0: "pa_awaited st0 = 0" using assms by (simp add: st0_def quiescent_def)
  have fin: "bid_control (finish_get_bids E s st) = bid_ended (bid_control st)" for s by simp
  have over0: "over (bid_ended (bid_control st))" "accounted (bid_ended (bid_control st))"
    using assms by (simp_all add: over_def bid_ended_def quiescent_def accounted_def)
  have r1: "gx_request st1 = ?up" using get_protected_audience_bids_control(2) [OF z0, of E ch] r0
    by (simp add: st1_def)
  have r2: "gx_request st2 = ?up" using get_protected_signals_bids_control(2) [of E ch st1] r1
    by (simp add: st2_def)
  have fetch: "fetch_get_bids E ch st = (if n = 0 then finish_get_bids E missing_inputs st else st2)"
    by (simp only: fetch_get_bids_def Let_def n_def [symmetric] st0_def [symmetric] pa_def [symmetric]
        pas_def [symmetric] st1_def [symmetric] st2_def [symmetric])
  have n: "n \<in> {0, 1, 2}" "pa \<Longrightarrow> n = 1 + of_bool pas" "n \<noteq> 0 \<Longrightarrow> \<not> pa \<Longrightarrow> pas \<Longrightarrow> n \<in> {1, 2}"
    using upgraded_groups [of E ?rq]
    by (auto simp: n_def get_number_of_maximum_bidding_calls_def pa_def pas_def split: if_splits)
  have lossless: "n = of_bool pa + of_bool pas" if "no_task_lost E ?rq"
    using that upgraded_buyer_input [of ?rq E] upgraded_groups [of E ?rq]
    by (auto simp: n_def get_number_of_maximum_bidding_calls_def pa_def pas_def no_task_lost_def split: if_splits)
  have pa1: "pa_outcome (has_keys ?up) (fresh_control n) (bid_control st1)" if pa
    using get_protected_audience_bids_control(1) [OF z0, of E ch] that by (simp add: st1_def c0 r0)
  have pas2: "pas_outcome (app_signals_present ?rq) (bid_control st1) (bid_control st2)" if pas
    using get_protected_signals_bids_control(1) [of st1 E ch] that r1 by (simp add: st2_def)
  have inv: "bid_inv (bid_control st2) \<and> (no_task_lost E ?rq \<longrightarrow> accounted (bid_control st2))" if "n \<noteq> 0"
  proof (cases pa)
    case pa: True
    show ?thesis
    proof (cases pas)
      case True
      then have "n = 2" using n(2) [OF pa] by simp
      note s = pa_start(3,4) [OF pa1 [OF pa] this]
      show ?thesis
        using pas_start [OF s(1) pas2 [OF True]] s(2) True by (auto simp: no_task_lost_def pas_def)
    next
      case False
      then have "n = 1" "st2 = st1" using n(2) [OF pa] by (simp_all add: st2_def)
      then show ?thesis using pa_start(1,2) [OF pa1 [OF pa]] by (auto simp: no_task_lost_def)
    qed
  next
    case pa: False
    then have st1: "bid_control st1 = fresh_control n" by (simp add: st1_def c0)
    show ?thesis
    proof (cases pas)
      case True
      have "room (fresh_control n)" using n(3) [OF that pa True]
        by (auto simp: room_def running_def fresh_control_def)
      note s = pas_start [OF this pas2 [OF True, unfolded st1]]
      show ?thesis
        using s fresh_room(2) lossless pa True by (auto simp: no_task_lost_def pas_def)
    next
      case False
      then have "st2 = st1" by (simp add: st2_def)
      moreover have "running (fresh_control n)" using n(1) that
        by (auto simp: running_def fresh_control_def)
      ultimately show ?thesis using st1 lossless pa False that by (auto simp: bid_inv_def)
    qed
  qed
  show ?inv using inv over0 by (simp add: fetch bid_inv_def)
  show "no_task_lost E ?rq \<Longrightarrow> ?acc" using inv over0 by (simp add: fetch)
  show "gx_request (fetch_get_bids E ch st) \<in> {?rq, ?up}" using r2 by (simp add: fetch)
  have "pa_awaited (finish_get_bids E missing_inputs st) = 0"
    using bid_control_finish [of E missing_inputs st] assms by (simp add: finish_get_bids_def pa_awaited_def quiescent_def)
  then show "pa_awaited (fetch_get_bids E ch st) = 1 \<Longrightarrow> gx_request (fetch_get_bids E ch st) = ?up"
    using r2 by (simp add: fetch split: if_splits)
qed

lemma quiescent_new: "quiescent (new_get_bids E)"
  by (auto simp: new_get_bids_def decrypt_get_bids_request_def parse_raw_request_bytestring_def
      initial_get_bids_def quiescent_def pa_awaited_def Let_def split: option.split sum.split prod.split)

lemma finish_quiescent:
  assumes "quiescent st"
  shows "over (bid_control (finish_get_bids E s st))" "pa_awaited (finish_get_bids E s st) = 0"
  using assms
  by (simp_all add: over_def bid_ended_def quiescent_def finish_get_bids_def pa_awaited_def)

lemma execute_chaff_request_inv:
  assumes "quiescent st"
  shows "over (bid_control (execute_chaff_request E ch st)) \<or> delayed (bid_control (execute_chaff_request E ch st))"
    and "pa_awaited (execute_chaff_request E ch st) = 0"
proof -
  have d: "delayed (bid_control (st\<lparr>gx_ciphertext := c, gx_chaff_delay := Some d\<rparr>))"
    "pa_awaited (st\<lparr>gx_ciphertext := c, gx_chaff_delay := Some d\<rparr>) = 0" for c d
    using assms by (simp_all add: delayed_def quiescent_def pa_awaited_def)
  show "over (bid_control (execute_chaff_request E ch st)) \<or> delayed (bid_control (execute_chaff_request E ch st))"
    unfolding execute_chaff_request_def
    by (auto split: sum.split prod.split simp del: bid_control_finish bid_control_updates
        intro: finish_quiescent(1) [OF assms] d(1))
  show "pa_awaited (execute_chaff_request E ch st) = 0"
    unfolding execute_chaff_request_def
    by (auto split: sum.split prod.split simp: finish_quiescent(2) [OF assms] d(2))
qed

lemma execute_get_bids_cases:
  "(\<exists>s. execute_get_bids E ch st = finish_get_bids E s st)
     \<or> execute_get_bids E ch st = execute_chaff_request E ch st
     \<or> (\<exists>ms. execute_get_bids E ch st = fetch_get_bids E ch (st\<lparr>gx_priority_signals := ms\<rparr>))"
proof -
  have self: "\<exists>ms. fetch_get_bids E ch st = fetch_get_bids E ch (st\<lparr>gx_priority_signals := ms\<rparr>)"
    by (rule exI [of _ "gx_priority_signals st"]) simp
  show ?thesis unfolding execute_get_bids_def using self by (auto split: sum.split)
qed

section \<open>Reachable states\<close>

definition first_request :: "'g bfe_env \<Rightarrow> get_bids_raw_request" where
  "first_request E = gx_request (new_get_bids E)"

definition call_inv :: "'g bfe_env \<Rightarrow> get_bids \<Rightarrow> bool" where
  "call_inv E st \<longleftrightarrow>
     bid_inv (bid_control st)
     \<and> (pa_awaited st = 1 \<longrightarrow> gx_request st = upgrade_buyer_input E (first_request E))
     \<and> (no_task_lost E (first_request E) \<longrightarrow> accounted (bid_control st))"

lemma call_inv_start: "call_inv E (execute_get_bids E ch (new_get_bids E))"
proof -
  let ?st = "new_get_bids E"
  have q: "quiescent (?st\<lparr>gx_priority_signals := ms\<rparr>)" for ms
    using quiescent_new [of E] by (simp add: quiescent_def)
  have fin: "call_inv E st" if "over (bid_control st) \<or> delayed (bid_control st)" "pa_awaited st = 0" for st
    using that by (auto simp: call_inv_def bid_inv_def accounted_def over_def delayed_def)
  from execute_get_bids_cases [of E ch ?st] show ?thesis
  proof (elim disjE exE)
    fix s
    assume "execute_get_bids E ch ?st = finish_get_bids E s ?st"
    then show ?thesis using fin finish_quiescent [OF quiescent_new] by metis
  next
    assume "execute_get_bids E ch ?st = execute_chaff_request E ch ?st"
    then show ?thesis using fin execute_chaff_request_inv [OF quiescent_new] by metis
  next
    fix ms
    assume e: "execute_get_bids E ch ?st = fetch_get_bids E ch (?st\<lparr>gx_priority_signals := ms\<rparr>)"
    show ?thesis
      using fetch_get_bids_inv [OF q [of ms], of E ch] unfolding call_inv_def e first_request_def by simp
  qed
qed

lemma inv_pa_le: "bid_inv (bid_control st) \<Longrightarrow> pa_awaited st \<le> 1"
  by (auto simp: bid_inv_def running_def over_def delayed_def)

lemma pa_awaited_one:
  assumes "bid_inv (bid_control st)" and "gx_v1_awaited st \<noteq> None \<or> gx_v2_awaited st \<or> gx_bids_awaited st"
  shows "pa_awaited st = 1"
  using inv_pa_le [OF assms(1)] assms(2) by (auto simp: pa_awaited_def split: if_splits)

lemma call_inv_pa_step:
  assumes inv: "call_inv E st" and pa: "pa_awaited st = 1"
    and out: "pa_outcome (has_keys (gx_request st)) (bid_control st\<lparr>bd_pa := 0\<rparr>) (bid_control st')"
    and rq: "gx_request st' = gx_request st"
  shows "call_inv E st'"
proof -
  have r: "running (bid_control st)"
    using inv pa by (intro running_cases) (simp_all add: call_inv_def)
  have g: "gx_request st = upgrade_buyer_input E (first_request E)" using inv pa by (simp add: call_inv_def)
  have "bid_inv (bid_control st')" by (rule pa_outcome_inv(1) [OF r _ out]) (simp add: pa)
  moreover have "accounted (bid_control st')" if l: "no_task_lost E (first_request E)"
  proof (rule pa_outcome_inv(2) [OF r _ out])
    show "has_keys (gx_request st)" using l g by (simp add: no_task_lost_def)
    show "accounted (bid_control st)" using inv l by (simp add: call_inv_def)
  qed (simp add: pa)
  ultimately show ?thesis using g rq by (simp add: call_inv_def)
qed

lemma call_inv_step:
  assumes inv: "call_inv E st" and st: "get_bids_step E st st'"
  shows "call_inv E st'"
proof -
  have b: "bid_inv (bid_control st)" using inv by (simp add: call_inv_def)
  note le = inv_pa_le [OF b] and one = pa_awaited_one [OF b]
  from st show ?thesis
  proof (cases rule: get_bids_step.cases)
    case (v1 h ch answer)
    then have "pa_awaited st = 1" using one by simp
    from call_inv_pa_step [OF inv this] v1_answer_control [OF v1(2) le, of E ch answer] show ?thesis unfolding v1(1) by blast
  next
    case (v2 ch answer)
    then have "pa_awaited st = 1" using one by simp
    from call_inv_pa_step [OF inv this] v2_answer_control(1) [OF v2(2) le, of _ E ch answer]
      v2_answer_control(2) [OF v2(2) le, of E ch answer]
    show ?thesis unfolding v2(1) by blast
  next
    case (bids ch answer)
    then have "pa_awaited st = 1" using one by simp
    moreover have "pa_outcome (has_keys (gx_request st)) (bid_control st\<lparr>bd_pa := 0\<rparr>)
        (bid_control (on_generated_bids E ch answer st))"
      using bids_answer_control(1) [OF bids(2) le, of E ch answer] by (simp add: pa_outcome_def)
    ultimately show ?thesis
      using call_inv_pa_step [OF inv] bids_answer_control(2) [OF bids(2) le, of E ch answer] unfolding bids(1) by blast
  next
    case (pas_bids ch answer)
    have r: "running (bid_control st)" using b pas_bids by (intro running_cases) simp_all
    have p: "bd_pas (bid_control st)" using pas_bids by simp
    note c = pas_answer_control [of E ch answer st]
    have "bid_inv (bid_control st')" using pas_completed_inv(1) [OF r p] c pas_bids by simp
    moreover have "accounted (bid_control st')" if "no_task_lost E (first_request E)"
      using pas_completed_inv(2) [OF r p] c pas_bids inv that by (simp add: call_inv_def)
    moreover have "pa_awaited st' = pa_awaited st"
      using arg_cong [OF c(1), of bd_pa] pas_bids by (simp add: completed_def split: if_splits)
    ultimately show ?thesis using inv c(2) pas_bids by (simp add: call_inv_def)
  next
    case (chaff d)
    then have d: "delayed (bid_control st)" using b by (auto simp: bid_inv_def running_def over_def)
    have c: "bid_control st' = bid_ended (bid_control st\<lparr>bd_chaff := False\<rparr>)"
      using chaff by (simp add: on_chaff_delay_def)
    then have "over (bid_control st')" using d by (auto simp: delayed_def over_def bid_ended_def)
    moreover have "pa_awaited st' = 0" using arg_cong [OF c, of bd_pa] d by (simp add: bid_ended_def delayed_def)
    ultimately show ?thesis by (simp add: call_inv_def bid_inv_def accounted_def over_def)
  qed
qed

lemma reachable_call_inv: "get_bids_reachable E st \<Longrightarrow> call_inv E st"
  by (induction rule: get_bids_reachable.induct) (auto intro: call_inv_start call_inv_step)

lemma reachable_finishes_at_most_once: "get_bids_reachable E st \<Longrightarrow> length (gx_finished st) \<le> 1"
  by (drule reachable_call_inv) (auto simp: call_inv_def bid_inv_def running_def over_def delayed_def)

section \<open>Progress\<close>

definition get_bids_awaits :: "get_bids \<Rightarrow> bool" where
  "get_bids_awaits st \<longleftrightarrow>
     gx_v1_awaited st \<noteq> None \<or> gx_v2_awaited st \<or> gx_bids_awaited st \<or> gx_pas_awaited st
     \<or> gx_chaff_delay st \<noteq> None"

lemma stuck_get_bids_has_finished:
  assumes "get_bids_reachable E st" and "no_task_lost E (first_request E)" and "\<not> get_bids_awaits st"
  shows "length (gx_finished st) = 1"
proof -
  have "bid_inv (bid_control st)" "accounted (bid_control st)"
    using reachable_call_inv [OF assms(1)] assms(2) by (simp_all add: call_inv_def)
  moreover have "bd_pa (bid_control st) = 0" "\<not> bd_pas (bid_control st)" "\<not> bd_chaff (bid_control st)"
    using assms(3) by (simp_all add: get_bids_awaits_def pa_awaited_def)
  ultimately show ?thesis
    by (auto simp: bid_inv_def running_def over_def delayed_def accounted_def)
qed

text \<open>What is outstanding: a request for signals counts for the requests that may follow it.\<close>

definition get_bids_work :: "get_bids \<Rightarrow> nat" where
  "get_bids_work st =
     (if gx_v1_awaited st = None then 0 else 3) + (if gx_v2_awaited st then 2 else 0)
     + of_bool (gx_bids_awaited st) + of_bool (gx_pas_awaited st) + of_bool (gx_chaff_delay st \<noteq> None)"

lemma work_updates [simp]:
  "get_bids_work (st\<lparr>gx_priority_signals := ms\<rparr>) = get_bids_work st"
  "get_bids_work (st\<lparr>gx_response := r\<rparr>) = get_bids_work st"
  "get_bids_work (st\<lparr>gx_tracker := t\<rparr>) = get_bids_work st"
  "get_bids_work (st\<lparr>gx_bids_request := q\<rparr>) = get_bids_work st"
  "get_bids_work (st\<lparr>gx_recorded_sizes := ns\<rparr>) = get_bids_work st"
  "get_bids_work (st\<lparr>gx_ciphertext := s\<rparr>) = get_bids_work st"
  by (simp_all add: get_bids_work_def)

lemma work_finish [simp]: "get_bids_work (finish_get_bids E s st) = get_bids_work st"
  by (simp add: finish_get_bids_def get_bids_work_def)

lemma work_encrypt: "encrypt_get_bids_response E st = (s, st') \<Longrightarrow> get_bids_work st' = get_bids_work st"
  by (auto simp: encrypt_get_bids_response_def Let_def split: sum.splits if_splits)

lemma work_all_done [simp]: "get_bids_work (on_all_get_bids_done E ch any st) = get_bids_work st"
proof -
  obtain s st' where e: "encrypt_get_bids_response E st = (s, st')" by fastforce
  then show ?thesis using work_encrypt [OF e] by (simp add: on_all_get_bids_done_def)
qed

lemma work_completed [simp]:
  "get_bids_work (get_bids_task_completed E ch s f st) = get_bids_work (f st)"
  by (auto simp: get_bids_task_completed_def Let_def split: prod.split option.split)

lemma work_failed [simp]: "get_bids_work (get_bids_task_failed E ch s st) = get_bids_work st"
  by (simp add: get_bids_task_failed_def) (simp add: add_bid_error_def get_bids_work_def)

lemma work_send: "get_bids_work (send_generate_bids E ch v c st) \<le> get_bids_work st + 1"
  by (simp add: send_generate_bids_def Let_def split: prod.split) (simp add: get_bids_work_def)

lemma work_prepare:
  "get_bids_work (prepare_and_generate_protected_audience_bid E ch signals st) \<le> get_bids_work st + 1"
proof (cases "parse_trusted_bidding_signals (bf_libs E) signals (groups_for_bidding (gx_request st))")
  case (Inl e)
  then show ?thesis
    using work_send [of E ch "bsg_data_version signals" no_components st]
    by (simp add: prepare_and_generate_protected_audience_bid_def)
next
  case (Inr c)
  then show ?thesis
    using work_send [of E ch "bsg_data_version signals" c
        "st\<lparr>gx_response := (gx_response st)\<lparr>gr_update_interest_group_list := bj_update_igs c\<rparr>\<rparr>"]
    by (simp add: prepare_and_generate_protected_audience_bid_def)
qed

lemma work_v2: "get_bids_work (may_get_protected_audience_bids_v2 E ch byos st) \<le> get_bids_work st + 2"
  by (simp add: may_get_protected_audience_bids_v2_def split: sum.split) (simp add: get_bids_work_def)

lemma work_single:
  assumes "\<And>bs. get_bids_work (set_bids bs st) = get_bids_work st"
  shows "get_bids_work (handle_single_bid_completion E ch set_bids answer st) = get_bids_work st"
  using assms by (auto simp: handle_single_bid_completion_def unless_get_bids_cancelled_def split: sum.split)

lemma work_v1_answer:
  "get_bids_work (on_v1_bidding_signals E ch h answer st) \<le> get_bids_work (st\<lparr>gx_v1_awaited := None\<rparr>) + 2"
  using work_v2 [of E ch] work_prepare [of E ch]
  by (simp add: on_v1_bidding_signals_def unless_get_bids_cancelled_def Let_def le_SucI split: sum.split)

lemma work_v2_answer:
  "get_bids_work (on_v2_bidding_signals E ch answer st) \<le> get_bids_work (st\<lparr>gx_v2_awaited := False\<rparr>) + 1"
  using work_prepare [of E ch]
  by (simp add: on_v2_bidding_signals_def unless_get_bids_cancelled_def split: sum.split)

lemma get_bids_step_works:
  assumes "get_bids_step E st st'"
  shows "get_bids_work st' < get_bids_work st"
  using assms
proof (cases rule: get_bids_step.cases)
  case (v1 h ch answer)
  have "get_bids_work (st\<lparr>gx_v1_awaited := None\<rparr>) + 3 = get_bids_work st"
    using v1(2) by (simp add: get_bids_work_def)
  then show ?thesis using work_v1_answer [of E ch h answer st] unfolding v1(1) by linarith
next
  case (v2 ch answer)
  have "get_bids_work (st\<lparr>gx_v2_awaited := False\<rparr>) + 2 = get_bids_work st"
    using v2(2) by (simp add: get_bids_work_def)
  then show ?thesis using work_v2_answer [of E ch answer st] unfolding v2(1) by linarith
next
  case (bids ch answer)
  have "get_bids_work (on_generated_bids E ch answer st) = get_bids_work (st\<lparr>gx_bids_awaited := False\<rparr>)"
    by (simp add: on_generated_bids_def set_gr_bids_def work_single)
  then show ?thesis using bids by (simp add: get_bids_work_def)
next
  case (pas_bids ch answer)
  have "get_bids_work (on_generated_pas_bids E ch answer st) = get_bids_work (st\<lparr>gx_pas_awaited := False\<rparr>)"
    by (simp add: on_generated_pas_bids_def set_gr_pas_bids_def work_single)
  then show ?thesis using pas_bids by (simp add: get_bids_work_def)
next
  case (chaff d)
  then show ?thesis by (simp add: on_chaff_delay_def) (simp add: get_bids_work_def)
qed

end
