(* ===== verification/Buyer_Properties.thy ===== *)
theory Buyer_Properties
  imports Get_Bids_Runs Seller_Inputs
begin

text \<open>
  What the buyer's front end and the bidding service promise, each property with an instance of it:
  a front end whose key/value server knows one key, and the call of a browser with one interest group.
\<close>

section \<open>A small buyer\<close>

definition buyer_libs :: libs where
  "buyer_libs = sample_libs\<lparr>json_parse :=
     (\<lambda>s. if s = ''BIDDING'' then Some (JObj [(''keys'', JObj [(''k'', JStr ''1'')])]) else None)\<rparr>"

definition buyer_config :: bfe_config where
  "buyer_config =
     \<lparr>gc_is_protected_app_signals_enabled = False, gc_is_protected_audience_enabled = True,
      gc_is_chaffing_v1_enabled = False, gc_is_chaffing_v2_enabled = False,
      gc_is_tkv_v2_browser_enabled = False, gc_enable_cancellation = False, gc_enable_kanon = False,
      gc_priority_vector_enabled = False, gc_test_mode = False, gc_tkv_v2_address_empty = True,
      gc_bidding_signals_fetch_mode = REQUIRED, gc_propagate_buyer_signals_to_tkv = False,
      gc_is_hybrid_enabled = False\<rparr>"

definition group_with_keys :: "string list \<Rightarrow> interest_group_for_bidding" where
  "group_with_keys ks =
     \<lparr>ig_name = ''g'', ig_bidding_signals_keys = ks, ig_ad_render_ids = [], ig_component_ads = [],
      ig_user_bidding_signals = [], ig_device_signals = No_device_signals, ig_origin = []\<rparr>"

definition buyer_request :: "string list \<Rightarrow> get_bids_raw_request" where
  "buyer_request ks =
     default_get_bids_request\<lparr>gb_client_type := CLIENT_TYPE_BROWSER,
       gb_buyer_input_for_bidding := Some \<lparr>bi_interest_groups = [group_with_keys ks],
         bi_protected_app_signals = None, bi_in_cooldown_or_lockout = False\<rparr>\<rparr>"

definition buyer_env :: "string list \<Rightarrow> bfe_config \<Rightarrow> unit bfe_env" where
  "buyer_env ks config =
     \<lparr>bf_libs = buyer_libs, bf_unspecified = sample_unspecified, bf_codecs = copying_codecs,
      bf_config = config, bf_key_id = ''1'', bf_request_ciphertext = ''c'',
      bf_hpke_decrypt = (\<lambda>k. Some (\<lambda>c. Inr (replicate 5 (CHR 0x00), ''secret''))),
      bf_parse_request = (\<lambda>s. Some (buyer_request ks)), bf_serialize_response = (\<lambda>r. ''response''),
      bf_aead_encrypt = (\<lambda>p s. Inr p), bf_metadata = [], bf_has_v1_provider = True,
      bf_has_v2_client = True, bf_is_sampled = False, bf_rng_ops = lowest_draws, bf_rng_seed = (),
      bf_request_durations = new_moving_median 1 1, bf_response_sizes = new_moving_median 1 1,
      bf_duration = 7, bf_order = (\<lambda>gs. gs)\<rparr>"

definition all_accepted :: bfe_choices where
  "all_accepted =
     \<lparr>bh_cancelled = (\<lambda>p. False), bh_v2_accepted = ok_status, bh_bids_accepted = ok_status,
      bh_pas_accepted = ok_status\<rparr>"

abbreviation "one_key_env \<equiv> buyer_env [''k''] buyer_config"

definition signals_asked :: get_bids where
  "signals_asked = execute_get_bids one_key_env all_accepted (new_get_bids one_key_env)"

definition bids_asked :: get_bids where
  "bids_asked =
     on_v1_bidding_signals one_key_env all_accepted False
       (Inr \<lparr>bvo_result = ''BIDDING'', bvo_data_version = 3, bvo_is_hybrid_v1_return = False\<rparr>)
       signals_asked"

definition bids_returned :: get_bids where
  "bids_returned =
     on_generated_bids one_key_env all_accepted (Inr [default_buyer_bid\<lparr>bb_bid := 1\<rparr>]) bids_asked"

lemma small_run:
  "gx_v1_awaited signals_asked = Some False" "gx_bids_awaited bids_asked"
  "gx_finished bids_returned = [ok_status]" "get_bids_work bids_asked = 1"
  by code_simp+

lemma small_run_reachable: "get_bids_reachable one_key_env signals_asked"
  "get_bids_reachable one_key_env bids_asked" "get_bids_reachable one_key_env bids_returned"
proof -
  show a: "get_bids_reachable one_key_env signals_asked"
    unfolding signals_asked_def by (rule get_bids_reachable.start)
  show b: "get_bids_reachable one_key_env bids_asked"
    unfolding bids_asked_def using a get_bids_step.v1 [OF small_run(1)] by (rule get_bids_reachable.step)
  show "get_bids_reachable one_key_env bids_returned"
    unfolding bids_returned_def using b get_bids_step.bids [OF small_run(2)] by (rule get_bids_reachable.step)
qed

lemma small_run_loses_nothing: "no_task_lost one_key_env (first_request one_key_env)"
  by code_simp

section \<open>GetBids calls\<close>

text \<open>
  C5: in every state that a GetBids call can reach, whatever the key/value server and the bidding
  service answer and in whatever order, the call has been finished at most once; once it has been,
  no signals, no bids for interest groups and no delay of a chaff response are awaited.
\<close>

theorem get_bids_finishes_at_most_once:
  assumes "get_bids_reachable E st"
  shows "length (gx_finished st) \<le> 1
    \<and> (gx_finished st \<noteq> [] \<longrightarrow> gx_v1_awaited st = None \<and> \<not> gx_v2_awaited st \<and> \<not> gx_bids_awaited st
         \<and> gx_chaff_delay st = None)"
proof -
  have i: "bid_inv (bid_control st)" using reachable_call_inv [OF assms] by (simp add: call_inv_def)
  then have "pa_awaited st = 0 \<and> gx_chaff_delay st = None" if "gx_finished st \<noteq> []"
    using that by (cases "gx_finished st") (auto simp: bid_inv_def running_def over_def delayed_def)
  then show ?thesis
    using reachable_finishes_at_most_once [OF assms] by (auto simp: pa_awaited_def split: if_splits)
qed

theorem get_bids_finishes_at_most_once_witness:
  "length (gx_finished bids_returned) = 1 \<and> \<not> gx_bids_awaited bids_returned"
  using get_bids_finishes_at_most_once [OF small_run_reachable(3)] small_run(3) by simp

text \<open>
  C6: every answer lowers the work that is outstanding in a GetBids call, so that it ends; and if the
  buyer's input has groups with keys after it was upgraded, and app signals where they are asked for,
  then a call that waits for nothing has been finished, exactly once.
\<close>

theorem get_bids_concludes:
  assumes "get_bids_reachable E st" and "no_task_lost E (first_request E)"
  shows "(\<forall>st'. get_bids_step E st st' \<longrightarrow> get_bids_work st' < get_bids_work st)
    \<and> (get_bids_awaits st \<or> length (gx_finished st) = 1)"
  using get_bids_step_works stuck_get_bids_has_finished [OF assms] by blast

theorem get_bids_concludes_witness:
  "get_bids_work bids_returned < 1 \<and> (get_bids_awaits bids_asked \<or> length (gx_finished bids_asked) = 1)"
proof -
  have "get_bids_step one_key_env bids_asked bids_returned"
    unfolding bids_returned_def by (rule get_bids_step.bids [OF small_run(2)])
  then show ?thesis
    using get_bids_concludes [OF small_run_reachable(2) small_run_loses_nothing] small_run(4) by auto
qed

text \<open>
  C17: when the signals are fetched with version 2 of the key/value interface and no interest group has
  keys, the request for signals is dropped and the call, which has no other task, is never finished.
\<close>

theorem calls_without_keys_hang:
  assumes "is_ok (gx_decrypt_status (new_get_bids E))" and "bf_metadata E = []"
    and "\<not> get_bids_cancelled E ch Before_execute"
    and "gx_request (new_get_bids E) = rq" and "\<not> gb_is_chaff rq" and "gb_priority_signals rq = []"
    and "gc_is_protected_audience_enabled (bf_config E)" and "\<not> fetches_app_signals_bids E rq"
    and "gb_buyer_input rq = None" and "groups_for_bidding rq \<noteq> []"
    and "\<forall>ig \<in> set (groups_for_bidding rq). ig_bidding_signals_keys ig = []"
    and "gc_bidding_signals_fetch_mode (bf_config E) \<noteq> NOT_FETCHED"
    and "bfe_uses_v2 E (new_get_bids E)" and "bf_has_v2_client E"
  shows "gx_finished (execute_get_bids E ch (new_get_bids E)) = []
    \<and> \<not> get_bids_step E (execute_get_bids E ch (new_get_bids E)) st'"
proof -
  let ?st = "(new_get_bids E)\<lparr>gx_tracker := set_num_tasks_to_track 1\<rparr>"
  have groups: "has_interest_groups (gb_buyer_input_for_bidding rq)"
    using assms(10) by (auto simp: groups_for_bidding_def has_interest_groups_def split: option.splits)
  have up: "upgrade_buyer_input E rq = rq" using assms(9) by (simp add: upgrade_buyer_input_def)
  have n: "get_number_of_maximum_bidding_calls E rq = 1"
    using assms(7,8) groups by (simp add: get_number_of_maximum_bidding_calls_def)
  have "list_ex (\<lambda>ig. ig_bidding_signals_keys ig \<noteq> []) (groups_for_bidding rq) = False"
    using assms(11) by (simp add: list_ex_iff)
  then have keys: "create_v2_bidding_request rq p None
      = Inl (validate_interest_groups (groups_for_bidding rq))" for p
    using assms(10)
    by (simp add: create_v2_bidding_request_def validate_interest_groups_def is_ok_def ok_status_def
        invalid_argument_def Let_def)
  have self: "?st\<lparr>gx_request := rq\<rparr> = ?st" using assms(4) by simp
  have "get_protected_audience_bids E ch ?st = ?st"
    using assms(4,12-14) keys
    by (simp add: get_protected_audience_bids_def may_get_protected_audience_bids_v2_def bfe_uses_v2_def)
  then have "fetch_get_bids E ch (new_get_bids E) = ?st"
    using assms(4,7,8) groups by (simp add: fetch_get_bids_def n up self)
  then have e: "execute_get_bids E ch (new_get_bids E) = ?st"
    using assms(1-6) by (simp add: execute_get_bids_def buyer_kv_metadata_def bidding_metadata_def)
  have "quiescent ?st" using quiescent_new [of E] by (simp add: quiescent_def)
  then show ?thesis
    unfolding e by (auto simp: quiescent_def pa_awaited_def elim: get_bids_step.cases split: if_splits)
qed

theorem calls_without_keys_hang_witness:
  "gx_finished (execute_get_bids (buyer_env [] (buyer_config\<lparr>gc_is_tkv_v2_browser_enabled := True\<rparr>))
     all_accepted (new_get_bids (buyer_env [] (buyer_config\<lparr>gc_is_tkv_v2_browser_enabled := True\<rparr>)))) = []
   \<and> \<not> get_bids_step (buyer_env [] (buyer_config\<lparr>gc_is_tkv_v2_browser_enabled := True\<rparr>))
     (execute_get_bids (buyer_env [] (buyer_config\<lparr>gc_is_tkv_v2_browser_enabled := True\<rparr>))
       all_accepted (new_get_bids (buyer_env [] (buyer_config\<lparr>gc_is_tkv_v2_browser_enabled := True\<rparr>))))
     signals_asked"
proof -
  let ?E = "buyer_env [] (buyer_config\<lparr>gc_is_tkv_v2_browser_enabled := True\<rparr>)"
  have new: "is_ok (gx_decrypt_status (new_get_bids ?E))" "bfe_uses_v2 ?E (new_get_bids ?E)" by code_simp+
  have rq: "gx_request (new_get_bids ?E) = buyer_request []" by code_simp
  show ?thesis
    by (rule calls_without_keys_hang [of ?E all_accepted "buyer_request []" signals_asked])
      (use new rq in \<open>simp_all add: get_bids_cancelled_def buyer_env_def buyer_config_def buyer_request_def
        default_get_bids_request_def fetches_app_signals_bids_def groups_for_bidding_def group_with_keys_def\<close>)
qed

section \<open>Requests for bids\<close>

text \<open>The groups for which bids are asked.\<close>

definition bids_wanted :: "prepare_options \<Rightarrow> (string \<rightharpoonup> string) \<Rightarrow> interest_group_for_bidding \<Rightarrow> bool" where
  "bids_wanted opts signals ig \<longleftrightarrow>
     ig_name ig \<noteq> [] \<and> \<not> filtered_by_priority opts ig
     \<and> (po_require_bidding_signals opts \<longrightarrow> (\<exists>k \<in> set (ig_bidding_signals_keys ig). signals k \<noteq> None))"

lemma signals_for_ig_empty:
  "get_signals_for_ig keys signals = [] \<longleftrightarrow> (\<forall>k \<in> set keys. signals k = None)"
proof -
  have "get_signals_for_ig keys signals = [] \<longleftrightarrow> set (get_signals_for_ig keys signals) = {}" by simp
  then show ?thesis unfolding signals_for_ig by auto
qed

lemma group_for_bidding_iff: "group_for_bidding opts signals ig \<noteq> None \<longleftrightarrow> bids_wanted opts signals ig"
  by (auto simp: group_for_bidding_def bids_wanted_def signals_for_ig_empty Let_def)

lemma names_of_groups:
  "map bg_name (List.map_filter (group_for_bidding opts signals) igs)
     = map ig_name (filter (bids_wanted opts signals) igs)"
proof (induction igs)
  case (Cons ig igs)
  then show ?case
    using group_for_bidding_cases(1) [of opts signals ig] group_for_bidding_iff [of opts signals ig]
    by (auto simp: map_filter_simps split: option.split)
qed (simp add: map_filter_simps)

text \<open>
  C16: whatever the order in which the threads add them, bids are asked for exactly the named interest
  groups whose priority is not negative and, where signals are required, for which signals were found;
  and a group is sent those of its own keys for which there are signals, each once, with their values.
\<close>

theorem groups_get_only_their_signals:
  assumes "task_order ord"
    and "gs = gg_interest_groups (prepare_generate_bids_request ord opts rq signals v)"
  shows "mset (map bg_name gs) = mset (map ig_name (filter (bids_wanted opts signals) (groups_for_bidding rq)))
    \<and> (\<forall>g \<in> set gs. \<exists>ig \<in> set (groups_for_bidding rq). \<exists>parsed.
         bg_name g = ig_name ig \<and> bg_trusted_bidding_signals_keys g = map fst parsed
         \<and> distinct (map fst parsed)
         \<and> set parsed = {(k, s). k \<in> set (ig_bidding_signals_keys ig) \<and> signals k = Some s}
         \<and> bg_trusted_bidding_signals g = (if parsed = [] then ''null'' else serialize_signals_map parsed))"
proof
  note order = prepared_groups [OF assms(1), of opts rq signals v]
  have "mset (map bg_name gs)
      = mset (map bg_name (List.map_filter (group_for_bidding opts signals) (groups_for_bidding rq)))"
    unfolding mset_map assms(2) order ..
  then show "mset (map bg_name gs) = mset (map ig_name (filter (bids_wanted opts signals) (groups_for_bidding rq)))"
    unfolding names_of_groups .
  have members: "set gs = set (List.map_filter (group_for_bidding opts signals) (groups_for_bidding rq))"
    using mset_eq_setD [OF order] by (simp add: assms(2))
  show "\<forall>g \<in> set gs. \<exists>ig \<in> set (groups_for_bidding rq). \<exists>parsed.
      bg_name g = ig_name ig \<and> bg_trusted_bidding_signals_keys g = map fst parsed
      \<and> distinct (map fst parsed)
      \<and> set parsed = {(k, s). k \<in> set (ig_bidding_signals_keys ig) \<and> signals k = Some s}
      \<and> bg_trusted_bidding_signals g = (if parsed = [] then ''null'' else serialize_signals_map parsed)"
  proof
    fix g
    assume "g \<in> set gs"
    then obtain ig where ig: "ig \<in> set (groups_for_bidding rq)" and g: "group_for_bidding opts signals ig = Some g"
      unfolding members by (auto simp: map_filter_def)
    let ?parsed = "get_signals_for_ig (ig_bidding_signals_keys ig) signals"
    note c = group_for_bidding_cases [OF g]
    have "bg_trusted_bidding_signals g = (if ?parsed = [] then ''null'' else serialize_signals_map ?parsed)"
      using c(5) by (simp split: list.splits)
    then show "\<exists>ig \<in> set (groups_for_bidding rq). \<exists>parsed.
        bg_name g = ig_name ig \<and> bg_trusted_bidding_signals_keys g = map fst parsed
        \<and> distinct (map fst parsed)
        \<and> set parsed = {(k, s). k \<in> set (ig_bidding_signals_keys ig) \<and> signals k = Some s}
        \<and> bg_trusted_bidding_signals g = (if parsed = [] then ''null'' else serialize_signals_map parsed)"
      using ig c(1,4) signals_for_ig by blast
  qed
qed

theorem groups_get_only_their_signals_witness:
  "mset (map bg_name (gg_interest_groups (prepare_generate_bids_request rev
       \<lparr>po_enable_kanon = False, po_require_bidding_signals = True, po_priorities = None\<rparr>
       (buyer_request [''k'', ''l'']) [''k'' \<mapsto> ''1'', ''m'' \<mapsto> ''2''] 3))) = {#''g''#}"
  using groups_get_only_their_signals [OF reversed.task_order_axioms refl, THEN conjunct1,
      of "\<lparr>po_enable_kanon = False, po_require_bidding_signals = True, po_priorities = None\<rparr>"
        "buyer_request [''k'', ''l'']" "[''k'' \<mapsto> ''1'', ''m'' \<mapsto> ''2'']" 3]
  by (simp add: buyer_request_def group_with_keys_def groups_for_bidding_def bids_wanted_def
      filtered_by_priority_def)

section \<open>Generated bids\<close>

text \<open>
  C15: every bid in the bidding service's response, whatever the scripts return, is not zero, allows a
  component auction if it is one, carries the name of a group that was run and the version of the
  signals, debug URLs within the limit on one URL and contributions to private aggregation of known
  event types within the limit for each; and all debug URLs together are within the limit for them.
\<close>

theorem generated_bids_are_admitted:
  "list_all (bid_admitted E (gf_request (new_generate_bids E)) {dp_id r | r. Inr r \<in> set results})
     (gn_bids (gf_response (run_generate_bids E cancelled accepted cancelled' results)))
   \<and> sum_list (map url_chars (gn_bids (gf_response (run_generate_bids E cancelled accepted cancelled' results))))
     \<le> max 0 (1024 * bc_max_allowed_size_all_debug_urls_kb (be_config E))"
proof -
  obtain t where "bids_inv E (gf_request (new_generate_bids E)) {dp_id r | r. Inr r \<in> set results}
      (gn_bids (gf_response (run_generate_bids E cancelled accepted cancelled' results)), t)"
    using run_bids_response by blast
  then show ?thesis by (simp add: bids_inv_def)
qed




end
