(* ===== verification/Spec2Isabelle.thy ===== *)
theory Spec2Isabelle
  imports Concrete_Run Lru_Cache Seller_Properties Exchange_Properties Buyer_Properties
begin

text \<open>
  The Bidding and Auction servers run the ad auctions of the Privacy Sandbox in trusted execution
  environments. A seller front end (\<open>src/services/seller_frontend_service\<close>) receives SelectAd
  requests, asks the buyers' front ends for bids and the auction service
  (\<open>src/services/auction_service\<close>) for scores. A buyer's front end
  (\<open>src/services/buyer_frontend_service\<close>) receives GetBids requests, fetches trusted signals and asks
  its bidding service (\<open>src/services/bidding_service\<close>) to run the buyer's script. This development
  models the auction service, which decides the auction, the seller front end, which runs it, the
  buyer front end, the bidding service's call for Protected Audience bids, and the shared code they
  rest on (\<open>src/services/common\<close>).

  \<^bold>\<open>Theories.\<close>
  \<^item> \<open>Prelude\<close>: statuses and \<open>StatusOr\<close> as a sum, maps that keep the first entry (a locale for
    \<open>try_emplace\<close>, interpreted on maps and association lists), the contracts of \<open>std::sort\<close> and
    \<open>std::sample\<close> as locales.
  \<^item> \<open>Cpp_Number\<close>: finite IEEE floats as rationals with explicit rounding, conversions, \<open>%.2f\<close>.
  \<^item> \<open>Json_Model\<close> (\<open>common/util/json_util.h\<close>): RapidJSON values and the typed member getters.
  \<^item> \<open>Auction_Types\<close>: the messages of \<open>bidding_auction_servers.proto\<close> as records,
    \<open>auction_scope_util\<close>.
  \<^item> \<open>Reporting_Util\<close> (\<open>common/util/reporting_util\<close>): post-auction signals, debug URLs, the limits
    on debug reports, rejection reasons.
  \<^item> \<open>Scoring_Signals\<close>, \<open>Auction_Proto_Utils\<close> (\<open>auction_service/utils/proto_utils\<close>): the trusted
    scoring signals; bid metadata, scoreAd requests and the parser of its responses.
  \<^item> \<open>Scoring_Dispatch\<close>, \<open>Response_Collection\<close>, \<open>Winner_Selection\<close>, \<open>Auction_Outcome\<close>,
    \<open>Debug_Reporting\<close> (\<open>auction_service/score_ads_reactor.cc\<close>): the stages of a ScoreAds call, in
    order. The reactor's tables \<open>ad_data_\<close>, \<open>protected_app_signals_ad_data_\<close> and their companions
    are the record \<open>dispatch_state\<close>; what later stages write is \<open>scoring_state\<close>.
  \<^item> \<open>Noising\<close> (\<open>random_number_generator.cc\<close>, \<open>reporting/noiser_and_bucketer.cc\<close>).
  \<^item> \<open>Private_Aggregation\<close> (\<open>auction_service/private_aggregation\<close>,
    \<open>common/private_aggregation\<close>): the contributions of scoreAd() and generateBid().
  \<^item> \<open>Reporting_Inputs\<close>, \<open>Reporting_Udfs\<close> (\<open>auction_service/reporting\<close>,
    \<open>udf_fetcher/adtech_code_version_util.cc\<close>): the signals, inputs, code versions and responses of
    the reporting scripts, run jointly or apart.
  \<^item> \<open>Score_Ads_Flow\<close> (\<open>score_ads_reactor.cc\<close>, \<open>code_dispatch_reactor.h\<close>,
    \<open>cancellation_wrapper.h\<close>): a whole ScoreAds call. The record \<open>flow\<close> is the reactor;
    \<open>Execute\<close> and the four callbacks are functions on it. \<open>Score_Ads_Runs\<close> is the step relation
    over the answers of the dispatcher, with the invariants of reachable calls;
    \<open>Score_Ads_Progress\<close> shows that a call ends.
  \<^item> \<open>Doubly_Linked_List\<close>, \<open>Lru_Cache\<close> (\<open>common/cache\<close>): the list on a store of nodes and the
    cache of k-anonymity answers built on it, refined from a list in order of recency.
  \<^item> \<open>Batch_Dispatch\<close> (\<open>common/clients/code_dispatcher/v8_dispatcher.cc\<close>): a batch of scripts, whose
    requests are submitted by one thread and answered on others, as a step relation.
  \<^item> \<open>Seller_Types\<close>: the messages of SelectAd and GetBids.
  \<^item> \<open>Priority_Vector\<close> (\<open>common/util/priority_vector\<close>): priorities of interest groups.
  \<^item> \<open>Request_Validation\<close> (\<open>error_accumulator.cc\<close>, \<open>validation_utils.cc\<close>): errors by visibility, the
    checks of configurations, inputs and component results.
  \<^item> \<open>Buyer_Inputs\<close> (\<open>buyer_input_proto_utils.cc\<close>, \<open>select_ad_reactor_app.cc\<close>): the two forms of a
    buyer's input and the GetBids requests made of them.
  \<^item> \<open>Task_Tracker\<close> (\<open>async_task_tracker.cc\<close>), \<open>Moving_Median\<close> and \<open>Chaffing\<close>
    (\<open>common/chaffing\<close>, \<open>chaffing_utils.cc\<close>, \<open>GetChaffingConfig\<close>, \<open>FetchBids\<close>): which buyers are
    sent real and chaff requests, and how long these are. The distributions of the C++ library are
    a record under the laws of the locale \<open>rng_source\<close>.
  \<^item> \<open>Payload_Framing\<close> (\<open>transcoding_utils.h\<close>, \<open>framing_utils.cc\<close>): padded payloads; the locale
    \<open>wire\<close> is what quiche's reader and writer promise.
  \<^item> \<open>Buyer_Bids\<close> (\<open>select_ad_reactor.cc\<close>, \<open>hash_util.cc\<close>): the currency filter, the keys and statuses
    of k-anonymity, the ScoreAds requests. \<open>Buyer_Debug_Reports\<close>: debug reports about the bids.
  \<^item> \<open>Component_Results\<close> (\<open>select_auction_result_reactor.cc\<close>, \<open>proto_mapping_util.cc\<close>,
    \<open>k_anon_utils.cc\<close>): a top-level auction over the results of other servers.
  \<^item> \<open>Seller_Pagg\<close> (\<open>private_aggregation_helper.cc\<close>): the contributions of generateBid(), by outcome.
  \<^item> \<open>Kv_Requests\<close> (\<open>kv_seller_signals_adapter.cc\<close>): the requests for scoring signals.
  \<^item> \<open>Select_Ad_Flow\<close> (\<open>select_ad_reactor.cc\<close> with its overrides for apps and browsers): a whole
    SelectAd call. The record \<open>select_ad\<close> is the reactor; each callback, and each round of the loop
    over the buyers, is a step. \<open>Select_Ad_Runs\<close> has the invariant of the answers that are awaited,
    on the part \<open>control\<close> of the state; \<open>Select_Ad_Progress\<close> a measure and that a call does not get
    stuck.
    \<open>Select_Ad_KAnon\<close> has the invariant of the hashes that are queried and confirmed.
  \<^item> \<open>Generate_Bids\<close> (\<open>bidding_service/generate_bids_reactor.cc\<close>, \<open>utils/validation.cc\<close>,
    \<open>utils/browser_signals_util.cc\<close>, \<open>code_dispatch_reactor.h\<close>): a GenerateBids call from decryption to
    its end, \<open>run_generate_bids\<close>; the inputs of generateBid() and the checks of the bids it returns.
  \<^item> \<open>Bidding_Signals\<close> (\<open>kv_buyer_signals_adapter.cc\<close>, \<open>http_bidding_signals_async_provider.cc\<close>,
    \<open>kv_v2.cc\<close>, \<open>util/bidding_signals.cc\<close>, \<open>util/proto_factory.cc\<close>): the requests for trusted bidding
    signals, their conversion and parsing, and the requests for bids. The threads that add groups to
    such a request are a function under the law of the locale \<open>task_order\<close>.
  \<^item> \<open>Request_Metadata\<close> (\<open>common/util/request_metadata\<close>): the headers that are forwarded.
  \<^item> \<open>Get_Bids_Flow\<close> (\<open>buyer_frontend_service/get_bids_unary_reactor.cc\<close>): a whole GetBids call. The
    record \<open>get_bids\<close> is the reactor, each callback a step. \<open>Get_Bids_Runs\<close> has the invariant of the
    answers awaited and the tasks counted, on the part \<open>bid_control\<close> of the state, and the measure
    \<open>get_bids_work\<close>.
  \<^item> \<open>Seller_Properties\<close>, \<open>Exchange_Properties\<close>, \<open>Buyer_Properties\<close>: what a SelectAd call and its messages
    promise, and what the buyer's servers promise; what the auction service promises is stated below.
  \<^item> \<open>Concrete_Inputs\<close>, \<open>Concrete_Run\<close>, \<open>Seller_Inputs\<close>: the requests, ads and the run of a call on which the
    properties are instantiated.

  \<^bold>\<open>Conventions.\<close> Functions of third-party libraries are fields of a record that the definitions
  using them take as an argument: \<open>libs\<close> (RapidJSON's parser and writer, protobuf's JSON printer,
  \<open>absl::StrReplaceAll\<close>), \<open>curl\<close> (libcurl's URL parser), \<open>unspecified\<close> (results that C++ or
  RapidJSON leave undefined) and \<open>environment\<close> (the dispatcher's acceptance of a batch,
  cancellation, encryption). \<open>std::sort\<close> and \<open>std::sample\<close> are parameters under the laws of the
  locales in \<open>Prelude\<close>. Random draws are a stream and a position in it. The order in which a hash
  map is iterated is that of an association list; no property depends on which order it is. A C++
  object that was moved from is modelled as the code leaves it: strings and messages empty, JSON
  values null. On the seller's side strings hold no NUL character, so that \<open>c_str()\<close> keeps
  them whole; on the buyer's side what it keeps is written out. Logging, metrics,
  time-out tags and debug checks are left out. A dereference that ends the process is the result
  \<open>Aborted\<close>. A loop that need not end is a \<open>partial_function (option)\<close>; where a handler waits for
  one, not returning is the result \<open>Diverged\<close>, and \<open>random_generator_returns_unbiased\<close> and
  \<open>calls_end_with_one_status\<close> show that with a random source that keeps producing zero bits now and
  then it does not happen.

  \<^bold>\<open>Properties.\<close> C1, C7 and C11 are the correctness of the winner, of the ghost winners and of the
  in-place filtering; C2, C3, C4 and C26 a SelectAd call: that it is finished once, that it ends, whom
  it asks for bids and which ads it declares k-anonymous; C5, C6, C16 and C17 a GetBids call: that it
  is finished at most once, when it ends and when it does not, and which bids it asks for; C15 and C18
  a GenerateBids call; C8, C19 and C23 a ScoreAds call and its reporting scripts; C12 to C14 what is
  sent to scoreAd(), C35 and C36 how its responses are read; C37 to C39 the privacy limits of debug
  reports and noise; C9 the cache, refined from a list; C10, C20 and C32 batches, task trackers and
  moving medians; C21, C22 and C33 what becomes of bids on their way to scoring; C24, C25 and C31
  payloads, requests and their conversions; C28 and C30 the results of component auctions; C27, C29,
  C34 and C40 private aggregation. The theorems without a number are further results: among them what
  is told of the winner and the other bids, how fractions of scores and ghost winners' sellers are
  lost, what failures of encryption and of scripts do, the bound of the cache, round trips of buyer
  inputs, and the bounds of the random numbers.

  \<^bold>\<open>Not modelled.\<close> The bidding service's calls for app signals, with binaries and for inference;
  clients, key management, telemetry and code fetching; CBOR encodings (parameters of the model); V8 (what a script returns is an input); infinities and NaN as inputs; the locking and
  the event loop around the cache.
\<close>

section \<open>The winner of an auction\<close>

text \<open>
  C1: \<open>FindWinningAd\<close> elects the right ad. When it elects one, the ad is one of the scored ads of
  the auction, is neither rejected nor barred from a component auction, is k-anonymous, has a
  positive desirability, and no other such ad has a higher one. When it elects none, no scored ad
  was acceptable. \<open>std::sort\<close> and \<open>std::sample\<close> are any functions that keep their contracts.
\<close>

theorem winner_is_the_best_acceptable_ad:
  assumes "std_sort scored_ad_greater srt" and "std_sample smp"
  shows "case find_winning_ad srt smp cf rq parsed initial of (data, ads, scores) \<Rightarrow>
    (case sc_winner_index data of
       None \<Rightarrow> \<forall>sd \<in> set parsed. \<not> acceptable cf rq sd
     | Some i \<Rightarrow> i < length ads
         \<and> (\<exists>sd \<in> set parsed. ads ! i = update_ad cf sd \<and> acceptable cf rq sd
              \<and> (\<forall>sd' \<in> set parsed. acceptable cf rq sd' \<longrightarrow>
                   as_desirability (sd_ad_score sd') \<le> as_desirability (sd_ad_score sd))))"
  using winner_is_best [OF assms] by (auto split: prod.split)

theorem winner_is_the_best_acceptable_ad_witness:
  "case find_winning_ad (stable_sort scored_ad_greater) first_sample
          (sample_config AUCTION_SCOPE_SINGLE_SELLER) sample_request
          [sample_scored_ad ''a'' 1 True, sample_scored_ad ''b'' 3 False, sample_scored_ad ''c'' 2 True]
          [] of (data, ads, scores) \<Rightarrow>
    (case sc_winner_index data of
       None \<Rightarrow> False
     | Some i \<Rightarrow> i < length ads \<and> acceptable (sample_config AUCTION_SCOPE_SINGLE_SELLER) sample_request (ads ! i))"
proof -
  let ?cf = "sample_config AUCTION_SCOPE_SINGLE_SELLER"
  let ?parsed = "[sample_scored_ad ''a'' 1 True, sample_scored_ad ''b'' 3 False, sample_scored_ad ''c'' 2 True]"
  have up: "update_ad ?cf sd = sd" for sd
    by (simp add: update_ad_def check_and_update_modified_bid_def sample_config_def)
  have a: "acceptable ?cf sample_request (sample_scored_ad ''a'' 1 True)"
    unfolding acceptable_def up
    by (simp add: keeps_def rejection_def disallowed_def get_ad_rejection_reason_def
          is_bid_currency_mismatched_def is_incoming_bid_illegally_modified_def sample_request_def
          sample_config_def sample_scored_ad_def is_number_def Let_def)
  show ?thesis
    using winner_is_the_best_acceptable_ad
      [OF score_order.std_sort_axioms first_sample.std_sample_axioms,
       where cf = ?cf and rq = sample_request and parsed = ?parsed and initial = "[]"] a
    by (auto simp: up split: prod.splits option.splits)
qed

text \<open>
  C7: ghost winners. The ghost winners of an auction are pairwise distinct ads of it, no more of
  them than the request allows; each fails the k-anonymity threshold, has a positive desirability
  that is at least the winner's, and has lost its debug URLs.
\<close>

theorem ghost_winners_beat_the_winner:
  assumes "std_sort scored_ad_greater srt" and "std_sample smp"
  shows "case find_winning_ad srt smp cf rq parsed initial of (data, ads, scores) \<Rightarrow>
    distinct (sc_ghost_winner_indices data)
    \<and> length (sc_ghost_winner_indices data) \<le> size_t_of_int (rq_num_allowed_ghost_winners rq)
    \<and> (\<forall>g \<in> set (sc_ghost_winner_indices data). g < length ads \<and> \<not> sd_k_anon_status (ads ! g)
        \<and> 0 < desirability_at ads g
        \<and> as_debug_report_urls (sd_ad_score (ads ! g)) = None
        \<and> (case sc_winner_index data of None \<Rightarrow> True
             | Some i \<Rightarrow> desirability_at ads i \<le> desirability_at ads g))"
  using ghost_winners_outscore_winner [OF assms] by (fastforce split: prod.split option.split)

theorem ghost_winners_beat_the_winner_witness:
  "case find_winning_ad (stable_sort scored_ad_greater) first_sample
          (sample_config AUCTION_SCOPE_SINGLE_SELLER) sample_request
          [sample_scored_ad ''a'' 1 True, sample_scored_ad ''b'' 3 False, sample_scored_ad ''c'' 2 True]
          [] of (data, ads, scores) \<Rightarrow> length (sc_ghost_winner_indices data) \<le> 1"
proof -
  have "size_t_of_int (rq_num_allowed_ghost_winners sample_request) = 1"
    by (simp add: sample_request_def size_t_of_int_def)
  then show ?thesis
    using ghost_winners_beat_the_winner
      [OF score_order.std_sort_axioms first_sample.std_sample_axioms,
       where cf = "sample_config AUCTION_SCOPE_SINGLE_SELLER" and rq = sample_request
         and parsed = "[sample_scored_ad ''a'' 1 True, sample_scored_ad ''b'' 3 False, sample_scored_ad ''c'' 2 True]"
         and initial = "[]"]
    by (auto split: prod.splits)
qed

text \<open>
  C11: no ad is lost or invented by the in-place filtering. The ads left after \<open>FindWinningAd\<close> are
  (debug URLs of ghost candidates apart) exactly the ads that are neither rejected nor barred; the
  reasons reported are exactly those of the rejected ads, and the rejected-bid count is their
  number.
\<close>

theorem filtering_conserves_ads:
  assumes "std_sort scored_ad_greater srt"
  shows "case find_winning_ad srt smp cf rq parsed initial of (data, ads, scores) \<Rightarrow>
    image_mset sd_id (mset ads) = image_mset sd_id (kept_ads cf rq parsed)
    \<and> mset (sc_ad_rejection_reasons data) = rejections_of cf rq (image_mset (update_ad cf) (mset parsed))
    \<and> sc_seller_rejected_bid_count data = int (length (sc_ad_rejection_reasons data))"
proof -
  obtain data ads scores where fw: "find_winning_ad srt smp cf rq parsed initial = (data, ads, scores)"
    by (metis prod_cases3)
  obtain sorted where ms: "mset sorted = kept_ads cf rq parsed" and ord: "scored_ad_ordered sorted"
    and fc: "find_candidates sorted = (ads, sc_winner_cands data, sc_ghost_winner_cands data)"
    and rest: "mset (sc_ad_rejection_reasons data) = rejections_of cf rq (image_mset (update_ad cf) (mset parsed))"
      "sc_seller_rejected_bid_count data = int (length (sc_ad_rejection_reasons data))"
    by (rule find_winning_ad_sorted [OF assms fw])
  have un: "unchanged sorted ads"
    using find_candidates_inv [OF ord] fc by (simp add: cands_inv_def)
  then have "length ads = length sorted" "\<forall>i < length ads. sd_id (ads ! i) = sd_id (sorted ! i)"
    by (auto simp: unchanged_def clear_debug_urls_def)
  then have "map sd_id ads = map sd_id sorted" by (simp add: list_eq_iff_nth_eq)
  then show ?thesis using ms rest fw by (simp flip: mset_map) (metis mset_map)
qed

theorem filtering_conserves_ads_witness:
  "case find_winning_ad (stable_sort scored_ad_greater) first_sample
          (sample_config AUCTION_SCOPE_DEVICE_COMPONENT_MULTI_SELLER) sample_request
          [sample_scored_ad ''a'' 1 True, sample_scored_ad ''b'' 3 False] []
     of (data, ads, scores) \<Rightarrow> ads = [] \<and> sc_ad_rejection_reasons data = []"
proof -
  let ?cf = "sample_config AUCTION_SCOPE_DEVICE_COMPONENT_MULTI_SELLER"
  let ?parsed = "[sample_scored_ad ''a'' 1 True, sample_scored_ad ''b'' 3 False]"
  have "kept_ads ?cf sample_request ?parsed = {#}"
    "rejections_of ?cf sample_request (image_mset (update_ad ?cf) (mset ?parsed)) = {#}"
    by (simp_all add: kept_ads_def rejections_of_def update_ad_def check_and_update_modified_bid_def
          keeps_def rejection_def disallowed_def get_ad_rejection_reason_def
          is_bid_currency_mismatched_def is_incoming_bid_illegally_modified_def sample_request_def
          sample_config_def sample_scored_ad_def is_number_def Let_def)
  then show ?thesis
    using filtering_conserves_ads
      [OF score_order.std_sort_axioms, where smp = first_sample and cf = ?cf
       and rq = sample_request and parsed = ?parsed and initial = "[]"]
    by (auto split: prod.splits)
qed

section \<open>The requests handed to scoreAd()\<close>

text \<open>
  C12: \<open>BuildTrustedScoringSignals\<close>, which moves JSON values out of its inputs, computes what a
  version without moves specifies: one document per ad with signals, with the signals of its own
  render URL and of each of its components, also where two ads share a component or a URL. It
  fails exactly on empty or malformed signals, or on missing render URLs that are required.
\<close>

theorem trusted_scoring_signals_meet_reference:
  "build_trusted_scoring_signals L rq required
     = (if rq_scoring_signals rq = []
        then Inl (invalid_argument ''Empty trusted scoring signals'')
        else case json_parse L (rq_scoring_signals rq) of
          None \<Rightarrow> Inl (invalid_argument ''Malformed trusted scoring signals'')
        | Some v \<Rightarrow>
            if \<not> is_object v then Inl (invalid_argument ''Malformed trusted scoring signals'')
            else if required \<and> find_member v ''renderUrls'' = None
            then Inl (invalid_argument
                        ''Trusted scoring signals are required but include no render urls.'')
            else Inr (format_signals L
                   (signals_reference (signals_member v ''adComponentRenderUrls'')
                      (signals_member v ''renderUrls'') (rq_ad_bids rq) (rq_pas_ad_bids rq))))"
proof (cases "\<exists>v. rq_scoring_signals rq \<noteq> [] \<and> json_parse L (rq_scoring_signals rq) = Some v
      \<and> is_object v \<and> (required \<longrightarrow> find_member v ''renderUrls'' \<noteq> None)")
  case True
  then show ?thesis using build_trusted_scoring_signals_success [of rq L _ required] by auto
next
  case False
  then show ?thesis by (auto simp: build_trusted_scoring_signals_def split: option.split)
qed

text \<open>
  C13: the reactor's tables and its list of requests stay in step in a top-level auction and in the
  other auctions: every request belongs to exactly one stored ad, which is stored in exactly one
  of the two tables under its own render URL, and no id is requested twice in one table.
\<close>

theorem dispatch_tables_in_step:
  "dispatch_inv
     (may_populate_protected_app_signals_dispatch_requests L cf rq debug signals config
       (populate_protected_audience_dispatch_requests L cf rq debug signals config
         empty_dispatch_state))
   \<and> (case populate_top_level_auction_dispatch_requests L cf rq debug config empty_dispatch_state of
        Inl e \<Rightarrow> st_code e = INVALID_ARGUMENT
      | Inr st \<Rightarrow> dispatch_inv st)"
proof (intro conjI)
  show "dispatch_inv (may_populate_protected_app_signals_dispatch_requests L cf rq debug signals config
       (populate_protected_audience_dispatch_requests L cf rq debug signals config empty_dispatch_state))"
    by (intro populate_pas_inv populate_pa_inv) simp
  have err: "populate_top_level_results L cf rq debug config gid ars st = Inl e \<Longrightarrow>
      st_code e = INVALID_ARGUMENT" for gid ars st e
    by (induction ars arbitrary: gid st) (auto simp: invalid_argument_def split: if_splits)
  show "case populate_top_level_auction_dispatch_requests L cf rq debug config empty_dispatch_state of
        Inl e \<Rightarrow> st_code e = INVALID_ARGUMENT | Inr st \<Rightarrow> dispatch_inv st"
    using populate_top_level_inv [OF dispatch_inv_empty] err
    by (auto simp: populate_top_level_auction_dispatch_requests_def split: sum.split)
qed

text \<open>
  C14: when scoring signals are required, no ad is sent to scoreAd() without its own: every request
  carries exactly the signals the table holds for its render URL.
\<close>

theorem required_signals_are_sent:
  assumes "cf_require_scoring_signals_for_scoring cf"
  shows "list_all (request_has_signals m) (ds_requests
      (may_populate_protected_app_signals_dispatch_requests L cf rq debug (Some m) config
        (populate_protected_audience_dispatch_requests L cf rq debug (Some m) config
          empty_dispatch_state)))"
  using populate_all_have_signals [OF assms, of empty_dispatch_state m L rq debug config]
  by (simp add: list_all_iff empty_dispatch_state_def)

theorem required_signals_are_sent_witness:
  "list_all (request_has_signals [''u1'' \<mapsto> ''s1'']) (ds_requests
      (may_populate_protected_app_signals_dispatch_requests sample_libs
        (sample_config AUCTION_SCOPE_SINGLE_SELLER) sample_request True (Some [''u1'' \<mapsto> ''s1'']) []
        (populate_protected_audience_dispatch_requests sample_libs
          (sample_config AUCTION_SCOPE_SINGLE_SELLER) sample_request True (Some [''u1'' \<mapsto> ''s1'']) []
          empty_dispatch_state)))"
  by (rule required_signals_are_sent) (simp add: sample_config_def)

text \<open>
  Which Protected Audience ad of a request is scored under a render URL: the last one in the
  request with this URL that yields a request; an ad that shares it is not scored.
\<close>

theorem scored_protected_audience_ad:
  "ds_ad_data (populate_protected_audience_dispatch_requests L cf rq debug (Some m) config
      empty_dispatch_state) url
     = find (\<lambda>ad. aw_render ad = url
               \<and> pa_dispatch_request L cf rq debug (Some m) config ad \<noteq> None)
         (rev (rq_ad_bids rq))"
  by (simp add: populate_protected_audience_dispatch_requests_def foldr_populate_pa_lookup
        empty_dispatch_state_def)

text \<open>
  A top-level auction is rejected exactly when its component results (chaff and results with no
  seller apart) do not agree on the generation id of the device ciphertext.
\<close>

theorem generation_ids_must_agree:
  "(\<exists>e. populate_top_level_auction_dispatch_requests L cf rq debug config st = Inl e)
     \<longleftrightarrow> \<not> ids_agree (generation_ids (rq_component_auction_results rq))"
  by (simp add: populate_top_level_auction_dispatch_requests_def populate_top_level_results_error)

section \<open>The responses of scoreAd()\<close>

text \<open>
  C35: the parser of scoreAd() responses fails exactly when a component auction's ad object does not
  serialise; otherwise the desirability is the number given, the debug URLs respect the size
  limit, and outside a component auction the seller changes neither bid, currency nor metadata
  and cannot opt into a component auction.
\<close>

theorem score_ad_response_parsing:
  "case score_ad_response_json_to_proto L v (int limit) component of
     Inl e \<Rightarrow> component \<and> \<not> is_number v
       \<and> (\<exists>ms. find_member v ''ad'' = Some (JObj ms) \<and> json_write L (JObj ms) = None)
   | Inr sc \<Rightarrow>
       as_desirability sc
         = (if is_number v then to_f32 (get_double v) else float_if_number v ''desirability'' 0)
       \<and> (case as_debug_report_urls sc of None \<Rightarrow> True
          | Some d \<Rightarrow> length (debug_win_url d) \<le> limit \<and> length (debug_loss_url d) \<le> limit)
       \<and> (if component then True
          else as_bid sc = 0 \<and> as_bid_currency sc = [] \<and> as_ad_metadata sc = []
            \<and> \<not> as_allow_component_auction sc)"
proof (cases "score_ad_response_json_to_proto L v (int limit) component")
  case (Inl e)
  then show ?thesis using iffD1 [OF score_ad_response_error_iff, OF exI, OF Inl] by simp
next
  case (Inr sc)
  have "length (debug_win_url d) \<le> limit \<and> length (debug_loss_url d) \<le> limit"
    if "as_debug_report_urls sc = Some d" for d
    using score_ad_response_debug_urls_bounded [OF Inr that] by simp
  moreover have "as_bid sc = 0 \<and> as_bid_currency sc = [] \<and> as_ad_metadata sc = []
      \<and> \<not> as_allow_component_auction sc" if "\<not> component"
    using score_ad_response_single_seller Inr that by simp
  ultimately show ?thesis
    using Inr score_ad_response_desirability [OF Inr] by (simp split: option.split)
qed

text \<open>
  A rejection reason survives the round trip through the text a seller script uses for it,
  for every reason, the unavailable one included.
\<close>

theorem rejection_reason_round_trip:
  "parse_ad_rejection_reason
     (JObj [(''desirability'', d), (''rejectReason'', JStr (to_seller_rejection_reason_string r))])
     owner name
   = Some (build_ad_rejection_reason owner name r)
   \<and> to_seller_rejection_reason (to_seller_rejection_reason_string r) = r"
  by (simp add: parse_ad_rejection_reason_roundtrip)

text \<open>
  C36: what is collected from the responses. Each scored ad stems from a successful response, in
  order, and carries the bid, currency, owner, group, type and k-anonymity of the ad its id
  resolves to in the tables.
\<close>

theorem collected_ads_match_their_metadata:
  "case collect_valid_roma_responses L cf responses st of (ads, st', docs) \<Rightarrow>
     list_all (scored_ad_ok cf st) ads
     \<and> subseq (map sd_id ads)
         (concat (map (\<lambda>r. case r of Inl e \<Rightarrow> [] | Inr d \<Rightarrow> [dp_id d]) responses))"
proof -
  obtain ads st' docs where run: "collect_valid_roma_responses L cf responses st = (ads, st', docs)"
    by (metis prod_cases3)
  show ?thesis using collect_valid_roma_responses_ok [OF run] by (simp add: run list_all_iff)
qed

section \<open>Debug reports\<close>


text \<open>
  C38: sampled debug reporting adds at most one loss report with a URL, whatever the random draws,
  and pings no server.
\<close>

theorem sampled_reporting_reports_one_loss:
  "sampled_losses (dg_reports (perform_sampled_debug_reporting L cf draw sig winner scores dg))
     \<le> sampled_losses (dg_reports dg) + 1
   \<and> dg_pings (perform_sampled_debug_reporting L cf draw sig winner scores dg) = dg_pings dg"
  by (rule perform_sampled_losses)

text \<open>
  Without sampling the pings are exactly those of the ads with debug URLs, in table order,
  each with the ad's own win or loss URL; the winner of a component auction is not pinged.
\<close>

theorem unsampled_reporting_pings:
  "dg_pings (perform_unsampled_debug_reporting L cf sig winner scores dg)
     = dg_pings dg @ concat (map (pings_for L cf sig) scores)"
  by (rule perform_unsampled_pings)

text \<open>
  Whatever the mode, the scope and the attestation, no debug URL is left in the ad score of the
  response, and the tables of ads and scores are unchanged.
\<close>

theorem debug_reporting_leaves_no_urls:
  "case perform_debug_reporting L cf rq draw attested ss of (ss', pings) \<Rightarrow>
     as_debug_report_urls (response_ad_score (ss_response ss')) = None
     \<and> ss_data ss' = ss_data ss \<and> ss_ad_scores ss' = ss_ad_scores ss
     \<and> ss_signals ss' = ss_signals ss"
  using perform_debug_reporting_clears perform_debug_reporting_frame
  by (fastforce split: prod.split)

text \<open>
  The debug URL of a losing interest group tells nothing about the second highest bid: whatever
  that bid and its maker, the URL is the same.
\<close>

theorem losing_debug_url_hides_other_bid:
  "create_debug_reporting_url L url
     (p\<lparr>drp_highest_scoring_other_bid := bid, drp_made_highest_scoring_other_bid := made\<rparr>) False
   = create_debug_reporting_url L url p False"
  by (simp add: create_debug_reporting_url_def losing_replacements_hide_other_bid)

section \<open>Noise\<close>

text \<open>
  C39: what is disclosed to buyers stays in range. A noised join count, recency or set of modeling
  signals lies in its documented range, whatever the input and the random bits.
\<close>

theorem noised_values_in_range:
  "(case noise_and_bucket_join_count bits join_count n of
      Some (Inr v, _) \<Rightarrow> 1 \<le> v \<and> v \<le> 16 | _ \<Rightarrow> True)
   \<and> (case noise_and_bucket_recency bits recency n of
      Some (Inr v, _) \<Rightarrow> 0 \<le> v \<and> v \<le> 31 | _ \<Rightarrow> True)
   \<and> (case noise_and_mask_modeling_signals bits signals n of
      Some (Inr v, _) \<Rightarrow> 0 \<le> v \<and> v \<le> 0xFFF | _ \<Rightarrow> True)"
  using noised_inputs_in_range by (auto split: option.split sum.split)

text \<open>
  The rejection loop of the random number generator. It returns as soon as some request for
  random bits fails or yields an acceptable word; the acceptable words are a whole number of
  copies of the range, so that the remainder is not biased.
\<close>

theorem random_generator_returns_unbiased:
  assumes "0 < rng"
    and "case bits (n + k) of None \<Rightarrow> True | Some w \<Rightarrow> w \<le> max_acceptable_value rng"
  shows "(case rand_generator bits rng n of
            None \<Rightarrow> False | Some (Inl e, _) \<Rightarrow> True | Some (Inr w, _) \<Rightarrow> w < rng)
    \<and> (unat (max_acceptable_value rng) + 1) mod unat rng = 0"
proof
  obtain r where r: "rand_loop bits (max_acceptable_value rng) n = Some r"
    using rand_loop_returns [where bits = bits and n = n and k = k and m = "max_acceptable_value rng"] assms(2)
    by blast
  then obtain res n' where "rand_generator bits rng n = Some (res, n')"
    using rand_generator_total [OF assms(1) r] by auto
  then show "case rand_generator bits rng n of
            None \<Rightarrow> False | Some (Inl e, _) \<Rightarrow> True | Some (Inr w, _) \<Rightarrow> w < rng"
    using rand_generator_range by (cases res) auto
qed (rule acceptable_multiple [OF assms(1)])

theorem random_generator_returns_unbiased_witness:
  "(case rand_generator (\<lambda>i. if i = 3 then Some 7 else Some (- 1)) 10 0 of
            None \<Rightarrow> False | Some (Inl e, _) \<Rightarrow> True | Some (Inr w, _) \<Rightarrow> w < 10)"
proof -
  have "(7 :: 64 word) \<le> max_acceptable_value 10" by (simp add: max_acceptable_value_def)
  then show ?thesis
    using random_generator_returns_unbiased
      [of 10 "\<lambda>i. if i = 3 then Some 7 else Some (- 1)" 0 3] by simp
qed

text \<open>
  \<open>RandInt\<close> stays in its bounds, both included, and fails exactly on an empty range or where
  the source of bits fails.
\<close>

theorem random_integers_in_bounds:
  assumes "mx - mn < 2 ^ 31"
  shows "case rand_int bits mn mx n of
           None \<Rightarrow> True
         | Some (Inr v, _) \<Rightarrow> mn \<le> v \<and> v \<le> mx
         | Some (Inl e, _) \<Rightarrow> mx < mn \<or> (\<exists>i. bits i = None)"
  using rand_int_range [OF rand_int_empty assms] rand_int_fails [where bits = bits, OF _ assms]
  by (auto split: option.split sum.split prod.split)

theorem random_integers_in_bounds_witness:
  "case rand_int (\<lambda>i. Some 7) 1 3 0 of None \<Rightarrow> True | Some (Inr v, _) \<Rightarrow> 1 \<le> v \<and> v \<le> 3 | _ \<Rightarrow> False"
  using random_integers_in_bounds [of 3 1 "\<lambda>i. Some 7" 0] by (auto split: option.split sum.split)

text \<open>
  Stochastic rounding to k bits. A finite result is a multiple of the last place of the k-bit
  format, less than one such place away from the value; only the last place depends on the
  random bits.
\<close>

theorem stochastic_rounding_error:
  assumes "- 128 \<le> frexp_exp x"
  shows "case round_stochastically bits x k n of
      (Inr (Finite y), _) \<Rightarrow>
        (\<exists>m :: int. y = of_int m * pow2 (frexp_exp x - int k) \<and> \<bar>m\<bar> \<le> 2 ^ k)
        \<and> \<bar>y - x\<bar> < pow2 (frexp_exp x - int k)
    | _ \<Rightarrow> True"
proof -
  obtain r n' where r: "round_stochastically bits x k n = (r, n')" by fastforce
  show ?thesis
  proof (cases "\<exists>y. r = Inr (Finite y)")
    case True
    then obtain y where "r = Inr (Finite y)" ..
    then show ?thesis using round_stochastically_spec [of bits x k n y n'] r assms by auto
  qed (simp add: r split: sum.split double_result.split)
qed

theorem stochastic_rounding_error_witness:
  "case round_stochastically (\<lambda>i. Some 0) 5 2 0 of
      (Inr (Finite y), _) \<Rightarrow> \<bar>y - 5\<bar> < pow2 (frexp_exp 5 - 2) | _ \<Rightarrow> True"
proof -
  have "- 128 \<le> frexp_exp 5" by (simp add: frexp_exp_def exponent_of_def)
  from stochastic_rounding_error [OF this, where bits = "\<lambda>i. Some 0" and k = 2 and n = 0] show ?thesis
    by (auto split: prod.splits sum.splits double_result.splits)
qed

section \<open>What is disclosed about the auction\<close>

text \<open>
  The signals derived from a winner are those of the ad that is put in the response: its owner,
  group, bid and score, whatever the scope of the auction.
\<close>

theorem signals_describe_the_winner:
  "let ss' = add_winner_to_response srt cf rq winner data ads ss; w = sd_ad_score (ads ! winner)
   in pas_winning_ig_owner (ss_signals ss') = as_interest_group_owner w
      \<and> pas_winning_ig_name (ss_signals ss') = as_interest_group_name w
      \<and> pas_winning_bid (ss_signals ss') = as_buyer_bid w
      \<and> pas_winning_score (ss_signals ss') = as_desirability w
      \<and> as_desirability (response_ad_score (ss_response ss')) = as_desirability w"
  using add_winner_signals [OF refl, of srt cf rq winner data ads ss]
  by (simp add: Let_def add_winner_response_desirability)

text \<open>
  \<open>PopulateHighestScoringOtherBidsData\<close> enters one bid for every ad of the top two scores
  except the winner, when the ids of the ads resolve.
\<close>

theorem other_bids_are_complete:
  assumes "\<forall>i \<in> set (other_bid_indices srt m). metadata_of_id st (sd_id (ads ! i)) \<noteq> None"
    and "cf_auction_scope cf \<noteq> AUCTION_SCOPE_SERVER_TOP_LEVEL_SELLER"
    and "as_highest_scoring_other_bids sc = []"
  shows "sum_list (map (\<lambda>(owner, bids). length bids)
           (as_highest_scoring_other_bids
             (populate_highest_scoring_other_bids srt cf rq st scores winner m ads sc)))
    = length (filter (\<lambda>i. i \<noteq> winner) (other_bid_indices srt m))"
  using other_bids_count [OF assms(1)] assms(2,3)
  by (simp add: populate_highest_scoring_other_bids_def)

theorem other_bids_are_complete_witness:
  "sum_list (map (\<lambda>(owner, bids). length bids)
           (as_highest_scoring_other_bids
             (populate_highest_scoring_other_bids (stable_sort int_score_before)
               (sample_config AUCTION_SCOPE_SINGLE_SELLER) sample_request
               (empty_dispatch_state\<lparr>ds_ad_data := [''a'' \<mapsto> sample_ad ''a'' 1, ''b'' \<mapsto> sample_ad ''b'' 2]\<rparr>) []
               0 [(2, [0]), (1, [1])]
               [sample_scored_ad ''a'' 2 True, sample_scored_ad ''b'' 1 True] default_ad_score))) = 1"
proof -
  have idx: "other_bid_indices (stable_sort int_score_before) [(2, [0]), (1, [Suc 0])] = [0, Suc 0]"
    by (simp add: other_bid_indices_def top_scores_def stable_sort_def int_score_before_def trunc_int_def)
  show ?thesis
    by (subst other_bids_are_complete)
       (simp_all add: idx sample_config_def sample_scored_ad_def metadata_of_id_def
          find_scored_ad_type_def default_ad_score_def)
qed

text \<open>
  The rejection reason disclosed in a debug URL is that of the ad itself: the first reason
  recorded for its owner and group, or unavailable.
\<close>

theorem disclosed_rejection_reason:
  "drp_rejection_reason (get_placeholder_data_for_interest_group owner name
       (generate_post_auction_signals (Some w) currency version))
   = (case first_reason (as_ad_rejection_reasons w) owner name of
        Some r \<Rightarrow> r | None \<Rightarrow> SELLER_REJECTION_REASON_NOT_AVAILABLE)"
  by (simp add: get_placeholder_data_for_interest_group_def rejection_reason_of_generated Let_def)

section \<open>Where the code departs from its purpose\<close>

text \<open>
  Two k-anonymous ads that tie for the highest desirability are both candidates only when the
  desirability is a whole number: with a fractional one, which an \<open>int\<close> parameter truncates, the
  second never becomes a candidate and the random choice among the tied ads has no effect.
\<close>

theorem fractional_ties_are_not_drawn:
  assumes "0 < desirability_at [x, y] 0" and "desirability_at [x, y] 1 = desirability_at [x, y] 0"
    and "sd_k_anon_status x" and "sd_k_anon_status y"
  shows "find_candidates [x, y]
    = ([x, y],
       if desirability_at [x, y] 0 = of_int (trunc_int (desirability_at [x, y] 0)) then [0, 1] else [0],
       [])"
proof -
  have "[0..<length [x, y]] = [0, 1]" by (simp add: upt_rec)
  then show ?thesis
    using assms
    by (simp add: find_candidates_def cand_step_def Let_def
          add_if_cands_empty_or_has_eq_last_desirability_def)
qed

theorem fractional_ties_are_not_drawn_witness:
  "find_candidates [sample_scored_ad ''a'' (3 / 2) True, sample_scored_ad ''b'' (3 / 2) True]
    = ([sample_scored_ad ''a'' (3 / 2) True, sample_scored_ad ''b'' (3 / 2) True], [0], [])"
  by (subst fractional_ties_are_not_drawn)
     (simp_all add: desirability_at_def sample_scored_ad_def trunc_int_def)

text \<open>
  The comparator that sorts the scores for the highest scoring other bids compares truncated
  scores, so a sort that meets its contract can leave the highest score, here 1.9, out of the two
  scores that are reported.
\<close>

theorem top_scores_ignore_fractions:
  "top_scores (stable_sort int_score_before) [(6 / 5, [1]), (3 / 2, [2]), (19 / 10, [3])]
     = [6 / 5, 3 / 2]
   \<and> std_sort int_score_before (stable_sort int_score_before)"
  using top_scores_example int_score_order.std_sort_axioms by blast

text \<open>
  Once the winner of a component auction result is kept for the top-level auction, the scoreAd()
  requests of the ghost winners of the same result are built with an empty component seller: its
  name was moved away with the winner.
\<close>

theorem ghost_requests_lose_the_component_seller:
  assumes "ar_ad_render_url ar \<noteq> []" and "cf_enable_enforce_kanon cf"
    and "ar_ad_type ar = AD_TYPE_PROTECTED_AUDIENCE_AD"
  shows "populate_auction_result L cf rq debug config ar empty_dispatch_state
    = fold (build_component_ghost_winner L cf rq debug config []) (ar_k_anon_ghost_winners ar)
        (snd (build_component_winner L cf rq debug config ar empty_dispatch_state))"
  using assms by (intro ghost_winners_after_kept_winner) (simp_all add: empty_dispatch_state_def)

theorem ghost_requests_lose_the_component_seller_witness:
  "populate_auction_result sample_libs (sample_config AUCTION_SCOPE_SERVER_TOP_LEVEL_SELLER)
      sample_request False [] (sample_result ''g'') empty_dispatch_state
    = snd (build_component_winner sample_libs (sample_config AUCTION_SCOPE_SERVER_TOP_LEVEL_SELLER)
        sample_request False [] (sample_result ''g'') empty_dispatch_state)"
  by (subst ghost_requests_lose_the_component_seller) (simp_all add: sample_config_def sample_result_def default_auction_result_def)

section \<open>The cache of k-anonymity answers\<close>

text \<open>
  C9: whatever the sequence of queries, insertions and expiries, the cache never follows a null or
  freed pointer, and it implements a list of entries kept in the order of their last use: a query
  returns exactly the entries that list holds for the keys.
\<close>

theorem cache_implements_recency_list:
  "case run_ops ops (new_cache capacity) of
     None \<Rightarrow> False
   | Some c \<Rightarrow>
       refines c (spec_ops capacity ops)
       \<and> (case query ks c of
            None \<Rightarrow> False
          | Some (c', found) \<Rightarrow>
              found = (\<lambda>k. if k \<in> set ks then map_of (spec_ops capacity ops) k else None)
              \<and> refines c' (fold touch ks (spec_ops capacity ops)))"
proof -
  obtain c where c: "run_ops ops (new_cache capacity) = Some c" "refines c (spec_ops capacity ops)"
    using run_ops_refines [OF refines_new, of ops capacity] by (auto simp: spec_ops_def new_cache_def)
  from query_refines [OF c(2), of ks] show ?thesis by (auto simp: c)
qed

text \<open>
  A cache of positive capacity never holds more entries than that, as long as no batch brings
  the counts out of the range of an \<open>int\<close>.
\<close>

theorem cache_respects_capacity:
  assumes "0 < capacity" and "list_all (small_op capacity) ops"
  shows "case run_ops ops (new_cache capacity) of
           None \<Rightarrow> False | Some c \<Rightarrow> ch_num_entries c \<le> capacity"
proof -
  define c0 :: "('a, 'b) cache" where "c0 = new_cache capacity"
  have c0: "refines c0 []" "ch_capacity c0 = capacity" by (simp_all add: c0_def) (simp add: new_cache_def)
  obtain c where c: "run_ops ops c0 = Some c" using run_ops_refines [OF c0(1)] by blast
  then have "ch_num_entries c \<le> capacity"
    using run_ops_bounded [OF c0(1) _ _ _ c] assms by (simp add: c0(2))
  then show ?thesis using c by (simp add: c0_def)
qed

theorem cache_respects_capacity_witness:
  "case run_ops [Insert_op [(1 :: nat, ''a''), (2, ''b'')], Query_op [1], Insert_op [(3, ''c''), (4, ''d'')]]
          (new_cache 3) of
     None \<Rightarrow> False | Some c \<Rightarrow> ch_num_entries c \<le> 3"
  by (rule cache_respects_capacity) (simp_all add: small_op_def)

text \<open>
  A batch that fits into the free space is stored whole and evicts nothing; a key that was
  already present keeps the value it had.
\<close>

theorem fitting_batch_is_stored:
  assumes "int (length (spec_ops capacity ops)) + int (length es) \<le> capacity" and "capacity < 2 ^ 31"
  shows "case run_ops (ops @ [Insert_op es]) (new_cache capacity) of
           None \<Rightarrow> False
         | Some c \<Rightarrow>
             (case query [k] c of
                None \<Rightarrow> False
              | Some (_, found) \<Rightarrow>
                  found k = (case map_of (spec_ops capacity ops) k of
                               Some v \<Rightarrow> Some v | None \<Rightarrow> map_of es k))"
proof -
  let ?s = "spec_ops capacity ops"
  obtain c0 where c0: "refines c0 ?s"
    using run_ops_refines [OF refines_new, of ops capacity] by (auto simp: spec_ops_def new_cache_def)
  then have d: "distinct (map fst ?s)" by (simp add: refines_def)
  obtain c where c: "run_ops (ops @ [Insert_op es]) (new_cache capacity) = Some c"
    "refines c (insert_reference capacity es ?s)"
    using run_ops_refines [OF refines_new, of "ops @ [Insert_op es]" capacity]
    by (auto simp: spec_ops_def new_cache_def)
  have "overflow_count (int (length ?s)) (length es) capacity = int (length ?s) + int (length es) - capacity"
    using assms by (intro overflow_count_small) auto
  then have "insert_reference capacity es ?s = insert_spec capacity es ?s"
    using assms(1) by (simp add: insert_reference_def evict_spec_def)
  then have "map_of (insert_reference capacity es ?s) k
      = (case map_of ?s k of Some v \<Rightarrow> Some v | None \<Rightarrow> map_of es k)"
    using insert_spec_lookup [OF assms(1) d] by simp
  with query_refines [OF c(2), of "[k]"] show ?thesis by (auto simp: c(1))
qed

theorem fitting_batch_is_stored_witness:
  "case run_ops ([Insert_op [(5 :: nat, ''a'')]] @ [Insert_op [(5, ''b''), (2, ''c'')]]) (new_cache 3) of
     None \<Rightarrow> False
   | Some c \<Rightarrow> (case query [5] c of None \<Rightarrow> False | Some (_, found) \<Rightarrow> found 5 = Some ''a'')"
proof -
  have s: "spec_ops 3 [Insert_op [(5 :: nat, ''a'')]] = [(5, ''a'')]"
    by (simp add: spec_ops_def insert_reference_def evict_spec_def)
  show ?thesis
    using fitting_batch_is_stored [of 3 "[Insert_op [(5 :: nat, ''a'')]]" "[(5, ''b''), (2, ''c'')]" 5]
    by (auto simp: s simp del: run_ops.simps append.simps split: option.splits prod.splits)
qed

section \<open>Private aggregation\<close>

text \<open>
  The bucket of a private aggregation contribution that depends on the auction. On numbers that
  fit, the two 64-bit words returned are the exact 128-bit value of base times scale plus offset, or
  minus offset when it is negative; the error is returned exactly when that would be below zero.
\<close>

theorem pagg_bucket_is_exact:
  assumes "base_number bv (sb_base_value sb) = Inr base"
    and "bo_value (sb_offset sb) = [lo, hi]"
    and "0 \<le> trunc_int (f64_mul base (sb_scale sb))"
    and "trunc_int (f64_mul base (sb_scale sb)) < 2 ^ 64"
  shows "let x = trunc_int (f64_mul base (sb_scale sb)); offset = uint hi * 2 ^ 64 + uint lo;
             negative = bo_is_negative (sb_offset sb)
    in case get_bucket_post_auction U bv (Signal_bucket sb) of
         Inl e \<Rightarrow> negative \<and> x < offset
       | Inr ws \<Rightarrow>
           (\<exists>lo' hi'. ws = [lo', hi']
              \<and> uint hi' * 2 ^ 64 + uint lo' = (if negative then x - offset else (x + offset) mod 2 ^ 128))
           \<and> (if negative then offset \<le> x else True)"
  using signal_bucket_value [OF assms(1,2) refl assms(3,4) refl, of U]
  by (auto simp: Let_def split: sum.splits)

theorem pagg_bucket_is_exact_witness:
  "case get_bucket_post_auction sample_unspecified
        \<lparr>bv_winning_bid = 5, bv_highest_scoring_other_bid = 0, bv_reject_reason = None\<rparr>
        (Signal_bucket \<lparr>sb_base_value = BASE_VALUE_WINNING_BID, sb_scale = 2,
           sb_offset = \<lparr>bo_value = [3, 1], bo_is_negative = False\<rparr>\<rparr>) of
     Inl e \<Rightarrow> False
   | Inr ws \<Rightarrow> \<exists>lo hi. ws = [lo, hi] \<and> uint hi * 2 ^ 64 + uint lo = 2 ^ 64 + 13"
proof -
  have ten: "f64_mul 5 2 = 10"
    by (simp add: f64_mul_def to_f64_def f64_ulp_def exponent_of_def log2_floor.simps pow2_def
          round_half_even_def)
  then have "trunc_int (f64_mul 5 2) = 10" by (simp add: trunc_int_def)
  then show ?thesis
    using pagg_bucket_is_exact
      [of "\<lparr>bv_winning_bid = 5, bv_highest_scoring_other_bid = 0, bv_reject_reason = None\<rparr>"
         "\<lparr>sb_base_value = BASE_VALUE_WINNING_BID, sb_scale = 2,
           sb_offset = \<lparr>bo_value = [3, 1], bo_is_negative = False\<rparr>\<rparr>" 5 3 1 sample_unspecified]
    by (auto simp: base_number_def split: sum.splits)
qed


text \<open>
  An ad that lost contributes only its loss and its unconditional contributions: none of its
  custom events is reported, whatever its document holds.
\<close>

theorem losing_ads_report_no_custom_events:
  "\<exists>r. as_top_level_contributions
         (handle_private_aggregation_reporting U (c # winner_id) winner_id bv seller doc sc)
       = as_top_level_contributions sc @ [r]
     \<and> list_all (\<lambda>c. processed c \<and> pc_event c = None) (pr_contributions r)"
proof -
  obtain r where r: "as_top_level_contributions
      (handle_private_aggregation_reporting U (c # winner_id) winner_id bv seller doc sc)
        = as_top_level_contributions sc @ [r]" "clean_response (winner_id = c # winner_id) r"
    using handle_reporting_clean by blast
  moreover have "winner_id \<noteq> c # winner_id" by simp
  ultimately show ?thesis by (auto simp: clean_response_def)
qed

text \<open>
  The value of a private aggregation contribution that depends on the auction is computed from
  the truncated base: the fraction of the winning bid never matters, whatever the scale.
\<close>

theorem pagg_value_drops_the_fraction:
  assumes "in_int_range (trunc_int bid)"
  shows "get_value_post_auction U (bv\<lparr>bv_winning_bid := bid\<rparr>) v
    = get_value_post_auction U (bv\<lparr>bv_winning_bid := of_int (trunc_int bid)\<rparr>) v"
  using assms
  by (auto simp: get_value_post_auction_def base_number_def to_int_def
        split: pagg_value.split base_value.split option.split)

theorem pagg_value_drops_the_fraction_witness:
  "get_value_post_auction sample_unspecified
     \<lparr>bv_winning_bid = 19 / 10, bv_highest_scoring_other_bid = 0, bv_reject_reason = None\<rparr>
     (Extended_value \<lparr>sv_base_value = BASE_VALUE_WINNING_BID, sv_scale = 10, sv_offset = 0\<rparr>)
   = get_value_post_auction sample_unspecified
     \<lparr>bv_winning_bid = 1, bv_highest_scoring_other_bid = 0, bv_reject_reason = None\<rparr>
     (Extended_value \<lparr>sv_base_value = BASE_VALUE_WINNING_BID, sv_scale = 10, sv_offset = 0\<rparr>)"
  using pagg_value_drops_the_fraction [of "19 / 10" sample_unspecified
      "\<lparr>bv_winning_bid = 0, bv_highest_scoring_other_bid = 0, bv_reject_reason = None\<rparr>"]
  by (simp add: in_int_range_def trunc_int_def)

section \<open>The life of a call\<close>

text \<open>
  A ScoreAds call ends, with one status. When the scripts succeed, the random source is not
  stuck on unacceptable words, the encryption works and the buyers' signals are there (or the code of
  seller and buyer is isolated), then three callbacks at most, whatever the scripts return, bring the
  call to a state that waits for nothing and has called \<open>Finish\<close> exactly once; no handler aborts or
  hangs.
\<close>

theorem calls_end_with_one_status:
  assumes "std_sort scored_ad_greater (ev_sort_ads E)" and "std_sample (ev_sample E)"
    and "fair_bits (ev_bits E)" and "encryption_works E" and "signals_present cf rq"
    and "list_all (list_all script_ok) batches" and "3 \<le> length batches"
  shows "\<exists>fl. drive E cf batches (execute E cf (initial_flow rq)) = Running fl
    \<and> fl_awaits fl = None \<and> length (fl_finished fl) = 1"
proof -
  let ?fl = "execute E cf (initial_flow rq)"
  have start: "settles [] (Suc 3) ?fl"
    using execute_settles [of "initial_flow rq" "[]" E cf] by (simp add: initial_flow_def)
  have "signals_present cf (fl_request ?fl)"
    using assms(5) execute_request [of E cf "initial_flow rq"]
    by (simp add: signals_present_def initial_flow_def)
  then have "returns (drive E cf batches ?fl)"
    using drive_returns [OF assms(1-4) start _ assms(6)] by simp
  then obtain fl where fl: "drive E cf batches ?fl = Running fl"
    by (cases "drive E cf batches ?fl") auto
  then show ?thesis using drive_ends [OF assms(4) start assms(7), of cf] by simp
qed

theorem calls_end_with_one_status_witness:
  "\<exists>fl. drive sample_environment flow_config (answers [''SCORE'', ''RESULT'', ''WIN''])
          (execute sample_environment flow_config (initial_flow flow_request)) = Running fl
    \<and> fl_awaits fl = None \<and> length (fl_finished fl) = 1"
proof (rule calls_end_with_one_status)
  show "std_sort scored_ad_greater (ev_sort_ads sample_environment)"
    unfolding run_environment by (rule score_order.std_sort_axioms)
  show "std_sample (ev_sample sample_environment)"
    unfolding run_environment by (rule first_sample.std_sample_axioms)
qed (simp_all add: fair_bits_def encryption_works_def sample_environment_def signals_present_def
    run_config answers_def script_ok_def)





text \<open>
  When the encryption of the response fails, the call is finished twice: \<open>EncryptResponse\<close>
  finishes it with INTERNAL and \<open>EncryptAndFinishOK\<close>, which ignores what it returns, with OK.
\<close>

theorem failed_encryption_finishes_twice:
  assumes "\<And>rs. ev_encrypt E rs = Inl e"
  shows "map st_code (fl_finished (encrypt_and_finish_ok E fl))
    = map st_code (fl_finished fl) @ [INTERNAL, OK]"
  by (simp add: encrypt_and_finish_ok_def encrypt_response_def assms finish_with_status_def
      update_response_def)

theorem failed_encryption_finishes_twice_witness:
  "map st_code (fl_finished (encrypt_and_finish_ok
      (sample_environment\<lparr>ev_encrypt := (\<lambda>_. Inl (internal_error ''cipher''))\<rparr>) (initial_flow flow_request)))
    = [INTERNAL, OK]"
  using failed_encryption_finishes_twice
    [of "sample_environment\<lparr>ev_encrypt := (\<lambda>_. Inl (internal_error ''cipher''))\<rparr>" "internal_error ''cipher''"
      "initial_flow flow_request"]
  by (simp add: initial_flow_def)

text \<open>
  A failed script can abort the server. The winner's index counts the ads that were scored, in
  order of their scores, and is used on the responses, of which there may be more, in another order:
  when the response there is an error, reading its id aborts.
\<close>

theorem failed_script_aborts_auction:
  assumes "collect_valid_roma_responses (ev_libs E) cf responses (ss_data (fl_scoring fl))
      = (parsed, st, docs)"
    and "find_winning_ad (ev_sort_ads E) (ev_sample E) cf (fl_request fl) parsed
        (ss_ad_scores (fl_scoring fl)) = (data, ads, ad_scores)"
    and "sc_winner_index data = Some i" and "\<not> script_ok (responses ! i)"
  shows "score_ads_callback E cf debug responses fl = Aborted"
proof -
  obtain e where "responses ! i = Inl e" using assms(4) by (auto simp: script_ok_def split: sum.splits)
  then show ?thesis by (simp add: score_ads_callback_def assms(1-3) Let_def)
qed

theorem failed_script_aborts_auction_witness:
  "score_ads_callback sample_environment flow_config False
     [Inl (internal_error ''timeout''), Inr \<lparr>dp_id = ''u1'', dp_resp = ''SCORE''\<rparr>]
     (execute sample_environment flow_config (initial_flow flow_request)) = Aborted"
proof -
  obtain q where q: "execute sample_environment flow_config (initial_flow flow_request) = scored_flow q"
    by (rule run_execute)
  show ?thesis unfolding q
  proof (rule failed_script_aborts_auction)
    show "collect_valid_roma_responses (ev_libs sample_environment) flow_config
        [Inl (internal_error ''timeout''), Inr \<lparr>dp_id = ''u1'', dp_resp = ''SCORE''\<rparr>]
        (ss_data (fl_scoring (scored_flow q))) = ([run_scored], run_tables q, [])"
      using run_collect [of q]
      by (simp add: run_environment scored_flow_def collect_valid_roma_responses_def collect_response_def)
    show "find_winning_ad (ev_sort_ads sample_environment) (ev_sample sample_environment) flow_config
        (fl_request (scored_flow q)) [run_scored] (ss_ad_scores (fl_scoring (scored_flow q)))
        = (run_data, [run_scored], [(''u1'', sd_ad_score run_scored)])"
      using run_winner
      by (simp add: run_environment scored_flow_def initial_flow_def initial_scoring_state_def)
    show "sc_winner_index run_data = Some 0" by (simp add: run_data_def)
    show "\<not> script_ok ([Inl (internal_error ''timeout''),
        Inr \<lparr>dp_id = ''u1'', dp_resp = ''SCORE''\<rparr>] ! 0)"
      by (simp add: script_ok_def)
  qed
qed



end
